(* ===== verification/Prelude.thy ===== *)
theory Prelude
  imports Main "HOL-Library.Char_ord" "HOL-Library.List_Lexorder" "HOL-Library.Option_ord"
begin

text \<open>
  What every component of the development shares: SQL's three-valued logic as the store's
  statements use it, guarded updates of a table (a list of rows in rowid order), the two
  argument conventions of the store's writers (the empty string and a non-positive integer are
  stored as NULL), the result types of fallible store calls, and the lemma collections
  \<open>table_simps\<close> (guarded updates), \<open>set_frags\<close> (the SET fragments of the statements) and
  \<open>row_frames\<close> (which columns a write leaves alone).
\<close>

named_theorems table_simps
named_theorems set_frags
named_theorems row_frames
named_theorems gate_defs

section \<open>SQL values and three-valued logic\<close>

text \<open>
  A nullable column is an option, \<open>None\<close> is NULL. A condition is a \<open>bool option\<close>, \<open>None\<close>
  is unknown; a WHERE keeps a row only when its condition is true.
\<close>

type_synonym tri = "bool option"

definition sql_eq :: "'a option \<Rightarrow> 'a option \<Rightarrow> tri" where
  "sql_eq a b = (case (a, b) of (Some x, Some y) \<Rightarrow> Some (x = y) | _ \<Rightarrow> None)"

definition sql_is_null :: "'a option \<Rightarrow> tri" where
  "sql_is_null a = Some (a = None)"

fun sql_not :: "tri \<Rightarrow> tri" where
  "sql_not None = None"
| "sql_not (Some b) = Some (\<not> b)"

fun sql_and :: "tri \<Rightarrow> tri \<Rightarrow> tri" where
  "sql_and (Some False) _ = Some False"
| "sql_and _ (Some False) = Some False"
| "sql_and (Some True) (Some True) = Some True"
| "sql_and _ _ = None"

fun sql_or :: "tri \<Rightarrow> tri \<Rightarrow> tri" where
  "sql_or (Some True) _ = Some True"
| "sql_or _ (Some True) = Some True"
| "sql_or (Some False) (Some False) = Some False"
| "sql_or _ _ = None"

definition where_true :: "tri \<Rightarrow> bool" where
  "where_true t \<longleftrightarrow> t = Some True"

lemma where_true_Some [simp]: "where_true (Some b) \<longleftrightarrow> b"
  by (simp add: where_true_def)

lemma where_true_None [simp]: "\<not> where_true None"
  by (simp add: where_true_def)

lemma where_true_and [simp]: "where_true (sql_and a b) \<longleftrightarrow> where_true a \<and> where_true b"
  by (cases "(a, b)" rule: sql_and.cases) (auto simp: where_true_def)

lemma where_true_or [simp]: "where_true (sql_or a b) \<longleftrightarrow> where_true a \<or> where_true b"
  by (cases "(a, b)" rule: sql_or.cases) (auto simp: where_true_def)

lemma where_true_eq [simp]: "where_true (sql_eq a b) \<longleftrightarrow> (\<exists>x. a = Some x \<and> b = Some x)"
  by (auto simp: sql_eq_def where_true_def split: option.splits)

lemma where_true_is_null [simp]: "where_true (sql_is_null a) \<longleftrightarrow> a = None"
  by (simp add: sql_is_null_def)

definition coalesce :: "'a option \<Rightarrow> 'a \<Rightarrow> 'a" where
  "coalesce v d = (case v of None \<Rightarrow> d | Some x \<Rightarrow> x)"

lemma coalesce_simps [simp]: "coalesce None d = d" "coalesce (Some x) d = x"
  by (simp_all add: coalesce_def)

definition nullif_empty :: "string \<Rightarrow> string option" where
  "nullif_empty s = (if s = [] then None else Some s)"

lemma nullif_empty_simps [simp]:
  "nullif_empty [] = None" "s \<noteq> [] \<Longrightarrow> nullif_empty s = Some s"
  by (simp_all add: nullif_empty_def)

lemma coalesce_nullif_neq_Nil [simp]: "d \<noteq> [] \<Longrightarrow> coalesce (nullif_empty s) d \<noteq> []"
  by (cases "s = []") simp_all

section \<open>Bound arguments\<close>

definition nullableStringArg :: "string \<Rightarrow> string option" where
  "nullableStringArg s = (if s = [] then None else Some s)"

definition positiveIntArg :: "int \<Rightarrow> int option" where
  "positiveIntArg n = (if n > 0 then Some n else None)"

definition positiveInt64Arg :: "int \<Rightarrow> int option" where
  "positiveInt64Arg n = (if n > 0 then Some n else None)"

lemma nullableStringArg_coalesce [simp]: "coalesce (nullableStringArg s) [] = s"
  by (simp add: nullableStringArg_def)

lemma positiveIntArg_Some [simp]: "positiveIntArg n = Some m \<longleftrightarrow> m = n \<and> n > 0"
  by (auto simp: positiveIntArg_def)

section \<open>Tables and guarded updates\<close>

definition update_where :: "('r \<Rightarrow> bool) \<Rightarrow> ('r \<Rightarrow> 'r) \<Rightarrow> 'r list \<Rightarrow> 'r list" where
  "update_where P f rs = map (\<lambda>r. if P r then f r else r) rs"

definition any_row :: "('r \<Rightarrow> bool) \<Rightarrow> 'r list \<Rightarrow> bool" where
  "any_row P rs = list_ex P rs"

lemma any_row_iff [simp]: "any_row P rs \<longleftrightarrow> (\<exists>r \<in> set rs. P r)"
  by (simp add: any_row_def list_ex_iff)

lemma set_update_where [table_simps]:
  "set (update_where P f rs) = (\<lambda>r. if P r then f r else r) ` set rs"
  by (simp add: update_where_def)

lemma update_where_none [table_simps]:
  "\<not> any_row P rs \<Longrightarrow> update_where P f rs = rs"
  by (simp add: update_where_def map_idI)

lemma update_where_hit: "x \<in> set rs \<Longrightarrow> P x \<Longrightarrow> f x \<in> set (update_where P f rs)"
  by (force simp: update_where_def)

lemma update_where_False [simp]: "update_where (\<lambda>_. False) f rs = rs"
  by (simp add: update_where_def)

lemma length_update_where [table_simps, simp]: "length (update_where P f rs) = length rs"
  by (simp add: update_where_def)

lemma map_update_where_key [table_simps]:
  "(\<And>r. P r \<Longrightarrow> k (f r) = k r) \<Longrightarrow> map k (update_where P f rs) = map k rs"
  by (auto simp: update_where_def)

lemma find_update_where [table_simps]:
  assumes "\<And>r. P r \<Longrightarrow> k (f r) = k r"
  shows "find (\<lambda>r. k r = i) (update_where P f rs)
       = map_option (\<lambda>r. if P r then f r else r) (find (\<lambda>r. k r = i) rs)"
  using assms by (induction rs) (auto simp: update_where_def)

lemma find_key_Some: "find (\<lambda>r. k r = i) rs = Some r \<Longrightarrow> r \<in> set rs \<and> k r = i"
  by (induction rs) (auto split: if_splits)

lemma find_member: "find P rs = Some r \<Longrightarrow> r \<in> set rs \<and> P r"
  by (induction rs) (auto split: if_splits)

lemma find_append: "find P (xs @ ys) = (case find P xs of None \<Rightarrow> find P ys | Some x \<Rightarrow> Some x)"
  by (induction xs) auto

lemma find_key_unique:
  "distinct (map k rs) \<Longrightarrow> r \<in> set rs \<Longrightarrow> k r = i \<Longrightarrow> find (\<lambda>r. k r = i) rs = Some r"
  by (induction rs) (auto simp: rev_image_eqI)

lemma find_key_None: "find (\<lambda>r. k r = i) rs = None \<longleftrightarrow> i \<notin> k ` set rs"
  by (auto simp: find_None_iff)

section \<open>Generic facts on results\<close>

lemma sum_bind_InrE:
  "(case x of Inl e \<Rightarrow> Inl e | Inr a \<Rightarrow> f a) = Inr b \<Longrightarrow> (\<And>a. x = Inr a \<Longrightarrow> f a = Inr b \<Longrightarrow> Q) \<Longrightarrow> Q"
  by (cases x) auto

end
