(* ===== verification/Store_Rows.thy ===== *)
theory Store_Rows
  imports Prelude
begin

text \<open>
  The SQLite store's data (internal/store): the value sets of its columns, its tables as lists of
  records with one field per column, the reading rules of hand-editable columns
  (rowsnapshot.go), the row snapshot and launch identity, and the store handle.

  A nullable column is an option. TIMESTAMP columns hold the text SQLite stores, integer
  millisecond columns an \<open>int\<close>. JSON columns the store only encodes and decodes whole
  (\<open>agent_args\<close>, \<open>labels\<close>, \<open>extra_env\<close>) hold the decoded value; \<open>display_observation\<close> and
  \<open>display_exit\<close> hold either the fields of a text the strict JSON decoder accepts or a text it
  refuses.
\<close>

section \<open>Value sets\<close>

abbreviation "AgentClaude \<equiv> ''claude''"
abbreviation "AgentCodex \<equiv> ''codex''"
abbreviation "AgentCursor \<equiv> ''cursor''"

abbreviation "StatePending \<equiv> ''pending''"
abbreviation "StateWaiting \<equiv> ''waiting''"
abbreviation "StateWorking \<equiv> ''working''"
abbreviation "StateAskUser \<equiv> ''ask_user''"
abbreviation "StateCheckPermission \<equiv> ''check_permission''"
abbreviation "StateNeedsIntelligence \<equiv> ''needs_intelligence''"
abbreviation "StateIdleScreen \<equiv> ''idle_screen''"
abbreviation "StateEnded \<equiv> ''ended''"
abbreviation "StateMissing \<equiv> ''missing''"

abbreviation "PaneAnswerNone \<equiv> ''none''"
abbreviation "PaneAnswerIntent \<equiv> ''intent''"
abbreviation "PaneAnswerSent \<equiv> ''sent''"
abbreviation "PaneAnswerOutside \<equiv> ''outside''"
abbreviation "PaneAnswerToolRan \<equiv> ''tool_ran''"

abbreviation "ProvenGoneToolRan \<equiv> ''tool_ran''"
abbreviation "ProvenGoneTurnEnd \<equiv> ''turn_end''"
abbreviation "ProvenGoneAgentGone \<equiv> ''agent_gone''"

abbreviation "DecisionReasonOperator \<equiv> ''operator''"
abbreviation "DecisionReasonTimeout \<equiv> ''timeout''"
abbreviation "DecisionReasonFindMissing \<equiv> ''find_missing''"
abbreviation "DecisionReasonEnded \<equiv> ''ended''"
abbreviation "DecisionReasonPane \<equiv> ''pane''"
abbreviation "DecisionReasonPaneOutside \<equiv> ''pane_outside''"
abbreviation "DecisionReasonToolRan \<equiv> ''tool_ran''"

abbreviation "SubagentStateRunning \<equiv> ''running''"
abbreviation "SubagentStateStopped \<equiv> ''stopped''"
abbreviation "SubagentStateLost \<equiv> ''lost''"
abbreviation "SubagentCloseAgentGone \<equiv> ''agent_gone''"
abbreviation "SubagentCloseStopEvent \<equiv> ''stop_event''"
abbreviation "SubagentCloseAbsentFromSnapshot \<equiv> ''absent_from_snapshot''"
abbreviation "SubagentParentAgent \<equiv> ''agent''"
abbreviation "SubagentParentSubagent \<equiv> ''subagent''"
abbreviation "SubagentRunModeBackground \<equiv> ''background''"
abbreviation "SubagentRunModeForeground \<equiv> ''foreground''"
abbreviation "SubagentSourceStart \<equiv> ''start''"
abbreviation "SubagentSourceDetails \<equiv> ''details''"
abbreviation "SubagentSourceSnapshot \<equiv> ''snapshot''"
abbreviation "SubagentSourceStop \<equiv> ''stop''"

definition liveStates :: "string list" where
  "liveStates = [StatePending, StateWaiting, StateWorking, StateAskUser, StateCheckPermission]"

definition IsLiveState :: "string \<Rightarrow> bool" where
  "IsLiveState st = list_ex (\<lambda>x. x = st) liveStates"

definition isTerminalState :: "string \<Rightarrow> bool" where
  "isTerminalState v \<longleftrightarrow> v = StateEnded \<or> v = StateMissing"

definition isDisplayedState :: "string \<Rightarrow> bool" where
  "isDisplayedState v \<longleftrightarrow> v = StateNeedsIntelligence \<or> v = StateIdleScreen"

definition validDisplayState :: "string \<Rightarrow> bool" where
  "validDisplayState v \<longleftrightarrow> IsLiveState v \<or> isTerminalState v \<or> isDisplayedState v"

lemma IsLiveState_iff:
  "IsLiveState st \<longleftrightarrow> st = StatePending \<or> st = StateWaiting \<or> st = StateWorking \<or> st = StateAskUser
     \<or> st = StateCheckPermission"
  by (auto simp: IsLiveState_def liveStates_def)

lemmas state_kinds = IsLiveState_iff isTerminalState_def isDisplayedState_def validDisplayState_def

section \<open>Tables\<close>

record DisplayDetail =
  dd_state :: string
  dd_since_ms :: int
  dd_request_token :: string
  dd_tool_name :: string
  dd_unchanged_minutes :: int

record displayObservation =
  ob_detail :: DisplayDetail
  ob_candidate :: string
  ob_candidate_since_ms :: int
  ob_observed_at_ms :: int
  ob_permission_epoch :: int

record displayTransition =
  dt_prior :: string
  dt_next :: string
  dt_at_ms :: int

datatype 'a json_text = Json 'a | NotJson string

record spawn_row =
  s_instance_id :: string
  s_parent_id :: "string option"
  s_state :: string
  s_cwd :: string
  s_tmux_session_name :: string
  s_agent_args :: "string list"
  s_relay_mode :: string
  s_jsonl_path :: "string option"
  s_session_id :: "string option"
  s_labels :: "(string \<times> string) list"
  s_started_at :: string
  s_last_seen_at :: string
  s_ended_at :: "string option"
  s_pid :: "int option"
  s_proc_starttime :: "string option"
  s_liveness_unverified_since :: "string option"
  s_liveness_note :: "string option"
  s_extra_env :: "(string \<times> string) list"
  s_row_version :: int
  s_launch_started_at :: "int option"
  s_life_number :: int
  s_no_pre_trust :: int
  s_launch_token :: "string option"
  s_tmux_socket :: "string option"
  s_tmux_server_pid :: "int option"
  s_tmux_server_started :: "int option"
  s_tmux_server_starttime :: "string option"
  s_pane_id :: "string option"
  s_pane_pid :: "int option"
  s_pane_starttime :: "string option"
  s_launch_owner_pid :: "int option"
  s_launch_owner_starttime :: "string option"
  s_launch_owner_pidns :: "string option"
  s_idle_since :: "string option"
  s_settled_state :: string
  s_state_changed_ms :: int
  s_agent :: string
  s_end_reported_at :: "int option"
  s_subagent_tracking :: int
  s_family_state :: string
  s_family_settled_state :: string
  s_family_changed_ms :: int
  s_codex_startup :: "string option"
  s_claude_capacity :: "string option"
  s_permission_epoch :: int
  s_observation_version :: int
  s_display_observation :: "displayObservation json_text option"
  s_display_exit :: "displayTransition json_text option"
  s_idle_screen_timeout_seconds :: "int option"
  s_pane_sha256 :: "string option"
  s_pane_since_ms :: "int option"
  s_pane_epoch :: "int option"
  s_codex_turn :: "string option"
  s_codex_turn_ended :: "string option"

record perm_row =
  pr_request_id :: int
  pr_instance_id :: string
  pr_request_token :: string
  pr_tool_name :: string
  pr_tool_input :: string
  pr_decision :: "string option"
  pr_decision_reason :: "string option"
  pr_decided_at :: "string option"
  pr_created_at :: string
  pr_hook_pid :: "int option"
  pr_hook_starttime :: "string option"
  pr_hook_pidns :: "string option"
  pr_tool_use_id :: "string option"
  pr_agent_id :: "string option"
  pr_delivered_at :: "int option"
  pr_settled_at :: "int option"
  pr_hook_gone_at :: "int option"
  pr_attempted_decision :: "string option"
  pr_attempted_at :: "int option"
  pr_pane_answer :: string
  pr_pane_as :: "string option"
  pr_pane_sender_pid :: "int option"
  pr_pane_sender_starttime :: "string option"
  pr_pane_sender_pidns :: "string option"
  pr_pane_intent_at :: "int option"
  pr_closed_at :: "int option"
  pr_proven_gone_at :: "int option"
  pr_proven_gone_how :: "string option"
  pr_main_turn_end_eligible :: bool
  pr_owner_launch_token :: "string option"
  pr_owner_permission_epoch :: "int option"
  pr_admitted_at :: "int option"
  pr_fallback_at :: "int option"
  pr_fallback_basis :: "string option"

record hist_row =
  h_history_id :: int
  h_instance_id :: string
  h_session_id :: string
  h_jsonl_path :: "string option"
  h_recorded_at :: string
  h_life_number :: int

record subagent_row =
  sa_created_seq :: int
  sa_instance_id :: string
  sa_subagent_id :: string
  sa_launch_token :: string
  sa_confirmed :: bool
  sa_session_id :: "string option"
  sa_subagent_type :: "string option"
  sa_description :: "string option"
  sa_model :: "string option"
  sa_parent_type :: "string option"
  sa_parent_id :: "string option"
  sa_tool_use_id :: "string option"
  sa_run_mode :: "string option"
  sa_first_started_at :: "int option"
  sa_started_at :: "int option"
  sa_stopped_at :: "int option"
  sa_lost_at :: "int option"
  sa_state :: string
  sa_close_reason :: "string option"
  sa_opened_at :: int
  sa_activity_at :: int
  sa_subagent_type_source :: "string option"
  sa_run_mode_source :: "string option"
  sa_stopped_at_source :: "string option"
  sa_life_number :: int

record launch_row =
  sl_created_seq :: int
  sl_instance_id :: string
  sl_launch_token :: string
  sl_tool_use_id :: string
  sl_subagent_type :: string
  sl_opened_at :: int

record CursorRuntime =
  cr_InstanceID :: string
  cr_Token :: string
  cr_Life :: int
  cr_GatewayPID :: int
  cr_GatewayStart :: string
  cr_RuntimePID :: int
  cr_RuntimeStart :: string
  cr_Connection :: string
  cr_InputPipe :: string
  cr_OutputPipe :: string
  cr_InputFD :: int
  cr_OutputFD :: int
  cr_SessionID :: string
  cr_Terminated :: bool

text \<open>
  The trail is the audit log: an event is a name and its fields. The clocks belong to the world
  the store runs in: SQLite's own (\<open>sql_now_ms\<close>, \<open>sql_now_text\<close> for CURRENT_TIMESTAMP) and
  the process's (\<open>go_now_ms\<close>). The AUTOINCREMENT counters hold the next value of their table's key.
\<close>

datatype trail_val = TS string | TI int | TB bool | TL "string list" | TNull

type_synonym trail_event = "string \<times> (string \<times> trail_val) list"

record db =
  spawns :: "spawn_row list"
  permission_requests :: "perm_row list"
  session_history :: "hist_row list"
  subagents :: "subagent_row list"
  subagent_launches :: "launch_row list"
  cursor_runtimes :: "CursorRuntime list"
  next_request_id :: int
  next_history_id :: int
  next_subagent_seq :: int
  next_launch_seq :: int
  sql_now_ms :: int
  sql_now_text :: string
  go_now_ms :: int
  trail :: "trail_event list"

definition emit :: "trail_event \<Rightarrow> db \<Rightarrow> db" where
  "emit e d = d\<lparr>trail := trail d @ [e]\<rparr>"

lemma emit_tables [simp]:
  "spawns (emit e d) = spawns d" "permission_requests (emit e d) = permission_requests d"
  "session_history (emit e d) = session_history d" "subagents (emit e d) = subagents d"
  "subagent_launches (emit e d) = subagent_launches d" "cursor_runtimes (emit e d) = cursor_runtimes d"
  "sql_now_ms (emit e d) = sql_now_ms d" "sql_now_text (emit e d) = sql_now_text d"
  "go_now_ms (emit e d) = go_now_ms d" "trail (emit e d) = trail d @ [e]"
  by (simp_all add: emit_def)

section \<open>The store handle and its errors\<close>

text \<open>
  The SQLite driver is outside the repository: whether a statement fails is the parameter
  \<open>sqlFails\<close>, by the name the store gives the statement in its error. \<open>others n\<close> is what
  other connections do to the database between the \<open>n\<close>-th and the next statement of one
  operation, clock advance included; statements of one transaction have none between them.
\<close>

datatype store_error =
    DriverError string
  | ErrSpawnNotFound string
  | ErrPrimaryKeyCollision string
  | ErrRowAgentInvalid string
  | ErrRequestTokenCollision
  | ErrNoOpenPermissionRequest
  | ErrAlreadyDecided
  | ErrAmbiguousRequest
  | ErrPermissionRequestNotFound
  | ErrReuseArchive
  | ErrStoreBusy
  | ErrInstantNotPositive int
  | ErrCommitUnconfirmed
  | errUnknownProof string
  | errTurnEndNoStart
  | CheckFailed string
  | errSubagentWriteRefused
  | errUnknownEventKind string
  | errOneWriteRequired nat
  | errNotApplied

text \<open>
  \<open>CodexStartup\<close> and \<open>ClaudeCapacity\<close> are stored as their JSON encoding; \<open>encoding/json\<close>'s \<open>Marshal\<close> of
  them and its strict reading of a capacity (unknown fields and trailing text refused) are the
  handle's parameters \<open>marshalStartup\<close>, \<open>marshalCapacity\<close> and \<open>unmarshalCapacity\<close>. A \<open>time.Time\<close> is its
  instant in nanoseconds since the epoch with its zone's offset in seconds.
\<close>

record CodexStartup =
  cs_LaunchToken :: string
  cs_SessionID :: string
  cs_JSONLPath :: string
  cs_PID :: int
  cs_Starttime :: string

record go_time =
  t_ns :: int
  t_offset :: int

record ClaudeWindow =
  cw_Model :: string
  cw_Window :: int
  cw_ResponseUUID :: string
  cw_ObservedAt :: go_time
  cw_Invalidated :: bool

record ClaudeCapacity =
  cp_LaunchToken :: string
  cp_SessionID :: string
  cp_JSONLPath :: string
  cp_PID :: int
  cp_Starttime :: string
  cp_Version :: string
  cp_Provider :: string
  cp_Main :: "ClaudeWindow option"
  cp_Children :: "(string \<times> ClaudeWindow) list"

record store =
  marshalStartup :: "CodexStartup \<Rightarrow> string"
  marshalCapacity :: "ClaudeCapacity \<Rightarrow> string"
  unmarshalCapacity :: "string \<Rightarrow> ClaudeCapacity option"
  settleMs :: int
  sqlFails :: "string \<Rightarrow> bool"
  others :: "nat \<Rightarrow> db \<Rightarrow> db"

type_synonym 'a tx = "db \<Rightarrow> store_error + ('a \<times> db)"
type_synonym 'a call = "db \<Rightarrow> (store_error + 'a) \<times> db"

definition tx_bind :: "'a tx \<Rightarrow> ('a \<Rightarrow> 'b tx) \<Rightarrow> 'b tx" where
  "tx_bind m f d = (case m d of Inl e \<Rightarrow> Inl e | Inr (a, d') \<Rightarrow> f a d')"

definition tx_return :: "'a \<Rightarrow> 'a tx" where
  "tx_return a d = Inr (a, d)"

definition tx_exec :: "store \<Rightarrow> string \<Rightarrow> (db \<Rightarrow> 'a \<times> db) \<Rightarrow> 'a tx" where
  "tx_exec s what stmt d = (if sqlFails s what then Inl (DriverError what) else Inr (stmt d))"

text \<open>
  A call is a sequence of statements. \<open>read_then n\<close> is a read followed by what the other
  connections do before the next statement; a failed statement ends the call.
\<close>

definition call_return :: "'a \<Rightarrow> 'a call" where
  "call_return a d = (Inr a, d)"

definition call_bind :: "'a call \<Rightarrow> ('a \<Rightarrow> 'b call) \<Rightarrow> 'b call" where
  "call_bind m f d = (case m d of (Inl e, d') \<Rightarrow> (Inl e, d') | (Inr a, d') \<Rightarrow> f a d')"

definition read_then :: "store \<Rightarrow> nat \<Rightarrow> (db \<Rightarrow> store_error + 'a) \<Rightarrow> 'a call" where
  "read_then s n q d = (case q d of Inl e \<Rightarrow> (Inl e, d) | Inr a \<Rightarrow> (Inr a, others s n d))"

definition write_then :: "store \<Rightarrow> nat \<Rightarrow> 'a call \<Rightarrow> 'a call" where
  "write_then s n m d = (case m d of (Inl e, d') \<Rightarrow> (Inl e, d') | (Inr a, d') \<Rightarrow> (Inr a, others s n d'))"

lemma call_bind_Inr:
  "call_bind m f d = (Inr b, d'') \<longleftrightarrow> (\<exists>a d'. m d = (Inr a, d') \<and> f a d' = (Inr b, d''))"
  by (auto simp: call_bind_def split: prod.splits sum.splits)

lemma call_return_eq [simp]: "call_return a d = (x, d') \<longleftrightarrow> x = Inr a \<and> d' = d"
  by (auto simp: call_return_def)

lemma read_then_Inr: "read_then s n q d = (Inr a, d') \<longleftrightarrow> q d = Inr a \<and> d' = others s n d"
  by (auto simp: read_then_def split: sum.splits)

lemma write_then_Inr:
  "write_then s n m d = (Inr a, d') \<longleftrightarrow> (\<exists>d1. m d = (Inr a, d1) \<and> d' = others s n d1)"
  by (auto simp: write_then_def split: prod.splits sum.splits)

lemma tx_bind_Inr:
  "tx_bind m f d = Inr (b, d'') \<longleftrightarrow> (\<exists>a d'. m d = Inr (a, d') \<and> f a d' = Inr (b, d''))"
  by (auto simp: tx_bind_def split: sum.splits)

lemma tx_exec_Inr: "tx_exec s w f d = Inr x \<longleftrightarrow> \<not> sqlFails s w \<and> f d = x"
  by (auto simp: tx_exec_def)

section \<open>Reading rules of hand-editable columns\<close>

text \<open>A raw driver value by storage class; a REAL carries no information the rules read.\<close>

datatype sqlval = SNull | SInt int | SReal | SText string | SBlob string

definition minLaunchStartedAtMillis :: int where
  "minLaunchStartedAtMillis = -62167219200000"

definition maxLaunchStartedAtMillis :: int where
  "maxLaunchStartedAtMillis = 253402300799999"

definition decodeLaunchStartedAt :: "sqlval \<Rightarrow> int" where
  "decodeLaunchStartedAt v = (case v of
     SInt ms \<Rightarrow> if ms < minLaunchStartedAtMillis \<or> ms > maxLaunchStartedAtMillis then 0 else ms
   | _ \<Rightarrow> 0)"

definition decodeEndReportedAt :: "sqlval \<Rightarrow> int" where
  "decodeEndReportedAt v = (case v of SInt ms \<Rightarrow> if ms > 0 then ms else 0 | _ \<Rightarrow> 0)"

definition launchTokenLen :: nat where "launchTokenLen = 16"

definition lower_hex :: "char \<Rightarrow> bool" where
  "lower_hex c \<longleftrightarrow> \<not> ((of_char c < (48::nat) \<or> of_char c > (57::nat)) \<and> (of_char c < (97::nat) \<or> of_char c > (102::nat)))"

definition decodeLaunchToken :: "sqlval \<Rightarrow> string" where
  "decodeLaunchToken v = (case v of
     SText s \<Rightarrow> if length s \<noteq> launchTokenLen then [] else if list_all lower_hex s then s else []
   | _ \<Rightarrow> [])"

definition decodeSubagentTracking :: "sqlval \<Rightarrow> bool" where
  "decodeSubagentTracking v = (case v of SInt n \<Rightarrow> n = 1 | _ \<Rightarrow> False)"

definition decodeNoPreTrust :: "sqlval \<Rightarrow> bool" where
  "decodeNoPreTrust v = (case v of SInt n \<Rightarrow> n \<noteq> 0 | _ \<Rightarrow> True)"

definition sql_text :: "string option \<Rightarrow> sqlval" where
  "sql_text v = (case v of None \<Rightarrow> SNull | Some s \<Rightarrow> SText s)"

definition sql_int :: "int option \<Rightarrow> sqlval" where
  "sql_int v = (case v of None \<Rightarrow> SNull | Some n \<Rightarrow> SInt n)"

text \<open>
  \<open>InsidePendingGrace\<close>: times are Go's \<open>int64\<close> milliseconds; \<open>wrap64\<close> is its wrap-around.
\<close>

definition wrap64 :: "int \<Rightarrow> int" where
  "wrap64 x = (x + 2 ^ 63) mod 2 ^ 64 - 2 ^ 63"

definition InsidePendingGrace :: "string \<Rightarrow> int \<Rightarrow> int \<Rightarrow> int \<Rightarrow> bool" where
  "InsidePendingGrace st launchStartedAtMillis graceMillis nowMillis =
     (if st \<noteq> StatePending \<or> launchStartedAtMillis = 0 then False
      else launchStartedAtMillis > wrap64 (nowMillis - graceMillis))"

section \<open>Row snapshots and launch identities\<close>

record RowSnapshot =
  rs_RowVersion :: int
  rs_StartedAt :: string
  rs_SessionID :: string
  rs_PID :: int
  rs_ProcStarttime :: string
  rs_TmuxSessionName :: string

record LaunchIdentity =
  li_Token :: string
  li_Socket :: string
  li_ServerPID :: int
  li_ServerStart :: int
  li_ServerStarttime :: string
  li_PaneID :: string
  li_PanePID :: int
  li_PaneStarttime :: string

record ProcessIdentity =
  pi_PID :: int
  pi_Starttime :: string
  pi_PIDNamespace :: string

datatype CondResult = CondApplied | CondChanged | CondAbsent

definition lifeSnapshot :: "spawn_row \<Rightarrow> RowSnapshot" where
  "lifeSnapshot r =
     \<lparr>rs_RowVersion = s_row_version r, rs_StartedAt = s_started_at r,
      rs_SessionID = coalesce (s_session_id r) [], rs_PID = coalesce (s_pid r) 0,
      rs_ProcStarttime = coalesce (s_proc_starttime r) [], rs_TmuxSessionName = s_tmux_session_name r\<rparr>"

definition lifeIdentity :: "spawn_row \<Rightarrow> LaunchIdentity" where
  "lifeIdentity r =
     \<lparr>li_Token = decodeLaunchToken (sql_text (s_launch_token r)), li_Socket = coalesce (s_tmux_socket r) [],
      li_ServerPID = coalesce (s_tmux_server_pid r) 0, li_ServerStart = coalesce (s_tmux_server_started r) 0,
      li_ServerStarttime = coalesce (s_tmux_server_starttime r) [], li_PaneID = coalesce (s_pane_id r) [],
      li_PanePID = coalesce (s_pane_pid r) 0, li_PaneStarttime = coalesce (s_pane_starttime r) []\<rparr>"

definition snapshotMatch :: "RowSnapshot \<Rightarrow> spawn_row \<Rightarrow> bool" where
  "snapshotMatch x r \<longleftrightarrow>
     s_row_version r = rs_RowVersion x \<and> s_started_at r = rs_StartedAt x
     \<and> coalesce (s_session_id r) [] = rs_SessionID x \<and> coalesce (s_pid r) 0 = rs_PID x
     \<and> coalesce (s_proc_starttime r) [] = rs_ProcStarttime x
     \<and> s_tmux_session_name r = rs_TmuxSessionName x"

definition launchOwnerClear :: "spawn_row \<Rightarrow> spawn_row" where
  "launchOwnerClear r = r\<lparr>s_launch_owner_pid := None, s_launch_owner_starttime := None, s_launch_owner_pidns := None\<rparr>"

definition launchOwnerSet :: "ProcessIdentity \<Rightarrow> spawn_row \<Rightarrow> spawn_row" where
  "launchOwnerSet o' r = r\<lparr>s_launch_owner_pid := positiveIntArg (pi_PID o'),
     s_launch_owner_starttime := nullableStringArg (pi_Starttime o'),
     s_launch_owner_pidns := nullableStringArg (pi_PIDNamespace o')\<rparr>"

definition rowVersionAdvance :: "spawn_row \<Rightarrow> spawn_row" where
  "rowVersionAdvance r = r\<lparr>s_row_version := s_row_version r + 1\<rparr>"

definition launchStartClear :: "spawn_row \<Rightarrow> spawn_row" where
  "launchStartClear r = r\<lparr>s_launch_started_at := None\<rparr>"

declare launchOwnerClear_def [set_frags] launchOwnerSet_def [set_frags]
  rowVersionAdvance_def [set_frags] launchStartClear_def [set_frags]

definition find_spawn :: "db \<Rightarrow> string \<Rightarrow> spawn_row option" where
  "find_spawn d i = find (\<lambda>r. s_instance_id r = i) (spawns d)"

lemma find_spawn_Some: "find_spawn d i = Some r \<Longrightarrow> r \<in> set (spawns d) \<and> s_instance_id r = i"
  unfolding find_spawn_def by (rule find_key_Some)

lemma find_spawn_emit [simp]: "find_spawn (emit e d) i = find_spawn d i"
  by (simp add: find_spawn_def)

lemma snapshotMatch_life: "snapshotMatch x r \<longleftrightarrow> lifeSnapshot r = x"
  by (cases x) (auto simp: snapshotMatch_def lifeSnapshot_def)

lemma snapshotMatch_self [simp]: "snapshotMatch (lifeSnapshot r) r"
  by (simp add: snapshotMatch_life)

section \<open>Properties of the reading rules\<close>

lemma hex_range: "(\<not> n < 48 \<and> \<not> 57 < n \<or> \<not> n < 97 \<and> \<not> 102 < n) \<longleftrightarrow>
    n = 48 \<or> n = 49 \<or> n = 50 \<or> n = 51 \<or> n = 52 \<or> n = 53 \<or> n = 54 \<or> n = 55 \<or> n = 56 \<or> n = 57
    \<or> n = 97 \<or> n = 98 \<or> n = 99 \<or> n = 100 \<or> n = 101 \<or> n = 102" for n :: nat
  by presburger

lemma wrap64_id: "- (2 ^ 63) \<le> x \<Longrightarrow> x < 2 ^ 63 \<Longrightarrow> wrap64 x = x"
  by (simp add: wrap64_def)

text \<open>
  The pending grace test is exact: for every stored launch start, however extreme, every
  grace a Go duration can hold and every clock that many milliseconds inside the 64-bit range, a row is inside its grace exactly
  when it is pending, has a launch start and its true age is below the grace. No overflow makes
  an old launch look young.
\<close>

theorem pending_grace_is_exact:
  assumes "\<bar>graceMillis\<bar> \<le> 9223372036854"
    and "- (2 ^ 63) + 9223372036854 \<le> nowMillis" and "nowMillis < 2 ^ 63 - 9223372036854"
  shows "InsidePendingGrace st (decodeLaunchStartedAt v) graceMillis nowMillis \<longleftrightarrow>
    st = StatePending \<and> (\<exists>ms. v = SInt ms \<and> ms \<noteq> 0 \<and> minLaunchStartedAtMillis \<le> ms \<and> ms \<le> maxLaunchStartedAtMillis
       \<and> nowMillis - ms < graceMillis)"
proof -
  have "wrap64 (nowMillis - graceMillis) = nowMillis - graceMillis"
    using assms by (intro wrap64_id) linarith+
  then show ?thesis
    by (cases v) (auto simp: InsidePendingGrace_def decodeLaunchStartedAt_def)
qed

theorem pending_grace_is_exact_witness:
  "InsidePendingGrace StatePending (decodeLaunchStartedAt (SInt 1000)) 5000 5500
   \<and> \<not> InsidePendingGrace StatePending (decodeLaunchStartedAt (SInt (- (2 ^ 63)))) 5000 5500"
  using pending_grace_is_exact[of 5000 5500 StatePending "SInt 1000"] pending_grace_is_exact[of 5000 5500 StatePending "SInt (- (2 ^ 63))"]
  by (simp add: minLaunchStartedAtMillis_def maxLaunchStartedAtMillis_def)

text \<open>
  A launch token read back is always one the launch can have minted: the read yields a
  non-empty token exactly for stored text of sixteen lowercase hexadecimal digits, and then that
  text, so a hand-edited value never labels a row.
\<close>

lemma launch_token_read_exact:
  "decodeLaunchToken v = tok \<and> tok \<noteq> [] \<longleftrightarrow>
     v = SText tok \<and> length tok = 16 \<and> list_all (\<lambda>c. c \<in> set ''0123456789abcdef'') tok"
proof -
  have hex: "lower_hex c \<longleftrightarrow> c \<in> set ''0123456789abcdef''" for c
  proof -
    have "c \<in> set ''0123456789abcdef'' \<longleftrightarrow> (of_char c :: nat) \<in> of_char ` set ''0123456789abcdef''"
      by (simp only: image_iff of_char_eq_iff bex_simps) auto
    then show ?thesis by (simp add: lower_hex_def hex_range)
  qed
  have eq: "list_all (\<lambda>c. c \<in> set ''0123456789abcdef'') tok = list_all lower_hex tok"
    unfolding list_all_iff hex ..
  show ?thesis
    unfolding eq by (cases v) (auto simp: decodeLaunchToken_def launchTokenLen_def)
qed

end
