(* ===== verification/Settle.thy ===== *)
theory Settle
  imports Store_Rows
begin

text \<open>
  The committed display of a row (display.go) and the settle time of the reported state
  (settle.go): the SET fragments that write \<open>state\<close> with its settle columns, the read expression
  that derives the reported state from them, and the specification of the reported state over
  the whole history of raw changes (the last value that held for the settle time), which the
  three stored columns implement.
\<close>

section \<open>Committed displays\<close>

definition validDisplayDetail :: "DisplayDetail \<Rightarrow> bool" where
  "validDisplayDetail x =
     (if dd_state x = StateNeedsIntelligence then dd_request_token x \<noteq> [] \<and> dd_unchanged_minutes x = 0
      else if dd_state x = StateIdleScreen
        then dd_request_token x = [] \<and> dd_tool_name x = [] \<and> dd_unchanged_minutes x \<ge> 0
      else False)"

definition decodeDisplayObservation :: "displayObservation json_text option \<Rightarrow> displayObservation option" where
  "decodeDisplayObservation raw = (case raw of
     Some (Json ob) \<Rightarrow>
       (if \<not> validDisplayState (dd_state (ob_detail ob))
           \<or> (ob_candidate ob \<noteq> [] \<and> \<not> validDisplayState (ob_candidate ob))
           \<or> (ob_candidate ob = [] \<and> \<not> isDisplayedState (dd_state (ob_detail ob)))
           \<or> ob_candidate_since_ms ob < 0 \<or> ob_observed_at_ms ob < 0 \<or> ob_permission_epoch ob < 0
           \<or> (isDisplayedState (dd_state (ob_detail ob))
               \<and> (\<not> validDisplayDetail (ob_detail ob) \<or> dd_since_ms (ob_detail ob) \<le> 0))
        then None else Some ob)
   | _ \<Rightarrow> None)"

definition plainDetail :: "string \<Rightarrow> DisplayDetail" where
  "plainDetail st = \<lparr>dd_state = st, dd_since_ms = 0, dd_request_token = [], dd_tool_name = [],
     dd_unchanged_minutes = 0\<rparr>"

definition CommittedDisplay :: "string \<Rightarrow> string \<Rightarrow> displayObservation json_text option \<Rightarrow> DisplayDetail" where
  "CommittedDisplay st reported obs = (case decodeDisplayObservation obs of
     Some ob \<Rightarrow> if isDisplayedState (dd_state (ob_detail ob)) \<and> \<not> isTerminalState st \<and> st \<noteq> StatePending
                then ob_detail ob else plainDetail reported
   | None \<Rightarrow> plainDetail reported)"

text \<open>The SQL function behind \<open>committedDisplayStateSQL\<close>: its row carries no reported state.\<close>

definition committedDisplayState :: "string \<Rightarrow> displayObservation json_text option \<Rightarrow> string option" where
  "committedDisplayState st obs =
     (let x = CommittedDisplay st [] obs in if isDisplayedState (dd_state x) then Some (dd_state x) else None)"

lemma committedDisplayState_Some:
  "committedDisplayState st obs = Some v \<longleftrightarrow>
     (\<exists>ob. decodeDisplayObservation obs = Some ob \<and> dd_state (ob_detail ob) = v \<and> isDisplayedState v
        \<and> \<not> isTerminalState st \<and> st \<noteq> StatePending)"
  by (auto simp: committedDisplayState_def CommittedDisplay_def plainDetail_def Let_def state_kinds
      split: option.splits if_splits)

lemma committedDisplayState_terminal:
  "isTerminalState st \<Longrightarrow> committedDisplayState st obs = None"
  by (cases "committedDisplayState st obs") (auto simp: committedDisplayState_Some)

lemma committedDisplayState_json:
  "committedDisplayState st obs = Some v \<Longrightarrow> \<exists>ob. obs = Some (Json ob)"
  by (auto simp: committedDisplayState_Some decodeDisplayObservation_def split: option.splits json_text.splits)

section \<open>Writes of the state with its settle columns\<close>

definition clearCandidate :: "displayObservation \<Rightarrow> displayObservation" where
  "clearCandidate ob = ob\<lparr>ob_candidate := [], ob_candidate_since_ms := 0\<rparr>"

definition keptObservation :: "spawn_row \<Rightarrow> displayObservation json_text option" where
  "keptObservation r = (case s_display_observation r of
     Some (Json ob) \<Rightarrow> if committedDisplayState (s_state r) (s_display_observation r) \<noteq> None
                      then Some (Json (clearCandidate ob)) else None
   | _ \<Rightarrow> None)"

definition hookStateSet :: "int \<Rightarrow> int \<Rightarrow> string \<Rightarrow> spawn_row \<Rightarrow> spawn_row" where
  "hookStateSet tw now v r = r\<lparr>
     s_permission_epoch := s_permission_epoch r + (if s_state r = v then 0 else 1),
     s_display_observation := (if s_state r = v then s_display_observation r else keptObservation r),
     s_observation_version := s_observation_version r + (if s_state r = v then 0 else 1),
     s_settled_state := (if s_state r = v then s_settled_state r
                         else if tw = 0 \<or> now - s_state_changed_ms r \<ge> tw then s_state r
                         else coalesce (nullif_empty (s_settled_state r)) (s_state r)),
     s_state_changed_ms := (if s_state r = v then s_state_changed_ms r else now),
     s_state := v\<rparr>"

definition immediateSettleSet :: "int \<Rightarrow> string \<Rightarrow> spawn_row \<Rightarrow> spawn_row" where
  "immediateSettleSet now v r = r\<lparr>
     s_permission_epoch := s_permission_epoch r + (if s_state r = v then 0 else 1),
     s_display_exit := (case committedDisplayState (s_state r) (s_display_observation r) of
         Some prior \<Rightarrow> Some (Json \<lparr>dt_prior = prior, dt_next = v, dt_at_ms = now\<rparr>)
       | None \<Rightarrow> s_display_exit r),
     s_display_observation := None,
     s_observation_version := s_observation_version r + 1,
     s_settled_state := v,
     s_state_changed_ms := (if s_state r = v then s_state_changed_ms r else now)\<rparr>"

definition immediateStateSet :: "int \<Rightarrow> string \<Rightarrow> spawn_row \<Rightarrow> spawn_row" where
  "immediateStateSet now v r = (immediateSettleSet now v r)\<lparr>s_state := v\<rparr>"

definition hookWriteStateSet :: "int \<Rightarrow> int \<Rightarrow> string \<Rightarrow> spawn_row \<Rightarrow> spawn_row" where
  "hookWriteStateSet tw now v =
     (if isTerminalState v then immediateStateSet now v else hookStateSet tw now v)"

declare hookStateSet_def [set_frags] immediateSettleSet_def [set_frags] immediateStateSet_def [set_frags]

definition SetSettleMs :: "int \<Rightarrow> store \<Rightarrow> store" where
  "SetSettleMs ms s = s\<lparr>settleMs := max ms 0\<rparr>"

section \<open>The reported state\<close>

record SettleRead =
  sr_SettleMs :: int
  sr_NowMs :: int

definition settle_on :: "SettleRead \<Rightarrow> bool" where
  "settle_on x \<longleftrightarrow> sr_SettleMs x > 0"

definition stateExpr :: "SettleRead \<Rightarrow> spawn_row \<Rightarrow> string" where
  "stateExpr x r =
     (if \<not> settle_on x then s_state r
      else if sr_NowMs x - s_state_changed_ms r \<ge> sr_SettleMs x then s_state r
      else coalesce (nullif_empty (s_settled_state r)) (s_state r))"

definition familyExpr :: "SettleRead \<Rightarrow> spawn_row \<Rightarrow> string" where
  "familyExpr x r =
     (if \<not> settle_on x then s_family_state r
      else if sr_NowMs x - s_family_changed_ms r \<ge> sr_SettleMs x then s_family_state r
      else coalesce (nullif_empty (s_family_settled_state r)) (s_family_state r))"

abbreviation settle_read :: "int \<Rightarrow> int \<Rightarrow> SettleRead" where
  "settle_read T now \<equiv> \<lparr>sr_SettleMs = T, sr_NowMs = now\<rparr>"

lemma hookStateSet_state [simp]: "s_state (hookStateSet tw now v r) = v"
  by (simp add: hookStateSet_def)

lemma immediateStateSet_state [simp]: "s_state (immediateStateSet now v r) = v"
  by (simp add: immediateStateSet_def)

lemma hookWriteStateSet_state [simp]: "s_state (hookWriteStateSet tw now v r) = v"
  by (simp add: hookWriteStateSet_def)

lemma hookStateSet_same: "s_state r = v \<Longrightarrow> hookStateSet tw now v r = r"
  by (auto simp: hookStateSet_def)

lemma state_writes_keep [row_frames, simp]:
  "s_instance_id (hookWriteStateSet tw now v r) = s_instance_id r"
  "s_parent_id (hookWriteStateSet tw now v r) = s_parent_id r"
  "s_row_version (hookWriteStateSet tw now v r) = s_row_version r"
  "s_pane_pid (hookWriteStateSet tw now v r) = s_pane_pid r"
  "s_session_id (hookWriteStateSet tw now v r) = s_session_id r"
  "s_jsonl_path (hookWriteStateSet tw now v r) = s_jsonl_path r"
  "s_idle_since (hookWriteStateSet tw now v r) = s_idle_since r"
  "s_agent (hookWriteStateSet tw now v r) = s_agent r"
  "s_life_number (hookWriteStateSet tw now v r) = s_life_number r"
  "s_launch_token (hookWriteStateSet tw now v r) = s_launch_token r"
  by (simp_all add: hookWriteStateSet_def immediateStateSet_def immediateSettleSet_def hookStateSet_def)

lemma immediate_writes_keep [row_frames, simp]:
  "s_instance_id (immediateStateSet now v r) = s_instance_id r"
  "s_parent_id (immediateStateSet now v r) = s_parent_id r"
  "s_row_version (immediateStateSet now v r) = s_row_version r"
  "s_settled_state (immediateStateSet now v r) = v"
  by (simp_all add: immediateStateSet_def immediateSettleSet_def)

section \<open>The settled value of a history of raw changes\<close>

text \<open>
  The specification. A history is the list of a row's raw changes, newest first, each with
  the time it was made; below it lies a base value, the one the row reports when no entry
  settles. The reported value at time \<open>t\<close> is the newest value that was raw for at least \<open>T\<close>:
  until \<open>t\<close> for the newest entry, until the next entry's time for an older one.
\<close>

fun settled_value :: "int \<Rightarrow> string \<Rightarrow> (int \<times> string) list \<Rightarrow> int \<Rightarrow> string" where
  "settled_value T base [] t = base"
| "settled_value T base ((c, v) # h) t = (if t - c \<ge> T then v else settled_value T base h c)"

text \<open>The row a history leads to: one hook write per entry, oldest first.\<close>

fun run_hook_writes :: "int \<Rightarrow> spawn_row \<Rightarrow> (int \<times> string) list \<Rightarrow> spawn_row" where
  "run_hook_writes T r [] = r"
| "run_hook_writes T r ((c, v) # h) = hookStateSet T c v (run_hook_writes T r h)"

text \<open>
  A raw change is a write of another value; a repeated value is not an entry of the history.
\<close>

fun changes :: "string \<Rightarrow> (int \<times> string) list \<Rightarrow> bool" where
  "changes base [] = True"
| "changes base ((c, v) # h) = (v \<noteq> (case h of [] \<Rightarrow> base | (_, w) # _ \<Rightarrow> w) \<and> v \<noteq> [] \<and> changes base h)"

text \<open>Dropping the repeated writes of a list of hook writes leaves its history of changes.\<close>

fun drop_repeats :: "string \<Rightarrow> (int \<times> string) list \<Rightarrow> (int \<times> string) list" where
  "drop_repeats base [] = []"
| "drop_repeats base ((c, v) # h) =
     (let h' = drop_repeats base h
      in if v = (case h' of [] \<Rightarrow> base | (_, w) # _ \<Rightarrow> w) then h' else (c, v) # h')"

lemma run_hook_writes_state:
  "s_state (run_hook_writes T r h) = (case h of [] \<Rightarrow> s_state r | (_, v) # _ \<Rightarrow> v)"
  by (cases h) auto

lemma run_hook_writes_drop_repeats:
  "run_hook_writes T r (drop_repeats (s_state r) h) = run_hook_writes T r h"
proof (induction h)
  case Nil
  then show ?case by simp
next
  case (Cons a h)
  obtain c v where a: "a = (c, v)" by force
  let ?h = "drop_repeats (s_state r) h"
  have "s_state (run_hook_writes T r h) = (case ?h of [] \<Rightarrow> s_state r | (_, w) # _ \<Rightarrow> w)"
    using run_hook_writes_state[of T r ?h] Cons.IH by simp
  with Cons.IH show ?case
    by (auto simp: a Let_def hookStateSet_same)
qed

lemma settled_value_neq_Nil:
  "changes b h \<Longrightarrow> base \<noteq> [] \<Longrightarrow> settled_value T base h t \<noteq> []"
  by (induction h arbitrary: t) (auto split: prod.splits if_splits)

lemma drop_repeats_changes:
  "\<forall>(c, v) \<in> set h. v \<noteq> [] \<Longrightarrow> changes base (drop_repeats base h)"
  by (induction h) (auto simp: Let_def split: list.splits)

text \<open>The stored columns after a history: raw state, its time and the last settled value.\<close>

lemma run_hook_writes_columns:
  assumes "T > 0" and "s_state r \<noteq> []" and "changes (s_state r) h" and "h \<noteq> []"
    and base: "s_settled_state r = s_state r"
  shows "s_state_changed_ms (run_hook_writes T r h) = fst (hd h)
       \<and> s_settled_state (run_hook_writes T r h) = settled_value T (s_state r) (tl h) (fst (hd h))"
  using assms(3,4)
proof (induction h)
  case Nil
  then show ?case by simp
next
  case (Cons a h)
  obtain c v where a: "a = (c, v)" by force
  show ?case
  proof (cases h)
    case Nil
    with Cons.prems base assms(1,2) show ?thesis
      by (auto simp: a hookStateSet_def)
  next
    case (Cons b g)
    obtain e w where b: "b = (e, w)" by force
    have ch: "changes (s_state r) h" using Cons.prems by (simp add: a)
    with Cons.IH Cons have IH: "s_state_changed_ms (run_hook_writes T r h) = e"
      "s_settled_state (run_hook_writes T r h) = settled_value T (s_state r) g e"
      by (simp_all add: b)
    have st: "s_state (run_hook_writes T r h) = w"
      by (simp add: Cons b)
    have "v \<noteq> w" using Cons.prems Cons by (simp add: a b)
    moreover have "settled_value T (s_state r) g e \<noteq> []"
      using ch by (intro settled_value_neq_Nil[OF _ assms(2)]) (auto simp: Cons b)
    ultimately show ?thesis
      using IH st assms(1) by (simp add: a hookStateSet_def Cons b)
  qed
qed

lemma stateExpr_run_hook_writes:
  assumes "T > 0" and "s_state r \<noteq> []" and "s_settled_state r = s_state r"
    and "\<forall>(c, v) \<in> set h. v \<noteq> []"
  shows "stateExpr (settle_read T t) (run_hook_writes T r h)
       = settled_value T (s_state r) (drop_repeats (s_state r) h) t"
proof -
  let ?h = "drop_repeats (s_state r) h"
  have ch: "changes (s_state r) ?h" using assms(4) by (rule drop_repeats_changes)
  have eq: "run_hook_writes T r h = run_hook_writes T r ?h"
    by (simp add: run_hook_writes_drop_repeats)
  show ?thesis
  proof (cases ?h)
    case Nil
    with eq assms show ?thesis by (simp add: stateExpr_def settle_on_def)
  next
    case (Cons a g)
    obtain c v where a: "a = (c, v)" by force
    have cols: "s_state_changed_ms (run_hook_writes T r ?h) = c"
      "s_settled_state (run_hook_writes T r ?h) = settled_value T (s_state r) g c"
      using run_hook_writes_columns[OF assms(1,2) ch _ assms(3)] Cons a by auto
    have "settled_value T (s_state r) g c \<noteq> []"
      using ch by (intro settled_value_neq_Nil[OF _ assms(2)]) (auto simp: Cons a)
    with cols assms(1) show ?thesis
      by (simp add: eq stateExpr_def settle_on_def run_hook_writes_state Cons a)
  qed
qed

section \<open>Properties of the reported state\<close>

text \<open>
  C4. The reported state of a row (\<open>stateExpr\<close>, read from three stored columns) refines the settled
  value of the whole history: after any sequence of hook writes, repeats included, it is at every
  later time the newest state that was raw for at least the settle time, and the base state while
  none was.
\<close>

theorem reported_state_is_settled_value:
  assumes "T > 0" and "s_state r \<noteq> []" and "s_settled_state r = s_state r" and "\<forall>(c, v) \<in> set h. v \<noteq> []"
  shows "stateExpr (settle_read T t) (run_hook_writes T r h)
       = settled_value T (s_state r) (drop_repeats (s_state r) h) t"
  using assms by (rule stateExpr_run_hook_writes)

definition sample_row :: spawn_row where
  "sample_row = \<lparr>s_instance_id = ''a'', s_parent_id = None, s_state = StateWaiting, s_cwd = ''/'', s_tmux_session_name = ''t'',
     s_agent_args = [], s_relay_mode = ''on'', s_jsonl_path = None, s_session_id = None, s_labels = [], s_started_at = ''t0'',
     s_last_seen_at = ''t0'', s_ended_at = None, s_pid = None, s_proc_starttime = None, s_liveness_unverified_since = None,
     s_liveness_note = None, s_extra_env = [], s_row_version = 0, s_launch_started_at = None, s_life_number = 1,
     s_no_pre_trust = 0, s_launch_token = None, s_tmux_socket = None, s_tmux_server_pid = None, s_tmux_server_started = None,
     s_tmux_server_starttime = None, s_pane_id = None, s_pane_pid = Some 7, s_pane_starttime = Some ''p0'',
     s_launch_owner_pid = None, s_launch_owner_starttime = None, s_launch_owner_pidns = None, s_idle_since = None,
     s_settled_state = StateWaiting, s_state_changed_ms = 0, s_agent = AgentClaude, s_end_reported_at = None,
     s_subagent_tracking = 0, s_family_state = StateWaiting, s_family_settled_state = StateWaiting, s_family_changed_ms = 0,
     s_codex_startup = None, s_claude_capacity = None, s_permission_epoch = 0, s_observation_version = 0,
     s_display_observation = None, s_display_exit = None, s_idle_screen_timeout_seconds = None, s_pane_sha256 = None,
     s_pane_since_ms = None, s_pane_epoch = None, s_codex_turn = None, s_codex_turn_ended = None\<rparr>"

theorem reported_state_is_settled_value_witness:
  "stateExpr (settle_read 1000 2500) (run_hook_writes 1000 sample_row
      [(2000, StateWaiting), (1900, StateWorking), (100, StateCheckPermission), (50, StateCheckPermission)])
   = settled_value 1000 StateWaiting (drop_repeats StateWaiting
      [(2000, StateWaiting), (1900, StateWorking), (100, StateCheckPermission), (50, StateCheckPermission)]) 2500"
  using reported_state_is_settled_value[of 1000 sample_row
      "[(2000, StateWaiting), (1900, StateWorking), (100, StateCheckPermission), (50, StateCheckPermission)]" 2500]
  by (simp add: sample_row_def)

text \<open>
  A hook write never moves the reported state at the instant it is made: the new raw value
  waits for the settle time and what was reported stays reported, also when the row's columns
  were last written by an earlier build (no settled value).
\<close>

lemma hook_write_reports_continuously:
  assumes "T > 0" and "s_state r \<noteq> []"
  shows "stateExpr (settle_read T now) (hookStateSet T now v r) = stateExpr (settle_read T now) r"
  using assms by (cases "s_settled_state r = []") (auto simp: stateExpr_def settle_on_def hookStateSet_def)

text \<open>
  A terminal state is reported at once: whatever the settle time, the read's clock and the
  earlier columns, a write of ended or missing is what the next read reports, with no committed
  display left on the row.
\<close>

theorem terminal_state_reported_at_once:
  assumes "isTerminalState v"
  shows "stateExpr x (hookWriteStateSet tw now v r) = v
       \<and> CommittedDisplay v v (s_display_observation (hookWriteStateSet tw now v r)) = plainDetail v"
  using assms by (auto simp: stateExpr_def hookWriteStateSet_def immediateStateSet_def immediateSettleSet_def
      isTerminalState_def CommittedDisplay_def decodeDisplayObservation_def)

theorem terminal_state_reported_at_once_witness:
  "stateExpr (settle_read 1000 500) (hookWriteStateSet 1000 500 StateEnded sample_row) = StateEnded
   \<and> CommittedDisplay StateEnded StateEnded (s_display_observation (hookWriteStateSet 1000 500 StateEnded sample_row))
     = plainDetail StateEnded"
  using terminal_state_reported_at_once[of StateEnded] by (simp add: isTerminalState_def)

end
