(* ===== verification/Family.thy ===== *)
theory Family
  imports Settle
begin

text \<open>
  The family aggregate (family.go): working membership carried up stored parent links, refreshed
  in the transaction of every lifecycle write; the drain of display exits (display.go) and the
  transaction frame around a lifecycle statement (lockwait.go \<open>inImmediateTx\<close>, family.go
  \<open>execFamily\<close>, find_missing_writes.go \<open>execGuarded\<close>). The recursive query is the closure below;
  it equals the reflexive transitive closure of the stored parent links.
\<close>

section \<open>The aggregate\<close>

definition familyMember :: "spawn_row \<Rightarrow> bool" where
  "familyMember r \<longleftrightarrow>
     s_state r \<notin> {StateEnded, StateMissing, StateWaiting}
     \<or> committedDisplayState (s_state r) (s_display_observation r) = Some StateIdleScreen"

definition parents_of :: "spawn_row list \<Rightarrow> string list \<Rightarrow> string list" where
  "parents_of rs w = List.map_filter (\<lambda>r. if s_instance_id r \<in> set w then s_parent_id r else None) rs"

text \<open>
  The recursive part of the query, one round per level: a round adds the stored parents of
  every id found so far (UNION drops duplicates). As many rounds as rows reach every ancestor.
\<close>

fun working_rounds :: "nat \<Rightarrow> spawn_row list \<Rightarrow> string list \<Rightarrow> string list" where
  "working_rounds 0 rs w = w"
| "working_rounds (Suc n) rs w = working_rounds n rs (List.union (parents_of rs w) w)"

definition familyAggregate :: "spawn_row list \<Rightarrow> string \<Rightarrow> string" where
  "familyAggregate rs =
     (let working = working_rounds (length rs) rs (map s_instance_id (filter familyMember rs))
      in (\<lambda>i. if i \<in> set working then StateWorking else StateWaiting))"

definition refreshRow :: "int \<Rightarrow> int \<Rightarrow> string \<Rightarrow> spawn_row \<Rightarrow> spawn_row" where
  "refreshRow tw now v r =
     (if s_family_state r = v then r
      else r\<lparr>
        s_family_settled_state := (if s_family_state r = [] then v
          else if tw = 0 \<or> now - s_family_changed_ms r \<ge> tw then s_family_state r
          else coalesce (nullif_empty (s_family_settled_state r)) (s_family_state r)),
        s_family_changed_ms := (if s_family_state r = [] then 0 else now),
        s_family_state := v\<rparr>)"

definition refreshFamilies :: "store \<Rightarrow> unit tx" where
  "refreshFamilies s = tx_exec s ''store: refresh families'' (\<lambda>d.
     let agg = familyAggregate (spawns d)
     in ((), d\<lparr>spawns := map (\<lambda>r. refreshRow (settleMs s) (sql_now_ms d) (agg (s_instance_id r)) r) (spawns d)\<rparr>))"

definition contributes :: "string \<Rightarrow> bool" where
  "contributes st \<longleftrightarrow> st \<noteq> StateWaiting \<and> st \<noteq> StateEnded \<and> st \<noteq> StateMissing"

definition refreshFamiliesAfterStateChange :: "store \<Rightarrow> string \<Rightarrow> string \<Rightarrow> 'e list \<Rightarrow> unit tx" where
  "refreshFamiliesAfterStateChange s prior nxt exits =
     (if (contributes prior \<or> length exits > 0) = contributes nxt then tx_return ()
      else refreshFamilies s)"

section \<open>Display exits\<close>

definition decodeDisplayExit :: "displayTransition json_text \<Rightarrow> displayTransition option" where
  "decodeDisplayExit raw = (case raw of
     Json e \<Rightarrow> (if \<not> isDisplayedState (dt_prior e) \<or> \<not> validDisplayState (dt_next e)
                   \<or> isDisplayedState (dt_next e) \<or> dt_at_ms e \<le> 0
                then None else Some e)
   | NotJson _ \<Rightarrow> None)"

definition rowExit :: "spawn_row \<Rightarrow> (string \<times> displayTransition) option" where
  "rowExit r = (case s_display_exit r of None \<Rightarrow> None
     | Some raw \<Rightarrow> map_option (Pair (s_instance_id r)) (decodeDisplayExit raw))"

definition takeDisplayExits :: "store \<Rightarrow> string \<Rightarrow> (string \<times> displayTransition) list tx" where
  "takeDisplayExits s i = tx_exec s ''take display exits'' (\<lambda>d.
     let held = filter (\<lambda>r. s_instance_id r = i \<and> s_display_exit r \<noteq> None) (spawns d)
     in (List.map_filter rowExit held,
         d\<lparr>spawns := update_where (\<lambda>r. s_instance_id r = i \<and> s_display_exit r \<noteq> None)
                       (\<lambda>r. r\<lparr>s_display_exit := None\<rparr>) (spawns d)\<rparr>))"

definition displayEvent :: "string \<times> displayTransition \<Rightarrow> trail_event" where
  "displayEvent e = (''ad.spawn.displayed_state_transition'',
     [(''instance_id'', TS (fst e)), (''prior_state'', TS (dt_prior (snd e))),
      (''new_state'', TS (dt_next (snd e))), (''ts'', TI (dt_at_ms (snd e)))])"

definition emitDisplayTransitions :: "(string \<times> displayTransition) list \<Rightarrow> db \<Rightarrow> db" where
  "emitDisplayTransitions es d = fold (\<lambda>e. emit (displayEvent e)) es d"

section \<open>Transactions\<close>

definition inImmediateTx :: "store \<Rightarrow> string \<Rightarrow> 'a tx \<Rightarrow> 'a call" where
  "inImmediateTx s i fn d =
     (if sqlFails s ''connection'' then (Inl (DriverError ''connection''), d)
      else if sqlFails s ''begin'' then (Inl (DriverError ''begin''), d)
      else (case fn d of
          Inl e \<Rightarrow> (Inl e, d)
        | Inr (a, d1) \<Rightarrow> (case refreshFamilies s d1 of
            Inl e \<Rightarrow> (Inl e, d)
          | Inr (_, d2) \<Rightarrow> (case takeDisplayExits s i d2 of
              Inl e \<Rightarrow> (Inl e, d)
            | Inr (exits, d3) \<Rightarrow>
                if sqlFails s ''commit'' then (Inl (DriverError ''commit''), d)
                else (Inr a, emitDisplayTransitions exits d3)))))"

text \<open>
  One guarded UPDATE of the spawns table: the rows that satisfy the condition are written, the
  statement reports whether there was one. \<open>execFamilyTx\<close> runs a statement in a transaction with
  the family refresh and rolls back when it matched nothing; \<open>execFamily\<close> runs one that fails only
  by the driver, and a statement the schema's constraints can refuse fails with that error.
\<close>

definition update_spawns :: "(spawn_row \<Rightarrow> bool) \<Rightarrow> (spawn_row \<Rightarrow> spawn_row) \<Rightarrow> db \<Rightarrow> bool \<times> db" where
  "update_spawns P f d = (any_row P (spawns d), d\<lparr>spawns := update_where P f (spawns d)\<rparr>)"

definition execFamilyTx :: "store \<Rightarrow> string \<Rightarrow> bool tx \<Rightarrow> bool call" where
  "execFamilyTx s i stmt d =
     (case inImmediateTx s i (\<lambda>d. case stmt d of
          Inl e \<Rightarrow> Inl e
        | Inr (n, d') \<Rightarrow> if n then Inr (n, d') else Inl errNotApplied) d of
        (Inl errNotApplied, d') \<Rightarrow> (Inr False, d')
      | r \<Rightarrow> r)"

definition execFamily :: "store \<Rightarrow> string \<Rightarrow> string \<Rightarrow> (db \<Rightarrow> bool \<times> db) \<Rightarrow> bool call" where
  "execFamily s i what stmt = execFamilyTx s i (tx_exec s what stmt)"

definition execGuarded :: "store \<Rightarrow> string \<Rightarrow> string \<Rightarrow> (db \<Rightarrow> bool \<times> db) \<Rightarrow> bool call" where
  "execGuarded s i what stmt d = execFamily s i what stmt d"

section \<open>The closure is the ancestor relation\<close>

definition parent_rel :: "spawn_row list \<Rightarrow> (string \<times> string) set" where
  "parent_rel rs = {(s_instance_id r, p) | r p. r \<in> set rs \<and> s_parent_id r = Some p}"

lemma set_parents_of: "set (parents_of rs w) = parent_rel rs `` set w"
  by (force simp: parents_of_def parent_rel_def map_filter_def)

lemma sandwich_Un: "X = Z \<union> B \<Longrightarrow> Z \<subseteq> A \<Longrightarrow> A \<subseteq> X \<Longrightarrow> A \<union> B = X"
  by blast

lemma relpow_Image: "(R ^^ k) `` (R `` A) = (R ^^ Suc k) `` A"
  by (metis relcomp_Image relpow.simps(2) relpow_commute)

lemma set_working_rounds:
  "set (working_rounds n rs w) = (\<Union>k \<le> n. (parent_rel rs ^^ k) `` set w)"
proof (induction n arbitrary: w)
  case 0
  then show ?case by simp
next
  case (Suc n)
  let ?R = "parent_rel rs"
  have "set (working_rounds (Suc n) rs w) = (\<Union>k \<le> n. (?R ^^ k) `` (set w \<union> ?R `` set w))"
    by (simp add: Suc.IH set_parents_of Un_commute)
  also have "\<dots> = (\<Union>k \<le> n. (?R ^^ k) `` set w) \<union> (\<Union>k \<le> n. (?R ^^ Suc k) `` set w)"
    by (simp only: Image_Un relpow_Image UN_Un_distrib)
  also have "\<dots> = (\<Union>k \<le> Suc n. (?R ^^ k) `` set w)"
  proof -
    have "(\<Union>k \<le> Suc n. (?R ^^ k) `` set w) = (?R ^^ 0) `` set w \<union> (\<Union>k \<le> n. (?R ^^ Suc k) `` set w)"
      by (simp only: atMost_Suc_eq_insert_0 UN_insert image_image UN_extend_simps)
    moreover have "(?R ^^ 0) `` set w \<subseteq> (\<Union>k \<le> n. (?R ^^ k) `` set w)" by blast
    moreover have "(\<Union>k \<le> n. (?R ^^ k) `` set w) \<subseteq> (\<Union>k \<le> Suc n. (?R ^^ k) `` set w)"
      by (rule UN_mono) auto
    ultimately show ?thesis by (rule sandwich_Un)
  qed
  finally show ?case .
qed

lemma finite_parent_rel: "finite (parent_rel rs)" "card (parent_rel rs) \<le> length rs"
proof -
  let ?f = "\<lambda>r. (s_instance_id r, the (s_parent_id r))"
  have sub: "parent_rel rs \<subseteq> ?f ` set rs"
    by (force simp: parent_rel_def)
  then show "finite (parent_rel rs)" by (rule finite_subset) simp
  have "card (parent_rel rs) \<le> card (?f ` set rs)"
    using sub by (intro card_mono) simp_all
  also have "\<dots> \<le> card (set rs)" by (intro card_image_le) simp
  also have "\<dots> \<le> length rs" by (rule card_length)
  finally show "card (parent_rel rs) \<le> length rs" .
qed

lemma set_working_rounds_closure:
  "set (working_rounds (length rs) rs w) = (parent_rel rs)\<^sup>* `` set w"
proof -
  have "(parent_rel rs)\<^sup>* = (\<Union>k \<in> {k. k \<le> card (parent_rel rs)}. parent_rel rs ^^ k)"
    by (rule rtrancl_finite_eq_relpow) (rule finite_parent_rel)
  also have "\<dots> \<subseteq> (\<Union>k \<le> length rs. parent_rel rs ^^ k)"
    using finite_parent_rel(2)[of rs] by (intro UN_mono) auto
  finally have "(parent_rel rs)\<^sup>* \<subseteq> (\<Union>k \<le> length rs. parent_rel rs ^^ k)" .
  moreover have "(\<Union>k \<le> length rs. parent_rel rs ^^ k) \<subseteq> (parent_rel rs)\<^sup>*"
    by (auto simp: relpow_imp_rtrancl)
  ultimately have "(parent_rel rs)\<^sup>* = (\<Union>k \<le> length rs. parent_rel rs ^^ k)" by blast
  then show ?thesis by (simp add: set_working_rounds) blast
qed

definition family_working :: "spawn_row list \<Rightarrow> string \<Rightarrow> bool" where
  "family_working rs i \<longleftrightarrow> (\<exists>r \<in> set rs. familyMember r \<and> (s_instance_id r, i) \<in> (parent_rel rs)\<^sup>*)"

lemma familyAggregate_spec:
  "familyAggregate rs i = (if family_working rs i then StateWorking else StateWaiting)"
  by (auto simp: familyAggregate_def Let_def set_working_rounds_closure family_working_def)


section \<open>What a committed transaction leaves\<close>

text \<open>
  The end of a committed transaction as one function: every row gets its family columns
  refreshed, the written row's display exit is drained, nothing else of any row changes.
\<close>

definition finish_row :: "store \<Rightarrow> db \<Rightarrow> string \<Rightarrow> spawn_row \<Rightarrow> spawn_row" where
  "finish_row s d i r =
     (let r1 = refreshRow (settleMs s) (sql_now_ms d) (familyAggregate (spawns d) (s_instance_id r)) r
      in r\<lparr>s_family_settled_state := s_family_settled_state r1, s_family_changed_ms := s_family_changed_ms r1,
           s_family_state := s_family_state r1,
           s_display_exit := (if s_instance_id r = i then None else s_display_exit r)\<rparr>)"

definition tx_exits :: "string \<Rightarrow> db \<Rightarrow> (string \<times> displayTransition) list" where
  "tx_exits i d = List.map_filter rowExit
     (filter (\<lambda>r. s_instance_id r = i \<and> s_display_exit r \<noteq> None) (spawns d))"

definition finish_tx :: "store \<Rightarrow> string \<Rightarrow> db \<Rightarrow> db" where
  "finish_tx s i d = d\<lparr>spawns := map (finish_row s d i) (spawns d), trail := trail d @ map displayEvent (tx_exits i d)\<rparr>"

lemma emitDisplayTransitions_eq: "emitDisplayTransitions es d = d\<lparr>trail := trail d @ map displayEvent es\<rparr>"
  by (induction es arbitrary: d) (simp_all add: emitDisplayTransitions_def emit_def)

lemma refreshRow_keeps [simp]:
  "s_instance_id (refreshRow tw now v r) = s_instance_id r" "s_display_exit (refreshRow tw now v r) = s_display_exit r"
  "s_family_state (refreshRow tw now v r) = v"
  by (simp_all add: refreshRow_def)

lemma refreshRow_state [simp]: "s_state (refreshRow tw now v r) = s_state r"
  by (simp add: refreshRow_def)

lemma update_where_True: "update_where (\<lambda>_. True) f rs = map f rs"
  by (simp add: update_where_def)

lemma rowExit_refreshRow [simp]: "rowExit (refreshRow tw now v r) = rowExit r"
  by (cases "s_display_exit r") (simp_all add: rowExit_def)

lemma update_where_finish:
  "update_where (\<lambda>r. s_instance_id r = i \<and> s_display_exit r \<noteq> None) (\<lambda>r. r\<lparr>s_display_exit := None\<rparr>)
     (map (\<lambda>r. refreshRow (settleMs s) (sql_now_ms d) (familyAggregate (spawns d) (s_instance_id r)) r) rs)
   = map (finish_row s d i) rs"
  unfolding update_where_def map_map
  by (rule map_cong[OF refl]) (auto simp: finish_row_def Let_def refreshRow_def)

lemma map_filter_map: "List.map_filter f (map g xs) = List.map_filter (f \<circ> g) xs"
  by (induction xs) (auto simp: map_filter_def)

lemma committed_tx:
  assumes "refreshFamilies s d1 = Inr (u, d2)" and "takeDisplayExits s i d2 = Inr (exits, d3)"
  shows "emitDisplayTransitions exits d3 = finish_tx s i d1"
proof -
  let ?v = "\<lambda>r. familyAggregate (spawns d1) (s_instance_id r)"
  let ?f = "\<lambda>r. refreshRow (settleMs s) (sql_now_ms d1) (?v r) r"
  have d2: "d2 = d1\<lparr>spawns := map ?f (spawns d1)\<rparr>"
    using assms(1) by (auto simp: refreshFamilies_def tx_exec_Inr Let_def)
  have held: "filter (\<lambda>r. s_instance_id r = i \<and> s_display_exit r \<noteq> None) (map ?f (spawns d1))
      = map ?f (filter (\<lambda>r. s_instance_id r = i \<and> s_display_exit r \<noteq> None) (spawns d1))"
    by (simp add: filter_map o_def)
  have eqs: "exits = List.map_filter rowExit (map ?f (filter (\<lambda>r. s_instance_id r = i \<and> s_display_exit r \<noteq> None) (spawns d1)))
     \<and> d3 = d1\<lparr>spawns := map (finish_row s d1 i) (spawns d1)\<rparr>"
    using assms(2) unfolding takeDisplayExits_def tx_exec_Inr Let_def d2
    by (simp add: held update_where_finish del: not_None_eq)
  then have sp: "d3 = d1\<lparr>spawns := map (finish_row s d1 i) (spawns d1)\<rparr>" ..
  have "exits = tx_exits i d1"
    using eqs by (simp add: tx_exits_def map_filter_map o_def)
  then show ?thesis
    by (simp add: sp emitDisplayTransitions_eq finish_tx_def)
qed

lemma inImmediateTx_Inr:
  "inImmediateTx s i fn d = (Inr a, d') \<Longrightarrow> \<exists>d1. fn d = Inr (a, d1) \<and> d' = finish_tx s i d1"
  by (auto simp: inImmediateTx_def committed_tx split: if_splits sum.splits)

lemma inImmediateTx_Inl: "inImmediateTx s i fn d = (Inl e, d') \<Longrightarrow> d' = d"
  by (auto simp: inImmediateTx_def split: if_splits sum.splits)

lemma execFamily_True:
  "execFamily s i what stmt d = (Inr True, d') \<Longrightarrow> \<exists>d1. stmt d = (True, d1) \<and> d' = finish_tx s i d1"
  by (auto simp: execFamily_def execFamilyTx_def tx_exec_def split: prod.splits sum.splits store_error.splits if_splits
      dest!: inImmediateTx_Inr)

lemma execFamily_False: "execFamily s i what stmt d = (Inr False, d') \<Longrightarrow> d' = d \<and> \<not> fst (stmt d)"
  by (auto simp: execFamily_def execFamilyTx_def inImmediateTx_def tx_exec_def refreshFamilies_def takeDisplayExits_def
      split: prod.splits sum.splits store_error.splits if_splits)

lemma execFamily_Inl: "execFamily s i what stmt d = (Inl e, d') \<Longrightarrow> d' = d"
  by (auto simp: execFamily_def execFamilyTx_def split: prod.splits sum.splits store_error.splits dest!: inImmediateTx_Inl)

text \<open>Without driver failures the statement's own answer decides.\<close>

lemma execFamily_ok:
  assumes "\<And>w. \<not> sqlFails s w"
  shows "execFamily s i what stmt d =
    (if fst (stmt d) then (Inr True, finish_tx s i (snd (stmt d))) else (Inr False, d))"
proof -
  obtain n d1 where st: "stmt d = (n, d1)" by force
  show ?thesis
  proof (cases n)
    case True
    obtain u d2 where r: "refreshFamilies s d1 = Inr (u, d2)"
      using assms by (auto simp: refreshFamilies_def tx_exec_def Let_def)
    obtain ex d3 where t: "takeDisplayExits s i d2 = Inr (ex, d3)"
      using assms by (auto simp: takeDisplayExits_def tx_exec_def Let_def)
    show ?thesis
      using True assms r t committed_tx[OF r t] by (simp add: execFamily_def execFamilyTx_def inImmediateTx_def tx_exec_def st)
  next
    case False
    then show ?thesis
      using assms by (simp add: execFamily_def execFamilyTx_def inImmediateTx_def tx_exec_def st)
  qed
qed

lemma finish_row_keeps [simp]:
  "s_instance_id (finish_row s d i r) = s_instance_id r" "s_parent_id (finish_row s d i r) = s_parent_id r"
  "s_state (finish_row s d i r) = s_state r" "s_row_version (finish_row s d i r) = s_row_version r"
  "s_pane_pid (finish_row s d i r) = s_pane_pid r" "s_pane_starttime (finish_row s d i r) = s_pane_starttime r"
  "s_display_observation (finish_row s d i r) = s_display_observation r"
  "s_session_id (finish_row s d i r) = s_session_id r" "s_agent (finish_row s d i r) = s_agent r"
  "s_idle_since (finish_row s d i r) = s_idle_since r" "s_launch_started_at (finish_row s d i r) = s_launch_started_at r"
  "s_ended_at (finish_row s d i r) = s_ended_at r" "s_settled_state (finish_row s d i r) = s_settled_state r"
  "s_family_state (finish_row s d i r) = familyAggregate (spawns d) (s_instance_id r)"
  by (simp_all add: finish_row_def Let_def)

lemma familyMember_finish_row [simp]: "familyMember (finish_row s d i r) = familyMember r"
  by (simp add: familyMember_def)

lemma finish_tx_tables [simp]:
  "spawns (finish_tx s i d) = map (finish_row s d i) (spawns d)"
  "permission_requests (finish_tx s i d) = permission_requests d"
  "session_history (finish_tx s i d) = session_history d" "subagents (finish_tx s i d) = subagents d"
  "subagent_launches (finish_tx s i d) = subagent_launches d" "cursor_runtimes (finish_tx s i d) = cursor_runtimes d"
  "sql_now_ms (finish_tx s i d) = sql_now_ms d" "sql_now_text (finish_tx s i d) = sql_now_text d"
  "go_now_ms (finish_tx s i d) = go_now_ms d" "next_request_id (finish_tx s i d) = next_request_id d"
  by (simp_all add: finish_tx_def)

lemma find_map_key: "(\<And>r. k (f r) = k r) \<Longrightarrow> find (\<lambda>r. k r = i) (map f rs) = map_option f (find (\<lambda>r. k r = i) rs)"
  by (induction rs) auto

lemma find_spawn_finish_tx [simp]:
  "find_spawn (finish_tx s j d) i = map_option (finish_row s d j) (find_spawn d i)"
  by (simp add: find_spawn_def find_map_key)

lemma parent_rel_set: "parent_rel rs = {x. \<exists>r \<in> set rs. \<exists>p. s_parent_id r = Some p \<and> x = (s_instance_id r, p)}"
  by (auto simp: parent_rel_def)

lemma parent_rel_map: "(\<And>r. s_instance_id (f r) = s_instance_id r) \<Longrightarrow> (\<And>r. s_parent_id (f r) = s_parent_id r)
    \<Longrightarrow> parent_rel (map f rs) = parent_rel rs"
  by (simp add: parent_rel_set)

lemma family_working_finish:
  "family_working (map (finish_row s d i) rs) = family_working rs"
  by (simp add: fun_eq_iff family_working_def parent_rel_map)

section \<open>Invariants of the store as an interface\<close>

text \<open>
  An invariant \<open>J\<close> of the database together with the moves \<open>A\<close> it allows (\<open>A d r v\<close>: the row
  may move to state \<open>v\<close>): the trail and the end of a transaction keep it, and so does an update
  that keeps the key and makes allowed moves. What a call keeps is then proved from the state its
  statements give a row, whatever other connections that keep \<open>J\<close> do between them.
\<close>

definition keeps :: "(db \<Rightarrow> bool) \<Rightarrow> 'a call \<Rightarrow> bool" where
  "keeps J m \<longleftrightarrow> (\<forall>d. J d \<longrightarrow> J (snd (m d)))"

definition rely :: "(db \<Rightarrow> bool) \<Rightarrow> store \<Rightarrow> bool" where
  "rely J s \<longleftrightarrow> (\<forall>n d. J d \<longrightarrow> J (others s n d))"

lemma keepsD: "keeps J m \<Longrightarrow> J d \<Longrightarrow> J (snd (m d))"
  by (simp add: keeps_def)

lemma keeps_bind [intro!]: "keeps J m \<Longrightarrow> (\<And>a. keeps J (f a)) \<Longrightarrow> keeps J (call_bind m f)"
  by (fastforce simp: keeps_def call_bind_def split: prod.splits sum.splits)

lemma keeps_if [intro!]: "(b \<Longrightarrow> keeps J x) \<Longrightarrow> (\<not> b \<Longrightarrow> keeps J y) \<Longrightarrow> keeps J (if b then x else y)"
  by simp

lemma keeps_option [intro!]: "(v = None \<Longrightarrow> keeps J x) \<Longrightarrow> (\<And>a. v = Some a \<Longrightarrow> keeps J (y a))
    \<Longrightarrow> keeps J (case v of None \<Rightarrow> x | Some a \<Rightarrow> y a)"
  by (cases v) simp_all

lemma keeps_return [intro!]: "keeps J (call_return a)"
  by (simp add: keeps_def call_return_def)

lemma keeps_read_then [intro!]: "rely J s \<Longrightarrow> keeps J (read_then s n q)"
  by (simp add: keeps_def rely_def read_then_def split: sum.splits)

lemma keeps_write_then [intro!]: "rely J s \<Longrightarrow> keeps J m \<Longrightarrow> keeps J (write_then s n m)"
  by (fastforce simp: keeps_def rely_def write_then_def split: prod.splits sum.splits)

locale store_invariant =
  fixes J :: "db \<Rightarrow> bool" and A :: "db \<Rightarrow> spawn_row \<Rightarrow> string \<Rightarrow> bool"
  assumes J_trail: "J (d\<lparr>trail := x\<rparr>) = J d"
    and J_finish: "J d \<Longrightarrow> J (finish_tx s i d)"
    and A_same: "A d r (s_state r)"
    and J_update: "J d \<Longrightarrow> (\<And>r. s_instance_id (f r) = s_instance_id r)
      \<Longrightarrow> (\<And>r. r \<in> set (spawns d) \<Longrightarrow> P r \<Longrightarrow> A d r (s_state (f r)))
      \<Longrightarrow> J (d\<lparr>spawns := update_where P f (spawns d)\<rparr>)"
begin

lemma J_emit [simp]: "J (emit e d) = J d"
  by (simp add: emit_def J_trail)

lemma J_update_spawns:
  "J d \<Longrightarrow> (\<And>r. s_instance_id (f r) = s_instance_id r) \<Longrightarrow> (\<And>r. r \<in> set (spawns d) \<Longrightarrow> P r \<Longrightarrow> A d r (s_state (f r)))
    \<Longrightarrow> J (snd (update_spawns P f d))"
  by (simp add: update_spawns_def J_update)

lemma J_display: "J (emitDisplayTransitions es d) = J d"
  by (simp add: emitDisplayTransitions_eq J_trail)

lemma J_refresh_families: "J d \<Longrightarrow> refreshFamilies s d = Inr (u, d') \<Longrightarrow> J d'"
  by (auto simp: refreshFamilies_def tx_exec_Inr Let_def update_where_True[symmetric] refreshRow_state A_same intro!: J_update)

lemma keeps_execFamily:
  assumes "\<And>d. J d \<Longrightarrow> J (snd (stmt d))"
  shows "keeps J (execFamily s i what stmt)"
  unfolding keeps_def
proof (intro allI impI)
  fix d assume d: "J d"
  obtain x d' where e: "execFamily s i what stmt d = (x, d')" by force
  show "J (snd (execFamily s i what stmt d))"
  proof (cases x)
    case (Inl a)
    with e d show ?thesis by (auto dest: execFamily_Inl)
  next
    case (Inr b)
    show ?thesis
    proof (cases b)
      case True
      with e Inr obtain d1 where "stmt d = (True, d1)" "d' = finish_tx s i d1"
        by (auto dest: execFamily_True)
      with assms[OF d] e show ?thesis by (simp add: J_finish)
    next
      case False
      with e Inr d show ?thesis by (auto dest: execFamily_False)
    qed
  qed
qed

lemma keeps_inImmediateTx:
  assumes "\<And>d a d1. J d \<Longrightarrow> fn d = Inr (a, d1) \<Longrightarrow> J d1"
  shows "keeps J (inImmediateTx s i fn)"
  unfolding keeps_def
proof (intro allI impI)
  fix d assume d: "J d"
  obtain x d' where e: "inImmediateTx s i fn d = (x, d')" by force
  show "J (snd (inImmediateTx s i fn d))"
  proof (cases x)
    case (Inl a)
    with e d show ?thesis by (auto dest: inImmediateTx_Inl)
  next
    case (Inr a)
    with e obtain d1 where "fn d = Inr (a, d1)" "d' = finish_tx s i d1"
      by (auto dest: inImmediateTx_Inr)
    with assms[OF d] e show ?thesis by (simp add: J_finish)
  qed
qed

end

section \<open>Guarantees of a call\<close>

text \<open>
  A two-state guarantee: a reflexive and transitive relation \<open>G\<close> the trail does not affect. A
  call honours it when the database it leaves is related to the one it started from; a call
  whose statements respect it does, provided the other connections do.
\<close>

definition honours :: "(db \<Rightarrow> db \<Rightarrow> bool) \<Rightarrow> 'a call \<Rightarrow> bool" where
  "honours G m \<longleftrightarrow> (\<forall>d. G d (snd (m d)))"

definition tx_honours :: "(db \<Rightarrow> db \<Rightarrow> bool) \<Rightarrow> 'a tx \<Rightarrow> bool" where
  "tx_honours G t \<longleftrightarrow> (\<forall>d a d'. t d = Inr (a, d') \<longrightarrow> G d d')"

definition others_honour :: "(db \<Rightarrow> db \<Rightarrow> bool) \<Rightarrow> store \<Rightarrow> bool" where
  "others_honour G s \<longleftrightarrow> (\<forall>n d. G d (others s n d))"

locale guarantee =
  fixes G :: "db \<Rightarrow> db \<Rightarrow> bool"
  assumes G_refl: "G d d" and G_trans: "G a b \<Longrightarrow> G b c \<Longrightarrow> G a c" and G_trail: "G d (d\<lparr>trail := x\<rparr>)"
begin

lemma G_emit: "G d (emit e d)"
  by (simp add: emit_def G_trail)

lemma honours_return: "honours G (call_return a)"
  by (simp add: honours_def call_return_def G_refl)

lemma honours_fail: "honours G (\<lambda>d. (Inl e, d))"
  by (simp add: honours_def G_refl)

lemma honours_bind: "honours G m \<Longrightarrow> (\<And>a. honours G (f a)) \<Longrightarrow> honours G (call_bind m f)"
  by (auto simp: honours_def call_bind_def split: prod.splits sum.splits intro: G_trans dest: spec)
    (metis G_trans snd_conv)+

lemma honours_read_then: "others_honour G s \<Longrightarrow> honours G (read_then s n q)"
  by (simp add: honours_def others_honour_def read_then_def G_refl split: sum.splits)

lemma tx_honours_return: "tx_honours G (tx_return a)"
  by (simp add: tx_honours_def tx_return_def G_refl)

lemma tx_honours_bind: "tx_honours G t \<Longrightarrow> (\<And>a. tx_honours G (f a)) \<Longrightarrow> tx_honours G (tx_bind t f)"
  unfolding tx_honours_def tx_bind_Inr by (meson G_trans)

lemma tx_honours_exec: "(\<And>d. G d (snd (stmt d))) \<Longrightarrow> tx_honours G (tx_exec s what stmt)"
  unfolding tx_honours_def tx_exec_Inr by (metis snd_conv)

lemma tx_honours_fail: "tx_honours G (\<lambda>d. Inl e)"
  by (simp add: tx_honours_def)

end

section \<open>Properties of the family aggregate\<close>

text \<open>
  C32. The recursive family query computes the closure: a row's aggregate is working exactly when
  the row or some descendant along stored parent links (of any depth, cycles and dangling links
  included) is a working member.
\<close>

theorem familyAggregate_is_descendant_closure:
  "familyAggregate rs i = (if \<exists>r \<in> set rs. familyMember r \<and> (s_instance_id r, i) \<in> (parent_rel rs)\<^sup>*
                           then StateWorking else StateWaiting)"
  using familyAggregate_spec[of rs i] by (simp add: family_working_def)

text \<open>
  C33. A lifecycle transaction is all or nothing, and a committed one leaves every row's stored
  family state equal to the aggregate of the rows it leaves.
\<close>

theorem lifecycle_tx_atomic_and_fresh:
  "(case inImmediateTx s i fn d of
      (Inl _, d') \<Rightarrow> d' = d
    | (Inr _, d') \<Rightarrow> list_all (\<lambda>r. s_family_state r = familyAggregate (spawns d') (s_instance_id r)) (spawns d'))"
proof (cases "inImmediateTx s i fn d")
  case (Pair x d')
  show ?thesis
  proof (cases x)
    case (Inl e)
    with Pair show ?thesis by (auto dest: inImmediateTx_Inl)
  next
    case (Inr a)
    with Pair obtain d1 where "d' = finish_tx s i d1" by (auto dest: inImmediateTx_Inr)
    then have "familyAggregate (spawns d') = familyAggregate (spawns d1)"
      by (simp add: fun_eq_iff familyAggregate_spec family_working_finish)
    with \<open>d' = finish_tx s i d1\<close> show ?thesis by (simp add: Pair Inr list_all_iff)
  qed
qed

end
