(* ===== verification/Requests.thy ===== *)
theory Requests
  imports Family
begin

text \<open>
  Permission requests (permission.go, request_close.go) and the subagent close (subagents.go): the
  scanned request with its predicates, the same predicates as SQL conditions on the stored row,
  and the closes that end a row's launch, in the transaction of the write that ends it.
\<close>

section \<open>Scanned requests\<close>

text \<open>
  A Go time is its milliseconds since the epoch; \<open>zeroTime\<close> is \<open>time.Time{}\<close> (1 January of year 1,
  UTC), which \<open>millisTime\<close> gives for NULL.
\<close>

definition zeroTime :: int where "zeroTime = -62135596800000"

definition millisTime :: "int option \<Rightarrow> int" where
  "millisTime v = (case v of None \<Rightarrow> zeroTime | Some ms \<Rightarrow> ms)"

record PermissionRow =
  RequestID :: int
  InstanceID :: string
  RequestToken :: string
  ToolName :: string
  ToolInput :: string
  Decision :: string
  DecisionReason :: string
  DecidedAt :: string
  CreatedAt :: string
  Hook :: ProcessIdentity
  ToolUseID :: string
  AgentID :: string
  MainTurnEndEligible :: bool
  DeliveredAt :: int
  SettledAt :: int
  HookGoneAt :: int
  AttemptedDecision :: string
  AttemptedAt :: int
  PaneAnswer :: string
  PaneAs :: string
  PaneSender :: ProcessIdentity
  PaneIntentAt :: int
  ClosedAt :: int
  ProvenGoneAt :: int
  ProvenGoneHow :: string
  OwnerLaunchToken :: string
  OwnerPermissionEpoch :: int
  AdmittedAt :: int
  FallbackAt :: int
  FallbackBasis :: string

definition scanPermissionRow :: "perm_row \<Rightarrow> PermissionRow" where
  "scanPermissionRow p = \<lparr>RequestID = pr_request_id p, InstanceID = pr_instance_id p,
     RequestToken = pr_request_token p, ToolName = pr_tool_name p, ToolInput = pr_tool_input p,
     Decision = coalesce (pr_decision p) [], DecisionReason = coalesce (pr_decision_reason p) [],
     DecidedAt = coalesce (pr_decided_at p) [], CreatedAt = pr_created_at p,
     Hook = \<lparr>pi_PID = coalesce (pr_hook_pid p) 0, pi_Starttime = coalesce (pr_hook_starttime p) [],
             pi_PIDNamespace = coalesce (pr_hook_pidns p) []\<rparr>,
     ToolUseID = coalesce (pr_tool_use_id p) [], AgentID = coalesce (pr_agent_id p) [],
     MainTurnEndEligible = pr_main_turn_end_eligible p,
     DeliveredAt = millisTime (pr_delivered_at p), SettledAt = millisTime (pr_settled_at p),
     HookGoneAt = millisTime (pr_hook_gone_at p),
     AttemptedDecision = coalesce (pr_attempted_decision p) [], AttemptedAt = millisTime (pr_attempted_at p),
     PaneAnswer = pr_pane_answer p, PaneAs = coalesce (pr_pane_as p) [],
     PaneSender = \<lparr>pi_PID = coalesce (pr_pane_sender_pid p) 0,
             pi_Starttime = coalesce (pr_pane_sender_starttime p) [],
             pi_PIDNamespace = coalesce (pr_pane_sender_pidns p) []\<rparr>,
     PaneIntentAt = millisTime (pr_pane_intent_at p), ClosedAt = millisTime (pr_closed_at p),
     ProvenGoneAt = millisTime (pr_proven_gone_at p), ProvenGoneHow = coalesce (pr_proven_gone_how p) [],
     OwnerLaunchToken = coalesce (pr_owner_launch_token p) [],
     OwnerPermissionEpoch = coalesce (pr_owner_permission_epoch p) (-1),
     AdmittedAt = millisTime (pr_admitted_at p), FallbackAt = millisTime (pr_fallback_at p),
     FallbackBasis = coalesce (pr_fallback_basis p) []\<rparr>"

definition ProvenGone :: "PermissionRow \<Rightarrow> bool" where
  "ProvenGone r \<longleftrightarrow> ProvenGoneAt r \<noteq> zeroTime"

definition OfEarlierCursorLaunch :: "string \<Rightarrow> string \<Rightarrow> PermissionRow \<Rightarrow> bool" where
  "OfEarlierCursorLaunch agent launchToken r \<longleftrightarrow>
     agent = AgentCursor \<and> launchToken \<noteq> [] \<and> OwnerLaunchToken r \<noteq> [] \<and> OwnerLaunchToken r \<noteq> launchToken"

definition HoldsDialog :: "string \<Rightarrow> string \<Rightarrow> PermissionRow \<Rightarrow> bool" where
  "HoldsDialog agent launchToken r \<longleftrightarrow> \<not> ProvenGone r \<and> \<not> OfEarlierCursorLaunch agent launchToken r"

definition PreV7 :: "PermissionRow \<Rightarrow> bool" where
  "PreV7 r \<longleftrightarrow> SettledAt r = zeroTime"

definition Closed :: "PermissionRow \<Rightarrow> bool" where
  "Closed r \<longleftrightarrow> ClosedAt r \<noteq> zeroTime"

definition CloseDenied :: "PermissionRow \<Rightarrow> bool" where
  "CloseDenied r \<longleftrightarrow> DecisionReason r = DecisionReasonFindMissing \<or> DecisionReason r = DecisionReasonEnded"

definition PaneAnswered :: "PermissionRow \<Rightarrow> bool" where
  "PaneAnswered r \<longleftrightarrow> PaneAnswer r = PaneAnswerSent \<or> PaneAnswer r = PaneAnswerOutside \<or> PaneAnswer r = PaneAnswerToolRan"

definition AwaitsAnswer :: "PermissionRow \<Rightarrow> bool" where
  "AwaitsAnswer r =
     (if Closed r \<or> PaneAnswered r then False
      else if PreV7 r then Decision r = []
      else DeliveredAt r = zeroTime)"

section \<open>The same predicates as SQL conditions\<close>

definition cursorHoldsDialog :: "string \<Rightarrow> perm_row \<Rightarrow> bool" where
  "cursorHoldsDialog launchToken p \<longleftrightarrow>
     pr_proven_gone_at p = None
     \<and> \<not> (launchToken \<noteq> [] \<and> coalesce (pr_owner_launch_token p) [] \<notin> {[], launchToken})"

definition awaitingAnswer :: "perm_row \<Rightarrow> bool" where
  "awaitingAnswer p \<longleftrightarrow>
     pr_closed_at p = None \<and> pr_pane_answer p \<in> {PaneAnswerNone, PaneAnswerIntent}
     \<and> (if pr_settled_at p = None then pr_decision p = None else pr_delivered_at p = None)"

definition holdsRow :: "perm_row \<Rightarrow> bool" where
  "holdsRow p \<longleftrightarrow> awaitingAnswer p \<and> pr_proven_gone_at p = None"

definition holdingRequest :: "string \<Rightarrow> db \<Rightarrow> bool" where
  "holdingRequest i d = any_row (\<lambda>p. pr_instance_id p = i \<and> holdsRow p) (permission_requests d)"

definition noRequestHoldsRow :: "db \<Rightarrow> spawn_row \<Rightarrow> bool" where
  "noRequestHoldsRow d r \<longleftrightarrow>
     \<not> any_row (\<lambda>p. pr_instance_id p = s_instance_id r \<and> holdsRow p) (permission_requests d)"

text \<open>
  The columns the store writes: instants are not the zero time, a stored verdict is not empty and
  \<open>pane_answer\<close> is one of its five values.
\<close>

definition stored_request :: "perm_row \<Rightarrow> bool" where
  "stored_request p \<longleftrightarrow>
     pr_closed_at p \<noteq> Some zeroTime \<and> pr_settled_at p \<noteq> Some zeroTime \<and> pr_delivered_at p \<noteq> Some zeroTime
     \<and> pr_proven_gone_at p \<noteq> Some zeroTime \<and> pr_decision p \<noteq> Some []
     \<and> pr_pane_answer p \<in> {PaneAnswerNone, PaneAnswerIntent, PaneAnswerSent, PaneAnswerOutside, PaneAnswerToolRan}"

lemma millisTime_zero [simp]: "millisTime v = zeroTime \<longleftrightarrow> v = None \<or> v = Some zeroTime"
  by (auto simp: millisTime_def split: option.splits)

lemma coalesce_empty [simp]: "coalesce v [] = [] \<longleftrightarrow> v = None \<or> v = Some []"
  by (cases v) auto

lemma scanned_awaits:
  assumes "stored_request p"
  shows "AwaitsAnswer (scanPermissionRow p) \<longleftrightarrow> awaitingAnswer p"
proof -
  have "PaneAnswered (scanPermissionRow p) \<longleftrightarrow> pr_pane_answer p \<notin> {PaneAnswerNone, PaneAnswerIntent}"
    using assms by (auto simp: PaneAnswered_def scanPermissionRow_def stored_request_def)
  then show ?thesis
    using assms by (auto simp: AwaitsAnswer_def Closed_def PreV7_def awaitingAnswer_def stored_request_def
        scanPermissionRow_def)
qed

lemma scanned_proven: "stored_request p \<Longrightarrow> ProvenGone (scanPermissionRow p) \<longleftrightarrow> pr_proven_gone_at p \<noteq> None"
  by (auto simp: ProvenGone_def scanPermissionRow_def stored_request_def)

section \<open>The close of a row's requests\<close>

record closedRequest =
  cl_requestID :: int
  cl_token :: string
  cl_toolName :: string
  cl_denied :: bool

definition closedOf :: "bool \<Rightarrow> perm_row \<Rightarrow> closedRequest" where
  "closedOf dn p = \<lparr>cl_requestID = pr_request_id p, cl_token = pr_request_token p, cl_toolName = pr_tool_name p, cl_denied = dn\<rparr>"

definition denyOrphaned :: "string \<Rightarrow> perm_row \<Rightarrow> bool" where
  "denyOrphaned i p \<longleftrightarrow> pr_instance_id p = i \<and> pr_decision p = None \<and> awaitingAnswer p"

definition closeDecided :: "string \<Rightarrow> perm_row \<Rightarrow> bool" where
  "closeDecided i p \<longleftrightarrow> pr_instance_id p = i \<and> pr_decision p \<noteq> None \<and> pr_closed_at p = None
     \<and> pr_pane_answer p \<in> {PaneAnswerNone, PaneAnswerIntent} \<and> pr_delivered_at p = None"

definition proveAgentGone :: "string \<Rightarrow> db \<Rightarrow> perm_row \<Rightarrow> bool" where
  "proveAgentGone i d p \<longleftrightarrow> pr_instance_id p = i \<and> pr_proven_gone_at p = None
     \<and> any_row (\<lambda>r. s_instance_id r = pr_instance_id p \<and> s_agent r \<noteq> AgentCursor) (spawns d)"

definition queryClosedRequests ::
    "store \<Rightarrow> string \<Rightarrow> bool \<Rightarrow> (perm_row \<Rightarrow> bool) \<Rightarrow> (perm_row \<Rightarrow> perm_row) \<Rightarrow> closedRequest list tx" where
  "queryClosedRequests s what dn P f = tx_exec s what (\<lambda>d.
     (map (closedOf dn) (filter P (permission_requests d)),
      d\<lparr>permission_requests := update_where P f (permission_requests d)\<rparr>))"

definition closeOrphanedRequests :: "store \<Rightarrow> string \<Rightarrow> string \<Rightarrow> int \<Rightarrow> closedRequest list tx" where
  "closeOrphanedRequests s i reason at d0 =
     tx_bind (queryClosedRequests s ''deny orphaned requests'' True (denyOrphaned i)
        (\<lambda>p. p\<lparr>pr_decision := Some ''deny'', pr_decision_reason := Some reason,
               pr_decided_at := Some (sql_now_text d0), pr_closed_at := Some at\<rparr>)) (\<lambda>denied.
     tx_bind (queryClosedRequests s ''close decided requests'' False (closeDecided i)
        (\<lambda>p. p\<lparr>pr_closed_at := Some at\<rparr>)) (\<lambda>kept.
     tx_bind (tx_exec s ''prove requests gone'' (\<lambda>d.
        ((), d\<lparr>permission_requests := update_where (proveAgentGone i d)
               (\<lambda>p. p\<lparr>pr_proven_gone_at := Some at, pr_proven_gone_how := Some ProvenGoneAgentGone\<rparr>)
               (permission_requests d)\<rparr>))) (\<lambda>_.
     tx_return (sort_key cl_requestID (denied @ kept))))) d0"

definition null_or :: "string \<Rightarrow> trail_val" where
  "null_or v = (if v = [] then TNull else TS v)"

definition emitDecisionCommitted ::
    "string \<Rightarrow> string \<Rightarrow> int \<Rightarrow> string \<Rightarrow> string \<Rightarrow> string \<Rightarrow> string \<Rightarrow> db \<Rightarrow> db" where
  "emitDecisionCommitted i token rid tool decision reason writer = emit (''ad.row_mutation.committed'',
     [(''instance_id'', TS i), (''request_token'', TS token), (''request_id'', TI rid), (''tool_name'', TS tool),
      (''decision'', null_or decision), (''decision_reason'', null_or reason), (''writer_process'', TS writer),
      (''mutation_kind'', TS ''update''), (''source'', TS ''ad_store'')])"

definition emitDeny :: "string \<Rightarrow> string \<Rightarrow> string \<Rightarrow> closedRequest \<Rightarrow> db \<Rightarrow> db" where
  "emitDeny i reason writer c d =
     (if cl_denied c then emitDecisionCommitted i (cl_token c) (cl_requestID c) (cl_toolName c) ''deny'' reason writer d
      else d)"

section \<open>The close of a row's subagents\<close>

definition agentGoneSet :: "int \<Rightarrow> subagent_row \<Rightarrow> subagent_row" where
  "agentGoneSet at a = a\<lparr>sa_state := SubagentStateLost, sa_close_reason := Some SubagentCloseAgentGone,
     sa_lost_at := Some at, sa_activity_at := at\<rparr>"

lemma agentGoneSet_keeps [simp]:
  "sa_state (agentGoneSet at a) = SubagentStateLost" "sa_instance_id (agentGoneSet at a) = sa_instance_id a"
  "sa_created_seq (agentGoneSet at a) = sa_created_seq a" "sa_subagent_id (agentGoneSet at a) = sa_subagent_id a"
  "sa_life_number (agentGoneSet at a) = sa_life_number a"
  by (simp_all add: agentGoneSet_def)

definition closeSubagentsAgentGone :: "store \<Rightarrow> string \<Rightarrow> int \<Rightarrow> unit tx" where
  "closeSubagentsAgentGone s i at d =
     (if at \<le> 0 then Inl (ErrInstantNotPositive at)
      else tx_bind (tx_exec s ''close subagent entries'' (\<lambda>d.
          ((), d\<lparr>subagents := update_where (\<lambda>a. sa_instance_id a = i \<and> sa_state a = SubagentStateRunning)
                 (agentGoneSet at) (subagents d)\<rparr>))) (\<lambda>_.
        tx_exec s ''close subagent launches'' (\<lambda>d.
          ((), d\<lparr>subagent_launches := filter (\<lambda>l. sl_instance_id l \<noteq> i) (subagent_launches d)\<rparr>))) d)"

section \<open>What the closes achieve\<close>

text \<open>The requests after a close, statement by statement, as one function of the request.\<close>

definition closed_request :: "db \<Rightarrow> string \<Rightarrow> string \<Rightarrow> int \<Rightarrow> perm_row \<Rightarrow> perm_row" where
  "closed_request d i reason at p =
     (let p1 = (if denyOrphaned i p then p\<lparr>pr_decision := Some ''deny'', pr_decision_reason := Some reason,
                  pr_decided_at := Some (sql_now_text d), pr_closed_at := Some at\<rparr> else p);
          p2 = (if closeDecided i p1 then p1\<lparr>pr_closed_at := Some at\<rparr> else p1)
      in if proveAgentGone i d p2
         then p2\<lparr>pr_proven_gone_at := Some at, pr_proven_gone_how := Some ProvenGoneAgentGone\<rparr> else p2)"

lemma proveAgentGone_requests [simp]:
  "proveAgentGone i (d\<lparr>permission_requests := x\<rparr>) = proveAgentGone i d"
  by (simp add: fun_eq_iff proveAgentGone_def)

lemma closeOrphanedRequests_Inr:
  assumes "closeOrphanedRequests s i reason at d = Inr (cs, d')"
  shows "d' = d\<lparr>permission_requests := map (closed_request d i reason at) (permission_requests d)\<rparr>"
  using assms
  by (auto simp: closeOrphanedRequests_def queryClosedRequests_def tx_bind_Inr tx_exec_Inr tx_return_def
      update_where_def closed_request_def Let_def o_def)

lemma closeSubagentsAgentGone_Inr:
  assumes "closeSubagentsAgentGone s i at d = Inr (u, d')"
  shows "at > 0 \<and> d' = d\<lparr>subagents := update_where (\<lambda>a. sa_instance_id a = i \<and> sa_state a = SubagentStateRunning)
                 (agentGoneSet at) (subagents d),
           subagent_launches := filter (\<lambda>l. sl_instance_id l \<noteq> i) (subagent_launches d)\<rparr>"
  using assms
  by (auto simp: closeSubagentsAgentGone_def tx_bind_Inr tx_exec_Inr split: if_splits)

lemma closed_request_other: "pr_instance_id p \<noteq> i \<Longrightarrow> closed_request d i reason at p = p"
  by (simp add: closed_request_def denyOrphaned_def closeDecided_def proveAgentGone_def Let_def)

lemma closed_request_not_awaiting:
  "pr_instance_id p = i \<Longrightarrow> \<not> awaitingAnswer (closed_request d i reason at p)"
  by (auto simp: closed_request_def denyOrphaned_def closeDecided_def awaitingAnswer_def Let_def)

lemma closed_request_keys [simp]:
  "pr_instance_id (closed_request d i reason at p) = pr_instance_id p"
  "pr_request_id (closed_request d i reason at p) = pr_request_id p"
  "pr_request_token (closed_request d i reason at p) = pr_request_token p"
  by (simp_all add: closed_request_def Let_def)

lemma closed_request_decision:
  "pr_decision p = Some v \<Longrightarrow> pr_decision (closed_request d i reason at p) = Some v"
  by (auto simp: closed_request_def denyOrphaned_def Let_def)

lemma closed_request_holds: "holdsRow (closed_request d i reason at p) \<Longrightarrow> holdsRow p"
  by (auto simp: closed_request_def denyOrphaned_def closeDecided_def proveAgentGone_def awaitingAnswer_def holdsRow_def
      Let_def split: if_splits)

section \<open>Invariants of the rows\<close>

text \<open>
  A row a request holds is not reported as working; keys are unique and a row's state is live or
  terminal (a displayed state is derived, never stored).
\<close>

definition held_not_working :: "db \<Rightarrow> bool" where
  "held_not_working d \<longleftrightarrow> list_all (\<lambda>r. s_state r = StateWorking \<longrightarrow> noRequestHoldsRow d r) (spawns d)"

definition working_allowed :: "db \<Rightarrow> spawn_row \<Rightarrow> string \<Rightarrow> bool" where
  "working_allowed d r v \<longleftrightarrow> (v = StateWorking \<longrightarrow> s_state r = StateWorking \<or> noRequestHoldsRow d r)"

definition rows_ok :: "db \<Rightarrow> bool" where
  "rows_ok d \<longleftrightarrow> distinct (map s_instance_id (spawns d))
     \<and> list_all (\<lambda>r. IsLiveState (s_state r) \<or> isTerminalState (s_state r)) (spawns d)"

definition stored_state_allowed :: "db \<Rightarrow> spawn_row \<Rightarrow> string \<Rightarrow> bool" where
  "stored_state_allowed d r v \<longleftrightarrow> v = s_state r \<or> IsLiveState v \<or> isTerminalState v"

lemma noRequestHoldsRow_cong:
  "permission_requests d' = permission_requests d \<Longrightarrow> s_instance_id r' = s_instance_id r
    \<Longrightarrow> noRequestHoldsRow d' r' = noRequestHoldsRow d r"
  by (simp add: noRequestHoldsRow_def)

interpretation held: store_invariant held_not_working working_allowed
proof unfold_locales
  fix d :: db and r s i
  show "held_not_working (d\<lparr>trail := x\<rparr>) = held_not_working d" for x
    by (simp add: held_not_working_def noRequestHoldsRow_def)
  show "held_not_working d \<Longrightarrow> held_not_working (finish_tx s i d)"
    by (auto simp: held_not_working_def list_all_iff noRequestHoldsRow_def)
  show "working_allowed d r (s_state r)"
    by (simp add: working_allowed_def)
next
  fix d P and f :: "spawn_row \<Rightarrow> spawn_row"
  assume "held_not_working d" "\<And>r. s_instance_id (f r) = s_instance_id r"
    and "\<And>r. r \<in> set (spawns d) \<Longrightarrow> P r \<Longrightarrow> working_allowed d r (s_state (f r))"
  then show "held_not_working (d\<lparr>spawns := update_where P f (spawns d)\<rparr>)"
    by (fastforce simp: held_not_working_def working_allowed_def list_all_iff noRequestHoldsRow_def set_update_where)
qed

interpretation rows: store_invariant rows_ok stored_state_allowed
proof unfold_locales
  fix d :: db and r s i
  show "rows_ok (d\<lparr>trail := x\<rparr>) = rows_ok d" for x
    by (simp add: rows_ok_def)
  show "rows_ok d \<Longrightarrow> rows_ok (finish_tx s i d)"
    by (simp add: rows_ok_def list_all_iff o_def)
  show "stored_state_allowed d r (s_state r)"
    by (simp add: stored_state_allowed_def)
next
  fix d P and f :: "spawn_row \<Rightarrow> spawn_row"
  assume "rows_ok d" and key: "\<And>r. s_instance_id (f r) = s_instance_id r"
    and "\<And>r. r \<in> set (spawns d) \<Longrightarrow> P r \<Longrightarrow> stored_state_allowed d r (s_state (f r))"
  then show "rows_ok (d\<lparr>spawns := update_where P f (spawns d)\<rparr>)"
    by (fastforce simp: rows_ok_def stored_state_allowed_def list_all_iff set_update_where map_update_where_key key)
qed

lemma held_closed_requests:
  "held_not_working d \<Longrightarrow> held_not_working (d\<lparr>permission_requests := map (closed_request d0 i reason at) (permission_requests d)\<rparr>)"
  by (auto simp: held_not_working_def list_all_iff noRequestHoldsRow_def dest: closed_request_holds)

section \<open>Properties of requests\<close>

text \<open>
  Go and SQL agree on which requests await an answer: on every row the store writes, the
  scanned row's \<open>AwaitsAnswer\<close> is the statements' \<open>awaitingAnswerSQL\<close>, and for a Cursor launch
  \<open>HoldsDialog\<close> is \<open>cursorHoldsDialogSQL\<close>.
\<close>

theorem go_and_sql_agree:
  assumes "stored_request p"
  shows "AwaitsAnswer (scanPermissionRow p) = awaitingAnswer p
       \<and> HoldsDialog AgentCursor tok (scanPermissionRow p) = cursorHoldsDialog tok p"
proof -
  have "HoldsDialog AgentCursor tok (scanPermissionRow p) = cursorHoldsDialog tok p"
    using scanned_proven[OF assms]
    by (auto simp: HoldsDialog_def cursorHoldsDialog_def OfEarlierCursorLaunch_def scanPermissionRow_def)
  with scanned_awaits[OF assms] show ?thesis by blast
qed

definition sample_request :: perm_row where
  "sample_request = \<lparr>pr_request_id = 1, pr_instance_id = ''a'', pr_request_token = ''k'', pr_tool_name = ''Bash'',
      pr_tool_input = ''{}'', pr_decision = None, pr_decision_reason = None, pr_decided_at = None,
      pr_created_at = ''2026-01-01 00:00:00'', pr_hook_pid = None, pr_hook_starttime = None, pr_hook_pidns = None,
      pr_tool_use_id = None, pr_agent_id = None, pr_delivered_at = None, pr_settled_at = Some 5000, pr_hook_gone_at = None,
      pr_attempted_decision = None, pr_attempted_at = None, pr_pane_answer = PaneAnswerNone, pr_pane_as = None,
      pr_pane_sender_pid = None, pr_pane_sender_starttime = None, pr_pane_sender_pidns = None,
      pr_pane_intent_at = None, pr_closed_at = None, pr_proven_gone_at = None, pr_proven_gone_how = None,
      pr_main_turn_end_eligible = True, pr_owner_launch_token = Some ''t1'', pr_owner_permission_epoch = Some 0,
      pr_admitted_at = Some 1, pr_fallback_at = None, pr_fallback_basis = None\<rparr>"

theorem go_and_sql_agree_witness:
  "AwaitsAnswer (scanPermissionRow sample_request) \<and> \<not> HoldsDialog AgentCursor ''t2'' (scanPermissionRow sample_request)"
  using go_and_sql_agree[of sample_request "''t2''"]
  by (simp add: sample_request_def stored_request_def awaitingAnswer_def cursorHoldsDialog_def zeroTime_def)

end
