(* ===== verification/Hook_Gate.thy ===== *)
theory Hook_Gate
  imports Requests
begin

text \<open>
  What a hook write is conditioned on (hook_gate.go): the hook's parent process must be the row's
  recorded pane process, and a Cursor row also needs its complete current runtime binding. With
  it the SET fragments every applied hook write carries (session record, pane start time) and the
  Codex turn bookkeeping (codex_turn.go).
\<close>

section \<open>The gate\<close>

record HookGate =
  g_CodexStartup :: bool
  g_Cursor :: "CursorRuntime option"
  g_ClaudeCapacitySnapshot :: "string option"
  g_Event :: string
  g_ParentPID :: int
  g_ParentStart :: string
  g_SessionID :: string
  g_SessionStart :: bool
  g_Examined :: RowSnapshot
  g_CodexTurn :: string
  g_CodexTurnStart :: bool
  g_CodexTurnEnd :: bool
  g_CodexToolTurn :: bool

record HookApplied =
  Applied :: bool
  Reason :: string

abbreviation "HookReasonPIDMismatch \<equiv> ''pid_mismatch''"
abbreviation "HookReasonNoPaneRecorded \<equiv> ''no_pane_recorded''"
abbreviation "HookReasonSubagentEvent \<equiv> ''subagent_event''"
abbreviation "HookReasonNoExecForm \<equiv> ''no_exec_form''"

datatype UpsertOutcome = UpsertInserted | UpsertUpdated | UpsertNoChange | UpsertError

definition cursorBindingMatch :: "CursorRuntime \<Rightarrow> CursorRuntime \<Rightarrow> bool" where
  "cursorBindingMatch b c \<longleftrightarrow>
     cr_InstanceID c = cr_InstanceID b \<and> cr_Token c = cr_Token b \<and> cr_Life c = cr_Life b
     \<and> cr_GatewayPID c = cr_GatewayPID b \<and> cr_GatewayStart c = cr_GatewayStart b
     \<and> cr_RuntimePID c = cr_RuntimePID b \<and> cr_RuntimeStart c = cr_RuntimeStart b
     \<and> cr_Connection c = cr_Connection b \<and> cr_InputPipe c = cr_InputPipe b
     \<and> cr_OutputPipe c = cr_OutputPipe b \<and> cr_InputFD c = cr_InputFD b \<and> cr_OutputFD c = cr_OutputFD b"

text \<open>The gate's EXISTS: the row's own launch is bound, and to the connection the hook presents.\<close>

definition cursorGate :: "db \<Rightarrow> HookGate \<Rightarrow> spawn_row \<Rightarrow> bool" where
  "cursorGate d g r = (case g_Cursor g of
     None \<Rightarrow> False
   | Some b \<Rightarrow> any_row (\<lambda>c.
        cr_InstanceID c = s_instance_id r
        \<and> where_true (sql_eq (Some (cr_Token c)) (s_launch_token r))
        \<and> cr_Life c = s_life_number r
        \<and> where_true (sql_eq (Some (cr_GatewayPID c)) (s_pane_pid r))
        \<and> where_true (sql_eq (Some (cr_GatewayStart c)) (s_pane_starttime r))
        \<and> cursorBindingMatch b c
        \<and> cr_SessionID c = g_SessionID g \<and> cr_Terminated c = cr_Terminated b) (cursor_runtimes d))"

definition hookGate :: "db \<Rightarrow> HookGate \<Rightarrow> spawn_row \<Rightarrow> bool" where
  "hookGate d g r \<longleftrightarrow>
     where_true (sql_and (sql_eq (s_pane_pid r) (positiveIntArg (g_ParentPID g)))
       (sql_and (Some (g_ParentStart g \<noteq> []))
         (sql_or (sql_eq (s_pane_starttime r) (Some (g_ParentStart g))) (sql_is_null (s_pane_starttime r)))))
     \<and> (s_agent r \<noteq> AgentCursor \<or> cursorGate d g r)"

lemma hookGate_iff [gate_defs]:
  "hookGate d g r \<longleftrightarrow>
     s_pane_pid r = Some (g_ParentPID g) \<and> g_ParentPID g > 0 \<and> g_ParentStart g \<noteq> []
     \<and> (s_pane_starttime r = Some (g_ParentStart g) \<or> s_pane_starttime r = None)
     \<and> (s_agent r \<noteq> AgentCursor \<or> cursorGate d g r)"
  by (auto simp: hookGate_def)

record hookGateRow =
  hg_found :: bool
  hg_state :: string
  hg_paneNull :: bool
  hg_gateMatches :: bool

definition readHookGateRow :: "store \<Rightarrow> string \<Rightarrow> HookGate \<Rightarrow> string \<Rightarrow> db \<Rightarrow> store_error + hookGateRow" where
  "readHookGateRow s i g errPrefix d =
     (if sqlFails s (errPrefix @ '': gate read'') then Inl (DriverError (errPrefix @ '': gate read''))
      else Inr (case find_spawn d i of
          None \<Rightarrow> \<lparr>hg_found = False, hg_state = [], hg_paneNull = False, hg_gateMatches = False\<rparr>
        | Some r \<Rightarrow> \<lparr>hg_found = True, hg_state = s_state r, hg_paneNull = (s_pane_pid r = None),
                     hg_gateMatches = hookGate d g r\<rparr>))"

definition notAppliedReason :: "hookGateRow \<Rightarrow> HookApplied" where
  "notAppliedReason r =
     (if \<not> hg_found r then \<lparr>Applied = False, Reason = []\<rparr>
      else if hg_paneNull r then \<lparr>Applied = False, Reason = HookReasonNoPaneRecorded\<rparr>
      else \<lparr>Applied = False, Reason = HookReasonPIDMismatch\<rparr>)"

definition hookNotApplied :: "store \<Rightarrow> string \<Rightarrow> HookGate \<Rightarrow> string \<Rightarrow> db \<Rightarrow> store_error + HookApplied" where
  "hookNotApplied s i g errPrefix d =
     (case readHookGateRow s i g errPrefix d of Inl e \<Rightarrow> Inl e | Inr r \<Rightarrow> Inr (notAppliedReason r))"

definition hookPaneStartSet :: "string \<Rightarrow> spawn_row \<Rightarrow> spawn_row" where
  "hookPaneStartSet start r = r\<lparr>s_pane_starttime := Some (coalesce (s_pane_starttime r) start)\<rparr>"

definition hookSessionRecordSet :: "HookGate \<Rightarrow> string \<Rightarrow> bool \<Rightarrow> spawn_row \<Rightarrow> spawn_row" where
  "hookSessionRecordSet g jsonlPath jsonlPresent r =
     (if g_SessionID g = [] then r
      else let noSession = (coalesce (s_session_id r) [] = [])
        in r\<lparr>s_session_id := (if noSession then Some (g_SessionID g) else s_session_id r),
             s_jsonl_path :=
               (if jsonlPath \<noteq> [] \<and> jsonlPresent then (if noSession then Some jsonlPath else s_jsonl_path r)
                else if jsonlPath \<noteq> [] then (if noSession then None else s_jsonl_path r)
                else s_jsonl_path r)\<rparr>)"

declare hookPaneStartSet_def [set_frags] hookSessionRecordSet_def [set_frags]

section \<open>Codex turns\<close>

definition codexTurnSet :: "HookGate \<Rightarrow> spawn_row \<Rightarrow> spawn_row" where
  "codexTurnSet g r =
     (if g_CodexTurnStart g then r\<lparr>s_codex_turn := nullableStringArg (g_CodexTurn g)\<rparr>
      else if g_CodexTurnEnd g \<and> g_CodexTurn g \<noteq> [] then
        r\<lparr>s_codex_turn := (if s_codex_turn r = None \<or> s_codex_turn r = s_codex_turn_ended r
                              \<or> s_codex_turn r = Some (g_CodexTurn g)
                            then Some (g_CodexTurn g) else s_codex_turn r),
          s_codex_turn_ended := Some (g_CodexTurn g)\<rparr>
      else r)"

declare codexTurnSet_def [set_frags]

definition codexToolTurn :: "HookGate \<Rightarrow> bool" where
  "codexToolTurn g \<longleftrightarrow> g_CodexToolTurn g \<and> g_CodexTurn g \<noteq> []"

definition codexToolTurnCurrent :: "string \<Rightarrow> spawn_row \<Rightarrow> bool" where
  "codexToolTurnCurrent turn r =
     (if s_codex_turn r = None then s_codex_turn_ended r \<noteq> Some turn
      else s_codex_turn r = Some turn \<and> s_codex_turn r \<noteq> s_codex_turn_ended r)"

definition codexToolTurnLate :: "store \<Rightarrow> string \<Rightarrow> string \<Rightarrow> db \<Rightarrow> store_error + bool" where
  "codexToolTurnLate s i turn d =
     (if sqlFails s ''store: codex turn read'' then Inl (DriverError ''store: codex turn read'')
      else Inr (case find_spawn d i of None \<Rightarrow> False | Some r \<Rightarrow> \<not> codexToolTurnCurrent turn r))"

record CodexOpenTurn =
  ct_InstanceID :: string
  ct_SessionID :: string
  ct_JSONLPath :: string
  ct_Turn :: string

definition codexOpenTurn :: "spawn_row \<Rightarrow> bool" where
  "codexOpenTurn r \<longleftrightarrow> s_agent r = AgentCodex \<and> s_state r = StateWorking \<and> s_codex_turn r \<noteq> None
     \<and> s_codex_turn r \<noteq> s_codex_turn_ended r \<and> coalesce (s_jsonl_path r) [] \<noteq> []"

text \<open>
  The family of one row for the read of open turns: the row and every descendant down stored
  parent links, by rounds as in the aggregate.
\<close>

definition children_of :: "spawn_row list \<Rightarrow> string list \<Rightarrow> string list" where
  "children_of rs w = map s_instance_id (filter (\<lambda>r. case s_parent_id r of None \<Rightarrow> False | Some p \<Rightarrow> p \<in> set w) rs)"

fun codexFamily :: "nat \<Rightarrow> spawn_row list \<Rightarrow> string list \<Rightarrow> string list" where
  "codexFamily 0 rs w = w"
| "codexFamily (Suc n) rs w = codexFamily n rs (List.union (children_of rs w) w)"

definition CodexOpenTurns :: "store \<Rightarrow> string \<Rightarrow> db \<Rightarrow> store_error + CodexOpenTurn list" where
  "CodexOpenTurns s i d =
     (if sqlFails s ''store: codex open turns'' then Inl (DriverError ''store: codex open turns'')
      else Inr (map (\<lambda>r. \<lparr>ct_InstanceID = s_instance_id r, ct_SessionID = coalesce (s_session_id r) [],
                          ct_JSONLPath = coalesce (s_jsonl_path r) [], ct_Turn = coalesce (s_codex_turn r) []\<rparr>)
                 (filter (\<lambda>r. codexOpenTurn r
                    \<and> (i = [] \<or> s_instance_id r \<in> set (codexFamily (length (spawns d)) (spawns d) [i]))) (spawns d))))"

section \<open>Facts\<close>

lemma notAppliedReason_not [simp]: "\<not> Applied (notAppliedReason r)"
  by (simp add: notAppliedReason_def)

lemma codexToolTurnCurrent_after_end:
  "g_CodexTurnEnd g \<Longrightarrow> \<not> g_CodexTurnStart g \<Longrightarrow> g_CodexTurn g \<noteq> []
    \<Longrightarrow> \<not> codexToolTurnCurrent (g_CodexTurn g) (codexTurnSet g r)"
  by (auto simp: codexToolTurnCurrent_def codexTurnSet_def)

lemma codexToolTurnCurrent_after_start:
  "g_CodexTurnStart g \<Longrightarrow> g_CodexTurn g \<noteq> [] \<Longrightarrow> s_codex_turn_ended r \<noteq> Some (g_CodexTurn g)
    \<Longrightarrow> codexToolTurnCurrent (g_CodexTurn g) (codexTurnSet g r)"
  by (auto simp: codexToolTurnCurrent_def codexTurnSet_def nullableStringArg_def)

end
