(* ===== verification/Hook_Writes.thy ===== *)
theory Hook_Writes
  imports Hook_Gate
begin

text \<open>
  The gated hook writes (hook_writes.go, codex_turn.go, session_history.go): the ordinary
  transition with its retention hold, the move to ended with its closes, the idle-prompt
  Notification, the Codex end report and turn end, and the SessionStart identity write. Each is
  the sequence of statements the code runs; \<open>others\<close> is free between two of them.
\<close>

section \<open>The statements\<close>

definition selectPriorState :: "store \<Rightarrow> string \<Rightarrow> db \<Rightarrow> store_error + string option" where
  "selectPriorState s i d =
     (if sqlFails s ''store: select prior state'' then Inl (DriverError ''store: select prior state'')
      else Inr (map_option s_state (find_spawn d i)))"

definition livenessClear :: "spawn_row \<Rightarrow> spawn_row" where
  "livenessClear r = r\<lparr>s_liveness_unverified_since := None, s_liveness_note := None\<rparr>"

definition softRefreshSet :: "db \<Rightarrow> spawn_row \<Rightarrow> spawn_row" where
  "softRefreshSet d r = r\<lparr>s_last_seen_at := sql_now_text d, s_idle_since := None\<rparr>"

definition transitionSet :: "store \<Rightarrow> string \<Rightarrow> db \<Rightarrow> spawn_row \<Rightarrow> spawn_row" where
  "transitionSet s v d r =
     (let r1 = (hookWriteStateSet (settleMs s) (sql_now_ms d) v r)
                 \<lparr>s_last_seen_at := sql_now_text d, s_ended_at := None, s_idle_since := None\<rparr>
      in if v \<noteq> StatePending then launchStartClear r1 else r1)"

definition endedTransitionSet :: "db \<Rightarrow> spawn_row \<Rightarrow> spawn_row" where
  "endedTransitionSet d r = launchStartClear ((immediateStateSet (sql_now_ms d) StateEnded r)
     \<lparr>s_last_seen_at := sql_now_text d, s_ended_at := Some (sql_now_text d), s_idle_since := None\<rparr>)"

definition idleWaitingSet :: "store \<Rightarrow> db \<Rightarrow> spawn_row \<Rightarrow> spawn_row" where
  "idleWaitingSet s d r = launchStartClear ((hookWriteStateSet (settleMs s) (sql_now_ms d) StateWaiting r)
     \<lparr>s_last_seen_at := sql_now_text d, s_ended_at := None, s_idle_since := Some (sql_now_text d)\<rparr>)"

definition idleRefreshSet :: "db \<Rightarrow> spawn_row \<Rightarrow> spawn_row" where
  "idleRefreshSet d r = r\<lparr>s_last_seen_at := sql_now_text d, s_idle_since := Some (sql_now_text d)\<rparr>"

definition endReportSet :: "db \<Rightarrow> spawn_row \<Rightarrow> spawn_row" where
  "endReportSet d r = r\<lparr>s_last_seen_at := sql_now_text d, s_idle_since := None, s_end_reported_at := Some (sql_now_ms d)\<rparr>"

text \<open>What every applied hook writes, after its own SET: \<open>gatedHookUpdate\<close>'s statement.\<close>

definition hookWrite :: "HookGate \<Rightarrow> (spawn_row \<Rightarrow> spawn_row) \<Rightarrow> string \<Rightarrow> bool \<Rightarrow> spawn_row \<Rightarrow> spawn_row" where
  "hookWrite g upd jsonlPath jsonlPresent r =
     rowVersionAdvance (hookPaneStartSet (g_ParentStart g) (codexTurnSet g
       (hookSessionRecordSet g jsonlPath jsonlPresent (livenessClear (upd r)))))"

definition gatedHookUpdate :: "string \<Rightarrow> HookGate \<Rightarrow> (db \<Rightarrow> spawn_row \<Rightarrow> spawn_row) \<Rightarrow> string \<Rightarrow> bool
     \<Rightarrow> (db \<Rightarrow> spawn_row \<Rightarrow> bool) \<Rightarrow> db \<Rightarrow> bool \<times> db" where
  "gatedHookUpdate i g upd jsonlPath jsonlPresent cond d =
     update_spawns (\<lambda>r. s_instance_id r = i \<and> hookGate d g r \<and> cond d r)
       (hookWrite g (upd d) jsonlPath jsonlPresent) d"

abbreviation no_cond :: "db \<Rightarrow> spawn_row \<Rightarrow> bool" where "no_cond \<equiv> \<lambda>_ _. True"

definition transitionEvent :: "string \<Rightarrow> string \<Rightarrow> string \<Rightarrow> string \<Rightarrow> bool \<Rightarrow> trail_event" where
  "transitionEvent i prior new ev soft = (''ad.spawn.state_transition'',
     [(''instance_id'', TS i), (''prior_state'', TS prior), (''new_state'', TS new),
      (''triggering_event_name'', TS ev), (''soft_refresh'', TB soft), (''source'', TS ''ad_spawn_store'')])"

type_synonym hook_result = "UpsertOutcome \<times> HookApplied"

abbreviation hook_applied :: HookApplied where "hook_applied \<equiv> \<lparr>Applied = True, Reason = []\<rparr>"
abbreviation hook_zero :: HookApplied where "hook_zero \<equiv> \<lparr>Applied = False, Reason = []\<rparr>"

definition emit_call :: "trail_event \<Rightarrow> 'a \<Rightarrow> 'a call" where
  "emit_call e a d = (Inr a, emit e d)"

section \<open>The ordinary hook transition\<close>

definition applyGatedHookWrite :: "store \<Rightarrow> string \<Rightarrow> HookGate \<Rightarrow> (db \<Rightarrow> spawn_row \<Rightarrow> spawn_row) \<Rightarrow> string
     \<Rightarrow> string \<Rightarrow> bool \<Rightarrow> string \<Rightarrow> string \<Rightarrow> bool \<Rightarrow> string \<Rightarrow> hook_result call" where
  "applyGatedHookWrite s i g upd priorState trailNew softRefresh ev jsonlPath jsonlPresent errPrefix =
     call_bind (execFamily s i errPrefix (gatedHookUpdate i g upd jsonlPath jsonlPresent no_cond)) (\<lambda>n.
       if \<not> n then call_bind (read_then s 9 (hookNotApplied s i g errPrefix \<circ> others s 8)) (\<lambda>a. call_return (UpsertNoChange, a))
       else emit_call (transitionEvent i priorState trailNew ev softRefresh) (UpsertUpdated, hook_applied))"

definition clearIdleSince :: "string \<Rightarrow> HookGate \<Rightarrow> db \<Rightarrow> bool \<times> db" where
  "clearIdleSince i g d = update_spawns (\<lambda>r. s_instance_id r = i \<and> s_idle_since r \<noteq> None \<and> hookGate d g r)
     (\<lambda>r. rowVersionAdvance (r\<lparr>s_idle_since := None\<rparr>)) d"

definition codexHeldTurn :: "string \<Rightarrow> HookGate \<Rightarrow> db \<Rightarrow> bool \<times> db" where
  "codexHeldTurn i g d =
     (let turn = nullableStringArg (g_CodexTurn g)
      in update_spawns (\<lambda>r. s_instance_id r = i \<and> (s_idle_since r \<noteq> None \<or> s_codex_turn r \<noteq> turn) \<and> hookGate d g r)
           (\<lambda>r. rowVersionAdvance (r\<lparr>s_idle_since := None, s_codex_turn := turn\<rparr>)) d)"

definition reportWorkingHeld :: "store \<Rightarrow> string \<Rightarrow> HookGate \<Rightarrow> string \<Rightarrow> hook_result call" where
  "reportWorkingHeld s i g ev =
     call_bind (read_then s 7 (readHookGateRow s i g ''store: working transition hold'')) (\<lambda>r.
       if \<not> hg_found r \<or> \<not> hg_gateMatches r then call_return (UpsertNoChange, notAppliedReason r)
       else call_bind (execGuarded s i ''store: working transition hold idle clear''
              (if g_CodexTurnStart g then codexHeldTurn i g else clearIdleSince i g)) (\<lambda>_.
         emit_call (transitionEvent i (hg_state r) (hg_state r) ev False) (UpsertNoChange, hook_applied)))"

definition holdWorkingTransition :: "store \<Rightarrow> string \<Rightarrow> HookGate \<Rightarrow> string \<Rightarrow> hook_result option call" where
  "holdWorkingTransition s i g ev =
     call_bind (read_then s 1 (\<lambda>d.
         if sqlFails s ''store: working transition hold check''
         then Inl (DriverError ''store: working transition hold check'') else Inr (holdingRequest i d))) (\<lambda>holding.
       if \<not> holding then call_return None
       else call_bind (reportWorkingHeld s i g ev) (\<lambda>r. call_return (Some r)))"

definition applyWorkingWrite :: "store \<Rightarrow> string \<Rightarrow> HookGate \<Rightarrow> (db \<Rightarrow> spawn_row \<Rightarrow> spawn_row) \<Rightarrow> string
     \<Rightarrow> string \<Rightarrow> string \<Rightarrow> string \<Rightarrow> bool \<Rightarrow> string \<Rightarrow> hook_result call" where
  "applyWorkingWrite s i g upd priorState newState ev jsonlPath jsonlPresent errPrefix =
     (let turnGuarded = (newState = StateWorking \<and> codexToolTurn g);
          cond = (\<lambda>d r. noRequestHoldsRow d r \<and> (turnGuarded \<longrightarrow> codexToolTurnCurrent (g_CodexTurn g) r))
      in call_bind (execGuarded s i errPrefix (gatedHookUpdate i g upd jsonlPath jsonlPresent cond)) (\<lambda>moved.
        if moved then emit_call (transitionEvent i priorState newState ev False) (UpsertUpdated, hook_applied)
        else call_bind (if g_Cursor g \<noteq> None then call_return True
                        else if turnGuarded then read_then s 4 (codexToolTurnLate s i (g_CodexTurn g) \<circ> others s 3)
                        else call_return False) (\<lambda>soft.
          if soft then call_bind (read_then s 6 (selectPriorState s i \<circ> others s 5)) (\<lambda>prior. case prior of
              None \<Rightarrow> call_return (UpsertNoChange, hook_zero)
            | Some p \<Rightarrow> applyGatedHookWrite s i g softRefreshSet p p True ev jsonlPath jsonlPresent errPrefix)
          else reportWorkingHeld s i g ev)))"

definition endedTx :: "store \<Rightarrow> string \<Rightarrow> HookGate \<Rightarrow> string \<Rightarrow> bool \<Rightarrow> (string \<times> closedRequest list) tx" where
  "endedTx s i g jsonlPath jsonlPresent d =
     (if sqlFails s ''prior state'' then Inl (DriverError ''prior state'')
      else (case find_spawn d i of
          None \<Rightarrow> Inl errNotApplied
        | Some r \<Rightarrow>
            tx_bind (tx_exec s ''store: ended transition'' (gatedHookUpdate i g endedTransitionSet jsonlPath jsonlPresent no_cond)) (\<lambda>n.
              if \<not> n then (\<lambda>d. Inl errNotApplied)
              else (\<lambda>d. tx_bind (closeOrphanedRequests s i DecisionReasonEnded (go_now_ms d)) (\<lambda>closed.
                   tx_bind (closeSubagentsAgentGone s i (go_now_ms d)) (\<lambda>_. tx_return (s_state r, closed))) d)) d))"

definition applyEndedTransition :: "store \<Rightarrow> string \<Rightarrow> HookGate \<Rightarrow> string \<Rightarrow> string \<Rightarrow> bool \<Rightarrow> hook_result call" where
  "applyEndedTransition s i g ev jsonlPath jsonlPresent d0 =
     (case inImmediateTx s i (endedTx s i g jsonlPath jsonlPresent) d0 of
       (Inl errNotApplied, d) \<Rightarrow>
         call_bind (read_then s 9 (hookNotApplied s i g ''store: ended transition'' \<circ> others s 8)) (\<lambda>a. call_return (UpsertNoChange, a)) d
     | (Inl e, d) \<Rightarrow> (Inl e, d)
     | (Inr (prior, closed), d) \<Rightarrow>
         emit_call (transitionEvent i prior StateEnded ev False) (UpsertUpdated, hook_applied)
           (fold (emitDeny i DecisionReasonEnded ''hook'') closed d))"

definition ApplyHookTransitionResult :: "store \<Rightarrow> string \<Rightarrow> HookGate \<Rightarrow> string \<Rightarrow> bool \<Rightarrow> string \<Rightarrow> string \<Rightarrow> bool
     \<Rightarrow> hook_result call" where
  "ApplyHookTransitionResult s i g newState0 softRefresh0 ev jsonlPath jsonlPresent =
     (let working0 = (\<not> softRefresh0 \<and> newState0 = StateWorking)
      in call_bind (if working0 \<and> codexToolTurn g then read_then s 0 (codexToolTurnLate s i (g_CodexTurn g))
                    else call_return False) (\<lambda>late.
        let working = (working0 \<and> \<not> late);
            softRefresh = (softRefresh0 \<or> late);
            newState = (if late then [] else newState0);
            guarded = (working \<or> (\<not> softRefresh \<and> newState = StateWaiting \<and> g_Cursor g \<noteq> None))
        in call_bind (if working \<and> g_Cursor g = None then holdWorkingTransition s i g ev else call_return None) (\<lambda>held.
          case held of Some r \<Rightarrow> call_return r
          | None \<Rightarrow>
            if \<not> softRefresh \<and> newState = StateEnded then applyEndedTransition s i g ev jsonlPath jsonlPresent
            else call_bind (read_then s 2 (selectPriorState s i)) (\<lambda>prior. case prior of
                None \<Rightarrow> call_return (UpsertNoChange, hook_zero)
              | Some priorState \<Rightarrow>
                let upd = (if softRefresh then softRefreshSet else transitionSet s newState);
                    trailNew = (if softRefresh then priorState else newState);
                    errPrefix = (if softRefresh then ''store: soft refresh'' else ''store: state transition'')
                in if guarded
                   then applyWorkingWrite s i g upd priorState newState ev jsonlPath jsonlPresent errPrefix
                   else applyGatedHookWrite s i g upd priorState trailNew softRefresh ev jsonlPath jsonlPresent errPrefix))))"

definition ApplyHookEndReport :: "store \<Rightarrow> string \<Rightarrow> HookGate \<Rightarrow> string \<Rightarrow> string \<Rightarrow> bool \<Rightarrow> hook_result call" where
  "ApplyHookEndReport s i g ev jsonlPath jsonlPresent =
     call_bind (read_then s 0 (selectPriorState s i)) (\<lambda>prior. case prior of
         None \<Rightarrow> call_return (UpsertNoChange, hook_zero)
       | Some p \<Rightarrow> applyGatedHookWrite s i g endReportSet p p True ev jsonlPath jsonlPresent ''store: end report'')"

section \<open>The idle-prompt Notification\<close>

definition idleCond :: "string \<Rightarrow> db \<Rightarrow> spawn_row \<Rightarrow> bool" where
  "idleCond st d r =
     (if st = StateWorking then s_state r = StateWorking
      else s_state r = StateCheckPermission \<and> s_relay_mode r = ''on'' \<and> noRequestHoldsRow d r)"

definition idleMove :: "store \<Rightarrow> string \<Rightarrow> HookGate \<Rightarrow> string \<Rightarrow> bool \<Rightarrow> string \<Rightarrow> bool call" where
  "idleMove s i g jsonlPath jsonlPresent st =
     execGuarded s i ''store: waiting-if-working transition''
       (gatedHookUpdate i g (idleWaitingSet s) jsonlPath jsonlPresent (idleCond st))"

definition ApplyHookWaitingIfWorking :: "store \<Rightarrow> string \<Rightarrow> HookGate \<Rightarrow> string \<Rightarrow> string \<Rightarrow> bool \<Rightarrow> hook_result call" where
  "ApplyHookWaitingIfWorking s i g ev jsonlPath jsonlPresent =
     call_bind (write_then s 0 (idleMove s i g jsonlPath jsonlPresent StateWorking)) (\<lambda>moved.
       if moved then emit_call (transitionEvent i StateWorking StateWaiting ev False) (UpsertUpdated, hook_applied)
       else call_bind (write_then s 1 (idleMove s i g jsonlPath jsonlPresent StateCheckPermission)) (\<lambda>moved.
         if moved then emit_call (transitionEvent i StateCheckPermission StateWaiting ev False) (UpsertUpdated, hook_applied)
         else call_bind (read_then s 2 (selectPriorState s i)) (\<lambda>prior. case prior of
             None \<Rightarrow> call_return (UpsertNoChange, hook_zero)
           | Some p \<Rightarrow> applyGatedHookWrite s i g idleRefreshSet p p True ev jsonlPath jsonlPresent
                         ''store: idle soft refresh'')))"

section \<open>The end of a Codex turn found by a read\<close>

definition endCodexTurnSet :: "store \<Rightarrow> db \<Rightarrow> spawn_row \<Rightarrow> spawn_row" where
  "endCodexTurnSet s d r = rowVersionAdvance ((hookWriteStateSet (settleMs s) (sql_now_ms d) StateWaiting r)
     \<lparr>s_codex_turn_ended := s_codex_turn r\<rparr>)"

definition EndCodexTurn :: "store \<Rightarrow> CodexOpenTurn \<Rightarrow> bool call" where
  "EndCodexTurn s t d =
     (let P = (\<lambda>r. s_instance_id r = ct_InstanceID t \<and> s_codex_turn r = Some (ct_Turn t)
                 \<and> s_jsonl_path r = Some (ct_JSONLPath t) \<and> codexOpenTurn r);
          (moved, d1) = update_spawns P (endCodexTurnSet s d) d
      in if sqlFails s ''begin'' then (Inl ErrStoreBusy, d)
         else if sqlFails s ''store: codex turn end'' then (Inl (DriverError ''store: codex turn end''), d)
         else if \<not> moved then
           (if sqlFails s ''commit unconfirmed'' then (Inr False, d)
            else if sqlFails s ''commit'' then (Inl (DriverError ''store: codex turn end''), d) else (Inr False, d))
         else (case refreshFamilies s d1 of Inl e \<Rightarrow> (Inl e, d)
           | Inr (_, d2) \<Rightarrow> (case takeDisplayExits s (ct_InstanceID t) d2 of Inl e \<Rightarrow> (Inl e, d)
             | Inr (exits, d3) \<Rightarrow>
               if sqlFails s ''commit'' then (Inl (DriverError ''store: codex turn end''), d)
               else if sqlFails s ''commit unconfirmed'' then (Inr False, d3)
               else (Inr True, emit (''ad.spawn.state_transition'',
                 [(''instance_id'', TS (ct_InstanceID t)), (''prior_state'', TS StateWorking), (''new_state'', TS StateWaiting),
                  (''triggering_event_name'', TS ''task_complete''), (''cause'', TS ''codex_rollout_task_complete''),
                  (''soft_refresh'', TB False), (''source'', TS ''ad_spawn_store'')]) (emitDisplayTransitions exits d3)))))"

section \<open>SessionStart\<close>

definition startup_valid :: "CodexStartup \<Rightarrow> bool" where
  "startup_valid p \<longleftrightarrow> decodeLaunchToken (SText (cs_LaunchToken p)) \<noteq> [] \<and> cs_SessionID p \<noteq> []
     \<and> length (cs_SessionID p) \<le> 256 \<and> (case cs_JSONLPath p of c # _ \<Rightarrow> c = CHR ''/'' | [] \<Rightarrow> False)
     \<and> length (cs_JSONLPath p) \<le> 4096 \<and> cs_PID p > 0 \<and> cs_Starttime p \<noteq> [] \<and> length (cs_Starttime p) \<le> 128"

definition codexStartupArg :: "store \<Rightarrow> spawn_row \<Rightarrow> HookGate \<Rightarrow> string \<Rightarrow> string option" where
  "codexStartupArg s prior g path =
     (let p = \<lparr>cs_LaunchToken = coalesce (s_launch_token prior) [], cs_SessionID = g_SessionID g, cs_JSONLPath = path,
               cs_PID = g_ParentPID g, cs_Starttime = g_ParentStart g\<rparr>
      in if s_agent prior \<noteq> AgentCodex \<or> g_Event g \<noteq> ''SessionStart'' \<or> rs_SessionID (g_Examined g) \<noteq> []
            \<or> \<not> g_CodexStartup g \<or> \<not> startup_valid p then None
         else if length (marshalStartup s p) > 8192 then None else Some (marshalStartup s p))"

definition upsertSessionHistoryEntry :: "string \<Rightarrow> string \<Rightarrow> string \<Rightarrow> int \<Rightarrow> db \<Rightarrow> db" where
  "upsertSessionHistoryEntry i sid jsonlPath life d =
     (let pathArg = nullableStringArg jsonlPath;
          same = (\<lambda>h. h_instance_id h = i \<and> h_session_id h = sid)
      in if any_row same (session_history d)
         then d\<lparr>session_history := update_where same (\<lambda>h. h\<lparr>
                h_jsonl_path := (if h_life_number h = life then (case pathArg of None \<Rightarrow> h_jsonl_path h | Some x \<Rightarrow> Some x) else pathArg),
                h_life_number := life, h_recorded_at := sql_now_text d\<rparr>) (session_history d)\<rparr>
         else d\<lparr>session_history := session_history d @ [\<lparr>h_history_id = next_history_id d, h_instance_id = i,
                h_session_id = sid, h_jsonl_path = pathArg, h_recorded_at = sql_now_text d, h_life_number = life\<rparr>],
                next_history_id := next_history_id d + 1\<rparr>)"

definition sessionStartSet :: "store \<Rightarrow> spawn_row \<Rightarrow> HookGate \<Rightarrow> string \<Rightarrow> bool \<Rightarrow> db \<Rightarrow> spawn_row \<Rightarrow> spawn_row" where
  "sessionStartSet s prior g jsonlPath jsonlPresent d r =
     rowVersionAdvance (launchStartClear (hookPaneStartSet (g_ParentStart g)
       ((hookWriteStateSet (settleMs s) (sql_now_ms d) StateWaiting r)\<lparr>
          s_last_seen_at := sql_now_text d, s_ended_at := None,
          s_session_id := (case nullableStringArg (g_SessionID g) of None \<Rightarrow> s_session_id r | Some x \<Rightarrow> Some x),
          s_codex_startup := codexStartupArg s prior g jsonlPath, s_claude_capacity := None,
          s_jsonl_path := (if jsonlPath \<noteq> [] \<and> jsonlPresent then Some jsonlPath
                           else if jsonlPath \<noteq> [] then None else s_jsonl_path r),
          s_pid := positiveIntArg (g_ParentPID g), s_proc_starttime := nullableStringArg (g_ParentStart g),
          s_liveness_unverified_since := None, s_liveness_note := None, s_idle_since := None,
          s_end_reported_at := None\<rparr>)))"

definition readSessionStartPrior :: "store \<Rightarrow> string \<Rightarrow> RowSnapshot \<Rightarrow> db \<Rightarrow> store_error + spawn_row option" where
  "readSessionStartPrior s i examined d =
     (if sqlFails s ''store: record session start identity: prior read''
      then Inl (DriverError ''store: record session start identity: prior read'')
      else Inr (find (\<lambda>r. s_instance_id r = i \<and> snapshotMatch examined r) (spawns d)))"

definition sessionStartNotApplied :: "store \<Rightarrow> string \<Rightarrow> HookGate \<Rightarrow> (HookApplied \<times> bool) call" where
  "sessionStartNotApplied s i g =
     call_bind (read_then s 4 (readHookGateRow s i g ''store: record session start identity'')) (\<lambda>r.
       call_return (if hg_found r \<and> hg_gateMatches r then (hook_zero, True) else (notAppliedReason r, False)))"

text \<open>
  The transaction: the gated, snapshot-guarded write, the rotation archive (a failure of which
  leaves the transaction going), the family refresh and the commit. Nothing is written when a
  statement of it fails or the write matches no row.
\<close>

definition sessionStartTx :: "store \<Rightarrow> string \<Rightarrow> HookGate \<Rightarrow> string \<Rightarrow> bool \<Rightarrow> spawn_row \<Rightarrow> db \<Rightarrow> store_error + (bool \<times> db)" where
  "sessionStartTx s i g jsonlPath jsonlPresent prior d =
     (let outgoing = rs_SessionID (g_Examined g);
          archive = (outgoing \<noteq> [] \<and> g_SessionID g \<noteq> [] \<and> outgoing \<noteq> g_SessionID g)
      in tx_bind (tx_exec s ''store: record session start identity''
            (update_spawns (\<lambda>r. s_instance_id r = i \<and> hookGate d g r \<and> snapshotMatch (g_Examined g) r)
               (sessionStartSet s prior g jsonlPath jsonlPresent d))) (\<lambda>n.
         if \<not> n then (\<lambda>d. Inl errNotApplied)
         else (\<lambda>d1. tx_bind (refreshFamilies s) (\<lambda>_. tx_return archive)
             (if archive \<and> \<not> sqlFails s ''archive''
              then upsertSessionHistoryEntry i outgoing (coalesce (s_jsonl_path prior) []) (s_life_number prior) d1
              else d1))) d)"

definition sessionStartWrite :: "store \<Rightarrow> string \<Rightarrow> HookGate \<Rightarrow> string \<Rightarrow> bool \<Rightarrow> spawn_row \<Rightarrow> (HookApplied \<times> bool) call" where
  "sessionStartWrite s i g jsonlPath jsonlPresent prior d =
     (if sqlFails s ''begin'' then (Inl (DriverError ''begin''), d)
      else (case sessionStartTx s i g jsonlPath jsonlPresent prior d of
          Inl errNotApplied \<Rightarrow> sessionStartNotApplied s i g (others s 3 d)
        | Inl e \<Rightarrow> (Inl e, d)
        | Inr (archive, d2) \<Rightarrow>
            if sqlFails s ''commit'' then (Inl (DriverError ''commit''), d)
            else let d3 = emit (transitionEvent i (s_state prior) StateWaiting
                            (if g_Event g = [] then ''SessionStart'' else g_Event g) False) d2;
                     outgoing = rs_SessionID (g_Examined g)
                 in (Inr (hook_applied, False),
                     if archive \<and> sqlFails s ''archive'' then emit (''ad.session.archive_failed'',
                         [(''instance_id'', TS i), (''session_id'', TS outgoing), (''source'', TS ''ad_spawn_store'')]) d3
                     else if archive then emit (''ad.session.archived'',
                         [(''instance_id'', TS i), (''prior_session_id'', TS outgoing), (''new_session_id'', TS (g_SessionID g)),
                          (''source'', TS ''ad_spawn_store'')]) d3
                     else d3)))"

definition RecordSessionStartIdentity :: "store \<Rightarrow> string \<Rightarrow> HookGate \<Rightarrow> string \<Rightarrow> bool \<Rightarrow> (HookApplied \<times> bool) call" where
  "RecordSessionStartIdentity s i g jsonlPath jsonlPresent =
     call_bind (read_then s 0 (readSessionStartPrior s i (g_Examined g))) (\<lambda>pinned. case pinned of
       None \<Rightarrow> sessionStartNotApplied s i g
     | Some prior \<Rightarrow> sessionStartWrite s i g jsonlPath jsonlPresent prior)"

section \<open>What a hook write leaves alone\<close>

lemma frag_keys [simp]:
  "s_instance_id (livenessClear r) = s_instance_id r" "s_state (livenessClear r) = s_state r"
  "s_instance_id (hookSessionRecordSet g p b r) = s_instance_id r" "s_state (hookSessionRecordSet g p b r) = s_state r"
  "s_instance_id (codexTurnSet g r) = s_instance_id r" "s_state (codexTurnSet g r) = s_state r"
  "s_instance_id (hookPaneStartSet st r) = s_instance_id r" "s_state (hookPaneStartSet st r) = s_state r"
  "s_instance_id (rowVersionAdvance r) = s_instance_id r" "s_state (rowVersionAdvance r) = s_state r"
  "s_instance_id (launchStartClear r) = s_instance_id r" "s_state (launchStartClear r) = s_state r"
  by (simp_all add: livenessClear_def hookSessionRecordSet_def codexTurnSet_def hookPaneStartSet_def
      rowVersionAdvance_def launchStartClear_def Let_def)

lemma set_keys [simp]:
  "s_instance_id (softRefreshSet d r) = s_instance_id r" "s_state (softRefreshSet d r) = s_state r"
  "s_instance_id (transitionSet s v d r) = s_instance_id r" "s_state (transitionSet s v d r) = v"
  "s_instance_id (endedTransitionSet d r) = s_instance_id r" "s_state (endedTransitionSet d r) = StateEnded"
  "s_instance_id (idleWaitingSet s d r) = s_instance_id r" "s_state (idleWaitingSet s d r) = StateWaiting"
  "s_instance_id (idleRefreshSet d r) = s_instance_id r" "s_state (idleRefreshSet d r) = s_state r"
  "s_instance_id (endReportSet d r) = s_instance_id r" "s_state (endReportSet d r) = s_state r"
  "s_instance_id (endCodexTurnSet s d r) = s_instance_id r" "s_state (endCodexTurnSet s d r) = StateWaiting"
  "s_instance_id (sessionStartSet s q g p b d r) = s_instance_id r" "s_state (sessionStartSet s q g p b d r) = StateWaiting"
  by (simp_all add: softRefreshSet_def transitionSet_def endedTransitionSet_def idleWaitingSet_def idleRefreshSet_def
      endReportSet_def endCodexTurnSet_def sessionStartSet_def Let_def)

lemma hookWrite_keys [simp]:
  "s_instance_id (hookWrite g upd p b r) = s_instance_id (upd r)" "s_state (hookWrite g upd p b r) = s_state (upd r)"
  by (simp_all add: hookWrite_def)

section \<open>Invariants every hook write keeps\<close>

text \<open>
  An invariant the hook writes keep: besides the laws of \<open>store_invariant\<close> it allows every live
  state but working, allows working where no request holds the row, and survives the closes and
  the rotation archive.
\<close>

locale hook_invariant = store_invariant +
  assumes A_stored: "IsLiveState v \<or> isTerminalState v \<Longrightarrow> v \<noteq> StateWorking \<Longrightarrow> A d r v"
    and A_working: "noRequestHoldsRow d r \<Longrightarrow> A d r StateWorking"
    and J_requests: "J d \<Longrightarrow> J (d\<lparr>permission_requests := map (closed_request d0 i reason at) (permission_requests d)\<rparr>)"
    and J_agent_gone: "J d \<Longrightarrow> J (d\<lparr>subagents := update_where (\<lambda>a. sa_instance_id a = i \<and> sa_state a = SubagentStateRunning)
      (agentGoneSet at) (subagents d)\<rparr>)"
    and J_drop_launches: "J d \<Longrightarrow> J (d\<lparr>subagent_launches := filter Q (subagent_launches d)\<rparr>)"
    and J_history: "J (d\<lparr>session_history := z\<rparr>) = J d" and J_history_id: "J (d\<lparr>next_history_id := n\<rparr>) = J d"
begin

lemma J_gated:
  assumes "J d" and "\<And>r. s_instance_id (upd d r) = s_instance_id r"
    and "\<And>r. cond d r \<Longrightarrow> A d r (s_state (upd d r))"
  shows "J (snd (gatedHookUpdate i g upd p b cond d))"
  unfolding gatedHookUpdate_def using assms by (intro J_update_spawns) auto

lemma keeps_emit_call [intro!]: "keeps J (emit_call e a)"
  by (simp add: keeps_def emit_call_def)

lemma keeps_read_others: "rely J s \<Longrightarrow> keeps J (read_then s n (q \<circ> others s m))"
  by (rule keeps_read_then)

lemma keeps_applyGatedHookWrite:
  assumes "rely J s" and "\<And>d r. s_instance_id (upd d r) = s_instance_id r" and "\<And>d r. A d r (s_state (upd d r))"
  shows "keeps J (applyGatedHookWrite s i g upd prior new soft ev p b what)"
  unfolding applyGatedHookWrite_def
  using assms by (auto intro!: keeps_bind keeps_execFamily J_gated)

lemma keeps_soft: "rely J s \<Longrightarrow> keeps J (applyGatedHookWrite s i g softRefreshSet prior new soft ev p b what)"
  by (rule keeps_applyGatedHookWrite) (simp_all add: A_same)

lemma keeps_reportWorkingHeld: "rely J s \<Longrightarrow> keeps J (reportWorkingHeld s i g ev)"
  unfolding reportWorkingHeld_def execGuarded_def
  by (auto intro!: keeps_bind keeps_execFamily J_update_spawns simp: codexHeldTurn_def clearIdleSince_def A_same Let_def)

lemma keeps_applyWorkingWrite:
  assumes "rely J s" and "\<And>d r. s_instance_id (upd d r) = s_instance_id r"
    and "\<And>d r. noRequestHoldsRow d r \<Longrightarrow> A d r (s_state (upd d r))"
  shows "keeps J (applyWorkingWrite s i g upd prior new ev p b what)"
  unfolding applyWorkingWrite_def execGuarded_def Let_def
  using assms by (auto intro!: keeps_bind keeps_execFamily J_gated keeps_soft keeps_reportWorkingHeld split: option.splits)

lemma J_fold_emitDeny [simp]: "J (fold (emitDeny i reason w) cs d) = J d"
  by (induction cs arbitrary: d) (simp_all add: emitDeny_def emitDecisionCommitted_def)

lemma J_closeOrphaned: "J d \<Longrightarrow> closeOrphanedRequests s i reason at d = Inr (cs, d') \<Longrightarrow> J d'"
  by (auto dest!: closeOrphanedRequests_Inr simp: J_requests)

lemma J_closeSubagents:
  assumes "J d" and "closeSubagentsAgentGone s i at d = Inr (u, d')"
  shows "J d'"
  using closeSubagentsAgentGone_Inr[OF assms(2)] J_drop_launches[OF J_agent_gone[OF assms(1)]] by simp

lemma J_endedTx:
  assumes "J d" and "endedTx s i g p b d = Inr (x, d1)"
  shows "J d1"
proof -
  obtain d2 where "J d2" and 2: "tx_bind (closeOrphanedRequests s i DecisionReasonEnded (go_now_ms d2)) (\<lambda>closed.
      tx_bind (closeSubagentsAgentGone s i (go_now_ms d2)) (\<lambda>_. tx_return (fst x, closed))) d2 = Inr (x, d1)"
    using assms J_gated[OF assms(1), of endedTransitionSet no_cond i g p b]
    by (auto simp: endedTx_def tx_bind_Inr tx_exec_Inr A_stored isTerminalState_def tx_return_def split: if_splits option.splits)
  then show ?thesis
    by (auto simp: tx_bind_Inr tx_return_def dest: J_closeOrphaned J_closeSubagents)
qed

lemma keeps_applyEndedTransition:
  assumes "rely J s"
  shows "keeps J (applyEndedTransition s i g ev p b)"
proof -
  have tx: "keeps J (inImmediateTx s i (endedTx s i g p b))"
    by (rule keeps_inImmediateTx) (rule J_endedTx)
  show ?thesis
    unfolding keeps_def
  proof (intro allI impI)
    fix d assume d: "J d"
    obtain x d1 where e: "inImmediateTx s i (endedTx s i g p b) d = (x, d1)" by force
    with tx d have d1: "J d1" by (auto simp: keeps_def dest: spec[of _ d])
    have "keeps J (call_bind (read_then s 9 (hookNotApplied s i g ''store: ended transition'' \<circ> others s 8))
            (\<lambda>a. call_return (UpsertNoChange, a)))"
      using assms by auto
    with d1 show "J (snd (applyEndedTransition s i g ev p b d))"
      by (auto simp: applyEndedTransition_def e keeps_def emit_call_def split: sum.splits store_error.splits prod.splits)
  qed
qed

lemma keeps_holdWorkingTransition: "rely J s \<Longrightarrow> keeps J (holdWorkingTransition s i g ev)"
  unfolding holdWorkingTransition_def by (auto intro: keeps_reportWorkingHeld)

lemma keeps_ApplyHookTransitionResult:
  assumes "rely J s" and "soft \<or> IsLiveState v \<or> v = StateEnded"
  shows "keeps J (ApplyHookTransitionResult s i g v soft ev p b)"
  unfolding ApplyHookTransitionResult_def Let_def
  by (intro keeps_bind keeps_if keeps_option keeps_read_then keeps_return keeps_holdWorkingTransition
      keeps_applyEndedTransition keeps_applyWorkingWrite keeps_applyGatedHookWrite assms(1))
    (use assms(2) in \<open>auto simp: A_working A_stored A_same isTerminalState_def split: if_splits\<close>)

lemma keeps_ApplyHookEndReport: "rely J s \<Longrightarrow> keeps J (ApplyHookEndReport s i g ev p b)"
  unfolding ApplyHookEndReport_def
  by (intro keeps_bind keeps_option keeps_read_then keeps_return keeps_applyGatedHookWrite) (auto simp: A_same)

lemma keeps_idleMove: "keeps J (idleMove s i g p b st)"
  unfolding idleMove_def execGuarded_def
  by (rule keeps_execFamily, rule J_gated) (auto simp: A_stored state_kinds)

lemma keeps_ApplyHookWaitingIfWorking: "rely J s \<Longrightarrow> keeps J (ApplyHookWaitingIfWorking s i g ev p b)"
  unfolding ApplyHookWaitingIfWorking_def
  by (intro keeps_bind keeps_if keeps_option keeps_read_then keeps_write_then keeps_return keeps_emit_call
      keeps_idleMove keeps_applyGatedHookWrite) (auto simp: A_same)

lemma keeps_EndCodexTurn: "keeps J (EndCodexTurn s t)"
  unfolding keeps_def
proof (intro allI impI)
  fix d assume d: "J d"
  obtain m d1 where u: "update_spawns (\<lambda>r. s_instance_id r = ct_InstanceID t \<and> s_codex_turn r = Some (ct_Turn t)
      \<and> s_jsonl_path r = Some (ct_JSONLPath t) \<and> codexOpenTurn r) (endCodexTurnSet s d) d = (m, d1)" by force
  have d1: "J d1"
    using J_update_spawns[OF d, of "endCodexTurnSet s d"] u by (fastforce simp: A_stored state_kinds dest: arg_cong[of _ _ snd])
  have exits: "J d3" if "refreshFamilies s d1 = Inr (u, d2)" "takeDisplayExits s j d2 = Inr (ex, d3)" for u d2 j ex d3
    using J_finish[OF d1] committed_tx[OF that] J_display by metis
  from d exits show "J (snd (EndCodexTurn s t d))"
    by (auto simp: EndCodexTurn_def u Let_def J_display split: sum.splits prod.splits)
qed

lemma J_upsertSessionHistoryEntry: "J (upsertSessionHistoryEntry i sid p life d) = J d"
  by (simp add: upsertSessionHistoryEntry_def Let_def J_history J_history_id)

lemma J_sessionStartTx:
  assumes "J d" and "sessionStartTx s i g p b prior d = Inr (x, d1)"
  shows "J d1"
proof -
  let ?u = "update_spawns (\<lambda>r. s_instance_id r = i \<and> hookGate d g r \<and> snapshotMatch (g_Examined g) r)
               (sessionStartSet s prior g p b d) d"
  have u: "J (snd ?u)"
    using assms(1) by (intro J_update_spawns) (auto simp: A_stored state_kinds)
  show ?thesis
    using assms(2) u
    by (auto simp: sessionStartTx_def Let_def tx_bind_Inr tx_exec_Inr tx_return_def J_upsertSessionHistoryEntry
        split: if_splits dest!: J_refresh_families[rotated])
qed

lemma keeps_sessionStartNotApplied: "rely J s \<Longrightarrow> keeps J (sessionStartNotApplied s i g)"
  unfolding sessionStartNotApplied_def by auto

lemma keeps_sessionStartWrite: "rely J s \<Longrightarrow> keeps J (sessionStartWrite s i g p b prior)"
  using keeps_sessionStartNotApplied[of s i g]
  by (auto simp: keeps_def rely_def sessionStartWrite_def Let_def dest: J_sessionStartTx
      split: sum.splits store_error.splits prod.splits)

lemma keeps_RecordSessionStartIdentity: "rely J s \<Longrightarrow> keeps J (RecordSessionStartIdentity s i g p b)"
  unfolding RecordSessionStartIdentity_def
  by (intro keeps_bind keeps_read_then keeps_option keeps_sessionStartNotApplied keeps_sessionStartWrite)

end

interpretation held_hooks: hook_invariant held_not_working working_allowed
  by unfold_locales
    (auto simp: working_allowed_def held_not_working_def noRequestHoldsRow_def list_all_iff dest: closed_request_holds)

interpretation rows_hooks: hook_invariant rows_ok stored_state_allowed
  by unfold_locales (auto simp: stored_state_allowed_def rows_ok_def state_kinds)

end
