(* ===== verification/Request_Writes.thy ===== *)
theory Request_Writes
  imports Hook_Writes
begin

text \<open>
  The writes on permission requests: the relay hook's insert, ack and timeout deny, the refused
  verdict and the gone-hook record (relay_writes.go), decide's verdict (permission.go), the pane
  answer's intent, sent, release, outside and tool-ran writes (pane_writes.go), the proofs that a
  dialog is gone (request_proof.go) and the cap eviction. Each is one guarded statement; what it
  may do to a request is the interface \<open>request_write\<close>, interpreted once per statement.
\<close>

section \<open>Bounded write transactions\<close>

text \<open>
  lockwait.go \<open>inWriteTx\<close>: a connection or lock not taken in time is \<open>ErrStoreBusy\<close> with nothing
  run; an error of the callback rolls back; a failed COMMIT is unconfirmed, the write may or may
  not be there.
\<close>

definition inWriteTx :: "store \<Rightarrow> 'a tx \<Rightarrow> 'a call" where
  "inWriteTx s fn d =
     (if sqlFails s ''connection'' \<or> sqlFails s ''begin'' then (Inl ErrStoreBusy, d)
      else (case fn d of
          Inl e \<Rightarrow> (Inl e, d)
        | Inr (a, d1) \<Rightarrow>
            if sqlFails s ''commit'' then (Inl ErrCommitUnconfirmed, d)
            else if sqlFails s ''commit unconfirmed'' then (Inl ErrCommitUnconfirmed, d1)
            else (Inr a, d1)))"

definition update_requests :: "(perm_row \<Rightarrow> bool) \<Rightarrow> (perm_row \<Rightarrow> perm_row) \<Rightarrow> db \<Rightarrow> perm_row option \<times> db" where
  "update_requests P f d = (map_option f (find P (permission_requests d)),
     d\<lparr>permission_requests := update_where P f (permission_requests d)\<rparr>)"

definition the_request :: "string \<Rightarrow> string \<Rightarrow> perm_row \<Rightarrow> bool" where
  "the_request i token p \<longleftrightarrow> pr_instance_id p = i \<and> pr_request_token p = token"

definition millisArg :: "int \<Rightarrow> int option" where
  "millisArg t = (if t = zeroTime then None else Some t)"

definition coalesce_opt :: "'a option \<Rightarrow> 'a option \<Rightarrow> 'a option" where
  "coalesce_opt a b = (case a of None \<Rightarrow> b | Some _ \<Rightarrow> a)"

definition finishedSpawn :: "db \<Rightarrow> string \<Rightarrow> bool" where
  "finishedSpawn d i = any_row (\<lambda>r. s_instance_id r = i \<and> s_state r \<in> {StateEnded, StateMissing}) (spawns d)"

section \<open>Cap eviction\<close>

definition newest_request :: "db \<Rightarrow> perm_row \<Rightarrow> bool" where
  "newest_request d p = list_all (\<lambda>q. pr_instance_id q = pr_instance_id p \<longrightarrow> pr_request_id q \<le> pr_request_id p)
     (permission_requests d)"

definition evictable :: "db \<Rightarrow> perm_row \<Rightarrow> bool" where
  "evictable d p \<longleftrightarrow> \<not> awaitingAnswer p
     \<and> (pr_proven_gone_at p \<noteq> None \<or> finishedSpawn d (pr_instance_id p))
     \<and> \<not> (newest_request d p
          \<and> any_row (\<lambda>q. pr_instance_id q = pr_instance_id p \<and> awaitingAnswer q) (permission_requests d))"

definition evicted_ids :: "int \<Rightarrow> db \<Rightarrow> int list" where
  "evicted_ids cap d = map pr_request_id (take (nat (int (length (permission_requests d)) - cap))
     (sort_key pr_decided_at (filter (evictable d) (permission_requests d))))"

definition evictClosedRequests :: "store \<Rightarrow> int \<Rightarrow> unit tx" where
  "evictClosedRequests s cap d =
     (if cap \<le> 0 then Inr ((), d)
      else if sqlFails s ''store: permission request count'' then Inl (DriverError ''store: permission request count'')
      else if int (length (permission_requests d)) \<le> cap then Inr ((), d)
      else tx_exec s ''store: permission request evict'' (\<lambda>d.
        ((), d\<lparr>permission_requests := filter (\<lambda>p. pr_request_id p \<notin> set (evicted_ids cap d)) (permission_requests d)\<rparr>)) d)"

section \<open>New requests\<close>

record RelayRequest =
  rq_RequestToken :: string
  rq_ToolName :: string
  rq_ToolInput :: string
  rq_ToolUseID :: string
  rq_AgentID :: string
  rq_MainTurnEndEligible :: "bool option"
  rq_Hook :: ProcessIdentity
  rq_SettledAt :: int
  rq_TranscriptPath :: string
  rq_TranscriptPresent :: bool

definition mainTurnEndEligible :: "RelayRequest \<Rightarrow> string option \<Rightarrow> bool" where
  "mainTurnEndEligible r agent =
     (if rq_AgentID r \<noteq> [] then False
      else (case rq_MainTurnEndEligible r of
          Some b \<Rightarrow> b
        | None \<Rightarrow> (case agent of None \<Rightarrow> True | Some a \<Rightarrow> a \<noteq> AgentCursor)))"

text \<open>A row of the table with every column the insert does not name at its default.\<close>

definition blank_request :: "db \<Rightarrow> string \<Rightarrow> string \<Rightarrow> string \<Rightarrow> string \<Rightarrow> perm_row" where
  "blank_request d i token toolName toolInput =
     \<lparr>pr_request_id = next_request_id d, pr_instance_id = i, pr_request_token = token, pr_tool_name = toolName,
      pr_tool_input = toolInput, pr_decision = None, pr_decision_reason = None, pr_decided_at = None,
      pr_created_at = sql_now_text d, pr_hook_pid = None, pr_hook_starttime = None, pr_hook_pidns = None,
      pr_tool_use_id = None, pr_agent_id = None, pr_delivered_at = None, pr_settled_at = None, pr_hook_gone_at = None,
      pr_attempted_decision = None, pr_attempted_at = None, pr_pane_answer = PaneAnswerNone, pr_pane_as = None,
      pr_pane_sender_pid = None, pr_pane_sender_starttime = None, pr_pane_sender_pidns = None,
      pr_pane_intent_at = None, pr_closed_at = None, pr_proven_gone_at = None, pr_proven_gone_how = None,
      pr_main_turn_end_eligible = False, pr_owner_launch_token = None, pr_owner_permission_epoch = None,
      pr_admitted_at = None, pr_fallback_at = None, pr_fallback_basis = None\<rparr>"

definition relay_request :: "db \<Rightarrow> string \<Rightarrow> RelayRequest \<Rightarrow> bool \<Rightarrow> spawn_row \<Rightarrow> perm_row" where
  "relay_request d i req elig r =
     (blank_request d i (rq_RequestToken req) (rq_ToolName req) (rq_ToolInput req))\<lparr>
        pr_hook_pid := positiveIntArg (pi_PID (rq_Hook req)), pr_hook_starttime := nullableStringArg (pi_Starttime (rq_Hook req)),
        pr_hook_pidns := nullableStringArg (pi_PIDNamespace (rq_Hook req)),
        pr_tool_use_id := nullableStringArg (rq_ToolUseID req), pr_agent_id := nullableStringArg (rq_AgentID req),
        pr_settled_at := millisArg (rq_SettledAt req), pr_main_turn_end_eligible := elig,
        pr_owner_launch_token := s_launch_token r, pr_owner_permission_epoch := Some (s_permission_epoch r),
        pr_admitted_at := Some (sql_now_ms d)\<rparr>"

definition insert_request :: "store \<Rightarrow> string \<Rightarrow> (db \<Rightarrow> perm_row option) \<Rightarrow> bool tx" where
  "insert_request s what row d =
     (if sqlFails s what then Inl (DriverError what)
      else (case row d of
          None \<Rightarrow> Inr (False, d)
        | Some p \<Rightarrow>
            if any_row (the_request (pr_instance_id p) (pr_request_token p)) (permission_requests d)
            then Inl ErrRequestTokenCollision
            else Inr (True, d\<lparr>permission_requests := permission_requests d @ [p], next_request_id := next_request_id d + 1\<rparr>)))"

definition insertEvent :: "string \<Rightarrow> string \<Rightarrow> int \<Rightarrow> string \<Rightarrow> string \<Rightarrow> trail_event" where
  "insertEvent i token rid tool writer = (''ad.row_mutation.committed'',
     [(''instance_id'', TS i), (''request_token'', TS token), (''request_id'', TI rid), (''tool_name'', TS tool),
      (''decision'', TNull), (''decision_reason'', TNull), (''writer_process'', TS writer),
      (''mutation_kind'', TS ''insert''), (''source'', TS ''ad_store'')])"

text \<open>The relay hook's first write: the gated move to check_permission and the request, together.\<close>

definition relayStateSet :: "store \<Rightarrow> db \<Rightarrow> spawn_row \<Rightarrow> spawn_row" where
  "relayStateSet s d r = launchStartClear ((hookWriteStateSet (settleMs s) (sql_now_ms d) StateCheckPermission r)
     \<lparr>s_last_seen_at := sql_now_text d, s_ended_at := None, s_idle_since := None\<rparr>)"

definition relayTx :: "store \<Rightarrow> string \<Rightarrow> HookGate \<Rightarrow> RelayRequest \<Rightarrow> int \<Rightarrow> (string \<times> int) tx" where
  "relayTx s i g req cap d =
     (if sqlFails s ''store: relay request prior state'' then Inl (DriverError ''store: relay request prior state'')
      else (case find_spawn d i of
          None \<Rightarrow> Inl errNotApplied
        | Some r0 \<Rightarrow>
            tx_bind (tx_exec s ''store: relay request state write''
              (gatedHookUpdate i g (relayStateSet s) (rq_TranscriptPath req) (rq_TranscriptPresent req) no_cond)) (\<lambda>n.
            if \<not> n then (\<lambda>_. Inl errNotApplied)
            else tx_bind (insert_request s ''store: relay request insert'' (\<lambda>d. map_option
                   (relay_request d i req (mainTurnEndEligible req (Some (s_agent r0)))) (find_spawn d i))) (\<lambda>_ d1.
              tx_bind (evictClosedRequests s cap) (\<lambda>_.
              tx_bind (refreshFamiliesAfterStateChange s (s_state r0) StateCheckPermission ([] :: unit list)) (\<lambda>_.
              tx_return (s_state r0, next_request_id d1 - 1))) d1)) d))"

definition InsertRelayRequest :: "store \<Rightarrow> string \<Rightarrow> HookGate \<Rightarrow> RelayRequest \<Rightarrow> int \<Rightarrow> hook_result call" where
  "InsertRelayRequest s i g req cap d0 =
     (case inWriteTx s (relayTx s i g req cap) d0 of
       (Inl errNotApplied, d) \<Rightarrow>
         call_bind (read_then s 9 (hookNotApplied s i g ''store: relay request'' \<circ> others s 8)) (\<lambda>a. call_return (UpsertNoChange, a)) d
     | (Inl e, d) \<Rightarrow> (Inl e, d)
     | (Inr (prior, rid), d) \<Rightarrow>
         (Inr (UpsertInserted, hook_applied),
          emit (insertEvent i (rq_RequestToken req) rid (rq_ToolName req) ''hook'')
            (emit (transitionEvent i prior StateCheckPermission (if g_Event g = [] then ''PermissionRequest'' else g_Event g) False) d)))"

definition open_request :: "db \<Rightarrow> string \<Rightarrow> string \<Rightarrow> string \<Rightarrow> string \<Rightarrow> spawn_row \<Rightarrow> perm_row" where
  "open_request d i token toolName toolInput r = (blank_request d i token toolName toolInput)\<lparr>
     pr_main_turn_end_eligible := (s_agent r \<noteq> AgentCursor), pr_owner_launch_token := s_launch_token r,
     pr_owner_permission_epoch := Some (s_permission_epoch r + (if s_state r = StateCheckPermission then 0 else 1)),
     pr_admitted_at := Some (sql_now_ms d)\<rparr>"

definition openRequestTx :: "store \<Rightarrow> string \<Rightarrow> HookGate \<Rightarrow> string \<Rightarrow> string \<Rightarrow> string \<Rightarrow> int \<Rightarrow> int tx" where
  "openRequestTx s i g token toolName toolInput cap =
     tx_bind (insert_request s ''store: upsert permission insert'' (\<lambda>d. map_option
        (open_request d i token toolName toolInput) (find (\<lambda>r. s_instance_id r = i \<and> hookGate d g r) (spawns d)))) (\<lambda>n d1.
     if \<not> n then Inl errNotApplied
     else tx_bind (evictClosedRequests s cap) (\<lambda>_. tx_return (next_request_id d1 - 1)) d1)"

definition UpsertOpenPermissionRequestResult ::
    "store \<Rightarrow> string \<Rightarrow> HookGate \<Rightarrow> string \<Rightarrow> string \<Rightarrow> string \<Rightarrow> int \<Rightarrow> string \<Rightarrow> hook_result call" where
  "UpsertOpenPermissionRequestResult s i g token toolName toolInput cap writer d =
     (if sqlFails s ''begin'' then (Inl (DriverError ''begin''), d)
      else (case openRequestTx s i g token toolName toolInput cap d of
          Inl errNotApplied \<Rightarrow>
            call_bind (read_then s 9 (hookNotApplied s i g ''store: upsert permission'' \<circ> others s 8)) (\<lambda>a. call_return (UpsertNoChange, a)) d
        | Inl e \<Rightarrow> (Inl e, d)
        | Inr (rid, d1) \<Rightarrow>
            if sqlFails s ''commit'' then (Inl (DriverError ''commit''), d)
            else (Inr (UpsertInserted, hook_applied), emit (insertEvent i token rid toolName writer) d1)))"

section \<open>The relay transaction, statement by statement\<close>

lemma relayTx_Inr:
  assumes "relayTx s i g req cap d = Inr (x, d')"
  shows "\<exists>prior d1 r1 elig d2.
     gatedHookUpdate i g (relayStateSet s) (rq_TranscriptPath req) (rq_TranscriptPresent req) no_cond d = (True, d1)
     \<and> d2 = d1\<lparr>permission_requests := permission_requests d1 @ [relay_request d1 i req elig r1], next_request_id := next_request_id d1 + 1\<rparr>
     \<and> tx_bind (evictClosedRequests s cap) (\<lambda>_.
              tx_bind (refreshFamiliesAfterStateChange s prior StateCheckPermission ([] :: unit list)) (\<lambda>_.
              tx_return (prior, next_request_id d2 - 1))) d2 = Inr (x, d')
     \<and> find_spawn d1 i = Some r1 \<and> (\<exists>r0. find_spawn d i = Some r0 \<and> prior = s_state r0 \<and> elig = mainTurnEndEligible req (Some (s_agent r0)))"
proof -
  obtain r0 d1 where r0: "find_spawn d i = Some r0"
    and u: "gatedHookUpdate i g (relayStateSet s) (rq_TranscriptPath req) (rq_TranscriptPresent req) no_cond d = (True, d1)"
    and k: "tx_bind (insert_request s ''store: relay request insert'' (\<lambda>d. map_option
                   (relay_request d i req (mainTurnEndEligible req (Some (s_agent r0)))) (find_spawn d i))) (\<lambda>_ d1.
              tx_bind (evictClosedRequests s cap) (\<lambda>_.
              tx_bind (refreshFamiliesAfterStateChange s (s_state r0) StateCheckPermission ([] :: unit list)) (\<lambda>_.
              tx_return (s_state r0, next_request_id d1 - 1))) d1) d1 = Inr (x, d')"
    using assms by (auto simp: relayTx_def tx_bind_Inr[of "tx_exec _ _ _"] tx_exec_Inr split: if_splits option.splits)
  have hit: "find_spawn d1 i \<noteq> None"
    using u r0 by (auto simp: gatedHookUpdate_def update_spawns_def find_spawn_def find_update_where relayStateSet_def)
  then obtain r1 where "find_spawn d1 i = Some r1" by blast
  with k r0 u show ?thesis
    by (auto simp: tx_bind_Inr[of "insert_request _ _ _"] insert_request_def split: if_splits)
qed

end
