(* ===== verification/Verdicts.thy ===== *)
theory Verdicts
  imports Request_Writes
begin

text \<open>
  Verdicts on permission requests: decide's write and the relay hook's ack and timeout deny, the
  records of a refused verdict and of a gone hook, the pane answer's writes and the proofs that a
  dialog is gone. Statements are guarded updates; \<open>request_write\<close> states what such a statement
  may do to a request: answers, closes and proofs are final, a delivered verdict excludes a pane
  answer.
\<close>

section \<open>Stored timestamps\<close>

text \<open>
  spawns.go \<open>storeTimestamp\<close>: a time in SQLite's CURRENT_TIMESTAMP text (UTC, whole seconds). A Go
  time is its milliseconds; the civil date of a day number is the proleptic Gregorian one.
\<close>

definition civil :: "int \<Rightarrow> int \<times> int \<times> int" where
  "civil days =
     (let z = days + 719468; era = z div 146097; doe = z mod 146097;
          yoe = (doe - doe div 1460 + doe div 36524 - doe div 146096) div 365;
          doy = doe - (365 * yoe + yoe div 4 - yoe div 100);
          mp = (5 * doy + 2) div 153;
          m = (if mp < 10 then mp + 3 else mp - 9)
      in (yoe + era * 400 + (if m \<le> 2 then 1 else 0), m, doy - (153 * mp + 2) div 5 + 1))"

fun pad :: "nat \<Rightarrow> int \<Rightarrow> string" where
  "pad 0 n = []"
| "pad (Suc k) n = pad k (n div 10) @ [char_of (48 + nat (n mod 10))]"

definition storeTimestamp :: "int \<Rightarrow> string" where
  "storeTimestamp ms =
     (let secs = ms div 1000; sod = secs mod 86400; (y, m, dd) = civil (secs div 86400)
      in pad 4 y @ ''-'' @ pad 2 m @ ''-'' @ pad 2 dd @ '' '' @ pad 2 (sod div 3600) @ '':''
         @ pad 2 (sod mod 3600 div 60) @ '':'' @ pad 2 (sod mod 60))"

section \<open>Reads\<close>

definition GetPermissionRequest :: "store \<Rightarrow> string \<Rightarrow> string \<Rightarrow> db \<Rightarrow> store_error + PermissionRow option" where
  "GetPermissionRequest s i token d =
     (if sqlFails s ''store: get permission'' then Inl (DriverError ''store: get permission'')
      else Inr (map_option scanPermissionRow (find (the_request i token) (permission_requests d))))"

definition GetPermissionRequestByToken :: "store \<Rightarrow> string \<Rightarrow> db \<Rightarrow> store_error + PermissionRow" where
  "GetPermissionRequestByToken s token d =
     (if sqlFails s ''store: get permission by token'' then Inl (DriverError ''store: get permission by token'')
      else (case find (\<lambda>p. pr_request_token p = token) (permission_requests d) of
          None \<Rightarrow> Inl ErrPermissionRequestNotFound
        | Some p \<Rightarrow> Inr (scanPermissionRow p)))"

definition OpenPermissionRequestsForSpawn :: "store \<Rightarrow> string \<Rightarrow> db \<Rightarrow> store_error + PermissionRow list" where
  "OpenPermissionRequestsForSpawn s i d =
     (if sqlFails s ''store: open permission requests'' then Inl (DriverError ''store: open permission requests'')
      else Inr (map scanPermissionRow (sort_key pr_created_at (sort_key pr_request_id
        (filter (\<lambda>p. pr_instance_id p = i \<and> awaitingAnswer p) (permission_requests d))))))"

definition spawn_requests :: "string \<Rightarrow> db \<Rightarrow> PermissionRow list" where
  "spawn_requests i d = map scanPermissionRow (sort_key pr_created_at (filter (\<lambda>p. pr_instance_id p = i) (permission_requests d)))"

definition PermissionRequestsForSpawn :: "store \<Rightarrow> string \<Rightarrow> db \<Rightarrow> store_error + PermissionRow list" where
  "PermissionRequestsForSpawn s i d =
     (if sqlFails s ''store: permission requests'' then Inl (DriverError ''store: permission requests'')
      else Inr (spawn_requests i d))"

section \<open>decide\<close>

definition decideMatch :: "db \<Rightarrow> string \<Rightarrow> string \<Rightarrow> string \<Rightarrow> perm_row \<Rightarrow> bool" where
  "decideMatch d i token cutoff p \<longleftrightarrow> the_request i token p \<and> pr_decision p = None
     \<and> pr_delivered_at p = None \<and> pr_pane_answer p = PaneAnswerNone \<and> pr_closed_at p = None
     \<and> (pr_settled_at p \<noteq> None \<or> pr_created_at p > cutoff) \<and> \<not> finishedSpawn d i"

definition decideSet :: "db \<Rightarrow> string \<Rightarrow> string \<Rightarrow> perm_row \<Rightarrow> perm_row" where
  "decideSet d decision reason p = p\<lparr>pr_decision := Some decision, pr_decision_reason := nullableStringArg reason,
     pr_decided_at := Some (sql_now_text d)\<rparr>"

definition decideTx :: "store \<Rightarrow> string \<Rightarrow> string \<Rightarrow> string \<Rightarrow> string \<Rightarrow> int \<Rightarrow> perm_row tx" where
  "decideTx s i token decision reason legacyCutoff =
     tx_bind (tx_exec s ''store: decide permission'' (\<lambda>d.
        update_requests (decideMatch d i token (storeTimestamp legacyCutoff)) (decideSet d decision reason) d)) (\<lambda>hit.
     case hit of None \<Rightarrow> (\<lambda>_. Inl errNotApplied) | Some p \<Rightarrow> tx_return p)"

definition DecideRelayRequest :: "store \<Rightarrow> string \<Rightarrow> string \<Rightarrow> string \<Rightarrow> string \<Rightarrow> string \<Rightarrow> int \<Rightarrow> bool call" where
  "DecideRelayRequest s i token decision reason writer legacyCutoff d0 =
     (case inWriteTx s (decideTx s i token decision reason legacyCutoff) d0 of
        (Inl errNotApplied, d) \<Rightarrow> (Inr False, d)
      | (Inl e, d) \<Rightarrow> (Inl e, d)
      | (Inr p, d) \<Rightarrow> (Inr True, emitDecisionCommitted i token (pr_request_id p) (pr_tool_name p) decision reason writer d))"

definition undecidedMatch :: "string \<Rightarrow> string \<Rightarrow> perm_row \<Rightarrow> bool" where
  "undecidedMatch i token p \<longleftrightarrow> the_request i token p \<and> pr_decision p = None"

definition decideWrite :: "store \<Rightarrow> string \<Rightarrow> string \<Rightarrow> string \<Rightarrow> string \<Rightarrow> string \<Rightarrow> bool call" where
  "decideWrite s i token decision reason writer d =
     (if sqlFails s ''store: decide permission'' then (Inl (DriverError ''store: decide permission''), d)
      else (case update_requests (undecidedMatch i token) (decideSet d decision reason) d of
          (None, _) \<Rightarrow> (Inr False, d)
        | (Some p, d') \<Rightarrow>
            (Inr True, emitDecisionCommitted i token (pr_request_id p) (pr_tool_name p) decision reason writer d')))"

definition DecidePermissionRequest :: "store \<Rightarrow> string \<Rightarrow> string \<Rightarrow> string \<Rightarrow> string \<Rightarrow> string \<Rightarrow> bool call" where
  "DecidePermissionRequest s i token decision reason writer =
     (if token = [] then
        call_bind (read_then s 0 (OpenPermissionRequestsForSpawn s i)) (\<lambda>rows.
          if length rows > 1 then (\<lambda>d. (Inl ErrAmbiguousRequest, d))
          else decideWrite s i token decision reason writer)
      else decideWrite s i token decision reason writer)"

section \<open>The relay hook\<close>

definition ackMatch :: "string \<Rightarrow> string \<Rightarrow> perm_row \<Rightarrow> bool" where
  "ackMatch i token p \<longleftrightarrow> the_request i token p \<and> pr_decision p \<noteq> None \<and> pr_delivered_at p = None
     \<and> pr_pane_answer p = PaneAnswerNone"

definition ackSet :: "int \<Rightarrow> perm_row \<Rightarrow> perm_row" where
  "ackSet at p = p\<lparr>pr_delivered_at := millisArg at\<rparr>"

text \<open>A precondition run under the write lock: it may refuse with an error.\<close>

definition run_check :: "store_error option \<Rightarrow> unit tx" where
  "run_check c d = (case c of Some e \<Rightarrow> Inl e | None \<Rightarrow> Inr ((), d))"

definition AckRelayDecision :: "store \<Rightarrow> string \<Rightarrow> string \<Rightarrow> int \<Rightarrow> store_error option \<Rightarrow> (string \<times> string) option call" where
  "AckRelayDecision s i token at check = inWriteTx s (tx_bind (run_check check) (\<lambda>_.
     tx_bind (tx_exec s ''store: ack relay decision'' (update_requests (ackMatch i token) (ackSet at))) (\<lambda>hit.
     tx_return (map_option (\<lambda>p. (coalesce (pr_decision p) [], coalesce (pr_decision_reason p) [])) hit))))"

definition timeoutMatch :: "string \<Rightarrow> string \<Rightarrow> perm_row \<Rightarrow> bool" where
  "timeoutMatch i token p \<longleftrightarrow> the_request i token p \<and> pr_decision p = None \<and> pr_pane_answer p = PaneAnswerNone"

definition timeoutSet :: "db \<Rightarrow> int \<Rightarrow> perm_row \<Rightarrow> perm_row" where
  "timeoutSet d at p = p\<lparr>pr_decision := Some ''deny'', pr_decision_reason := Some DecisionReasonTimeout,
     pr_decided_at := Some (sql_now_text d), pr_delivered_at := millisArg at\<rparr>"

definition DenyRelayTimeout :: "store \<Rightarrow> string \<Rightarrow> string \<Rightarrow> int \<Rightarrow> store_error option \<Rightarrow> bool call" where
  "DenyRelayTimeout s i token at check = call_bind (inWriteTx s (tx_bind (run_check check) (\<lambda>_.
     tx_exec s ''store: relay timeout deny'' (\<lambda>d. update_requests (timeoutMatch i token) (timeoutSet d at) d)))) (\<lambda>hit d.
     case hit of None \<Rightarrow> (Inr False, d)
     | Some p \<Rightarrow> (Inr True, emitDecisionCommitted i token (pr_request_id p) (pr_tool_name p) ''deny'' DecisionReasonTimeout ''hook'' d))"

definition awaitingMatch :: "string \<Rightarrow> string \<Rightarrow> perm_row \<Rightarrow> bool" where
  "awaitingMatch i token p \<longleftrightarrow> the_request i token p \<and> awaitingAnswer p"

definition refusedSet :: "string \<Rightarrow> int \<Rightarrow> int \<Rightarrow> perm_row \<Rightarrow> perm_row" where
  "refusedSet decision at hookGoneAt p = p\<lparr>pr_attempted_decision := Some decision, pr_attempted_at := millisArg at,
     pr_hook_gone_at := coalesce_opt (pr_hook_gone_at p) (millisArg hookGoneAt)\<rparr>"

definition RecordRefusedDecision :: "store \<Rightarrow> string \<Rightarrow> string \<Rightarrow> string \<Rightarrow> int \<Rightarrow> int \<Rightarrow> unit call" where
  "RecordRefusedDecision s i token decision at hookGoneAt = inWriteTx s (tx_bind
     (tx_exec s ''store: record refused decision'' (update_requests (awaitingMatch i token) (refusedSet decision at hookGoneAt)))
     (\<lambda>_. tx_return ()))"

definition hookGoneSet :: "int \<Rightarrow> perm_row \<Rightarrow> perm_row" where
  "hookGoneSet at p = p\<lparr>pr_hook_gone_at := coalesce_opt (pr_hook_gone_at p) (millisArg at)\<rparr>"

fun recordHookGoneLoop :: "store \<Rightarrow> int \<Rightarrow> int list \<Rightarrow> (int \<times> int) list tx" where
  "recordHookGoneLoop s at [] = tx_return []"
| "recordHookGoneLoop s at (rid # ids) =
     tx_bind (tx_exec s ''store: record hook gone'' (update_requests (\<lambda>p. pr_request_id p = rid) (hookGoneSet at))) (\<lambda>hit.
     tx_bind (recordHookGoneLoop s at ids) (\<lambda>rest.
     tx_return (case hit of None \<Rightarrow> rest | Some p \<Rightarrow> (rid, millisTime (pr_hook_gone_at p)) # rest)))"

definition RecordHookGone :: "store \<Rightarrow> int \<Rightarrow> int list \<Rightarrow> (int \<times> int) list call" where
  "RecordHookGone s at ids = (if ids = [] then call_return [] else inWriteTx s (recordHookGoneLoop s at ids))"

section \<open>The fallback clock\<close>

text \<open>
  display.go: the clock of a request that fell back. A reader's observation and its clock are instants in
  nanoseconds; \<open>T\<close> is what the driver reads from a stored timestamp text, in milliseconds.
\<close>

abbreviation "FallbackProcess \<equiv> ''process''"
abbreviation "FallbackDeadline \<equiv> ''deadline''"
abbreviation "FallbackAdmission \<equiv> ''admission''"

record FallbackObservation =
  fo_RequestID :: int
  fo_ConfirmBy :: int
  fo_ProcessGone :: bool
  fo_CantTell :: bool

definition ofMillis :: "int \<Rightarrow> int" where
  "ofMillis t = t * 1000000"

definition FallbackClock :: "(string \<Rightarrow> int) \<Rightarrow> string \<Rightarrow> string \<Rightarrow> PermissionRow \<Rightarrow> FallbackObservation \<Rightarrow> int \<Rightarrow> int \<times> string" where
  "FallbackClock T agent relayMode pr ob now =
     (let (start, basis) =
        (if FallbackAt pr \<noteq> zeroTime then (ofMillis (FallbackAt pr), FallbackBasis pr)
         else if agent = AgentCursor \<and> relayMode = ''off''
         then (ofMillis (if AdmittedAt pr = zeroTime then T (CreatedAt pr) else AdmittedAt pr), FallbackAdmission)
         else if agent = AgentCursor \<or> fo_CantTell ob \<or> PreV7 pr then (fo_ConfirmBy ob, FallbackDeadline)
         else if fo_ProcessGone ob then (if HookGoneAt pr = zeroTime then now else ofMillis (HookGoneAt pr), FallbackProcess)
         else (ofMillis zeroTime, []))
      in if PreV7 pr \<and> T (CreatedAt pr) = zeroTime
            \<or> start \<noteq> ofMillis zeroTime \<and> (start div 1000000 \<le> 0 \<or> fst (civil (start div 86400000000000)) > 9999)
         then (ofMillis zeroTime, []) else (start, basis))"

definition fallbackSet :: "int \<Rightarrow> int \<Rightarrow> string \<Rightarrow> perm_row \<Rightarrow> perm_row" where
  "fallbackSet at start basis p = p\<lparr>pr_hook_gone_at := coalesce_opt (pr_hook_gone_at p) (millisArg (at div 1000000)),
     pr_fallback_at := coalesce_opt (pr_fallback_at p) (millisArg (start div 1000000)),
     pr_fallback_basis := (if pr_fallback_at p = None then nullableStringArg basis else pr_fallback_basis p)\<rparr>"

fun recordFallbacks :: "store \<Rightarrow> (string \<Rightarrow> int) \<Rightarrow> int \<Rightarrow> FallbackObservation list \<Rightarrow> (int \<times> int) list tx" where
  "recordFallbacks s T at [] = tx_return []"
| "recordFallbacks s T at (ob # obs) =
     tx_bind (tx_exec s ''store: fallback request'' (\<lambda>d. (find (\<lambda>p. pr_request_id p = fo_RequestID ob) (permission_requests d), d))) (\<lambda>found.
     case found of None \<Rightarrow> recordFallbacks s T at obs
     | Some p \<Rightarrow>
         tx_bind (tx_exec s ''store: fallback spawn'' (\<lambda>d. (find_spawn d (pr_instance_id p), d))) (\<lambda>owner.
         case owner of None \<Rightarrow> (\<lambda>_. Inl (DriverError ''sql: no rows in result set''))
         | Some r \<Rightarrow>
             (case FallbackClock T (s_agent r) (s_relay_mode r) (scanPermissionRow p) ob at of (start, basis) \<Rightarrow>
               tx_bind (tx_exec s ''store: record fallback'' (update_requests (\<lambda>q. pr_request_id q = fo_RequestID ob) (fallbackSet at start basis)))
               (\<lambda>hit. tx_bind (recordFallbacks s T at obs) (\<lambda>rest.
               tx_return (case hit of None \<Rightarrow> rest | Some q \<Rightarrow> (fo_RequestID ob, millisTime (pr_hook_gone_at q)) # rest))))))"

definition RecordPermissionFallbacks :: "store \<Rightarrow> (string \<Rightarrow> int) \<Rightarrow> int \<Rightarrow> FallbackObservation list \<Rightarrow> (int \<times> int) list call" where
  "RecordPermissionFallbacks s T at obs = inWriteTx s (recordFallbacks s T at obs)"

section \<open>Pane answers\<close>

record PaneIntent =
  pn_As :: string
  pn_Sender :: ProcessIdentity
  pn_At :: int

type_synonym pane_check = "(spawn_row \<Rightarrow> PermissionRow list \<Rightarrow> store_error option) option"

definition runPaneCheck :: "store \<Rightarrow> string \<Rightarrow> pane_check \<Rightarrow> unit tx" where
  "runPaneCheck s i check d = (case check of
     None \<Rightarrow> Inr ((), d)
   | Some c \<Rightarrow>
       if sqlFails s ''store: get spawn'' then Inl (DriverError ''store: get spawn'')
       else (case find_spawn d i of
           None \<Rightarrow> Inl (ErrSpawnNotFound i)
         | Some r \<Rightarrow>
             if sqlFails s ''store: permission requests'' then Inl (DriverError ''store: permission requests'')
             else run_check (c r (spawn_requests i d)) d))"

definition intentSet :: "string \<Rightarrow> ProcessIdentity \<Rightarrow> int \<Rightarrow> perm_row \<Rightarrow> perm_row" where
  "intentSet as sender at p = p\<lparr>pr_pane_answer := PaneAnswerIntent, pr_pane_as := Some as,
     pr_pane_sender_pid := positiveIntArg (pi_PID sender), pr_pane_sender_starttime := nullableStringArg (pi_Starttime sender),
     pr_pane_sender_pidns := nullableStringArg (pi_PIDNamespace sender), pr_pane_intent_at := millisArg at,
     pr_hook_gone_at := coalesce_opt (pr_hook_gone_at p) (millisArg at)\<rparr>"

definition RecordPaneIntent :: "store \<Rightarrow> string \<Rightarrow> string \<Rightarrow> string \<Rightarrow> ProcessIdentity \<Rightarrow> pane_check \<Rightarrow> PaneIntent option call" where
  "RecordPaneIntent s i token as sender check = inWriteTx s (tx_bind (runPaneCheck s i check) (\<lambda>_ d.
     tx_bind (tx_exec s ''store: record pane intent'' (update_requests (awaitingMatch i token) (intentSet as sender (go_now_ms d)))) (\<lambda>hit.
     tx_return (map_option (\<lambda>_. \<lparr>pn_As = as, pn_Sender = sender, pn_At = go_now_ms d\<rparr>) hit)) d))"

definition intentOwner :: "PaneIntent \<Rightarrow> perm_row \<Rightarrow> bool" where
  "intentOwner n p \<longleftrightarrow> pr_pane_answer p = PaneAnswerIntent
     \<and> where_true (sql_eq (pr_pane_intent_at p) (millisArg (pn_At n)))
     \<and> pr_pane_sender_pid p = positiveIntArg (pi_PID (pn_Sender n))
     \<and> pr_pane_sender_starttime p = nullableStringArg (pi_Starttime (pn_Sender n))
     \<and> pr_pane_sender_pidns p = nullableStringArg (pi_PIDNamespace (pn_Sender n))"

definition sentMatch :: "string \<Rightarrow> string \<Rightarrow> PaneIntent \<Rightarrow> perm_row \<Rightarrow> bool" where
  "sentMatch i token n p \<longleftrightarrow> the_request i token p \<and> pr_closed_at p = None \<and> intentOwner n p"

definition sentSet :: "db \<Rightarrow> perm_row \<Rightarrow> perm_row" where
  "sentSet d p = p\<lparr>pr_pane_answer := PaneAnswerSent, pr_decision := pr_pane_as p,
     pr_decision_reason := Some DecisionReasonPane, pr_decided_at := Some (sql_now_text d)\<rparr>"

definition RecordPaneSent :: "store \<Rightarrow> string \<Rightarrow> string \<Rightarrow> PaneIntent \<Rightarrow> bool call" where
  "RecordPaneSent s i token n = call_bind (inWriteTx s (tx_exec s ''store: record pane sent''
     (\<lambda>d. update_requests (sentMatch i token n) (sentSet d) d))) (\<lambda>hit d.
     case hit of None \<Rightarrow> (Inr False, d)
     | Some p \<Rightarrow> (Inr True, emitDecisionCommitted i token (pr_request_id p) (pr_tool_name p)
                    (coalesce (pr_decision p) []) DecisionReasonPane ''send_keys'' d))"

definition releaseMatch :: "string \<Rightarrow> string \<Rightarrow> PaneIntent \<Rightarrow> perm_row \<Rightarrow> bool" where
  "releaseMatch i token n p \<longleftrightarrow> the_request i token p \<and> intentOwner n p"

definition releaseSet :: "perm_row \<Rightarrow> perm_row" where
  "releaseSet p = p\<lparr>pr_pane_sender_pid := None, pr_pane_sender_starttime := None, pr_pane_sender_pidns := None,
     pr_pane_intent_at := None\<rparr>"

definition ReleasePaneIntent :: "store \<Rightarrow> string \<Rightarrow> string \<Rightarrow> PaneIntent \<Rightarrow> bool call" where
  "ReleasePaneIntent s i token n = inWriteTx s (tx_bind
     (tx_exec s ''store: release pane intent'' (update_requests (releaseMatch i token n) releaseSet))
     (\<lambda>hit. tx_return (hit \<noteq> None)))"

definition outsideSet :: "db \<Rightarrow> string \<Rightarrow> perm_row \<Rightarrow> perm_row" where
  "outsideSet d claim p = p\<lparr>pr_pane_answer := PaneAnswerOutside, pr_pane_as := Some claim,
     pr_decision := (if claim = ''allow'' \<or> claim = ''deny'' then Some claim else None),
     pr_decision_reason := Some DecisionReasonPaneOutside, pr_decided_at := Some (sql_now_text d)\<rparr>"

definition RecordPaneOutside :: "store \<Rightarrow> string \<Rightarrow> string \<Rightarrow> string \<Rightarrow> pane_check \<Rightarrow> bool call" where
  "RecordPaneOutside s i token claim check = call_bind (inWriteTx s (tx_bind (runPaneCheck s i check) (\<lambda>_.
     tx_exec s ''store: record pane outside'' (\<lambda>d. update_requests (awaitingMatch i token) (outsideSet d claim) d)))) (\<lambda>hit d.
     case hit of None \<Rightarrow> (Inr False, d)
     | Some p \<Rightarrow> (Inr True, emitDecisionCommitted i token (pr_request_id p) (pr_tool_name p)
                    (if claim = ''allow'' \<or> claim = ''deny'' then claim else []) DecisionReasonPaneOutside ''record_pane_answer'' d))"

section \<open>Proofs that a dialog is gone\<close>

definition toolRanMatch :: "db \<Rightarrow> string \<Rightarrow> HookGate \<Rightarrow> string \<Rightarrow> int \<Rightarrow> perm_row \<Rightarrow> bool" where
  "toolRanMatch d i g toolUseID rid p \<longleftrightarrow> pr_request_id p = rid \<and> pr_instance_id p = i
     \<and> pr_tool_use_id p = Some toolUseID \<and> awaitingAnswer p
     \<and> any_row (\<lambda>r. s_instance_id r = i \<and> s_agent r \<noteq> AgentCursor \<and> hookGate d g r) (spawns d)"

definition toolRanSet :: "db \<Rightarrow> int \<Rightarrow> perm_row \<Rightarrow> perm_row" where
  "toolRanSet d at p = p\<lparr>pr_pane_answer := PaneAnswerToolRan, pr_decision := Some ''allow'',
     pr_decision_reason := Some DecisionReasonToolRan, pr_decided_at := Some (sql_now_text d),
     pr_hook_gone_at := coalesce_opt (pr_hook_gone_at p) (millisArg at),
     pr_proven_gone_how := (if pr_proven_gone_at p = None then Some ProvenGoneToolRan else pr_proven_gone_how p),
     pr_proven_gone_at := coalesce_opt (pr_proven_gone_at p) (millisArg at)\<rparr>"

text \<open>One statement per candidate, each its own transaction: other connections run between them.\<close>

fun closeToolRanLoop :: "store \<Rightarrow> string \<Rightarrow> HookGate \<Rightarrow> string \<Rightarrow> int \<Rightarrow> (PermissionRow \<Rightarrow> bool) \<Rightarrow> nat \<Rightarrow> PermissionRow list
     \<Rightarrow> string list \<Rightarrow> (store_error option \<times> string list) call" where
  "closeToolRanLoop s i g toolUseID at gone n [] closed = call_return (None, closed)"
| "closeToolRanLoop s i g toolUseID at gone n (pr # prs) closed =
     (if \<not> gone pr then closeToolRanLoop s i g toolUseID at gone n prs closed
      else (\<lambda>d. if sqlFails s ''store: close tool-ran request''
                then (Inr (Some (DriverError ''store: close tool-ran request''), closed), d)
                else (case update_requests (toolRanMatch d i g toolUseID (RequestID pr)) (toolRanSet d at) d of
                    (None, d') \<Rightarrow> closeToolRanLoop s i g toolUseID at gone (Suc n) prs closed (others s n d')
                  | (Some p, d') \<Rightarrow> closeToolRanLoop s i g toolUseID at gone (Suc n) prs (closed @ [pr_request_token p])
                      (others s n (emitDecisionCommitted i (pr_request_token p) (RequestID pr) (pr_tool_name p) ''allow''
                         DecisionReasonToolRan ''hook'' d')))))"

definition CloseToolRanRequests :: "store \<Rightarrow> string \<Rightarrow> HookGate \<Rightarrow> string \<Rightarrow> int \<Rightarrow> (PermissionRow \<Rightarrow> bool) option
     \<Rightarrow> (store_error option \<times> string list) call" where
  "CloseToolRanRequests s i g toolUseID at gone =
     (if toolUseID = [] then call_return (None, [])
      else (case gone of None \<Rightarrow> call_return (None, [])
      | Some judge \<Rightarrow> call_bind (read_then s 0 (\<lambda>d.
            if sqlFails s ''store: tool-ran candidates'' then Inl (DriverError ''store: tool-ran candidates'')
            else Inr (map scanPermissionRow (sort_key pr_request_id (filter (\<lambda>p. pr_instance_id p = i
                 \<and> pr_tool_use_id p = Some toolUseID \<and> pr_settled_at p \<noteq> None \<and> awaitingAnswer p) (permission_requests d))))))
          (\<lambda>candidates. closeToolRanLoop s i g toolUseID at judge 1 candidates [])))"

record RequestProof =
  rp_How :: string
  rp_ToolUseID :: string
  rp_RecordedBefore :: int
  rp_At :: int

definition proofMatch :: "RequestProof \<Rightarrow> store_error + (perm_row \<Rightarrow> bool) option" where
  "proofMatch x =
     (if rp_How x = ProvenGoneToolRan then
        (if rp_ToolUseID x = [] then Inr None else Inr (Some (\<lambda>p. pr_tool_use_id p = Some (rp_ToolUseID x))))
      else if rp_How x = ProvenGoneTurnEnd then
        (if rp_RecordedBefore x = zeroTime then Inl errTurnEndNoStart
         else Inr (Some (\<lambda>p. pr_main_turn_end_eligible p \<and> pr_agent_id p = None
                            \<and> pr_created_at p < storeTimestamp (rp_RecordedBefore x))))
      else Inl (errUnknownProof (rp_How x)))"

definition newestCovered :: "string \<Rightarrow> (perm_row \<Rightarrow> bool) \<Rightarrow> db \<Rightarrow> int option" where
  "newestCovered i covers d =
     (case map pr_request_id (filter (\<lambda>p. pr_instance_id p = i \<and> pr_proven_gone_at p = None \<and> covers p) (permission_requests d)) of
        [] \<Rightarrow> None | x # xs \<Rightarrow> Some (fold max xs x))"

definition proveMatch :: "db \<Rightarrow> string \<Rightarrow> HookGate \<Rightarrow> string \<Rightarrow> (perm_row \<Rightarrow> bool) \<Rightarrow> int \<Rightarrow> perm_row \<Rightarrow> bool" where
  "proveMatch d i g how covers newest p \<longleftrightarrow> pr_instance_id p = i \<and> pr_proven_gone_at p = None \<and> covers p
     \<and> pr_request_id p \<le> newest
     \<and> any_row (\<lambda>r. s_instance_id r = i \<and> (how = ProvenGoneToolRan \<longrightarrow> s_agent r \<noteq> AgentCursor) \<and> hookGate d g r) (spawns d)"

definition proveSet :: "int \<Rightarrow> string \<Rightarrow> perm_row \<Rightarrow> perm_row" where
  "proveSet at how p = p\<lparr>pr_proven_gone_at := millisArg at, pr_proven_gone_how := Some how\<rparr>"

definition ProveRequestsGone :: "store \<Rightarrow> string \<Rightarrow> HookGate \<Rightarrow> RequestProof \<Rightarrow> nat call" where
  "ProveRequestsGone s i g proof' = (case proofMatch proof' of
     Inl e \<Rightarrow> (\<lambda>d. (Inl e, d))
   | Inr None \<Rightarrow> call_return 0
   | Inr (Some covers) \<Rightarrow>
       call_bind (read_then s 0 (\<lambda>d. if sqlFails s ''store: prove requests gone: read''
          then Inl (DriverError ''store: prove requests gone: read'') else Inr (newestCovered i covers d))) (\<lambda>newest.
       case newest of None \<Rightarrow> call_return 0
       | Some newestID \<Rightarrow> (\<lambda>d.
           let at = (if rp_At proof' = zeroTime then go_now_ms d else rp_At proof');
               P = proveMatch d i g (rp_How proof') covers newestID
           in if sqlFails s ''store: prove requests gone'' then (Inl (DriverError ''store: prove requests gone''), d)
              else (Inr (length (filter P (permission_requests d))),
                    d\<lparr>permission_requests := update_where P (proveSet at (rp_How proof')) (permission_requests d)\<rparr>))))"

end
