(* ===== verification/Hook_Laws.thy ===== *)
theory Hook_Laws
  imports Hook_Writes
begin

text \<open>
  The behaviour of the gated hook writes branch by branch. The functional statements are for a
  quiet store (no driver failure, no other connection between two statements of the call); the
  safety statements hold under any interference that itself keeps the invariant, and for any
  driver failure.
\<close>

section \<open>Quiet stores\<close>

definition quiet :: "store \<Rightarrow> bool" where
  "quiet s \<longleftrightarrow> (\<forall>w. \<not> sqlFails s w) \<and> (\<forall>n d. others s n d = d)"

lemma quiet_simps [simp]: "quiet s \<Longrightarrow> \<not> sqlFails s w" "quiet s \<Longrightarrow> others s n d = d"
  by (simp_all add: quiet_def)

definition sample_store :: store where
  "sample_store = \<lparr>marshalStartup = (\<lambda>_. ''{}''), marshalCapacity = (\<lambda>_. ''{}''), unmarshalCapacity = (\<lambda>_. None),
     settleMs = 1000, sqlFails = (\<lambda>_. False), others = (\<lambda>_ d. d)\<rparr>"

definition sample_db :: db where
  "sample_db = \<lparr>spawns = [sample_row\<lparr>s_state := StateCheckPermission\<rparr>, sample_row\<lparr>s_instance_id := ''b'', s_state := StateWaiting\<rparr>],
     permission_requests = [sample_request], session_history = [], subagents = [], subagent_launches = [],
     cursor_runtimes = [], next_request_id = 2, next_history_id = 1, next_subagent_seq = 1, next_launch_seq = 1,
     sql_now_ms = 9000, sql_now_text = ''2026-01-01 00:00:09'', go_now_ms = 9000, trail = []\<rparr>"

definition sample_gate :: HookGate where
  "sample_gate = \<lparr>g_CodexStartup = False, g_Cursor = None, g_ClaudeCapacitySnapshot = None, g_Event = ''Stop'', g_ParentPID = 7,
     g_ParentStart = ''p0'', g_SessionID = ''s1'', g_SessionStart = False,
     g_Examined = lifeSnapshot sample_row, g_CodexTurn = [], g_CodexTurnStart = False, g_CodexTurnEnd = False,
     g_CodexToolTurn = False\<rparr>"

lemma quiet_sample [simp]: "quiet sample_store"
  by (simp add: quiet_def sample_store_def)

section \<open>Statements of a quiet store\<close>

lemma the_row:
  assumes "distinct (map s_instance_id (spawns d))" and "find_spawn d i = Some r" and "q \<in> set (spawns d)"
    and "s_instance_id q = i"
  shows "q = r"
  using assms find_spawn_Some[OF assms(2)] by (auto simp: distinct_map inj_on_def)

lemma update_the_row:
  assumes "distinct (map s_instance_id (spawns d))" and "find_spawn d i = Some r"
  shows "update_spawns (\<lambda>q. s_instance_id q = i \<and> P q) f d
    = (P r, if P r then d\<lparr>spawns := update_where (\<lambda>q. s_instance_id q = i) f (spawns d)\<rparr> else d)"
proof -
  have r: "r \<in> set (spawns d)" "s_instance_id r = i" using find_spawn_Some[OF assms(2)] by auto
  have eq: "s_instance_id q = i \<and> P q \<longleftrightarrow> s_instance_id q = i \<and> P r" if "q \<in> set (spawns d)" for q
    using the_row[OF assms that] by auto
  have any: "(\<exists>q \<in> set (spawns d). s_instance_id q = i \<and> P q) = P r"
    using eq r by blast
  have up: "update_where (\<lambda>q. s_instance_id q = i \<and> P q) f (spawns d)
      = update_where (\<lambda>q. s_instance_id q = i \<and> P r) f (spawns d)"
    using eq by (simp add: update_where_def)
  show ?thesis
    by (cases "P r") (simp_all add: update_spawns_def any up)
qed

definition applied_db :: "store \<Rightarrow> string \<Rightarrow> (spawn_row \<Rightarrow> spawn_row) \<Rightarrow> db \<Rightarrow> db" where
  "applied_db s i f d = finish_tx s i (d\<lparr>spawns := update_where (\<lambda>q. s_instance_id q = i) f (spawns d)\<rparr>)"

lemma execFamily_the_row:
  assumes "quiet s" and "distinct (map s_instance_id (spawns d))" and "find_spawn d i = Some r"
  shows "execFamily s i what (gatedHookUpdate i g upd p b cond) d =
    (if hookGate d g r \<and> cond d r then (Inr True, applied_db s i (hookWrite g (upd d) p b) d) else (Inr False, d))"
proof -
  have "gatedHookUpdate i g upd p b cond d = (hookGate d g r \<and> cond d r,
      if hookGate d g r \<and> cond d r
      then d\<lparr>spawns := update_where (\<lambda>q. s_instance_id q = i) (hookWrite g (upd d) p b) (spawns d)\<rparr> else d)"
    unfolding gatedHookUpdate_def
    using update_the_row[OF assms(2,3), of "\<lambda>q. hookGate d g q \<and> cond d q" "hookWrite g (upd d) p b"] by simp
  then show ?thesis
    using assms(1) by (simp add: execFamily_ok applied_db_def)
qed

lemma find_applied:
  assumes "find_spawn d i = Some r" and "\<And>q. s_instance_id (f q) = s_instance_id q"
  shows "find_spawn (applied_db s i f d) i
    = Some (finish_row s (d\<lparr>spawns := update_where (\<lambda>q. s_instance_id q = i) f (spawns d)\<rparr>) i (f r))"
proof -
  let ?d = "d\<lparr>spawns := update_where (\<lambda>q. s_instance_id q = i) f (spawns d)\<rparr>"
  have "find_spawn ?d i = Some (f r)"
    using assms find_spawn_Some[OF assms(1)] by (simp add: find_spawn_def find_update_where)
  then show ?thesis by (simp add: applied_db_def)
qed

lemma applied_db_keeps [simp]:
  "permission_requests (applied_db s i f d) = permission_requests d" "subagents (applied_db s i f d) = subagents d"
  by (simp_all add: applied_db_def)

lemma readHookGateRow_quiet:
  assumes "quiet s" and "find_spawn d i = Some r"
  shows "readHookGateRow s i g what d = Inr \<lparr>hg_found = True, hg_state = s_state r, hg_paneNull = (s_pane_pid r = None),
      hg_gateMatches = hookGate d g r\<rparr>"
  using assms by (simp add: readHookGateRow_def)

lemma applyGatedHookWrite_quiet:
  assumes "quiet s" and "distinct (map s_instance_id (spawns d))" and "find_spawn d i = Some r"
  shows "applyGatedHookWrite s i g upd prior new soft ev p b what d =
    (if hookGate d g r then (Inr (UpsertUpdated, hook_applied), emit (transitionEvent i prior new ev soft)
        (applied_db s i (hookWrite g (upd d) p b) d))
     else (Inr (UpsertNoChange, \<lparr>Applied = False, Reason = if s_pane_pid r = None then HookReasonNoPaneRecorded
                                   else HookReasonPIDMismatch\<rparr>), d))"
  using execFamily_the_row[OF assms, of what g upd p b no_cond] assms
  by (simp add: applyGatedHookWrite_def call_bind_def emit_call_def read_then_def o_def hookNotApplied_def
      readHookGateRow_quiet notAppliedReason_def call_return_def)

lemma holdingRequest_row: "find_spawn d i = Some r \<Longrightarrow> holdingRequest i d = (\<not> noRequestHoldsRow d r)"
  using find_spawn_Some[of d i r] by (simp add: holdingRequest_def noRequestHoldsRow_def)

lemma reportWorkingHeld_quiet:
  assumes "quiet s" and "distinct (map s_instance_id (spawns d))" and "find_spawn d i = Some r"
  shows "reportWorkingHeld s i g ev d =
    (if \<not> hookGate d g r then (Inr (UpsertNoChange, \<lparr>Applied = False, Reason = if s_pane_pid r = None then HookReasonNoPaneRecorded
                                   else HookReasonPIDMismatch\<rparr>), d)
     else (Inr (UpsertNoChange, hook_applied), emit (transitionEvent i (s_state r) (s_state r) ev False)
        (if g_CodexTurnStart g then
           (if s_idle_since r \<noteq> None \<or> s_codex_turn r \<noteq> nullableStringArg (g_CodexTurn g)
            then applied_db s i (\<lambda>r. rowVersionAdvance (r\<lparr>s_idle_since := None, s_codex_turn := nullableStringArg (g_CodexTurn g)\<rparr>)) d
            else d)
         else if s_idle_since r \<noteq> None then applied_db s i (\<lambda>r. rowVersionAdvance (r\<lparr>s_idle_since := None\<rparr>)) d else d)))"
proof -
  have u1: "clearIdleSince i g d = (let c = s_idle_since r \<noteq> None \<and> hookGate d g r in (c,
      if c then d\<lparr>spawns := update_where (\<lambda>q. s_instance_id q = i) (\<lambda>r. rowVersionAdvance (r\<lparr>s_idle_since := None\<rparr>)) (spawns d)\<rparr> else d))"
    unfolding clearIdleSince_def Let_def by (rule update_the_row[OF assms(2,3)])
  have u2: "codexHeldTurn i g d = (let t = nullableStringArg (g_CodexTurn g);
      c = (s_idle_since r \<noteq> None \<or> s_codex_turn r \<noteq> t) \<and> hookGate d g r in (c,
      if c then d\<lparr>spawns := update_where (\<lambda>q. s_instance_id q = i)
        (\<lambda>r. rowVersionAdvance (r\<lparr>s_idle_since := None, s_codex_turn := t\<rparr>)) (spawns d)\<rparr> else d))"
    unfolding codexHeldTurn_def Let_def by (rule update_the_row[OF assms(2,3)])
  show ?thesis
    using assms(1,3)
    by (simp add: reportWorkingHeld_def call_bind_def read_then_def readHookGateRow_quiet notAppliedReason_def call_return_def
        execGuarded_def execFamily_ok emit_call_def u1 u2 Let_def applied_db_def)
qed

lemma holdWorkingTransition_quiet:
  assumes "quiet s" and "find_spawn d i = Some r"
  shows "holdWorkingTransition s i g ev d =
    (if noRequestHoldsRow d r then (Inr None, d) else call_bind (reportWorkingHeld s i g ev) (\<lambda>x. call_return (Some x)) d)"
  using assms by (simp add: holdWorkingTransition_def call_bind_def read_then_def holdingRequest_row call_return_def)

lemma codexToolTurnLate_quiet:
  "quiet s \<Longrightarrow> find_spawn d i = Some r \<Longrightarrow> codexToolTurnLate s i turn d = Inr (\<not> codexToolTurnCurrent turn r)"
  by (simp add: codexToolTurnLate_def)

lemma selectPriorState_quiet: "quiet s \<Longrightarrow> find_spawn d i = Some r \<Longrightarrow> selectPriorState s i d = Inr (Some (s_state r))"
  by (simp add: selectPriorState_def)

definition turn_allows :: "HookGate \<Rightarrow> string \<Rightarrow> spawn_row \<Rightarrow> bool" where
  "turn_allows g v r \<longleftrightarrow> (v = StateWorking \<and> codexToolTurn g \<longrightarrow> codexToolTurnCurrent (g_CodexTurn g) r)"

lemma applyWorkingWrite_quiet:
  assumes "quiet s" and "distinct (map s_instance_id (spawns d))" and "find_spawn d i = Some r"
  shows "applyWorkingWrite s i g upd prior v ev p b what d =
    (if hookGate d g r \<and> noRequestHoldsRow d r \<and> turn_allows g v r
     then (Inr (UpsertUpdated, hook_applied), emit (transitionEvent i prior v ev False) (applied_db s i (hookWrite g (upd d) p b) d))
     else if g_Cursor g \<noteq> None \<or> \<not> turn_allows g v r
     then applyGatedHookWrite s i g softRefreshSet (s_state r) (s_state r) True ev p b what d
     else reportWorkingHeld s i g ev d)"
  unfolding applyWorkingWrite_def Let_def execGuarded_def call_bind_def execFamily_the_row[OF assms] turn_allows_def
  using assms(1,3) by (auto simp: emit_call_def call_return_def read_then_def codexToolTurnLate_quiet selectPriorState_quiet)

lemma applyEndedTransition_mismatch:
  assumes "quiet s" and "distinct (map s_instance_id (spawns d))" and "find_spawn d i = Some r" and "\<not> hookGate d g r"
  shows "applyEndedTransition s i g ev p b d =
    (Inr (UpsertNoChange, \<lparr>Applied = False, Reason = if s_pane_pid r = None then HookReasonNoPaneRecorded
                            else HookReasonPIDMismatch\<rparr>), d)"
proof -
  have u: "gatedHookUpdate i g endedTransitionSet p b no_cond d = (False, d)"
    using update_the_row[OF assms(2,3), of "\<lambda>q. hookGate d g q"] assms(4) by (simp add: gatedHookUpdate_def)
  have "endedTx s i g p b d = Inl errNotApplied"
    using assms(1,3) u by (simp add: endedTx_def tx_bind_def tx_exec_def)
  then have "inImmediateTx s i (endedTx s i g p b) d = (Inl errNotApplied, d)"
    using assms(1) by (simp add: inImmediateTx_def)
  with assms show ?thesis
    by (simp add: applyEndedTransition_def call_bind_def read_then_def o_def hookNotApplied_def readHookGateRow_quiet
        notAppliedReason_def call_return_def)
qed

lemma ended_update:
  assumes "distinct (map s_instance_id (spawns d))" and "find_spawn d i = Some r"
    and "gatedHookUpdate i g endedTransitionSet p b no_cond d = (True, d1)"
  shows "\<exists>r1. find_spawn d1 i = Some r1 \<and> s_state r1 = StateEnded \<and> s_ended_at r1 \<noteq> None \<and> s_settled_state r1 = StateEnded"
proof -
  let ?w = "hookWrite g (endedTransitionSet d) p b"
  have d1: "d1 = d\<lparr>spawns := update_where (\<lambda>q. s_instance_id q = i) ?w (spawns d)\<rparr>"
    using update_the_row[OF assms(1,2), of "\<lambda>q. hookGate d g q" ?w] assms(3) by (auto simp: gatedHookUpdate_def split: if_splits)
  have "find_spawn d1 i = Some (?w r)"
    using assms(2) find_spawn_Some[OF assms(2)] by (simp add: d1 find_spawn_def find_update_where)
  moreover have "s_ended_at (?w r) = Some (sql_now_text d)" "s_settled_state (?w r) = StateEnded"
    by (simp_all add: hookWrite_def endedTransitionSet_def rowVersionAdvance_def hookPaneStartSet_def codexTurnSet_def
        hookSessionRecordSet_def livenessClear_def launchStartClear_def immediateStateSet_def immediateSettleSet_def Let_def)
  ultimately show ?thesis by simp
qed

lemma fold_emitDeny_tables [simp]:
  "spawns (fold (emitDeny i reason w) cs d) = spawns d" "permission_requests (fold (emitDeny i reason w) cs d) = permission_requests d"
  "subagents (fold (emitDeny i reason w) cs d) = subagents d" "subagent_launches (fold (emitDeny i reason w) cs d) = subagent_launches d"
  by (induction cs arbitrary: d) (simp_all add: emitDeny_def emitDecisionCommitted_def)

lemma find_spawn_fold_emitDeny [simp]: "find_spawn (fold (emitDeny i reason w) cs d) j = find_spawn d j"
  by (simp add: find_spawn_def)

lemma finish_row_ended [simp]:
  "s_ended_at (finish_row s d j r) = s_ended_at r" "s_settled_state (finish_row s d j r) = s_settled_state r"
  "s_state_changed_ms (finish_row s d j r) = s_state_changed_ms r"
  by (simp_all add: finish_row_def Let_def)

lemma stateExpr_settled: "s_state r = v \<Longrightarrow> s_settled_state r = v \<Longrightarrow> stateExpr x r = v"
  by (cases "v = []") (auto simp: stateExpr_def)

lemma closed_requests_decisions:
  "list_all2 (\<lambda>q q1. pr_decision q \<noteq> None \<longrightarrow> pr_decision q1 = pr_decision q) ps (map (closed_request d i reason at) ps)"
  by (induction ps) (auto simp: closed_request_decision)

text \<open>What the two closes of a row's records achieve, in any write that makes them.\<close>

definition closed_out :: "string \<Rightarrow> db \<Rightarrow> db \<Rightarrow> bool" where
  "closed_out i d d2 \<longleftrightarrow>
     list_all (\<lambda>q. pr_instance_id q = i \<longrightarrow> \<not> awaitingAnswer q) (permission_requests d2)
     \<and> list_all2 (\<lambda>q q1. pr_decision q \<noteq> None \<longrightarrow> pr_decision q1 = pr_decision q) (permission_requests d) (permission_requests d2)
     \<and> list_all (\<lambda>a. sa_instance_id a = i \<longrightarrow> sa_state a \<noteq> SubagentStateRunning) (subagents d2)
     \<and> list_all (\<lambda>l. sl_instance_id l \<noteq> i) (subagent_launches d2)"

lemma closes_close_out:
  assumes "closeOrphanedRequests s i reason at d = Inr (closed, d3)" and "closeSubagentsAgentGone s i at' d3 = Inr (u, d2)"
  shows "closed_out i d d2 \<and> spawns d2 = spawns d"
proof -
  note d3 = closeOrphanedRequests_Inr[OF assms(1)] and d2 = closeSubagentsAgentGone_Inr[OF assms(2)]
  have tables: "permission_requests d2 = map (closed_request d i reason at) (permission_requests d)"
    "\<exists>f. subagents d2 = update_where (\<lambda>a. sa_instance_id a = i \<and> sa_state a = SubagentStateRunning) f (subagents d)
       \<and> (\<forall>a. sa_state (f a) = SubagentStateLost)"
    "subagent_launches d2 = filter (\<lambda>l. sl_instance_id l \<noteq> i) (subagent_launches d)" "spawns d2 = spawns d"
    using d2 d3 by (auto intro!: exI[of _ "agentGoneSet at'"])
  have "list_all2 (\<lambda>q q1. pr_decision q \<noteq> None \<longrightarrow> pr_decision q1 = pr_decision q) (permission_requests d) (permission_requests d2)"
    unfolding tables(1) by (rule closed_requests_decisions)
  moreover have "list_all (\<lambda>a. sa_instance_id a = i \<longrightarrow> sa_state a \<noteq> SubagentStateRunning) (subagents d2)"
    using tables(2) by (auto simp: list_all_iff update_where_def)
  ultimately show ?thesis
    using tables(4) by (auto simp: closed_out_def tables(1,3) list_all_iff closed_request_not_awaiting)
qed

lemma closes_quiet:
  assumes "quiet s" and "at' > 0"
  shows "\<exists>closed d3 d2. closeOrphanedRequests s i reason at d = Inr (closed, d3) \<and> closeSubagentsAgentGone s i at' d3 = Inr ((), d2)"
  using assms by (simp add: closeOrphanedRequests_def queryClosedRequests_def closeSubagentsAgentGone_def tx_bind_def tx_exec_def tx_return_def)

lemma ended_facts:
  assumes "distinct (map s_instance_id (spawns d))" and "endedTx s i g p b d = Inr (x, d2)"
  shows "(\<exists>r1. find_spawn (finish_tx s i d2) i = Some r1 \<and> s_state r1 = StateEnded \<and> s_ended_at r1 \<noteq> None \<and> (\<forall>z. stateExpr z r1 = StateEnded))
     \<and> list_all (\<lambda>q. pr_instance_id q = i \<longrightarrow> \<not> awaitingAnswer q) (permission_requests d2)
     \<and> list_all2 (\<lambda>q q1. pr_decision q \<noteq> None \<longrightarrow> pr_decision q1 = pr_decision q) (permission_requests d) (permission_requests d2)
     \<and> list_all (\<lambda>a. sa_instance_id a = i \<longrightarrow> sa_state a \<noteq> SubagentStateRunning) (subagents d2)
     \<and> list_all (\<lambda>l. sl_instance_id l \<noteq> i) (subagent_launches d2)"
proof -
  from assms(2) obtain r d1 closed d3 u where r: "find_spawn d i = Some r"
    and u1: "gatedHookUpdate i g endedTransitionSet p b no_cond d = (True, d1)"
    and c1: "closeOrphanedRequests s i DecisionReasonEnded (go_now_ms d1) d1 = Inr (closed, d3)"
    and c2: "closeSubagentsAgentGone s i (go_now_ms d1) d3 = Inr (u, d2)"
    by (auto simp: endedTx_def tx_bind_Inr tx_exec_Inr tx_return_def split: if_splits option.splits)
  have reqs: "permission_requests d1 = permission_requests d"
    using u1 by (auto simp: gatedHookUpdate_def update_spawns_def)
  have d3: "d3 = d1\<lparr>permission_requests := map (closed_request d1 i DecisionReasonEnded (go_now_ms d1)) (permission_requests d)\<rparr>"
    using closeOrphanedRequests_Inr[OF c1] by (simp add: reqs)
  note d2 = closeSubagentsAgentGone_Inr[OF c2]
  obtain r1 where r1: "find_spawn d1 i = Some r1" "s_state r1 = StateEnded" "s_ended_at r1 \<noteq> None" "s_settled_state r1 = StateEnded"
    using ended_update[OF assms(1) r u1] by blast
  then have "find_spawn d2 i = Some r1" using d2 d3 by (simp add: find_spawn_def)
  then have row: "\<exists>r1. find_spawn (finish_tx s i d2) i = Some r1 \<and> s_state r1 = StateEnded \<and> s_ended_at r1 \<noteq> None
      \<and> (\<forall>z. stateExpr z r1 = StateEnded)"
    using r1 by (auto intro: stateExpr_settled)
  have "closed_out i d1 d2" using closes_close_out[OF c1 c2] by blast
  with row reqs show ?thesis by (simp add: closed_out_def)
qed

lemma find_guarded:
  assumes "distinct (map s_instance_id (spawns d))" and "find_spawn d i = Some r"
  shows "find (\<lambda>q. s_instance_id q = i \<and> P q) (spawns d) = (if P r then Some r else None)"
proof -
  have r: "r \<in> set (spawns d)" "s_instance_id r = i" using find_spawn_Some[OF assms(2)] by auto
  have one: "q = r" if "q \<in> set (spawns d)" "s_instance_id q = i" for q
    using the_row[OF assms that] .
  show ?thesis
  proof (cases "find (\<lambda>q. s_instance_id q = i \<and> P q) (spawns d)")
    case None
    then have "\<not> P r" using r by (auto simp: find_None_iff)
    with None show ?thesis by simp
  next
    case (Some q)
    then have q: "s_instance_id q = i" "P q" "q \<in> set (spawns d)"
      by (auto simp: find_Some_iff)
    with one have "q = r" by blast
    with q Some show ?thesis by simp
  qed
qed

lemma upsertSessionHistoryEntry_has:
  "\<exists>h \<in> set (session_history (upsertSessionHistoryEntry i sid p life d)). h_instance_id h = i \<and> h_session_id h = sid"
proof (cases "any_row (\<lambda>h. h_instance_id h = i \<and> h_session_id h = sid) (session_history d)")
  case True
  then obtain h where h: "h \<in> set (session_history d)" "h_instance_id h = i" "h_session_id h = sid" by auto
  let ?f = "\<lambda>h. h\<lparr>h_jsonl_path := (if h_life_number h = life
        then (case nullableStringArg p of None \<Rightarrow> h_jsonl_path h | Some x \<Rightarrow> Some x) else nullableStringArg p),
      h_life_number := life, h_recorded_at := sql_now_text d\<rparr>"
  have "?f h \<in> set (update_where (\<lambda>h. h_instance_id h = i \<and> h_session_id h = sid) ?f (session_history d))"
    using h by (intro update_where_hit) simp_all
  moreover have "session_history (upsertSessionHistoryEntry i sid p life d)
      = update_where (\<lambda>h. h_instance_id h = i \<and> h_session_id h = sid) ?f (session_history d)"
    using True by (simp add: upsertSessionHistoryEntry_def Let_def)
  ultimately show ?thesis using h(2,3) by (intro bexI[of _ "?f h"]) simp_all
next
  case False
  then show ?thesis by (simp del: any_row_iff add: upsertSessionHistoryEntry_def Let_def)
qed

lemma upsertSessionHistoryEntry_frame [simp]:
  "spawns (upsertSessionHistoryEntry i sid p life d) = spawns d"
  "find_spawn (upsertSessionHistoryEntry i sid p life d) j = find_spawn d j"
  "sql_now_ms (upsertSessionHistoryEntry i sid p life d) = sql_now_ms d"
  by (simp_all add: upsertSessionHistoryEntry_def Let_def find_spawn_def)

lemma refreshFamilies_frame:
  assumes "refreshFamilies s d = Inr (u, d')"
  shows "session_history d' = session_history d"
    "find_spawn d' i = map_option (\<lambda>q. refreshRow (settleMs s) (sql_now_ms d) (familyAggregate (spawns d) i) q) (find_spawn d i)"
proof -
  have d': "d' = d\<lparr>spawns := map (\<lambda>r. refreshRow (settleMs s) (sql_now_ms d) (familyAggregate (spawns d) (s_instance_id r)) r) (spawns d)\<rparr>"
    using assms by (auto simp: refreshFamilies_def tx_exec_Inr Let_def)
  show "session_history d' = session_history d" by (simp add: d')
  show "find_spawn d' i = map_option (\<lambda>q. refreshRow (settleMs s) (sql_now_ms d) (familyAggregate (spawns d) i) q) (find_spawn d i)"
    using find_spawn_Some[of d i] by (cases "find_spawn d i") (simp_all add: d' find_spawn_def find_map_key)
qed

lemma refreshRow_cols:
  "s_session_id (refreshRow tw now v r) = s_session_id r" "s_launch_started_at (refreshRow tw now v r) = s_launch_started_at r"
  "s_end_reported_at (refreshRow tw now v r) = s_end_reported_at r" "s_idle_since (refreshRow tw now v r) = s_idle_since r"
  "s_row_version (refreshRow tw now v r) = s_row_version r"
  by (simp_all add: refreshRow_def)

lemma ApplyHookTransitionResult_mismatch:
  assumes "quiet s" and "distinct (map s_instance_id (spawns d))" and "find_spawn d i = Some r" and "\<not> hookGate d g r"
  shows "ApplyHookTransitionResult s i g v soft ev p b d =
    (Inr (UpsertNoChange, \<lparr>Applied = False, Reason = if s_pane_pid r = None then HookReasonNoPaneRecorded
                            else HookReasonPIDMismatch\<rparr>), d)"
proof -
  note quiet_calls = applyGatedHookWrite_quiet[OF assms(1-3)] applyWorkingWrite_quiet[OF assms(1-3)]
    reportWorkingHeld_quiet[OF assms(1-3)] holdWorkingTransition_quiet[OF assms(1,3)] applyEndedTransition_mismatch[OF assms]
    codexToolTurnLate_quiet[OF assms(1,3)] selectPriorState_quiet[OF assms(1,3)]
  show ?thesis
    unfolding ApplyHookTransitionResult_def Let_def call_bind_def
    using assms(1,4) by (simp add: quiet_calls read_then_def call_return_def call_bind_def)
qed

section \<open>Properties\<close>

text \<open>
  A hook whose parent is not the row's recorded pane process (or, on a Cursor row, whose
  binding is not the row's) changes nothing at all, not even the trail, and is told why: the row
  records no pane, or the process does not match. This holds for every target state and refresh.
\<close>

theorem gate_mismatch_changes_nothing:
  assumes "quiet s" and "distinct (map s_instance_id (spawns d))" and "find_spawn d i = Some r" and "\<not> hookGate d g r"
  shows "ApplyHookTransitionResult s i g v soft ev p b d =
    (Inr (UpsertNoChange, \<lparr>Applied = False, Reason = if s_pane_pid r = None then HookReasonNoPaneRecorded
                            else HookReasonPIDMismatch\<rparr>), d)"
  by (rule ApplyHookTransitionResult_mismatch[OF assms])

theorem gate_mismatch_changes_nothing_witness:
  "ApplyHookTransitionResult sample_store ''a'' (sample_gate\<lparr>g_ParentPID := 8\<rparr>) StateWorking False ''Stop'' [] False sample_db =
    (Inr (UpsertNoChange, \<lparr>Applied = False, Reason = HookReasonPIDMismatch\<rparr>), sample_db)"
  using gate_mismatch_changes_nothing[of sample_store sample_db "''a''" "sample_row\<lparr>s_state := StateCheckPermission\<rparr>"
      "sample_gate\<lparr>g_ParentPID := 8\<rparr>"]
  by (simp add: sample_db_def sample_row_def find_spawn_def hookGate_iff sample_gate_def)

text \<open>
  An admitted transition to a live state that nothing holds applies: the row gets the state
  with the hook's columns and one version more, every other row keeps its own state and version,
  and exactly one transition event names the prior and the new state.
\<close>

theorem hook_transition_applies:
  assumes "quiet s" and "distinct (map s_instance_id (spawns d))" and "find_spawn d i = Some r" and "hookGate d g r"
    and "IsLiveState v" and "noRequestHoldsRow d r" and "turn_allows g v r"
  shows "\<exists>d1. ApplyHookTransitionResult s i g v False ev p b d = (Inr (UpsertUpdated, hook_applied), d1)
     \<and> (\<exists>r1. find_spawn d1 i = Some r1 \<and> s_state r1 = v \<and> s_row_version r1 = s_row_version r + 1
            \<and> s_ended_at r1 = None \<and> s_idle_since r1 = None \<and> (v \<noteq> StatePending \<longrightarrow> s_launch_started_at r1 = None))
     \<and> map (\<lambda>q. (s_instance_id q, s_state q, s_row_version q)) (spawns d1)
        = map (\<lambda>q. if s_instance_id q = i then (i, v, s_row_version q + 1) else (s_instance_id q, s_state q, s_row_version q)) (spawns d)
     \<and> permission_requests d1 = permission_requests d
     \<and> last (trail d1) = transitionEvent i (s_state r) v ev False"
proof -
  note quiet_calls = applyGatedHookWrite_quiet[OF assms(1-3)] applyWorkingWrite_quiet[OF assms(1-3)]
    holdWorkingTransition_quiet[OF assms(1,3)] codexToolTurnLate_quiet[OF assms(1,3)] selectPriorState_quiet[OF assms(1,3)]
  let ?w = "hookWrite g (transitionSet s v d) p b"
  have "v \<noteq> StateEnded" using assms(5) by (auto simp: IsLiveState_iff)
  then have eq: "ApplyHookTransitionResult s i g v False ev p b d =
      (Inr (UpsertUpdated, hook_applied), emit (transitionEvent i (s_state r) v ev False) (applied_db s i ?w d))"
    unfolding ApplyHookTransitionResult_def Let_def call_bind_def
    using assms by (auto simp: quiet_calls read_then_def call_return_def turn_allows_def)
  have keys: "s_instance_id (?w q) = s_instance_id q" for q by simp
  have cols: "s_row_version (?w q) = s_row_version q + 1" "s_ended_at (?w q) = None" "s_idle_since (?w q) = None"
     "v \<noteq> StatePending \<Longrightarrow> s_launch_started_at (?w q) = None" for q
    by (simp_all add: hookWrite_def transitionSet_def rowVersionAdvance_def hookPaneStartSet_def codexTurnSet_def
        hookSessionRecordSet_def livenessClear_def launchStartClear_def Let_def)
  show ?thesis
    using find_applied[OF assms(3) keys]
    by (auto simp: eq cols applied_db_def finish_tx_def o_def update_where_def)
qed

theorem hook_transition_applies_witness:
  "\<exists>d1 r1. ApplyHookTransitionResult sample_store ''b'' sample_gate StateWorking False ''PreToolUse'' [] False sample_db
      = (Inr (UpsertUpdated, hook_applied), d1) \<and> find_spawn d1 ''b'' = Some r1 \<and> s_state r1 = StateWorking"
  using hook_transition_applies[of sample_store sample_db "''b''" "sample_row\<lparr>s_instance_id := ''b'', s_state := StateWaiting\<rparr>"
      sample_gate StateWorking "''PreToolUse''" "[]" False]
  by (auto simp: sample_db_def sample_row_def find_spawn_def hookGate_iff sample_gate_def noRequestHoldsRow_def
      sample_request_def IsLiveState_iff turn_allows_def codexToolTurn_def)

text \<open>
  The retention hold: while a request holds the row, a move to working by a Claude or Codex
  hook is accepted but held. The state, its settle columns and the requests stay; the hook only
  clears the idle mark (and records a new Codex turn), and the trail shows a no-op transition.
\<close>

theorem held_transition_keeps_state:
  assumes "quiet s" and "distinct (map s_instance_id (spawns d))" and "find_spawn d i = Some r" and "hookGate d g r"
    and "g_Cursor g = None" and "\<not> noRequestHoldsRow d r" and "turn_allows g StateWorking r"
  shows "\<exists>d1 r1. ApplyHookTransitionResult s i g StateWorking False ev p b d = (Inr (UpsertNoChange, hook_applied), d1)
     \<and> find_spawn d1 i = Some r1 \<and> s_state r1 = s_state r \<and> s_settled_state r1 = s_settled_state r
     \<and> s_idle_since r1 = None \<and> permission_requests d1 = permission_requests d
     \<and> last (trail d1) = transitionEvent i (s_state r) (s_state r) ev False"
proof -
  note quiet_calls = reportWorkingHeld_quiet[OF assms(1-3)] holdWorkingTransition_quiet[OF assms(1,3)]
    codexToolTurnLate_quiet[OF assms(1,3)]
  have eq: "ApplyHookTransitionResult s i g StateWorking False ev p b d = reportWorkingHeld s i g ev d"
    unfolding ApplyHookTransitionResult_def Let_def call_bind_def
    using assms by (auto simp: quiet_calls read_then_def call_return_def turn_allows_def call_bind_def)
  show ?thesis
    using assms(3,4) unfolding eq quiet_calls
    by (auto simp: find_applied rowVersionAdvance_def)
qed

theorem held_transition_keeps_state_witness:
  "\<exists>d1 r1. ApplyHookTransitionResult sample_store ''a'' sample_gate StateWorking False ''PreToolUse'' [] False sample_db
     = (Inr (UpsertNoChange, hook_applied), d1) \<and> find_spawn d1 ''a'' = Some r1 \<and> s_state r1 = StateCheckPermission"
  using held_transition_keeps_state[of sample_store sample_db "''a''" "sample_row\<lparr>s_state := StateCheckPermission\<rparr>"
      sample_gate "''PreToolUse''" "[]" False]
  by (auto simp: sample_db_def sample_row_def find_spawn_def hookGate_iff sample_gate_def noRequestHoldsRow_def
      sample_request_def holdsRow_def awaitingAnswer_def turn_allows_def codexToolTurn_def)

text \<open>
  A late Codex tool hook (its turn is not the row's current, unfinished turn) never moves the
  row to working: it is a soft refresh that keeps the state and the request hold is not consulted.
\<close>

theorem late_tool_hook_is_soft_refresh:
  assumes "quiet s" and "distinct (map s_instance_id (spawns d))" and "find_spawn d i = Some r" and "hookGate d g r"
    and "codexToolTurn g" and "\<not> codexToolTurnCurrent (g_CodexTurn g) r"
  shows "\<exists>d1 r1. ApplyHookTransitionResult s i g StateWorking False ev p b d = (Inr (UpsertUpdated, hook_applied), d1)
     \<and> find_spawn d1 i = Some r1 \<and> s_state r1 = s_state r \<and> s_settled_state r1 = s_settled_state r
     \<and> s_row_version r1 = s_row_version r + 1 \<and> s_last_seen_at r1 = sql_now_text d
     \<and> last (trail d1) = transitionEvent i (s_state r) (s_state r) ev True"
proof -
  note quiet_calls = applyGatedHookWrite_quiet[OF assms(1-3)] codexToolTurnLate_quiet[OF assms(1,3)]
    selectPriorState_quiet[OF assms(1,3)]
  let ?w = "hookWrite g (softRefreshSet d) p b"
  have eq: "ApplyHookTransitionResult s i g StateWorking False ev p b d =
      (Inr (UpsertUpdated, hook_applied), emit (transitionEvent i (s_state r) (s_state r) ev True) (applied_db s i ?w d))"
    unfolding ApplyHookTransitionResult_def Let_def call_bind_def
    using assms by (simp add: quiet_calls read_then_def call_return_def)
  have keys: "s_instance_id (?w q) = s_instance_id q" for q by simp
  have cols: "s_row_version (?w q) = s_row_version q + 1" "s_settled_state (?w q) = s_settled_state q"
     "s_last_seen_at (?w q) = sql_now_text d" for q
    by (simp_all add: hookWrite_def softRefreshSet_def rowVersionAdvance_def hookPaneStartSet_def codexTurnSet_def
        hookSessionRecordSet_def livenessClear_def Let_def)
  have "s_last_seen_at (finish_row s d' i q) = s_last_seen_at q" for d' q by (simp add: finish_row_def Let_def)
  with find_applied[OF assms(3) keys] show ?thesis by (auto simp: eq cols)
qed

theorem late_tool_hook_is_soft_refresh_witness:
  "\<exists>d1 r1. ApplyHookTransitionResult sample_store ''b'' (sample_gate\<lparr>g_CodexTurn := ''t1'', g_CodexToolTurn := True\<rparr>)
       StateWorking False ''PostToolUse'' [] False
       (sample_db\<lparr>spawns := [sample_row\<lparr>s_instance_id := ''b'', s_codex_turn := Some ''t2''\<rparr>]\<rparr>)
     = (Inr (UpsertUpdated, hook_applied), d1) \<and> find_spawn d1 ''b'' = Some r1 \<and> s_state r1 = StateWaiting"
  using late_tool_hook_is_soft_refresh[of sample_store
      "sample_db\<lparr>spawns := [sample_row\<lparr>s_instance_id := ''b'', s_codex_turn := Some ''t2''\<rparr>]\<rparr>" "''b''"
      "sample_row\<lparr>s_instance_id := ''b'', s_codex_turn := Some ''t2''\<rparr>"
      "sample_gate\<lparr>g_CodexTurn := ''t1'', g_CodexToolTurn := True\<rparr>" "''PostToolUse''" "[]" False]
  by (auto simp: sample_row_def find_spawn_def hookGate_iff sample_gate_def codexToolTurn_def codexToolTurnCurrent_def)

text \<open>
  C5. The move to ended is one transaction with its closes, for any driver failure and any
  interference: when it reports an update, the row is ended (and reported so at once), no request
  of the row awaits an answer, a recorded verdict is kept, no subagent entry of the row runs and
  no launch of it is claimable; when it reports an error the database is as it was.
\<close>

theorem ended_transition_closes_everything:
  assumes "distinct (map s_instance_id (spawns d))"
  shows "case applyEndedTransition s i g ev p b d of
      (Inl _, d1) \<Rightarrow> d1 = d
    | (Inr (out, _), d1) \<Rightarrow> out = UpsertUpdated \<longrightarrow>
        (\<exists>r1. find_spawn d1 i = Some r1 \<and> s_state r1 = StateEnded \<and> s_ended_at r1 \<noteq> None \<and> (\<forall>x. stateExpr x r1 = StateEnded))
        \<and> list_all (\<lambda>q. pr_instance_id q = i \<longrightarrow> \<not> awaitingAnswer q) (permission_requests d1)
        \<and> list_all2 (\<lambda>q q1. pr_decision q \<noteq> None \<longrightarrow> pr_decision q1 = pr_decision q) (permission_requests d) (permission_requests d1)
        \<and> list_all (\<lambda>a. sa_instance_id a = i \<longrightarrow> sa_state a \<noteq> SubagentStateRunning) (subagents d1)
        \<and> list_all (\<lambda>l. sl_instance_id l \<noteq> i) (subagent_launches d1)"
proof (cases "inImmediateTx s i (endedTx s i g p b) d")
  case (Pair x d1)
  show ?thesis
  proof (cases x)
    case (Inl e)
    with Pair have "d1 = d" by (auto dest: inImmediateTx_Inl)
    with Pair Inl show ?thesis
      by (auto simp: applyEndedTransition_def call_bind_def call_return_def read_then_def split: store_error.splits sum.splits prod.splits)
  next
    case (Inr y)
    obtain prior closed where y: "y = (prior, closed)" by force
    from Pair Inr y obtain d2 where tx: "endedTx s i g p b d = Inr ((prior, closed), d2)" and d1: "d1 = finish_tx s i d2"
      by (auto dest: inImmediateTx_Inr)
    show ?thesis
      using ended_facts[OF assms tx]
      by (simp add: applyEndedTransition_def Pair Inr y emit_call_def d1)
  qed
qed

theorem ended_transition_closes_everything_witness:
  "case applyEndedTransition sample_store ''a'' sample_gate ''SessionEnd'' [] False sample_db of
      (Inl _, d1) \<Rightarrow> False
    | (Inr (out, _), d1) \<Rightarrow> out = UpsertUpdated \<and> (\<exists>r1. find_spawn d1 ''a'' = Some r1 \<and> s_state r1 = StateEnded)
        \<and> list_all (\<lambda>q. \<not> awaitingAnswer q) (filter (\<lambda>q. pr_instance_id q = ''a'') (permission_requests d1))"
proof -
  have "\<exists>a d1. applyEndedTransition sample_store ''a'' sample_gate ''SessionEnd'' [] False sample_db = (Inr (UpsertUpdated, a), d1)"
    by (simp add: applyEndedTransition_def inImmediateTx_def endedTx_def tx_bind_def tx_exec_def tx_return_def gatedHookUpdate_def
        update_spawns_def find_spawn_def hookGate_iff sample_store_def sample_db_def sample_gate_def sample_row_def
        closeOrphanedRequests_def queryClosedRequests_def closeSubagentsAgentGone_def refreshFamilies_def takeDisplayExits_def
        emit_call_def Let_def)
  with ended_transition_closes_everything[of sample_db "''a''" sample_store sample_gate "''SessionEnd''" "[]" False]
  show ?thesis by (auto simp: sample_db_def sample_row_def list_all_iff)
qed

text \<open>
  C6. No hook write moves a row to working while a request holds it: every hook write keeps the
  invariant that a held row is not working, whatever driver failures occur and whatever other
  connections that keep it do between the write's statements.
\<close>

theorem hook_writes_respect_hold:
  assumes "rely held_not_working s" and "soft \<or> IsLiveState v \<or> v = StateEnded"
  shows "keeps held_not_working (ApplyHookTransitionResult s i g v soft ev p b)
     \<and> keeps held_not_working (ApplyHookEndReport s i g ev p b)
     \<and> keeps held_not_working (ApplyHookWaitingIfWorking s i g ev p b)
     \<and> keeps held_not_working (RecordSessionStartIdentity s i g p b)
     \<and> keeps held_not_working (EndCodexTurn s t)"
  by (intro conjI held_hooks.keeps_ApplyHookTransitionResult held_hooks.keeps_ApplyHookEndReport assms
      held_hooks.keeps_ApplyHookWaitingIfWorking held_hooks.keeps_RecordSessionStartIdentity held_hooks.keeps_EndCodexTurn)

theorem hook_writes_respect_hold_witness:
  "held_not_working sample_db
   \<and> held_not_working (snd (ApplyHookTransitionResult sample_store ''a'' sample_gate StateWorking False ''Stop'' [] False sample_db))"
proof -
  have ok: "held_not_working sample_db"
    by (simp add: held_not_working_def sample_db_def sample_row_def)
  have "rely held_not_working sample_store"
    by (simp add: rely_def sample_store_def)
  from hook_writes_respect_hold[OF this, of False StateWorking "''a''" sample_gate "''Stop''" "[]" False]
  show ?thesis using ok by (simp add: keeps_def IsLiveState_iff)
qed

text \<open>
  SessionStart records the new session only against the row it examined: with a quiet store,
  when the row still matches the examined snapshot and the gate holds, the row waits with the new
  session id, the start clears the launch start, end report and idle mark, the outgoing session
  (if there was another) is in the history, and the write is reported applied.
\<close>

theorem session_start_records_identity:
  assumes "quiet s" and "distinct (map s_instance_id (spawns d))" and "find_spawn d i = Some r" and "hookGate d g r"
    and "snapshotMatch (g_Examined g) r"
  shows "\<exists>d1 r1. RecordSessionStartIdentity s i g p b d = (Inr (hook_applied, False), d1)
     \<and> find_spawn d1 i = Some r1 \<and> s_state r1 = StateWaiting
     \<and> s_session_id r1 = (if g_SessionID g = [] then s_session_id r else Some (g_SessionID g))
     \<and> s_launch_started_at r1 = None \<and> s_end_reported_at r1 = None \<and> s_idle_since r1 = None
     \<and> s_row_version r1 = s_row_version r + 1
     \<and> (coalesce (s_session_id r) [] \<notin> {[], g_SessionID g} \<and> g_SessionID g \<noteq> []
          \<longrightarrow> (\<exists>h \<in> set (session_history d1). h_instance_id h = i \<and> h_session_id h = coalesce (s_session_id r) []))"
proof -
  let ?w = "sessionStartSet s r g p b d"
  let ?out = "rs_SessionID (g_Examined g)"
  let ?arch = "?out \<noteq> [] \<and> g_SessionID g \<noteq> [] \<and> ?out \<noteq> g_SessionID g"
  have out: "?out = coalesce (s_session_id r) []"
    using assms(5) by (simp add: snapshotMatch_def)
  have pinned: "find (\<lambda>q. s_instance_id q = i \<and> snapshotMatch (g_Examined g) q) (spawns d) = Some r"
    using find_guarded[OF assms(2,3), of "snapshotMatch (g_Examined g)"] assms(5) by simp
  have upd: "update_spawns (\<lambda>q. s_instance_id q = i \<and> hookGate d g q \<and> snapshotMatch (g_Examined g) q) ?w d
      = (True, d\<lparr>spawns := update_where (\<lambda>q. s_instance_id q = i) ?w (spawns d)\<rparr>)"
    using update_the_row[OF assms(2,3), of "\<lambda>q. hookGate d g q \<and> snapshotMatch (g_Examined g) q" ?w] assms(4,5) by simp
  let ?d1 = "d\<lparr>spawns := update_where (\<lambda>q. s_instance_id q = i) ?w (spawns d)\<rparr>"
  let ?d2 = "if ?arch then upsertSessionHistoryEntry i ?out (coalesce (s_jsonl_path r) []) (s_life_number r) ?d1 else ?d1"
  obtain d3 u where ref: "refreshFamilies s ?d2 = Inr (u, d3)"
    using assms(1) by (auto simp: refreshFamilies_def tx_exec_def Let_def)
  have tx: "sessionStartTx s i g p b r d = Inr (?arch, d3)"
    using assms(1) ref by (simp add: sessionStartTx_def Let_def tx_bind_def tx_exec_def upd tx_return_def)
  have hist: "\<exists>h \<in> set (session_history ?d2). h_instance_id h = i \<and> h_session_id h = ?out" if ?arch
    using that upsertSessionHistoryEntry_has by simp
  have same: "session_history d3 = session_history ?d2" "find_spawn d3 i = map_option
      (\<lambda>q. refreshRow (settleMs s) (sql_now_ms ?d2) (familyAggregate (spawns ?d2) i) q) (find_spawn ?d2 i)"
    using refreshFamilies_frame[OF ref] by simp_all
  have row: "find_spawn ?d2 i = Some (?w r)"
    using assms(3) find_spawn_Some[OF assms(3)] by (simp add: find_spawn_def find_update_where)
  have cols: "s_session_id (?w r) = (if g_SessionID g = [] then s_session_id r else Some (g_SessionID g))"
      "s_launch_started_at (?w r) = None" "s_end_reported_at (?w r) = None" "s_idle_since (?w r) = None"
      "s_row_version (?w r) = s_row_version r + 1"
    by (simp_all add: sessionStartSet_def rowVersionAdvance_def launchStartClear_def hookPaneStartSet_def nullableStringArg_def)
  have call: "\<exists>d4. RecordSessionStartIdentity s i g p b d = (Inr (hook_applied, False), d4)
      \<and> find_spawn d4 i = find_spawn d3 i \<and> session_history d4 = session_history d3"
    using assms(1) pinned tx
    by (auto simp: RecordSessionStartIdentity_def call_bind_def read_then_def readSessionStartPrior_def sessionStartWrite_def Let_def)
  then show ?thesis
    using same row cols hist out by (auto simp: refreshRow_cols)
qed

theorem session_start_records_identity_witness:
  "\<exists>d1 r1. RecordSessionStartIdentity sample_store ''b'' (sample_gate\<lparr>g_Examined := lifeSnapshot sample_row\<rparr>) [] False sample_db
     = (Inr (hook_applied, False), d1) \<and> find_spawn d1 ''b'' = Some r1 \<and> s_session_id r1 = Some ''s1''"
  using session_start_records_identity[of sample_store sample_db "''b''"
      "sample_row\<lparr>s_instance_id := ''b'', s_state := StateWaiting\<rparr>" "sample_gate\<lparr>g_Examined := lifeSnapshot sample_row\<rparr>" "[]" False]
  by (auto simp: sample_db_def sample_row_def find_spawn_def hookGate_iff sample_gate_def snapshotMatch_def lifeSnapshot_def)

text \<open>
  A SessionStart whose examined snapshot no longer is the row's writes nothing; when the gate
  still holds it asks for a fresh examination (the second component), otherwise it reports why.
\<close>

theorem stale_session_start_writes_nothing:
  assumes "quiet s" and "distinct (map s_instance_id (spawns d))" and "find_spawn d i = Some r"
    and "lifeSnapshot r \<noteq> g_Examined g"
  shows "RecordSessionStartIdentity s i g p b d =
    (Inr (if hookGate d g r then (hook_zero, True)
          else (\<lparr>Applied = False, Reason = if s_pane_pid r = None then HookReasonNoPaneRecorded else HookReasonPIDMismatch\<rparr>, False)), d)"
proof -
  have "find (\<lambda>q. s_instance_id q = i \<and> snapshotMatch (g_Examined g) q) (spawns d) = None"
    using find_guarded[OF assms(2,3), of "snapshotMatch (g_Examined g)"] assms(4) by (simp add: snapshotMatch_life)
  with assms(1,3) show ?thesis
    by (simp add: RecordSessionStartIdentity_def call_bind_def read_then_def readSessionStartPrior_def sessionStartNotApplied_def
        readHookGateRow_quiet notAppliedReason_def call_return_def)
qed

theorem stale_session_start_writes_nothing_witness:
  "RecordSessionStartIdentity sample_store ''b'' (sample_gate\<lparr>g_Examined := lifeSnapshot (sample_row\<lparr>s_row_version := 5\<rparr>)\<rparr>) [] False sample_db
     = (Inr (hook_zero, True), sample_db)"
  using stale_session_start_writes_nothing[of sample_store sample_db "''b''"
      "sample_row\<lparr>s_instance_id := ''b'', s_state := StateWaiting\<rparr>"
      "sample_gate\<lparr>g_Examined := lifeSnapshot (sample_row\<lparr>s_row_version := 5\<rparr>)\<rparr>" "[]" False]
  by (simp add: sample_db_def sample_row_def find_spawn_def hookGate_iff sample_gate_def lifeSnapshot_def)

text \<open>
  The idle-prompt Notification moves a row to waiting only from working, or from
  check_permission on a relayed row no request holds; in every other state it only refreshes the
  row. Either way an admitted Notification leaves the idle mark set.
\<close>

theorem idle_notification_moves:
  assumes "quiet s" and "distinct (map s_instance_id (spawns d))" and "find_spawn d i = Some r" and "hookGate d g r"
  shows "\<exists>d1 r1. ApplyHookWaitingIfWorking s i g ev p b d = (Inr (UpsertUpdated, hook_applied), d1)
     \<and> find_spawn d1 i = Some r1 \<and> s_idle_since r1 = Some (sql_now_text d) \<and> s_row_version r1 = s_row_version r + 1
     \<and> s_state r1 = (if s_state r = StateWorking
                      \<or> s_state r = StateCheckPermission \<and> s_relay_mode r = ''on'' \<and> noRequestHoldsRow d r
                     then StateWaiting else s_state r)"
proof -
  let ?idle = "hookWrite g (idleWaitingSet s d) p b"
  let ?soft = "hookWrite g (idleRefreshSet d) p b"
  let ?relay = "s_state r = StateCheckPermission \<and> s_relay_mode r = ''on'' \<and> noRequestHoldsRow d r"
  note quiet_calls = applyGatedHookWrite_quiet[OF assms(1-3)] selectPriorState_quiet[OF assms(1,3)]
    execFamily_the_row[OF assms(1-3)]
  have cols: "s_row_version (?idle q) = s_row_version q + 1" "s_idle_since (?idle q) = Some (sql_now_text d)"
     "s_row_version (?soft q) = s_row_version q + 1" "s_idle_since (?soft q) = Some (sql_now_text d)" for q
    by (simp_all add: hookWrite_def idleWaitingSet_def idleRefreshSet_def rowVersionAdvance_def hookPaneStartSet_def codexTurnSet_def
        hookSessionRecordSet_def livenessClear_def launchStartClear_def Let_def)
  have rows: "find_spawn (applied_db s i ?idle d) i
        = Some (finish_row s (d\<lparr>spawns := update_where (\<lambda>q. s_instance_id q = i) ?idle (spawns d)\<rparr>) i (?idle r))"
      "find_spawn (applied_db s i ?soft d) i
        = Some (finish_row s (d\<lparr>spawns := update_where (\<lambda>q. s_instance_id q = i) ?soft (spawns d)\<rparr>) i (?soft r))"
    using find_applied[OF assms(3)] by simp_all
  show ?thesis
    unfolding ApplyHookWaitingIfWorking_def idleMove_def execGuarded_def call_bind_def
    using assms(1,4)
    by (cases "s_state r = StateWorking"; cases ?relay)
      (simp_all add: quiet_calls write_then_def read_then_def emit_call_def idleCond_def call_return_def rows cols)
qed

theorem idle_notification_moves_witness:
  "\<exists>d1 r1. ApplyHookWaitingIfWorking sample_store ''a'' sample_gate ''Notification'' [] False sample_db
     = (Inr (UpsertUpdated, hook_applied), d1) \<and> find_spawn d1 ''a'' = Some r1 \<and> s_state r1 = StateCheckPermission"
  using idle_notification_moves[of sample_store sample_db "''a''" "sample_row\<lparr>s_state := StateCheckPermission\<rparr>" sample_gate
      "''Notification''" "[]" False]
  by (auto simp: sample_db_def sample_row_def find_spawn_def hookGate_iff sample_gate_def noRequestHoldsRow_def
      sample_request_def holdsRow_def awaitingAnswer_def)

text \<open>
  A Codex turn is ended by a read at most once: after an applied end the row waits and the
  turn is closed, so a second end of the same turn by any reader finds nothing and changes
  nothing.
\<close>

theorem codex_turn_ends_once:
  assumes "EndCodexTurn s t d = (Inr True, d1)" and "quiet s"
  shows "EndCodexTurn s t d1 = (Inr False, d1)
     \<and> list_all (\<lambda>r. s_instance_id r = ct_InstanceID t \<longrightarrow> \<not> (codexOpenTurn r \<and> s_codex_turn r = Some (ct_Turn t)
          \<and> s_jsonl_path r = Some (ct_JSONLPath t))) (spawns d1)"
proof -
  let ?P = "\<lambda>r. s_instance_id r = ct_InstanceID t \<and> s_codex_turn r = Some (ct_Turn t)
                 \<and> s_jsonl_path r = Some (ct_JSONLPath t) \<and> codexOpenTurn r"
  let ?d0 = "d\<lparr>spawns := update_where ?P (endCodexTurnSet s d) (spawns d)\<rparr>"
  obtain u d2 ex d3 where ref: "refreshFamilies s ?d0 = Inr (u, d2)" and tk: "takeDisplayExits s (ct_InstanceID t) d2 = Inr (ex, d3)"
    and d1: "spawns d1 = spawns (emitDisplayTransitions ex d3)"
    using assms by (auto simp: EndCodexTurn_def Let_def update_spawns_def split: if_splits sum.splits prod.splits)
  have sp: "spawns d1 = map (finish_row s ?d0 (ct_InstanceID t)) (update_where ?P (endCodexTurnSet s d) (spawns d))"
    using committed_tx[OF ref tk] d1 by simp
  have shut: "\<not> codexOpenTurn (endCodexTurnSet s d r)" for r
    by (simp add: codexOpenTurn_def)
  have fin: "codexOpenTurn (finish_row s d' i' r) = codexOpenTurn r" "s_codex_turn (finish_row s d' i' r) = s_codex_turn r"
    "s_jsonl_path (finish_row s d' i' r) = s_jsonl_path r" for d' i' r
    by (simp_all add: codexOpenTurn_def finish_row_def Let_def)
  have none: "\<not> ?P r" if "r \<in> set (spawns d1)" for r
  proof -
    from that obtain q where q: "r = finish_row s ?d0 (ct_InstanceID t) (if ?P q then endCodexTurnSet s d q else q)"
      unfolding sp update_where_def map_map set_map o_def image_iff by blast
    show ?thesis using shut[of q] unfolding q by (cases "?P q") (simp_all add: fin)
  qed
  then have n0: "\<not> any_row ?P (spawns d1)" by simp
  have "EndCodexTurn s t d1 = (Inr False, d1)"
    using assms(2) update_where_none[OF n0] n0
    by (simp del: any_row_iff add: EndCodexTurn_def Let_def update_spawns_def)
  with none show ?thesis by (auto simp: list_all_iff)
qed

theorem codex_turn_ends_once_witness:
  "\<exists>d1. EndCodexTurn sample_store \<lparr>ct_InstanceID = ''a'', ct_SessionID = [], ct_JSONLPath = ''/j'', ct_Turn = ''t1''\<rparr>
      (sample_db\<lparr>spawns := [sample_row\<lparr>s_agent := AgentCodex, s_state := StateWorking, s_codex_turn := Some ''t1'', s_jsonl_path := Some ''/j''\<rparr>]\<rparr>)
     = (Inr True, d1)
   \<and> EndCodexTurn sample_store \<lparr>ct_InstanceID = ''a'', ct_SessionID = [], ct_JSONLPath = ''/j'', ct_Turn = ''t1''\<rparr> d1 = (Inr False, d1)"
proof -
  let ?t = "\<lparr>ct_InstanceID = ''a'', ct_SessionID = [], ct_JSONLPath = ''/j'', ct_Turn = ''t1''\<rparr>"
  let ?d = "sample_db\<lparr>spawns := [sample_row\<lparr>s_agent := AgentCodex, s_state := StateWorking, s_codex_turn := Some ''t1'', s_jsonl_path := Some ''/j''\<rparr>]\<rparr>"
  have "\<exists>d1. EndCodexTurn sample_store ?t ?d = (Inr True, d1)"
    by (simp add: EndCodexTurn_def Let_def update_spawns_def sample_store_def sample_row_def codexOpenTurn_def
        refreshFamilies_def takeDisplayExits_def tx_exec_def)
  with codex_turn_ends_once[of sample_store ?t ?d] show ?thesis by auto
qed

end
