(* ===== verification/Launches.thy ===== *)
theory Launches
  imports Verdicts Hook_Laws
begin

text \<open>
  The writes that begin, identify and undo a launch (spawns.go, resume_writes.go): the insert of
  a new pending row, the launch's identity write, the release of its owner, the end of a held
  launch, adoption, the parent link, and resume's move to pending with its restore; the full-row
  read (\<open>GetSpawn\<close>) a resume starts from and what it saves (\<open>resumePriorOf\<close>). A conditional write
  answers applied, changed or absent; \<open>conditional_write\<close> is the interface of its one statement.
\<close>

section \<open>The full row as read\<close>

text \<open>
  The fields of Go's \<open>Spawn\<close>. The parsed times (\<open>StartedAt\<close>, \<open>LastSeenAt\<close>, \<open>EndedAt\<close>) stay the
  stored texts, and the two evidence columns stay stored text; a stored value the driver cannot
  scan is one of the failures of the read.
\<close>

record Spawn =
  sp_InstanceID :: string
  sp_ParentID :: string
  sp_State :: string
  sp_CWD :: string
  sp_TmuxSessionName :: string
  sp_AgentArgs :: "string list"
  sp_RelayMode :: string
  sp_JSONLPath :: string
  sp_SessionID :: string
  sp_Labels :: "(string \<times> string) list"
  sp_StartedAt :: string
  sp_LastSeenAt :: string
  sp_ExtraEnv :: "(string \<times> string) list"
  sp_PID :: int
  sp_ProcStarttime :: string
  sp_LivenessUnverifiedSince :: string
  sp_LivenessNote :: string
  sp_RowVersion :: int
  sp_LaunchStartedAtMillis :: int
  sp_LifeNumber :: int
  sp_NoPreTrust :: bool
  sp_EndedAtText :: string
  sp_Snapshot :: RowSnapshot
  sp_Identity :: LaunchIdentity
  sp_LaunchOwner :: ProcessIdentity
  sp_IdleSince :: string
  sp_Agent :: string
  sp_EndReportedAtMillis :: int
  sp_SubagentTracking :: bool
  sp_CodexStartup :: "string option"
  sp_ClaudeCapacity :: "string option"
  sp_StateChangedMillis :: int
  sp_PermissionEpoch :: int
  sp_ObservationVersion :: int
  sp_DisplayObservation :: "displayObservation json_text option"
  sp_IdleScreenTimeoutSeconds :: int
  sp_PaneSHA256 :: string
  sp_PaneSinceMillis :: int
  sp_PaneEpoch :: int
  sp_ReportedState :: string
  sp_FamilyState :: string

definition launchOwnerOf :: "spawn_row \<Rightarrow> ProcessIdentity" where
  "launchOwnerOf r = \<lparr>pi_PID = coalesce (s_launch_owner_pid r) 0, pi_Starttime = coalesce (s_launch_owner_starttime r) [],
     pi_PIDNamespace = coalesce (s_launch_owner_pidns r) []\<rparr>"

definition maxTimeoutSeconds :: int where
  "maxTimeoutSeconds = 9223372036854775807 div 1000000000"

definition positive_within :: "int \<Rightarrow> int option \<Rightarrow> int" where
  "positive_within bound v = (case v of Some n \<Rightarrow> if n > 0 \<and> n \<le> bound then n else 0 | None \<Rightarrow> 0)"

definition paneEpochOf :: "int option \<Rightarrow> int" where
  "paneEpochOf v = (case v of Some n \<Rightarrow> if n \<ge> 0 then n else -1 | None \<Rightarrow> -1)"

definition scanSpawn :: "spawn_row \<Rightarrow> Spawn" where
  "scanSpawn r =
     \<lparr>sp_InstanceID = s_instance_id r, sp_ParentID = coalesce (s_parent_id r) [], sp_State = s_state r, sp_CWD = s_cwd r,
      sp_TmuxSessionName = s_tmux_session_name r, sp_AgentArgs = s_agent_args r, sp_RelayMode = s_relay_mode r,
      sp_JSONLPath = coalesce (s_jsonl_path r) [], sp_SessionID = coalesce (s_session_id r) [], sp_Labels = s_labels r,
      sp_StartedAt = s_started_at r, sp_LastSeenAt = s_last_seen_at r, sp_ExtraEnv = s_extra_env r,
      sp_PID = coalesce (s_pid r) 0, sp_ProcStarttime = coalesce (s_proc_starttime r) [],
      sp_LivenessUnverifiedSince = coalesce (s_liveness_unverified_since r) [],
      sp_LivenessNote = coalesce (s_liveness_note r) [], sp_RowVersion = rs_RowVersion (lifeSnapshot r),
      sp_LaunchStartedAtMillis = decodeLaunchStartedAt (sql_int (s_launch_started_at r)),
      sp_LifeNumber = s_life_number r, sp_NoPreTrust = decodeNoPreTrust (SInt (s_no_pre_trust r)),
      sp_EndedAtText = coalesce (s_ended_at r) [], sp_Snapshot = lifeSnapshot r, sp_Identity = lifeIdentity r,
      sp_LaunchOwner = launchOwnerOf r, sp_IdleSince = coalesce (s_idle_since r) [], sp_Agent = s_agent r,
      sp_EndReportedAtMillis = decodeEndReportedAt (sql_int (s_end_reported_at r)),
      sp_SubagentTracking = decodeSubagentTracking (SInt (s_subagent_tracking r)),
      sp_CodexStartup = s_codex_startup r, sp_ClaudeCapacity = s_claude_capacity r,
      sp_StateChangedMillis = s_state_changed_ms r, sp_PermissionEpoch = s_permission_epoch r,
      sp_ObservationVersion = s_observation_version r, sp_DisplayObservation = s_display_observation r,
      sp_IdleScreenTimeoutSeconds = positive_within maxTimeoutSeconds (s_idle_screen_timeout_seconds r),
      sp_PaneSHA256 = coalesce (s_pane_sha256 r) [], sp_PaneSinceMillis = positive_within (2 ^ 63 - 1) (s_pane_since_ms r),
      sp_PaneEpoch = paneEpochOf (s_pane_epoch r), sp_ReportedState = s_state r, sp_FamilyState = s_family_state r\<rparr>"

definition GetSpawn :: "store \<Rightarrow> string \<Rightarrow> db \<Rightarrow> store_error + Spawn" where
  "GetSpawn s i d =
     (if sqlFails s ''store: get spawn'' then Inl (DriverError ''store: get spawn'')
      else (case find_spawn d i of None \<Rightarrow> Inl (ErrSpawnNotFound i) | Some r \<Rightarrow> Inr (scanSpawn r)))"

section \<open>Conditional results\<close>

text \<open>After a guarded statement matched nothing, an existence read tells changed from absent.\<close>

definition existenceRead :: "store \<Rightarrow> string \<Rightarrow> string \<Rightarrow> db \<Rightarrow> store_error + CondResult" where
  "existenceRead s i errPrefix d =
     (if sqlFails s (errPrefix @ '': existence read'') then Inl (DriverError (errPrefix @ '': existence read''))
      else Inr (case find_spawn d i of None \<Rightarrow> CondAbsent | Some _ \<Rightarrow> CondChanged))"

definition condNotApplied :: "store \<Rightarrow> string \<Rightarrow> string \<Rightarrow> CondResult call" where
  "condNotApplied s i errPrefix =
     call_bind (read_then s 8 (\<lambda>_. Inr ())) (\<lambda>_. read_then s 9 (existenceRead s i errPrefix))"

text \<open>One statement outside a family transaction, as \<open>s.db.Exec\<close> runs it.\<close>

definition dbExec :: "store \<Rightarrow> string \<Rightarrow> (db \<Rightarrow> bool \<times> db) \<Rightarrow> bool call" where
  "dbExec s what stmt d =
     (if sqlFails s what then (Inl (DriverError what), d) else (case stmt d of (n, d') \<Rightarrow> (Inr n, d')))"

definition condResult :: "store \<Rightarrow> string \<Rightarrow> string \<Rightarrow> bool call \<Rightarrow> CondResult call" where
  "condResult s i errPrefix m =
     call_bind m (\<lambda>applied. if applied then call_return CondApplied else condNotApplied s i errPrefix)"

definition guarded :: "string \<Rightarrow> (spawn_row \<Rightarrow> bool) \<Rightarrow> (db \<Rightarrow> spawn_row \<Rightarrow> spawn_row) \<Rightarrow> db \<Rightarrow> bool \<times> db" where
  "guarded i P upd d = update_spawns (\<lambda>r. s_instance_id r = i \<and> P r) (upd d) d"

section \<open>The insert\<close>

definition validRowAgent :: "string \<Rightarrow> bool" where
  "validRowAgent a \<longleftrightarrow> \<not> (a \<noteq> AgentClaude \<and> a \<noteq> AgentCodex \<and> a \<noteq> AgentCursor)"

definition subagentTracked :: "string \<Rightarrow> int" where
  "subagentTracked a = (if a = AgentClaude then 1 else 0)"

definition boolInt :: "bool \<Rightarrow> int" where
  "boolInt b = (if b then 1 else 0)"

text \<open>The row of the INSERT: its bound values, the statement's clocks and the column defaults.\<close>

definition insertedRow :: "Spawn \<Rightarrow> db \<Rightarrow> spawn_row" where
  "insertedRow sp d = launchOwnerSet (sp_LaunchOwner sp)
     \<lparr>s_instance_id = sp_InstanceID sp, s_parent_id = nullableStringArg (sp_ParentID sp), s_state = StatePending,
      s_cwd = sp_CWD sp, s_tmux_session_name = sp_TmuxSessionName sp, s_agent_args = sp_AgentArgs sp,
      s_relay_mode = sp_RelayMode sp, s_jsonl_path = None, s_session_id = None, s_labels = sp_Labels sp,
      s_started_at = sql_now_text d, s_last_seen_at = sql_now_text d, s_ended_at = None, s_pid = None,
      s_proc_starttime = None, s_liveness_unverified_since = None, s_liveness_note = None,
      s_extra_env = sp_ExtraEnv sp, s_row_version = 0,
      s_launch_started_at = positiveInt64Arg (sp_LaunchStartedAtMillis sp), s_life_number = 0,
      s_no_pre_trust = (if sp_NoPreTrust sp then 1 else 0),
      s_launch_token = nullableStringArg (li_Token (sp_Identity sp)),
      s_tmux_socket = nullableStringArg (li_Socket (sp_Identity sp)), s_tmux_server_pid = None,
      s_tmux_server_started = None, s_tmux_server_starttime = None, s_pane_id = None, s_pane_pid = None,
      s_pane_starttime = None, s_launch_owner_pid = None, s_launch_owner_starttime = None,
      s_launch_owner_pidns = None, s_idle_since = None, s_settled_state = StatePending,
      s_state_changed_ms = sql_now_ms d, s_agent = sp_Agent sp, s_end_reported_at = None,
      s_subagent_tracking = subagentTracked (sp_Agent sp), s_family_state = [], s_family_settled_state = [],
      s_family_changed_ms = 0, s_codex_startup = None, s_claude_capacity = None, s_permission_epoch = 0,
      s_observation_version = 0, s_display_observation = None, s_display_exit = None,
      s_idle_screen_timeout_seconds = positiveIntArg (sp_IdleScreenTimeoutSeconds sp), s_pane_sha256 = None,
      s_pane_since_ms = None, s_pane_epoch = None, s_codex_turn = None, s_codex_turn_ended = None\<rparr>"

text \<open>
  The schema's constraints (schema.go): \<open>instance_id\<close> is the primary key and \<open>parent_id\<close> refers to
  a stored row, the written one included.
\<close>

definition parentStored :: "string \<Rightarrow> string option \<Rightarrow> db \<Rightarrow> bool" where
  "parentStored i parent d = (case parent of None \<Rightarrow> True
     | Some p \<Rightarrow> p = i \<or> any_row (\<lambda>r. s_instance_id r = p) (spawns d))"

abbreviation foreignKeyError :: store_error where
  "foreignKeyError \<equiv> DriverError ''FOREIGN KEY constraint failed''"

definition insertSpawn :: "store \<Rightarrow> Spawn \<Rightarrow> bool tx" where
  "insertSpawn s sp d =
     (if sqlFails s ''store: insert pending'' then Inl (DriverError ''store: insert pending'')
      else if any_row (\<lambda>r. s_instance_id r = sp_InstanceID sp) (spawns d) then Inl (ErrPrimaryKeyCollision (sp_InstanceID sp))
      else if \<not> parentStored (sp_InstanceID sp) (nullableStringArg (sp_ParentID sp)) d then Inl foreignKeyError
      else Inr (True, d\<lparr>spawns := spawns d @ [insertedRow sp d]\<rparr>))"

definition InsertPending :: "store \<Rightarrow> Spawn \<Rightarrow> unit call" where
  "InsertPending s sp =
     (if \<not> validRowAgent (sp_Agent sp) then (\<lambda>d. (Inl (ErrRowAgentInvalid (sp_Agent sp)), d))
      else call_bind (execFamilyTx s (sp_InstanceID sp) (insertSpawn s sp)) (\<lambda>_. call_return ()))"

section \<open>The launch's own writes\<close>

definition serverPaneSet :: "LaunchIdentity \<Rightarrow> spawn_row \<Rightarrow> spawn_row" where
  "serverPaneSet x r = r\<lparr>
     s_tmux_server_pid := positiveIntArg (li_ServerPID x), s_tmux_server_started := positiveInt64Arg (li_ServerStart x),
     s_tmux_server_starttime := nullableStringArg (li_ServerStarttime x), s_pane_id := nullableStringArg (li_PaneID x),
     s_pane_pid := positiveIntArg (li_PanePID x), s_pane_starttime := nullableStringArg (li_PaneStarttime x)\<rparr>"

definition launchGuard :: "int \<Rightarrow> string \<Rightarrow> spawn_row \<Rightarrow> bool" where
  "launchGuard launchVersion token r \<longleftrightarrow>
     s_state r = StatePending \<and> s_row_version r = launchVersion \<and> where_true (sql_eq (s_launch_token r) (Some token))"

definition recordLaunchIdentitySet :: "LaunchIdentity \<Rightarrow> spawn_row \<Rightarrow> spawn_row" where
  "recordLaunchIdentitySet x r = rowVersionAdvance (launchOwnerClear (serverPaneSet x r))"

definition RecordLaunchIdentity :: "store \<Rightarrow> string \<Rightarrow> int \<Rightarrow> string \<Rightarrow> LaunchIdentity \<Rightarrow> CondResult call" where
  "RecordLaunchIdentity s i launchVersion token x =
     condResult s i ''store: record launch identity''
       (dbExec s ''store: record launch identity'' (guarded i (launchGuard launchVersion token) (\<lambda>_. recordLaunchIdentitySet x)))"

definition releaseGuard :: "string \<Rightarrow> spawn_row \<Rightarrow> bool" where
  "releaseGuard token r \<longleftrightarrow> s_state r = StatePending \<and> where_true (sql_eq (s_launch_token r) (Some token))
     \<and> s_launch_owner_pid r \<noteq> None"

definition releaseLaunchOwnerSet :: "spawn_row \<Rightarrow> spawn_row" where
  "releaseLaunchOwnerSet r = rowVersionAdvance (launchOwnerClear r)"

definition ReleaseLaunchOwner :: "store \<Rightarrow> string \<Rightarrow> string \<Rightarrow> CondResult call" where
  "ReleaseLaunchOwner s i token =
     condResult s i ''store: release launch owner''
       (execGuarded s i ''store: release launch owner'' (guarded i (releaseGuard token) (\<lambda>_. releaseLaunchOwnerSet)))"

definition heldGuard :: "int \<Rightarrow> spawn_row \<Rightarrow> bool" where
  "heldGuard started r \<longleftrightarrow> s_state r = StatePending \<and> s_row_version r = 0
     \<and> where_true (sql_eq (s_launch_started_at r) (Some started))"

definition endHeldLaunchSet :: "int \<Rightarrow> db \<Rightarrow> spawn_row \<Rightarrow> spawn_row" where
  "endHeldLaunchSet endedAt d r = rowVersionAdvance (launchStartClear
     ((immediateStateSet (sql_now_ms d) StateEnded r)\<lparr>s_ended_at := Some (storeTimestamp endedAt)\<rparr>))"

definition EndHeldLaunch :: "store \<Rightarrow> string \<Rightarrow> int \<Rightarrow> int \<Rightarrow> CondResult call" where
  "EndHeldLaunch s i started endedAt =
     condResult s i ''store: end held launch''
       (execFamily s i ''store: end held launch'' (guarded i (heldGuard started) (endHeldLaunchSet endedAt)))"

definition adoptIdentitySet :: "LaunchIdentity \<Rightarrow> spawn_row \<Rightarrow> spawn_row" where
  "adoptIdentitySet x r = rowVersionAdvance (serverPaneSet x r)"

definition AdoptIdentityIfUnchanged :: "store \<Rightarrow> string \<Rightarrow> RowSnapshot \<Rightarrow> LaunchIdentity \<Rightarrow> CondResult call" where
  "AdoptIdentityIfUnchanged s i examined x =
     condResult s i ''store: adopt identity''
       (dbExec s ''store: adopt identity'' (guarded i (snapshotMatch examined) (\<lambda>_. adoptIdentitySet x)))"

definition SetParentID :: "store \<Rightarrow> string \<Rightarrow> string \<Rightarrow> unit call" where
  "SetParentID s i parentID =
     call_bind (execFamilyTx s i (\<lambda>d.
         tx_bind (tx_exec s ''store: set parent id'' (guarded i (\<lambda>_. True)
             (\<lambda>_ r. rowVersionAdvance (r\<lparr>s_parent_id := nullableStringArg parentID\<rparr>)))) (\<lambda>n.
           if n \<and> \<not> parentStored i (nullableStringArg parentID) d then (\<lambda>_. Inl foreignKeyError) else tx_return n) d))
       (\<lambda>n. if n then call_return () else (\<lambda>d. (Inl (ErrSpawnNotFound i), d)))"

section \<open>Resume's move and its restore\<close>

record ResumePrior =
  rp_State :: string
  rp_EndedAtText :: string
  rp_PID :: int
  rp_ProcStarttime :: string
  rp_LivenessUnverifiedSince :: string
  rp_LivenessNote :: string
  rp_EndReportedAtMillis :: int
  rp_SubagentTracking :: bool
  rp_Identity :: LaunchIdentity

definition resumePriorOf :: "Spawn \<Rightarrow> ResumePrior" where
  "resumePriorOf row =
     \<lparr>rp_State = sp_State row, rp_EndedAtText = sp_EndedAtText row, rp_PID = sp_PID row,
      rp_ProcStarttime = sp_ProcStarttime row, rp_LivenessUnverifiedSince = sp_LivenessUnverifiedSince row,
      rp_LivenessNote = sp_LivenessNote row, rp_EndReportedAtMillis = sp_EndReportedAtMillis row,
      rp_SubagentTracking = sp_SubagentTracking row, rp_Identity = sp_Identity row\<rparr>"

definition finishedState :: "spawn_row \<Rightarrow> bool" where
  "finishedState r \<longleftrightarrow> s_state r = StateEnded \<or> s_state r = StateMissing"

definition moveToPendingSet :: "int \<Rightarrow> string \<Rightarrow> string \<Rightarrow> string \<Rightarrow> ProcessIdentity \<Rightarrow> db \<Rightarrow> spawn_row \<Rightarrow> spawn_row" where
  "moveToPendingSet started token socket parentID owner d r =
     rowVersionAdvance (launchOwnerSet owner ((immediateStateSet (sql_now_ms d) StatePending r)\<lparr>
       s_pid := None, s_proc_starttime := None, s_ended_at := None, s_liveness_unverified_since := None,
       s_liveness_note := None, s_tmux_server_pid := None, s_tmux_server_started := None,
       s_tmux_server_starttime := None, s_pane_id := None, s_pane_pid := None, s_pane_starttime := None,
       s_end_reported_at := None, s_codex_startup := None, s_claude_capacity := None,
       s_subagent_tracking := subagentTracked (s_agent r), s_launch_started_at := positiveInt64Arg started,
       s_launch_token := nullableStringArg token, s_tmux_socket := nullableStringArg socket,
       s_parent_id := nullableStringArg parentID\<rparr>))"

definition moveTx :: "store \<Rightarrow> string \<Rightarrow> RowSnapshot \<Rightarrow> int \<Rightarrow> string \<Rightarrow> string \<Rightarrow> string \<Rightarrow> ProcessIdentity
     \<Rightarrow> closedRequest list tx" where
  "moveTx s i examined started token socket parentID owner d =
     tx_bind (tx_exec s ''store: move to pending'' (guarded i (\<lambda>r. finishedState r \<and> snapshotMatch examined r)
        (moveToPendingSet started token socket parentID owner))) (\<lambda>n.
       if n \<and> \<not> parentStored i (nullableStringArg parentID) d then (\<lambda>_. Inl foreignKeyError)
       else if \<not> n then (\<lambda>_. Inl errNotApplied)
       else (\<lambda>d1. tx_bind (closeOrphanedRequests s i DecisionReasonEnded (go_now_ms d1)) (\<lambda>closed.
              tx_bind (closeSubagentsAgentGone s i started) (\<lambda>_. tx_return closed)) d1)) d"

abbreviation "WriterProcessResume \<equiv> ''resume''"

definition MoveToPending :: "store \<Rightarrow> string \<Rightarrow> RowSnapshot \<Rightarrow> int \<Rightarrow> string \<Rightarrow> string \<Rightarrow> string \<Rightarrow> ProcessIdentity
     \<Rightarrow> (CondResult \<times> int) call" where
  "MoveToPending s i examined started token socket parentID owner d0 =
     (case inImmediateTx s i (moveTx s i examined started token socket parentID owner) d0 of
        (Inl errNotApplied, d) \<Rightarrow> call_bind (condNotApplied s i ''store: move to pending'') (\<lambda>res. call_return (res, 0)) d
      | (Inl e, d) \<Rightarrow> (Inl e, d)
      | (Inr closed, d) \<Rightarrow> (Inr (CondApplied, rs_RowVersion examined + 1),
            fold (emitDeny i DecisionReasonEnded WriterProcessResume) closed d))"

definition restoreSet :: "ResumePrior \<Rightarrow> db \<Rightarrow> spawn_row \<Rightarrow> spawn_row" where
  "restoreSet prior d r =
     rowVersionAdvance (launchStartClear (serverPaneSet (rp_Identity prior) ((immediateStateSet (sql_now_ms d) (rp_State prior) r)\<lparr>
       s_ended_at := nullableStringArg (rp_EndedAtText prior), s_pid := positiveIntArg (rp_PID prior),
       s_proc_starttime := nullableStringArg (rp_ProcStarttime prior),
       s_liveness_unverified_since := nullableStringArg (rp_LivenessUnverifiedSince prior),
       s_liveness_note := nullableStringArg (rp_LivenessNote prior),
       s_launch_token := nullableStringArg (li_Token (rp_Identity prior)),
       s_tmux_socket := nullableStringArg (li_Socket (rp_Identity prior)),
       s_end_reported_at := positiveInt64Arg (rp_EndReportedAtMillis prior),
       s_subagent_tracking := boolInt (rp_SubagentTracking prior)\<rparr>)))"

definition movedGuard :: "int \<Rightarrow> spawn_row \<Rightarrow> bool" where
  "movedGuard movedVersion r \<longleftrightarrow> s_state r = StatePending \<and> s_row_version r = movedVersion"

definition RestoreAfterFailedResume :: "store \<Rightarrow> string \<Rightarrow> int \<Rightarrow> ResumePrior \<Rightarrow> CondResult call" where
  "RestoreAfterFailedResume s i movedVersion prior =
     (if rp_State prior \<noteq> StateEnded \<and> rp_State prior \<noteq> StateMissing
      then (\<lambda>d. (Inl (CheckFailed ''store: restore after failed resume: prior state''), d))
      else condResult s i ''store: restore after failed resume''
        (execFamily s i ''store: restore after failed resume'' (guarded i (movedGuard movedVersion) (restoreSet prior))))"

section \<open>The interface of a conditional write\<close>

text \<open>
  One guarded statement on the row of an instance: it keeps the key, advances the row's version
  by exactly one and spends its own guard, so the row as the end of the transaction leaves it
  no longer satisfies it. The laws give what each answer means and that a write applies once.
\<close>

locale conditional_write =
  fixes guard :: "spawn_row \<Rightarrow> bool" and upd :: "db \<Rightarrow> spawn_row \<Rightarrow> spawn_row"
  assumes upd_key: "s_instance_id (upd d r) = s_instance_id r"
    and upd_version: "s_row_version (upd d r) = s_row_version r + 1"
    and upd_spent: "guard r \<Longrightarrow> \<not> guard (upd d r)"
    and guard_finish: "guard (finish_row s d j r) = guard r"
begin

lemma guarded_hit: "fst (guarded i guard upd d) \<longleftrightarrow> (\<exists>r \<in> set (spawns d). s_instance_id r = i \<and> guard r)"
  by (simp add: guarded_def update_spawns_def)

lemma find_guarded_write:
  "find_spawn (snd (guarded i guard upd d)) j =
     map_option (\<lambda>r. if s_instance_id r = i \<and> guard r then upd d r else r) (find_spawn d j)"
  unfolding guarded_def update_spawns_def find_spawn_def
  by (simp add: find_update_where upd_key)

lemma updated_not_guarded:
  assumes "r \<in> set (spawns (snd (guarded i guard upd d)))" and "s_instance_id r = i"
  shows "\<not> guard r"
  using assms by (auto simp: guarded_def update_spawns_def set_update_where upd_spent)

lemma no_second_hit:
  "\<not> fst (guarded i guard upd (snd (guarded i guard upd d)))"
  "\<not> fst (guarded i guard upd (finish_tx s j (snd (guarded i guard upd d))))"
  using updated_not_guarded[of _ i d] by (auto simp: guarded_hit guard_finish)

lemma guarded_the_row:
  assumes "distinct (map s_instance_id (spawns d))" and "find_spawn d i = Some r"
  shows "guarded i guard upd d
    = (guard r, if guard r then d\<lparr>spawns := update_where (\<lambda>q. s_instance_id q = i) (upd d) (spawns d)\<rparr> else d)"
  unfolding guarded_def by (rule update_the_row[OF assms])

lemma family_write:
  assumes "quiet s" and "distinct (map s_instance_id (spawns d))" and "find_spawn d i = Some r"
  shows "condResult s i what (execFamily s i what' (guarded i guard upd)) d
    = (if guard r then (Inr CondApplied, applied_db s i (upd d) d) else (Inr CondChanged, d))"
  using assms(1,3) guarded_the_row[OF assms(2,3)]
  by (simp add: condResult_def call_bind_def execFamily_ok applied_db_def condNotApplied_def read_then_def existenceRead_def
      call_return_def)

lemma plain_write:
  assumes "quiet s" and "distinct (map s_instance_id (spawns d))" and "find_spawn d i = Some r"
  shows "condResult s i what (dbExec s what' (guarded i guard upd)) d
    = (if guard r then (Inr CondApplied, d\<lparr>spawns := update_where (\<lambda>q. s_instance_id q = i) (upd d) (spawns d)\<rparr>)
       else (Inr CondChanged, d))"
  using assms(1,3) guarded_the_row[OF assms(2,3)]
  by (simp add: condResult_def call_bind_def dbExec_def condNotApplied_def read_then_def existenceRead_def call_return_def)

lemma absent_write:
  assumes "quiet s" and "find_spawn d i = None"
  shows "condResult s i what (execFamily s i what' (guarded i guard upd)) d = (Inr CondAbsent, d)"
    and "condResult s i what (dbExec s what' (guarded i guard upd)) d = (Inr CondAbsent, d)"
proof -
  have miss: "guarded i guard upd d = (False, d)"
    using assms(2) by (auto simp: guarded_def update_spawns_def find_spawn_def find_None_iff update_where_none)
  show "condResult s i what (execFamily s i what' (guarded i guard upd)) d = (Inr CondAbsent, d)"
    and "condResult s i what (dbExec s what' (guarded i guard upd)) d = (Inr CondAbsent, d)"
    using assms miss
    by (simp_all add: condResult_def call_bind_def execFamily_ok dbExec_def condNotApplied_def read_then_def existenceRead_def)
qed

lemma written_row:
  assumes "find_spawn d i = Some r"
  shows "find_spawn (d\<lparr>spawns := update_where (\<lambda>q. s_instance_id q = i) (upd d) (spawns d)\<rparr>) i = Some (upd d r)"
    and "\<exists>d'. find_spawn (applied_db s i (upd d) d) i = Some (finish_row s d' i (upd d r))"
  using assms find_spawn_Some[OF assms] find_applied[OF assms upd_key]
  by (auto simp: find_spawn_def find_update_where upd_key)

lemma applies_once:
  assumes "quiet s" and "distinct (map s_instance_id (spawns d))" and "find_spawn d i = Some r" and "guard r"
  shows "condResult s i what (execFamily s i what' (guarded i guard upd)) (applied_db s i (upd d) d)
    = (Inr CondChanged, applied_db s i (upd d) d)"
proof -
  obtain d' where f: "find_spawn (applied_db s i (upd d) d) i = Some (finish_row s d' i (upd d r))"
    using written_row(2)[OF assms(3)] by blast
  have "distinct (map s_instance_id (spawns (applied_db s i (upd d) d)))"
    using assms(2) by (simp add: applied_db_def o_def map_update_where_key upd_key)
  from family_write[OF assms(1) this f] show ?thesis
    using upd_spent[OF assms(4)] by (simp add: guard_finish)
qed

end

lemma launch_sets_key [simp]:
  "s_instance_id (serverPaneSet x r) = s_instance_id r" "s_state (serverPaneSet x r) = s_state r"
  "s_row_version (serverPaneSet x r) = s_row_version r"
  "s_instance_id (launchOwnerClear r) = s_instance_id r" "s_state (launchOwnerClear r) = s_state r"
  "s_row_version (launchOwnerClear r) = s_row_version r"
  "s_instance_id (launchOwnerSet w r) = s_instance_id r" "s_state (launchOwnerSet w r) = s_state r"
  "s_row_version (launchOwnerSet w r) = s_row_version r" "s_row_version (launchStartClear r) = s_row_version r"
  "s_row_version (rowVersionAdvance r) = s_row_version r + 1"
  by (simp_all add: serverPaneSet_def set_frags)

lemma immediate_keeps [simp]:
  "s_instance_id (immediateStateSet now v r) = s_instance_id r" "s_row_version (immediateStateSet now v r) = s_row_version r"
  by (simp_all add: set_frags)

interpretation launch_identity: conditional_write "launchGuard v token" "\<lambda>_. recordLaunchIdentitySet x"
  by unfold_locales (auto simp: launchGuard_def recordLaunchIdentitySet_def finish_row_def Let_def)

interpretation launch_release: conditional_write "releaseGuard token" "\<lambda>_. releaseLaunchOwnerSet"
  by unfold_locales (auto simp: releaseGuard_def releaseLaunchOwnerSet_def finish_row_def Let_def set_frags)

interpretation launch_held: conditional_write "heldGuard started" "endHeldLaunchSet endedAt"
  by unfold_locales (auto simp: heldGuard_def endHeldLaunchSet_def finish_row_def Let_def)

interpretation launch_adopt: conditional_write "snapshotMatch examined" "\<lambda>_. adoptIdentitySet x"
  by unfold_locales (auto simp: snapshotMatch_def adoptIdentitySet_def finish_row_def Let_def)

interpretation resume_restore: conditional_write "movedGuard v" "restoreSet prior"
  by unfold_locales (auto simp: movedGuard_def restoreSet_def finish_row_def Let_def)

section \<open>What a move to pending leaves\<close>

lemma moveTx_quiet:
  assumes "quiet s" and "distinct (map s_instance_id (spawns d))" and "find_spawn d i = Some r" and "finishedState r"
    and "parentStored i (nullableStringArg parent) d" and "started > 0"
  shows "\<exists>closed d2. moveTx s i (lifeSnapshot r) started token socket parent owner d = Inr (closed, d2)
     \<and> spawns d2 = update_where (\<lambda>q. s_instance_id q = i) (moveToPendingSet started token socket parent owner d) (spawns d)
     \<and> closed_out i d d2 \<and> sql_now_ms d2 = sql_now_ms d"
proof -
  let ?f = "moveToPendingSet started token socket parent owner d"
  let ?d1 = "d\<lparr>spawns := update_where (\<lambda>q. s_instance_id q = i) ?f (spawns d)\<rparr>"
  have u: "guarded i (\<lambda>q. finishedState q \<and> snapshotMatch (lifeSnapshot r) q) (moveToPendingSet started token socket parent owner) d = (True, ?d1)"
    unfolding guarded_def
    using update_the_row[OF assms(2,3), of "\<lambda>q. finishedState q \<and> snapshotMatch (lifeSnapshot r) q" ?f] assms(4) by simp
  obtain closed d3 d2 where c: "closeOrphanedRequests s i DecisionReasonEnded (go_now_ms ?d1) ?d1 = Inr (closed, d3)"
      "closeSubagentsAgentGone s i started d3 = Inr ((), d2)"
    using closes_quiet[OF assms(1,6)] by blast
  have "sql_now_ms d2 = sql_now_ms d"
    using closeOrphanedRequests_Inr[OF c(1)] closeSubagentsAgentGone_Inr[OF c(2)] by auto
  moreover have "closed_out i d d2 \<and> spawns d2 = spawns ?d1"
    using closes_close_out[OF c] by (simp add: closed_out_def)
  moreover have "moveTx s i (lifeSnapshot r) started token socket parent owner d = Inr (closed, d2)"
    using assms(1,5) c u by (simp add: moveTx_def tx_bind_def tx_exec_def tx_return_def)
  ultimately show ?thesis by auto
qed

lemma tx_quiet:
  assumes "quiet s" and "fn d = Inr (a, d1)"
  shows "inImmediateTx s i fn d = (Inr a, finish_tx s i d1)"
proof -
  obtain u d2 where r: "refreshFamilies s d1 = Inr (u, d2)"
    using assms by (auto simp: refreshFamilies_def tx_exec_def Let_def)
  obtain ex d3 where t: "takeDisplayExits s i d2 = Inr (ex, d3)"
    using assms by (auto simp: takeDisplayExits_def tx_exec_def Let_def)
  show ?thesis
    using assms r t committed_tx[OF r t] by (simp add: inImmediateTx_def)
qed

lemma fold_emitDeny_clock [simp]: "sql_now_ms (fold (emitDeny i reason w) cs d) = sql_now_ms d"
  by (induction cs arbitrary: d) (simp_all add: emitDeny_def emitDecisionCommitted_def emit_def)

lemma closed_out_cong:
  "permission_requests d1 = permission_requests d2 \<Longrightarrow> subagents d1 = subagents d2 \<Longrightarrow> subagent_launches d1 = subagent_launches d2
    \<Longrightarrow> closed_out i d d1 = closed_out i d d2"
  by (simp add: closed_out_def)

lemma moveToPendingSet_key [simp]:
  "s_instance_id (moveToPendingSet started token socket parent owner d r) = s_instance_id r"
  "s_state (moveToPendingSet started token socket parent owner d r) = StatePending"
  "s_row_version (moveToPendingSet started token socket parent owner d r) = s_row_version r + 1"
  by (simp_all add: moveToPendingSet_def set_frags)

lemma MoveToPending_quiet:
  assumes "quiet s" and "distinct (map s_instance_id (spawns d))" and "find_spawn d i = Some r" and "finishedState r"
    and "parentStored i (nullableStringArg parent) d" and "started > 0"
  shows "\<exists>d1 d'. MoveToPending s i (lifeSnapshot r) started token socket parent owner d = (Inr (CondApplied, s_row_version r + 1), d1)
     \<and> find_spawn d1 i = Some (finish_row s d' i (moveToPendingSet started token socket parent owner d r))
     \<and> closed_out i d d1 \<and> sql_now_ms d1 = sql_now_ms d \<and> distinct (map s_instance_id (spawns d1))"
proof -
  let ?f = "moveToPendingSet started token socket parent owner d"
  obtain closed d2 where m: "moveTx s i (lifeSnapshot r) started token socket parent owner d = Inr (closed, d2)"
    and sp: "spawns d2 = update_where (\<lambda>q. s_instance_id q = i) ?f (spawns d)" and co: "closed_out i d d2"
    and now: "sql_now_ms d2 = sql_now_ms d"
    using moveTx_quiet[OF assms] by blast
  have "find_spawn d2 i = Some (?f r)"
    using sp assms(3) find_spawn_Some[OF assms(3)] by (simp add: find_spawn_def find_update_where)
  moreover have "distinct (map s_instance_id (spawns d2))"
    using assms(2) by (simp add: sp map_update_where_key)
  moreover have "MoveToPending s i (lifeSnapshot r) started token socket parent owner d
      = (Inr (CondApplied, s_row_version r + 1), fold (emitDeny i DecisionReasonEnded WriterProcessResume) closed (finish_tx s i d2))"
    using tx_quiet[where fn = "moveTx s i (lifeSnapshot r) started token socket parent owner", OF assms(1) m]
    by (simp add: MoveToPending_def lifeSnapshot_def)
  moreover have "closed_out i d (fold (emitDeny i DecisionReasonEnded WriterProcessResume) closed (finish_tx s i d2))"
    using co closed_out_cong[of "fold (emitDeny i DecisionReasonEnded WriterProcessResume) closed (finish_tx s i d2)" d2 i d] by simp
  ultimately show ?thesis using now by (simp add: o_def) blast
qed

end
