(* ===== verification/Launch_Laws.thy ===== *)
theory Launch_Laws
  imports Launches
begin

text \<open>
  What the launch writes achieve on a quiet store: the insert's outcome and read-back, the identity
  write that opens the hook gate, the end of a held launch that no hook undoes, and the restore of a
  failed resume.
\<close>

section \<open>Properties\<close>

text \<open>A finished row whose columns hold what the store's writes leave in them.\<close>

definition storedText :: "string option \<Rightarrow> bool" where "storedText v \<longleftrightarrow> v \<noteq> Some []"

definition storedPositive :: "int option \<Rightarrow> bool" where
  "storedPositive v = (case v of None \<Rightarrow> True | Some n \<Rightarrow> n > 0)"

definition storedLife :: "spawn_row \<Rightarrow> bool" where
  "storedLife r \<longleftrightarrow> storedText (s_ended_at r) \<and> storedPositive (s_pid r) \<and> storedText (s_proc_starttime r)
     \<and> storedText (s_liveness_unverified_since r) \<and> storedText (s_liveness_note r)
     \<and> sql_text (s_launch_token r) = sql_text (nullableStringArg (decodeLaunchToken (sql_text (s_launch_token r))))
     \<and> storedText (s_tmux_socket r) \<and> storedPositive (s_tmux_server_pid r) \<and> storedPositive (s_tmux_server_started r)
     \<and> storedText (s_tmux_server_starttime r) \<and> storedText (s_pane_id r) \<and> storedPositive (s_pane_pid r)
     \<and> storedText (s_pane_starttime r) \<and> storedPositive (s_end_reported_at r)
     \<and> (s_subagent_tracking r = 0 \<or> s_subagent_tracking r = 1)"

lemma stored_args [simp]:
  "storedText v \<Longrightarrow> nullableStringArg (coalesce v []) = v"
  "storedPositive n \<Longrightarrow> positiveIntArg (coalesce n 0) = n" "storedPositive n \<Longrightarrow> positiveInt64Arg (coalesce n 0) = n"
  by (cases v; simp add: storedText_def nullableStringArg_def)
    (cases n; simp add: storedPositive_def positiveIntArg_def positiveInt64Arg_def)+

lemma stored_end_report [simp]: "storedPositive n \<Longrightarrow> positiveInt64Arg (decodeEndReportedAt (sql_int n)) = n"
  by (cases n) (simp_all add: storedPositive_def decodeEndReportedAt_def sql_int_def positiveInt64Arg_def)

lemma sql_text_inject: "sql_text a = sql_text b \<Longrightarrow> a = b"
  by (cases a; cases b) (simp_all add: sql_text_def)

definition restored :: "string \<Rightarrow> ProcessIdentity \<Rightarrow> int \<Rightarrow> spawn_row \<Rightarrow> spawn_row \<Rightarrow> spawn_row" where
  "restored parent owner now r r2 = launchOwnerSet owner (r\<lparr>s_parent_id := nullableStringArg parent, s_row_version := s_row_version r + 2,
     s_launch_started_at := None, s_codex_startup := None, s_claude_capacity := None,
     s_permission_epoch := s_permission_epoch r + 2, s_observation_version := s_observation_version r + 2,
     s_display_observation := None, s_display_exit := None, s_settled_state := s_state r, s_state_changed_ms := now,
     s_family_state := s_family_state r2, s_family_settled_state := s_family_settled_state r2,
     s_family_changed_ms := s_family_changed_ms r2\<rparr>)"

lemma restored_keeps:
  "s_state (restored parent owner now r r2) = s_state r" "s_pid (restored parent owner now r r2) = s_pid r"
  "s_ended_at (restored parent owner now r r2) = s_ended_at r"
  by (simp_all add: restored_def set_frags)

lemma restoreSet_moved:
  assumes "storedLife r" and "finishedState r" and "s_instance_id r = i"
  shows "finish_row s2 d2 i (restoreSet (resumePriorOf (scanSpawn r)) d1 (finish_row s d' i (moveToPendingSet started token socket parent owner d r)))
    = restored parent owner (sql_now_ms d1) r (finish_row s2 d2 i (restoreSet (resumePriorOf (scanSpawn r)) d1 (finish_row s d' i (moveToPendingSet started token socket parent owner d r))))"
    (is "?a = restored _ _ _ _ ?a")
proof -
  have tok: "nullableStringArg (decodeLaunchToken (sql_text (s_launch_token r))) = s_launch_token r"
    using assms(1) by (auto simp: storedLife_def dest!: sql_text_inject)
  have fin: "isTerminalState (s_state r)" "s_state r \<noteq> StatePending"
    using assms(2) by (auto simp: finishedState_def isTerminalState_def)
  have track: "boolInt (decodeSubagentTracking (SInt (s_subagent_tracking r))) = s_subagent_tracking r"
    using assms(1) by (auto simp: storedLife_def boolInt_def decodeSubagentTracking_def)
  note stored = assms(1)[unfolded storedLife_def]
  show ?thesis
    by (rule spawn_row.equality)
      (use stored fin tok track assms(3) in \<open>simp_all add: restored_def restoreSet_def moveToPendingSet_def finish_row_def Let_def set_frags
        serverPaneSet_def resumePriorOf_def scanSpawn_def lifeIdentity_def committedDisplayState_terminal\<close>)
qed

text \<open>
  C19. A failed resume is undone: on a quiet store, the move of a finished row to pending followed by
  its restore with what the resume read before leaves the row as it was in every column a life is
  judged by (state, end time, process, liveness, identity, end report, tracking); what differs is
  exactly the parent and owner of the failed launch, the cleared start and evidence columns, the
  advanced counters, the immediate settle columns, the cleared display and the family columns. The
  requests and subagent records of the earlier life are closed.
\<close>

theorem failed_resume_restores_life:
  assumes "quiet s" and "distinct (map s_instance_id (spawns d))" and "find_spawn d i = Some r" and "finishedState r"
    and "storedLife r" and "parentStored i (nullableStringArg parent) d" and "started > 0"
  shows "\<exists>d1 d2 r2. MoveToPending s i (lifeSnapshot r) started token socket parent owner d = (Inr (CondApplied, s_row_version r + 1), d1)
     \<and> RestoreAfterFailedResume s i (s_row_version r + 1) (resumePriorOf (scanSpawn r)) d1 = (Inr CondApplied, d2)
     \<and> find_spawn d2 i = Some r2 \<and> r2 = restored parent owner (sql_now_ms d) r r2 \<and> closed_out i d d2"
proof -
  let ?m = "moveToPendingSet started token socket parent owner d r"
  let ?p = "resumePriorOf (scanSpawn r)"
  obtain d1 d' where m: "MoveToPending s i (lifeSnapshot r) started token socket parent owner d = (Inr (CondApplied, s_row_version r + 1), d1)"
    and f1: "find_spawn d1 i = Some (finish_row s d' i ?m)" and co: "closed_out i d d1" and now: "sql_now_ms d1 = sql_now_ms d"
    and ids: "distinct (map s_instance_id (spawns d1))"
    using MoveToPending_quiet[OF assms(1-4,6,7), of token socket owner] by blast
  have prior: "\<not> (rp_State ?p \<noteq> StateEnded \<and> rp_State ?p \<noteq> StateMissing)"
    using assms(4) by (simp add: finishedState_def resumePriorOf_def scanSpawn_def)
  have "movedGuard (s_row_version r + 1) (finish_row s d' i ?m)"
    by (simp add: movedGuard_def)
  then have r: "RestoreAfterFailedResume s i (s_row_version r + 1) ?p d1 = (Inr CondApplied, applied_db s i (restoreSet ?p d1) d1)"
    using resume_restore.family_write[OF assms(1) ids f1] prior by (simp add: RestoreAfterFailedResume_def)
  obtain d3 where f2: "find_spawn (applied_db s i (restoreSet ?p d1) d1) i = Some (finish_row s d3 i (restoreSet ?p d1 (finish_row s d' i ?m)))"
    using resume_restore.written_row(2)[OF f1] by blast
  have "closed_out i d (applied_db s i (restoreSet ?p d1) d1)"
    using co by (simp add: applied_db_def closed_out_def)
  moreover have "s_instance_id r = i" using find_spawn_Some[OF assms(3)] by simp
  note restoreSet_moved[OF assms(5,4) this, of s d3 d1 s d' started token socket parent owner d, unfolded now]
  ultimately show ?thesis using m r f2 by blast
qed

definition sample_ended :: db where
  "sample_ended = sample_db\<lparr>spawns := [sample_row\<lparr>s_state := StateEnded, s_ended_at := Some ''2026-01-01 00:00:01'', s_pid := Some 7\<rparr>]\<rparr>"

theorem failed_resume_restores_life_witness:
  "\<exists>d1 d2 r2. MoveToPending sample_store ''a'' (lifeSnapshot (hd (spawns sample_ended))) 9000 ''0123456789abcdef'' ''sock'' []
       \<lparr>pi_PID = 5, pi_Starttime = ''p'', pi_PIDNamespace = []\<rparr> sample_ended = (Inr (CondApplied, 1), d1)
     \<and> RestoreAfterFailedResume sample_store ''a'' 1 (resumePriorOf (scanSpawn (hd (spawns sample_ended)))) d1 = (Inr CondApplied, d2)
     \<and> find_spawn d2 ''a'' = Some r2 \<and> s_state r2 = StateEnded \<and> s_pid r2 = Some 7 \<and> s_ended_at r2 = Some ''2026-01-01 00:00:01''"
proof -
  have r: "find_spawn sample_ended ''a'' = Some (hd (spawns sample_ended))" "s_row_version (hd (spawns sample_ended)) = 0"
    by (simp_all add: sample_ended_def sample_db_def sample_row_def find_spawn_def)
  have "distinct (map s_instance_id (spawns sample_ended))" "finishedState (hd (spawns sample_ended))"
    "storedLife (hd (spawns sample_ended))" "parentStored ''a'' (nullableStringArg []) sample_ended"
    by (simp_all add: sample_ended_def sample_row_def finishedState_def storedLife_def storedText_def storedPositive_def
        sql_text_def nullableStringArg_def parentStored_def decodeLaunchToken_def)
  from failed_resume_restores_life[OF quiet_sample this(1) r(1) this(2-4), of 9000 "''0123456789abcdef''" "''sock''"
      "\<lparr>pi_PID = 5, pi_Starttime = ''p'', pi_PIDNamespace = []\<rparr>"] r(2)
  obtain d1 d2 r2 where "MoveToPending sample_store ''a'' (lifeSnapshot (hd (spawns sample_ended))) 9000 ''0123456789abcdef'' ''sock'' []
       \<lparr>pi_PID = 5, pi_Starttime = ''p'', pi_PIDNamespace = []\<rparr> sample_ended = (Inr (CondApplied, 1), d1)"
    "RestoreAfterFailedResume sample_store ''a'' 1 (resumePriorOf (scanSpawn (hd (spawns sample_ended)))) d1 = (Inr CondApplied, d2)"
    "find_spawn d2 ''a'' = Some r2"
    "r2 = restored [] \<lparr>pi_PID = 5, pi_Starttime = ''p'', pi_PIDNamespace = []\<rparr> (sql_now_ms sample_ended) (hd (spawns sample_ended)) r2"
    by auto
  moreover have "s_state r2 = StateEnded" "s_pid r2 = Some 7" "s_ended_at r2 = Some ''2026-01-01 00:00:01''"
    using arg_cong[OF calculation(4), of s_state] arg_cong[OF calculation(4), of s_pid] arg_cong[OF calculation(4), of s_ended_at]
    by (simp_all add: restored_keeps sample_ended_def)
  ultimately show ?thesis by blast
qed

definition sample_spawn :: Spawn where
  "sample_spawn = (scanSpawn (sample_row\<lparr>s_instance_id := ''n''\<rparr>))\<lparr>sp_LaunchStartedAtMillis := 9000\<rparr>"

lemma insertSpawn_quiet:
  assumes "quiet s"
  shows "insertSpawn s sp d =
    (if any_row (\<lambda>r. s_instance_id r = sp_InstanceID sp) (spawns d) then Inl (ErrPrimaryKeyCollision (sp_InstanceID sp))
     else if \<not> parentStored (sp_InstanceID sp) (nullableStringArg (sp_ParentID sp)) d then Inl foreignKeyError
     else Inr (True, d\<lparr>spawns := spawns d @ [insertedRow sp d]\<rparr>))"
  using assms by (simp add: insertSpawn_def)

lemma execFamilyTx_quiet:
  assumes "quiet s" and "stmt d = Inr (True, d1)"
  shows "execFamilyTx s i stmt d = (Inr True, finish_tx s i d1)"
  using tx_quiet[OF assms(1), where fn = "\<lambda>d. case stmt d of Inl e \<Rightarrow> Inl e | Inr (n, d') \<Rightarrow> if n then Inr (n, d') else Inl errNotApplied" and d = d]
    assms(2) by (simp add: execFamilyTx_def)

lemma execFamilyTx_fails:
  assumes "quiet s" and "stmt d = Inl e" and "e \<noteq> errNotApplied"
  shows "execFamilyTx s i stmt d = (Inl e, d)"
  using assms by (cases e) (simp_all add: execFamilyTx_def inImmediateTx_def)

lemma insertedRow_fields [simp]:
  "s_instance_id (insertedRow sp d) = sp_InstanceID sp" "s_state (insertedRow sp d) = StatePending"
  "s_row_version (insertedRow sp d) = 0" "s_pane_pid (insertedRow sp d) = None"
  by (simp_all add: insertedRow_def launchOwnerSet_def)

text \<open>
  The insert of a launch succeeds exactly when its agent is known, its id is new and its parent
  is stored, and then reads back: the row is pending at version 0, carries what the spawn asked for,
  leaves every other row's own columns alone and admits no hook before its identity is recorded. A
  refused insert leaves the database as it was and names the reason.
\<close>

theorem insert_pending_outcome:
  assumes "quiet s"
  shows "case InsertPending s sp d of
      (Inl e, d1) \<Rightarrow> d1 = d \<and> (e = ErrRowAgentInvalid (sp_Agent sp) \<and> sp_Agent sp \<notin> {AgentClaude, AgentCodex, AgentCursor}
          \<or> e = ErrPrimaryKeyCollision (sp_InstanceID sp) \<and> find_spawn d (sp_InstanceID sp) \<noteq> None
          \<or> e = foreignKeyError \<and> sp_ParentID sp \<noteq> [] \<and> find_spawn d (sp_ParentID sp) = None)
    | (Inr _, d1) \<Rightarrow> (\<exists>q r. GetSpawn s (sp_InstanceID sp) d1 = Inr q \<and> find_spawn d1 (sp_InstanceID sp) = Some r \<and> q = scanSpawn r
          \<and> sp_State q = StatePending \<and> sp_RowVersion q = 0 \<and> sp_ParentID q = sp_ParentID sp \<and> sp_CWD q = sp_CWD sp
          \<and> sp_TmuxSessionName q = sp_TmuxSessionName sp \<and> sp_AgentArgs q = sp_AgentArgs sp \<and> sp_RelayMode q = sp_RelayMode sp
          \<and> sp_Labels q = sp_Labels sp \<and> sp_ExtraEnv q = sp_ExtraEnv sp \<and> sp_Agent q = sp_Agent sp
          \<and> sp_NoPreTrust q = sp_NoPreTrust sp \<and> sp_SubagentTracking q = (sp_Agent sp = AgentClaude)
          \<and> \<not> hookGate d1 g r)
        \<and> map (\<lambda>q. (s_instance_id q, s_state q, s_row_version q)) (spawns d1)
           = map (\<lambda>q. (s_instance_id q, s_state q, s_row_version q)) (spawns d) @ [(sp_InstanceID sp, StatePending, 0)]"
proof (cases "validRowAgent (sp_Agent sp)")
  case False
  then show ?thesis by (auto simp: InsertPending_def validRowAgent_def)
next
  case valid: True
  consider (dup) "find_spawn d (sp_InstanceID sp) \<noteq> None"
    | (parent) "find_spawn d (sp_InstanceID sp) = None" "\<not> parentStored (sp_InstanceID sp) (nullableStringArg (sp_ParentID sp)) d"
    | (ok) "find_spawn d (sp_InstanceID sp) = None" "parentStored (sp_InstanceID sp) (nullableStringArg (sp_ParentID sp)) d"
    by blast
  then show ?thesis
  proof cases
    case dup
    then have "insertSpawn s sp d = Inl (ErrPrimaryKeyCollision (sp_InstanceID sp))"
      by (auto simp: insertSpawn_quiet[OF assms] find_spawn_def find_None_iff)
    from execFamilyTx_fails[OF assms, where stmt = "insertSpawn s sp", OF this] valid dup show ?thesis by (simp add: InsertPending_def call_bind_def)
  next
    case parent
    then have "insertSpawn s sp d = Inl foreignKeyError"
      by (auto simp: insertSpawn_quiet[OF assms] find_spawn_def find_None_iff)
    moreover have "sp_ParentID sp \<noteq> [] \<and> find_spawn d (sp_ParentID sp) = None"
      using parent(2) by (auto simp: parentStored_def nullableStringArg_def find_spawn_def find_None_iff split: if_splits)
    ultimately show ?thesis using execFamilyTx_fails[OF assms, of "insertSpawn s sp"] valid by (simp add: InsertPending_def call_bind_def)
  next
    case ok
    let ?d1 = "d\<lparr>spawns := spawns d @ [insertedRow sp d]\<rparr>"
    have ins: "insertSpawn s sp d = Inr (True, ?d1)"
      using ok by (auto simp: insertSpawn_quiet[OF assms] find_spawn_def find_None_iff)
    have "find_spawn ?d1 (sp_InstanceID sp) = Some (insertedRow sp d)"
      using ok(1) by (simp add: find_spawn_def find_append)
    then show ?thesis
      using execFamilyTx_quiet[OF assms, of "insertSpawn s sp", OF ins] valid assms
      by (simp add: InsertPending_def call_bind_def call_return_def GetSpawn_def o_def hookGate_iff scanSpawn_def finish_row_def
          Let_def insertedRow_def set_frags decodeNoPreTrust_def decodeSubagentTracking_def subagentTracked_def lifeSnapshot_def)
  qed
qed

theorem insert_pending_outcome_witness:
  "(case InsertPending sample_store sample_spawn sample_db of
      (Inl _, _) \<Rightarrow> False
    | (Inr _, d1) \<Rightarrow> map s_state (spawns d1) = [StateCheckPermission, StateWaiting, StatePending])
   \<and> fst (InsertPending sample_store (sample_spawn\<lparr>sp_InstanceID := ''a''\<rparr>) sample_db) = Inl (ErrPrimaryKeyCollision ''a'')"
proof -
  have run: "\<exists>d1. InsertPending sample_store sample_spawn sample_db = (Inr (), d1)"
    by (simp add: InsertPending_def call_bind_def call_return_def execFamilyTx_def inImmediateTx_def insertSpawn_def refreshFamilies_def
        takeDisplayExits_def tx_exec_def Let_def validRowAgent_def parentStored_def sample_spawn_def scanSpawn_def sample_row_def
        sample_store_def sample_db_def nullableStringArg_def)
  have dup: "fst (InsertPending sample_store (sample_spawn\<lparr>sp_InstanceID := ''a''\<rparr>) sample_db) = Inl (ErrPrimaryKeyCollision ''a'')"
    by (simp add: InsertPending_def call_bind_def execFamilyTx_def inImmediateTx_def insertSpawn_def validRowAgent_def
        sample_spawn_def scanSpawn_def sample_row_def sample_store_def sample_db_def)
  from run obtain d1 where d1: "InsertPending sample_store sample_spawn sample_db = (Inr (), d1)" by blast
  have "map (\<lambda>q. (s_instance_id q, s_state q, s_row_version q)) (spawns d1)
      = [(''a'', StateCheckPermission, 0), (''b'', StateWaiting, 0), (sp_InstanceID sample_spawn, StatePending, 0)]"
    using insert_pending_outcome[OF quiet_sample, where sp = sample_spawn and d = sample_db] unfolding d1
    by (simp add: sample_db_def sample_row_def)
  then have "map s_state (spawns d1) = [StateCheckPermission, StateWaiting, StatePending]"
    by (auto simp: map_eq_Cons_conv)
  with d1 dup show ?thesis by simp
qed

text \<open>
  The launch's identity write opens the hook gate for exactly its agent: while the row is the
  launch's own (pending, at the version and token the launch began with) the write applies once,
  ends the launch's hold and advances the version; afterwards the gate admits a hook exactly when its
  parent process is the recorded pane process (and, on a Cursor row, its binding is the row's).
  Before it, a row without a pane admits none.
\<close>

theorem launch_identity_opens_gate:
  assumes "quiet s" and "distinct (map s_instance_id (spawns d))" and "find_spawn d i = Some r" and "launchGuard v token r"
    and "li_PanePID x > 0" and "li_PaneStarttime x \<noteq> []"
  shows "\<exists>d1 r1. RecordLaunchIdentity s i v token x d = (Inr CondApplied, d1) \<and> find_spawn d1 i = Some r1
     \<and> s_row_version r1 = v + 1 \<and> s_launch_owner_pid r1 = None \<and> s_state r1 = StatePending
     \<and> (hookGate d1 g r1 \<longleftrightarrow> g_ParentPID g = li_PanePID x \<and> g_ParentStart g = li_PaneStarttime x
           \<and> (s_agent r1 \<noteq> AgentCursor \<or> cursorGate d1 g r1))
     \<and> RecordLaunchIdentity s i v token x d1 = (Inr CondChanged, d1)"
proof -
  let ?d1 = "d\<lparr>spawns := update_where (\<lambda>q. s_instance_id q = i) (recordLaunchIdentitySet x) (spawns d)\<rparr>"
  let ?r1 = "recordLaunchIdentitySet x r"
  have f1: "find_spawn ?d1 i = Some ?r1"
    using launch_identity.written_row(1)[OF assms(3), of x] .
  have ids: "distinct (map s_instance_id (spawns ?d1))"
    using assms(2) by (simp add: map_update_where_key launch_identity.upd_key)
  have "RecordLaunchIdentity s i v token x d = (Inr CondApplied, ?d1)"
    using launch_identity.plain_write[OF assms(1-3)] assms(4) by (simp add: RecordLaunchIdentity_def)
  moreover have "RecordLaunchIdentity s i v token x ?d1 = (Inr CondChanged, ?d1)"
    using launch_identity.plain_write[OF assms(1) ids f1, of _ _ v token x] launch_identity.upd_spent[OF assms(4), of x]
    by (simp add: RecordLaunchIdentity_def)
  moreover have "hookGate ?d1 g ?r1 \<longleftrightarrow> g_ParentPID g = li_PanePID x \<and> g_ParentStart g = li_PaneStarttime x
           \<and> (s_agent ?r1 \<noteq> AgentCursor \<or> cursorGate ?d1 g ?r1)"
    using assms(5,6) by (auto simp: hookGate_iff recordLaunchIdentitySet_def serverPaneSet_def set_frags nullableStringArg_def positiveIntArg_def)
  moreover have "s_row_version ?r1 = v + 1 \<and> s_launch_owner_pid ?r1 = None \<and> s_state ?r1 = StatePending"
    using assms(4) by (simp add: launchGuard_def recordLaunchIdentitySet_def serverPaneSet_def set_frags)
  ultimately show ?thesis using f1 by blast
qed

definition sample_pending :: db where
  "sample_pending = sample_db\<lparr>spawns := [sample_row\<lparr>s_state := StatePending, s_launch_token := Some ''0123456789abcdef'',
     s_launch_started_at := Some 8000, s_pane_pid := None, s_pane_starttime := None, s_launch_owner_pid := Some 4\<rparr>]\<rparr>"

lemma sample_pending_facts:
  "distinct (map s_instance_id (spawns sample_pending))" "find_spawn sample_pending ''a'' = Some (hd (spawns sample_pending))"
  "launchGuard 0 ''0123456789abcdef'' (hd (spawns sample_pending))" "heldGuard 8000 (hd (spawns sample_pending))"
  "s_pane_pid (hd (spawns sample_pending)) = None" "s_row_version (hd (spawns sample_pending)) = 0"
  by (simp_all add: sample_pending_def sample_row_def find_spawn_def launchGuard_def heldGuard_def)

definition sample_identity :: LaunchIdentity where
  "sample_identity = \<lparr>li_Token = [], li_Socket = [], li_ServerPID = 3, li_ServerStart = 8100, li_ServerStarttime = ''q'',
     li_PaneID = ''%1'', li_PanePID = 7, li_PaneStarttime = ''p0''\<rparr>"

theorem launch_identity_opens_gate_witness:
  "\<exists>d1 r1. RecordLaunchIdentity sample_store ''a'' 0 ''0123456789abcdef'' sample_identity sample_pending = (Inr CondApplied, d1)
     \<and> find_spawn d1 ''a'' = Some r1 \<and> s_row_version r1 = 1 \<and> s_state r1 = StatePending"
  using launch_identity_opens_gate[OF quiet_sample sample_pending_facts(1-3), of sample_identity sample_gate]
  by (auto simp: sample_identity_def)

text \<open>
  A held launch is ended once and stays ended: the end write applies to the insert's own pending
  row, which then is ended and reported so at once with the given end time; a repeat of the write and
  every hook transition, whatever it asks for, find it changed or without a pane and write nothing.
\<close>

theorem held_launch_end_sticks:
  assumes "quiet s" and "distinct (map s_instance_id (spawns d))" and "find_spawn d i = Some r" and "heldGuard started r"
    and "s_pane_pid r = None"
  shows "\<exists>d1 r1. EndHeldLaunch s i started endedAt d = (Inr CondApplied, d1) \<and> find_spawn d1 i = Some r1
     \<and> s_state r1 = StateEnded \<and> stateExpr x r1 = StateEnded \<and> s_ended_at r1 = Some (storeTimestamp endedAt)
     \<and> s_launch_started_at r1 = None \<and> s_row_version r1 = 1
     \<and> EndHeldLaunch s i started endedAt d1 = (Inr CondChanged, d1)
     \<and> ApplyHookTransitionResult s i g v soft ev p b d1
        = (Inr (UpsertNoChange, \<lparr>Applied = False, Reason = HookReasonNoPaneRecorded\<rparr>), d1)"
proof -
  let ?f = "endHeldLaunchSet endedAt d"
  let ?d1 = "applied_db s i ?f d"
  have app: "EndHeldLaunch s i started endedAt d = (Inr CondApplied, ?d1)"
    using launch_held.family_write[OF assms(1-3)] assms(4) by (simp add: EndHeldLaunch_def)
  have again: "EndHeldLaunch s i started endedAt ?d1 = (Inr CondChanged, ?d1)"
    using launch_held.applies_once[OF assms(1-4)] by (simp add: EndHeldLaunch_def)
  obtain d' where f1: "find_spawn ?d1 i = Some (finish_row s d' i (?f r))"
    using launch_held.written_row(2)[OF assms(3)] by blast
  have ids: "distinct (map s_instance_id (spawns ?d1))"
    using assms(2) by (simp add: applied_db_def o_def map_update_where_key launch_held.upd_key)
  let ?r1 = "finish_row s d' i (?f r)"
  have row: "s_state ?r1 = StateEnded" "s_settled_state ?r1 = StateEnded" "s_ended_at ?r1 = Some (storeTimestamp endedAt)"
    "s_launch_started_at ?r1 = None" "s_row_version ?r1 = 1" "s_pane_pid ?r1 = None"
    using assms(4,5) by (simp_all add: endHeldLaunchSet_def set_frags heldGuard_def)
  then have "\<not> hookGate ?d1 g ?r1" by (simp add: hookGate_iff)
  from ApplyHookTransitionResult_mismatch[OF assms(1) ids f1 this] app again f1 row show ?thesis
    by (auto intro!: stateExpr_settled)
qed

theorem held_launch_end_sticks_witness:
  "\<exists>d1 r1. EndHeldLaunch sample_store ''a'' 8000 9000 sample_pending = (Inr CondApplied, d1) \<and> find_spawn d1 ''a'' = Some r1
     \<and> s_state r1 = StateEnded \<and> s_row_version r1 = 1
     \<and> snd (ApplyHookTransitionResult sample_store ''a'' sample_gate StateWorking False ''Stop'' [] False d1) = d1"
  using held_launch_end_sticks[OF quiet_sample sample_pending_facts(1,2,4,5), where x = "settle_read 0 0" and endedAt = 9000 and g = sample_gate
      and v = StateWorking and soft = False and ev = "''Stop''" and p = "[]" and b = False]
  by auto

end
