(* ===== verification/Find_Missing.thy ===== *)
theory Find_Missing
  imports Launch_Laws
begin

text \<open>
  What find-missing writes (find_missing_writes.go): the mark of a gone agent's row as missing, or
  as ended when its Codex agent reported its end, each in one transaction with the close of the
  row's requests and subagent records; the liveness notes and their clear; the adoption of a found
  identity; and the repair of a stale \<open>check_permission\<close> row. Every write is conditional on the
  snapshot the sweep examined.
\<close>

section \<open>Guards\<close>

definition sameLifeLive :: "RowSnapshot \<Rightarrow> spawn_row \<Rightarrow> bool" where
  "sameLifeLive examined r \<longleftrightarrow> list_ex (\<lambda>v. s_state r = v) liveStates \<and> snapshotMatch examined r"

lemma sameLifeLive_iff: "sameLifeLive examined r \<longleftrightarrow> IsLiveState (s_state r) \<and> lifeSnapshot r = examined"
  by (auto simp: sameLifeLive_def snapshotMatch_life IsLiveState_def list_ex_iff)

definition endReportedCodex :: "spawn_row \<Rightarrow> bool" where
  "endReportedCodex r \<longleftrightarrow> s_agent r = AgentCodex \<and> (case s_end_reported_at r of None \<Rightarrow> False | Some n \<Rightarrow> n > 0)"

section \<open>The terminal marks\<close>

definition terminalMarkSet :: "string \<Rightarrow> db \<Rightarrow> spawn_row \<Rightarrow> spawn_row" where
  "terminalMarkSet v d r = rowVersionAdvance (launchStartClear ((immediateStateSet (sql_now_ms d) v r)\<lparr>
     s_ended_at := Some (sql_now_text d), s_last_seen_at := sql_now_text d,
     s_liveness_unverified_since := None, s_liveness_note := None\<rparr>))"

definition markMissingIfSameLife :: "string \<Rightarrow> RowSnapshot \<Rightarrow> db \<Rightarrow> bool \<times> db" where
  "markMissingIfSameLife i examined = guarded i (sameLifeLive examined) (terminalMarkSet StateMissing)"

definition markEndedIfSameLife :: "string \<Rightarrow> RowSnapshot \<Rightarrow> db \<Rightarrow> bool \<times> db" where
  "markEndedIfSameLife i examined =
     guarded i (\<lambda>r. sameLifeLive examined r \<and> endReportedCodex r) (terminalMarkSet StateEnded)"

text \<open>
  The guarded mark and, when it applied, both closes at one instant of the store's clock. The
  caller owns the transaction.
\<close>

definition terminalMarkOnConn :: "store \<Rightarrow> string \<Rightarrow> (db \<Rightarrow> bool \<times> db) \<Rightarrow> string \<Rightarrow> string
     \<Rightarrow> (string \<times> CondResult \<times> closedRequest list) tx" where
  "terminalMarkOnConn s errPrefix stmt i reason d =
     (if sqlFails s (errPrefix @ '': prior state'') then Inl (DriverError (errPrefix @ '': prior state''))
      else (case find_spawn d i of
          None \<Rightarrow> Inr (([], CondAbsent, []), d)
        | Some r \<Rightarrow> tx_bind (tx_exec s errPrefix stmt) (\<lambda>n.
            if \<not> n then tx_return ([], CondChanged, [])
            else (\<lambda>d1. tx_bind (closeOrphanedRequests s i reason (go_now_ms d1)) (\<lambda>closed.
                   tx_bind (closeSubagentsAgentGone s i (go_now_ms d1)) (\<lambda>_.
                     tx_return (s_state r, CondApplied, closed))) d1)) d))"

definition emitOrphanCloseoutTick :: "string \<Rightarrow> string \<Rightarrow> db \<Rightarrow> db" where
  "emitOrphanCloseoutTick i token = emit (''ad.find_missing.tick'',
     [(''instance_id'', TS i), (''request_token'', TS token), (''prior_state'', TNull), (''new_state'', TNull),
      (''reconciliation_reason'', TS ''permission_orphan_closeout''), (''source'', TS ''ad_find_missing'')])"

abbreviation "WriterProcessFindMissing \<equiv> ''find_missing''"

definition emitTerminalCloseout :: "closedRequest list \<Rightarrow> string \<Rightarrow> string \<Rightarrow> db \<Rightarrow> db" where
  "emitTerminalCloseout closed i reason d =
     fold (\<lambda>c d. emitOrphanCloseoutTick i (cl_token c) (emitDeny i reason WriterProcessFindMissing c d)) closed d"

definition terminalMarkIfSameLife :: "store \<Rightarrow> string \<Rightarrow> (db \<Rightarrow> bool \<times> db) \<Rightarrow> string \<Rightarrow> string \<Rightarrow> (string \<times> CondResult) call" where
  "terminalMarkIfSameLife s errPrefix stmt i reason d =
     (if sqlFails s ''connection'' then (Inl (DriverError ''connection''), d)
      else if sqlFails s ''begin'' then (Inl (DriverError ''begin''), d)
      else (case terminalMarkOnConn s errPrefix stmt i reason d of
          Inl e \<Rightarrow> (Inl e, d)
        | Inr ((prior, res, closed), d1) \<Rightarrow>
            if res \<noteq> CondApplied then (Inr ([], res), d)
            else (case refreshFamilies s d1 of
                Inl e \<Rightarrow> (Inl e, d)
              | Inr (_, d2) \<Rightarrow> (case takeDisplayExits s i d2 of
                  Inl e \<Rightarrow> (Inl e, d)
                | Inr (exits, d3) \<Rightarrow>
                    if sqlFails s ''commit'' then (Inl (DriverError ''commit''), d)
                    else (Inr (prior, CondApplied), emitTerminalCloseout closed i reason (emitDisplayTransitions exits d3))))))"

definition MarkMissingIfSameLife :: "store \<Rightarrow> string \<Rightarrow> RowSnapshot \<Rightarrow> (string \<times> CondResult) call" where
  "MarkMissingIfSameLife s i examined =
     terminalMarkIfSameLife s ''store: mark missing if same life'' (markMissingIfSameLife i examined) i DecisionReasonFindMissing"

definition MarkEndedIfSameLife :: "store \<Rightarrow> string \<Rightarrow> RowSnapshot \<Rightarrow> (string \<times> CondResult) call" where
  "MarkEndedIfSameLife s i examined =
     terminalMarkIfSameLife s ''store: mark ended if same life'' (markEndedIfSameLife i examined) i DecisionReasonEnded"

section \<open>Liveness notes\<close>

abbreviation "LivenessNoteUnreported \<equiv> ''unreported''"
abbreviation "LivenessNoteProvenanceConflict \<equiv> ''provenance_conflict''"

definition livenessNoteSet :: "string \<Rightarrow> db \<Rightarrow> spawn_row \<Rightarrow> spawn_row" where
  "livenessNoteSet note d r = rowVersionAdvance (r\<lparr>s_liveness_note := Some note,
     s_liveness_unverified_since := Some (coalesce (s_liveness_unverified_since r) (sql_now_text d))\<rparr>)"

definition unreportedGuard :: "RowSnapshot \<Rightarrow> spawn_row \<Rightarrow> bool" where
  "unreportedGuard examined r \<longleftrightarrow> s_state r = StatePending
     \<and> coalesce (s_liveness_note r) [] \<noteq> LivenessNoteProvenanceConflict \<and> snapshotMatch examined r"

definition NoteUnreportedIfSameLife :: "store \<Rightarrow> string \<Rightarrow> RowSnapshot \<Rightarrow> CondResult call" where
  "NoteUnreportedIfSameLife s i examined =
     condResult s i ''store: note unreported if same life''
       (execGuarded s i ''store: note unreported if same life''
          (guarded i (unreportedGuard examined) (livenessNoteSet LivenessNoteUnreported)))"

definition SetLivenessNoteIfSameLife :: "store \<Rightarrow> string \<Rightarrow> RowSnapshot \<Rightarrow> string \<Rightarrow> CondResult call" where
  "SetLivenessNoteIfSameLife s i examined note =
     condResult s i ''store: set liveness note if same life''
       (execGuarded s i ''store: set liveness note if same life'' (guarded i (sameLifeLive examined) (livenessNoteSet note)))"

definition clearLivenessSet :: "spawn_row \<Rightarrow> spawn_row" where
  "clearLivenessSet r = rowVersionAdvance (r\<lparr>s_liveness_unverified_since := None, s_liveness_note := None\<rparr>)"

definition ClearLivenessIfSameLife :: "store \<Rightarrow> string \<Rightarrow> RowSnapshot \<Rightarrow> CondResult call" where
  "ClearLivenessIfSameLife s i examined =
     condResult s i ''store: clear liveness if same life''
       (execGuarded s i ''store: clear liveness if same life'' (guarded i (sameLifeLive examined) (\<lambda>_. clearLivenessSet)))"

text \<open>
  The adoption returns the snapshot after the write: the examined one with its version advanced.
  \<open>zeroSnapshot\<close> is Go's zero value.
\<close>

definition zeroSnapshot :: RowSnapshot where
  "zeroSnapshot = \<lparr>rs_RowVersion = 0, rs_StartedAt = [], rs_SessionID = [], rs_PID = 0, rs_ProcStarttime = [],
     rs_TmuxSessionName = []\<rparr>"

definition AdoptIdentityIfSameLife :: "store \<Rightarrow> string \<Rightarrow> RowSnapshot \<Rightarrow> LaunchIdentity \<Rightarrow> (CondResult \<times> RowSnapshot) call" where
  "AdoptIdentityIfSameLife s i examined x =
     call_bind (execGuarded s i ''store: adopt identity if same life'' (guarded i (sameLifeLive examined) (\<lambda>_. adoptIdentitySet x)))
       (\<lambda>applied. if applied then call_return (CondApplied, examined\<lparr>rs_RowVersion := rs_RowVersion examined + 1\<rparr>)
          else call_bind (condNotApplied s i ''store: adopt identity if same life'') (\<lambda>res. call_return (res, zeroSnapshot)))"

section \<open>The repair of a stale check_permission row\<close>

definition repairNewState :: "spawn_row \<Rightarrow> string" where
  "repairNewState r = (if s_idle_since r \<noteq> None \<and> s_agent r \<noteq> AgentCodex then StateWaiting else StateWorking)"

definition repairSet :: "db \<Rightarrow> spawn_row \<Rightarrow> spawn_row" where
  "repairSet d r = rowVersionAdvance (launchStartClear (r\<lparr>
     s_state := repairNewState r,
     s_permission_epoch := s_permission_epoch r + 1,
     s_display_exit := (case committedDisplayState (s_state r) (s_display_observation r) of
         Some prior \<Rightarrow> Some (Json \<lparr>dt_prior = prior, dt_next = repairNewState r, dt_at_ms = sql_now_ms d\<rparr>)
       | None \<Rightarrow> s_display_exit r),
     s_display_observation := None,
     s_observation_version := s_observation_version r + 1,
     s_settled_state := repairNewState r,
     s_state_changed_ms := sql_now_ms d\<rparr>))"

definition repairGuard :: "RowSnapshot \<Rightarrow> db \<Rightarrow> spawn_row \<Rightarrow> bool" where
  "repairGuard examined d r \<longleftrightarrow> s_state r = StateCheckPermission \<and> s_relay_mode r = ''on''
     \<and> snapshotMatch examined r \<and> noRequestHoldsRow d r"

text \<open>The statement with its RETURNING: the state written, or no row.\<close>

definition repairStmt :: "store \<Rightarrow> string \<Rightarrow> RowSnapshot \<Rightarrow> string tx" where
  "repairStmt s i examined d =
     tx_bind (tx_exec s ''store: repair check_permission if same life'' (\<lambda>d.
         (map repairNewState (filter (\<lambda>r. s_instance_id r = i \<and> repairGuard examined d r) (spawns d)),
          snd (guarded i (repairGuard examined d) repairSet d)))) (\<lambda>written.
       case written of [] \<Rightarrow> (\<lambda>_. Inl errNotApplied) | v # _ \<Rightarrow> tx_return v) d"

definition RepairCheckPermissionIfSameLife :: "store \<Rightarrow> string \<Rightarrow> RowSnapshot \<Rightarrow> (string \<times> CondResult) call" where
  "RepairCheckPermissionIfSameLife s i examined d0 =
     (case inImmediateTx s i (repairStmt s i examined) d0 of
        (Inl errNotApplied, d) \<Rightarrow>
          call_bind (condNotApplied s i ''store: repair check_permission if same life'') (\<lambda>res. call_return ([], res)) d
      | (Inl e, d) \<Rightarrow> (Inl e, d)
      | (Inr v, d) \<Rightarrow> (Inr (v, CondApplied), d))"

section \<open>The conditional writes\<close>

lemma execGuarded_eq: "execGuarded s i what stmt = execFamily s i what stmt"
  by (simp add: fun_eq_iff execGuarded_def)

lemma same_life_version: "sameLifeLive examined r \<Longrightarrow> s_row_version r = rs_RowVersion examined"
  by (auto simp: sameLifeLive_iff lifeSnapshot_def)

lemma same_life_spent: "sameLifeLive examined r \<Longrightarrow> s_row_version q = s_row_version r + 1 \<Longrightarrow> \<not> sameLifeLive examined q"
  by (auto dest!: same_life_version)

lemma endReportedCodex_finish [simp]: "endReportedCodex (finish_row s d j r) = endReportedCodex r"
  by (simp add: endReportedCodex_def finish_row_def Let_def)

lemma sameLifeLive_finish [simp]: "sameLifeLive examined (finish_row s d j r) = sameLifeLive examined r"
  by (simp add: sameLifeLive_def snapshotMatch_def finish_row_def Let_def)

lemma find_missing_sets [simp]:
  "s_instance_id (terminalMarkSet v d r) = s_instance_id r" "s_state (terminalMarkSet v d r) = v"
  "s_row_version (terminalMarkSet v d r) = s_row_version r + 1"
  "s_instance_id (livenessNoteSet n d r) = s_instance_id r" "s_state (livenessNoteSet n d r) = s_state r"
  "s_row_version (livenessNoteSet n d r) = s_row_version r + 1"
  "s_instance_id (clearLivenessSet r) = s_instance_id r" "s_state (clearLivenessSet r) = s_state r"
  "s_row_version (clearLivenessSet r) = s_row_version r + 1"
  "s_instance_id (adoptIdentitySet x r) = s_instance_id r" "s_state (adoptIdentitySet x r) = s_state r"
  "s_row_version (adoptIdentitySet x r) = s_row_version r + 1"
  "s_instance_id (repairSet d r) = s_instance_id r" "s_state (repairSet d r) = repairNewState r"
  "s_row_version (repairSet d r) = s_row_version r + 1"
  by (simp_all add: terminalMarkSet_def livenessNoteSet_def clearLivenessSet_def adoptIdentitySet_def repairSet_def)

interpretation fm_missing: conditional_write "sameLifeLive examined" "terminalMarkSet v"
  by unfold_locales (simp_all add: same_life_spent)

interpretation fm_ended: conditional_write "\<lambda>r. sameLifeLive examined r \<and> endReportedCodex r" "terminalMarkSet v"
  by unfold_locales (simp_all, metis same_life_spent find_missing_sets(3))

interpretation fm_note: conditional_write "sameLifeLive examined" "livenessNoteSet note"
  by unfold_locales (simp_all add: same_life_spent)

interpretation fm_unreported: conditional_write "unreportedGuard examined" "livenessNoteSet note"
  by unfold_locales (auto simp: unreportedGuard_def snapshotMatch_def finish_row_def Let_def)

interpretation fm_clear: conditional_write "sameLifeLive examined" "\<lambda>_. clearLivenessSet"
  by unfold_locales (simp_all add: same_life_spent)

interpretation fm_adopt: conditional_write "sameLifeLive examined" "\<lambda>_. adoptIdentitySet x"
  by unfold_locales (simp_all add: same_life_spent)

interpretation fm_repair: conditional_write "repairGuard examined d0" repairSet
  by unfold_locales (auto simp: repairGuard_def snapshotMatch_def noRequestHoldsRow_def finish_row_def Let_def)

section \<open>The transaction of a mark\<close>

lemma terminal_mark_facts:
  assumes "distinct (map s_instance_id (spawns d))"
    and "terminalMarkOnConn s what (guarded i guard (terminalMarkSet v)) i reason d = Inr ((prior, res, closed), d2)"
  shows "case res of
      CondApplied \<Rightarrow> (\<exists>r. find_spawn d i = Some r \<and> prior = s_state r \<and> guard r \<and> find_spawn d2 i = Some (terminalMarkSet v d r)
          \<and> closed_out i d d2)
    | CondChanged \<Rightarrow> find_spawn d i \<noteq> None
    | CondAbsent \<Rightarrow> find_spawn d i = None"
proof (cases "find_spawn d i")
  case None
  with assms(2) show ?thesis by (auto simp: terminalMarkOnConn_def split: if_splits)
next
  case (Some r)
  note row = update_the_row[OF assms(1) Some, of guard "terminalMarkSet v d"]
  show ?thesis
  proof (cases "guard r")
    case False
    with assms(2) Some row show ?thesis
      by (auto simp: terminalMarkOnConn_def tx_bind_Inr tx_exec_Inr tx_return_def guarded_def split: if_splits)
  next
    case True
    let ?d1 = "d\<lparr>spawns := update_where (\<lambda>q. s_instance_id q = i) (terminalMarkSet v d) (spawns d)\<rparr>"
    from assms(2) Some row True obtain d3 u where "res = CondApplied" "prior = s_state r"
      and c: "closeOrphanedRequests s i reason (go_now_ms ?d1) ?d1 = Inr (closed, d3)"
        "closeSubagentsAgentGone s i (go_now_ms ?d1) d3 = Inr (u, d2)"
      by (auto simp: terminalMarkOnConn_def tx_bind_Inr tx_exec_Inr tx_return_def guarded_def split: if_splits)
    moreover have "closed_out i d d2" "spawns d2 = spawns ?d1"
      using closes_close_out[OF c] by (simp_all add: closed_out_def)
    moreover have "find_spawn d2 i = Some (terminalMarkSet v d r)"
      using calculation(6) Some find_spawn_Some[OF Some] by (simp add: find_spawn_def find_update_where)
    ultimately show ?thesis using Some True by simp
  qed
qed

lemma emitTerminalCloseout_tables [simp]:
  "spawns (emitTerminalCloseout cs i reason d) = spawns d" "find_spawn (emitTerminalCloseout cs i reason d) j = find_spawn d j"
  "closed_out i d0 (emitTerminalCloseout cs j reason d) = closed_out i d0 d"
  by (induction cs arbitrary: d)
    (simp_all add: emitTerminalCloseout_def emitOrphanCloseoutTick_def emitDeny_def emitDecisionCommitted_def closed_out_def)

lemma terminalMark_outcome:
  assumes "distinct (map s_instance_id (spawns d))"
  shows "case terminalMarkIfSameLife s what (guarded i guard (terminalMarkSet v)) i reason d of
      (Inl _, d1) \<Rightarrow> d1 = d
    | (Inr (prior, res), d1) \<Rightarrow>
        (if res = CondApplied
         then \<exists>r r1 d'. find_spawn d i = Some r \<and> prior = s_state r \<and> guard r \<and> find_spawn d1 i = Some r1
            \<and> r1 = finish_row s d' i (terminalMarkSet v d r) \<and> closed_out i d d1
         else d1 = d \<and> prior = [] \<and> (res = CondAbsent \<longleftrightarrow> find_spawn d i = None))"
proof (cases "terminalMarkOnConn s what (guarded i guard (terminalMarkSet v)) i reason d")
  case (Inl e)
  then show ?thesis by (simp add: terminalMarkIfSameLife_def)
next
  case (Inr y)
  obtain prior res closed d2 where y: "y = ((prior, res, closed), d2)" by (metis prod.collapse)
  note facts = terminal_mark_facts[OF assms, of s what i guard v reason prior res closed d2, unfolded Inr y, OF refl]
  show ?thesis
  proof (cases res)
    case CondApplied
    have fin: "find_spawn (finish_tx s i d2) i = map_option (finish_row s d2 i) (find_spawn d2 i)"
      "closed_out i d (finish_tx s i d2) = closed_out i d d2"
      by (simp_all add: closed_out_def)
    from facts CondApplied show ?thesis
      by (auto simp: terminalMarkIfSameLife_def Inr y committed_tx fin split: sum.splits)
  qed (use facts in \<open>auto simp: terminalMarkIfSameLife_def Inr y\<close>)
qed

section \<open>Properties\<close>

text \<open>
  C21. A terminal mark is all or nothing, for any driver failure: when it applies, the row was live,
  still the examined one (and, for ended, a Codex row with an end report), is now terminal, reported
  so at once and stamped with its end, and its requests, subagent entries and launches are closed;
  the prior state is returned. Otherwise nothing is written and absent means no such row.
\<close>

theorem terminal_marks_close_everything:
  assumes "distinct (map s_instance_id (spawns d))"
  shows "(case MarkMissingIfSameLife s i examined d of
      (Inl _, d1) \<Rightarrow> d1 = d
    | (Inr (prior, res), d1) \<Rightarrow>
        (if res = CondApplied
         then \<exists>r r1. find_spawn d i = Some r \<and> prior = s_state r \<and> IsLiveState prior \<and> lifeSnapshot r = examined
            \<and> find_spawn d1 i = Some r1 \<and> s_state r1 = StateMissing \<and> stateExpr x r1 = StateMissing
            \<and> s_ended_at r1 = Some (sql_now_text d) \<and> closed_out i d d1
         else d1 = d \<and> prior = [] \<and> (res = CondAbsent \<longleftrightarrow> find_spawn d i = None)))
   \<and> (case MarkEndedIfSameLife s i examined d of
      (Inl _, d1) \<Rightarrow> d1 = d
    | (Inr (prior, res), d1) \<Rightarrow>
        (if res = CondApplied
         then \<exists>r r1. find_spawn d i = Some r \<and> prior = s_state r \<and> IsLiveState prior \<and> lifeSnapshot r = examined
            \<and> s_agent r = AgentCodex \<and> s_end_reported_at r \<noteq> None
            \<and> find_spawn d1 i = Some r1 \<and> s_state r1 = StateEnded \<and> stateExpr x r1 = StateEnded
            \<and> s_end_reported_at r1 = s_end_reported_at r \<and> closed_out i d d1
         else d1 = d \<and> prior = [] \<and> (res = CondAbsent \<longleftrightarrow> find_spawn d i = None)))"
proof -
  have row: "s_state (finish_row s d' i (terminalMarkSet v d r)) = v" "s_settled_state (finish_row s d' i (terminalMarkSet v d r)) = v"
    "s_ended_at (finish_row s d' i (terminalMarkSet v d r)) = Some (sql_now_text d)"
    "s_end_reported_at (finish_row s d' i (terminalMarkSet v d r)) = s_end_reported_at r" for d' v r
    by (simp_all add: terminalMarkSet_def set_frags finish_row_def Let_def)
  then have ended: "s_ended_at (terminalMarkSet v d r) = Some (sql_now_text d)" for v r
    by (simp add: terminalMarkSet_def set_frags)
  have codex: "endReportedCodex r \<Longrightarrow> s_agent r = AgentCodex" "endReportedCodex r \<Longrightarrow> \<exists>n. s_end_reported_at r = Some n" for r
    by (auto simp: endReportedCodex_def split: option.splits)
  from row have rep: "stateExpr x (finish_row s d' i (terminalMarkSet v d r)) = v" for d' v r
    by (intro stateExpr_settled) simp_all
  show ?thesis
    using terminalMark_outcome[OF assms, where s = s and i = i and guard = "sameLifeLive examined" and v = StateMissing
        and what = "''store: mark missing if same life''" and reason = DecisionReasonFindMissing]
      terminalMark_outcome[OF assms, where s = s and i = i and guard = "\<lambda>r. sameLifeLive examined r \<and> endReportedCodex r"
        and v = StateEnded and what = "''store: mark ended if same life''" and reason = DecisionReasonEnded]
    by (auto simp: MarkMissingIfSameLife_def MarkEndedIfSameLife_def markMissingIfSameLife_def markEndedIfSameLife_def
        sameLifeLive_iff row rep ended codex split: prod.splits sum.splits if_splits)
qed

theorem terminal_marks_close_everything_witness:
  "\<exists>d1. MarkMissingIfSameLife sample_store ''a'' (lifeSnapshot sample_row) sample_db = (Inr (StateCheckPermission, CondApplied), d1)
     \<and> (\<exists>r1. find_spawn d1 ''a'' = Some r1 \<and> s_state r1 = StateMissing) \<and> closed_out ''a'' sample_db d1"
proof -
  have "\<exists>d1. MarkMissingIfSameLife sample_store ''a'' (lifeSnapshot sample_row) sample_db = (Inr (StateCheckPermission, CondApplied), d1)"
    by (simp add: MarkMissingIfSameLife_def markMissingIfSameLife_def terminalMarkIfSameLife_def terminalMarkOnConn_def tx_bind_def tx_exec_def
        tx_return_def guarded_def update_spawns_def find_spawn_def sameLifeLive_def liveStates_def snapshotMatch_def lifeSnapshot_def
        sample_store_def sample_db_def sample_row_def closeOrphanedRequests_def queryClosedRequests_def closeSubagentsAgentGone_def
        refreshFamilies_def takeDisplayExits_def Let_def)
  then obtain d1 where "MarkMissingIfSameLife sample_store ''a'' (lifeSnapshot sample_row) sample_db = (Inr (StateCheckPermission, CondApplied), d1)"
    by blast
  moreover have "distinct (map s_instance_id (spawns sample_db))" by (simp add: sample_db_def sample_row_def)
  from terminal_marks_close_everything[OF this, where s = sample_store and i = "''a''" and examined = "lifeSnapshot sample_row"]
  have "(\<exists>r1. find_spawn d1 ''a'' = Some r1 \<and> s_state r1 = StateMissing) \<and> closed_out ''a'' sample_db d1"
    unfolding calculation by auto
  ultimately show ?thesis by blast
qed

text \<open>
  The adoption hands over the row it wrote: the snapshot it returns is the row's snapshot after
  the write, so the verdict write guarded by it applies, while one guarded by the snapshot examined
  before the adoption is refused and writes nothing.
\<close>

theorem adoption_hands_over_snapshot:
  assumes "quiet s" and "distinct (map s_instance_id (spawns d))" and "find_spawn d i = Some r" and "IsLiveState (s_state r)"
  shows "\<exists>d1 r1 now. AdoptIdentityIfSameLife s i (lifeSnapshot r) x d = (Inr (CondApplied, now), d1)
     \<and> find_spawn d1 i = Some r1 \<and> lifeSnapshot r1 = now \<and> li_PanePID (lifeIdentity r1) = max 0 (li_PanePID x)
     \<and> (\<exists>d2 r2. SetLivenessNoteIfSameLife s i now note d1 = (Inr CondApplied, d2) \<and> find_spawn d2 i = Some r2
           \<and> s_liveness_note r2 = Some note \<and> s_state r2 = s_state r)
     \<and> SetLivenessNoteIfSameLife s i (lifeSnapshot r) note d1 = (Inr CondChanged, d1)"
proof -
  let ?e = "lifeSnapshot r"
  let ?d1 = "applied_db s i (adoptIdentitySet x) d"
  have g: "sameLifeLive ?e r" using assms(4) by (simp add: sameLifeLive_iff)
  have stmt: "guarded i (sameLifeLive ?e) (\<lambda>_. adoptIdentitySet x) d
      = (True, d\<lparr>spawns := update_where (\<lambda>q. s_instance_id q = i) (adoptIdentitySet x) (spawns d)\<rparr>)"
    using fm_adopt.guarded_the_row[OF assms(2,3), of ?e x] g by simp
  have app: "AdoptIdentityIfSameLife s i ?e x d = (Inr (CondApplied, ?e\<lparr>rs_RowVersion := rs_RowVersion ?e + 1\<rparr>), ?d1)"
    using assms(1) stmt
    by (simp add: AdoptIdentityIfSameLife_def execGuarded_eq call_bind_def execFamily_ok call_return_def applied_db_def)
  obtain d' where f1: "find_spawn ?d1 i = Some (finish_row s d' i (adoptIdentitySet x r))"
    using fm_adopt.written_row(2)[OF assms(3)] by blast
  let ?r1 = "finish_row s d' i (adoptIdentitySet x r)"
  have snap: "lifeSnapshot ?r1 = ?e\<lparr>rs_RowVersion := rs_RowVersion ?e + 1\<rparr>"
    and pane: "li_PanePID (lifeIdentity ?r1) = max 0 (li_PanePID x)"
    by (simp_all add: lifeSnapshot_def lifeIdentity_def finish_row_def Let_def adoptIdentitySet_def serverPaneSet_def set_frags positiveIntArg_def)
  have ids: "distinct (map s_instance_id (spawns ?d1))"
    using assms(2) by (simp add: applied_db_def o_def map_update_where_key)
  have live: "sameLifeLive (lifeSnapshot ?r1) ?r1" "\<not> sameLifeLive ?e ?r1"
    using assms(4) snap by (auto simp: sameLifeLive_iff lifeSnapshot_def)
  obtain d'' where f2: "find_spawn (applied_db s i (livenessNoteSet note ?d1) ?d1) i = Some (finish_row s d'' i (livenessNoteSet note ?d1 ?r1))"
    using fm_note.written_row(2)[OF f1] by blast
  have "SetLivenessNoteIfSameLife s i (lifeSnapshot ?r1) note ?d1 = (Inr CondApplied, applied_db s i (livenessNoteSet note ?d1) ?d1)"
    "SetLivenessNoteIfSameLife s i ?e note ?d1 = (Inr CondChanged, ?d1)"
    using fm_note.family_write[OF assms(1) ids f1] live by (simp_all add: SetLivenessNoteIfSameLife_def execGuarded_eq)
  moreover have "s_liveness_note (finish_row s d'' i (livenessNoteSet note ?d1 ?r1)) = Some note"
    "s_state (finish_row s d'' i (livenessNoteSet note ?d1 ?r1)) = s_state r"
    by (simp_all add: livenessNoteSet_def finish_row_def Let_def set_frags adoptIdentitySet_def serverPaneSet_def)
  ultimately show ?thesis using app f1 f2 snap pane by metis
qed

theorem adoption_hands_over_snapshot_witness:
  "\<exists>d1 now. AdoptIdentityIfSameLife sample_store ''a'' (lifeSnapshot sample_row) sample_identity sample_db = (Inr (CondApplied, now), d1)
     \<and> (\<exists>r1. find_spawn d1 ''a'' = Some r1 \<and> lifeSnapshot r1 = now)
     \<and> SetLivenessNoteIfSameLife sample_store ''a'' (lifeSnapshot sample_row) ''hung'' d1 = (Inr CondChanged, d1)"
proof -
  let ?r = "sample_row\<lparr>s_state := StateCheckPermission\<rparr>"
  have f: "distinct (map s_instance_id (spawns sample_db))" "find_spawn sample_db ''a'' = Some ?r" "IsLiveState (s_state ?r)"
    by (simp_all add: sample_db_def sample_row_def find_spawn_def IsLiveState_iff)
  have e: "lifeSnapshot ?r = lifeSnapshot sample_row" by (simp add: lifeSnapshot_def)
  from adoption_hands_over_snapshot[OF quiet_sample f, of sample_identity "''hung''", unfolded e]
  obtain d1 r1 now where "AdoptIdentityIfSameLife sample_store ''a'' (lifeSnapshot sample_row) sample_identity sample_db = (Inr (CondApplied, now), d1)"
    "find_spawn d1 ''a'' = Some r1" "lifeSnapshot r1 = now"
    "SetLivenessNoteIfSameLife sample_store ''a'' (lifeSnapshot sample_row) ''hung'' d1 = (Inr CondChanged, d1)" by blast
  then show ?thesis by blast
qed

text \<open>
  A stale sweep writes nothing: when the row no longer holds the examined snapshot, every
  find-missing write (both marks, the three note writes, the adoption and the repair) answers
  changed and leaves the database as it was.
\<close>

theorem stale_sweep_writes_nothing:
  assumes "quiet s" and "distinct (map s_instance_id (spawns d))" and "find_spawn d i = Some r" and "lifeSnapshot r \<noteq> examined"
  shows "MarkMissingIfSameLife s i examined d = (Inr ([], CondChanged), d)
     \<and> MarkEndedIfSameLife s i examined d = (Inr ([], CondChanged), d)
     \<and> NoteUnreportedIfSameLife s i examined d = (Inr CondChanged, d)
     \<and> SetLivenessNoteIfSameLife s i examined note d = (Inr CondChanged, d)
     \<and> ClearLivenessIfSameLife s i examined d = (Inr CondChanged, d)
     \<and> AdoptIdentityIfSameLife s i examined x d = (Inr (CondChanged, zeroSnapshot), d)
     \<and> RepairCheckPermissionIfSameLife s i examined d = (Inr ([], CondChanged), d)"
proof -
  have g: "\<not> sameLifeLive examined r" "\<not> unreportedGuard examined r" "\<not> repairGuard examined d r" for d
    using assms(4) by (auto simp: sameLifeLive_iff unreportedGuard_def repairGuard_def snapshotMatch_life)
  have miss: "filter (\<lambda>q. s_instance_id q = i \<and> repairGuard examined d q) (spawns d) = []"
    using the_row[OF assms(2,3)] g(3) by (auto simp: filter_empty_conv)
  have "MarkMissingIfSameLife s i examined d = (Inr ([], CondChanged), d)" "MarkEndedIfSameLife s i examined d = (Inr ([], CondChanged), d)"
    using assms(1,3) g(1) fm_missing.guarded_the_row[OF assms(2,3), of examined StateMissing]
      fm_ended.guarded_the_row[OF assms(2,3), of examined StateEnded]
    by (simp_all add: MarkMissingIfSameLife_def MarkEndedIfSameLife_def markMissingIfSameLife_def markEndedIfSameLife_def
        terminalMarkIfSameLife_def terminalMarkOnConn_def tx_bind_def tx_exec_def tx_return_def)
  moreover have "NoteUnreportedIfSameLife s i examined d = (Inr CondChanged, d)"
    "SetLivenessNoteIfSameLife s i examined note d = (Inr CondChanged, d)" "ClearLivenessIfSameLife s i examined d = (Inr CondChanged, d)"
    using g fm_unreported.family_write[OF assms(1-3)] fm_note.family_write[OF assms(1-3)] fm_clear.family_write[OF assms(1-3)]
    by (simp_all add: NoteUnreportedIfSameLife_def SetLivenessNoteIfSameLife_def ClearLivenessIfSameLife_def execGuarded_eq)
  moreover have "AdoptIdentityIfSameLife s i examined x d = (Inr (CondChanged, zeroSnapshot), d)"
    using assms(1,3) g(1) fm_adopt.guarded_the_row[OF assms(2,3), of examined x]
    by (simp add: AdoptIdentityIfSameLife_def execGuarded_eq call_bind_def execFamily_ok condNotApplied_def read_then_def
        existenceRead_def call_return_def)
  moreover have "RepairCheckPermissionIfSameLife s i examined d = (Inr ([], CondChanged), d)"
    using assms(1,3) by (simp add: RepairCheckPermissionIfSameLife_def inImmediateTx_def repairStmt_def tx_bind_def tx_exec_def miss
        call_bind_def condNotApplied_def read_then_def existenceRead_def call_return_def)
  ultimately show ?thesis by blast
qed

theorem stale_sweep_writes_nothing_witness:
  "MarkMissingIfSameLife sample_store ''a'' ((lifeSnapshot sample_row)\<lparr>rs_RowVersion := 5\<rparr>) sample_db = (Inr ([], CondChanged), sample_db)"
  using stale_sweep_writes_nothing[OF quiet_sample, of sample_db "''a''" "sample_row\<lparr>s_state := StateCheckPermission\<rparr>"
      "(lifeSnapshot sample_row)\<lparr>rs_RowVersion := 5\<rparr>"]
  by (simp add: sample_db_def sample_row_def find_spawn_def lifeSnapshot_def)

text \<open>
  The repair moves a stale \<open>check_permission\<close> row exactly when its relay is on, the snapshot is
  the examined one and no request holds it: to waiting when an idle Notification landed on a
  non-Codex row, to working otherwise, reported at once and with one version more; in every other
  case it answers changed and writes nothing.
\<close>

theorem repair_moves_unheld_rows_only:
  assumes "quiet s" and "distinct (map s_instance_id (spawns d))" and "find_spawn d i = Some r"
  shows "if s_state r = StateCheckPermission \<and> s_relay_mode r = ''on'' \<and> lifeSnapshot r = examined \<and> noRequestHoldsRow d r
    then \<exists>d1 r1. RepairCheckPermissionIfSameLife s i examined d
           = (Inr (if s_idle_since r \<noteq> None \<and> s_agent r \<noteq> AgentCodex then StateWaiting else StateWorking, CondApplied), d1)
       \<and> find_spawn d1 i = Some r1 \<and> s_state r1 = repairNewState r \<and> stateExpr x r1 = repairNewState r
       \<and> s_row_version r1 = s_row_version r + 1 \<and> s_idle_since r1 = s_idle_since r \<and> permission_requests d1 = permission_requests d
    else RepairCheckPermissionIfSameLife s i examined d = (Inr ([], CondChanged), d)"
proof (cases "repairGuard examined d r")
  case True
  let ?d1 = "d\<lparr>spawns := update_where (\<lambda>q. s_instance_id q = i) (repairSet d) (spawns d)\<rparr>"
  have hits: "filter (\<lambda>q. s_instance_id q = i \<and> repairGuard examined d q) (spawns d) \<noteq> []"
    using find_spawn_Some[OF assms(3)] True by (auto simp: filter_empty_conv)
  then obtain q qs where q: "filter (\<lambda>q. s_instance_id q = i \<and> repairGuard examined d q) (spawns d) = q # qs"
    by (cases "filter (\<lambda>q. s_instance_id q = i \<and> repairGuard examined d q) (spawns d)") auto
  have "q \<in> set (filter (\<lambda>q. s_instance_id q = i \<and> repairGuard examined d q) (spawns d))" unfolding q by simp
  then have "q = r" using the_row[OF assms(2,3)] by simp
  then have stmt: "repairStmt s i examined d = Inr (repairNewState r, ?d1)"
    using assms(1) fm_repair.guarded_the_row[OF assms(2,3), of examined d] True
    by (simp add: repairStmt_def tx_bind_def tx_exec_def tx_return_def q)
  have run: "RepairCheckPermissionIfSameLife s i examined d = (Inr (repairNewState r, CondApplied), finish_tx s i ?d1)"
    using tx_quiet[OF assms(1), where fn = "repairStmt s i examined", OF stmt] by (simp add: RepairCheckPermissionIfSameLife_def)
  have f1: "find_spawn (finish_tx s i ?d1) i = Some (finish_row s ?d1 i (repairSet d r))"
    using fm_repair.written_row(1)[OF assms(3)] by simp
  have "s_idle_since (repairSet d r) = s_idle_since r" "s_settled_state (repairSet d r) = repairNewState r"
    by (simp_all add: repairSet_def set_frags)
  then have "stateExpr x (finish_row s ?d1 i (repairSet d r)) = repairNewState r" "s_idle_since (finish_row s ?d1 i (repairSet d r)) = s_idle_since r"
    by (auto intro!: stateExpr_settled)
  with True run f1 show ?thesis
    by (auto simp: repairGuard_def snapshotMatch_life repairNewState_def)
next
  case False
  have miss: "filter (\<lambda>q. s_instance_id q = i \<and> repairGuard examined d q) (spawns d) = []"
    using the_row[OF assms(2,3)] False by (auto simp: filter_empty_conv)
  have "RepairCheckPermissionIfSameLife s i examined d = (Inr ([], CondChanged), d)"
    using assms(1,3) by (simp add: RepairCheckPermissionIfSameLife_def inImmediateTx_def repairStmt_def tx_bind_def tx_exec_def miss
        call_bind_def condNotApplied_def read_then_def existenceRead_def call_return_def)
  with False show ?thesis by (simp add: repairGuard_def snapshotMatch_life)
qed

theorem repair_moves_unheld_rows_only_witness:
  "fst (RepairCheckPermissionIfSameLife sample_store ''a'' (lifeSnapshot sample_row) (sample_db\<lparr>permission_requests := []\<rparr>)) = Inr (StateWorking, CondApplied)
   \<and> RepairCheckPermissionIfSameLife sample_store ''a'' (lifeSnapshot sample_row) sample_db = (Inr ([], CondChanged), sample_db)"
proof -
  let ?r = "sample_row\<lparr>s_state := StateCheckPermission\<rparr>"
  have f: "distinct (map s_instance_id (spawns sample_db))" "find_spawn sample_db ''a'' = Some ?r"
    "distinct (map s_instance_id (spawns (sample_db\<lparr>permission_requests := []\<rparr>)))" "find_spawn (sample_db\<lparr>permission_requests := []\<rparr>) ''a'' = Some ?r"
    by (simp_all add: sample_db_def sample_row_def find_spawn_def)
  have h: "s_state ?r = StateCheckPermission" "s_relay_mode ?r = ''on''" "lifeSnapshot ?r = lifeSnapshot sample_row"
    "noRequestHoldsRow (sample_db\<lparr>permission_requests := []\<rparr>) ?r" "\<not> noRequestHoldsRow sample_db ?r" "s_idle_since ?r = None"
    by (simp_all add: sample_row_def lifeSnapshot_def noRequestHoldsRow_def sample_db_def sample_request_def holdsRow_def awaitingAnswer_def)
  show ?thesis
    using repair_moves_unheld_rows_only[OF quiet_sample f(1,2), where examined = "lifeSnapshot sample_row" and x = "settle_read 0 0"]
      repair_moves_unheld_rows_only[OF quiet_sample f(3,4), where examined = "lifeSnapshot sample_row" and x = "settle_read 0 0"]
    by (auto simp: h)
qed

end
