(* ===== verification/Reuse.thy ===== *)
theory Reuse
  imports Find_Missing
begin

text \<open>
  Reuse and removal of a finished row: reuse's pre-check read, its reset to a fresh launch in one
  transaction with the archive of the session, the deletion of the requests and the close of the
  subagent records, and the restore of the old life after a failed launch (reuse.go); expire's
  candidates and guarded delete (expire.go) and the unconditional delete (recovery.go), with the
  schema's cascades.
\<close>

section \<open>The pre-check read\<close>

text \<open>
  A raw life is every column of the row exactly as stored but the key, the version, the launch start
  and the settle, display and pane columns; the model's rows hold stored values, so it is the row
  read, of which the restore uses those columns only. \<open>NoLife\<close> is Go's zero value, which no read
  produces.
\<close>

datatype RawLife = NoLife | LifeOf spawn_row

record ReuseRow =
  rr_Agent :: string
  rr_State :: string
  rr_EndedAtText :: string
  rr_Snapshot :: RowSnapshot
  rr_Identity :: LaunchIdentity
  rr_Life :: RawLife

definition ReadForReuse :: "store \<Rightarrow> string \<Rightarrow> db \<Rightarrow> store_error + ReuseRow option" where
  "ReadForReuse s i d =
     (if sqlFails s ''store: read for reuse'' then Inl (DriverError ''store: read for reuse'')
      else Inr (map_option (\<lambda>r. \<lparr>rr_Agent = s_agent r, rr_State = s_state r, rr_EndedAtText = coalesce (s_ended_at r) [],
             rr_Snapshot = lifeSnapshot r, rr_Identity = lifeIdentity r, rr_Life = LifeOf r\<rparr>) (find_spawn d i)))"

section \<open>The reset\<close>

definition reuseGuard :: "RowSnapshot \<Rightarrow> string \<Rightarrow> spawn_row \<Rightarrow> bool" where
  "reuseGuard examined examinedAgent r \<longleftrightarrow> finishedState r \<and> snapshotMatch examined r \<and> s_agent r = examinedAgent"

text \<open>\<open>startedAt\<close> is \<open>fresh.StartedAt\<close>, a time.\<close>

definition resetForReuseSet :: "Spawn \<Rightarrow> int \<Rightarrow> db \<Rightarrow> spawn_row \<Rightarrow> spawn_row" where
  "resetForReuseSet fresh startedAt d r =
     rowVersionAdvance (launchOwnerSet (sp_LaunchOwner fresh) ((immediateStateSet (sql_now_ms d) StatePending r)\<lparr>
       s_session_id := None, s_jsonl_path := None, s_pid := None, s_proc_starttime := None,
       s_liveness_unverified_since := None, s_liveness_note := None, s_ended_at := None,
       s_started_at := storeTimestamp startedAt, s_last_seen_at := storeTimestamp startedAt,
       s_launch_started_at := positiveInt64Arg (sp_LaunchStartedAtMillis fresh), s_cwd := sp_CWD fresh,
       s_tmux_session_name := sp_TmuxSessionName fresh, s_agent_args := sp_AgentArgs fresh,
       s_relay_mode := sp_RelayMode fresh, s_labels := sp_Labels fresh, s_extra_env := sp_ExtraEnv fresh,
       s_parent_id := nullableStringArg (sp_ParentID fresh), s_no_pre_trust := (if sp_NoPreTrust fresh then 1 else 0),
       s_codex_startup := None, s_claude_capacity := None,
       s_launch_token := nullableStringArg (li_Token (sp_Identity fresh)),
       s_tmux_socket := nullableStringArg (li_Socket (sp_Identity fresh)), s_tmux_server_pid := None,
       s_tmux_server_started := None, s_tmux_server_starttime := None, s_pane_id := None, s_pane_pid := None,
       s_pane_starttime := None, s_agent := sp_Agent fresh, s_end_reported_at := None,
       s_subagent_tracking := subagentTracked (sp_Agent fresh),
       s_idle_screen_timeout_seconds := positiveIntArg (sp_IdleScreenTimeoutSeconds fresh),
       s_life_number := s_life_number r + (if s_agent r = sp_Agent fresh then 0 else 1)\<rparr>))"

definition deleteRequests :: "string \<Rightarrow> db \<Rightarrow> unit \<times> db" where
  "deleteRequests i d = ((), d\<lparr>permission_requests := filter (\<lambda>p. pr_instance_id p \<noteq> i) (permission_requests d)\<rparr>)"

definition archiveForReuse :: "store \<Rightarrow> string \<Rightarrow> spawn_row \<Rightarrow> unit tx" where
  "archiveForReuse s i r d =
     (if coalesce (s_session_id r) [] = [] then Inr ((), d)
      else if sqlFails s ''archive'' then Inl ErrReuseArchive
      else Inr ((), upsertSessionHistoryEntry i (coalesce (s_session_id r) []) (coalesce (s_jsonl_path r) []) (s_life_number r) d))"

text \<open>The row the guards judged is the one the reset writes; a statement that changed another number of rows fails the call.\<close>

definition resetTx :: "store \<Rightarrow> string \<Rightarrow> RowSnapshot \<Rightarrow> string \<Rightarrow> Spawn \<Rightarrow> int \<Rightarrow> (CondResult \<times> string) tx" where
  "resetTx s i examined examinedAgent fresh startedAt d =
     (if sqlFails s ''store: reset for reuse: read'' then Inl (DriverError ''store: reset for reuse: read'')
      else (case find_spawn d i of
          None \<Rightarrow> Inr ((CondAbsent, []), d)
        | Some r \<Rightarrow>
            if \<not> reuseGuard examined examinedAgent r then Inr ((CondChanged, []), d)
            else tx_bind (archiveForReuse s i r) (\<lambda>_.
                 tx_bind (\<lambda>d1. tx_exec s ''store: reset for reuse: reset''
                     (guarded i (reuseGuard examined examinedAgent) (resetForReuseSet fresh startedAt)) d1) (\<lambda>n.
                 if \<not> n then (\<lambda>_. Inl (CheckFailed ''store: reset for reuse: reset changed 0 rows, want 1''))
                 else if \<not> parentStored i (nullableStringArg (sp_ParentID fresh)) d then (\<lambda>_. Inl foreignKeyError)
                 else tx_bind (tx_exec s ''store: reset for reuse: delete permission requests'' (deleteRequests i)) (\<lambda>_.
                      tx_bind (closeSubagentsAgentGone s i (sp_LaunchStartedAtMillis fresh)) (\<lambda>_.
                      tx_return (CondApplied, coalesce (s_session_id r) []))))) d))"

record ResetResult =
  rst_Res :: CondResult
  rst_Archived :: string
  rst_Version :: int

definition ResetForReuse :: "store \<Rightarrow> string \<Rightarrow> RowSnapshot \<Rightarrow> string \<Rightarrow> Spawn \<Rightarrow> int \<Rightarrow> ResetResult call" where
  "ResetForReuse s i examined examinedAgent fresh startedAt d =
     (if \<not> validRowAgent (sp_Agent fresh) then (Inl (ErrRowAgentInvalid (sp_Agent fresh)), d)
      else if sqlFails s ''connection'' then (Inl (DriverError ''connection''), d)
      else if sqlFails s ''begin'' then (Inl (DriverError ''begin''), d)
      else (case resetTx s i examined examinedAgent fresh startedAt d of
          Inl e \<Rightarrow> (Inl e, d)
        | Inr ((res, archived), d1) \<Rightarrow>
            if res \<noteq> CondApplied then (Inr \<lparr>rst_Res = res, rst_Archived = [], rst_Version = 0\<rparr>, d)
            else (case refreshFamilies s d1 of
                Inl e \<Rightarrow> (Inl e, d)
              | Inr (_, d2) \<Rightarrow> (case takeDisplayExits s i d2 of
                  Inl e \<Rightarrow> (Inl e, d)
                | Inr (exits, d3) \<Rightarrow>
                    if sqlFails s ''commit'' then (Inl (DriverError ''commit''), d)
                    else (Inr \<lparr>rst_Res = CondApplied, rst_Archived = archived, rst_Version = rs_RowVersion examined + 1\<rparr>,
                          emitDisplayTransitions exits d3)))))"

section \<open>The restore\<close>

definition restoreReuseSet :: "spawn_row \<Rightarrow> int \<Rightarrow> db \<Rightarrow> spawn_row \<Rightarrow> spawn_row" where
  "restoreReuseSet prior failedAt d r =
     rowVersionAdvance (launchStartClear ((immediateSettleSet (sql_now_ms d) (s_state prior) r)\<lparr>
       s_state := s_state prior, s_life_number := s_life_number prior, s_no_pre_trust := s_no_pre_trust prior,
       s_session_id := s_session_id prior, s_jsonl_path := s_jsonl_path prior, s_pid := s_pid prior,
       s_proc_starttime := s_proc_starttime prior, s_started_at := s_started_at prior,
       s_last_seen_at := s_last_seen_at prior, s_liveness_unverified_since := s_liveness_unverified_since prior,
       s_liveness_note := s_liveness_note prior, s_cwd := s_cwd prior, s_tmux_session_name := s_tmux_session_name prior,
       s_agent_args := s_agent_args prior, s_relay_mode := s_relay_mode prior, s_labels := s_labels prior,
       s_extra_env := s_extra_env prior, s_launch_token := s_launch_token prior, s_tmux_socket := s_tmux_socket prior,
       s_tmux_server_pid := s_tmux_server_pid prior, s_tmux_server_started := s_tmux_server_started prior,
       s_tmux_server_starttime := s_tmux_server_starttime prior, s_pane_id := s_pane_id prior,
       s_pane_pid := s_pane_pid prior, s_pane_starttime := s_pane_starttime prior,
       s_launch_owner_pid := s_launch_owner_pid prior, s_launch_owner_starttime := s_launch_owner_starttime prior,
       s_launch_owner_pidns := s_launch_owner_pidns prior, s_agent := s_agent prior,
       s_end_reported_at := s_end_reported_at prior, s_subagent_tracking := s_subagent_tracking prior,
       s_codex_startup := s_codex_startup prior, s_claude_capacity := s_claude_capacity prior,
       s_idle_screen_timeout_seconds := s_idle_screen_timeout_seconds prior,
       s_ended_at := (case s_ended_at prior of None \<Rightarrow> Some (storeTimestamp failedAt) | Some t \<Rightarrow> Some t),
       s_parent_id := (case s_parent_id prior of None \<Rightarrow> None
         | Some p \<Rightarrow> if any_row (\<lambda>q. s_instance_id q = p) (spawns d) then Some p else None)\<rparr>))"

definition RestoreAfterFailedReuse :: "store \<Rightarrow> string \<Rightarrow> int \<Rightarrow> RawLife \<Rightarrow> int \<Rightarrow> CondResult call" where
  "RestoreAfterFailedReuse s i resetVersion prior failedAt = (case prior of
     NoLife \<Rightarrow> (\<lambda>d. (Inl (CheckFailed ''store: restore after failed reuse: prior life was not read by ReadForReuse''), d))
   | LifeOf p \<Rightarrow>
       if s_state p \<noteq> StateEnded \<and> s_state p \<noteq> StateMissing
       then (\<lambda>d. (Inl (CheckFailed ''store: restore after failed reuse: prior state''), d))
       else condResult s i ''store: restore after failed reuse''
         (execGuarded s i ''store: restore after failed reuse'' (guarded i (movedGuard resetVersion) (restoreReuseSet p failedAt))))"

section \<open>Deletes\<close>

text \<open>
  A DELETE on \<open>spawns\<close> with the schema's actions: the requests, history, subagent entries and
  launches of a deleted row go with it (ON DELETE CASCADE), a child's parent link becomes NULL (ON
  DELETE SET NULL), nothing else of any row changes.
\<close>

definition deleteSpawns :: "(spawn_row \<Rightarrow> bool) \<Rightarrow> db \<Rightarrow> bool \<times> db" where
  "deleteSpawns P d =
     (let gone = map s_instance_id (filter P (spawns d));
          kept = filter (\<lambda>r. \<not> P r) (spawns d)
      in (gone \<noteq> [], d\<lparr>
           spawns := update_where (\<lambda>r. case s_parent_id r of None \<Rightarrow> False | Some p \<Rightarrow> p \<in> set gone)
                       (\<lambda>r. r\<lparr>s_parent_id := None\<rparr>) kept,
           permission_requests := filter (\<lambda>p. pr_instance_id p \<notin> set gone) (permission_requests d),
           session_history := filter (\<lambda>h. h_instance_id h \<notin> set gone) (session_history d),
           subagents := filter (\<lambda>a. sa_instance_id a \<notin> set gone) (subagents d),
           subagent_launches := filter (\<lambda>l. sl_instance_id l \<notin> set gone) (subagent_launches d)\<rparr>))"

definition expireGuard :: "RowSnapshot \<Rightarrow> spawn_row \<Rightarrow> bool" where
  "expireGuard examined r \<longleftrightarrow> finishedState r \<and> snapshotMatch examined r"

definition DeleteFinishedIfSameLife :: "store \<Rightarrow> string \<Rightarrow> RowSnapshot \<Rightarrow> CondResult call" where
  "DeleteFinishedIfSameLife s i examined =
     condResult s i ''store: delete finished if same life''
       (execGuarded s i ''store: delete finished if same life''
          (deleteSpawns (\<lambda>r. s_instance_id r = i \<and> expireGuard examined r)))"

definition DeleteSpawn :: "store \<Rightarrow> string \<Rightarrow> unit call" where
  "DeleteSpawn s i =
     call_bind (execFamily s i ''store: delete spawn'' (deleteSpawns (\<lambda>r. s_instance_id r = i)))
       (\<lambda>n. if n then call_return () else (\<lambda>d. (Inl (ErrSpawnNotFound i), d)))"

record ExpireCandidate =
  ec_InstanceID :: string
  ec_Snapshot :: RowSnapshot
  ec_Identity :: LaunchIdentity
  ec_PID :: int
  ec_ProcStarttime :: string
  ec_TmuxSessionName :: string

definition expireCandidate :: "spawn_row \<Rightarrow> ExpireCandidate" where
  "expireCandidate r =
     \<lparr>ec_InstanceID = s_instance_id r, ec_Snapshot = lifeSnapshot r, ec_Identity = lifeIdentity r,
      ec_PID = rs_PID (lifeSnapshot r), ec_ProcStarttime = rs_ProcStarttime (lifeSnapshot r),
      ec_TmuxSessionName = rs_TmuxSessionName (lifeSnapshot r)\<rparr>"

definition ListExpireCandidates :: "store \<Rightarrow> int \<Rightarrow> db \<Rightarrow> store_error + ExpireCandidate list" where
  "ListExpireCandidates s cutoff d =
     (if sqlFails s ''store: list expire candidates'' then Inl (DriverError ''store: list expire candidates'')
      else Inr (map expireCandidate (sort_key s_instance_id (filter (\<lambda>r. finishedState r
             \<and> (case s_ended_at r of None \<Rightarrow> False | Some t \<Rightarrow> t < storeTimestamp cutoff)) (spawns d)))))"

interpretation reuse_reset: conditional_write "reuseGuard examined agent" "resetForReuseSet fresh startedAt"
  by unfold_locales
    (auto simp: reuseGuard_def finishedState_def resetForReuseSet_def snapshotMatch_def finish_row_def Let_def)

interpretation reuse_restore: conditional_write "movedGuard v" "restoreReuseSet prior failedAt"
  by unfold_locales (auto simp: movedGuard_def restoreReuseSet_def immediateSettleSet_def finish_row_def Let_def)

end
