(* ===== verification/Reuse_Laws.thy ===== *)
theory Reuse_Laws
  imports Reuse
begin

text \<open>
  What reuse and expire achieve: the reset's outcome and its restore on a quiet store, and what a
  guarded delete takes with it under any driver failure.
\<close>

section \<open>The reset\<close>

definition archived :: "string \<Rightarrow> spawn_row \<Rightarrow> db \<Rightarrow> bool" where
  "archived i r d \<longleftrightarrow> coalesce (s_session_id r) [] = []
     \<or> (\<exists>h \<in> set (session_history d). h_instance_id h = i \<and> h_session_id h = coalesce (s_session_id r) []
           \<and> h_life_number h = s_life_number r)"

lemma upsert_archives:
  "\<exists>h \<in> set (session_history (upsertSessionHistoryEntry i sid path life d)). h_instance_id h = i \<and> h_session_id h = sid \<and> h_life_number h = life"
proof (cases "any_row (\<lambda>h. h_instance_id h = i \<and> h_session_id h = sid) (session_history d)")
  case True
  then obtain h where h: "h \<in> set (session_history d)" "h_instance_id h = i \<and> h_session_id h = sid" by auto
  show ?thesis
    unfolding upsertSessionHistoryEntry_def Let_def if_P[OF True]
    using h(2) by (simp del: any_row_iff) (rule bexI[OF _ update_where_hit[OF h(1)]], simp_all)
next
  case False
  then show ?thesis unfolding upsertSessionHistoryEntry_def Let_def if_not_P[OF False] by simp
qed

lemma upsert_tables [simp]:
  "spawns (upsertSessionHistoryEntry i sid path life d) = spawns d"
  "permission_requests (upsertSessionHistoryEntry i sid path life d) = permission_requests d"
  "sql_now_ms (upsertSessionHistoryEntry i sid path life d) = sql_now_ms d"
  "find_spawn (upsertSessionHistoryEntry i sid path life d) j = find_spawn d j"
  by (simp_all add: upsertSessionHistoryEntry_def Let_def find_spawn_def)

lemma archiveForReuse_quiet:
  assumes "quiet s"
  shows "\<exists>d1. archiveForReuse s i r d = Inr ((), d1) \<and> archived i r d1 \<and> spawns d1 = spawns d
     \<and> permission_requests d1 = permission_requests d \<and> sql_now_ms d1 = sql_now_ms d"
  using assms by (simp add: archiveForReuse_def archived_def upsert_archives)

lemma resetForReuseSet_cong: "sql_now_ms d1 = sql_now_ms d \<Longrightarrow> resetForReuseSet fresh st d1 = resetForReuseSet fresh st d"
  by (simp add: fun_eq_iff resetForReuseSet_def)

lemma closeSubagents_closed:
  assumes "closeSubagentsAgentGone s i at d = Inr (u, d')"
  shows "list_all (\<lambda>a. sa_instance_id a = i \<longrightarrow> sa_state a \<noteq> SubagentStateRunning) (subagents d')
     \<and> list_all (\<lambda>l. sl_instance_id l \<noteq> i) (subagent_launches d')"
proof -
  note d' = closeSubagentsAgentGone_Inr[OF assms]
  have "\<exists>f. subagents d' = update_where (\<lambda>a. sa_instance_id a = i \<and> sa_state a = SubagentStateRunning) f (subagents d)
       \<and> (\<forall>a. sa_state (f a) = SubagentStateLost)"
    "subagent_launches d' = filter (\<lambda>l. sl_instance_id l \<noteq> i) (subagent_launches d)"
    using d' by auto
  then show ?thesis by (auto simp: list_all_iff update_where_def)
qed

lemma resetTx_quiet:
  assumes "quiet s" and "distinct (map s_instance_id (spawns d))" and "find_spawn d i = Some r" and "reuseGuard examined agent r"
    and "parentStored i (nullableStringArg (sp_ParentID fresh)) d" and "sp_LaunchStartedAtMillis fresh > 0"
  shows "\<exists>d2. resetTx s i examined agent fresh st d = Inr ((CondApplied, coalesce (s_session_id r) []), d2)
     \<and> spawns d2 = update_where (\<lambda>q. s_instance_id q = i) (resetForReuseSet fresh st d) (spawns d)
     \<and> archived i r d2 \<and> list_all (\<lambda>p. pr_instance_id p \<noteq> i) (permission_requests d2)
     \<and> list_all (\<lambda>a. sa_instance_id a = i \<longrightarrow> sa_state a \<noteq> SubagentStateRunning) (subagents d2)
     \<and> list_all (\<lambda>l. sl_instance_id l \<noteq> i) (subagent_launches d2) \<and> sql_now_ms d2 = sql_now_ms d"
proof -
  obtain d1 where d1: "archiveForReuse s i r d = Inr ((), d1)" "archived i r d1" "spawns d1 = spawns d"
      "permission_requests d1 = permission_requests d" "sql_now_ms d1 = sql_now_ms d"
    using archiveForReuse_quiet[OF assms(1)] by blast
  let ?d2 = "d1\<lparr>spawns := update_where (\<lambda>q. s_instance_id q = i) (resetForReuseSet fresh st d) (spawns d)\<rparr>"
  let ?d3 = "snd (deleteRequests i ?d2)"
  have f1: "find_spawn d1 i = Some r" using assms(3) d1(3) by (simp add: find_spawn_def)
  have stmt: "guarded i (reuseGuard examined agent) (resetForReuseSet fresh st) d1 = (True, ?d2)"
    using reuse_reset.guarded_the_row[OF _ f1, of examined agent fresh st] assms(2,4) d1(3)
    by (simp add: resetForReuseSet_cong[OF d1(5)])
  obtain d4 where c: "closeSubagentsAgentGone s i (sp_LaunchStartedAtMillis fresh) ?d3 = Inr ((), d4)"
    using assms(1,6) by (simp add: closeSubagentsAgentGone_def tx_bind_def tx_exec_def)
  note d4 = closeSubagentsAgentGone_Inr[OF c]
  have run: "resetTx s i examined agent fresh st d = Inr ((CondApplied, coalesce (s_session_id r) []), d4)"
    using assms(1,3,4,5) d1(1) stmt c by (simp add: resetTx_def tx_bind_def tx_exec_def tx_return_def deleteRequests_def)
  have "spawns d4 = spawns ?d2" "permission_requests d4 = filter (\<lambda>p. pr_instance_id p \<noteq> i) (permission_requests d)"
    "session_history d4 = session_history d1" "sql_now_ms d4 = sql_now_ms d"
    using d4 d1(4,5) by (auto simp: deleteRequests_def)
  moreover have "list_all (\<lambda>a. sa_instance_id a = i \<longrightarrow> sa_state a \<noteq> SubagentStateRunning) (subagents d4)"
    "list_all (\<lambda>l. sl_instance_id l \<noteq> i) (subagent_launches d4)"
    using closeSubagents_closed[OF c] by simp_all
  moreover have "archived i r d4" using d1(2) calculation(3) by (simp add: archived_def)
  moreover have "list_all (\<lambda>p. pr_instance_id p \<noteq> i) (permission_requests d4)"
    using calculation(2) by (simp add: list_all_iff)
  moreover have "spawns d4 = update_where (\<lambda>q. s_instance_id q = i) (resetForReuseSet fresh st d) (spawns d)"
    using calculation(1) by simp
  ultimately show ?thesis using run by blast
qed

lemma ResetForReuse_quiet:
  assumes "quiet s" and "distinct (map s_instance_id (spawns d))" and "find_spawn d i = Some r" and "reuseGuard examined agent r"
    and "parentStored i (nullableStringArg (sp_ParentID fresh)) d" and "sp_LaunchStartedAtMillis fresh > 0" and "validRowAgent (sp_Agent fresh)"
  shows "\<exists>d1 d'. ResetForReuse s i examined agent fresh st d
       = (Inr \<lparr>rst_Res = CondApplied, rst_Archived = coalesce (s_session_id r) [], rst_Version = s_row_version r + 1\<rparr>, d1)
     \<and> find_spawn d1 i = Some (finish_row s d' i (resetForReuseSet fresh st d r))
     \<and> map s_instance_id (spawns d1) = map s_instance_id (spawns d)
     \<and> archived i r d1 \<and> list_all (\<lambda>p. pr_instance_id p \<noteq> i) (permission_requests d1)
     \<and> list_all (\<lambda>a. sa_instance_id a = i \<longrightarrow> sa_state a \<noteq> SubagentStateRunning) (subagents d1)
     \<and> list_all (\<lambda>l. sl_instance_id l \<noteq> i) (subagent_launches d1) \<and> sql_now_ms d1 = sql_now_ms d"
proof -
  obtain d2 where t: "resetTx s i examined agent fresh st d = Inr ((CondApplied, coalesce (s_session_id r) []), d2)"
    and sp: "spawns d2 = update_where (\<lambda>q. s_instance_id q = i) (resetForReuseSet fresh st d) (spawns d)"
    and rest: "archived i r d2" "list_all (\<lambda>p. pr_instance_id p \<noteq> i) (permission_requests d2)"
      "list_all (\<lambda>a. sa_instance_id a = i \<longrightarrow> sa_state a \<noteq> SubagentStateRunning) (subagents d2)"
      "list_all (\<lambda>l. sl_instance_id l \<noteq> i) (subagent_launches d2)" "sql_now_ms d2 = sql_now_ms d"
    using resetTx_quiet[OF assms(1-6)] by blast
  obtain u d3 where r: "refreshFamilies s d2 = Inr (u, d3)"
    using assms(1) by (auto simp: refreshFamilies_def tx_exec_def Let_def)
  obtain ex d4 where e: "takeDisplayExits s i d3 = Inr (ex, d4)"
    using assms(1) by (auto simp: takeDisplayExits_def tx_exec_def Let_def)
  have v: "rs_RowVersion examined = s_row_version r"
    using assms(4) by (auto simp: reuseGuard_def snapshotMatch_def)
  have run: "ResetForReuse s i examined agent fresh st d
       = (Inr \<lparr>rst_Res = CondApplied, rst_Archived = coalesce (s_session_id r) [], rst_Version = s_row_version r + 1\<rparr>, finish_tx s i d2)"
    using assms(1,7) t r e committed_tx[OF r e] v by (simp add: ResetForReuse_def)
  have f: "find_spawn d2 i = Some (resetForReuseSet fresh st d r)"
    using assms(3) find_spawn_Some[OF assms(3)] by (simp add: find_spawn_def sp find_update_where reuse_reset.upd_key)
  have ids: "map s_instance_id (spawns d2) = map s_instance_id (spawns d)"
    by (simp add: sp map_update_where_key reuse_reset.upd_key)
  show ?thesis
    using run f ids rest by (auto simp: archived_def o_def)
qed

section \<open>Properties\<close>

text \<open>
  C22. Reuse begins a fresh launch: on a quiet store, the reset of a finished row that is still the
  examined one, by a known agent and a stored parent, archives the outgoing session under its own
  life, deletes the row's requests, closes its subagent records and leaves the row pending with what
  the spawn asked for, no identity of the old life and no pane, so no hook of the old agent matches.
  The life number advances exactly when the agent changes. Otherwise nothing is written.
\<close>

theorem reuse_begins_fresh_launch:
  assumes "quiet s" and "distinct (map s_instance_id (spawns d))" and "find_spawn d i = Some r"
    and "parentStored i (nullableStringArg (sp_ParentID fresh)) d" and "sp_LaunchStartedAtMillis fresh > 0"
  shows "if sp_Agent fresh \<notin> {AgentClaude, AgentCodex, AgentCursor}
      then ResetForReuse s i examined agent fresh st d = (Inl (ErrRowAgentInvalid (sp_Agent fresh)), d)
    else if s_state r \<in> {StateEnded, StateMissing} \<and> lifeSnapshot r = examined \<and> s_agent r = agent
      then \<exists>d1 r1. ResetForReuse s i examined agent fresh st d
             = (Inr \<lparr>rst_Res = CondApplied, rst_Archived = coalesce (s_session_id r) [], rst_Version = s_row_version r + 1\<rparr>, d1)
         \<and> find_spawn d1 i = Some r1 \<and> s_state r1 = StatePending \<and> s_session_id r1 = None \<and> s_pid r1 = None
         \<and> s_agent r1 = sp_Agent fresh \<and> s_cwd r1 = sp_CWD fresh \<and> s_started_at r1 = storeTimestamp st
         \<and> s_life_number r1 = s_life_number r + (if s_agent r = sp_Agent fresh then 0 else 1)
         \<and> \<not> hookGate d1 g r1 \<and> archived i r d1
         \<and> list_all (\<lambda>p. pr_instance_id p \<noteq> i) (permission_requests d1)
         \<and> list_all (\<lambda>a. sa_instance_id a = i \<longrightarrow> sa_state a \<noteq> SubagentStateRunning) (subagents d1)
         \<and> list_all (\<lambda>l. sl_instance_id l \<noteq> i) (subagent_launches d1)
    else ResetForReuse s i examined agent fresh st d = (Inr \<lparr>rst_Res = CondChanged, rst_Archived = [], rst_Version = 0\<rparr>, d)"
proof (cases "validRowAgent (sp_Agent fresh)")
  case False
  then show ?thesis by (auto simp: ResetForReuse_def validRowAgent_def)
next
  case valid: True
  have g: "reuseGuard examined agent r \<longleftrightarrow> s_state r \<in> {StateEnded, StateMissing} \<and> lifeSnapshot r = examined \<and> s_agent r = agent"
    by (auto simp: reuseGuard_def finishedState_def snapshotMatch_life)
  show ?thesis
  proof (cases "reuseGuard examined agent r")
    case True
    obtain d1 d' where run: "ResetForReuse s i examined agent fresh st d
             = (Inr \<lparr>rst_Res = CondApplied, rst_Archived = coalesce (s_session_id r) [], rst_Version = s_row_version r + 1\<rparr>, d1)"
      and f: "find_spawn d1 i = Some (finish_row s d' i (resetForReuseSet fresh st d r))"
      and rest: "archived i r d1" "list_all (\<lambda>p. pr_instance_id p \<noteq> i) (permission_requests d1)"
        "list_all (\<lambda>a. sa_instance_id a = i \<longrightarrow> sa_state a \<noteq> SubagentStateRunning) (subagents d1)"
        "list_all (\<lambda>l. sl_instance_id l \<noteq> i) (subagent_launches d1)"
      using ResetForReuse_quiet[OF assms(1-3) True assms(4,5) valid] by blast
    let ?r1 = "finish_row s d' i (resetForReuseSet fresh st d r)"
    have "s_state ?r1 = StatePending \<and> s_session_id ?r1 = None \<and> s_pid ?r1 = None \<and> s_agent ?r1 = sp_Agent fresh
        \<and> s_cwd ?r1 = sp_CWD fresh \<and> s_started_at ?r1 = storeTimestamp st
        \<and> s_life_number ?r1 = s_life_number r + (if s_agent r = sp_Agent fresh then 0 else 1) \<and> \<not> hookGate d1 g ?r1"
      by (simp add: resetForReuseSet_def finish_row_def Let_def set_frags hookGate_iff)
    with run f rest True g valid show ?thesis by (auto simp: validRowAgent_def)
  next
    case False
    then have "resetTx s i examined agent fresh st d = Inr ((CondChanged, []), d)"
      using assms(1,3) by (simp add: resetTx_def)
    with False g valid assms(1) show ?thesis by (auto simp: ResetForReuse_def validRowAgent_def)
  qed
qed

definition reuse_restored :: "db \<Rightarrow> int \<Rightarrow> spawn_row \<Rightarrow> spawn_row \<Rightarrow> spawn_row" where
  "reuse_restored d failedAt r r2 = r\<lparr>s_row_version := s_row_version r + 2, s_launch_started_at := None,
     s_ended_at := (case s_ended_at r of None \<Rightarrow> Some (storeTimestamp failedAt) | Some t \<Rightarrow> Some t),
     s_parent_id := (case s_parent_id r of None \<Rightarrow> None | Some p \<Rightarrow> if find_spawn d p \<noteq> None then Some p else None),
     s_permission_epoch := s_permission_epoch r + 2, s_observation_version := s_observation_version r + 2,
     s_display_observation := None, s_display_exit := None, s_settled_state := s_state r, s_state_changed_ms := sql_now_ms d,
     s_family_state := s_family_state r2, s_family_settled_state := s_family_settled_state r2,
     s_family_changed_ms := s_family_changed_ms r2\<rparr>"

text \<open>What the reset keeps of the old row besides the columns the restore writes back.\<close>

definition reset_keeps :: "spawn_row \<Rightarrow> spawn_row \<Rightarrow> bool" where
  "reset_keeps r q \<longleftrightarrow> s_instance_id q = s_instance_id r \<and> s_state q = StatePending \<and> s_row_version q = s_row_version r + 1
     \<and> s_permission_epoch q = s_permission_epoch r + 1 \<and> s_observation_version q = s_observation_version r + 1
     \<and> s_display_observation q = None \<and> s_idle_since q = s_idle_since r \<and> s_pane_sha256 q = s_pane_sha256 r
     \<and> s_pane_since_ms q = s_pane_since_ms r \<and> s_pane_epoch q = s_pane_epoch r \<and> s_codex_turn q = s_codex_turn r
     \<and> s_codex_turn_ended q = s_codex_turn_ended r"

lemma reset_keeps_reset:
  "finishedState r \<Longrightarrow> reset_keeps r (finish_row s d' i (resetForReuseSet fresh st d r))"
  by (auto simp: reset_keeps_def resetForReuseSet_def finish_row_def Let_def set_frags finishedState_def)

lemma restoreReuseSet_reset:
  assumes "reset_keeps r q" and "finishedState r" and "s_instance_id r = i"
    and "map s_instance_id (spawns d1) = map s_instance_id (spawns d)" and "sql_now_ms d1 = sql_now_ms d"
  shows "finish_row s2 d2 i (restoreReuseSet r failedAt d1 q)
    = reuse_restored d failedAt r (finish_row s2 d2 i (restoreReuseSet r failedAt d1 q))"
proof -
  have "s_instance_id ` set (spawns d1) = s_instance_id ` set (spawns d)"
    using assms(4) by (metis list.set_map)
  moreover have "(\<exists>q \<in> set (spawns d1). s_instance_id q = p) \<longleftrightarrow> p \<in> s_instance_id ` set (spawns d1)" for p
    by auto
  ultimately have ex: "(\<exists>q \<in> set (spawns d1). s_instance_id q = p) \<longleftrightarrow> find_spawn d p \<noteq> None" for p
    unfolding find_spawn_def find_key_None by simp
  have par: "(case s_parent_id r of None \<Rightarrow> None | Some p \<Rightarrow> if any_row (\<lambda>q. s_instance_id q = p) (spawns d1) then Some p else None)
      = (case s_parent_id r of None \<Rightarrow> None | Some p \<Rightarrow> if find_spawn d p \<noteq> None then Some p else None)"
    by (cases "s_parent_id r") (simp_all add: ex)
  have fin: "s_state r \<noteq> StatePending"
    using assms(2) by (auto simp: finishedState_def)
  define a where "a = restoreReuseSet r failedAt d1 q"
  define b where "b = finish_row s2 d2 i a"
  have "b = reuse_restored d failedAt r b"
  proof (rule spawn_row.equality)
  qed (use assms(1)[unfolded reset_keeps_def] fin assms(3,5) in \<open>simp_all add: reuse_restored_def b_def finish_row_def Let_def, simp_all add: a_def restoreReuseSet_def set_frags par\<close>)
  then show ?thesis by (simp add: b_def a_def)
qed

text \<open>
  C20. A failed reuse is undone: after the reset and its restore with the life the pre-check read, the
  row is as it was but for its version, launch start, settle, display and family columns, an end time
  where it had none and a parent that is gone. The deleted requests stay deleted and the archived
  session stays archived.
\<close>

theorem failed_reuse_restores_life:
  assumes "quiet s" and "distinct (map s_instance_id (spawns d))" and "find_spawn d i = Some r" and "finishedState r"
    and "parentStored i (nullableStringArg (sp_ParentID fresh)) d" and "sp_LaunchStartedAtMillis fresh > 0" and "validRowAgent (sp_Agent fresh)"
  shows "\<exists>row d1 d2 r2. ReadForReuse s i d = Inr (Some row)
     \<and> ResetForReuse s i (rr_Snapshot row) (rr_Agent row) fresh st d
        = (Inr \<lparr>rst_Res = CondApplied, rst_Archived = coalesce (s_session_id r) [], rst_Version = s_row_version r + 1\<rparr>, d1)
     \<and> RestoreAfterFailedReuse s i (s_row_version r + 1) (rr_Life row) failedAt d1 = (Inr CondApplied, d2)
     \<and> find_spawn d2 i = Some r2 \<and> r2 = reuse_restored d failedAt r r2
     \<and> archived i r d2 \<and> list_all (\<lambda>p. pr_instance_id p \<noteq> i) (permission_requests d2)"
proof -
  let ?n = "resetForReuseSet fresh st d r"
  have g: "reuseGuard (lifeSnapshot r) (s_agent r) r" using assms(4) by (simp add: reuseGuard_def)
  obtain d1 d' where run: "ResetForReuse s i (lifeSnapshot r) (s_agent r) fresh st d
        = (Inr \<lparr>rst_Res = CondApplied, rst_Archived = coalesce (s_session_id r) [], rst_Version = s_row_version r + 1\<rparr>, d1)"
    and f1: "find_spawn d1 i = Some (finish_row s d' i ?n)" and ids: "map s_instance_id (spawns d1) = map s_instance_id (spawns d)"
    and rest: "archived i r d1" "list_all (\<lambda>p. pr_instance_id p \<noteq> i) (permission_requests d1)" and now: "sql_now_ms d1 = sql_now_ms d"
    using ResetForReuse_quiet[OF assms(1-3) g assms(5-7)] by blast
  let ?d2 = "applied_db s i (restoreReuseSet r failedAt d1) d1"
  have st: "\<not> (s_state r \<noteq> StateEnded \<and> s_state r \<noteq> StateMissing)" using assms(4) by (simp add: finishedState_def)
  have "movedGuard (s_row_version r + 1) (finish_row s d' i ?n)"
    by (simp add: movedGuard_def reuse_reset.upd_version) (simp add: resetForReuseSet_def)
  then have restore: "RestoreAfterFailedReuse s i (s_row_version r + 1) (LifeOf r) failedAt d1 = (Inr CondApplied, ?d2)"
    using reuse_restore.family_write[OF assms(1) _ f1] st assms(2) ids by (simp add: RestoreAfterFailedReuse_def execGuarded_eq)
  obtain d3 where f2: "find_spawn ?d2 i = Some (finish_row s d3 i (restoreReuseSet r failedAt d1 (finish_row s d' i ?n)))"
    using reuse_restore.written_row(2)[OF f1] by blast
  have "s_instance_id r = i" using find_spawn_Some[OF assms(3)] by simp
  note row = restoreReuseSet_reset[OF reset_keeps_reset[OF assms(4)] assms(4) this ids now]
  have kept: "archived i r ?d2" "list_all (\<lambda>p. pr_instance_id p \<noteq> i) (permission_requests ?d2)"
    using rest by (simp_all add: archived_def applied_db_def)
  let ?row = "\<lparr>rr_Agent = s_agent r, rr_State = s_state r, rr_EndedAtText = coalesce (s_ended_at r) [],
             rr_Snapshot = lifeSnapshot r, rr_Identity = lifeIdentity r, rr_Life = LifeOf r\<rparr>"
  have read: "ReadForReuse s i d = Inr (Some ?row)"
    using assms(1,3) by (simp add: ReadForReuse_def)
  have run': "ResetForReuse s i (rr_Snapshot ?row) (rr_Agent ?row) fresh st d
        = (Inr \<lparr>rst_Res = CondApplied, rst_Archived = coalesce (s_session_id r) [], rst_Version = s_row_version r + 1\<rparr>, d1)"
    and restore': "RestoreAfterFailedReuse s i (s_row_version r + 1) (rr_Life ?row) failedAt d1 = (Inr CondApplied, ?d2)"
    using run restore by simp_all
  show ?thesis
    using read run' restore' f2 row kept by blast
qed

definition sample_fresh :: Spawn where
  "sample_fresh = (scanSpawn sample_row)\<lparr>sp_Agent := AgentCodex, sp_CWD := ''/w'', sp_LaunchStartedAtMillis := 9000\<rparr>"

lemma sample_ended_facts:
  "distinct (map s_instance_id (spawns sample_ended))" "find_spawn sample_ended ''a'' = Some (hd (spawns sample_ended))"
  "finishedState (hd (spawns sample_ended))" "parentStored ''a'' (nullableStringArg (sp_ParentID sample_fresh)) sample_ended"
  "sp_LaunchStartedAtMillis sample_fresh > 0" "validRowAgent (sp_Agent sample_fresh)"
  by (simp_all add: sample_ended_def sample_row_def find_spawn_def finishedState_def sample_fresh_def scanSpawn_def parentStored_def
      nullableStringArg_def validRowAgent_def)

theorem reuse_begins_fresh_launch_witness:
  "\<exists>d1 r1. ResetForReuse sample_store ''a'' (lifeSnapshot (hd (spawns sample_ended))) AgentClaude sample_fresh 9000 sample_ended
      = (Inr \<lparr>rst_Res = CondApplied, rst_Archived = [], rst_Version = 1\<rparr>, d1)
    \<and> find_spawn d1 ''a'' = Some r1 \<and> s_life_number r1 = 2 \<and> list_all (\<lambda>p. pr_instance_id p \<noteq> ''a'') (permission_requests d1)"
proof -
  have "s_state (hd (spawns sample_ended)) = StateEnded" "s_agent (hd (spawns sample_ended)) = AgentClaude"
    "sp_Agent sample_fresh = AgentCodex" "s_session_id (hd (spawns sample_ended)) = None" "s_row_version (hd (spawns sample_ended)) = 0"
    "s_life_number (hd (spawns sample_ended)) = 1"
    by (simp_all add: sample_ended_def sample_row_def sample_fresh_def)
  note h = this
  from reuse_begins_fresh_launch[OF quiet_sample sample_ended_facts(1,2,4,5), where examined = "lifeSnapshot (hd (spawns sample_ended))"
      and agent = AgentClaude and st = 9000 and g = sample_gate]
  obtain d1 r1 where run: "ResetForReuse sample_store ''a'' (lifeSnapshot (hd (spawns sample_ended))) AgentClaude sample_fresh 9000 sample_ended
      = (Inr \<lparr>rst_Res = CondApplied, rst_Archived = [], rst_Version = 1\<rparr>, d1)"
    "find_spawn d1 ''a'' = Some r1" "s_life_number r1 = 2" "list_all (\<lambda>p. pr_instance_id p \<noteq> ''a'') (permission_requests d1)"
    by (auto simp: h)
  then show ?thesis by blast
qed

theorem failed_reuse_restores_life_witness:
  "\<exists>row d1 d2 r2. ReadForReuse sample_store ''a'' sample_ended = Inr (Some row)
     \<and> ResetForReuse sample_store ''a'' (rr_Snapshot row) (rr_Agent row) sample_fresh 9000 sample_ended
        = (Inr \<lparr>rst_Res = CondApplied, rst_Archived = [], rst_Version = 1\<rparr>, d1)
     \<and> RestoreAfterFailedReuse sample_store ''a'' 1 (rr_Life row) 9000 d1 = (Inr CondApplied, d2)
     \<and> find_spawn d2 ''a'' = Some r2 \<and> s_state r2 = StateEnded \<and> s_agent r2 = AgentClaude"
proof -
  have h: "s_session_id (hd (spawns sample_ended)) = None" "s_row_version (hd (spawns sample_ended)) = 0"
    "s_state (hd (spawns sample_ended)) = StateEnded" "s_agent (hd (spawns sample_ended)) = AgentClaude"
    by (simp_all add: sample_ended_def sample_row_def)
  from failed_reuse_restores_life[OF quiet_sample sample_ended_facts, of 9000 9000]
  obtain row d1 d2 r2 where *: "ReadForReuse sample_store ''a'' sample_ended = Inr (Some row)"
    "ResetForReuse sample_store ''a'' (rr_Snapshot row) (rr_Agent row) sample_fresh 9000 sample_ended
        = (Inr \<lparr>rst_Res = CondApplied, rst_Archived = [], rst_Version = 1\<rparr>, d1)"
    "RestoreAfterFailedReuse sample_store ''a'' 1 (rr_Life row) 9000 d1 = (Inr CondApplied, d2)"
    "find_spawn d2 ''a'' = Some r2" "r2 = reuse_restored sample_ended 9000 (hd (spawns sample_ended)) r2"
    by (auto simp: h)
  have "s_state r2 = StateEnded" "s_agent r2 = AgentClaude"
    using arg_cong[OF *(5), of s_state] arg_cong[OF *(5), of s_agent] by (simp_all add: reuse_restored_def h)
  with * show ?thesis by blast
qed

lemma deleteSpawns_the_row:
  assumes "distinct (map s_instance_id (spawns d))" and "find_spawn d i = Some r"
  shows "deleteSpawns (\<lambda>q. s_instance_id q = i \<and> P q) d = (if P r then (True, snd (deleteSpawns (\<lambda>q. s_instance_id q = i) d)) else (False, d))"
proof -
  have eq: "s_instance_id q = i \<and> P q \<longleftrightarrow> s_instance_id q = i \<and> P r" if "q \<in> set (spawns d)" for q
    using the_row[OF assms that] by auto
  then have f: "filter (\<lambda>q. s_instance_id q = i \<and> P q) (spawns d) = filter (\<lambda>q. s_instance_id q = i \<and> P r) (spawns d)"
    "filter (\<lambda>q. \<not> (s_instance_id q = i \<and> P q)) (spawns d) = filter (\<lambda>q. \<not> (s_instance_id q = i \<and> P r)) (spawns d)"
    by (auto intro: filter_cong)
  have hit: "filter (\<lambda>q. s_instance_id q = i) (spawns d) \<noteq> []"
    using find_spawn_Some[OF assms(2)] by (auto simp: filter_empty_conv)
  have none: "update_where (\<lambda>r. case s_parent_id r of None \<Rightarrow> False
      | Some p \<Rightarrow> p \<in> set (map s_instance_id (filter (\<lambda>q. False) (spawns d)))) f rs = rs" for f rs
    by (auto simp: update_where_def map_idI split: option.splits)
  show ?thesis
  proof (cases "P r")
    case True
    then have same: "(\<lambda>q. s_instance_id q = i \<and> P r) = (\<lambda>q. s_instance_id q = i)" by simp
    show ?thesis unfolding deleteSpawns_def Let_def f same using hit True by simp
  next
    case False
    then have same: "(\<lambda>q. s_instance_id q = i \<and> P r) = (\<lambda>q. False)" by simp
    show ?thesis unfolding deleteSpawns_def Let_def f same none using False by simp
  qed
qed

definition row_gone :: "string \<Rightarrow> db \<Rightarrow> db \<Rightarrow> bool" where
  "row_gone i d d1 \<longleftrightarrow> find_spawn d1 i = None \<and> list_all (\<lambda>q. s_parent_id q \<noteq> Some i) (spawns d1)
     \<and> map (\<lambda>q. (s_instance_id q, s_state q, s_row_version q)) (spawns d1)
        = map (\<lambda>q. (s_instance_id q, s_state q, s_row_version q)) (filter (\<lambda>q. s_instance_id q \<noteq> i) (spawns d))
     \<and> permission_requests d1 = filter (\<lambda>p. pr_instance_id p \<noteq> i) (permission_requests d)
     \<and> session_history d1 = filter (\<lambda>h. h_instance_id h \<noteq> i) (session_history d)
     \<and> subagents d1 = filter (\<lambda>a. sa_instance_id a \<noteq> i) (subagents d)
     \<and> subagent_launches d1 = filter (\<lambda>l. sl_instance_id l \<noteq> i) (subagent_launches d)"

lemma deleteSpawns_row_gone:
  assumes "find_spawn d i = Some r"
  shows "fst (deleteSpawns (\<lambda>q. s_instance_id q = i) d)" "row_gone i d (finish_tx s i (snd (deleteSpawns (\<lambda>q. s_instance_id q = i) d)))"
proof -
  have hit: "filter (\<lambda>q. s_instance_id q = i) (spawns d) \<noteq> []"
    using find_spawn_Some[OF assms] by (auto simp: filter_empty_conv)
  then have gone: "set (map s_instance_id (filter (\<lambda>q. s_instance_id q = i) (spawns d))) = {i}"
    by (auto simp: filter_empty_conv)
  show "fst (deleteSpawns (\<lambda>q. s_instance_id q = i) d)" using hit by (simp add: deleteSpawns_def)
  let ?kept = "update_where (\<lambda>r. case s_parent_id r of None \<Rightarrow> False | Some p \<Rightarrow> p \<in> {i}) (\<lambda>r. r\<lparr>s_parent_id := None\<rparr>)
      (filter (\<lambda>r. s_instance_id r \<noteq> i) (spawns d))"
  have "find (\<lambda>r. s_instance_id r = i) ?kept = None"
    by (simp add: find_update_where find_None_iff)
  moreover have "list_all (\<lambda>q. s_parent_id q \<noteq> Some i) ?kept"
    by (auto simp: list_all_iff set_update_where split: option.splits)
  moreover have "map (\<lambda>q. (s_instance_id q, s_state q, s_row_version q)) ?kept
      = map (\<lambda>q. (s_instance_id q, s_state q, s_row_version q)) (filter (\<lambda>q. s_instance_id q \<noteq> i) (spawns d))"
    by (rule map_update_where_key) simp
  ultimately show "row_gone i d (finish_tx s i (snd (deleteSpawns (\<lambda>q. s_instance_id q = i) d)))"
    unfolding row_gone_def deleteSpawns_def Let_def gone
    by (simp add: find_spawn_def find_map_key o_def list_all_iff)
qed

text \<open>
  C23. Expire deletes only what it examined, and whole: the guarded delete applies exactly to a finished
  row that still holds the examined snapshot; then the row, its requests, its history and its subagent
  records are gone, its children have no parent, and every other row and record keeps its own columns.
  Otherwise nothing is deleted. The unconditional delete does the same to a row in any state.
\<close>

theorem expire_deletes_examined_row_whole:
  assumes "quiet s" and "distinct (map s_instance_id (spawns d))" and "find_spawn d i = Some r"
  shows "(if s_state r \<in> {StateEnded, StateMissing} \<and> lifeSnapshot r = examined
      then \<exists>d1. DeleteFinishedIfSameLife s i examined d = (Inr CondApplied, d1) \<and> row_gone i d d1
      else DeleteFinishedIfSameLife s i examined d = (Inr CondChanged, d))
    \<and> (\<exists>d1. DeleteSpawn s i d = (Inr (), d1) \<and> row_gone i d d1)"
proof -
  let ?del = "deleteSpawns (\<lambda>q. s_instance_id q = i) d"
  note gone = deleteSpawns_row_gone[OF assms(3)]
  have g: "expireGuard examined r \<longleftrightarrow> s_state r \<in> {StateEnded, StateMissing} \<and> lifeSnapshot r = examined"
    by (auto simp: expireGuard_def finishedState_def snapshotMatch_life)
  have "DeleteSpawn s i d = (Inr (), finish_tx s i (snd ?del))"
    using assms(1) gone(1) by (simp add: DeleteSpawn_def call_bind_def execFamily_ok call_return_def)
  moreover have "DeleteFinishedIfSameLife s i examined d
      = (if expireGuard examined r then (Inr CondApplied, finish_tx s i (snd ?del)) else (Inr CondChanged, d))"
    using assms(1,3) deleteSpawns_the_row[OF assms(2,3), of "expireGuard examined"]
    by (simp add: DeleteFinishedIfSameLife_def condResult_def call_bind_def execGuarded_eq execFamily_ok call_return_def condNotApplied_def
        read_then_def existenceRead_def)
  ultimately show ?thesis using gone(2) g by auto
qed

theorem expire_deletes_examined_row_whole_witness:
  "\<exists>d1. DeleteFinishedIfSameLife sample_store ''a'' (lifeSnapshot (hd (spawns sample_ended))) sample_ended = (Inr CondApplied, d1)
     \<and> row_gone ''a'' sample_ended d1"
proof -
  have "s_state (hd (spawns sample_ended)) = StateEnded" by (simp add: sample_ended_def)
  with expire_deletes_examined_row_whole[OF quiet_sample sample_ended_facts(1,2), of "lifeSnapshot (hd (spawns sample_ended))"]
  show ?thesis by auto
qed

end
