(* ===== verification/Life_Cycle.thy ===== *)
theory Life_Cycle
  imports Reuse_Laws
begin

text \<open>
  The invariants the launch, find-missing, reuse and delete writes keep. \<open>life_invariant\<close> extends
  the interface of the hook writes with what a new row, a deleted row and deleted requests may do;
  the lemmas inside it follow from the states the statements write. It is interpreted on the
  hold invariant and on the table's well-formedness here, and on the guarantee of final verdicts
  with the request writes.
\<close>

locale life_invariant = hook_invariant +
  assumes J_insert: "J d \<Longrightarrow> s_instance_id r \<notin> s_instance_id ` set (spawns d) \<Longrightarrow> s_state r = StatePending
      \<Longrightarrow> J (d\<lparr>spawns := spawns d @ [r]\<rparr>)"
    and J_drop_rows: "J d \<Longrightarrow> J (d\<lparr>spawns := filter P (spawns d)\<rparr>)"
    and J_drop_subagents: "J d \<Longrightarrow> J (d\<lparr>subagents := filter R (subagents d)\<rparr>)"
    and J_drop_requests: "J d \<Longrightarrow> J (d\<lparr>permission_requests := filter Q (permission_requests d)\<rparr>)"
begin

lemma keeps_execFamilyTx:
  assumes "\<And>d n d1. J d \<Longrightarrow> stmt d = Inr (n, d1) \<Longrightarrow> J d1"
  shows "keeps J (execFamilyTx s i stmt)"
proof -
  have "keeps J (inImmediateTx s i (\<lambda>d. case stmt d of Inl e \<Rightarrow> Inl e | Inr (n, d') \<Rightarrow> if n then Inr (n, d') else Inl errNotApplied))"
    by (rule keeps_inImmediateTx) (auto split: sum.splits if_splits dest: assms)
  then show ?thesis
    by (fastforce simp: keeps_def execFamilyTx_def split: prod.splits sum.splits store_error.splits)
qed

lemma keeps_dbExec: "(\<And>d. J d \<Longrightarrow> J (snd (stmt d))) \<Longrightarrow> keeps J (dbExec s what stmt)"
  by (fastforce simp: keeps_def dbExec_def split: prod.splits)

lemma keeps_condNotApplied: "rely J s \<Longrightarrow> keeps J (condNotApplied s i what)"
  unfolding condNotApplied_def by blast

lemma keeps_condResult: "rely J s \<Longrightarrow> keeps J m \<Longrightarrow> keeps J (condResult s i what m)"
  unfolding condResult_def by (intro keeps_bind keeps_if keeps_return keeps_condNotApplied)

lemma keeps_execGuarded: "(\<And>d. J d \<Longrightarrow> J (snd (stmt d))) \<Longrightarrow> keeps J (execGuarded s i what stmt)"
  unfolding execGuarded_eq by (rule keeps_execFamily)

lemma keeps_fail: "keeps J (\<lambda>d. (Inl e, d))"
  by (simp add: keeps_def)

lemma J_guarded:
  assumes "J d" and "\<And>r. s_instance_id (upd d r) = s_instance_id r" and "\<And>r. P r \<Longrightarrow> A d r (s_state (upd d r))"
  shows "J (snd (guarded i P upd d))"
  unfolding guarded_def using assms by (intro J_update_spawns) auto

section \<open>Launches and resume\<close>

lemma keeps_InsertPending: "keeps J (InsertPending s sp)"
  unfolding InsertPending_def
proof (intro keeps_if keeps_fail keeps_bind keeps_return keeps_execFamilyTx)
  fix d n d1 assume "J d" "insertSpawn s sp d = Inr (n, d1)"
  then show "J d1" by (auto simp: insertSpawn_def split: if_splits intro!: J_insert)
qed

lemma keeps_RecordLaunchIdentity: "rely J s \<Longrightarrow> keeps J (RecordLaunchIdentity s i v token x)"
  unfolding RecordLaunchIdentity_def
  by (intro keeps_condResult keeps_dbExec J_guarded) (simp_all add: recordLaunchIdentitySet_def A_same)

lemma keeps_ReleaseLaunchOwner: "rely J s \<Longrightarrow> keeps J (ReleaseLaunchOwner s i token)"
  unfolding ReleaseLaunchOwner_def
  by (intro keeps_condResult keeps_execGuarded J_guarded) (simp_all add: releaseLaunchOwnerSet_def A_same)

lemma keeps_EndHeldLaunch: "rely J s \<Longrightarrow> keeps J (EndHeldLaunch s i started endedAt)"
  unfolding EndHeldLaunch_def
  by (intro keeps_condResult keeps_execFamily J_guarded) (simp_all add: endHeldLaunchSet_def A_stored state_kinds)

lemma keeps_AdoptIdentityIfUnchanged: "rely J s \<Longrightarrow> keeps J (AdoptIdentityIfUnchanged s i examined x)"
  unfolding AdoptIdentityIfUnchanged_def
  by (intro keeps_condResult keeps_dbExec J_guarded) (simp_all add: A_same)

lemma keeps_SetParentID: "keeps J (SetParentID s i parent)"
  unfolding SetParentID_def
proof (intro keeps_bind keeps_if keeps_return keeps_fail keeps_execFamilyTx)
  fix d n d1
  assume "J d" and run: "tx_bind (tx_exec s ''store: set parent id'' (guarded i (\<lambda>_. True)
             (\<lambda>_ r. rowVersionAdvance (r\<lparr>s_parent_id := nullableStringArg parent\<rparr>)))) (\<lambda>n.
           if n \<and> \<not> parentStored i (nullableStringArg parent) d then (\<lambda>_. Inl foreignKeyError) else tx_return n) d = Inr (n, d1)"
  have "J (snd (guarded i (\<lambda>_. True) (\<lambda>_ r. rowVersionAdvance (r\<lparr>s_parent_id := nullableStringArg parent\<rparr>)) d))"
    using \<open>J d\<close> by (intro J_guarded) (simp_all add: rowVersionAdvance_def A_same[of _ r for r, simplified])
  with run show "J d1" by (auto simp: tx_bind_Inr tx_exec_Inr tx_return_def split: if_splits)
qed

lemma J_closes:
  "J d \<Longrightarrow> closeOrphanedRequests s i reason at d = Inr (cs, d1) \<Longrightarrow> closeSubagentsAgentGone s i at' d1 = Inr (u, d2) \<Longrightarrow> J d2"
  by (blast intro: J_closeOrphaned J_closeSubagents)

lemma J_moveTx: "J d \<Longrightarrow> moveTx s i examined started token socket parent owner d = Inr (cs, d1) \<Longrightarrow> J d1"
proof -
  assume d: "J d" and run: "moveTx s i examined started token socket parent owner d = Inr (cs, d1)"
  have "J (snd (guarded i (\<lambda>r. finishedState r \<and> snapshotMatch examined r) (moveToPendingSet started token socket parent owner) d))"
    using d by (intro J_guarded) (simp_all add: A_stored state_kinds)
  with run show "J d1"
    by (auto simp: moveTx_def tx_bind_Inr tx_exec_Inr tx_return_def split: if_splits dest: J_closes)
qed

lemma keeps_MoveToPending:
  assumes "rely J s"
  shows "keeps J (MoveToPending s i examined started token socket parent owner)"
proof -
  have tx: "keeps J (inImmediateTx s i (moveTx s i examined started token socket parent owner))"
    by (rule keeps_inImmediateTx) (rule J_moveTx)
  have na: "keeps J (call_bind (condNotApplied s i ''store: move to pending'') (\<lambda>res. call_return (res, 0)))"
    using assms by (intro keeps_bind keeps_return keeps_condNotApplied)
  show ?thesis
    unfolding keeps_def
  proof (intro allI impI)
    fix d assume d: "J d"
    obtain x d1 where e: "inImmediateTx s i (moveTx s i examined started token socket parent owner) d = (x, d1)" by force
    with tx d have "J d1" by (auto simp: keeps_def dest: spec[of _ d])
    with na show "J (snd (MoveToPending s i examined started token socket parent owner d))"
      by (auto simp: MoveToPending_def e keeps_def split: sum.splits store_error.splits)
  qed
qed

lemma keeps_RestoreAfterFailedResume: "rely J s \<Longrightarrow> keeps J (RestoreAfterFailedResume s i v prior)"
  unfolding RestoreAfterFailedResume_def
  by (intro keeps_if keeps_fail keeps_condResult keeps_execFamily J_guarded)
    (auto simp: restoreSet_def A_stored state_kinds)

section \<open>Find-missing\<close>

lemma J_terminalMarkOnConn:
  assumes "J d" and "terminalMarkOnConn s what (guarded i P (terminalMarkSet v)) i reason d = Inr (x, d1)" and "isTerminalState v"
  shows "J d1"
proof -
  have "v \<noteq> StateWorking" using assms(3) by (auto simp: isTerminalState_def)
  then have "J (snd (guarded i P (terminalMarkSet v) d))"
    using assms(1,3) by (intro J_guarded) (simp_all add: A_stored)
  with assms(1,2) show ?thesis
    by (auto simp: terminalMarkOnConn_def tx_bind_Inr tx_exec_Inr tx_return_def split: if_splits option.splits dest: J_closes)
qed

lemma J_emitTerminalCloseout [simp]: "J (emitTerminalCloseout cs i reason d) = J d"
  by (induction cs arbitrary: d)
    (simp_all add: emitTerminalCloseout_def emitOrphanCloseoutTick_def emitDeny_def emitDecisionCommitted_def)

lemma keeps_terminalMark:
  assumes "isTerminalState v"
  shows "keeps J (terminalMarkIfSameLife s what (guarded i P (terminalMarkSet v)) i reason)"
  unfolding keeps_def
proof (intro allI impI)
  fix d assume d: "J d"
  have tx: "J d1" if "terminalMarkOnConn s what (guarded i P (terminalMarkSet v)) i reason d = Inr (x, d1)" for x d1
    using J_terminalMarkOnConn[OF d that assms] .
  have fin: "J (emitDisplayTransitions ex d3)"
    if "J d1" "refreshFamilies s d1 = Inr (u, d2)" "takeDisplayExits s i d2 = Inr (ex, d3)" for d1 u d2 ex d3
    using J_finish[OF that(1)] committed_tx[OF that(2,3)] by simp
  show "J (snd (terminalMarkIfSameLife s what (guarded i P (terminalMarkSet v)) i reason d))"
    using d tx by (auto simp: terminalMarkIfSameLife_def split: sum.splits intro: fin)
qed

lemma keeps_marks: "keeps J (MarkMissingIfSameLife s i examined)" "keeps J (MarkEndedIfSameLife s i examined)"
  unfolding MarkMissingIfSameLife_def MarkEndedIfSameLife_def markMissingIfSameLife_def markEndedIfSameLife_def
  by (rule keeps_terminalMark, simp add: isTerminalState_def)+

lemma keeps_notes:
  assumes "rely J s"
  shows "keeps J (NoteUnreportedIfSameLife s i examined)" "keeps J (SetLivenessNoteIfSameLife s i examined note)"
    "keeps J (ClearLivenessIfSameLife s i examined)"
  unfolding NoteUnreportedIfSameLife_def SetLivenessNoteIfSameLife_def ClearLivenessIfSameLife_def
  by (intro keeps_condResult keeps_execGuarded J_guarded assms; simp add: A_same)+

lemma keeps_AdoptIdentityIfSameLife: "rely J s \<Longrightarrow> keeps J (AdoptIdentityIfSameLife s i examined x)"
  unfolding AdoptIdentityIfSameLife_def
  by (intro keeps_bind keeps_if keeps_return keeps_condNotApplied keeps_execGuarded J_guarded) (simp_all add: A_same)

lemma J_repairStmt: "J d \<Longrightarrow> repairStmt s i examined d = Inr (v, d1) \<Longrightarrow> J d1"
proof -
  assume d: "J d" and run: "repairStmt s i examined d = Inr (v, d1)"
  have "A d r (repairNewState r)" if "repairGuard examined d r" for r
    using that by (auto simp: repairNewState_def repairGuard_def A_stored A_working state_kinds)
  then have "J (snd (guarded i (repairGuard examined d) repairSet d))"
    using d by (intro J_guarded) simp_all
  with run show "J d1"
    by (auto simp: repairStmt_def tx_bind_Inr tx_exec_Inr tx_return_def split: list.splits)
qed

lemma keeps_RepairCheckPermissionIfSameLife:
  assumes "rely J s"
  shows "keeps J (RepairCheckPermissionIfSameLife s i examined)"
proof -
  have tx: "keeps J (inImmediateTx s i (repairStmt s i examined))"
    by (rule keeps_inImmediateTx) (rule J_repairStmt)
  have na: "keeps J (call_bind (condNotApplied s i ''store: repair check_permission if same life'') (\<lambda>res. call_return ([], res)))"
    using assms by (intro keeps_bind keeps_return keeps_condNotApplied)
  show ?thesis
    unfolding keeps_def
  proof (intro allI impI)
    fix d assume d: "J d"
    obtain x d1 where e: "inImmediateTx s i (repairStmt s i examined) d = (x, d1)" by force
    with tx d have "J d1" by (auto simp: keeps_def dest: spec[of _ d])
    with na show "J (snd (RepairCheckPermissionIfSameLife s i examined d))"
      by (auto simp: RepairCheckPermissionIfSameLife_def e keeps_def split: sum.splits store_error.splits)
  qed
qed

section \<open>Reuse and deletes\<close>

lemma J_resetTx: "J d \<Longrightarrow> resetTx s i examined agent fresh st d = Inr (x, d1) \<Longrightarrow> J d1"
proof -
  assume d: "J d" and run: "resetTx s i examined agent fresh st d = Inr (x, d1)"
  have ar: "J d'" if "archiveForReuse s i r d = Inr (u, d')" for r u d'
    using that d by (auto simp: archiveForReuse_def J_upsertSessionHistoryEntry split: if_splits)
  have re: "J (snd (guarded i (reuseGuard examined agent) (resetForReuseSet fresh st) d'))" if "J d'" for d'
    using that by (intro J_guarded) (simp_all add: resetForReuseSet_def A_stored state_kinds)
  have gd: "J d''" if "J d'" "guarded i (reuseGuard examined agent) (resetForReuseSet fresh st) d' = (n, d'')" for d' n d''
    using re[OF that(1)] that(2) by simp
  consider "d1 = d" | r d2 d3 where "archiveForReuse s i r d = Inr ((), d2)"
      "guarded i (reuseGuard examined agent) (resetForReuseSet fresh st) d2 = (True, d3)"
      "closeSubagentsAgentGone s i (sp_LaunchStartedAtMillis fresh) (snd (deleteRequests i d3)) = Inr ((), d1)"
    using run by (fastforce simp: resetTx_def tx_bind_Inr tx_exec_Inr tx_return_def split: if_splits option.splits)
  then show "J d1"
  proof cases
    case 2
    from 2(1) have "J d2" by (rule ar)
    with 2(2) have "J d3" by (rule gd[rotated])
    then have "J (snd (deleteRequests i d3))" by (simp add: deleteRequests_def J_drop_requests)
    from J_closeSubagents[OF this 2(3)] show ?thesis .
  qed (simp add: d)
qed

lemma keeps_ResetForReuse: "keeps J (ResetForReuse s i examined agent fresh st)"
  unfolding keeps_def
proof (intro allI impI)
  fix d assume d: "J d"
  have fin: "J (emitDisplayTransitions ex d3)"
    if "J d1" "refreshFamilies s d1 = Inr (u, d2)" "takeDisplayExits s i d2 = Inr (ex, d3)" for d1 u d2 ex d3
    using J_finish[OF that(1)] committed_tx[OF that(2,3)] by simp
  have tx: "J d1" if "resetTx s i examined agent fresh st d = Inr (x, d1)" for x d1
    using J_resetTx[OF d that] .
  show "J (snd (ResetForReuse s i examined agent fresh st d))"
    using d tx by (auto simp: ResetForReuse_def split: sum.splits intro: fin)
qed

lemma keeps_RestoreAfterFailedReuse:
  assumes "rely J s"
  shows "keeps J (RestoreAfterFailedReuse s i v prior failedAt)"
proof (cases prior)
  case (LifeOf p)
  have "keeps J (RestoreAfterFailedReuse s i v (LifeOf p) failedAt)"
    unfolding RestoreAfterFailedReuse_def RawLife.case
    by (intro keeps_if keeps_fail keeps_condResult keeps_execGuarded J_guarded assms)
      (auto simp: restoreReuseSet_def immediateSettleSet_def A_stored state_kinds)
  with LifeOf show ?thesis by simp
qed (simp add: RestoreAfterFailedReuse_def keeps_fail)

lemma J_deleteSpawns:
  assumes "J d"
  shows "J (snd (deleteSpawns P d))"
proof -
  let ?gone = "map s_instance_id (filter P (spawns d))"
  let ?up = "update_where (\<lambda>r. case s_parent_id r of None \<Rightarrow> False | Some p \<Rightarrow> p \<in> set ?gone) (\<lambda>r. r\<lparr>s_parent_id := None\<rparr>)"
  let ?d1 = "d\<lparr>spawns := filter (\<lambda>r. \<not> P r) (spawns d)\<rparr>"
  have "J (?d1\<lparr>spawns := ?up (spawns ?d1)\<rparr>)"
    by (rule J_update[OF J_drop_rows[OF assms]]) (simp_all add: A_same[of _ r for r, simplified])
  from J_drop_launches[OF J_drop_subagents[OF iffD2[OF J_history J_drop_requests[OF this, of "\<lambda>p. pr_instance_id p \<notin> set ?gone"],
        of "filter (\<lambda>h. h_instance_id h \<notin> set ?gone) (session_history d)"], of "\<lambda>a. sa_instance_id a \<notin> set ?gone"],
      of "\<lambda>l. sl_instance_id l \<notin> set ?gone"]
  have "J (?d1\<lparr>spawns := ?up (spawns ?d1),
      permission_requests := filter (\<lambda>p. pr_instance_id p \<notin> set ?gone) (permission_requests d),
      session_history := filter (\<lambda>h. h_instance_id h \<notin> set ?gone) (session_history d),
      subagents := filter (\<lambda>a. sa_instance_id a \<notin> set ?gone) (subagents d),
      subagent_launches := filter (\<lambda>l. sl_instance_id l \<notin> set ?gone) (subagent_launches d)\<rparr>)"
    by simp
  then show ?thesis by (simp add: deleteSpawns_def Let_def)
qed

lemma keeps_deletes: "rely J s \<Longrightarrow> keeps J (DeleteFinishedIfSameLife s i examined)" "keeps J (DeleteSpawn s i)"
  unfolding DeleteFinishedIfSameLife_def DeleteSpawn_def
  by (intro keeps_condResult keeps_execGuarded J_deleteSpawns; simp)
    (intro keeps_bind keeps_if keeps_return keeps_fail keeps_execFamily J_deleteSpawns)

end

interpretation held_life: life_invariant held_not_working working_allowed
  by unfold_locales
    (auto simp: held_not_working_def noRequestHoldsRow_def list_all_iff working_allowed_def)

interpretation rows_life: life_invariant rows_ok stored_state_allowed
  by unfold_locales (auto simp: rows_ok_def list_all_iff state_kinds distinct_map_filter)

end
