(* ===== verification/Finality.thy ===== *)
theory Finality
  imports Life_Cycle
begin

text \<open>
  What the writes on permission requests may do. \<open>request_write\<close> is the interface of a guarded
  statement on the table: it keeps a request consistent (a delivered or closed request is
  decided, a delivered verdict has no pane answer) and makes only final steps (a delivered
  verdict, a completed pane answer, a close and a proof stay as recorded). It is interpreted on
  every statement of the verdict writes and of the closes; the calls then make only such steps
  along any interleaving with other connections that do.
\<close>

section \<open>Consistent requests and final steps\<close>

definition req_ok :: "perm_row \<Rightarrow> bool" where
  "req_ok p \<longleftrightarrow> (pr_delivered_at p \<noteq> None \<longrightarrow> pr_decision p \<noteq> None \<and> pr_pane_answer p = PaneAnswerNone)
     \<and> (pr_closed_at p \<noteq> None \<longrightarrow> pr_decision p \<noteq> None)
     \<and> (pr_pane_answer p = PaneAnswerSent \<longrightarrow> pr_decision p = pr_pane_as p)
     \<and> (pr_pane_answer p \<in> {PaneAnswerIntent, PaneAnswerSent} \<longrightarrow> pr_pane_as p \<noteq> None)
     \<and> (pr_proven_gone_at p \<noteq> None \<longrightarrow> pr_proven_gone_how p \<noteq> None)"

definition pane_answered :: "perm_row \<Rightarrow> bool" where
  "pane_answered p \<longleftrightarrow> pr_pane_answer p \<in> {PaneAnswerSent, PaneAnswerOutside, PaneAnswerToolRan}"

definition final_step :: "perm_row \<Rightarrow> perm_row \<Rightarrow> bool" where
  "final_step p q \<longleftrightarrow>
     pr_request_id q = pr_request_id p \<and> pr_instance_id q = pr_instance_id p \<and> pr_request_token q = pr_request_token p
     \<and> (pr_delivered_at p \<noteq> None \<longrightarrow> pr_delivered_at q = pr_delivered_at p \<and> pr_decision q = pr_decision p
          \<and> pr_pane_answer q = pr_pane_answer p)
     \<and> (pr_closed_at p \<noteq> None \<longrightarrow> pr_closed_at q = pr_closed_at p \<and> pr_decision q = pr_decision p)
     \<and> (pane_answered p \<longrightarrow> pr_pane_answer q = pr_pane_answer p \<and> (pr_decision p \<noteq> None \<longrightarrow> pr_decision q = pr_decision p))
     \<and> (pr_proven_gone_at p \<noteq> None \<longrightarrow> pr_proven_gone_at q = pr_proven_gone_at p \<and> pr_proven_gone_how q = pr_proven_gone_how p)"

lemma final_step_refl [simp]: "final_step p p"
  by (simp add: final_step_def)

lemma final_step_trans: "final_step p q \<Longrightarrow> final_step q r \<Longrightarrow> final_step p r"
  unfolding final_step_def pane_answered_def by metis

section \<open>The interface of a request write\<close>

definition requests_ok :: "db \<Rightarrow> bool" where
  "requests_ok d \<longleftrightarrow> distinct (map pr_request_id (permission_requests d))
     \<and> list_all (\<lambda>p. pr_request_id p < next_request_id d \<and> req_ok p) (permission_requests d)"

definition evolves :: "db \<Rightarrow> db \<Rightarrow> bool" where
  "evolves d d' \<longleftrightarrow> next_request_id d \<le> next_request_id d'
     \<and> (\<forall>q \<in> set (permission_requests d'). next_request_id d \<le> pr_request_id q
          \<or> (\<exists>p \<in> set (permission_requests d). final_step p q))"

definition store_ok :: "db \<Rightarrow> bool" where
  "store_ok d \<longleftrightarrow> requests_ok d \<and> rows_ok d \<and> held_not_working d"

definition store_guarantee :: "db \<Rightarrow> db \<Rightarrow> bool" where
  "store_guarantee d d' \<longleftrightarrow> (store_ok d \<longrightarrow> store_ok d' \<and> evolves d d')"

lemma evolves_refl: "evolves d d"
  by (auto simp: evolves_def intro!: bexI[of _ q for q])

lemma evolves_trans: "evolves a b \<Longrightarrow> evolves b c \<Longrightarrow> evolves a c"
  unfolding evolves_def
  by (metis final_step_def final_step_trans order_trans)

lemma evolves_final:
  assumes "requests_ok d" and "evolves d d'" and "p \<in> set (permission_requests d)" and "q \<in> set (permission_requests d')"
    and "pr_request_id q = pr_request_id p"
  shows "final_step p q"
proof -
  have "pr_request_id q < next_request_id d"
    using assms(1,3,5) by (auto simp: requests_ok_def list_all_iff)
  then obtain p' where p': "p' \<in> set (permission_requests d)" "final_step p' q"
    using assms(2,4) by (auto simp: evolves_def)
  then have "pr_request_id p' = pr_request_id p" using assms(5) by (simp add: final_step_def)
  then have "p' = p"
    using assms(1,3) p'(1) by (auto simp: requests_ok_def distinct_map inj_on_def)
  with p'(2) show ?thesis by simp
qed

interpretation store: guarantee store_guarantee
proof unfold_locales
  show "store_guarantee d d" for d
    by (simp add: store_guarantee_def evolves_refl)
  show "store_guarantee a b \<Longrightarrow> store_guarantee b c \<Longrightarrow> store_guarantee a c" for a b c
    by (auto simp: store_guarantee_def intro: evolves_trans)
  show "store_guarantee d (d\<lparr>trail := x\<rparr>)" for d x
    using evolves_refl[of d]
    by (simp add: store_guarantee_def store_ok_def requests_ok_def evolves_def rows.J_trail held.J_trail)
qed

locale request_write =
  fixes P :: "perm_row \<Rightarrow> bool" and f :: "perm_row \<Rightarrow> perm_row"
  assumes write_ok: "req_ok p \<Longrightarrow> P p \<Longrightarrow> req_ok (f p)"
    and write_final: "req_ok p \<Longrightarrow> P p \<Longrightarrow> final_step p (f p)"
    and write_awaits: "req_ok p \<Longrightarrow> P p \<Longrightarrow> awaitingAnswer (f p) \<Longrightarrow> awaitingAnswer p"
begin

lemma keeps_id: "req_ok p \<Longrightarrow> P p \<Longrightarrow> pr_request_id (f p) = pr_request_id p"
  using write_final by (simp add: final_step_def)

lemma write_holds: "req_ok p \<Longrightarrow> P p \<Longrightarrow> holdsRow (f p) \<Longrightarrow> holdsRow p \<and> pr_instance_id (f p) = pr_instance_id p"
  using write_final write_awaits unfolding holdsRow_def final_step_def by metis

lemma updated_requests_ok:
  "requests_ok d \<Longrightarrow> requests_ok (d\<lparr>permission_requests := update_where P f (permission_requests d)\<rparr>)"
proof -
  assume ok: "requests_ok d"
  have "map pr_request_id (update_where P f (permission_requests d)) = map pr_request_id (permission_requests d)"
    using ok by (auto simp: update_where_def requests_ok_def list_all_iff keeps_id)
  with ok show ?thesis by (auto simp: requests_ok_def list_all_iff set_update_where write_ok keeps_id)
qed

lemma updated_evolves:
  "requests_ok d \<Longrightarrow> evolves d (d\<lparr>permission_requests := update_where P f (permission_requests d)\<rparr>)"
proof -
  assume ok: "requests_ok d"
  have "\<exists>p \<in> set (permission_requests d). final_step p q" if "q \<in> set (update_where P f (permission_requests d))" for q
  proof -
    from that obtain p where p: "p \<in> set (permission_requests d)" "q = (if P p then f p else p)"
      by (auto simp: set_update_where)
    moreover have "req_ok p" using ok p(1) by (simp add: requests_ok_def list_all_iff)
    ultimately have "final_step p q" by (simp add: write_final)
    with p(1) show ?thesis by blast
  qed
  then show ?thesis by (simp add: evolves_def)
qed

lemma updated_held:
  assumes "requests_ok d" and "held_not_working d"
  shows "held_not_working (d\<lparr>permission_requests := update_where P f (permission_requests d)\<rparr>)"
proof -
  have "\<not> (pr_instance_id q = s_instance_id r \<and> holdsRow q)"
    if r: "r \<in> set (spawns d)" "s_state r = StateWorking" and q: "q \<in> set (update_where P f (permission_requests d))" for r q
  proof -
    from q obtain p where p: "p \<in> set (permission_requests d)" "q = (if P p then f p else p)"
      by (auto simp: set_update_where)
    have "\<not> (pr_instance_id p = s_instance_id r \<and> holdsRow p)"
      using assms(2) r p(1) by (auto simp: held_not_working_def list_all_iff noRequestHoldsRow_def)
    moreover have "req_ok p" using assms(1) p(1) by (simp add: requests_ok_def list_all_iff)
    ultimately show ?thesis using p(2) write_holds[of p] by (auto split: if_splits)
  qed
  then show ?thesis by (auto simp: held_not_working_def list_all_iff noRequestHoldsRow_def)
qed

lemma updated: "store_guarantee d (d\<lparr>permission_requests := update_where P f (permission_requests d)\<rparr>)"
  using updated_requests_ok[of d] updated_evolves[of d] updated_held[of d]
  by (simp add: store_guarantee_def store_ok_def rows_ok_def)

end

lemma awaiting_undelivered: "req_ok p \<Longrightarrow> awaitingAnswer p \<Longrightarrow> pr_delivered_at p = None"
  by (auto simp: req_ok_def awaitingAnswer_def split: if_splits)

lemma awaiting_open: "awaitingAnswer p \<Longrightarrow> pr_closed_at p = None \<and> \<not> pane_answered p"
  by (auto simp: awaitingAnswer_def pane_answered_def)

lemma intent_undelivered: "req_ok p \<Longrightarrow> pr_pane_answer p = PaneAnswerIntent \<Longrightarrow> pr_delivered_at p = None \<and> \<not> pane_answered p"
  by (auto simp: req_ok_def pane_answered_def)

lemma none_not_answered: "pr_pane_answer p = PaneAnswerNone \<Longrightarrow> \<not> pane_answered p"
  by (simp add: pane_answered_def)

lemmas write_facts = req_ok_def final_step_def awaiting_undelivered awaiting_open intent_undelivered none_not_answered

interpretation decide_write: request_write "decideMatch d i token cutoff" "decideSet d' v reason"
  by unfold_locales (auto simp: decideMatch_def decideSet_def req_ok_def final_step_def none_not_answered awaitingAnswer_def split: if_splits)

interpretation ack_write: request_write "ackMatch i token" "ackSet at"
  by unfold_locales (auto simp: ackMatch_def ackSet_def req_ok_def final_step_def none_not_answered awaitingAnswer_def split: if_splits)

interpretation timeout_write: request_write "timeoutMatch i token" "timeoutSet d at"
  by unfold_locales (auto simp: timeoutMatch_def timeoutSet_def req_ok_def final_step_def none_not_answered awaitingAnswer_def split: if_splits)

interpretation refused_write: request_write "awaitingMatch i token" "refusedSet v at gone"
  by unfold_locales (auto simp: refusedSet_def req_ok_def final_step_def pane_answered_def awaitingAnswer_def)

interpretation gone_write: request_write "\<lambda>p. pr_request_id p = rid" "hookGoneSet at"
  by unfold_locales (auto simp: hookGoneSet_def req_ok_def final_step_def pane_answered_def awaitingAnswer_def)

interpretation fallback_write: request_write "\<lambda>p. pr_request_id p = rid" "fallbackSet at start basis"
  by unfold_locales (auto simp: fallbackSet_def req_ok_def final_step_def pane_answered_def awaitingAnswer_def)

interpretation intent_write: request_write "awaitingMatch i token" "intentSet v sender at"
  using awaiting_undelivered awaiting_open
  by unfold_locales (auto simp: awaitingMatch_def intentSet_def req_ok_def final_step_def)

interpretation sent_write: request_write "sentMatch i token n" "sentSet d"
  using intent_undelivered
  by unfold_locales (auto simp: sentMatch_def intentOwner_def sentSet_def req_ok_def final_step_def awaitingAnswer_def)

interpretation release_write: request_write "releaseMatch i token n" releaseSet
  by unfold_locales (auto simp: releaseSet_def req_ok_def final_step_def pane_answered_def awaitingAnswer_def)

interpretation outside_write: request_write "awaitingMatch i token" "outsideSet d claim"
  using awaiting_undelivered awaiting_open
  by unfold_locales (auto simp: awaitingMatch_def outsideSet_def req_ok_def final_step_def)

interpretation tool_ran_write: request_write "toolRanMatch d i g tu rid" "toolRanSet d' at"
  using awaiting_undelivered awaiting_open
  by unfold_locales (auto simp: toolRanMatch_def toolRanSet_def req_ok_def final_step_def coalesce_opt_def)

interpretation prove_write: request_write "proveMatch d i g how covers n" "proveSet at how'"
  by unfold_locales (auto simp: proveMatch_def proveSet_def req_ok_def final_step_def pane_answered_def awaitingAnswer_def)

interpretation close_write: request_write "\<lambda>_. True" "closed_request d i reason at"
proof unfold_locales
  fix p assume ok: "req_ok p"
  show "req_ok (closed_request d i reason at p)"
    using ok by (auto simp: closed_request_def denyOrphaned_def closeDecided_def proveAgentGone_def req_ok_def Let_def
        awaitingAnswer_def split: if_splits)
  show "final_step p (closed_request d i reason at p)"
    using ok awaiting_undelivered[OF ok] awaiting_open[of p]
    by (auto simp: closed_request_def denyOrphaned_def closeDecided_def proveAgentGone_def final_step_def pane_answered_def Let_def)
next
  show "awaitingAnswer (closed_request d i reason at p) \<Longrightarrow> awaitingAnswer p" for p
    by (auto simp: closed_request_def denyOrphaned_def closeDecided_def proveAgentGone_def awaitingAnswer_def Let_def split: if_splits)
qed

section \<open>Inserts and hook writes\<close>

text \<open>
  The hook writes respect the guarantee: for a fixed starting database it is an invariant of the
  kind \<open>hook_invariant\<close> asks for.
\<close>

definition moves_allowed :: "db \<Rightarrow> spawn_row \<Rightarrow> string \<Rightarrow> bool" where
  "moves_allowed d r v \<longleftrightarrow> working_allowed d r v \<and> stored_state_allowed d r v"

lemma store_guarantee_frame:
  assumes "permission_requests d' = permission_requests d" and "next_request_id d' = next_request_id d"
    and "rows_ok d \<Longrightarrow> rows_ok d'" and "held_not_working d \<Longrightarrow> held_not_working d'" and "store_guarantee d0 d"
  shows "store_guarantee d0 d'"
  using assms by (auto simp: store_guarantee_def store_ok_def requests_ok_def evolves_def)

lemma tables_frame:
  "rows_ok (d\<lparr>subagents := x1\<rparr>) = rows_ok d" "held_not_working (d\<lparr>subagents := x1\<rparr>) = held_not_working d"
  "rows_ok (d\<lparr>subagent_launches := x2\<rparr>) = rows_ok d" "held_not_working (d\<lparr>subagent_launches := x2\<rparr>) = held_not_working d"
  "rows_ok (d\<lparr>session_history := x3\<rparr>) = rows_ok d" "held_not_working (d\<lparr>session_history := x3\<rparr>) = held_not_working d"
  "rows_ok (d\<lparr>next_history_id := x4\<rparr>) = rows_ok d" "held_not_working (d\<lparr>next_history_id := x4\<rparr>) = held_not_working d"
  by (simp_all add: rows_ok_def held_not_working_def noRequestHoldsRow_def)

lemma frame_iff:
  assumes "permission_requests d' = permission_requests d" and "next_request_id d' = next_request_id d"
    and "rows_ok d' = rows_ok d" and "held_not_working d' = held_not_working d"
  shows "store_guarantee d0 d' = store_guarantee d0 d"
  using assms by (auto simp: store_guarantee_def store_ok_def requests_ok_def evolves_def)

interpretation hooks: hook_invariant "store_guarantee d0" moves_allowed
proof unfold_locales
  fix d :: db
  show "store_guarantee d0 (d\<lparr>trail := x\<rparr>) = store_guarantee d0 d" for x
    by (rule frame_iff) (simp_all add: rows.J_trail held.J_trail)
  show "store_guarantee d0 (d\<lparr>subagents := update_where (\<lambda>a. sa_instance_id a = i \<and> sa_state a = SubagentStateRunning)
      (agentGoneSet at) (subagents d)\<rparr>)" if "store_guarantee d0 d" for i at
    using that by (subst frame_iff) (simp_all add: tables_frame)
  show "store_guarantee d0 (d\<lparr>subagent_launches := filter Q (subagent_launches d)\<rparr>)" if "store_guarantee d0 d" for Q
    using that by (subst frame_iff) (simp_all add: tables_frame)
  show "store_guarantee d0 (d\<lparr>session_history := x\<rparr>) = store_guarantee d0 d" for x
    by (rule frame_iff) (simp_all add: tables_frame)
  show "store_guarantee d0 (d\<lparr>next_history_id := x\<rparr>) = store_guarantee d0 d" for x
    by (rule frame_iff) (simp_all add: tables_frame)
  show "store_guarantee d0 (finish_tx s i d)" if "store_guarantee d0 d" for s i
    using that by (rule store_guarantee_frame[rotated -1]) (simp_all add: rows.J_finish held.J_finish)
  show "moves_allowed d r (s_state r)" for r
    by (simp add: moves_allowed_def rows.A_same held.A_same)
  show "moves_allowed d r v" if "IsLiveState v \<or> isTerminalState v" "v \<noteq> StateWorking" for v r
    using that by (auto simp: moves_allowed_def working_allowed_def stored_state_allowed_def isTerminalState_def)
  show "moves_allowed d r StateWorking" if "noRequestHoldsRow d r" for r
    using that by (simp add: moves_allowed_def working_allowed_def stored_state_allowed_def IsLiveState_iff)
  show "store_guarantee d0 (d\<lparr>permission_requests := map (closed_request d' i reason at) (permission_requests d)\<rparr>)"
    if "store_guarantee d0 d" for d' i reason at
    using store.G_trans[OF that close_write.updated[of d d' i reason at]] by (simp add: update_where_True)
next
  fix d P and f :: "spawn_row \<Rightarrow> spawn_row"
  assume g: "store_guarantee d0 d" and key: "\<And>r. s_instance_id (f r) = s_instance_id r"
    and a: "\<And>r. r \<in> set (spawns d) \<Longrightarrow> P r \<Longrightarrow> moves_allowed d r (s_state (f r))"
  show "store_guarantee d0 (d\<lparr>spawns := update_where P f (spawns d)\<rparr>)"
  proof (rule store_guarantee_frame[OF _ _ _ _ g])
    show "rows_ok d \<Longrightarrow> rows_ok (d\<lparr>spawns := update_where P f (spawns d)\<rparr>)"
      using a by (intro rows.J_update key) (simp_all add: moves_allowed_def)
    show "held_not_working d \<Longrightarrow> held_not_working (d\<lparr>spawns := update_where P f (spawns d)\<rparr>)"
      using a by (intro held.J_update key) (simp_all add: moves_allowed_def)
  qed simp_all
qed

interpretation lives: life_invariant "store_guarantee d0" moves_allowed
proof unfold_locales
  fix d :: db
  show "store_guarantee d0 (d\<lparr>spawns := spawns d @ [r]\<rparr>)"
    if "store_guarantee d0 d" "s_instance_id r \<notin> s_instance_id ` set (spawns d)" "s_state r = StatePending" for r
    using that(1) by (rule store_guarantee_frame[rotated -1])
      (simp_all add: rows_life.J_insert[OF _ that(2,3)] held_life.J_insert[OF _ that(2,3)])
  show "store_guarantee d0 (d\<lparr>spawns := filter P (spawns d)\<rparr>)" if "store_guarantee d0 d" for P
    using that by (rule store_guarantee_frame[rotated -1]) (simp_all add: rows_life.J_drop_rows held_life.J_drop_rows)
  show "store_guarantee d0 (d\<lparr>subagents := filter R (subagents d)\<rparr>)" if "store_guarantee d0 d" for R
    using that by (subst frame_iff) (simp_all add: tables_frame)
  show "store_guarantee d0 (d\<lparr>permission_requests := filter Q (permission_requests d)\<rparr>)" if "store_guarantee d0 d" for Q
    using that rows_life.J_drop_requests[of d Q] held_life.J_drop_requests[of d Q]
    by (auto simp: store_guarantee_def store_ok_def requests_ok_def evolves_def list_all_iff distinct_map_filter)
qed

lemma rely_guarantee: "others_honour store_guarantee s \<Longrightarrow> rely (store_guarantee d0) s"
  by (auto simp: rely_def others_honour_def intro: store.G_trans)

lemma honours_from_keeps: "(\<And>d0. keeps (store_guarantee d0) m) \<Longrightarrow> honours store_guarantee m"
  by (auto simp: honours_def keeps_def store.G_refl)

lemma honours_life_writes:
  assumes "others_honour store_guarantee s"
  shows "honours store_guarantee (InsertPending s sp)"
    and "honours store_guarantee (RecordLaunchIdentity s i v token x)"
    and "honours store_guarantee (ReleaseLaunchOwner s i token)"
    and "honours store_guarantee (EndHeldLaunch s i started endedAt)"
    and "honours store_guarantee (AdoptIdentityIfUnchanged s i examined x)"
    and "honours store_guarantee (SetParentID s i parent)"
    and "honours store_guarantee (MoveToPending s i examined started token socket parent owner)"
    and "honours store_guarantee (RestoreAfterFailedResume s i v prior)"
    and "honours store_guarantee (MarkMissingIfSameLife s i examined)"
    and "honours store_guarantee (MarkEndedIfSameLife s i examined)"
    and "honours store_guarantee (NoteUnreportedIfSameLife s i examined)"
    and "honours store_guarantee (SetLivenessNoteIfSameLife s i examined note)"
    and "honours store_guarantee (ClearLivenessIfSameLife s i examined)"
    and "honours store_guarantee (AdoptIdentityIfSameLife s i examined x)"
    and "honours store_guarantee (RepairCheckPermissionIfSameLife s i examined)"
    and "honours store_guarantee (ResetForReuse s i examined agent fresh st)"
    and "honours store_guarantee (RestoreAfterFailedReuse s i v life failedAt)"
    and "honours store_guarantee (DeleteFinishedIfSameLife s i examined)"
    and "honours store_guarantee (DeleteSpawn s i)"
  by (rule honours_from_keeps, rule lives.keeps_InsertPending lives.keeps_RecordLaunchIdentity lives.keeps_ReleaseLaunchOwner
      lives.keeps_EndHeldLaunch lives.keeps_AdoptIdentityIfUnchanged lives.keeps_SetParentID lives.keeps_MoveToPending
      lives.keeps_RestoreAfterFailedResume lives.keeps_marks lives.keeps_notes lives.keeps_AdoptIdentityIfSameLife
      lives.keeps_RepairCheckPermissionIfSameLife lives.keeps_ResetForReuse lives.keeps_RestoreAfterFailedReuse lives.keeps_deletes,
      (rule rely_guarantee[OF assms])?)+

lemma honours_hook_writes:
  assumes "others_honour store_guarantee s"
  shows "soft \<or> IsLiveState v \<or> v = StateEnded \<Longrightarrow> honours store_guarantee (ApplyHookTransitionResult s i g v soft ev p b)"
    and "honours store_guarantee (ApplyHookEndReport s i g ev p b)"
    and "honours store_guarantee (ApplyHookWaitingIfWorking s i g ev p b)"
    and "honours store_guarantee (RecordSessionStartIdentity s i g p b)"
    and "honours store_guarantee (EndCodexTurn s t)"
  using rely_guarantee[OF assms]
  by (auto intro!: honours_from_keeps hooks.keeps_ApplyHookTransitionResult hooks.keeps_ApplyHookEndReport
      hooks.keeps_ApplyHookWaitingIfWorking hooks.keeps_RecordSessionStartIdentity hooks.keeps_EndCodexTurn)

section \<open>New requests and eviction\<close>

lemma evict_filter:
  assumes "store_ok d"
  shows "store_ok (d\<lparr>permission_requests := filter Q (permission_requests d)\<rparr>)
       \<and> evolves d (d\<lparr>permission_requests := filter Q (permission_requests d)\<rparr>)"
proof -
  have "requests_ok (d\<lparr>permission_requests := filter Q (permission_requests d)\<rparr>)"
    using assms by (auto simp: store_ok_def requests_ok_def list_all_iff distinct_map inj_on_def)
  moreover have "held_not_working (d\<lparr>permission_requests := filter Q (permission_requests d)\<rparr>)"
    using assms by (auto simp: store_ok_def held_not_working_def list_all_iff noRequestHoldsRow_def)
  moreover have "rows_ok (d\<lparr>permission_requests := filter Q (permission_requests d)\<rparr>)"
    using assms by (simp add: store_ok_def rows_ok_def)
  moreover have "evolves d (d\<lparr>permission_requests := filter Q (permission_requests d)\<rparr>)"
    by (auto simp: evolves_def intro: final_step_refl)
  ultimately show ?thesis by (simp add: store_ok_def)
qed

lemma evict_honours: "tx_honours store_guarantee (evictClosedRequests s cap)"
  using evict_filter
  by (auto simp: tx_honours_def evictClosedRequests_def tx_exec_Inr evolves_refl store_guarantee_def split: if_splits)

lemma insert_request_ok:
  assumes "store_ok d" and "pr_request_id p = next_request_id d" and "req_ok p"
    and "\<And>r. r \<in> set (spawns d) \<Longrightarrow> s_instance_id r = pr_instance_id p \<Longrightarrow> s_state r \<noteq> StateWorking"
  shows "store_ok (d\<lparr>permission_requests := permission_requests d @ [p], next_request_id := next_request_id d + 1\<rparr>)
       \<and> evolves d (d\<lparr>permission_requests := permission_requests d @ [p], next_request_id := next_request_id d + 1\<rparr>)"
proof -
  let ?d = "d\<lparr>permission_requests := permission_requests d @ [p], next_request_id := next_request_id d + 1\<rparr>"
  have "requests_ok ?d"
    using assms(1-3) by (force simp: store_ok_def requests_ok_def list_all_iff)
  moreover have "held_not_working ?d"
    using assms(1,4) by (auto simp: store_ok_def held_not_working_def list_all_iff noRequestHoldsRow_def)
  moreover have "rows_ok ?d" using assms(1) by (simp add: store_ok_def rows_ok_def)
  moreover have "evolves d ?d"
    using assms(2) by (auto simp: evolves_def intro: final_step_refl)
  ultimately show ?thesis by (simp add: store_ok_def)
qed

lemma refreshAfter_honours: "tx_honours store_guarantee (refreshFamiliesAfterStateChange s a b ex)"
  by (auto simp: tx_honours_def refreshFamiliesAfterStateChange_def tx_return_def store.G_refl
      dest: hooks.J_refresh_families[OF store.G_refl] split: if_splits)

lemma relay_moves:
  assumes "distinct (map s_instance_id (spawns d))" and "gatedHookUpdate i g (relayStateSet s) p b no_cond d = (True, d1)"
    and "r \<in> set (spawns d1)" and "s_instance_id r = i"
  shows "s_state r = StateCheckPermission"
proof -
  let ?w = "hookWrite g (relayStateSet s d) p b"
  obtain q where q: "q \<in> set (spawns d)" "s_instance_id q = i" "hookGate d g q"
    using assms(2) by (auto simp: gatedHookUpdate_def update_spawns_def)
  obtain q' where q': "q' \<in> set (spawns d)" "r = (if s_instance_id q' = i \<and> hookGate d g q' then ?w q' else q')"
    using assms(2,3) by (auto simp: gatedHookUpdate_def update_spawns_def set_update_where)
  have "s_instance_id q' = i" using q'(2) assms(4) by (auto simp: relayStateSet_def split: if_splits)
  then have "q' = q" using q q'(1) assms(1) by (auto simp: distinct_map inj_on_def)
  with q q'(2) show ?thesis by (simp add: relayStateSet_def)
qed

lemma relayTx_honours: "tx_honours store_guarantee (relayTx s i g req cap)"
  unfolding tx_honours_def store_guarantee_def
proof (intro allI impI)
  fix d x d' assume run: "relayTx s i g req cap d = Inr (x, d')" and ok: "store_ok d"
  obtain prior d1 r1 elig d2 where
    u: "gatedHookUpdate i g (relayStateSet s) (rq_TranscriptPath req) (rq_TranscriptPresent req) no_cond d = (True, d1)"
    and d2: "d2 = d1\<lparr>permission_requests := permission_requests d1 @ [relay_request d1 i req elig r1], next_request_id := next_request_id d1 + 1\<rparr>"
    and rest: "tx_bind (evictClosedRequests s cap) (\<lambda>_.
              tx_bind (refreshFamiliesAfterStateChange s prior StateCheckPermission ([] :: unit list)) (\<lambda>_.
              tx_return (prior, next_request_id d2 - 1))) d2 = Inr (x, d')"
    using relayTx_Inr[OF run] by blast
  have g1: "store_ok d1 \<and> evolves d d1"
    using hooks.J_gated[OF store.G_refl, of "relayStateSet s" d no_cond i g "rq_TranscriptPath req" "rq_TranscriptPresent req"] ok u
    by (simp add: store_guarantee_def relayStateSet_def hooks.A_stored IsLiveState_iff)
  have "distinct (map s_instance_id (spawns d))" using ok by (simp add: store_ok_def rows_ok_def)
  note moved = relay_moves[OF this u]
  have g2: "store_ok d2 \<and> evolves d1 d2"
    unfolding d2 by (rule insert_request_ok) (use g1 moved in \<open>auto simp: req_ok_def relay_request_def blank_request_def\<close>)
  have "tx_honours store_guarantee (tx_bind (evictClosedRequests s cap) (\<lambda>_.
              tx_bind (refreshFamiliesAfterStateChange s prior StateCheckPermission ([] :: unit list)) (\<lambda>_.
              tx_return (prior, next_request_id d2 - 1))))"
    by (intro store.tx_honours_bind evict_honours refreshAfter_honours store.tx_honours_return)
  with rest g2 have "store_ok d' \<and> evolves d2 d'" unfolding tx_honours_def store_guarantee_def by blast
  with g1 g2 show "store_ok d' \<and> evolves d d'" by (auto intro: evolves_trans)
qed

section \<open>The calls\<close>

text \<open>
  A guarantee the request calls honour: any guarded statement of the kind \<open>request_write\<close> and the
  relay hook's first transaction respect it.
\<close>

locale request_guarantee = guarantee +
  assumes G_write: "request_write P f \<Longrightarrow> G d (d\<lparr>permission_requests := update_where P f (permission_requests d)\<rparr>)"
    and G_relay: "tx_honours G (relayTx s i g req cap)"
begin

lemma G_returning: "request_write P f \<Longrightarrow> G d (snd (update_requests P f d))"
  by (simp add: update_requests_def G_write)

lemma honours_inWriteTx: "tx_honours G t \<Longrightarrow> honours G (inWriteTx s t)"
  by (auto simp: honours_def tx_honours_def inWriteTx_def G_refl split: sum.splits)

lemma run_check_honours: "tx_honours G (run_check c)"
  by (auto simp: tx_honours_def run_check_def G_refl split: option.splits)

lemma runPaneCheck_honours: "tx_honours G (runPaneCheck s i c)"
  by (auto simp: tx_honours_def runPaneCheck_def run_check_def G_refl split: option.splits if_splits)

lemma emitDecision_honours: "G d (emitDecisionCommitted i tok rid tool v reason w d)"
  by (simp add: emitDecisionCommitted_def G_emit)

lemma honours_committed:
  "honours G (\<lambda>d. case hit of None \<Rightarrow> (Inr False, d)
     | Some p \<Rightarrow> (Inr True, emitDecisionCommitted i tok (rid p) (tool p) (v p) reason w d))"
  by (auto simp: honours_def G_refl emitDecision_honours split: option.splits)

lemmas tx_steps = tx_honours_bind tx_honours_return tx_honours_exec tx_honours_fail
  run_check_honours runPaneCheck_honours

lemma honours_DecideRelayRequest: "honours G (DecideRelayRequest s i tok v reason w cutoff)"
proof -
  have tx: "honours G (inWriteTx s (decideTx s i tok v reason cutoff))"
    unfolding decideTx_def
    by (intro honours_inWriteTx tx_steps G_returning[OF decide_write.request_write_axioms])
      (auto simp: tx_honours_def tx_return_def G_refl split: option.splits)
  show ?thesis
    unfolding honours_def
  proof
    fix d
    obtain x d1 where e: "inWriteTx s (decideTx s i tok v reason cutoff) d = (x, d1)" by force
    with tx have "G d d1" by (auto simp: honours_def dest: spec[of _ d])
    with e show "G d (snd (DecideRelayRequest s i tok v reason w cutoff d))"
      by (auto simp: DecideRelayRequest_def intro: G_trans[OF _ emitDecision_honours]
          split: sum.splits store_error.splits)
  qed
qed

lemma honours_AckRelayDecision: "honours G (AckRelayDecision s i tok at c)"
  unfolding AckRelayDecision_def by (intro honours_inWriteTx tx_steps G_returning[OF ack_write.request_write_axioms])

lemma honours_DenyRelayTimeout: "honours G (DenyRelayTimeout s i tok at c)"
  unfolding DenyRelayTimeout_def
  by (intro honours_bind honours_committed honours_inWriteTx tx_steps G_returning[OF timeout_write.request_write_axioms])

lemma honours_RecordRefusedDecision: "honours G (RecordRefusedDecision s i tok v at gone)"
  unfolding RecordRefusedDecision_def by (intro honours_inWriteTx tx_steps G_returning[OF refused_write.request_write_axioms])

lemma recordHookGoneLoop_honours: "tx_honours G (recordHookGoneLoop s at ids)"
proof (induction ids)
  case Nil
  show ?case by (simp add: tx_steps)
next
  case (Cons x ids)
  show ?case
    unfolding recordHookGoneLoop.simps
    by (intro tx_steps G_returning[OF gone_write.request_write_axioms] Cons.IH)
qed

lemma honours_RecordHookGone: "honours G (RecordHookGone s at ids)"
  by (simp add: RecordHookGone_def honours_return honours_inWriteTx recordHookGoneLoop_honours)

lemma recordFallbacks_honours: "tx_honours G (recordFallbacks s T at obs)"
proof (induction obs)
  case Nil
  show ?case by (simp add: tx_steps)
next
  case (Cons x obs)
  show ?case
    unfolding recordFallbacks.simps
    by (intro tx_steps; simp add: G_refl split: option.split prod.split)
      (intro conjI allI impI tx_steps Cons.IH; simp add: G_refl tx_steps Cons.IH G_returning[OF fallback_write.request_write_axioms] split: option.split prod.split)
qed

lemma honours_RecordPermissionFallbacks: "honours G (RecordPermissionFallbacks s T at obs)"
  by (simp add: RecordPermissionFallbacks_def honours_inWriteTx recordFallbacks_honours)

lemma honours_RecordPaneIntent: "honours G (RecordPaneIntent s i tok v sender c)"
proof -
  have "tx_honours G (\<lambda>d. tx_bind (tx_exec s ''store: record pane intent''
      (update_requests (awaitingMatch i tok) (intentSet v sender (go_now_ms d)))) (\<lambda>hit.
      tx_return (map_option (\<lambda>_. \<lparr>pn_As = v, pn_Sender = sender, pn_At = go_now_ms d\<rparr>) hit)) d)"
    by (auto simp: tx_honours_def tx_bind_Inr tx_exec_Inr tx_return_def)
      (metis G_returning[OF intent_write.request_write_axioms] snd_conv)
  then show ?thesis
    unfolding RecordPaneIntent_def by (intro honours_inWriteTx tx_steps)
qed

lemma honours_RecordPaneSent: "honours G (RecordPaneSent s i tok n)"
  unfolding RecordPaneSent_def
  by (intro honours_bind honours_committed honours_inWriteTx tx_steps G_returning[OF sent_write.request_write_axioms])

lemma honours_ReleasePaneIntent: "honours G (ReleasePaneIntent s i tok n)"
  unfolding ReleasePaneIntent_def by (intro honours_inWriteTx tx_steps G_returning[OF release_write.request_write_axioms])

lemma honours_RecordPaneOutside: "honours G (RecordPaneOutside s i tok claim c)"
  unfolding RecordPaneOutside_def
  by (intro honours_bind honours_committed honours_inWriteTx tx_steps G_returning[OF outside_write.request_write_axioms])

lemma honours_closeToolRanLoop:
  assumes "others_honour G s"
  shows "honours G (closeToolRanLoop s i g tu at gone n prs closed)"
proof (induction prs arbitrary: n closed)
  case Nil
  show ?case by (simp add: honours_return)
next
  case (Cons pr prs)
  have step: "G d (snd (closeToolRanLoop s i g tu at gone m prs c (others s n d')))"
    if "G d d'" for d d' m c
    using that Cons.IH[of m c] assms unfolding honours_def others_honour_def
    by (meson G_trans)
  show ?case
    unfolding honours_def
  proof
    fix d
    let ?u = "update_requests (toolRanMatch d i g tu (RequestID pr)) (toolRanSet d at) d"
    have "G d (snd ?u)" by (rule G_returning[OF tool_ran_write.request_write_axioms])
    then show "G d (snd (closeToolRanLoop s i g tu at gone n (pr # prs) closed d))"
      using Cons.IH[of n closed]
      by (auto simp: honours_def G_refl split: prod.splits option.splits
          intro!: step intro: G_trans[OF _ emitDecision_honours])
  qed
qed

lemma honours_CloseToolRanRequests:
  "others_honour G s \<Longrightarrow> honours G (CloseToolRanRequests s i g tu at gone)"
  unfolding CloseToolRanRequests_def
  by (auto intro!: honours_return honours_bind honours_read_then honours_closeToolRanLoop
      split: option.splits)

lemma honours_ProveRequestsGone:
  assumes "others_honour G s"
  shows "honours G (ProveRequestsGone s i g x)"
proof -
  have "honours G (\<lambda>d. let at = (if rp_At x = zeroTime then go_now_ms d else rp_At x);
               P = proveMatch d i g (rp_How x) covers n
           in if sqlFails s ''store: prove requests gone'' then (Inl (DriverError ''store: prove requests gone''), d)
              else (Inr (length (filter P (permission_requests d))),
                    d\<lparr>permission_requests := update_where P (proveSet at (rp_How x)) (permission_requests d)\<rparr>))" for covers n
    by (simp add: honours_def Let_def G_refl G_write[OF prove_write.request_write_axioms])
  then show ?thesis
    unfolding ProveRequestsGone_def using assms
    by (auto intro!: honours_return honours_fail honours_bind honours_read_then
        split: sum.splits option.splits)
qed

lemma honours_InsertRelayRequest:
  assumes "others_honour G s"
  shows "honours G (InsertRelayRequest s i g req cap)"
  unfolding honours_def
proof
  fix d
  obtain x d1 where e: "inWriteTx s (relayTx s i g req cap) d = (x, d1)" by force
  with honours_inWriteTx[OF G_relay, of s s i g req cap] have d1: "G d d1"
    by (auto simp: honours_def dest: spec[of _ d])
  have na: "honours G (call_bind (read_then s 9 (hookNotApplied s i g ''store: relay request'' \<circ> others s 8))
      (\<lambda>a. call_return (UpsertNoChange, a)))"
    using assms by (intro honours_bind honours_read_then honours_return)
  show "G d (snd (InsertRelayRequest s i g req cap d))"
    using d1 na
    by (auto simp: InsertRelayRequest_def e honours_def intro: G_trans[OF _ G_emit] G_trans[OF d1]
        split: sum.splits store_error.splits)
qed

end

interpretation store_requests: request_guarantee store_guarantee
  by unfold_locales (rule request_write.updated, assumption, rule relayTx_honours)

lemma blank_awaits: "awaitingAnswer (relay_request d i req e r) \<and> holdsRow (relay_request d i req e r)"
  by (simp add: relay_request_def blank_request_def awaitingAnswer_def holdsRow_def)

lemma relay_request_keys [simp]:
  "pr_instance_id (relay_request d i req e r) = i" "pr_request_token (relay_request d i req e r) = rq_RequestToken req"
  "pr_request_id (relay_request d i req e r) = next_request_id d"
  by (simp_all add: relay_request_def blank_request_def)

lemma evict_keeps_awaiting:
  assumes "evictClosedRequests s cap d = Inr (u, d1)" and "requests_ok d" and "p \<in> set (permission_requests d)" and "awaitingAnswer p"
  shows "p \<in> set (permission_requests d1)"
proof -
  have "pr_request_id p \<notin> set (evicted_ids cap d)"
  proof
    assume "pr_request_id p \<in> set (evicted_ids cap d)"
    then obtain q where "q \<in> set (permission_requests d)" "evictable d q" "pr_request_id q = pr_request_id p"
      unfolding evicted_ids_def using set_take_subset by fastforce
    with assms(2,3) have "q = p" by (auto simp: requests_ok_def distinct_map inj_on_def)
    with \<open>evictable d q\<close> assms(4) show False by (simp add: evictable_def)
  qed
  with assms(1,3) show ?thesis by (auto simp: evictClosedRequests_def tx_exec_Inr split: if_splits)
qed

lemma evict_spawns: "evictClosedRequests s cap d = Inr (u, d1) \<Longrightarrow> spawns d1 = spawns d"
  by (auto simp: evictClosedRequests_def tx_exec_Inr split: if_splits)

lemma refreshAfter_frame:
  "refreshFamiliesAfterStateChange s a b ex d = Inr (u, d1) \<Longrightarrow> permission_requests d1 = permission_requests d
     \<and> map (\<lambda>r. (s_instance_id r, s_state r)) (spawns d1) = map (\<lambda>r. (s_instance_id r, s_state r)) (spawns d)"
  by (auto simp: refreshFamiliesAfterStateChange_def tx_return_def refreshFamilies_def tx_exec_Inr Let_def o_def split: if_splits)

text \<open>
  The first write of a relayed request, as one step: the row that met the gate is in check_permission and held by
  the new request, which awaits an answer under the next id; no other request is new and no other row moved.
\<close>

definition recordedRelay :: "string \<Rightarrow> HookGate \<Rightarrow> RelayRequest \<Rightarrow> db \<Rightarrow> db \<Rightarrow> bool" where
  "recordedRelay i g req d d1 \<longleftrightarrow>
     (\<exists>r0. find_spawn d i = Some r0 \<and> hookGate d g r0)
     \<and> (\<exists>r1. find_spawn d1 i = Some r1 \<and> s_state r1 = StateCheckPermission \<and> \<not> noRequestHoldsRow d1 r1)
     \<and> (\<exists>p \<in> set (permission_requests d1). the_request i (rq_RequestToken req) p \<and> awaitingAnswer p \<and> pr_request_id p = next_request_id d
          \<and> pr_tool_name p = rq_ToolName req \<and> pr_tool_input p = rq_ToolInput req
          \<and> set (permission_requests d1) \<subseteq> insert p (set (permission_requests d)))
     \<and> map s_instance_id (spawns d1) = map s_instance_id (spawns d)
     \<and> (\<forall>r \<in> set (spawns d1). s_instance_id r \<noteq> i \<longrightarrow> (\<exists>q \<in> set (spawns d). s_instance_id q = s_instance_id r \<and> s_state q = s_state r))"

lemma recordedRelay_emit [simp]: "recordedRelay i g req d (emit ev d1) = recordedRelay i g req d d1"
  by (simp add: recordedRelay_def emit_def find_spawn_def noRequestHoldsRow_def)

lemma evict_subset: "evictClosedRequests s cap d = Inr (u, d1) \<Longrightarrow> set (permission_requests d1) \<subseteq> set (permission_requests d)"
  by (auto simp: evictClosedRequests_def tx_exec_Inr split: if_splits)

lemma gatedHookUpdate_relay:
  assumes "gatedHookUpdate i g (relayStateSet s) p b no_cond d = (True, d1)" and "store_ok d"
  shows "\<exists>r0. find_spawn d i = Some r0 \<and> hookGate d g r0" and "map s_instance_id (spawns d1) = map s_instance_id (spawns d)"
    and "r \<in> set (spawns d1) \<Longrightarrow> s_instance_id r \<noteq> i \<Longrightarrow> r \<in> set (spawns d)"
proof -
  have d1: "spawns d1 = update_where (\<lambda>r. s_instance_id r = i \<and> hookGate d g r) (hookWrite g (relayStateSet s d) p b) (spawns d)"
    and hit: "\<exists>q \<in> set (spawns d). s_instance_id q = i \<and> hookGate d g q"
    using assms(1) by (auto simp: gatedHookUpdate_def update_spawns_def)
  have id: "s_instance_id (hookWrite g (relayStateSet s d) p b r) = s_instance_id r" for r by (simp add: relayStateSet_def)
  have "distinct (map s_instance_id (spawns d))" using assms(2) by (simp add: store_ok_def rows_ok_def)
  moreover obtain q where "q \<in> set (spawns d)" "s_instance_id q = i" "hookGate d g q" using hit by blast
  ultimately show "\<exists>r0. find_spawn d i = Some r0 \<and> hookGate d g r0"
    unfolding find_spawn_def by (auto intro!: exI[of _ q] find_key_unique)
  show "map s_instance_id (spawns d1) = map s_instance_id (spawns d)" unfolding d1 by (simp add: update_where_def relayStateSet_def)
  show "r \<in> set (spawns d)" if "r \<in> set (spawns d1)" "s_instance_id r \<noteq> i"
    using that unfolding d1 by (auto simp: set_update_where relayStateSet_def split: if_splits)
qed

lemma relay_facts:
  assumes "store_ok d" and "relayTx s i g req cap d = Inr (y, d')"
  shows "recordedRelay i g req d d'"
proof -
  obtain prior d1 r1 elig d2 where
    u: "gatedHookUpdate i g (relayStateSet s) (rq_TranscriptPath req) (rq_TranscriptPresent req) no_cond d = (True, d1)"
    and d2: "d2 = d1\<lparr>permission_requests := permission_requests d1 @ [relay_request d1 i req elig r1], next_request_id := next_request_id d1 + 1\<rparr>"
    and rest: "tx_bind (evictClosedRequests s cap) (\<lambda>_.
              tx_bind (refreshFamiliesAfterStateChange s prior StateCheckPermission ([] :: unit list)) (\<lambda>_.
              tx_return (prior, next_request_id d2 - 1))) d2 = Inr (y, d')"
    and f: "find_spawn d1 i = Some r1"
    using relayTx_Inr[OF assms(2)] by blast
  let ?p = "relay_request d1 i req elig r1"
  have id: "next_request_id d1 = next_request_id d" "permission_requests d1 = permission_requests d"
    using u by (auto simp: gatedHookUpdate_def update_spawns_def)
  have ok2: "requests_ok d2"
    using assms(1) by (force simp: d2 id store_ok_def requests_ok_def list_all_iff req_ok_def relay_request_def blank_request_def)
  obtain d3 v w where ev: "evictClosedRequests s cap d2 = Inr (v, d3)"
    and rf: "refreshFamiliesAfterStateChange s prior StateCheckPermission ([] :: unit list) d3 = Inr (w, d')"
    using rest by (auto simp: tx_bind_Inr tx_return_def)
  have p: "?p \<in> set (permission_requests d')"
    using evict_keeps_awaiting[OF ev ok2, of ?p] blank_awaits[of d1 i req elig r1] refreshAfter_frame[OF rf] by (simp add: d2)
  have d3: "spawns d3 = spawns d1" using evict_spawns[OF ev] by (simp add: d2)
  have st: "s_state r = StateCheckPermission" if "r \<in> set (spawns d')" "s_instance_id r = i" for r
  proof -
    have pairs: "map (\<lambda>r. (s_instance_id r, s_state r)) (spawns d') = map (\<lambda>r. (s_instance_id r, s_state r)) (spawns d1)"
      using refreshAfter_frame[OF rf] d3 by simp
    have "(s_instance_id r, s_state r) \<in> set (map (\<lambda>r. (s_instance_id r, s_state r)) (spawns d1))"
      unfolding pairs[symmetric] using that(1) by auto
    then have "\<exists>q \<in> set (spawns d1). s_instance_id q = i \<and> s_state q = s_state r"
      using that(2) by auto
    then obtain q where "q \<in> set (spawns d1)" "s_instance_id q = i" "s_state q = s_state r" by blast
    moreover have "distinct (map s_instance_id (spawns d))" using assms(1) by (simp add: store_ok_def rows_ok_def)
    ultimately show ?thesis using relay_moves[OF _ u, of q] by simp
  qed
  have "(i, s_state r1) \<in> set (map (\<lambda>r. (s_instance_id r, s_state r)) (spawns d'))"
    using find_spawn_Some[OF f] refreshAfter_frame[OF rf] d3 by auto
  then have "i \<in> s_instance_id ` set (spawns d')" by auto
  then obtain r where r: "find_spawn d' i = Some r"
    unfolding find_spawn_def using find_key_None by (metis option.exhaust)
  then have "s_state r = StateCheckPermission" "s_instance_id r = i" using st find_spawn_Some[OF r] by auto
  moreover have "\<not> noRequestHoldsRow d' r"
    unfolding noRequestHoldsRow_def any_row_iff
    using p blank_awaits[of d1 i req elig r1] \<open>s_instance_id r = i\<close> by (auto intro: bexI[of _ ?p])
  ultimately have row: "\<exists>r1. find_spawn d' i = Some r1 \<and> s_state r1 = StateCheckPermission \<and> \<not> noRequestHoldsRow d' r1" using r by blast
  have "set (permission_requests d') \<subseteq> insert ?p (set (permission_requests d))"
    using evict_subset[OF ev] refreshAfter_frame[OF rf] by (auto simp: d2 id)
  with p have req: "\<exists>p \<in> set (permission_requests d'). the_request i (rq_RequestToken req) p \<and> awaitingAnswer p \<and> pr_request_id p = next_request_id d
          \<and> pr_tool_name p = rq_ToolName req \<and> pr_tool_input p = rq_ToolInput req
          \<and> set (permission_requests d') \<subseteq> insert p (set (permission_requests d))"
    using blank_awaits[of d1 i req elig r1] by (intro bexI[of _ ?p]) (auto simp: the_request_def id relay_request_def blank_request_def)
  have same: "map (\<lambda>r. (s_instance_id r, s_state r)) (spawns d') = map (\<lambda>r. (s_instance_id r, s_state r)) (spawns d1)"
    using refreshAfter_frame[OF rf] d3 by simp
  from arg_cong[OF same, of "map fst"] have ids: "map s_instance_id (spawns d') = map s_instance_id (spawns d)"
    using gatedHookUpdate_relay(2)[OF u assms(1)] by (simp add: o_def)
  have "\<exists>q \<in> set (spawns d). s_instance_id q = s_instance_id r \<and> s_state q = s_state r" if r: "r \<in> set (spawns d')" "s_instance_id r \<noteq> i" for r
  proof -
    have "(s_instance_id r, s_state r) \<in> set (map (\<lambda>r. (s_instance_id r, s_state r)) (spawns d1))" unfolding same[symmetric] using r(1) by auto
    then obtain q where "q \<in> set (spawns d1)" "s_instance_id q = s_instance_id r" "s_state q = s_state r" by auto
    with gatedHookUpdate_relay(3)[OF u assms(1), of q] r(2) show ?thesis by auto
  qed
  with row req ids gatedHookUpdate_relay(1)[OF u assms(1)] show ?thesis unfolding recordedRelay_def by blast
qed

lemma fold_max_in: "fold max xs (x::int) \<in> insert x (set xs)"
proof (induction xs arbitrary: x)
  case (Cons a xs)
  then show ?case using Cons.IH[of "max a x"] by (auto simp: max_def split: if_splits)
qed simp

lemma newestCovered_Some:
  assumes "newestCovered i covers d = Some n"
  shows "\<exists>q \<in> set (permission_requests d). pr_instance_id q = i \<and> n = pr_request_id q"
proof -
  let ?l = "map pr_request_id (filter (\<lambda>p. pr_instance_id p = i \<and> pr_proven_gone_at p = None \<and> covers p) (permission_requests d))"
  have "n \<in> set ?l"
  proof (cases ?l)
    case Nil
    with assms show ?thesis by (simp only: newestCovered_def) simp
  next
    case (Cons a as)
    then have "n = fold max as a" using assms by (simp only: newestCovered_def) simp
    with fold_max_in[of as a] Cons show ?thesis by simp
  qed
  then show ?thesis by auto
qed

section \<open>Properties\<close>

text \<open>
  The cap eviction deletes only closed requests whose dialog is proven gone or whose Spawn is
  finished, never one that awaits an answer and never the newest request of a Spawn that still
  has one awaiting; and it never deletes below the cap.
\<close>

theorem eviction_is_safe:
  assumes "evictClosedRequests s cap d = Inr (u, d1)" and "requests_ok d"
  shows "list_all (\<lambda>p. p \<in> set (permission_requests d1) \<or> evictable d p) (permission_requests d)
     \<and> min cap (int (length (permission_requests d))) \<le> int (length (permission_requests d1))
     \<and> list_all (\<lambda>p. p \<in> set (permission_requests d)) (permission_requests d1)"
proof (cases "permission_requests d1 = permission_requests d")
  case True
  then show ?thesis by (auto simp: list_all_iff)
next
  case False
  let ?ps = "permission_requests d"
  let ?v = "take (nat (int (length ?ps) - cap)) (sort_key pr_decided_at (filter (evictable d) ?ps))"
  have d1: "permission_requests d1 = filter (\<lambda>p. pr_request_id p \<notin> set (map pr_request_id ?v)) ?ps"
    and cap: "cap \<le> int (length ?ps)" "cap > 0"
    using assms(1) False by (auto simp: evictClosedRequests_def tx_exec_Inr evicted_ids_def split: if_splits)
  have sub: "set ?v \<subseteq> {p \<in> set ?ps. evictable d p}"
    using set_take_subset by fastforce
  have same: "p = q" if "p \<in> set ?ps" "q \<in> set ?ps" "pr_request_id p = pr_request_id q" for p q
    using that assms(2) by (auto simp: requests_ok_def distinct_map inj_on_def)
  have kept: "p \<in> set (permission_requests d1) \<or> evictable d p" if p: "p \<in> set ?ps" for p
  proof (cases "pr_request_id p \<in> set (map pr_request_id ?v)")
    case True
    then obtain q where "q \<in> set ?v" "pr_request_id q = pr_request_id p" by auto
    with sub same[OF _ p] show ?thesis by auto
  next
    case False
    with p show ?thesis by (simp add: d1)
  qed
  have "length ?ps = length (filter (\<lambda>p. pr_request_id p \<in> set (map pr_request_id ?v)) ?ps) + length (permission_requests d1)"
    unfolding d1 by (rule sum_length_filter_compl[symmetric])
  moreover have "length (filter (\<lambda>p. pr_request_id p \<in> set (map pr_request_id ?v)) ?ps) \<le> length ?v"
  proof -
    have "length (filter (\<lambda>p. pr_request_id p \<in> set (map pr_request_id ?v)) ?ps)
        = card (pr_request_id ` set (filter (\<lambda>p. pr_request_id p \<in> set (map pr_request_id ?v)) ?ps))"
      using assms(2) distinct_card[of "map pr_request_id (filter (\<lambda>p. pr_request_id p \<in> set (map pr_request_id ?v)) ?ps)"]
      by (simp add: requests_ok_def distinct_map_filter)
    also have "\<dots> \<le> card (set (map pr_request_id ?v))" by (rule card_mono) auto
    also have "\<dots> \<le> length ?v" using card_length[of "map pr_request_id ?v"] by simp
    finally show ?thesis .
  qed
  moreover have "length ?v \<le> nat (int (length ?ps) - cap)" by simp
  ultimately have "min cap (int (length ?ps)) \<le> int (length (permission_requests d1))" using cap by linarith
  moreover have "\<forall>p \<in> set (permission_requests d1). p \<in> set ?ps" by (simp add: d1)
  ultimately show ?thesis using kept unfolding list_all_iff by blast
qed

theorem eviction_is_safe_witness:
  "\<exists>d1. evictClosedRequests sample_store 1 sample_db = Inr ((), d1) \<and> sample_request \<in> set (permission_requests d1)"
proof -
  have "requests_ok sample_db"
    by (simp add: requests_ok_def sample_db_def sample_request_def req_ok_def)
  moreover have "evictClosedRequests sample_store 1 sample_db = Inr ((), sample_db)"
    by (simp add: evictClosedRequests_def sample_store_def sample_db_def)
  moreover have "\<not> evictable sample_db sample_request"
    by (simp add: evictable_def sample_request_def awaitingAnswer_def)
  ultimately show ?thesis
    using eviction_is_safe[of sample_store 1 sample_db "()" sample_db] by (simp add: list_all_iff sample_db_def)
qed

text \<open>
  C17. The relay hook's first write is all or nothing. An error leaves the database as it was, unless the commit
  is unconfirmed; then the write is there whole or not at all. An inserted request leaves the row that met the
  gate in check_permission, held by the one new request, awaiting an answer. Any other outcome has written
  nothing: the database is what the other connections left.
\<close>

theorem relay_insert_atomic:
  assumes "store_ok d"
  shows "case InsertRelayRequest s i g req cap d of
      (Inl e, d1) \<Rightarrow> d1 = d \<or> e = ErrCommitUnconfirmed \<and> recordedRelay i g req d d1
    | (Inr (out, _), d1) \<Rightarrow> out = UpsertInserted \<and> recordedRelay i g req d d1 \<or> out = UpsertNoChange \<and> d1 = others s 9 d"
proof (cases "inWriteTx s (relayTx s i g req cap) d")
  case (Pair x d1)
  show ?thesis
  proof (cases x)
    case (Inl e)
    with Pair have "d1 = d \<or> e = ErrCommitUnconfirmed \<and> (\<exists>y. relayTx s i g req cap d = Inr (y, d1))" and "e = errNotApplied \<Longrightarrow> d1 = d"
      by (auto simp: inWriteTx_def split: if_splits sum.splits)
    with relay_facts[OF assms] Pair Inl show ?thesis
      by (auto simp: InsertRelayRequest_def call_bind_def call_return_def read_then_def split: store_error.splits sum.splits prod.splits)
  next
    case (Inr y)
    with Pair have tx: "relayTx s i g req cap d = Inr (y, d1)"
      by (auto simp: inWriteTx_def split: if_splits sum.splits)
    show ?thesis
      using relay_facts[OF assms tx] Pair Inr by (cases y) (simp add: InsertRelayRequest_def)
  qed
qed

definition sample_relay :: RelayRequest where
  "sample_relay = \<lparr>rq_RequestToken = ''k2'', rq_ToolName = ''Bash'', rq_ToolInput = ''{}'', rq_ToolUseID = ''u1'', rq_AgentID = [],
     rq_MainTurnEndEligible = None, rq_Hook = \<lparr>pi_PID = 11, pi_Starttime = ''h0'', pi_PIDNamespace = []\<rparr>, rq_SettledAt = 60000,
     rq_TranscriptPath = [], rq_TranscriptPresent = False\<rparr>"

lemma sample_store_ok: "store_ok sample_db"
  by (simp add: store_ok_def requests_ok_def rows_ok_def held_not_working_def sample_db_def sample_row_def sample_request_def
      req_ok_def IsLiveState_iff)

theorem relay_insert_atomic_witness:
  "\<exists>d1 r1 a. InsertRelayRequest sample_store ''b'' sample_gate sample_relay 0 sample_db = (Inr (UpsertInserted, a), d1)
     \<and> find_spawn d1 ''b'' = Some r1 \<and> s_state r1 = StateCheckPermission \<and> \<not> noRequestHoldsRow d1 r1"
proof -
  have "\<exists>d1 a. InsertRelayRequest sample_store ''b'' sample_gate sample_relay 0 sample_db = (Inr (UpsertInserted, a), d1)"
    by (simp add: InsertRelayRequest_def inWriteTx_def relayTx_def tx_bind_def tx_exec_def tx_return_def gatedHookUpdate_def
        update_spawns_def find_spawn_def hookGate_iff sample_store_def sample_db_def sample_gate_def sample_row_def update_where_def
        insert_request_def the_request_def relay_request_def blank_request_def sample_relay_def sample_request_def relayStateSet_def
        evictClosedRequests_def refreshFamiliesAfterStateChange_def contributes_def refreshFamilies_def Let_def)
  then obtain d1 a where e: "InsertRelayRequest sample_store ''b'' sample_gate sample_relay 0 sample_db = (Inr (UpsertInserted, a), d1)"
    by blast
  from relay_insert_atomic[OF sample_store_ok, where s = sample_store and i = "''b''" and g = sample_gate and req = sample_relay and cap = 0] show ?thesis
    unfolding e by (auto simp: recordedRelay_def)
qed

text \<open>
  The first verdict wins: after a recorded decide the request holds that verdict, and any
  further decide on it, with whatever verdict, reason or cutoff, writes nothing and says so.
\<close>

theorem decide_first_call_wins:
  assumes "quiet s" and "distinct (map (\<lambda>p. (pr_instance_id p, pr_request_token p)) (permission_requests d))"
    and "DecideRelayRequest s i tok v reason w cutoff d = (Inr True, d1)"
  shows "any_row (\<lambda>p. the_request i tok p \<and> pr_decision p = Some v) (permission_requests d1)
     \<and> DecideRelayRequest s i tok v' reason' w' cutoff' d1 = (Inr False, d1)"
proof -
  let ?P = "decideMatch d i tok (storeTimestamp cutoff)"
  let ?f = "decideSet d v reason"
  have d1: "permission_requests d1 = update_where ?P ?f (permission_requests d)" and hit: "\<exists>p \<in> set (permission_requests d). ?P p"
    using assms(1,3)
    by (auto simp: DecideRelayRequest_def inWriteTx_def decideTx_def tx_bind_def tx_exec_def update_requests_def tx_return_def
        emitDecisionCommitted_def find_None_iff find_Some_iff split: option.splits)
  then obtain p where p: "p \<in> set (permission_requests d)" "?P p" by blast
  have decided: "pr_decision q = Some v" if "q \<in> set (permission_requests d1)" "the_request i tok q" for q
  proof -
    from that(1) d1 obtain q0 where q0: "q0 \<in> set (permission_requests d)" "q = (if ?P q0 then ?f q0 else q0)"
      by (auto simp: set_update_where)
    then have "the_request i tok q0" using that(2) by (auto simp: decideSet_def the_request_def split: if_splits)
    then have "q0 = p" using p q0(1) assms(2) by (auto simp: decideMatch_def the_request_def distinct_map inj_on_def)
    with p(2) q0(2) show ?thesis by (simp add: decideSet_def)
  qed
  have "?f p \<in> set (permission_requests d1)" using p unfolding d1 by (rule update_where_hit)
  then have one: "any_row (\<lambda>p. the_request i tok p \<and> pr_decision p = Some v) (permission_requests d1)"
    using p(2) by (auto simp: decideSet_def decideMatch_def the_request_def intro!: bexI[of _ "?f p"])
  have "find (decideMatch d1 i tok (storeTimestamp cutoff')) (permission_requests d1) = None"
    using decided by (auto simp: find_None_iff decideMatch_def)
  then have "DecideRelayRequest s i tok v' reason' w' cutoff' d1 = (Inr False, d1)"
    using assms(1) by (simp add: DecideRelayRequest_def inWriteTx_def decideTx_def tx_bind_def tx_exec_def update_requests_def)
  with one show ?thesis by blast
qed

theorem decide_first_call_wins_witness:
  "\<exists>d1. DecideRelayRequest sample_store ''a'' ''k'' ''allow'' [] ''decide'' 0 sample_db = (Inr True, d1)
     \<and> DecideRelayRequest sample_store ''a'' ''k'' ''deny'' [] ''decide'' 0 d1 = (Inr False, d1)"
proof -
  have "\<exists>d1. DecideRelayRequest sample_store ''a'' ''k'' ''allow'' [] ''decide'' 0 sample_db = (Inr True, d1)"
    by (simp add: DecideRelayRequest_def inWriteTx_def decideTx_def tx_bind_def tx_exec_def tx_return_def update_requests_def decideMatch_def
        finishedSpawn_def sample_store_def sample_db_def sample_request_def sample_row_def the_request_def)
  with decide_first_call_wins[of sample_store sample_db "''a''" "''k''" "''allow''" "[]" "''decide''" 0 _ "''deny''" "[]" "''decide''" 0]
  show ?thesis by (auto simp: sample_db_def)
qed

text \<open>
  C18. A verdict reaches the agent at most once, and not both ways: after the relay hook's ack of a
  decision a second ack and the timeout deny match nothing, and neither a pane answer's intent nor
  a record of an answer given outside can be written on the request.
\<close>

theorem ack_excludes_other_answers:
  assumes "quiet s" and "distinct (map (\<lambda>p. (pr_instance_id p, pr_request_token p)) (permission_requests d))"
    and "store_ok d" and "at \<noteq> zeroTime" and "AckRelayDecision s i tok at None d = (Inr (Some x), d1)"
  shows "AckRelayDecision s i tok at' None d1 = (Inr None, d1) \<and> DenyRelayTimeout s i tok at' None d1 = (Inr False, d1)
     \<and> RecordPaneIntent s i tok v sender None d1 = (Inr None, d1) \<and> RecordPaneOutside s i tok claim None d1 = (Inr False, d1)"
proof -
  have d1: "permission_requests d1 = update_where (ackMatch i tok) (ackSet at) (permission_requests d)"
    and hit: "\<exists>p \<in> set (permission_requests d). ackMatch i tok p"
    using assms(1,5)
    by (auto simp: AckRelayDecision_def inWriteTx_def run_check_def tx_bind_def tx_exec_def update_requests_def tx_return_def
        find_Some_iff)
  then obtain p where p: "p \<in> set (permission_requests d)" "ackMatch i tok p" by blast
  have "store_ok d1"
    using store_requests.honours_AckRelayDecision[of s i tok at None] assms(3,5) by (auto simp: honours_def store_guarantee_def dest: spec[of _ d])
  then have ok: "req_ok q" if "q \<in> set (permission_requests d1)" for q
    using that by (simp add: store_ok_def requests_ok_def list_all_iff)
  have acked: "pr_delivered_at q = Some at" if "q \<in> set (permission_requests d1)" "the_request i tok q" for q
  proof -
    from that(1) d1 obtain q0 where q0: "q0 \<in> set (permission_requests d)" "q = (if ackMatch i tok q0 then ackSet at q0 else q0)"
      by (auto simp: set_update_where)
    then have "the_request i tok q0" using that(2) by (auto simp: ackSet_def the_request_def split: if_splits)
    then have "q0 = p" using p q0(1) assms(2) by (auto simp: ackMatch_def the_request_def distinct_map inj_on_def)
    with p(2) q0(2) assms(4) show ?thesis by (simp add: ackSet_def millisArg_def)
  qed
  have shut: "\<not> ackMatch i tok q \<and> \<not> timeoutMatch i tok q \<and> \<not> awaitingMatch i tok q" if "q \<in> set (permission_requests d1)" for q
    using acked[OF that] ok[OF that] awaiting_undelivered[OF ok[OF that]]
    by (auto simp: ackMatch_def timeoutMatch_def awaitingMatch_def req_ok_def)
  have none: "update_requests Q f d1 = (None, d1)" if "\<And>q. q \<in> set (permission_requests d1) \<Longrightarrow> \<not> Q q" for Q f
  proof -
    have "find Q (permission_requests d1) = None" using that by (auto simp: find_None_iff)
    moreover have "update_where Q f (permission_requests d1) = permission_requests d1"
      using that by (intro update_where_none) simp
    ultimately show ?thesis by (simp add: update_requests_def)
  qed
  show ?thesis
    using assms(1) shut
    by (simp add: AckRelayDecision_def DenyRelayTimeout_def RecordPaneIntent_def RecordPaneOutside_def inWriteTx_def run_check_def
        runPaneCheck_def tx_bind_def tx_exec_def tx_return_def call_bind_def none)
qed

theorem ack_excludes_other_answers_witness:
  "\<exists>d1 x. AckRelayDecision sample_store ''a'' ''k'' 9000 None
        (sample_db\<lparr>permission_requests := [sample_request\<lparr>pr_decision := Some ''allow''\<rparr>]\<rparr>) = (Inr (Some x), d1)
     \<and> DenyRelayTimeout sample_store ''a'' ''k'' 9001 None d1 = (Inr False, d1)"
proof -
  let ?d = "sample_db\<lparr>permission_requests := [sample_request\<lparr>pr_decision := Some ''allow''\<rparr>]\<rparr>"
  have "store_ok ?d"
    by (simp add: store_ok_def requests_ok_def rows_ok_def held_not_working_def sample_db_def sample_row_def sample_request_def
        req_ok_def IsLiveState_iff)
  moreover have "\<exists>d1 x. AckRelayDecision sample_store ''a'' ''k'' 9000 None ?d = (Inr (Some x), d1)"
    by (simp add: AckRelayDecision_def inWriteTx_def run_check_def tx_bind_def tx_exec_def tx_return_def update_requests_def ackMatch_def
        the_request_def sample_store_def sample_request_def)
  ultimately show ?thesis
    using ack_excludes_other_answers[of sample_store ?d 9000 "''a''" "''k''" _ _ 9001] by (fastforce simp: zeroTime_def)
qed

text \<open>
  A turn-end proof covers only the turn it ends: whatever other connections do between its
  read and its write, every request it marks is a main-agent request of the Spawn, not yet proven,
  recorded before the whole second the hook started and with an id the read already saw; nothing
  else in the database changes.
\<close>

theorem turn_end_proof_covers_only_its_turn:
  assumes "rp_How x = ProvenGoneTurnEnd" and "ProveRequestsGone s i g x d = (res, d1)"
  shows "d1 = d \<or> d1 = others s 0 d \<or> (\<exists>P at. d1 = (others s 0 d)\<lparr>permission_requests :=
        update_where P (proveSet at ProvenGoneTurnEnd) (permission_requests (others s 0 d))\<rparr>
     \<and> (\<forall>p. P p \<longrightarrow> pr_instance_id p = i \<and> pr_main_turn_end_eligible p \<and> pr_agent_id p = None \<and> pr_proven_gone_at p = None
          \<and> pr_created_at p < storeTimestamp (rp_RecordedBefore x)
          \<and> any_row (\<lambda>q. pr_request_id p \<le> pr_request_id q \<and> pr_instance_id q = i) (permission_requests d)))"
proof (cases "rp_RecordedBefore x = zeroTime")
  case True
  with assms show ?thesis by (simp add: ProveRequestsGone_def proofMatch_def)
next
  case False
  let ?c = "\<lambda>p. pr_main_turn_end_eligible p \<and> pr_agent_id p = None \<and> pr_created_at p < storeTimestamp (rp_RecordedBefore x)"
  have pm: "proofMatch x = Inr (Some ?c)" using assms(1) False by (simp add: proofMatch_def)
  show ?thesis
  proof (cases "sqlFails s ''store: prove requests gone: read'' \<or> newestCovered i ?c d = None \<or> sqlFails s ''store: prove requests gone''")
    case True
    then show ?thesis
      using assms(2) by (auto simp: ProveRequestsGone_def pm call_bind_def read_then_def call_return_def Let_def
          split: if_splits option.splits)
  next
    case False
    then obtain n where n: "newestCovered i ?c d = Some n" by auto
    obtain q where q: "q \<in> set (permission_requests d)" "pr_instance_id q = i" "n = pr_request_id q"
      using newestCovered_Some[OF n] by blast
    show ?thesis
      using assms False n q
      by (auto simp: ProveRequestsGone_def pm call_bind_def read_then_def Let_def proveMatch_def
          intro!: exI[of _ "proveMatch (others s 0 d) i g (rp_How x) ?c n"])
  qed
qed

definition sample_proof :: RequestProof where
  "sample_proof = \<lparr>rp_How = ProvenGoneTurnEnd, rp_ToolUseID = [], rp_RecordedBefore = 1800000000000, rp_At = 9000\<rparr>"

theorem turn_end_proof_covers_only_its_turn_witness:
  "\<exists>res d1 P at. ProveRequestsGone sample_store ''a'' sample_gate sample_proof sample_db = (res, d1)
     \<and> d1 = sample_db\<lparr>permission_requests := update_where P (proveSet at ProvenGoneTurnEnd) (permission_requests sample_db)\<rparr>
     \<and> \<not> P (sample_request\<lparr>pr_created_at := ''2099-01-01 00:00:00''\<rparr>)"
proof -
  obtain res d1 where e: "ProveRequestsGone sample_store ''a'' sample_gate sample_proof sample_db = (res, d1)" by force
  have ts: "storeTimestamp 1800000000000 = ''2027-01-15 08:00:00''"
    by code_simp
  have "d1 \<noteq> sample_db"
    using e by (auto simp: ProveRequestsGone_def proofMatch_def sample_proof_def zeroTime_def call_bind_def read_then_def
        sample_store_def newestCovered_def sample_db_def sample_request_def ts proveMatch_def hookGate_iff sample_gate_def sample_row_def
        proveSet_def millisArg_def update_where_def)
  moreover have "others sample_store 0 sample_db = sample_db" by (simp add: sample_store_def)
  ultimately obtain P at where d1: "d1 = sample_db\<lparr>permission_requests := update_where P (proveSet at ProvenGoneTurnEnd) (permission_requests sample_db)\<rparr>"
    and cut: "\<And>p. P p \<Longrightarrow> pr_created_at p < ''2027-01-15 08:00:00''"
    using turn_end_proof_covers_only_its_turn[OF _ e] by (auto simp: sample_proof_def ts)
  have "\<not> P (sample_request\<lparr>pr_created_at := ''2099-01-01 00:00:00''\<rparr>)"
    using cut[of "sample_request\<lparr>pr_created_at := ''2099-01-01 00:00:00''\<rparr>"] by auto
  with e d1 show ?thesis by blast
qed

text \<open>
  \<open>DecidePermissionRequest\<close> with an empty token writes nothing, also when the Spawn has exactly
  one open request: no stored token is empty, so its statement matches no row, and more than one
  open request is refused as ambiguous.
\<close>

theorem decide_without_token_never_writes:
  assumes "quiet s" and "list_all (\<lambda>p. pr_request_token p \<noteq> []) (permission_requests d)"
  shows "DecidePermissionRequest s i [] v reason w d =
    (if length (filter (\<lambda>p. pr_instance_id p = i \<and> awaitingAnswer p) (permission_requests d)) > 1
     then Inl ErrAmbiguousRequest else Inr False, d)"
proof -
  have "find (undecidedMatch i []) (permission_requests d) = None"
    using assms(2) by (auto simp: find_None_iff undecidedMatch_def the_request_def list_all_iff)
  with assms(1) show ?thesis
    by (simp add: DecidePermissionRequest_def call_bind_def read_then_def OpenPermissionRequestsForSpawn_def decideWrite_def
        update_requests_def)
qed

theorem decide_without_token_never_writes_witness:
  "DecidePermissionRequest sample_store ''a'' [] ''allow'' [] ''decide'' sample_db = (Inr False, sample_db)"
  using decide_without_token_never_writes[of sample_store sample_db "''a''" "''allow''" "[]" "''decide''"]
  by (simp add: sample_db_def sample_request_def)

end
