(* ===== verification/Cursor_Runtimes.thy ===== *)
theory Cursor_Runtimes
  imports Find_Missing
begin

text \<open>
  The runtime binding of a Cursor launch (cursor_runtime.go, cursor_missing_read.go): which gateway
  connection owns the launch, its registration, the conversation bound to it, its retirement, and the
  marks of a launch whose gateway is lost. The binding table is \<open>cursor_runtimes\<close>, one row for each
  instance; a write names the complete connection and, through the row of \<open>spawns\<close>, the launch it
  belongs to.

  Instants are nanoseconds of the process clock; \<open>None\<close> is Go's zero time. \<open>now k\<close> is what the
  \<open>k\<close>-th \<open>time.Now\<close> of a call reads, so that a deadline may pass between two statements.
\<close>

definition before :: "int \<Rightarrow> int option \<Rightarrow> bool" where
  "before t until = (case until of None \<Rightarrow> False | Some u \<Rightarrow> t < u)"

section \<open>Statements on the bindings\<close>

definition update_runtimes :: "(CursorRuntime \<Rightarrow> bool) \<Rightarrow> (CursorRuntime \<Rightarrow> CursorRuntime) \<Rightarrow> db \<Rightarrow> bool \<times> db" where
  "update_runtimes P f d = (any_row P (cursor_runtimes d), d\<lparr>cursor_runtimes := update_where P f (cursor_runtimes d)\<rparr>)"

text \<open>The row the binding's launch is in: the subquery of every guarded write on the table.\<close>

definition boundLaunch :: "CursorRuntime \<Rightarrow> spawn_row \<Rightarrow> bool" where
  "boundLaunch c r \<longleftrightarrow> s_instance_id r = cr_InstanceID c \<and> s_agent r = AgentCursor
     \<and> where_true (sql_eq (s_launch_token r) (Some (cr_Token c))) \<and> s_life_number r = cr_Life c
     \<and> where_true (sql_eq (s_pane_pid r) (Some (cr_GatewayPID c)))
     \<and> where_true (sql_eq (s_pane_starttime r) (Some (cr_GatewayStart c)))"

definition execCursorRuntime :: "store \<Rightarrow> string \<Rightarrow> (db \<Rightarrow> bool \<times> db) \<Rightarrow> bool call" where
  "execCursorRuntime s errPrefix stmt = dbExec s errPrefix stmt"

section \<open>Registration\<close>

definition registerGuard :: "Spawn \<Rightarrow> CursorRuntime \<Rightarrow> spawn_row \<Rightarrow> bool" where
  "registerGuard row b r \<longleftrightarrow> s_instance_id r = cr_InstanceID b \<and> s_agent r = AgentCursor \<and> s_state r = StatePending
     \<and> where_true (sql_eq (s_launch_token r) (Some (cr_Token b))) \<and> s_life_number r = cr_Life b
     \<and> where_true (sql_eq (s_pane_pid r) (Some (cr_GatewayPID b)))
     \<and> where_true (sql_eq (s_pane_starttime r) (Some (cr_GatewayStart b)))
     \<and> snapshotMatch (sp_Snapshot row) r"

text \<open>
  The INSERT of the examined launch's binding. On a conflict it replaces the binding of another
  launch and leaves one of the same launch as it is.
\<close>

definition registerStmt :: "Spawn \<Rightarrow> CursorRuntime \<Rightarrow> db \<Rightarrow> bool \<times> db" where
  "registerStmt row b d =
     (if \<not> any_row (registerGuard row b) (spawns d) then (False, d)
      else let new = b\<lparr>cr_SessionID := [], cr_Terminated := False\<rparr>;
               same = (\<lambda>c. cr_InstanceID c = cr_InstanceID b)
           in if any_row same (cursor_runtimes d)
              then update_runtimes (\<lambda>c. same c \<and> (cr_Token c \<noteq> cr_Token b \<or> cr_Life c \<noteq> cr_Life b)) (\<lambda>_. new) d
              else (True, d\<lparr>cursor_runtimes := cursor_runtimes d @ [new]\<rparr>))"

definition RegisterCursorRuntime :: "store \<Rightarrow> Spawn \<Rightarrow> CursorRuntime \<Rightarrow> bool call" where
  "RegisterCursorRuntime s row b =
     (if cr_InstanceID b \<noteq> sp_InstanceID row \<or> cr_Token b = [] \<or> cr_Token b \<noteq> li_Token (sp_Identity row)
         \<or> cr_GatewayPID b \<noteq> li_PanePID (sp_Identity row) \<or> cr_GatewayStart b = [] \<or> cr_RuntimePID b \<le> 0
         \<or> cr_RuntimeStart b = [] \<or> cr_Connection b = [] \<or> cr_InputPipe b = [] \<or> cr_OutputPipe b = []
      then call_return False
      else execCursorRuntime s ''store: register Cursor runtime'' (registerStmt row b))"

definition ReadCursorRuntime :: "store \<Rightarrow> string \<Rightarrow> db \<Rightarrow> store_error + CursorRuntime" where
  "ReadCursorRuntime s i d =
     (if sqlFails s ''read cursor runtime'' then Inl (DriverError ''read cursor runtime'')
      else (case find (\<lambda>c. cr_InstanceID c = i) (cursor_runtimes d) of
          None \<Rightarrow> Inl (DriverError ''sql: no rows in result set'')
        | Some c \<Rightarrow> Inr c))"

section \<open>The conversation and the end of a binding\<close>

definition unboundMatch :: "CursorRuntime \<Rightarrow> CursorRuntime \<Rightarrow> bool" where
  "unboundMatch b c \<longleftrightarrow> cr_SessionID c = [] \<and> \<not> cr_Terminated c \<and> cursorBindingMatch b c"

definition SetCursorRuntimeSession :: "store \<Rightarrow> CursorRuntime \<Rightarrow> string \<Rightarrow> bool call" where
  "SetCursorRuntimeSession s b sid = execCursorRuntime s ''store: Cursor session'' (\<lambda>d. update_runtimes
     (\<lambda>c. unboundMatch b c \<and> any_row (\<lambda>r. boundLaunch c r \<and> s_state r = StatePending) (spawns d))
     (\<lambda>c. c\<lparr>cr_SessionID := sid\<rparr>) d)"

text \<open>
  \<open>current\<close> is the caller's check, not there (nil) or its answers at its two calls; \<open>cancelled\<close> says
  whether the context was already done inside the transaction.
\<close>

definition loadedLaunch :: "Spawn \<Rightarrow> CursorRuntime \<Rightarrow> string \<Rightarrow> CursorRuntime \<Rightarrow> spawn_row \<Rightarrow> bool" where
  "loadedLaunch row b path c r \<longleftrightarrow> boundLaunch c r \<and> s_state r = StatePending
     \<and> where_true (sql_eq (s_session_id r) (Some (cr_SessionID b))) \<and> where_true (sql_eq (s_jsonl_path r) (Some path))
     \<and> snapshotMatch (sp_Snapshot row) r
     \<and> coalesce (s_tmux_socket r) [] = li_Socket (sp_Identity row) \<and> coalesce (s_tmux_server_pid r) 0 = li_ServerPID (sp_Identity row)
     \<and> coalesce (s_tmux_server_started r) 0 = li_ServerStart (sp_Identity row)
     \<and> coalesce (s_tmux_server_starttime r) [] = li_ServerStarttime (sp_Identity row)
     \<and> coalesce (s_pane_id r) [] = li_PaneID (sp_Identity row)"

definition bindLoadedTx :: "store \<Rightarrow> Spawn \<Rightarrow> CursorRuntime \<Rightarrow> string \<Rightarrow> int option \<Rightarrow> (nat \<Rightarrow> bool) option \<Rightarrow> bool \<Rightarrow> (nat \<Rightarrow> int) \<Rightarrow> bool tx" where
  "bindLoadedTx s row b path until current cancelled now =
     (case current of
        None \<Rightarrow> (\<lambda>_. Inl (CheckFailed ''store: loaded Cursor publication retired''))
      | Some f \<Rightarrow>
          if \<not> f 0 \<or> cancelled \<or> \<not> before (now 0) until
          then (\<lambda>_. Inl (CheckFailed ''store: loaded Cursor publication retired''))
          else tx_bind (tx_exec s ''bind loaded cursor session'' (\<lambda>d. update_runtimes
                 (\<lambda>c. unboundMatch b c \<and> any_row (loadedLaunch row b path c) (spawns d))
                 (\<lambda>c. c\<lparr>cr_SessionID := cr_SessionID b\<rparr>) d)) (\<lambda>applied.
               if \<not> f 1 then (\<lambda>_. Inl (CheckFailed ''store: loaded Cursor publication retired before commit''))
               else tx_return applied))"

definition BindLoadedCursorSession :: "store \<Rightarrow> Spawn \<Rightarrow> CursorRuntime \<Rightarrow> string \<Rightarrow> int option \<Rightarrow> (nat \<Rightarrow> bool) option \<Rightarrow> bool
     \<Rightarrow> (nat \<Rightarrow> int) \<Rightarrow> bool call" where
  "BindLoadedCursorSession s row b path until current cancelled now =
     (if cr_Terminated b \<or> cr_InstanceID b \<noteq> sp_InstanceID row \<or> cr_GatewayPID b \<noteq> li_PanePID (sp_Identity row)
         \<or> cr_GatewayStart b \<noteq> li_PaneStarttime (sp_Identity row) \<or> cr_SessionID b = [] \<or> sp_SessionID row \<noteq> cr_SessionID b
         \<or> sp_JSONLPath row \<noteq> path \<or> path = [] \<or> li_Token (sp_Identity row) \<noteq> cr_Token b \<or> sp_LifeNumber row \<noteq> cr_Life b
      then call_return False
      else inWriteTx s (bindLoadedTx s row b path until current cancelled now))"

definition MarkCursorRuntimeGone :: "store \<Rightarrow> CursorRuntime \<Rightarrow> bool call" where
  "MarkCursorRuntimeGone s b = execCursorRuntime s ''store: retire Cursor runtime'' (\<lambda>d. update_runtimes
     (\<lambda>c. cursorBindingMatch b c \<and> any_row (boundLaunch c) (spawns d)) (\<lambda>c. c\<lparr>cr_Terminated := True\<rparr>) d)"

section \<open>A lost gateway\<close>

definition cursorRuntimeAbsent :: "CursorRuntime \<Rightarrow> bool" where
  "cursorRuntimeAbsent b \<longleftrightarrow> cr_RuntimePID b = 0 \<and> cr_RuntimeStart b = [] \<and> cr_Connection b = [] \<and> cr_InputPipe b = []
     \<and> cr_OutputPipe b = [] \<and> cr_InputFD b = 0 \<and> cr_OutputFD b = 0 \<and> \<not> cr_Terminated b"

text \<open>The guard is none when the examined row and binding cannot prove a lost gateway.\<close>

definition cursorMissingGuard :: "Spawn \<Rightarrow> CursorRuntime \<Rightarrow> (db \<Rightarrow> spawn_row \<Rightarrow> bool) option" where
  "cursorMissingGuard row b =
     (let x = sp_Identity row in
      if sp_Agent row \<noteq> AgentCursor \<or> sp_InstanceID row \<noteq> cr_InstanceID b \<or> li_Token x = [] \<or> li_PanePID x \<le> 0
         \<or> li_PaneStarttime x = [] then None
      else if cursorRuntimeAbsent b \<and> (li_Token x \<noteq> cr_Token b \<or> sp_LifeNumber row \<noteq> cr_Life b \<or> li_PanePID x \<noteq> cr_GatewayPID b
                \<or> li_PaneStarttime x \<noteq> cr_GatewayStart b \<or> sp_SessionID row \<noteq> cr_SessionID b) then None
      else Some (\<lambda>d r. s_instance_id r = sp_InstanceID row \<and> sameLifeLive (sp_Snapshot row) r \<and> s_agent r = AgentCursor
             \<and> where_true (sql_eq (s_launch_token r) (Some (li_Token x))) \<and> s_life_number r = sp_LifeNumber row
             \<and> where_true (sql_eq (s_pane_pid r) (Some (li_PanePID x)))
             \<and> where_true (sql_eq (s_pane_starttime r) (Some (li_PaneStarttime x)))
             \<and> coalesce (s_tmux_socket r) [] = li_Socket x \<and> coalesce (s_tmux_server_pid r) 0 = li_ServerPID x
             \<and> coalesce (s_tmux_server_started r) 0 = li_ServerStart x
             \<and> coalesce (s_tmux_server_starttime r) [] = li_ServerStarttime x
             \<and> coalesce (s_pane_id r) [] = li_PaneID x \<and> coalesce (s_jsonl_path r) [] = sp_JSONLPath row
             \<and> (if cursorRuntimeAbsent b then \<not> any_row (\<lambda>c. cr_InstanceID c = sp_InstanceID row) (cursor_runtimes d)
                else any_row (\<lambda>c. cursorBindingMatch b c \<and> cr_SessionID c = cr_SessionID b
                       \<and> cr_Terminated c = cr_Terminated b) (cursor_runtimes d))))"

definition markMissingWithoutWaitTx :: "store \<Rightarrow> string \<Rightarrow> (db \<Rightarrow> bool \<times> db) \<Rightarrow> string \<Rightarrow> string
     \<Rightarrow> (string \<times> CondResult \<times> closedRequest list \<times> (string \<times> displayTransition) list) tx" where
  "markMissingWithoutWaitTx s errPrefix stmt i reason =
     tx_bind (terminalMarkOnConn s errPrefix stmt i reason) (\<lambda>(prior, res, closed).
       if res \<noteq> CondApplied then tx_return (prior, res, closed, [])
       else tx_bind (takeDisplayExits s i) (\<lambda>exits.
            tx_bind (refreshFamiliesAfterStateChange s prior StateMissing exits) (\<lambda>_.
            tx_return (prior, res, closed, exits))))"

definition terminalMarkWithoutWait :: "store \<Rightarrow> string \<Rightarrow> (db \<Rightarrow> bool \<times> db) \<Rightarrow> string \<Rightarrow> string \<Rightarrow> (string \<times> CondResult) call" where
  "terminalMarkWithoutWait s errPrefix stmt i reason =
     call_bind (inWriteTx s (markMissingWithoutWaitTx s errPrefix stmt i reason)) (\<lambda>(prior, res, closed, exits) d.
       (Inr (prior, res), if res = CondApplied then emitTerminalCloseout closed i reason (emitDisplayTransitions exits d) else d))"

definition markMissingWhere :: "Spawn \<Rightarrow> (db \<Rightarrow> spawn_row \<Rightarrow> bool) \<Rightarrow> db \<Rightarrow> bool \<times> db" where
  "markMissingWhere row guard d = guarded (sp_InstanceID row) (guard d) (terminalMarkSet StateMissing) d"

definition MarkCursorMissingIfSameLaunch :: "store \<Rightarrow> Spawn \<Rightarrow> CursorRuntime \<Rightarrow> (string \<times> CondResult) call" where
  "MarkCursorMissingIfSameLaunch s row b = (case cursorMissingGuard row b of
     None \<Rightarrow> call_return ([], CondChanged)
   | Some guard \<Rightarrow> terminalMarkWithoutWait s ''store: close lost Cursor launch'' (markMissingWhere row guard) (sp_InstanceID row)
       DecisionReasonFindMissing)"

definition MarkFailedCursorRuntimeMissing :: "store \<Rightarrow> Spawn \<Rightarrow> CursorRuntime \<Rightarrow> (string \<times> CondResult) call" where
  "MarkFailedCursorRuntimeMissing s row b =
     (if cursorRuntimeAbsent b \<or> li_Token (sp_Identity row) \<noteq> cr_Token b \<or> sp_LifeNumber row \<noteq> cr_Life b
         \<or> li_PanePID (sp_Identity row) \<noteq> cr_GatewayPID b \<or> li_PaneStarttime (sp_Identity row) \<noteq> cr_GatewayStart b
      then call_return ([], CondChanged)
      else (case cursorMissingGuard row b of
          None \<Rightarrow> call_return ([], CondChanged)
        | Some guard \<Rightarrow> terminalMarkWithoutWait s ''store: close failed Cursor runtime''
            (markMissingWhere row (\<lambda>d r. guard d r
               \<or> \<not> cr_Terminated b \<and> (case cursorMissingGuard row (b\<lparr>cr_Terminated := True\<rparr>) of None \<Rightarrow> False | Some retired \<Rightarrow> retired d r)))
            (sp_InstanceID row) DecisionReasonFindMissing))"

definition ReadLiveCursorSpawn :: "store \<Rightarrow> string \<Rightarrow> db \<Rightarrow> store_error + Spawn option" where
  "ReadLiveCursorSpawn s i d =
     (if sqlFails s ''store: get spawn'' then Inl (DriverError ''store: get spawn'')
      else Inr (map_option scanSpawn (find (\<lambda>r. s_instance_id r = i \<and> s_agent r = AgentCursor
             \<and> list_ex (\<lambda>v. s_state r = v) liveStates) (spawns d))))"

end
