(* ===== verification/Go_Text.thy ===== *)
theory Go_Text
  imports Prelude
begin

text \<open>
  What the hooks and the Cursor store use of Go's \<open>strings\<close> package: \<open>strings.TrimSpace\<close> on the bytes
  of a text.
\<close>

text \<open>The UTF-8 bytes of the characters \<open>unicode.IsSpace\<close> accepts.\<close>

definition spaceRunes :: "string list" where
  "spaceRunes = map (\<lambda>n. [char_of n]) [9, 10, 11, 12, 13, 32 :: nat]
     @ [[CHR 0xC2, CHR 0x85], [CHR 0xC2, CHR 0xA0], [CHR 0xE1, CHR 0x9A, CHR 0x80], [CHR 0xE2, CHR 0x80, CHR 0xA8],
        [CHR 0xE2, CHR 0x80, CHR 0xA9], [CHR 0xE2, CHR 0x80, CHR 0xAF], [CHR 0xE2, CHR 0x81, CHR 0x9F], [CHR 0xE3, CHR 0x80, CHR 0x80]]
     @ map (\<lambda>n. [CHR 0xE2, CHR 0x80, char_of n]) [128 ..< 139]"

definition leadingSpace :: "string \<Rightarrow> nat" where
  "leadingSpace v = (case find (\<lambda>r. take (length r) v = r) spaceRunes of None \<Rightarrow> 0 | Some r \<Rightarrow> length r)"

definition trailingSpace :: "string \<Rightarrow> nat" where
  "trailingSpace v = (case find (\<lambda>r. take (length r) (rev v) = rev r) spaceRunes of None \<Rightarrow> 0 | Some r \<Rightarrow> length r)"

function trimLeft :: "string \<Rightarrow> string" where
  "trimLeft v = (if v = [] \<or> leadingSpace v = 0 then v else trimLeft (drop (leadingSpace v) v))"
  by pat_completeness auto
termination by (relation "measure length") auto

function trimRight :: "string \<Rightarrow> string" where
  "trimRight v = (if v = [] \<or> trailingSpace v = 0 then v else trimRight (take (length v - trailingSpace v) v))"
  by pat_completeness auto
termination by (relation "measure length") auto

definition strings_TrimSpace :: "string \<Rightarrow> string" where
  "strings_TrimSpace v = trimRight (trimLeft v)"

section \<open>Substrings and base names\<close>

fun strings_Contains :: "string \<Rightarrow> string \<Rightarrow> bool" where
  "strings_Contains [] sub = (sub = [])"
| "strings_Contains (c # cs) sub = (take (length sub) (c # cs) = sub \<or> strings_Contains cs sub)"

fun afterLast :: "char \<Rightarrow> string \<Rightarrow> string" where
  "afterLast x s = rev (takeWhile (\<lambda>c. c \<noteq> x) (rev s))"

definition trimSlashes :: "string \<Rightarrow> string" where
  "trimSlashes p = rev (dropWhile (\<lambda>c. c = CHR ''/'') (rev p))"

definition filepath_Base :: "string \<Rightarrow> string" where
  "filepath_Base p =
     (if p = [] then ''.''
      else let b = afterLast (CHR ''/'') (trimSlashes p) in if b = [] then ''/'' else b)"

end
