(* ===== verification/Cursor_Requests.thy ===== *)
theory Cursor_Requests
  imports Cursor_Runtimes Go_Text
begin

text \<open>
  What a Cursor gateway writes under the authority of its runtime binding: the admission of a
  permission request, the acknowledgement of its verdict, the claim of a pane answer, the proofs that
  a dialog is gone (cursor_permission.go), the check before a prompt (cursor_prompt.go) and the move
  of the binding to a new conversation (cursor_rotation.go).

  \<open>check\<close> is the gateway's own examination of the kernel's and tmux's evidence for the row read under
  the write lock, none when the caller passed nil.
\<close>

section \<open>Authority\<close>

type_synonym CursorCheck = "(Spawn \<Rightarrow> store_error option) option"

definition currentBinding :: "CursorRuntime \<Rightarrow> CursorRuntime \<Rightarrow> bool" where
  "currentBinding b c \<longleftrightarrow> cursorBindingMatch b c \<and> cr_SessionID c = cr_SessionID b \<and> \<not> cr_Terminated c"

definition launchChanged :: "CursorRuntime \<Rightarrow> string \<Rightarrow> Spawn \<Rightarrow> bool" where
  "launchChanged b pendingPath row \<longleftrightarrow>
     cr_SessionID b = [] \<or> cr_Terminated b \<or> sp_Agent row \<noteq> AgentCursor \<or> li_Token (sp_Identity row) \<noteq> cr_Token b
     \<or> sp_LifeNumber row \<noteq> cr_Life b \<or> li_PanePID (sp_Identity row) \<noteq> cr_GatewayPID b
     \<or> li_PaneStarttime (sp_Identity row) \<noteq> cr_GatewayStart b \<or> sp_SessionID row \<noteq> cr_SessionID b
     \<or> sp_State row = StateEnded \<or> sp_State row = StateMissing
     \<or> (sp_State row = StatePending \<and> (pendingPath = [] \<or> sp_JSONLPath row \<noteq> pendingPath))"

definition cursorAuthorityForPrompt :: "store \<Rightarrow> CursorRuntime \<Rightarrow> int option \<Rightarrow> CursorCheck \<Rightarrow> string \<Rightarrow> int \<Rightarrow> Spawn tx" where
  "cursorAuthorityForPrompt s b until check pendingPath now d =
     (case GetSpawn s (cr_InstanceID b) d of
        Inl e \<Rightarrow> Inl e
      | Inr row \<Rightarrow>
          if launchChanged b pendingPath row then Inl (CheckFailed ''store: Cursor launch authority changed'')
          else if sqlFails s ''cursor binding'' then Inl (DriverError ''cursor binding'')
          else if length (filter (currentBinding b) (cursor_runtimes d)) \<noteq> 1
          then Inl (CheckFailed ''store: Cursor connection authority changed'')
          else (case check of
              None \<Rightarrow> Inl (CheckFailed ''store: independent Cursor evidence required'')
            | Some c \<Rightarrow> (case c row of
                Some e \<Rightarrow> Inl e
              | None \<Rightarrow> if until \<noteq> None \<and> \<not> before now until then Inl (CheckFailed ''store: Cursor request deadline passed'')
                        else Inr (row, d))))"

definition cursorAuthority :: "store \<Rightarrow> CursorRuntime \<Rightarrow> int option \<Rightarrow> CursorCheck \<Rightarrow> int \<Rightarrow> Spawn tx" where
  "cursorAuthority s b until check now = cursorAuthorityForPrompt s b until check [] now"

abbreviation "WriterProcessCursorHost \<equiv> ''cursor_host''"

definition UnixMilli :: "int \<Rightarrow> int" where
  "UnixMilli t = t div 1000000"

section \<open>A new request\<close>

text \<open>The columns a Cursor write gives its row when it moves it.\<close>

definition cursorMoveSet :: "store \<Rightarrow> string \<Rightarrow> db \<Rightarrow> spawn_row \<Rightarrow> spawn_row" where
  "cursorMoveSet s v d r = rowVersionAdvance (livenessClear (launchStartClear
     ((hookWriteStateSet (settleMs s) (sql_now_ms d) v r)\<lparr>s_last_seen_at := sql_now_text d, s_ended_at := None, s_idle_since := None\<rparr>)))"

text \<open>A token the row already has fails the insert with the driver's own error.\<close>

definition cursorInsert :: "store \<Rightarrow> CursorRuntime \<Rightarrow> RelayRequest \<Rightarrow> unit tx" where
  "cursorInsert s b req d =
     (case insert_request s ''cursor request insert'' (\<lambda>d. map_option
         (relay_request d (cr_InstanceID b) (req\<lparr>rq_AgentID := []\<rparr>) False) (find_spawn d (cr_InstanceID b))) d of
        Inl _ \<Rightarrow> Inl (DriverError ''cursor request insert'')
      | Inr (_, d1) \<Rightarrow> Inr ((), d1))"

definition insertCursorTx :: "store \<Rightarrow> CursorRuntime \<Rightarrow> RelayRequest \<Rightarrow> int \<Rightarrow> int option \<Rightarrow> CursorCheck \<Rightarrow> int \<Rightarrow> (string \<times> int) tx" where
  "insertCursorTx s b req cap until check now =
     tx_bind (cursorAuthority s b until check now) (\<lambda>row.
     tx_bind (tx_exec s ''cursor request state write''
        (guarded (cr_InstanceID b) (\<lambda>_. True) (cursorMoveSet s StateCheckPermission))) (\<lambda>_.
     tx_bind (cursorInsert s b req) (\<lambda>_ d1.
     tx_bind (evictClosedRequests s cap) (\<lambda>_.
     tx_bind (refreshFamiliesAfterStateChange s (sp_State row) StateCheckPermission ([] :: unit list)) (\<lambda>_.
     tx_return (sp_State row, next_request_id d1 - 1))) d1)))"

definition zeroProcess :: ProcessIdentity where
  "zeroProcess = \<lparr>pi_PID = 0, pi_Starttime = [], pi_PIDNamespace = []\<rparr>"

definition InsertCursorRequest :: "store \<Rightarrow> CursorRuntime \<Rightarrow> RelayRequest \<Rightarrow> int \<Rightarrow> int option \<Rightarrow> CursorCheck \<Rightarrow> int \<Rightarrow> unit call" where
  "InsertCursorRequest s b req cap until check now =
     (if rq_RequestToken req = [] \<or> rq_ToolUseID req = [] \<or> rq_SettledAt req = zeroTime \<or> rq_Hook req \<noteq> zeroProcess
      then (\<lambda>d. (Inl (CheckFailed ''store: invalid Cursor request''), d))
      else call_bind (inWriteTx s (insertCursorTx s b req cap until check now)) (\<lambda>(prior, rid) d.
        (Inr (), emit (insertEvent (cr_InstanceID b) (rq_RequestToken req) rid (rq_ToolName req) WriterProcessCursorHost)
           (emit (transitionEvent (cr_InstanceID b) prior StateCheckPermission ''PermissionRequest'' False) d))))"

section \<open>The acknowledgement\<close>

text \<open>
  What the acknowledgement leaves alone: a request that is closed, proven gone, answered at the
  pane, of another deadline or settled, and an allow after the approval deadline.
\<close>

definition unackable :: "int option \<Rightarrow> int \<Rightarrow> PermissionRow \<Rightarrow> bool" where
  "unackable until now pr \<longleftrightarrow> Closed pr \<or> ProvenGone pr \<or> PaneAnswer pr \<noteq> PaneAnswerNone \<or> SettledAt pr = zeroTime
     \<or> until \<noteq> Some (SettledAt pr * 1000000) \<or> \<not> now < SettledAt pr * 1000000"

definition ackCursorTx :: "store \<Rightarrow> CursorRuntime \<Rightarrow> string \<Rightarrow> bool \<Rightarrow> int option \<Rightarrow> int option \<Rightarrow> CursorCheck \<Rightarrow> (nat \<Rightarrow> int)
     \<Rightarrow> (string \<times> bool \<times> perm_row option) tx" where
  "ackCursorTx s b token timeout until allowUntil check now =
     tx_bind (cursorAuthority s b until check (now 0)) (\<lambda>_ d.
       case GetPermissionRequest s (cr_InstanceID b) token d of
         Inl e \<Rightarrow> Inl e
       | Inr None \<Rightarrow> Inr (([], False, None), d)
       | Inr (Some pr) \<Rightarrow>
           if unackable until (now 1) pr then Inr (([], False, None), d)
           else let late = (timeout \<or> \<not> before (now 2) allowUntil)
           in if Decision pr = ''allow'' \<and> \<not> before (now 3) allowUntil then Inr (([], False, None), d)
           else let ack = tx_bind (tx_exec s ''cursor ack'' (update_requests (ackMatch (cr_InstanceID b) token) (ackSet (UnixMilli (now 5)))))
                    (\<lambda>hit. tx_return (case hit of None \<Rightarrow> ([], False, None) | Some p \<Rightarrow> (coalesce (pr_decision p) [], True, None)))
           in if \<not> late then ack d
              else tx_bind (tx_exec s ''cursor timeout deny'' (\<lambda>d. update_requests (timeoutMatch (cr_InstanceID b) token)
                       (timeoutSet d (UnixMilli (now 4))) d)) (\<lambda>hit.
                     case hit of Some p \<Rightarrow> tx_return (''deny'', True, Some p) | None \<Rightarrow> ack) d)"

definition AckCursorDecision :: "store \<Rightarrow> CursorRuntime \<Rightarrow> string \<Rightarrow> bool \<Rightarrow> int option \<Rightarrow> int option \<Rightarrow> CursorCheck \<Rightarrow> (nat \<Rightarrow> int)
     \<Rightarrow> (string \<times> bool) call" where
  "AckCursorDecision s b token timeout until allowUntil check now =
     call_bind (inWriteTx s (ackCursorTx s b token timeout until allowUntil check now)) (\<lambda>(decision, acked, denied) d.
       (Inr (decision, acked), case denied of None \<Rightarrow> d
          | Some p \<Rightarrow> emitDecisionCommitted (cr_InstanceID b) token (pr_request_id p) (pr_tool_name p) ''deny'' DecisionReasonTimeout
              WriterProcessCursorHost d))"

section \<open>Pane answers\<close>

definition claimMatch :: "string \<Rightarrow> string \<Rightarrow> string \<Rightarrow> int \<Rightarrow> perm_row \<Rightarrow> bool" where
  "claimMatch i token decision at p \<longleftrightarrow> the_request i token p \<and> pr_delivered_at p = None \<and> pr_closed_at p = None
     \<and> pr_proven_gone_at p = None
     \<and> ((pr_pane_answer p = PaneAnswerNone \<and> (pr_decision p = None \<or> (case pr_settled_at p of None \<Rightarrow> False | Some t \<Rightarrow> t \<le> at)))
        \<or> (pr_pane_answer p = PaneAnswerSent \<and> where_true (sql_eq (pr_pane_as p) (Some decision))))"

definition claimSet :: "db \<Rightarrow> string \<Rightarrow> int \<Rightarrow> perm_row \<Rightarrow> perm_row" where
  "claimSet d decision at p = p\<lparr>pr_pane_answer := PaneAnswerSent, pr_pane_as := Some decision, pr_decision := Some decision,
     pr_decision_reason := Some DecisionReasonPane, pr_decided_at := Some (sql_now_text d),
     pr_hook_gone_at := coalesce_opt (pr_hook_gone_at p) (millisArg at)\<rparr>"

definition ClaimCursorPaneAnswer :: "store \<Rightarrow> CursorRuntime \<Rightarrow> string \<Rightarrow> string \<Rightarrow> int option \<Rightarrow> CursorCheck \<Rightarrow> (nat \<Rightarrow> int) \<Rightarrow> bool call" where
  "ClaimCursorPaneAnswer s b token decision until check now =
     call_bind (inWriteTx s (tx_bind (cursorAuthority s b until check (now 0)) (\<lambda>_.
        tx_exec s ''cursor pane claim'' (\<lambda>d. update_requests (claimMatch (cr_InstanceID b) token decision (UnixMilli (now 2)))
          (claimSet d decision (UnixMilli (now 1))) d)))) (\<lambda>hit d.
       case hit of None \<Rightarrow> (Inr False, d)
       | Some p \<Rightarrow> (Inr True, emitDecisionCommitted (cr_InstanceID b) token (pr_request_id p) (pr_tool_name p)
                      (coalesce (pr_decision p) []) (coalesce (pr_decision_reason p) []) WriterProcessCursorHost d))"

text \<open>The answer a writer may still put on the wire: acknowledged (relay) or claimed at the pane.\<close>

definition answerStands :: "string \<Rightarrow> string \<Rightarrow> bool \<Rightarrow> perm_row \<Rightarrow> bool" where
  "answerStands i token relay p \<longleftrightarrow> the_request i token p \<and> pr_closed_at p = None \<and> pr_proven_gone_at p = None
     \<and> (if relay then pr_delivered_at p \<noteq> None \<and> pr_pane_answer p = PaneAnswerNone
        else pr_pane_answer p = PaneAnswerSent \<and> where_true (sql_eq (pr_decision_reason p) (Some DecisionReasonPane)))"

definition CheckCursorAnswer :: "store \<Rightarrow> CursorRuntime \<Rightarrow> string \<Rightarrow> bool \<Rightarrow> int option \<Rightarrow> CursorCheck \<Rightarrow> (nat \<Rightarrow> int) \<Rightarrow> unit call" where
  "CheckCursorAnswer s b token relay until check now = inWriteTx s (tx_bind (cursorAuthority s b until check (now 0)) (\<lambda>_ d.
     if sqlFails s ''cursor answer'' then Inl (DriverError ''cursor answer'')
     else if length (filter (answerStands (cr_InstanceID b) token relay) (permission_requests d)) \<noteq> 1 \<or> \<not> before (now 1) until
     then Inl (CheckFailed ''store: Cursor answer authority retired'')
     else Inr ((), d)))"

section \<open>Proofs\<close>

definition cursorProofMatch :: "string \<Rightarrow> string \<Rightarrow> string \<Rightarrow> bool \<Rightarrow> perm_row \<Rightarrow> bool" where
  "cursorProofMatch i token tool didRun p \<longleftrightarrow> the_request i token p \<and> where_true (sql_eq (pr_tool_use_id p) (Some tool))
     \<and> pr_closed_at p = None
     \<and> (pr_proven_gone_at p = None \<or> pr_proven_gone_how p = None
        \<or> didRun \<and> (pr_delivered_at p = None \<and> pr_pane_answer p \<in> {PaneAnswerNone, PaneAnswerIntent}
                \<or> pr_decision p = None \<or> pr_decision_reason p = None \<or> pr_decided_at p = None))"

definition cursorProofSet :: "db \<Rightarrow> bool \<Rightarrow> int \<Rightarrow> perm_row \<Rightarrow> perm_row" where
  "cursorProofSet d didRun at p =
     (let q = p\<lparr>pr_proven_gone_at := coalesce_opt (pr_proven_gone_at p) (millisArg at),
                pr_proven_gone_how := coalesce_opt (pr_proven_gone_how p) (Some ProvenGoneToolRan)\<rparr>
      in if \<not> didRun then q
         else q\<lparr>pr_pane_answer := (if pr_delivered_at p = None \<and> pr_pane_answer p \<in> {PaneAnswerNone, PaneAnswerIntent}
                  then PaneAnswerToolRan else pr_pane_answer p),
                pr_decision := coalesce_opt (pr_decision p) (Some ''allow''),
                pr_decision_reason := coalesce_opt (pr_decision_reason p) (Some DecisionReasonToolRan),
                pr_decided_at := coalesce_opt (pr_decided_at p) (Some (sql_now_text d))\<rparr>)"

definition proveCursorTx :: "store \<Rightarrow> CursorRuntime \<Rightarrow> string \<Rightarrow> string \<Rightarrow> bool \<Rightarrow> bool \<Rightarrow> CursorCheck \<Rightarrow> (nat \<Rightarrow> int)
     \<Rightarrow> (perm_row option \<times> bool) tx" where
  "proveCursorTx s b token tool didRun turnOpen check now =
     tx_bind (cursorAuthority s b None check (now 0)) (\<lambda>_.
     tx_bind (tx_exec s ''cursor proof'' (\<lambda>d. update_requests (cursorProofMatch (cr_InstanceID b) token tool didRun)
        (cursorProofSet d didRun (UnixMilli (now 1))) d)) (\<lambda>hit.
     case hit of None \<Rightarrow> tx_return (None, False)
     | Some p \<Rightarrow>
         if \<not> turnOpen \<or> coalesce (pr_decision p) [] = ''deny'' then tx_return (Some p, False)
         else tx_bind (tx_exec s ''cursor proof move'' (\<lambda>d. guarded (cr_InstanceID b)
                (\<lambda>r. s_state r = StateCheckPermission \<and> noRequestHoldsRow d r) (cursorMoveSet s StateWorking) d)) (\<lambda>moved.
              if \<not> moved then tx_return (Some p, False)
              else tx_bind (refreshFamiliesAfterStateChange s StateCheckPermission StateWorking ([] :: unit list)) (\<lambda>_.
                tx_return (Some p, True)))))"

definition proveCursorTool :: "store \<Rightarrow> CursorRuntime \<Rightarrow> string \<Rightarrow> string \<Rightarrow> bool \<Rightarrow> bool \<Rightarrow> CursorCheck \<Rightarrow> (nat \<Rightarrow> int) \<Rightarrow> unit call" where
  "proveCursorTool s b token tool didRun turnOpen check now =
     call_bind (inWriteTx s (proveCursorTx s b token tool didRun turnOpen check now)) (\<lambda>(written, moved) d.
       let d1 = (case written of None \<Rightarrow> d
             | Some p \<Rightarrow> emitDecisionCommitted (cr_InstanceID b) token (pr_request_id p) (pr_tool_name p)
                 (coalesce (pr_decision p) []) (coalesce (pr_decision_reason p) []) WriterProcessCursorHost d)
       in (Inr (), if moved then emit (transitionEvent (cr_InstanceID b) StateCheckPermission StateWorking
              (if didRun then ''PostToolUse'' else ''PostToolUseFailure'') False) d1 else d1))"

definition ProveCursorToolRan :: "store \<Rightarrow> CursorRuntime \<Rightarrow> string \<Rightarrow> string \<Rightarrow> bool \<Rightarrow> CursorCheck \<Rightarrow> (nat \<Rightarrow> int) \<Rightarrow> unit call" where
  "ProveCursorToolRan s b token tool turnOpen check now = proveCursorTool s b token tool True turnOpen check now"

definition ProveCursorToolFailed :: "store \<Rightarrow> CursorRuntime \<Rightarrow> string \<Rightarrow> string \<Rightarrow> bool \<Rightarrow> CursorCheck \<Rightarrow> (nat \<Rightarrow> int) \<Rightarrow> unit call" where
  "ProveCursorToolFailed s b token tool turnOpen check now = proveCursorTool s b token tool False turnOpen check now"

definition turnEndedMatch :: "string \<Rightarrow> string list \<Rightarrow> perm_row \<Rightarrow> bool" where
  "turnEndedMatch i tokens p \<longleftrightarrow> pr_instance_id p = i \<and> list_ex (\<lambda>t. pr_request_token p = t) tokens \<and> holdsRow p"

definition ProveCursorTurnEnded :: "store \<Rightarrow> CursorRuntime \<Rightarrow> string list \<Rightarrow> int option \<Rightarrow> CursorCheck \<Rightarrow> (nat \<Rightarrow> int) \<Rightarrow> unit call" where
  "ProveCursorTurnEnded s b tokens until check now =
     (if tokens = [] then call_return ()
      else inWriteTx s (tx_bind (cursorAuthority s b until check (now 0)) (\<lambda>_.
        tx_bind (tx_exec s ''cursor turn ended'' (update_requests (turnEndedMatch (cr_InstanceID b) tokens)
           (proveSet (UnixMilli (now 1)) ProvenGoneTurnEnd))) (\<lambda>_. tx_return ()))))"

section \<open>Prompts\<close>

definition checkCursorPrompt :: "store \<Rightarrow> CursorRuntime \<Rightarrow> int option \<Rightarrow> CursorCheck \<Rightarrow> string \<Rightarrow> (nat \<Rightarrow> int) \<Rightarrow> bool call" where
  "checkCursorPrompt s b until check pendingPath now = inWriteTx s (tx_bind (cursorAuthorityForPrompt s b until check pendingPath (now 0)) (\<lambda>row d.
     if sqlFails s ''cursor prompt holds'' then Inl (DriverError ''cursor prompt holds'')
     else if \<not> before (now 1) until then Inl (CheckFailed ''store: Cursor prompt verification expired'')
     else Inr (length (filter (\<lambda>p. pr_instance_id p = cr_InstanceID b \<and> cursorHoldsDialog (li_Token (sp_Identity row)) p)
                 (permission_requests d)) = 0, d)))"

definition CheckCursorPrompt :: "store \<Rightarrow> CursorRuntime \<Rightarrow> int option \<Rightarrow> CursorCheck \<Rightarrow> (nat \<Rightarrow> int) \<Rightarrow> bool call" where
  "CheckCursorPrompt s b until check now = checkCursorPrompt s b until check [] now"

definition CheckLoadedCursorPrompt :: "store \<Rightarrow> CursorRuntime \<Rightarrow> string \<Rightarrow> int option \<Rightarrow> CursorCheck \<Rightarrow> (nat \<Rightarrow> int) \<Rightarrow> bool call" where
  "CheckLoadedCursorPrompt s b path until check now =
     (if path = [] then (\<lambda>d. (Inl (CheckFailed ''store: loaded Cursor transcript required''), d))
      else checkCursorPrompt s b until check path now)"

section \<open>Rotation\<close>

definition validNextSession :: "string \<Rightarrow> bool" where
  "validNextSession sid \<longleftrightarrow> sid \<noteq> [] \<and> strings_TrimSpace sid = sid \<and> length sid \<le> 512
     \<and> \<not> list_ex (\<lambda>c. c = CHR 0x00 \<or> c = CHR 0x0D \<or> c = CHR 0x0A) sid"

definition rotateSet :: "store \<Rightarrow> string \<Rightarrow> string \<Rightarrow> string \<Rightarrow> db \<Rightarrow> spawn_row \<Rightarrow> spawn_row" where
  "rotateSet s v sid path d r = rowVersionAdvance (launchStartClear (livenessClear
     ((hookWriteStateSet (settleMs s) (sql_now_ms d) v r)\<lparr>s_session_id := Some sid, s_jsonl_path := Some path,
        s_last_seen_at := sql_now_text d, s_ended_at := None, s_end_reported_at := None, s_idle_since := None\<rparr>)))"

definition rotationChanged :: "Spawn \<Rightarrow> HookGate \<Rightarrow> CursorRuntime \<Rightarrow> string \<Rightarrow> Spawn \<Rightarrow> bool" where
  "rotationChanged examined g b path row \<longleftrightarrow>
     sp_Snapshot row \<noteq> sp_Snapshot examined \<or> sp_Identity row \<noteq> sp_Identity examined
     \<or> sp_LifeNumber row \<noteq> sp_LifeNumber examined \<or> sp_JSONLPath row \<noteq> sp_JSONLPath examined \<or> sp_JSONLPath row \<noteq> path
     \<or> g_ParentPID g \<noteq> cr_GatewayPID b \<or> g_ParentStart g \<noteq> cr_GatewayStart b"

definition rotateTx :: "store \<Rightarrow> Spawn \<Rightarrow> HookGate \<Rightarrow> CursorRuntime \<Rightarrow> string \<Rightarrow> string \<Rightarrow> int option \<Rightarrow> CursorCheck \<Rightarrow> (nat \<Rightarrow> int)
     \<Rightarrow> (string \<times> string) tx" where
  "rotateTx s examined g b sid path until check now =
     tx_bind (cursorAuthority s b until check (now 1)) (\<lambda>row.
     if rotationChanged examined g b path row then (\<lambda>_. Inl (CheckFailed ''store: Cursor rotation snapshot changed''))
     else tx_bind (tx_exec s ''cursor session reuse'' (\<lambda>d.
            (any_row (\<lambda>h. h_instance_id h = cr_InstanceID b \<and> h_session_id h = sid) (session_history d), d))) (\<lambda>reused.
     if reused then (\<lambda>_. Inl (CheckFailed ''store: Cursor session identity reused''))
     else tx_bind (tx_exec s ''cursor rotation holds'' (\<lambda>d.
            (any_row (\<lambda>r. s_instance_id r = cr_InstanceID b \<and> \<not> noRequestHoldsRow d r) (spawns d), d))) (\<lambda>held.
     let v = (if held then StateCheckPermission else StateWaiting) in
     tx_bind (tx_exec s ''cursor rotation write'' (\<lambda>d. guarded (cr_InstanceID b)
            (\<lambda>r. hookGate d g r \<and> snapshotMatch (sp_Snapshot examined) r) (rotateSet s v sid path) d)) (\<lambda>n.
     if \<not> n then (\<lambda>_. Inl (CheckFailed ''store: Cursor rotation gate changed''))
     else tx_bind (tx_exec s ''store: required Cursor archive'' (\<lambda>d.
            ((), upsertSessionHistoryEntry (cr_InstanceID b) (cr_SessionID b) (sp_JSONLPath row) (cr_Life b) d))) (\<lambda>_.
     tx_bind (tx_exec s ''cursor runtime rotation'' (update_runtimes (currentBinding b) (\<lambda>c. c\<lparr>cr_SessionID := sid\<rparr>))) (\<lambda>m.
     if \<not> m then (\<lambda>_. Inl (CheckFailed ''store: Cursor runtime rotation changed''))
     else if \<not> before (now 2) until then (\<lambda>_. Inl (CheckFailed ''store: Cursor rotation publication expired''))
     else tx_bind (refreshFamiliesAfterStateChange s (sp_State row) v ([] :: unit list)) (\<lambda>_. tx_return (sp_State row, v))))))))"

definition RotateCursorSession :: "store \<Rightarrow> Spawn \<Rightarrow> HookGate \<Rightarrow> string \<Rightarrow> string \<Rightarrow> int option \<Rightarrow> CursorCheck
     \<Rightarrow> (nat \<Rightarrow> int) \<Rightarrow> bool call" where
  "RotateCursorSession s examined g sid path until check now = (case g_Cursor g of
     None \<Rightarrow> (\<lambda>d. (Inl (CheckFailed ''store: invalid Cursor rotation''), d))
   | Some b \<Rightarrow>
       if cr_Terminated b \<or> g_SessionID g \<noteq> cr_SessionID b \<or> \<not> validNextSession sid \<or> sid = g_SessionID g \<or> path = []
          \<or> \<not> before (now 0) until
       then (\<lambda>d. (Inl (CheckFailed ''store: invalid Cursor rotation''), d))
       else call_bind (inWriteTx s (rotateTx s examined g b sid path until check now)) (\<lambda>(prior, v) d.
         (Inr True, emit (transitionEvent (cr_InstanceID b) prior v ''SessionStart'' False)
            (emit (''ad.session.archived'', [(''instance_id'', TS (cr_InstanceID b)), (''prior_session_id'', TS (cr_SessionID b)),
               (''new_session_id'', TS sid), (''source'', TS ''ad_spawn_store'')]) d))))"

text \<open>
  What the gateway observes afterwards, in one statement: whether the rotation is committed, and
  whether the outgoing binding is unchanged. Both false means neither is known.
\<close>

definition rotationBinding :: "CursorRuntime \<Rightarrow> Spawn \<Rightarrow> string \<Rightarrow> CursorRuntime \<Rightarrow> spawn_row \<Rightarrow> bool" where
  "rotationBinding previous examined path c r \<longleftrightarrow>
     (let x = sp_Identity examined in
      s_instance_id r = cr_InstanceID c \<and> cursorBindingMatch previous c \<and> \<not> cr_Terminated c \<and> s_agent r = AgentCursor
      \<and> where_true (sql_eq (s_jsonl_path r) (Some path)) \<and> where_true (sql_eq (s_launch_token r) (Some (li_Token x)))
      \<and> s_life_number r = sp_LifeNumber examined \<and> s_tmux_socket r = Some (li_Socket x)
      \<and> s_tmux_server_pid r = Some (li_ServerPID x) \<and> s_tmux_server_started r = Some (li_ServerStart x)
      \<and> s_tmux_server_starttime r = Some (li_ServerStarttime x) \<and> s_pane_id r = Some (li_PaneID x)
      \<and> s_pane_pid r = Some (li_PanePID x) \<and> s_pane_starttime r = Some (li_PaneStarttime x))"

definition bindingWhere :: "(CursorRuntime \<Rightarrow> spawn_row \<Rightarrow> bool) \<Rightarrow> db \<Rightarrow> bool" where
  "bindingWhere P d = any_row (\<lambda>c. any_row (P c) (spawns d)) (cursor_runtimes d)"

definition ReconcileCursorRotation :: "store \<Rightarrow> CursorRuntime \<Rightarrow> Spawn \<Rightarrow> string \<Rightarrow> string \<Rightarrow> db \<Rightarrow> store_error + bool \<times> bool" where
  "ReconcileCursorRotation s previous examined sid path d =
     (if sqlFails s ''reconcile cursor rotation'' then Inl (DriverError ''reconcile cursor rotation'')
      else Inr (
        bindingWhere (\<lambda>c r. rotationBinding previous examined path c r \<and> cr_SessionID c = sid
           \<and> where_true (sql_eq (s_session_id r) (Some sid))
           \<and> any_row (\<lambda>h. h_instance_id h = cr_InstanceID c \<and> h_session_id h = cr_SessionID previous
                \<and> h_life_number h = cr_Life previous \<and> where_true (sql_eq (h_jsonl_path h) (Some path))) (session_history d)) d,
        bindingWhere (\<lambda>c r. rotationBinding previous examined path c r \<and> cr_SessionID c = cr_SessionID previous
           \<and> where_true (sql_eq (s_session_id r) (Some (cr_SessionID previous))) \<and> snapshotMatch (sp_Snapshot examined) r
           \<and> \<not> any_row (\<lambda>h. h_instance_id h = cr_InstanceID c \<and> h_session_id h = cr_SessionID previous
                \<and> h_life_number h = cr_Life previous) (session_history d)) d))"

definition ObserveCursorRotation :: "store \<Rightarrow> CursorRuntime \<Rightarrow> Spawn \<Rightarrow> string \<Rightarrow> string \<Rightarrow> db \<Rightarrow> store_error + bool" where
  "ObserveCursorRotation s previous examined sid path d =
     (case ReconcileCursorRotation s previous examined sid path d of Inl e \<Rightarrow> Inl e | Inr (committed, _) \<Rightarrow> Inr committed)"

end
