(* ===== verification/Cursor_Laws.thy ===== *)
theory Cursor_Laws
  imports Finality Cursor_Requests
begin

text \<open>
  What the Cursor writes keep. \<open>cursor_invariant\<close> extends the interface of the life writes with the
  binding table, the guarded statements on requests and a new request of a row that is not working;
  every call of the Cursor store keeps such an invariant. It is interpreted on the guarantee of final
  verdicts here and on the guarantee of the subagent records with the runs of the store.
\<close>

section \<open>Transactions that keep an invariant\<close>

definition tx_keeps :: "(db \<Rightarrow> bool) \<Rightarrow> 'a tx \<Rightarrow> bool" where
  "tx_keeps J t \<longleftrightarrow> (\<forall>d x d'. J d \<longrightarrow> t d = Inr (x, d') \<longrightarrow> J d')"

lemma tx_keepsD: "tx_keeps J t \<Longrightarrow> t d = Inr (x, d') \<Longrightarrow> J d \<Longrightarrow> J d'"
  by (auto simp: tx_keeps_def)

lemma tx_keeps_bind: "tx_keeps J m \<Longrightarrow> (\<And>a. tx_keeps J (f a)) \<Longrightarrow> tx_keeps J (tx_bind m f)"
  unfolding tx_keeps_def tx_bind_Inr by blast

lemma tx_keeps_return: "tx_keeps J (tx_return a)"
  by (simp add: tx_keeps_def tx_return_def)

lemma tx_keeps_fail: "tx_keeps J (\<lambda>_. Inl e)"
  by (simp add: tx_keeps_def)

lemma tx_keeps_exec: "(\<And>d. J d \<Longrightarrow> J (snd (stmt d))) \<Longrightarrow> tx_keeps J (tx_exec s what stmt)"
  unfolding tx_keeps_def tx_exec_Inr by (metis snd_conv)

lemma tx_keeps_read: "(\<And>d x d'. t d = Inr (x, d') \<Longrightarrow> d' = d) \<Longrightarrow> tx_keeps J t"
  unfolding tx_keeps_def by blast

lemma tx_keeps_if: "(b \<Longrightarrow> tx_keeps J x) \<Longrightarrow> (\<not> b \<Longrightarrow> tx_keeps J y) \<Longrightarrow> tx_keeps J (if b then x else y)"
  by simp

lemma tx_keeps_option: "tx_keeps J x \<Longrightarrow> (\<And>a. tx_keeps J (y a)) \<Longrightarrow> tx_keeps J (case v of None \<Rightarrow> x | Some a \<Rightarrow> y a)"
  by (cases v) simp_all

lemma keeps_inWriteTx: "tx_keeps J t \<Longrightarrow> keeps J (inWriteTx s t)"
  by (auto simp: tx_keeps_def keeps_def inWriteTx_def split: sum.splits)

lemmas tx_rules = tx_keeps_bind tx_keeps_return tx_keeps_fail tx_keeps_if tx_keeps_option

section \<open>The statements on requests\<close>

interpretation claim_write: request_write "claimMatch i token v at" "claimSet d v at'"
  by unfold_locales
    (auto simp: claimMatch_def claimSet_def req_ok_def final_step_def awaitingAnswer_def pane_answered_def)

lemma coalesce_opt_simps [simp]:
  "coalesce_opt None b = b" "coalesce_opt (Some x) b = Some x" "coalesce_opt a b = None \<longleftrightarrow> a = None \<and> b = None"
  by (simp_all add: coalesce_opt_def split: option.splits)

lemma cursorProofSet_fields [simp]:
  "pr_request_id (cursorProofSet d didRun at p) = pr_request_id p" "pr_instance_id (cursorProofSet d didRun at p) = pr_instance_id p"
  "pr_request_token (cursorProofSet d didRun at p) = pr_request_token p" "pr_delivered_at (cursorProofSet d didRun at p) = pr_delivered_at p"
  "pr_closed_at (cursorProofSet d didRun at p) = pr_closed_at p" "pr_settled_at (cursorProofSet d didRun at p) = pr_settled_at p"
  "pr_pane_as (cursorProofSet d didRun at p) = pr_pane_as p"
  "pr_proven_gone_at (cursorProofSet d didRun at p) = coalesce_opt (pr_proven_gone_at p) (millisArg at)"
  "pr_proven_gone_how (cursorProofSet d didRun at p) = coalesce_opt (pr_proven_gone_how p) (Some ProvenGoneToolRan)"
  "pr_decision (cursorProofSet d didRun at p) = (if didRun then coalesce_opt (pr_decision p) (Some ''allow'') else pr_decision p)"
  "pr_pane_answer (cursorProofSet d didRun at p) = (if didRun \<and> pr_delivered_at p = None \<and> pr_pane_answer p \<in> {PaneAnswerNone, PaneAnswerIntent}
     then PaneAnswerToolRan else pr_pane_answer p)"
  by (simp_all add: cursorProofSet_def Let_def)

interpretation cursor_proof: request_write "cursorProofMatch i token tool didRun" "cursorProofSet d didRun at"
proof unfold_locales
  fix p assume ok: "req_ok p" and m: "cursorProofMatch i token tool didRun p"
  have unclosed: "pr_closed_at p = None" using m by (simp add: cursorProofMatch_def)
  show "req_ok (cursorProofSet d didRun at p)"
    using ok unclosed by (auto simp: req_ok_def)
  have dec: "pr_decision p \<noteq> None \<Longrightarrow> pr_decision (cursorProofSet d didRun at p) = pr_decision p" by auto
  have gone: "pr_proven_gone_at p \<noteq> None \<Longrightarrow> pr_proven_gone_how p \<noteq> None" using ok by (simp add: req_ok_def)
  have "pr_delivered_at p \<noteq> None \<Longrightarrow> pr_decision p \<noteq> None" using ok by (simp add: req_ok_def)
  then show "final_step p (cursorProofSet d didRun at p)"
    unfolding final_step_def using unclosed dec gone by (auto simp: pane_answered_def)
  show "awaitingAnswer p" if "awaitingAnswer (cursorProofSet d didRun at p)"
    using that by (auto simp: awaitingAnswer_def split: if_splits)
qed

interpretation cursor_turn_end: request_write "turnEndedMatch i tokens" "proveSet at how"
  by unfold_locales
    (auto simp: turnEndedMatch_def proveSet_def holdsRow_def req_ok_def final_step_def pane_answered_def awaitingAnswer_def)

section \<open>Invariants every Cursor call keeps\<close>

locale cursor_invariant = life_invariant +
  assumes J_runtimes: "J (d\<lparr>cursor_runtimes := x\<rparr>) = J d"
    and J_request_write: "request_write P f \<Longrightarrow> J d \<Longrightarrow> J (d\<lparr>permission_requests := update_where P f (permission_requests d)\<rparr>)"
    and J_new_request: "J d \<Longrightarrow> pr_request_id p = next_request_id d \<Longrightarrow> req_ok p
      \<Longrightarrow> (\<And>r. r \<in> set (spawns d) \<Longrightarrow> s_instance_id r = pr_instance_id p \<Longrightarrow> s_state r \<noteq> StateWorking)
      \<Longrightarrow> J (d\<lparr>permission_requests := permission_requests d @ [p], next_request_id := next_request_id d + 1\<rparr>)"
begin

lemma J_update_runtimes: "J (snd (update_runtimes P f d)) = J d"
  by (simp add: update_runtimes_def J_runtimes)

lemma J_update_requests: "request_write P f \<Longrightarrow> J d \<Longrightarrow> J (snd (update_requests P f d))"
  by (simp add: update_requests_def J_request_write)

lemma tx_keeps_authority: "tx_keeps J (cursorAuthorityForPrompt s b until check p now)"
  "tx_keeps J (cursorAuthority s b until check now)"
  unfolding cursorAuthority_def
  by (rule tx_keeps_read, auto simp: cursorAuthorityForPrompt_def split: sum.splits if_splits option.splits)+

lemma tx_keeps_evict: "tx_keeps J (evictClosedRequests s cap)"
  by (auto simp: tx_keeps_def evictClosedRequests_def tx_exec_Inr J_drop_requests split: if_splits)

lemma tx_keeps_refresh: "tx_keeps J (refreshFamiliesAfterStateChange s a b ex)"
  by (auto simp: tx_keeps_def refreshFamiliesAfterStateChange_def tx_return_def dest: J_refresh_families split: if_splits)

lemma tx_keeps_takeExits: "tx_keeps J (takeDisplayExits s i)"
  unfolding takeDisplayExits_def Let_def
  by (rule tx_keeps_exec) (auto intro!: J_update simp: A_same[of _ r for r, simplified])

lemma cursor_keys [simp]:
  "s_instance_id (cursorMoveSet s v d r) = s_instance_id r" "s_state (cursorMoveSet s v d r) = v"
  "s_instance_id (rotateSet s v sid path d r) = s_instance_id r" "s_state (rotateSet s v sid path d r) = v"
  by (simp_all add: cursorMoveSet_def rotateSet_def)

section \<open>The binding table\<close>

lemma keeps_bindings:
  "keeps J (RegisterCursorRuntime s row b)" "keeps J (SetCursorRuntimeSession s b sid)" "keeps J (MarkCursorRuntimeGone s b)"
  unfolding RegisterCursorRuntime_def SetCursorRuntimeSession_def MarkCursorRuntimeGone_def execCursorRuntime_def
  by (intro keeps_if keeps_return keeps_dbExec; simp add: J_update_runtimes registerStmt_def Let_def J_runtimes)+

lemma keeps_BindLoadedCursorSession: "keeps J (BindLoadedCursorSession s row b path until current cancelled now)"
  unfolding BindLoadedCursorSession_def bindLoadedTx_def
  by (intro keeps_if keeps_return keeps_inWriteTx tx_rules tx_keeps_exec) (simp add: J_update_runtimes)

section \<open>The marks\<close>

lemma terminalMarkOnConn_where:
  "terminalMarkOnConn s what (markMissingWhere row guard) i reason d
     = terminalMarkOnConn s what (guarded (sp_InstanceID row) (guard d) (terminalMarkSet StateMissing)) i reason d"
  by (simp add: terminalMarkOnConn_def markMissingWhere_def tx_bind_def tx_exec_def split: option.splits)

lemma keeps_terminalMarkWithoutWait:
  "keeps J (terminalMarkWithoutWait s what (markMissingWhere row guard) (sp_InstanceID row) reason)"
proof -
  have "tx_keeps J (terminalMarkOnConn s what (markMissingWhere row guard) (sp_InstanceID row) reason)"
    unfolding tx_keeps_def terminalMarkOnConn_where by (auto intro: J_terminalMarkOnConn simp: isTerminalState_def)
  then have tx: "tx_keeps J (markMissingWithoutWaitTx s what (markMissingWhere row guard) (sp_InstanceID row) reason)"
    unfolding markMissingWithoutWaitTx_def
    by (intro tx_keeps_bind) (auto split: prod.splits intro!: tx_rules tx_keeps_takeExits tx_keeps_refresh)
  show ?thesis
    unfolding terminalMarkWithoutWait_def
    by (intro keeps_bind keeps_inWriteTx tx) (auto simp: keeps_def J_display split: prod.splits)
qed

lemma keeps_cursor_marks: "keeps J (MarkCursorMissingIfSameLaunch s row b)" "keeps J (MarkFailedCursorRuntimeMissing s row b)"
  unfolding MarkCursorMissingIfSameLaunch_def MarkFailedCursorRuntimeMissing_def
  by (intro keeps_if keeps_option keeps_return keeps_terminalMarkWithoutWait)+

section \<open>Requests\<close>

lemma J_cursorInsert:
  assumes "J d" and "guarded (cr_InstanceID b) (\<lambda>_. True) (cursorMoveSet s StateCheckPermission) d = (n, d1)"
    and "cursorInsert s b req d1 = Inr (u, d2)"
  shows "J d2"
proof -
  have "J (snd (guarded (cr_InstanceID b) (\<lambda>_. True) (cursorMoveSet s StateCheckPermission) d))"
    using assms(1) by (intro J_guarded) (simp_all add: A_stored state_kinds)
  with assms(2) have d1: "J d1" by simp
  have moved: "s_state r = StateCheckPermission" if "r \<in> set (spawns d1)" "s_instance_id r = cr_InstanceID b" for r
    using assms(2) that by (auto simp: guarded_def update_spawns_def set_update_where split: if_splits)
  consider "d2 = d1" | r where "d2 = d1\<lparr>permission_requests := permission_requests d1
        @ [relay_request d1 (cr_InstanceID b) (req\<lparr>rq_AgentID := []\<rparr>) False r], next_request_id := next_request_id d1 + 1\<rparr>"
    using assms(3) by (auto simp: cursorInsert_def insert_request_def split: sum.splits if_splits option.splits)
  then show "J d2"
  proof cases
    case 2
    then show ?thesis
      using d1 moved by (auto intro!: J_new_request simp: req_ok_def relay_request_def blank_request_def)
  qed (simp add: d1)
qed

lemma tx_keeps_insertCursor: "tx_keeps J (insertCursorTx s b req cap until check now)"
  unfolding insertCursorTx_def
proof (rule tx_keeps_bind[OF tx_keeps_authority(2)])
  fix row
  let ?k = "\<lambda>d1. tx_bind (evictClosedRequests s cap) (\<lambda>_.
     tx_bind (refreshFamiliesAfterStateChange s (sp_State row) StateCheckPermission ([] :: unit list)) (\<lambda>_.
     tx_return (sp_State row, next_request_id d1 - 1)))"
  have k: "tx_keeps J (?k d1)" for d1
    by (intro tx_rules tx_keeps_evict tx_keeps_refresh)
  show "tx_keeps J (tx_bind (tx_exec s ''cursor request state write''
        (guarded (cr_InstanceID b) (\<lambda>_. True) (cursorMoveSet s StateCheckPermission))) (\<lambda>_.
     tx_bind (cursorInsert s b req) (\<lambda>_ d1. ?k d1 d1)))"
    unfolding tx_keeps_def tx_bind_Inr[of "tx_exec _ _ _"] tx_bind_Inr[of "cursorInsert _ _ _"] tx_exec_Inr
    by (blast intro: J_cursorInsert tx_keepsD[OF k])
qed

lemma keeps_InsertCursorRequest: "keeps J (InsertCursorRequest s b req cap until check now)"
  unfolding InsertCursorRequest_def
  by (intro keeps_if keeps_fail keeps_bind keeps_inWriteTx tx_keeps_insertCursor)
    (auto simp: keeps_def split: prod.splits)

lemma J_emitDecision: "J (emitDecisionCommitted i tok rid tool v reason w d) = J d"
  by (simp add: emitDecisionCommitted_def)

lemma tx_keeps_ackCursor: "tx_keeps J (ackCursorTx s b token timeout until allowUntil check now)"
proof -
  have ack: "tx_keeps J (tx_bind (tx_exec s ''cursor ack'' (update_requests (ackMatch (cr_InstanceID b) token) (ackSet (UnixMilli (now 5)))))
      (\<lambda>hit. tx_return (case hit of None \<Rightarrow> ([], False, None) | Some p \<Rightarrow> (coalesce (pr_decision p) [], True, None))))"
    by (intro tx_rules tx_keeps_exec J_update_requests ack_write.request_write_axioms)
  have deny: "tx_keeps J (tx_bind (tx_exec s ''cursor timeout deny'' (\<lambda>d. update_requests (timeoutMatch (cr_InstanceID b) token)
      (timeoutSet d (UnixMilli (now 4))) d)) (\<lambda>hit. case hit of Some p \<Rightarrow> tx_return (''deny'', True, Some p)
        | None \<Rightarrow> tx_bind (tx_exec s ''cursor ack'' (update_requests (ackMatch (cr_InstanceID b) token) (ackSet (UnixMilli (now 5)))))
            (\<lambda>hit. tx_return (case hit of None \<Rightarrow> ([], False, None) | Some p \<Rightarrow> (coalesce (pr_decision p) [], True, None)))))"
    by (intro tx_rules ack tx_keeps_exec J_update_requests timeout_write.request_write_axioms ack_write.request_write_axioms)
  show ?thesis
    unfolding ackCursorTx_def
    by (intro tx_keeps_bind[OF tx_keeps_authority(2)])
      (auto simp: tx_keeps_def Let_def split: sum.splits option.splits if_splits dest: tx_keepsD[OF ack] tx_keepsD[OF deny])
qed

lemma keeps_AckCursorDecision: "keeps J (AckCursorDecision s b token timeout until allowUntil check now)"
  unfolding AckCursorDecision_def
  by (intro keeps_bind keeps_inWriteTx tx_keeps_ackCursor) (auto simp: keeps_def J_emitDecision split: prod.splits option.splits)

lemma keeps_ClaimCursorPaneAnswer: "keeps J (ClaimCursorPaneAnswer s b token v until check now)"
  unfolding ClaimCursorPaneAnswer_def
  by (intro keeps_bind keeps_inWriteTx tx_rules tx_keeps_authority tx_keeps_exec J_update_requests claim_write.request_write_axioms)
    (auto simp: keeps_def J_emitDecision split: option.splits)

lemma keeps_cursor_checks:
  "keeps J (CheckCursorAnswer s b token relay until check now)" "keeps J (CheckCursorPrompt s b until check now)"
  "keeps J (CheckLoadedCursorPrompt s b path until check now)"
  unfolding CheckCursorAnswer_def CheckCursorPrompt_def CheckLoadedCursorPrompt_def checkCursorPrompt_def
  by (intro keeps_if keeps_fail keeps_inWriteTx tx_keeps_bind tx_keeps_authority; auto intro!: tx_keeps_read split: if_splits)+

lemma tx_keeps_proveCursor: "tx_keeps J (proveCursorTx s b token tool didRun turnOpen check now)"
proof -
  have move: "tx_keeps J (tx_exec s ''cursor proof move'' (\<lambda>d. guarded (cr_InstanceID b)
      (\<lambda>r. s_state r = StateCheckPermission \<and> noRequestHoldsRow d r) (cursorMoveSet s StateWorking) d))"
    by (intro tx_keeps_exec J_guarded) (simp_all add: A_working)
  show ?thesis
    unfolding proveCursorTx_def
    by (intro tx_rules move tx_keeps_authority tx_keeps_refresh tx_keeps_exec J_update_requests cursor_proof.request_write_axioms)
qed

lemma keeps_proveCursorTool: "keeps J (proveCursorTool s b token tool didRun turnOpen check now)"
  unfolding proveCursorTool_def
  by (intro keeps_bind keeps_inWriteTx tx_keeps_proveCursor) (auto simp: keeps_def J_emitDecision Let_def split: prod.splits option.splits)

lemma keeps_cursor_proofs:
  "keeps J (ProveCursorToolRan s b token tool turnOpen check now)" "keeps J (ProveCursorToolFailed s b token tool turnOpen check now)"
  "keeps J (ProveCursorTurnEnded s b tokens until check now)"
  unfolding ProveCursorToolRan_def ProveCursorToolFailed_def ProveCursorTurnEnded_def
  by (intro keeps_proveCursorTool keeps_if keeps_return keeps_inWriteTx tx_rules tx_keeps_authority tx_keeps_exec J_update_requests
      cursor_turn_end.request_write_axioms)+

section \<open>Rotation\<close>

lemma tx_keeps_rotate: "tx_keeps J (rotateTx s examined g b sid path until check now)"
proof -
  have moved: "tx_keeps J (tx_exec s ''cursor rotation write'' (\<lambda>d. guarded (cr_InstanceID b)
      (\<lambda>r. hookGate d g r \<and> snapshotMatch (sp_Snapshot examined) r) (rotateSet s (if held then StateCheckPermission else StateWaiting) sid path) d))" for held
    by (intro tx_keeps_exec J_guarded) (simp_all add: A_stored state_kinds)
  show ?thesis
    unfolding rotateTx_def Let_def
    by (intro tx_rules moved tx_keeps_authority tx_keeps_refresh tx_keeps_exec)
      (simp_all add: J_upsertSessionHistoryEntry J_update_runtimes)
qed

lemma keeps_RotateCursorSession: "keeps J (RotateCursorSession s examined g sid path until check now)"
  unfolding RotateCursorSession_def
  by (intro keeps_option keeps_if keeps_fail keeps_bind keeps_inWriteTx tx_keeps_rotate) (auto simp: keeps_def split: prod.splits)

end

interpretation cursor_final: cursor_invariant "store_guarantee d0" moves_allowed
proof unfold_locales
  fix d
  show "store_guarantee d0 (d\<lparr>cursor_runtimes := x\<rparr>) = store_guarantee d0 d" for x
    by (rule frame_iff) (simp_all add: rows_ok_def held_not_working_def noRequestHoldsRow_def)
  show "store_guarantee d0 (d\<lparr>permission_requests := update_where P f (permission_requests d)\<rparr>)"
    if "request_write P f" "store_guarantee d0 d" for P f
    by (rule store.G_trans[OF that(2) request_write.updated[OF that(1)]])
  show "store_guarantee d0 (d\<lparr>permission_requests := permission_requests d @ [p], next_request_id := next_request_id d + 1\<rparr>)"
    if "store_guarantee d0 d" "pr_request_id p = next_request_id d" "req_ok p"
      "\<And>r. r \<in> set (spawns d) \<Longrightarrow> s_instance_id r = pr_instance_id p \<Longrightarrow> s_state r \<noteq> StateWorking" for p
    using that(1) insert_request_ok[OF _ that(2-4)] by (auto simp: store_guarantee_def intro: evolves_trans)
qed

end
