(* ===== verification/Transcripts.thy ===== *)
theory Transcripts
  imports Launches
begin

text \<open>
  Session transcripts (session_history.go): the archived sessions of a life, the live rows whose
  transcript is still to be found and the heal of a missing transcript path.
\<close>

record SessionHistoryEntry =
  se_SessionID :: string
  se_JSONLPath :: string
  se_RecordedAt :: string

text \<open>
  Newest first: by the recorded time, and by the history id where the times agree. \<open>sort_key\<close> is
  stable, so the reverse of the two ascending sorts is the descending order of both keys.
\<close>

definition ListSessionHistory :: "store \<Rightarrow> string \<Rightarrow> int \<Rightarrow> db \<Rightarrow> store_error + SessionHistoryEntry list" where
  "ListSessionHistory s i life d =
     (if sqlFails s ''store: list session history'' then Inl (DriverError ''store: list session history'')
      else Inr (map (\<lambda>h. \<lparr>se_SessionID = h_session_id h, se_JSONLPath = coalesce (h_jsonl_path h) [], se_RecordedAt = h_recorded_at h\<rparr>)
        (rev (sort_key h_recorded_at (sort_key h_history_id
           (filter (\<lambda>h. h_instance_id h = i \<and> h_life_number h = life) (session_history d)))))))"

record ProvisionalTranscript =
  pt_InstanceID :: string
  pt_SessionID :: string
  pt_CWD :: string
  pt_ConfigDir :: string

definition provisional :: "spawn_row \<Rightarrow> bool" where
  "provisional r \<longleftrightarrow> s_jsonl_path r = None \<and> coalesce (s_session_id r) [] \<noteq> [] \<and> s_agent r \<noteq> AgentCodex \<and> s_agent r \<noteq> AgentCursor
     \<and> list_ex (\<lambda>v. s_state r = v) liveStates"

definition ListProvisionalTranscripts :: "store \<Rightarrow> db \<Rightarrow> store_error + ProvisionalTranscript list" where
  "ListProvisionalTranscripts s d =
     (if sqlFails s ''store: list provisional transcripts'' then Inl (DriverError ''store: list provisional transcripts'')
      else Inr (map (\<lambda>r. \<lparr>pt_InstanceID = s_instance_id r, pt_SessionID = coalesce (s_session_id r) [], pt_CWD = s_cwd r,
             pt_ConfigDir = coalesce (map_of (s_extra_env r) ''CLAUDE_CONFIG_DIR'') []\<rparr>)
        (filter provisional (spawns d))))"

definition healSet :: "string \<Rightarrow> spawn_row \<Rightarrow> spawn_row" where
  "healSet jsonlPath r = rowVersionAdvance (r\<lparr>s_jsonl_path := Some jsonlPath\<rparr>)"

definition healGuard :: "string \<Rightarrow> spawn_row \<Rightarrow> bool" where
  "healGuard sessionID r \<longleftrightarrow> where_true (sql_eq (s_session_id r) (Some sessionID)) \<and> s_jsonl_path r = None"

definition HealJsonlPath :: "store \<Rightarrow> string \<Rightarrow> string \<Rightarrow> string \<Rightarrow> bool call" where
  "HealJsonlPath s i sessionID jsonlPath =
     call_bind (dbExec s ''store: heal jsonl path'' (guarded i (healGuard sessionID) (\<lambda>_. healSet jsonlPath))) (\<lambda>n.
       if \<not> n then call_return False
       else emit_call (''ad.session.jsonl_healed'', [(''instance_id'', TS i), (''session_id'', TS sessionID), (''jsonl_path'', TS jsonlPath),
              (''source'', TS ''ad_spawn_store'')]) True)"

lemma healSet_keys [simp]: "s_instance_id (healSet p r) = s_instance_id r" "s_state (healSet p r) = s_state r"
  by (simp_all add: healSet_def rowVersionAdvance_def)

interpretation heal: conditional_write "healGuard sid" "\<lambda>_. healSet p"
  by unfold_locales (auto simp: healGuard_def healSet_def rowVersionAdvance_def finish_row_def Let_def)

end
