(* ===== verification/Subagents.thy ===== *)
theory Subagents
  imports Hook_Laws "HOL-Library.Product_Lexorder"
begin

text \<open>
  The records of an agent's subagents and of its claimable launches (subagents.go,
  subagent_writes.go, subagent_hook_writes.go): the events a hook reports, the gate every statement
  carries, the two capped tables with their evictions, the transitions of an entry and the two
  transactions that run them. The transitions run inside a transaction (\<open>'a tx\<close>); what the code's
  \<open>subagentEntry\<close> holds is the stored row itself, the columns it leaves out never change.
\<close>

section \<open>Strings of a payload\<close>

abbreviation SubagentStringMaxBytes :: nat where "SubagentStringMaxBytes \<equiv> 1024"

text \<open>\<open>utf8.RuneStart\<close>: a byte whose two top bits are not 10.\<close>

definition RuneStart :: "char \<Rightarrow> bool" where
  "RuneStart c \<longleftrightarrow> \<not> (digit7 c \<and> \<not> digit6 c)"

fun cutPoint :: "string \<Rightarrow> nat \<Rightarrow> nat" where
  "cutPoint s 0 = 0"
| "cutPoint s (Suc n) = (if RuneStart (s ! Suc n) then Suc n else cutPoint s n)"

definition CutSubagentString :: "string \<Rightarrow> string" where
  "CutSubagentString s =
     (if length s \<le> SubagentStringMaxBytes then s else take (cutPoint s SubagentStringMaxBytes) s)"

section \<open>Events\<close>

abbreviation "SubagentLifecycleStart \<equiv> ''start''"
abbreviation "SubagentLifecycleStop \<equiv> ''stop''"

abbreviation "SubagentLaunchBackgroundStarted \<equiv> ''background_started''"
abbreviation "SubagentLaunchForegroundFinished \<equiv> ''foreground_finished''"

abbreviation SubagentGraceMs :: int where "SubagentGraceMs \<equiv> 2000"
abbreviation SubagentCap :: nat where "SubagentCap \<equiv> 300"

record SubagentListed =
  ls_ID :: string
  ls_Type :: string

record SubagentLifecycleEvent =
  le_Kind :: string
  le_SubagentID :: string
  le_SessionID :: string
  le_Type :: string
  le_SupersedesBlockedStop :: bool
  le_Listing :: "SubagentListed list"
  le_ReceivedMs :: int

record SubagentLaunchDetails =
  ld_ToolUseID :: string
  ld_SubagentID :: string
  ld_LauncherID :: string
  ld_SessionID :: string
  ld_Type :: string
  ld_Description :: string
  ld_Model :: string
  ld_Outcome :: string
  ld_ReceivedMs :: int

record SubagentLaunchRequest =
  lr_ToolUseID :: string
  lr_Type :: string
  lr_ReceivedMs :: int

record SubagentLaunchFailure =
  lf_ToolUseID :: string

record SubagentSnapshot =
  sn_SessionID :: string
  sn_Listed :: "SubagentListed list"

record SubagentTurnEnd =
  te_ReceivedMs :: int
  te_Snapshot :: "SubagentSnapshot option"

record SubagentAfterWrite =
  aw_LaunchRequest :: "SubagentLaunchRequest option"
  aw_LaunchDetails :: "SubagentLaunchDetails option"
  aw_LaunchFailure :: "SubagentLaunchFailure option"
  aw_TurnEnd :: "SubagentTurnEnd option"

definition cutEvent :: "SubagentLifecycleEvent \<Rightarrow> SubagentLifecycleEvent" where
  "cutEvent ev = ev\<lparr>le_SubagentID := CutSubagentString (le_SubagentID ev),
     le_SessionID := CutSubagentString (le_SessionID ev), le_Type := CutSubagentString (le_Type ev)\<rparr>"

definition cutDetails :: "SubagentLaunchDetails \<Rightarrow> SubagentLaunchDetails" where
  "cutDetails l = l\<lparr>ld_ToolUseID := CutSubagentString (ld_ToolUseID l),
     ld_SubagentID := CutSubagentString (ld_SubagentID l), ld_LauncherID := CutSubagentString (ld_LauncherID l),
     ld_SessionID := CutSubagentString (ld_SessionID l), ld_Type := CutSubagentString (ld_Type l),
     ld_Description := CutSubagentString (ld_Description l), ld_Model := CutSubagentString (ld_Model l)\<rparr>"

definition cutRequest :: "SubagentLaunchRequest \<Rightarrow> SubagentLaunchRequest" where
  "cutRequest r = r\<lparr>lr_ToolUseID := CutSubagentString (lr_ToolUseID r), lr_Type := CutSubagentString (lr_Type r)\<rparr>"

definition cutFailure :: "SubagentLaunchFailure \<Rightarrow> SubagentLaunchFailure" where
  "cutFailure f = f\<lparr>lf_ToolUseID := CutSubagentString (lf_ToolUseID f)\<rparr>"

fun cutListedFrom :: "string list \<Rightarrow> SubagentListed list \<Rightarrow> SubagentListed list" where
  "cutListedFrom seen [] = []"
| "cutListedFrom seen (l # ls) =
     (let i = CutSubagentString (ls_ID l)
      in if i = [] \<or> i \<in> set seen then cutListedFrom seen ls
         else \<lparr>ls_ID = i, ls_Type = CutSubagentString (ls_Type l)\<rparr> # cutListedFrom (i # seen) ls)"

definition cutListed :: "SubagentListed list \<Rightarrow> SubagentListed list" where
  "cutListed ls = cutListedFrom [] ls"

section \<open>The gate of an entry statement\<close>

definition subagentRowLive :: "spawn_row \<Rightarrow> bool" where
  "subagentRowLive r \<longleftrightarrow> s_state r \<noteq> StateEnded \<and> s_state r \<noteq> StateMissing \<and> s_subagent_tracking r = 1 \<and> s_launch_token r \<noteq> None"

definition subagentRowGate :: "db \<Rightarrow> string \<Rightarrow> HookGate \<Rightarrow> spawn_row \<Rightarrow> bool" where
  "subagentRowGate d i g r \<longleftrightarrow> s_instance_id r = i \<and> subagentRowLive r \<and> hookGate d g r"

text \<open>\<open>subagentGateExists\<close> without and with the table the statement's row must belong to.\<close>

definition subagentGateExists :: "db \<Rightarrow> string \<Rightarrow> HookGate \<Rightarrow> bool" where
  "subagentGateExists d i g = any_row (subagentRowGate d i g) (spawns d)"

definition subagentGateBelongs :: "db \<Rightarrow> string \<Rightarrow> HookGate \<Rightarrow> string \<Rightarrow> bool" where
  "subagentGateBelongs d i g token = any_row (\<lambda>r. subagentRowGate d i g r \<and> s_launch_token r = Some token) (spawns d)"

section \<open>The caps\<close>

text \<open>
  The row a \<open>DELETE ... WHERE created_seq = (SELECT ... ORDER BY ... LIMIT 1)\<close> takes: the least by
  the statement's order among those it selects.
\<close>

definition victim :: "('r \<Rightarrow> 'k::linorder) \<Rightarrow> ('r \<Rightarrow> bool) \<Rightarrow> 'r list \<Rightarrow> 'r option" where
  "victim key P rs = (case sort_key key (filter P rs) of [] \<Rightarrow> None | r # _ \<Rightarrow> Some r)"

definition evictRank :: "subagent_row \<Rightarrow> nat" where
  "evictRank a = (if sa_state a \<noteq> SubagentStateRunning \<and> \<not> sa_confirmed a then 0
     else if sa_state a \<noteq> SubagentStateRunning then 1 else 2)"

definition evictKey :: "subagent_row \<Rightarrow> nat \<times> int \<times> int" where
  "evictKey a = (evictRank a, sa_activity_at a, sa_created_seq a)"

definition launchKey :: "launch_row \<Rightarrow> int \<times> int" where
  "launchKey l = (sl_opened_at l, sl_created_seq l)"

definition evictEntryStmt :: "string \<Rightarrow> HookGate \<Rightarrow> db \<Rightarrow> bool \<times> db" where
  "evictEntryStmt i g d =
     (case victim evictKey (\<lambda>a. sa_instance_id a = i) (subagents d) of
        Some v \<Rightarrow> if length (filter (\<lambda>a. sa_instance_id a = i) (subagents d)) \<ge> SubagentCap \<and> subagentGateExists d i g
                  then (True, d\<lparr>subagents := filter (\<lambda>a. sa_created_seq a \<noteq> sa_created_seq v) (subagents d)\<rparr>)
                  else (False, d)
      | None \<Rightarrow> (False, d))"

definition evictSubagentEntryGated :: "store \<Rightarrow> string \<Rightarrow> HookGate \<Rightarrow> bool tx" where
  "evictSubagentEntryGated s i g = tx_exec s ''store: evict subagent entry'' (evictEntryStmt i g)"

definition evictLaunchStmt :: "string \<Rightarrow> HookGate \<Rightarrow> db \<Rightarrow> bool \<times> db" where
  "evictLaunchStmt i g d =
     (case victim launchKey (\<lambda>l. sl_instance_id l = i) (subagent_launches d) of
        Some v \<Rightarrow> if length (filter (\<lambda>l. sl_instance_id l = i) (subagent_launches d)) \<ge> SubagentCap \<and> subagentGateExists d i g
                  then (True, d\<lparr>subagent_launches := filter (\<lambda>l. sl_created_seq l \<noteq> sl_created_seq v) (subagent_launches d)\<rparr>)
                  else (False, d)
      | None \<Rightarrow> (False, d))"

definition evictSubagentLaunchGated :: "store \<Rightarrow> string \<Rightarrow> HookGate \<Rightarrow> bool tx" where
  "evictSubagentLaunchGated s i g = tx_exec s ''store: evict subagent launch'' (evictLaunchStmt i g)"

section \<open>The fields of an entry\<close>

definition sourceRank :: "string \<Rightarrow> int" where
  "sourceRank src = (if src = SubagentSourceStart \<or> src = SubagentSourceStop then 3
     else if src = SubagentSourceDetails then 2 else if src = SubagentSourceSnapshot then 1 else 0)"

definition applyRanked :: "string option \<times> string option \<Rightarrow> string \<Rightarrow> string \<Rightarrow> string option \<times> string option" where
  "applyRanked vs v src = (case vs of (val, valSource) \<Rightarrow>
     if v = [] then vs
     else if val = None \<or> sourceRank src > sourceRank (coalesce valSource []) then (Some v, Some src) else vs)"

definition applyFirst :: "string option \<Rightarrow> string \<Rightarrow> string option" where
  "applyFirst val v = (if v \<noteq> [] \<and> val = None then Some v else val)"

definition earlier :: "int option \<Rightarrow> int \<Rightarrow> int option" where
  "earlier t at = (case t of None \<Rightarrow> Some at | Some x \<Rightarrow> if x > at then Some at else t)"

definition rankedType :: "string \<Rightarrow> string \<Rightarrow> subagent_row \<Rightarrow> subagent_row" where
  "rankedType v src a = (case applyRanked (sa_subagent_type a, sa_subagent_type_source a) v src of
     (t, ts) \<Rightarrow> a\<lparr>sa_subagent_type := t, sa_subagent_type_source := ts\<rparr>)"

definition rankedMode :: "string \<Rightarrow> string \<Rightarrow> subagent_row \<Rightarrow> subagent_row" where
  "rankedMode v src a = (case applyRanked (sa_run_mode a, sa_run_mode_source a) v src of
     (m, ms) \<Rightarrow> a\<lparr>sa_run_mode := m, sa_run_mode_source := ms\<rparr>)"

definition zeroEntry :: subagent_row where
  "zeroEntry = \<lparr>sa_created_seq = 0, sa_instance_id = [], sa_subagent_id = [], sa_launch_token = [], sa_confirmed = False,
     sa_session_id = None, sa_subagent_type = None, sa_description = None, sa_model = None, sa_parent_type = None,
     sa_parent_id = None, sa_tool_use_id = None, sa_run_mode = None, sa_first_started_at = None, sa_started_at = None,
     sa_stopped_at = None, sa_lost_at = None, sa_state = [], sa_close_reason = None, sa_opened_at = 0, sa_activity_at = 0,
     sa_subagent_type_source = None, sa_run_mode_source = None, sa_stopped_at_source = None, sa_life_number = 0\<rparr>"

section \<open>Statements on entries and launches\<close>

record subagentTx =
  t_instanceID :: string
  t_gate :: HookGate
  t_token :: string
  t_tokenOK :: bool

definition newSubagentTx :: "store \<Rightarrow> string \<Rightarrow> HookGate \<Rightarrow> subagentTx tx" where
  "newSubagentTx s i g d =
     (if sqlFails s ''store: subagent launch token'' then Inl (DriverError ''store: subagent launch token'')
      else let tok = (case find_spawn d i of None \<Rightarrow> None | Some r \<Rightarrow> s_launch_token r)
           in Inr (\<lparr>t_instanceID = i, t_gate = g, t_token = coalesce tok [], t_tokenOK = (coalesce tok [] \<noteq> [])\<rparr>, d))"

definition currentLife :: "db \<Rightarrow> string \<Rightarrow> int option" where
  "currentLife d i = map_option s_life_number (find_spawn d i)"

definition readEntry :: "store \<Rightarrow> subagentTx \<Rightarrow> string \<Rightarrow> subagent_row option tx" where
  "readEntry s t sid d =
     (if sqlFails s ''store: read subagent entry'' then Inl (DriverError ''store: read subagent entry'')
      else Inr (find (\<lambda>a. sa_instance_id a = t_instanceID t \<and> sa_subagent_id a = sid
                 \<and> where_true (sql_eq (Some (sa_life_number a)) (currentLife d (t_instanceID t)))) (subagents d), d))"

definition entryGate :: "db \<Rightarrow> subagentTx \<Rightarrow> bool \<Rightarrow> subagent_row \<Rightarrow> bool" where
  "entryGate d t currentOnly a =
     (if currentOnly then subagentGateBelongs d (t_instanceID t) (t_gate t) (sa_launch_token a)
      else subagentGateExists d (t_instanceID t) (t_gate t))"

text \<open>The SET of \<open>writeEntry\<close>: every column of the entry but its keys, session and life.\<close>

definition entrySet :: "db \<Rightarrow> subagentTx \<Rightarrow> subagent_row \<Rightarrow> int \<Rightarrow> bool \<Rightarrow> subagent_row \<Rightarrow> subagent_row" where
  "entrySet d t n at move a = n\<lparr>sa_created_seq := sa_created_seq a, sa_instance_id := sa_instance_id a,
     sa_subagent_id := sa_subagent_id a, sa_session_id := sa_session_id a, sa_life_number := sa_life_number a,
     sa_launch_token := (if move then coalesce (case find_spawn d (t_instanceID t) of None \<Rightarrow> None | Some r \<Rightarrow> s_launch_token r) []
                         else sa_launch_token a),
     sa_activity_at := at\<rparr>"

definition writeEntry :: "store \<Rightarrow> subagentTx \<Rightarrow> subagent_row \<Rightarrow> subagent_row \<Rightarrow> int \<Rightarrow> bool \<Rightarrow> bool \<Rightarrow> unit tx" where
  "writeEntry s t old n at move currentOnly =
     (if n\<lparr>sa_activity_at := sa_activity_at old\<rparr> = old then tx_return ()
      else tx_exec s ''store: update subagent entry'' (\<lambda>d. ((), d\<lparr>subagents := update_where
         (\<lambda>a. sa_created_seq a = sa_created_seq old \<and> sa_instance_id a = t_instanceID t \<and> entryGate d t currentOnly a)
         (entrySet d t n at move) (subagents d)\<rparr>)))"

definition insertedEntry :: "db \<Rightarrow> string \<Rightarrow> subagent_row \<Rightarrow> spawn_row \<Rightarrow> subagent_row" where
  "insertedEntry d sid e r = e\<lparr>sa_created_seq := next_subagent_seq d, sa_instance_id := s_instance_id r, sa_subagent_id := sid,
     sa_launch_token := coalesce (s_launch_token r) [], sa_life_number := s_life_number r\<rparr>"

definition sameEntry :: "subagent_row \<Rightarrow> subagent_row \<Rightarrow> bool" where
  "sameEntry a b \<longleftrightarrow> sa_instance_id a = sa_instance_id b \<and> sa_life_number a = sa_life_number b \<and> sa_subagent_id a = sa_subagent_id b"

definition insertEntry :: "store \<Rightarrow> subagentTx \<Rightarrow> string \<Rightarrow> subagent_row \<Rightarrow> bool tx" where
  "insertEntry s t sid e d =
     (if sqlFails s ''store: insert subagent entry'' then Inl (DriverError ''store: insert subagent entry'')
      else (case find (subagentRowGate d (t_instanceID t) (t_gate t)) (spawns d) of
          None \<Rightarrow> Inr (False, d)
        | Some r \<Rightarrow> let n = insertedEntry d sid e r
            in if any_row (sameEntry n) (subagents d) then Inl (DriverError ''store: insert subagent entry'')
               else Inr (True, d\<lparr>subagents := subagents d @ [n], next_subagent_seq := next_subagent_seq d + 1\<rparr>)))"

definition claimStmt :: "subagentTx \<Rightarrow> string \<Rightarrow> db \<Rightarrow> bool \<times> db" where
  "claimStmt t typ d =
     (case victim launchKey (\<lambda>l. sl_instance_id l = t_instanceID t \<and> sl_subagent_type l = typ
               \<and> where_true (sql_eq (Some (sl_launch_token l))
                   (case find_spawn d (t_instanceID t) of None \<Rightarrow> None | Some r \<Rightarrow> s_launch_token r))) (subagent_launches d) of
        Some v \<Rightarrow> if subagentGateBelongs d (t_instanceID t) (t_gate t) (sl_launch_token v)
                  then (True, d\<lparr>subagent_launches := filter (\<lambda>l. sl_created_seq l \<noteq> sl_created_seq v) (subagent_launches d)\<rparr>)
                  else (False, d)
      | None \<Rightarrow> (False, d))"

definition claim_tx :: "store \<Rightarrow> subagentTx \<Rightarrow> string \<Rightarrow> bool tx" where
  "claim_tx s t typ = tx_exec s ''store: claim subagent launch'' (claimStmt t typ)"

definition create_tx :: "store \<Rightarrow> subagentTx \<Rightarrow> string \<Rightarrow> subagent_row \<Rightarrow> string \<Rightarrow> unit tx" where
  "create_tx s t sid e claimType =
     tx_bind (evictSubagentEntryGated s (t_instanceID t) (t_gate t)) (\<lambda>evicted.
     tx_bind (if claimType \<noteq> [] then claim_tx s t claimType else tx_return False) (\<lambda>claimed.
     tx_bind (insertEntry s t sid (e\<lparr>sa_confirmed := sa_confirmed e \<or> claimed\<rparr>)) (\<lambda>inserted.
     if \<not> inserted \<and> (evicted \<or> claimed) then (\<lambda>d. Inl errSubagentWriteRefused) else tx_return ())))"

definition closeLaunch :: "store \<Rightarrow> subagentTx \<Rightarrow> string \<Rightarrow> unit tx" where
  "closeLaunch s t toolUseID =
     (if toolUseID = [] then tx_return ()
      else tx_exec s ''store: close subagent launch'' (\<lambda>d. ((), d\<lparr>subagent_launches :=
         filter (\<lambda>l. \<not> (sl_instance_id l = t_instanceID t \<and> sl_tool_use_id l = toolUseID
                        \<and> subagentGateExists d (t_instanceID t) (t_gate t))) (subagent_launches d)\<rparr>)))"

section \<open>The transitions\<close>

definition startedEntry :: "SubagentLifecycleEvent \<Rightarrow> subagent_row" where
  "startedEntry ev = (let at = le_ReceivedMs ev in rankedType (le_Type ev) SubagentSourceStart
     (zeroEntry\<lparr>sa_session_id := nullableStringArg (le_SessionID ev), sa_state := SubagentStateRunning,
        sa_first_started_at := Some at, sa_started_at := Some at, sa_opened_at := at, sa_activity_at := at\<rparr>))"

definition restartedEntry :: "SubagentLifecycleEvent \<Rightarrow> string \<Rightarrow> subagent_row \<Rightarrow> subagent_row" where
  "restartedEntry ev token e =
     (let at = le_ReceivedMs ev;
          n = (rankedType (le_Type ev) SubagentSourceStart e)\<lparr>sa_launch_token := token\<rparr>;
          n = (if sa_state n \<noteq> SubagentStateRunning
               then n\<lparr>sa_state := SubagentStateRunning, sa_started_at := Some at, sa_opened_at := at,
                      sa_close_reason := None, sa_lost_at := None\<rparr>
               else if sa_started_at n = None then n\<lparr>sa_started_at := Some at\<rparr> else n)
      in n\<lparr>sa_first_started_at := earlier (sa_first_started_at n) at\<rparr>)"

definition start_tx :: "store \<Rightarrow> subagentTx \<Rightarrow> SubagentLifecycleEvent \<Rightarrow> unit tx" where
  "start_tx s t ev = tx_bind (readEntry s t (le_SubagentID ev)) (\<lambda>found. case found of
     None \<Rightarrow> create_tx s t (le_SubagentID ev) (startedEntry ev) (le_Type ev)
   | Some e \<Rightarrow> writeEntry s t e (restartedEntry ev (t_token t) e) (le_ReceivedMs ev) True False)"

definition stoppedEntry :: "SubagentLifecycleEvent \<Rightarrow> subagent_row \<Rightarrow> subagent_row" where
  "stoppedEntry ev e =
     (let at = le_ReceivedMs ev
      in if sa_state e = SubagentStateRunning \<or> sa_state e = SubagentStateLost
         then e\<lparr>sa_state := SubagentStateStopped, sa_stopped_at := Some at, sa_stopped_at_source := Some SubagentSourceStop,
                sa_close_reason := Some SubagentCloseStopEvent, sa_lost_at := None\<rparr>
         else if sa_state e = SubagentStateStopped
              \<and> (le_SupersedesBlockedStop ev \<or> sa_stopped_at e = None \<or> coalesce (sa_stopped_at_source e) [] \<noteq> SubagentSourceStop)
         then e\<lparr>sa_stopped_at := Some at, sa_stopped_at_source := Some SubagentSourceStop\<rparr>
         else e)"

definition stopEntry :: "store \<Rightarrow> subagentTx \<Rightarrow> SubagentLifecycleEvent \<Rightarrow> unit tx" where
  "stopEntry s t ev = tx_bind (readEntry s t (le_SubagentID ev)) (\<lambda>found. case found of
     None \<Rightarrow> tx_return ()
   | Some e \<Rightarrow> if sa_launch_token e \<noteq> t_token t then tx_return ()
               else writeEntry s t e (stoppedEntry ev e) (le_ReceivedMs ev) False True)"

definition listedEntry :: "int \<Rightarrow> string \<Rightarrow> string \<Rightarrow> subagent_row" where
  "listedEntry at sessionID typ = rankedType typ SubagentSourceSnapshot
     (zeroEntry\<lparr>sa_confirmed := True, sa_session_id := nullableStringArg sessionID, sa_state := SubagentStateRunning,
        sa_run_mode := Some SubagentRunModeBackground, sa_run_mode_source := Some SubagentSourceSnapshot,
        sa_opened_at := at, sa_activity_at := at\<rparr>)"

definition confirmedEntry :: "string \<Rightarrow> subagent_row \<Rightarrow> subagent_row" where
  "confirmedEntry token e = (let n = e\<lparr>sa_confirmed := True, sa_launch_token := token\<rparr>
     in if sa_run_mode n = None
        then n\<lparr>sa_run_mode := Some SubagentRunModeBackground, sa_run_mode_source := Some SubagentSourceSnapshot\<rparr> else n)"

fun applyListed :: "store \<Rightarrow> subagentTx \<Rightarrow> SubagentListed list \<Rightarrow> int \<Rightarrow> bool \<Rightarrow> string \<Rightarrow> unit tx" where
  "applyListed s t [] at creates sessionID = tx_return ()"
| "applyListed s t (l # ls) at creates sessionID =
     tx_bind (readEntry s t (ls_ID l)) (\<lambda>found.
     tx_bind (case found of
         None \<Rightarrow> if \<not> creates then tx_return () else create_tx s t (ls_ID l) (listedEntry at sessionID (ls_Type l)) []
       | Some e \<Rightarrow> writeEntry s t e (confirmedEntry (t_token t) e) at True False) (\<lambda>_.
     applyListed s t ls at creates sessionID))"

definition stop_tx :: "store \<Rightarrow> subagentTx \<Rightarrow> SubagentLifecycleEvent \<Rightarrow> unit tx" where
  "stop_tx s t ev = tx_bind (stopEntry s t ev) (\<lambda>_. applyListed s t (cutListed (le_Listing ev)) (le_ReceivedMs ev) False [])"

definition detailsMode :: "SubagentLaunchDetails \<Rightarrow> string" where
  "detailsMode l = (if ld_Outcome l = SubagentLaunchBackgroundStarted then SubagentRunModeBackground
     else if ld_Outcome l = SubagentLaunchForegroundFinished then SubagentRunModeForeground else [])"

definition fillDetails :: "string \<Rightarrow> SubagentLaunchDetails \<Rightarrow> subagent_row \<Rightarrow> subagent_row" where
  "fillDetails i l a =
     (let n = rankedMode (detailsMode l) SubagentSourceDetails (rankedType (ld_Type l) SubagentSourceDetails a);
          n = n\<lparr>sa_description := applyFirst (sa_description n) (ld_Description l), sa_model := applyFirst (sa_model n) (ld_Model l),
                sa_tool_use_id := applyFirst (sa_tool_use_id n) (ld_ToolUseID l)\<rparr>
      in if sa_parent_type n \<noteq> None then n
         else if ld_LauncherID l \<noteq> []
         then n\<lparr>sa_parent_type := Some SubagentParentSubagent, sa_parent_id := nullableStringArg (ld_LauncherID l)\<rparr>
         else n\<lparr>sa_parent_type := Some SubagentParentAgent, sa_parent_id := nullableStringArg i\<rparr>)"

definition detailedEntry :: "string \<Rightarrow> SubagentLaunchDetails \<Rightarrow> subagent_row" where
  "detailedEntry i l =
     (let at = ld_ReceivedMs l;
          n = fillDetails i l (zeroEntry\<lparr>sa_confirmed := True, sa_session_id := nullableStringArg (ld_SessionID l),
                                 sa_opened_at := at, sa_activity_at := at\<rparr>)
      in if ld_Outcome l = SubagentLaunchBackgroundStarted
         then n\<lparr>sa_state := SubagentStateRunning, sa_first_started_at := Some at, sa_started_at := Some at\<rparr>
         else n\<lparr>sa_state := SubagentStateStopped, sa_stopped_at := Some at, sa_stopped_at_source := Some SubagentSourceDetails,
                sa_close_reason := Some SubagentCloseStopEvent\<rparr>)"

definition completedEntry :: "string \<Rightarrow> SubagentLaunchDetails \<Rightarrow> string \<Rightarrow> subagent_row \<Rightarrow> subagent_row" where
  "completedEntry i l token e =
     (let at = ld_ReceivedMs l;
          n = (fillDetails i l e)\<lparr>sa_confirmed := True, sa_launch_token := token\<rparr>
      in if ld_Outcome l = SubagentLaunchBackgroundStarted
         then n\<lparr>sa_started_at := (if sa_started_at n = None then Some at else sa_started_at n),
                sa_first_started_at := earlier (sa_first_started_at n) at\<rparr>
         else if ld_Outcome l = SubagentLaunchForegroundFinished
                 \<and> (sa_state n = SubagentStateRunning \<or> sa_state n = SubagentStateLost)
         then n\<lparr>sa_state := SubagentStateStopped, sa_stopped_at := Some at, sa_stopped_at_source := Some SubagentSourceDetails,
                sa_close_reason := Some SubagentCloseStopEvent, sa_lost_at := None\<rparr>
         else n)"

definition launchDetails :: "store \<Rightarrow> subagentTx \<Rightarrow> SubagentLaunchDetails \<Rightarrow> unit tx" where
  "launchDetails s t l = tx_bind (closeLaunch s t (ld_ToolUseID l)) (\<lambda>_.
     if ld_SubagentID l = [] then tx_return ()
     else tx_bind (readEntry s t (ld_SubagentID l)) (\<lambda>found. case found of
         None \<Rightarrow> if ld_Outcome l \<noteq> SubagentLaunchBackgroundStarted \<and> ld_Outcome l \<noteq> SubagentLaunchForegroundFinished then tx_return ()
                 else create_tx s t (ld_SubagentID l) (detailedEntry (t_instanceID t) l) []
       | Some e \<Rightarrow> writeEntry s t e (completedEntry (t_instanceID t) l (t_token t) e) (ld_ReceivedMs l) True False))"

definition launchOpen :: "subagentTx \<Rightarrow> string \<Rightarrow> db \<Rightarrow> bool" where
  "launchOpen t tu d \<longleftrightarrow>
     any_row (\<lambda>l. sl_instance_id l = t_instanceID t \<and> sl_tool_use_id l = tu) (subagent_launches d)
     \<or> any_row (\<lambda>a. sa_instance_id a = t_instanceID t \<and> where_true (sql_eq (sa_tool_use_id a) (Some tu))
                    \<and> sa_launch_token a = t_token t) (subagents d)"

definition openLaunchStmt :: "subagentTx \<Rightarrow> SubagentLaunchRequest \<Rightarrow> db \<Rightarrow> bool \<times> db" where
  "openLaunchStmt t r d =
     (case find (\<lambda>sp. subagentRowGate d (t_instanceID t) (t_gate t) sp
            \<and> \<not> any_row (\<lambda>l. sl_instance_id l = s_instance_id sp \<and> sl_tool_use_id l = lr_ToolUseID r) (subagent_launches d)) (spawns d) of
        None \<Rightarrow> (False, d)
      | Some sp \<Rightarrow> (True, d\<lparr>subagent_launches := subagent_launches d @ [\<lparr>sl_created_seq = next_launch_seq d,
              sl_instance_id = s_instance_id sp, sl_launch_token = coalesce (s_launch_token sp) [], sl_tool_use_id = lr_ToolUseID r,
              sl_subagent_type = lr_Type r, sl_opened_at = lr_ReceivedMs r\<rparr>], next_launch_seq := next_launch_seq d + 1\<rparr>))"

definition launchRequest :: "store \<Rightarrow> subagentTx \<Rightarrow> SubagentLaunchRequest \<Rightarrow> unit tx" where
  "launchRequest s t r =
     (if lr_ToolUseID r = [] \<or> lr_Type r = [] \<or> \<not> t_tokenOK t then tx_return ()
      else tx_bind (tx_exec s ''store: read subagent launch'' (\<lambda>d. (launchOpen t (lr_ToolUseID r) d, d))) (\<lambda>exists.
        if exists then tx_return ()
        else tx_bind (evictSubagentLaunchGated s (t_instanceID t) (t_gate t)) (\<lambda>evicted.
          tx_bind (tx_exec s ''store: open subagent launch'' (openLaunchStmt t r)) (\<lambda>n.
          if \<not> n \<and> evicted then (\<lambda>d. Inl errSubagentWriteRefused) else tx_return ()))))"

definition launchFailure :: "store \<Rightarrow> subagentTx \<Rightarrow> SubagentLaunchFailure \<Rightarrow> unit tx" where
  "launchFailure s t f = closeLaunch s t (lf_ToolUseID f)"

section \<open>The end of a turn\<close>

definition staleBackground :: "int \<Rightarrow> subagent_row \<Rightarrow> bool" where
  "staleBackground at a \<longleftrightarrow> sa_state a = SubagentStateRunning
     \<and> where_true (sql_eq (sa_run_mode a) (Some SubagentRunModeBackground)) \<and> sa_opened_at a < at - SubagentGraceMs"

definition readUnlistedCandidates :: "store \<Rightarrow> subagentTx \<Rightarrow> string list \<Rightarrow> int \<Rightarrow> int list tx" where
  "readUnlistedCandidates s t named at = tx_exec s ''store: read subagent snapshot candidates'' (\<lambda>d.
     (map sa_created_seq (filter (\<lambda>a. sa_instance_id a = t_instanceID t \<and> sa_launch_token a = t_token t \<and> staleBackground at a
        \<and> sa_subagent_id a \<notin> set named) (subagents d)), d))"

definition absentSet :: "int \<Rightarrow> subagent_row \<Rightarrow> subagent_row" where
  "absentSet at a = a\<lparr>sa_state := SubagentStateLost, sa_close_reason := Some SubagentCloseAbsentFromSnapshot,
     sa_lost_at := Some at, sa_activity_at := at\<rparr>"

fun closeAbsentLoop :: "store \<Rightarrow> subagentTx \<Rightarrow> int \<Rightarrow> int list \<Rightarrow> unit tx" where
  "closeAbsentLoop s t at [] = tx_return ()"
| "closeAbsentLoop s t at (q # qs) =
     tx_bind (tx_exec s ''store: close absent subagent entry'' (\<lambda>d. ((), d\<lparr>subagents := update_where
        (\<lambda>a. sa_created_seq a = q \<and> sa_instance_id a = t_instanceID t \<and> staleBackground at a
             \<and> subagentGateBelongs d (t_instanceID t) (t_gate t) (sa_launch_token a)) (absentSet at) (subagents d)\<rparr>))) (\<lambda>_.
     closeAbsentLoop s t at qs)"

definition closeAbsent :: "store \<Rightarrow> subagentTx \<Rightarrow> SubagentListed list \<Rightarrow> int \<Rightarrow> unit tx" where
  "closeAbsent s t listed at =
     (if \<not> t_tokenOK t then tx_return ()
      else tx_bind (readUnlistedCandidates s t (map ls_ID listed) at) (\<lambda>stale. closeAbsentLoop s t at stale))"

definition turnEnd :: "store \<Rightarrow> subagentTx \<Rightarrow> SubagentTurnEnd \<Rightarrow> unit tx" where
  "turnEnd s t te = tx_bind (tx_exec s ''store: close stale subagent launches'' (\<lambda>d. ((), d\<lparr>subagent_launches :=
       filter (\<lambda>l. \<not> (sl_instance_id l = t_instanceID t \<and> sl_opened_at l < te_ReceivedMs te - SubagentGraceMs
                      \<and> subagentGateBelongs d (t_instanceID t) (t_gate t) (sl_launch_token l))) (subagent_launches d)\<rparr>))) (\<lambda>_.
     case te_Snapshot te of
       None \<Rightarrow> tx_return ()
     | Some sn \<Rightarrow> let listed = cutListed (sn_Listed sn)
         in tx_bind (applyListed s t listed (te_ReceivedMs te) True (CutSubagentString (sn_SessionID sn))) (\<lambda>_.
            closeAbsent s t listed (te_ReceivedMs te)))"

section \<open>The two transactions and the skip\<close>

definition seenSet :: "db \<Rightarrow> spawn_row \<Rightarrow> spawn_row" where
  "seenSet d r = r\<lparr>s_last_seen_at := sql_now_text d\<rparr>"

definition lifecycleWrite :: "store \<Rightarrow> string \<Rightarrow> HookGate \<Rightarrow> SubagentLifecycleEvent \<Rightarrow> string \<Rightarrow> bool \<Rightarrow> unit tx" where
  "lifecycleWrite s i g ev jsonlPath jsonlPresent =
     tx_bind (tx_exec s ''store: subagent lifecycle'' (gatedHookUpdate i g seenSet jsonlPath jsonlPresent no_cond)) (\<lambda>n.
       if \<not> n then (\<lambda>d. Inl errNotApplied)
       else if le_SubagentID ev = [] then tx_return ()
       else tx_bind (newSubagentTx s i g) (\<lambda>t. if le_Kind ev = SubagentLifecycleStart then start_tx s t ev else stop_tx s t ev))"

definition lifecycleTx :: "store \<Rightarrow> string \<Rightarrow> HookGate \<Rightarrow> SubagentLifecycleEvent \<Rightarrow> string \<Rightarrow> bool \<Rightarrow> string tx" where
  "lifecycleTx s i g ev jsonlPath jsonlPresent d =
     (if sqlFails s ''prior state'' then Inl (DriverError ''prior state'')
      else (case find_spawn d i of
          None \<Rightarrow> Inl errNotApplied
        | Some r \<Rightarrow> tx_bind (lifecycleWrite s i g ev jsonlPath jsonlPresent) (\<lambda>_. tx_return (s_state r)) d))"

definition ApplySubagentLifecycle :: "store \<Rightarrow> string \<Rightarrow> HookGate \<Rightarrow> SubagentLifecycleEvent \<Rightarrow> string \<Rightarrow> string \<Rightarrow> bool
     \<Rightarrow> hook_result call" where
  "ApplySubagentLifecycle s i g ev0 evName jsonlPath jsonlPresent d =
     (let ev = cutEvent ev0
      in if le_SubagentID ev \<noteq> [] \<and> le_Kind ev \<noteq> SubagentLifecycleStart \<and> le_Kind ev \<noteq> SubagentLifecycleStop
         then (Inl (errUnknownEventKind (le_Kind ev)), d)
         else (case inImmediateTx s i (lifecycleTx s i g ev jsonlPath jsonlPresent) d of
             (Inl errNotApplied, d1) \<Rightarrow>
               call_bind (read_then s 9 (hookNotApplied s i g ''store: subagent lifecycle'' \<circ> others s 8))
                 (\<lambda>a. call_return (UpsertNoChange, a)) d1
           | (Inl e, d1) \<Rightarrow> (Inl e, d1)
           | (Inr prior, d1) \<Rightarrow> emit_call (transitionEvent i prior prior evName True) (UpsertUpdated, hook_applied) d1))"

definition writesSet :: "SubagentAfterWrite \<Rightarrow> nat" where
  "writesSet w = length (filter id [aw_LaunchRequest w \<noteq> None, aw_LaunchDetails w \<noteq> None, aw_LaunchFailure w \<noteq> None, aw_TurnEnd w \<noteq> None])"

definition afterWriteTx :: "store \<Rightarrow> string \<Rightarrow> HookGate \<Rightarrow> SubagentAfterWrite \<Rightarrow> unit tx" where
  "afterWriteTx s i g w = tx_bind (newSubagentTx s i g) (\<lambda>t.
     case aw_LaunchRequest w of Some r \<Rightarrow> launchRequest s t (cutRequest r)
     | None \<Rightarrow> (case aw_LaunchDetails w of Some l \<Rightarrow> launchDetails s t (cutDetails l)
     | None \<Rightarrow> (case aw_LaunchFailure w of Some f \<Rightarrow> launchFailure s t (cutFailure f)
     | None \<Rightarrow> (case aw_TurnEnd w of Some te \<Rightarrow> turnEnd s t te
     | None \<Rightarrow> tx_return ()))))"

definition ApplySubagentAfterWrite :: "store \<Rightarrow> string \<Rightarrow> HookGate \<Rightarrow> SubagentAfterWrite \<Rightarrow> unit call" where
  "ApplySubagentAfterWrite s i g w d =
     (if writesSet w \<noteq> 1 then (Inl (errOneWriteRequired (writesSet w)), d)
      else inImmediateTx s i (afterWriteTx s i g w) d)"

definition SubagentTurnEndHasWork :: "store \<Rightarrow> string \<Rightarrow> SubagentTurnEnd \<Rightarrow> db \<Rightarrow> store_error + bool" where
  "SubagentTurnEndHasWork s i te d =
     (if (case te_Snapshot te of None \<Rightarrow> False | Some sn \<Rightarrow> cutListed (sn_Listed sn) \<noteq> []) then Inr True
      else if sqlFails s ''store: subagent turn end read'' then Inl (DriverError ''store: subagent turn end read'')
      else let current = (\<lambda>tok. any_row (\<lambda>r. s_instance_id r = i \<and> where_true (sql_eq (s_launch_token r) (Some tok))) (spawns d))
           in Inr (any_row (\<lambda>l. sl_instance_id l = i \<and> current (sl_launch_token l) \<and> sl_opened_at l < te_ReceivedMs te - SubagentGraceMs)
                     (subagent_launches d)
                 \<or> te_Snapshot te \<noteq> None
                   \<and> any_row (\<lambda>a. sa_instance_id a = i \<and> current (sa_launch_token a) \<and> staleBackground (te_ReceivedMs te) a) (subagents d)))"

end
