(* ===== verification/Context_Source.thy ===== *)
theory Context_Source
  imports Store_Rows Go_Text
begin

text \<open>
  The context evidence of a Claude transcript (internal/contextsource/claude.go): the usage of the
  newest response on an unbroken history. A transcript is the lines \<open>readFile\<close> admits, each its length
  and what \<open>encoding/json\<close> reads from it into a record, none when it refuses the line; opening and
  checking the file is outside the model. \<open>parseStamp\<close> is \<open>time.Parse\<close> of an RFC 3339 text.
\<close>

section \<open>Counts\<close>

abbreviation MaxInt64 :: int where "MaxInt64 \<equiv> 9223372036854775807"

record Counts =
  ct_Input :: "int option"
  ct_Creation :: "int option"
  ct_Read :: "int option"
  ct_Output :: "int option"

definition countsList :: "Counts \<Rightarrow> int option list" where
  "countsList c = [ct_Input c, ct_Creation c, ct_Read c, ct_Output c]"

text \<open>The sum of four 64-bit counts: refused when one is absent or negative, or when it would overflow.\<close>

fun countsTotal :: "int \<Rightarrow> int option list \<Rightarrow> int option" where
  "countsTotal tot [] = Some tot"
| "countsTotal tot (n # ns) = (case n of
     None \<Rightarrow> None
   | Some x \<Rightarrow> if x < 0 \<or> x > MaxInt64 - tot then None else countsTotal (tot + x) ns)"

definition Total :: "Counts \<Rightarrow> int option" where
  "Total c = countsTotal 0 (countsList c)"

definition countsEqual :: "Counts \<Rightarrow> Counts \<Rightarrow> bool" where
  "countsEqual c c' \<longleftrightarrow> Total c \<noteq> None \<and> Total c' \<noteq> None \<and> countsList c = countsList c'"

section \<open>The history\<close>

record iteration =
  it_Type :: string
  it_Counts :: Counts

record usageRecord =
  us_Counts :: Counts
  us_Iterations :: "iteration list"

record messageRecord =
  ms_ID :: string
  ms_Model :: string
  ms_Usage :: "usageRecord option"

record claudeRecord =
  re_Type :: string
  re_Subtype :: string
  re_UUID :: string
  re_Parent :: "string option"
  re_Session :: string
  re_Agent :: string
  re_Sidechain :: bool
  re_Version :: string
  re_Timestamp :: string
  re_Message :: "messageRecord option"

type_synonym transcript = "(int \<times> claudeRecord option) list"

abbreviation "ClaudeVersion \<equiv> ''2.1.280''"

record ClaudeUsage =
  cu_UUID :: string
  cu_Model :: string
  cu_Tokens :: int
  cu_At :: go_time
  cu_Counts :: Counts

text \<open>\<open>time.Time\<close>'s zero is midnight of January 1 of the year 1, UTC; the zone is not compared.\<close>

definition zeroInstant :: int where
  "zeroInstant = -62135596800000000000"

definition yearInRange :: "go_time \<Rightarrow> bool" where
  "yearInRange t \<longleftrightarrow> (let local_ns = t_ns t + t_offset t * 1000000000 in -62167219200000000000 \<le> local_ns \<and> local_ns < 253402300800000000000)"

definition toUTC :: "go_time \<Rightarrow> go_time" where
  "toUTC t = t\<lparr>t_offset := 0\<rparr>"

definition emptyCounts :: Counts where
  "emptyCounts = \<lparr>ct_Input = None, ct_Creation = None, ct_Read = None, ct_Output = None\<rparr>"

definition zeroUsage :: ClaudeUsage where
  "zeroUsage = \<lparr>cu_UUID = [], cu_Model = [], cu_Tokens = 0, cu_At = \<lparr>t_ns = zeroInstant, t_offset = 0\<rparr>, cu_Counts = emptyCounts\<rparr>"

definition unchainedTypes :: "string list" where
  "unchainedTypes = [''mode'', ''permission-mode'', ''atis-latch'', ''file-history-snapshot'', ''last-prompt'', ''ai-title'',
     ''queue-operation'', ''cost-state'', ''progress'']"

definition chainedTypes :: "string list" where
  "chainedTypes = [''user'', ''attachment'', ''system'', ''assistant'']"

text \<open>
  The counts of a response: its last ordinary iteration's when that used input, else its own; \<open>Inl ()\<close>
  refuses the whole transcript. The iterations come last first.
\<close>

fun ordinaryCounts :: "Counts \<Rightarrow> iteration list \<Rightarrow> unit + Counts" where
  "ordinaryCounts counts [] = Inr counts"
| "ordinaryCounts counts (it # its) =
     (if it_Type it = ''advisor_message'' \<or> it_Type it = ''compaction'' then ordinaryCounts counts its
      else if it_Type it \<noteq> ''message'' \<and> it_Type it \<noteq> ''fallback_message'' then Inl ()
      else (case Total (it_Counts it) of
          None \<Rightarrow> Inl ()
        | Some tot \<Rightarrow> Inr (if tot > the (ct_Output (it_Counts it)) then it_Counts it else counts)))"

definition responseCounts :: "usageRecord \<Rightarrow> int \<Rightarrow> unit + Counts" where
  "responseCounts u originalTotal =
     (if originalTotal > the (ct_Output (us_Counts u)) then ordinaryCounts (us_Counts u) (rev (us_Iterations u)) else Inr (us_Counts u))"

record scan =
  sc_latest :: ClaudeUsage
  sc_previous :: string
  sc_measured :: int

text \<open>One assistant record whose place in the history is right; \<open>None\<close> refuses the transcript.\<close>

definition measureResponse :: "(string \<Rightarrow> go_time option) \<Rightarrow> claudeRecord \<Rightarrow> scan \<Rightarrow> scan option" where
  "measureResponse parseStamp r st0 = (let st = st0\<lparr>sc_latest := zeroUsage\<rparr> in
     case re_Message r of
       None \<Rightarrow> Some st
     | Some m \<Rightarrow> (case ms_Usage m of
         None \<Rightarrow> Some st
       | Some u \<Rightarrow>
           if ms_ID m = [] \<or> ms_Model m = [] then Some st
           else (case Total (us_Counts u) of
               None \<Rightarrow> Some st
             | Some originalTotal \<Rightarrow> (case responseCounts u originalTotal of
                 Inl _ \<Rightarrow> None
               | Inr counts \<Rightarrow> (case (Total counts, parseStamp (re_Timestamp r)) of
                   (Some tot, Some at) \<Rightarrow>
                     if t_ns at = zeroInstant \<or> \<not> yearInRange at then Some st
                     else if t_ns at < sc_measured st then None
                     else Some (st\<lparr>sc_measured := t_ns at,
                            sc_latest := \<lparr>cu_UUID = re_UUID r, cu_Model = ms_Model m, cu_Tokens = tot, cu_At = toUTC at, cu_Counts = counts\<rparr>\<rparr>)
                 | _ \<Rightarrow> Some st)))))"

definition followsPrevious :: "string \<Rightarrow> claudeRecord \<Rightarrow> bool" where
  "followsPrevious previous r \<longleftrightarrow>
     (if previous = [] then re_Parent r = None \<or> re_Parent r = Some [] else re_Parent r = Some previous)"

definition scanLine :: "(string \<Rightarrow> go_time option) \<Rightarrow> string \<Rightarrow> string \<Rightarrow> int \<times> claudeRecord option \<Rightarrow> scan \<Rightarrow> scan option" where
  "scanLine parseStamp session child line st = (case line of (len, decoded) \<Rightarrow>
     if len = 0 \<or> len > 4 * 1048576 then None
     else (case decoded of
         None \<Rightarrow> None
       | Some r \<Rightarrow>
           if re_Session r \<noteq> [] \<and> re_Session r \<noteq> session then None
           else if re_Type r \<in> set unchainedTypes then Some st
           else if re_Type r \<notin> set chainedTypes then None
           else if re_Session r \<noteq> session \<or> re_Agent r \<noteq> child \<or> re_Sidechain r \<noteq> (child \<noteq> []) \<or> re_Version r \<noteq> ClaudeVersion
                   \<or> re_UUID r = [] then None
           else if re_Type r = ''system'' \<and> re_Subtype r = ''compact_boundary''
           then Some \<lparr>sc_latest = zeroUsage, sc_previous = re_UUID r, sc_measured = zeroInstant\<rparr>
           else if \<not> followsPrevious (sc_previous st) r then None
           else let st' = st\<lparr>sc_previous := re_UUID r\<rparr>
                in if re_Type r \<noteq> ''assistant'' then Some st' else measureResponse parseStamp r st'))"

fun scanLines :: "(string \<Rightarrow> go_time option) \<Rightarrow> string \<Rightarrow> string \<Rightarrow> transcript \<Rightarrow> scan \<Rightarrow> scan option" where
  "scanLines parseStamp session child [] st = Some st"
| "scanLines parseStamp session child (l # ls) st =
     (case scanLine parseStamp session child l st of None \<Rightarrow> None | Some st' \<Rightarrow> scanLines parseStamp session child ls st')"

definition initialScan :: scan where
  "initialScan = \<lparr>sc_latest = zeroUsage, sc_previous = [], sc_measured = zeroInstant\<rparr>"

text \<open>\<open>None\<close> stands for the zero usage with \<open>false\<close>.\<close>

definition Claude :: "(string \<Rightarrow> go_time option) \<Rightarrow> string \<Rightarrow> string \<Rightarrow> transcript option \<Rightarrow> ClaudeUsage option" where
  "Claude parseStamp session child file = (case file of
     None \<Rightarrow> None
   | Some ls \<Rightarrow>
       if session = [] then None
       else (case scanLines parseStamp session child ls initialScan of
           None \<Rightarrow> None
         | Some st \<Rightarrow> if cu_UUID (sc_latest st) = [] then None else Some (sc_latest st)))"

end
