(* ===== verification/Claude_Capacity.thy ===== *)
theory Claude_Capacity
  imports Transcripts Subagents Context_Source
begin

text \<open>
  A row's context evidence (internal/store: claude_capacity.go, codex_startup.go, the context part of
  spawns.go and the listing of subagent_read.go): the launch, session and process a transcript must
  belong to, the recorded capacity of a Claude session, its validity and its one write. A Codex
  startup record is not part of the evidence here: no operation of this theory reads it.
\<close>

section \<open>Capacity records\<close>

abbreviation maxClaudeCapacityBytes :: nat where "maxClaudeCapacityBytes \<equiv> 131072"

definition window_valid :: "ClaudeWindow \<Rightarrow> bool" where
  "window_valid w \<longleftrightarrow> cw_Model w \<noteq> [] \<and> length (cw_Model w) \<le> 256 \<and> cw_Window w > 0 \<and> cw_ResponseUUID w \<noteq> []
     \<and> length (cw_ResponseUUID w) \<le> 128 \<and> t_ns (cw_ObservedAt w) \<noteq> zeroInstant \<and> yearInRange (cw_ObservedAt w)"

definition idChar :: "char \<Rightarrow> bool" where
  "idChar c \<longleftrightarrow> (let n = (of_char c :: nat) in 97 \<le> n \<and> n \<le> 122 \<or> 65 \<le> n \<and> n \<le> 90 \<or> 48 \<le> n \<and> n \<le> 57 \<or> n = 45 \<or> n = 95)"

definition validClaudeChildID :: "string \<Rightarrow> bool" where
  "validClaudeChildID x \<longleftrightarrow> x \<noteq> [] \<and> length x \<le> 128 \<and> list_all idChar x"

definition startupOf :: "ClaudeCapacity \<Rightarrow> CodexStartup" where
  "startupOf p = \<lparr>cs_LaunchToken = cp_LaunchToken p, cs_SessionID = cp_SessionID p, cs_JSONLPath = cp_JSONLPath p,
     cs_PID = cp_PID p, cs_Starttime = cp_Starttime p\<rparr>"

definition capacity_valid :: "ClaudeCapacity \<Rightarrow> bool" where
  "capacity_valid p \<longleftrightarrow> startup_valid (startupOf p) \<and> cp_Version p \<noteq> [] \<and> length (cp_Version p) \<le> 64
     \<and> (cp_Provider p = ''anthropic'' \<or> cp_Provider p = ''unknown'') \<and> length (cp_Children p) \<le> 128
     \<and> (case cp_Main p of None \<Rightarrow> True | Some w \<Rightarrow> window_valid w)
     \<and> list_all (\<lambda>(x, w). validClaudeChildID x \<and> window_valid w) (cp_Children p)"

text \<open>Lexical paths of Unix.\<close>

definition filepath_IsAbs :: "string \<Rightarrow> bool" where
  "filepath_IsAbs p = (case p of c # _ \<Rightarrow> c = CHR ''/'' | [] \<Rightarrow> False)"

fun splitPath :: "string \<Rightarrow> string list" where
  "splitPath [] = [[]]"
| "splitPath (c # cs) = (if c = CHR ''/'' then [] # splitPath cs else (c # hd (splitPath cs)) # tl (splitPath cs))"

fun cleanParts :: "string list \<Rightarrow> string list \<Rightarrow> string list" where
  "cleanParts out [] = rev out"
| "cleanParts out (p # ps) =
     (if p = [] \<or> p = ''.'' then cleanParts out ps else if p = ''..'' then cleanParts (drop 1 out) ps else cleanParts (p # out) ps)"

text \<open>\<open>filepath.Clean\<close> of a rooted path.\<close>

definition cleanRooted :: "string \<Rightarrow> string" where
  "cleanRooted p = (let ps = cleanParts [] (splitPath p) in if ps = [] then ''/'' else concat (map (\<lambda>x. CHR ''/'' # x) ps))"

definition filepath_Dir :: "string \<Rightarrow> string" where
  "filepath_Dir p = cleanRooted (rev (dropWhile (\<lambda>c. c \<noteq> CHR ''/'') (rev p)))"

definition ClaudeChildPath :: "string \<Rightarrow> string \<Rightarrow> string \<Rightarrow> string" where
  "ClaudeChildPath parentPath session child =
     (if \<not> filepath_IsAbs parentPath \<or> filepath_Base parentPath \<noteq> session @ ''.jsonl'' \<or> \<not> validClaudeChildID child then []
      else cleanRooted (filepath_Dir parentPath @ ''/'' @ session @ ''/subagents/agent-'' @ child @ ''.jsonl''))"

section \<open>Evidence\<close>

record SpawnContext =
  sx_FamilyState :: string
  sx_Agent :: string
  sx_State :: string
  sx_SessionID :: string
  sx_JSONLPath :: string
  sx_LaunchToken :: string
  sx_PID :: int
  sx_ProcStarttime :: string
  sx_PanePID :: int
  sx_PaneStarttime :: string
  sx_EndReportedAtMillis :: int
  sx_ClaudeCapacity :: "ClaudeCapacity option"

definition decodeClaudeCapacity :: "store \<Rightarrow> string option \<Rightarrow> ClaudeCapacity option" where
  "decodeClaudeCapacity s raw = (case raw of
     None \<Rightarrow> None
   | Some x \<Rightarrow>
       if length x > maxClaudeCapacityBytes then None
       else (case unmarshalCapacity s x of None \<Rightarrow> None | Some p \<Rightarrow> if capacity_valid p then Some p else None))"

definition ContextEvidence :: "store \<Rightarrow> Spawn \<Rightarrow> SpawnContext" where
  "ContextEvidence s sp =
     \<lparr>sx_FamilyState = sp_FamilyState sp, sx_Agent = sp_Agent sp, sx_State = sp_State sp, sx_SessionID = sp_SessionID sp,
      sx_JSONLPath = sp_JSONLPath sp, sx_LaunchToken = li_Token (sp_Identity sp), sx_PID = sp_PID sp, sx_ProcStarttime = sp_ProcStarttime sp,
      sx_PanePID = li_PanePID (sp_Identity sp), sx_PaneStarttime = li_PaneStarttime (sp_Identity sp),
      sx_EndReportedAtMillis = sp_EndReportedAtMillis sp, sx_ClaudeCapacity = decodeClaudeCapacity s (sp_ClaudeCapacity sp)\<rparr>"

definition BoundClaudeCapacity :: "SpawnContext \<Rightarrow> ClaudeCapacity option" where
  "BoundClaudeCapacity e = (case sx_ClaudeCapacity e of
     None \<Rightarrow> None
   | Some p \<Rightarrow>
       if sx_Agent e \<noteq> AgentClaude \<or> \<not> IsLiveState (sx_State e) \<or> sx_State e = StatePending \<or> sx_EndReportedAtMillis e \<noteq> 0
          \<or> \<not> capacity_valid p \<or> sx_LaunchToken e \<noteq> cp_LaunchToken p \<or> sx_SessionID e \<noteq> cp_SessionID p
          \<or> sx_JSONLPath e \<noteq> cp_JSONLPath p \<or> sx_PID e \<noteq> cp_PID p \<or> sx_ProcStarttime e \<noteq> cp_Starttime p
          \<or> sx_PanePID e \<noteq> cp_PID p \<or> sx_PaneStarttime e \<noteq> cp_Starttime p
       then None else Some p)"

definition CurrentClaudeCapacity :: "SpawnContext \<Rightarrow> ClaudeCapacity option" where
  "CurrentClaudeCapacity e = (case BoundClaudeCapacity e of
     None \<Rightarrow> None
   | Some p \<Rightarrow> if cp_Version p \<noteq> ''2.1.280'' \<or> cp_Provider p \<noteq> ''anthropic'' then None else Some p)"

section \<open>The write\<close>

text \<open>\<open>json.Marshal\<close> writes a map's members by key, so the order they were put in does not show.\<close>

definition capacityText :: "store \<Rightarrow> ClaudeCapacity \<Rightarrow> string" where
  "capacityText s p = marshalCapacity s (p\<lparr>cp_Children := sort_key fst (cp_Children p)\<rparr>)"

definition capacityGuard :: "db \<Rightarrow> HookGate \<Rightarrow> ClaudeCapacity \<Rightarrow> spawn_row \<Rightarrow> bool" where
  "capacityGuard d g p r \<longleftrightarrow> s_agent r = AgentClaude \<and> s_launch_token r = Some (cp_LaunchToken p) \<and> s_session_id r = Some (cp_SessionID p)
     \<and> s_jsonl_path r = Some (cp_JSONLPath p) \<and> s_pid r = Some (cp_PID p) \<and> s_proc_starttime r = Some (cp_Starttime p)
     \<and> s_state r \<in> {StateWorking, StateWaiting, StateAskUser, StateCheckPermission} \<and> hookGate d g r
     \<and> (case g_ClaudeCapacitySnapshot g of None \<Rightarrow> True
        | Some snapshot \<Rightarrow> s_claude_capacity r = (if snapshot = ''null'' then None else Some snapshot))"

definition capacitySet :: "string \<Rightarrow> spawn_row \<Rightarrow> spawn_row" where
  "capacitySet text r = r\<lparr>s_claude_capacity := Some text\<rparr>"

definition RecordClaudeCapacity :: "store \<Rightarrow> string \<Rightarrow> HookGate \<Rightarrow> ClaudeCapacity \<Rightarrow> bool call" where
  "RecordClaudeCapacity s i g p =
     (if \<not> capacity_valid p then call_return False
      else if length (capacityText s p) > maxClaudeCapacityBytes then call_return False
      else dbExec s ''store: Claude capacity'' (\<lambda>d. guarded i (capacityGuard d g p) (\<lambda>_. capacitySet (capacityText s p)) d))"

section \<open>The listing of subagents\<close>

record SubagentRow =
  sr_ContextEvidence :: "SpawnContext option"
  sr_Entry :: subagent_row

text \<open>
  A listed entry of the row's life, with the row's evidence when it is of the row's launch and session
  (none stands for the zero evidence). A NULL first start comes last.
\<close>

definition listedSubagent :: "spawn_row \<Rightarrow> subagent_row \<Rightarrow> bool" where
  "listedSubagent r e \<longleftrightarrow> s_agent r \<noteq> AgentCursor \<and> sa_instance_id e = s_instance_id r \<and> sa_life_number e = s_life_number r \<and> sa_confirmed e"

definition childEvidence :: "store \<Rightarrow> spawn_row \<Rightarrow> subagent_row \<Rightarrow> SpawnContext option" where
  "childEvidence s r e = (let x = (ContextEvidence s (scanSpawn r))\<lparr>sx_FamilyState := []\<rparr> in
     if sx_LaunchToken x \<noteq> [] \<and> sx_LaunchToken x = decodeLaunchToken (SText (sa_launch_token e)) \<and> sa_session_id e = Some (sx_SessionID x)
     then Some x else None)"

definition ListSubagentRecords :: "store \<Rightarrow> string \<Rightarrow> db \<Rightarrow> store_error + bool \<times> SubagentRow list" where
  "ListSubagentRecords s i d =
     (if sqlFails s ''store: list subagents'' then Inl (DriverError ''store: list subagents'')
      else (case find_spawn d i of
          None \<Rightarrow> Inl (ErrSpawnNotFound i)
        | Some r \<Rightarrow>
            Inr (s_agent r \<noteq> AgentCursor \<and> decodeSubagentTracking (SInt (s_subagent_tracking r)),
                 map (\<lambda>e. \<lparr>sr_ContextEvidence = childEvidence s r e, sr_Entry = e\<rparr>)
                   (sort_key (\<lambda>e. (sa_first_started_at e = None, coalesce (sa_first_started_at e) 0, sa_subagent_id e))
                     (filter (listedSubagent r) (subagents d))))))"

end
