(* ===== verification/Subagent_Laws.thy ===== *)
theory Subagent_Laws
  imports Subagents Life_Cycle
begin

text \<open>
  What the subagent writes keep. \<open>entry_ok\<close> and \<open>subagents_ok\<close> are the well-formedness of an entry
  and of the two capped tables; \<open>entry_step k\<close> is the abstract state machine of an entry (what an
  event of kind \<open>k\<close> may do to it). \<open>sub_guarantee k\<close> joins them as a two-state guarantee: every
  statement and transition honours it, and for a fixed starting database it is an invariant of the
  kind the hook and life-cycle writes keep.
\<close>

section \<open>Well-formed entries and tables\<close>

definition short :: "string \<Rightarrow> bool" where
  "short x \<longleftrightarrow> length x \<le> SubagentStringMaxBytes"

definition short_opt :: "string option \<Rightarrow> bool" where
  "short_opt x = (case x of None \<Rightarrow> True | Some y \<Rightarrow> short y)"

definition not_later :: "int option \<Rightarrow> int option \<Rightarrow> bool" where
  "not_later x y \<longleftrightarrow> (case x of None \<Rightarrow> True | Some a \<Rightarrow> (case y of None \<Rightarrow> False | Some b \<Rightarrow> b \<le> a))"

definition entry_state_ok :: "subagent_row \<Rightarrow> bool" where
  "entry_state_ok a \<longleftrightarrow> sa_state a \<in> {SubagentStateRunning, SubagentStateStopped, SubagentStateLost}
     \<and> (sa_close_reason a = None \<longleftrightarrow> sa_state a = SubagentStateRunning)
     \<and> (sa_lost_at a \<noteq> None \<longleftrightarrow> sa_state a = SubagentStateLost)
     \<and> (sa_state a = SubagentStateStopped \<longrightarrow> sa_close_reason a = Some SubagentCloseStopEvent \<and> sa_stopped_at a \<noteq> None)
     \<and> (sa_state a = SubagentStateLost \<longrightarrow> sa_close_reason a \<in> {Some SubagentCloseAbsentFromSnapshot, Some SubagentCloseAgentGone})"

definition entry_fields_ok :: "subagent_row \<Rightarrow> bool" where
  "entry_fields_ok a \<longleftrightarrow> (sa_subagent_type a = None \<longleftrightarrow> sa_subagent_type_source a = None)
     \<and> (sa_run_mode a = None \<longleftrightarrow> sa_run_mode_source a = None)
     \<and> (sa_stopped_at a = None \<longleftrightarrow> sa_stopped_at_source a = None)
     \<and> not_later (sa_started_at a) (sa_first_started_at a)
     \<and> short_opt (sa_subagent_type a) \<and> short_opt (sa_description a) \<and> short_opt (sa_model a) \<and> short_opt (sa_tool_use_id a)"

definition entry_ok :: "subagent_row \<Rightarrow> bool" where
  "entry_ok a \<longleftrightarrow> entry_state_ok a \<and> entry_fields_ok a \<and> short (sa_subagent_id a) \<and> short_opt (sa_session_id a)"

definition entry_key :: "subagent_row \<Rightarrow> string \<times> int \<times> string" where
  "entry_key a = (sa_instance_id a, sa_life_number a, sa_subagent_id a)"

definition within_cap :: "('r \<Rightarrow> string) \<Rightarrow> 'r list \<Rightarrow> bool" where
  "within_cap own rs = list_all (\<lambda>r. length (filter (\<lambda>q. own q = own r) rs) \<le> SubagentCap) rs"

definition entries_ok :: "db \<Rightarrow> bool" where
  "entries_ok d \<longleftrightarrow> distinct (map sa_created_seq (subagents d)) \<and> distinct (map entry_key (subagents d))
     \<and> list_all (\<lambda>a. sa_created_seq a < next_subagent_seq d \<and> entry_ok a) (subagents d)
     \<and> within_cap sa_instance_id (subagents d)"

definition launches_ok :: "db \<Rightarrow> bool" where
  "launches_ok d \<longleftrightarrow> distinct (map sl_created_seq (subagent_launches d))
     \<and> distinct (map (\<lambda>l. (sl_instance_id l, sl_tool_use_id l)) (subagent_launches d))
     \<and> list_all (\<lambda>l. sl_created_seq l < next_launch_seq d) (subagent_launches d)
     \<and> within_cap sl_instance_id (subagent_launches d)"

definition subagents_ok :: "db \<Rightarrow> bool" where
  "subagents_ok d \<longleftrightarrow> entries_ok d \<and> launches_ok d"

section \<open>The abstract state machine of an entry\<close>

text \<open>
  The events of an entry: its start, its stop, the result of a finished launch, the end of a turn, and what
  moves no entry (a launch request, the result of a background launch, a failed launch).
\<close>

datatype entry_event = EntryStart | EntryStop | EntryDone | EntryLose | EntryKeep | EntryAny

fun may_move :: "entry_event \<Rightarrow> string \<Rightarrow> string \<Rightarrow> bool" where
  "may_move EntryStart x y \<longleftrightarrow> y = x \<or> y = SubagentStateRunning"
| "may_move EntryStop x y \<longleftrightarrow> y = x \<or> y = SubagentStateStopped"
| "may_move EntryDone x y \<longleftrightarrow> y = x \<or> y = SubagentStateStopped"
| "may_move EntryLose x y \<longleftrightarrow> y = x \<or> x = SubagentStateRunning \<and> y = SubagentStateLost"
| "may_move EntryKeep x y \<longleftrightarrow> y = x"
| "may_move EntryAny x y \<longleftrightarrow> True"

definition first_wins :: "'a option \<Rightarrow> 'a option \<Rightarrow> bool" where
  "first_wins x y \<longleftrightarrow> x = None \<or> y = x"

definition entry_moves :: "entry_event \<Rightarrow> subagent_row \<Rightarrow> subagent_row \<Rightarrow> bool" where
  "entry_moves k a b \<longleftrightarrow> may_move k (sa_state a) (sa_state b) \<and> (sa_confirmed a \<longrightarrow> sa_confirmed b)
     \<and> not_later (sa_first_started_at a) (sa_first_started_at b)
     \<and> first_wins (sa_description a) (sa_description b) \<and> first_wins (sa_model a) (sa_model b)
     \<and> first_wins (sa_tool_use_id a) (sa_tool_use_id b) \<and> first_wins (sa_parent_type a) (sa_parent_type b)"

definition entry_step :: "entry_event \<Rightarrow> subagent_row \<Rightarrow> subagent_row \<Rightarrow> bool" where
  "entry_step k a b \<longleftrightarrow> sa_created_seq b = sa_created_seq a \<and> entry_key b = entry_key a
     \<and> sa_session_id b = sa_session_id a \<and> entry_moves k a b"

definition entries_evolve :: "entry_event \<Rightarrow> db \<Rightarrow> db \<Rightarrow> bool" where
  "entries_evolve k d d' \<longleftrightarrow> next_subagent_seq d \<le> next_subagent_seq d'
     \<and> (\<forall>b \<in> set (subagents d'). next_subagent_seq d \<le> sa_created_seq b \<and> may_move k SubagentStateRunning (sa_state b) \<or> (\<exists>a \<in> set (subagents d). entry_step k a b))"

definition sub_guarantee :: "entry_event \<Rightarrow> db \<Rightarrow> db \<Rightarrow> bool" where
  "sub_guarantee k d d' \<longleftrightarrow> (subagents_ok d \<longrightarrow> subagents_ok d' \<and> entries_evolve k d d')"

lemma may_move_refl [simp]: "may_move k x x"
  by (cases k) simp_all

lemma may_move_trans: "may_move k x y \<Longrightarrow> may_move k y z \<Longrightarrow> may_move k x z"
  by (cases k) auto

lemma first_wins_refl [simp]: "first_wins x x" and first_wins_trans: "first_wins x y \<Longrightarrow> first_wins y z \<Longrightarrow> first_wins x z"
  by (auto simp: first_wins_def)

lemma not_later_refl [simp]: "not_later x x" and not_later_trans: "not_later x y \<Longrightarrow> not_later y z \<Longrightarrow> not_later x z"
  by (auto simp: not_later_def split: option.splits)

lemma entry_step_refl [simp]: "entry_step k a a"
  by (simp add: entry_step_def entry_moves_def)

lemma entry_step_trans: "entry_step k a b \<Longrightarrow> entry_step k b c \<Longrightarrow> entry_step k a c"
  by (auto simp: entry_step_def entry_moves_def intro: may_move_trans first_wins_trans not_later_trans)

lemma entries_evolve_refl: "entries_evolve k d d"
  by (auto simp: entries_evolve_def intro: entry_step_refl)

lemma entries_evolve_trans:
  assumes ab: "entries_evolve k a b" and bc: "entries_evolve k b c"
  shows "entries_evolve k a c"
  unfolding entries_evolve_def
proof (intro conjI ballI)
  show "next_subagent_seq a \<le> next_subagent_seq c" using ab bc by (simp add: entries_evolve_def)
  fix z assume "z \<in> set (subagents c)"
  with bc consider (new) "next_subagent_seq b \<le> sa_created_seq z" "may_move k SubagentStateRunning (sa_state z)"
    | (old) y where "y \<in> set (subagents b)" "entry_step k y z" unfolding entries_evolve_def by blast
  then show "next_subagent_seq a \<le> sa_created_seq z \<and> may_move k SubagentStateRunning (sa_state z) \<or> (\<exists>x \<in> set (subagents a). entry_step k x z)"
  proof cases
    case new
    with ab show ?thesis by (simp add: entries_evolve_def)
  next
    case (old y)
    then have "sa_created_seq z = sa_created_seq y" "may_move k (sa_state y) (sa_state z)" by (simp_all add: entry_step_def entry_moves_def)
    with ab old show ?thesis
      unfolding entries_evolve_def by (auto dest!: bspec[where x = y] intro: may_move_trans entry_step_trans)
  qed
qed

lemma subagents_ok_cong:
  "subagents d' = subagents d \<Longrightarrow> subagent_launches d' = subagent_launches d \<Longrightarrow> next_subagent_seq d' = next_subagent_seq d
    \<Longrightarrow> next_launch_seq d' = next_launch_seq d \<Longrightarrow> subagents_ok d' = subagents_ok d"
  by (simp add: subagents_ok_def entries_ok_def launches_ok_def)

lemma sub_guarantee_frame:
  assumes "subagents d' = subagents d" and "subagent_launches d' = subagent_launches d"
    and "next_subagent_seq d' = next_subagent_seq d" and "next_launch_seq d' = next_launch_seq d"
  shows "sub_guarantee k d0 d' = sub_guarantee k d0 d" and "sub_guarantee k d d'"
  using subagents_ok_cong[OF assms] assms(1,3) entries_evolve_refl[of k d]
  by (simp_all add: sub_guarantee_def entries_evolve_def)

interpretation subs: guarantee "sub_guarantee k"
proof unfold_locales
  show "sub_guarantee k d d" for d
    by (simp add: sub_guarantee_def entries_evolve_refl)
  show "sub_guarantee k a b \<Longrightarrow> sub_guarantee k b c \<Longrightarrow> sub_guarantee k a c" for a b c
    by (auto simp: sub_guarantee_def intro: entries_evolve_trans)
  show "sub_guarantee k d (d\<lparr>trail := x\<rparr>)" for d x
    by (rule sub_guarantee_frame) simp_all
qed

section \<open>Capped tables\<close>

lemma victim_Some: "victim key P rs = Some v \<Longrightarrow> v \<in> set rs \<and> P v \<and> (\<forall>r \<in> set rs. P r \<longrightarrow> key v \<le> key r)"
proof -
  assume "victim key P rs = Some v"
  then obtain vs where s: "sort_key key (filter P rs) = v # vs"
    by (auto simp: victim_def split: list.splits)
  have "set (sort_key key (filter P rs)) = {r \<in> set rs. P r}" by simp
  moreover have "sorted (map key (sort_key key (filter P rs)))" by simp
  ultimately show ?thesis unfolding s by auto
qed

lemma victim_None: "victim key P rs = None \<longleftrightarrow> filter P rs = []"
proof -
  have "sort_key key (filter P rs) = [] \<longleftrightarrow> filter P rs = []"
    by (metis length_0_conv length_sort)
  then show ?thesis by (auto simp: victim_def split: list.splits)
qed

lemma within_cap_all: "within_cap own rs \<longleftrightarrow> (\<forall>i. length (filter (\<lambda>r. own r = i) rs) \<le> SubagentCap)"
proof
  assume cap: "within_cap own rs"
  show "\<forall>i. length (filter (\<lambda>r. own r = i) rs) \<le> SubagentCap"
  proof
    fix i
    show "length (filter (\<lambda>r. own r = i) rs) \<le> SubagentCap"
    proof (cases "\<exists>r \<in> set rs. own r = i")
      case True
      with cap show ?thesis by (auto simp: within_cap_def list_all_iff)
    next
      case False
      then have none: "filter (\<lambda>r. own r = i) rs = []" by (auto simp: filter_empty_conv)
      show ?thesis unfolding none by simp
    qed
  qed
qed (simp add: within_cap_def list_all_iff)

lemma length_filter_filter: "length (filter P (filter Q rs)) \<le> length (filter P rs)"
proof -
  have "filter P (filter Q rs) = filter Q (filter P rs)" by (simp add: conj_commute)
  then show ?thesis by (metis length_filter_le)
qed

lemma within_cap_filter: "within_cap own rs \<Longrightarrow> within_cap own (filter Q rs)"
  unfolding within_cap_all using length_filter_filter le_trans by blast

lemma within_cap_snoc:
  "within_cap own rs \<Longrightarrow> length (filter (\<lambda>q. own q = own r) rs) < SubagentCap \<Longrightarrow> within_cap own (rs @ [r])"
  unfolding within_cap_all by simp

lemma within_cap_update: "(\<And>r. own (f r) = own r) \<Longrightarrow> within_cap own (update_where P f rs) = within_cap own rs"
proof -
  assume own: "\<And>r. own (f r) = own r"
  have "length (filter (\<lambda>r. own r = i) (update_where P f rs)) = length (filter (\<lambda>r. own r = i) rs)" for i
    by (induction rs) (simp_all add: update_where_def own)
  then show ?thesis by (simp add: within_cap_all)
qed

lemma filter_drops: "v \<in> set rs \<Longrightarrow> P v \<Longrightarrow> \<not> Q v \<Longrightarrow> length (filter P (filter Q rs)) < length (filter P rs)"
proof -
  assume v: "v \<in> set rs" "P v" "\<not> Q v"
  have "filter P (filter Q rs) = filter Q (filter P rs)" by (simp add: conj_commute)
  moreover have "length (filter Q (filter P rs)) < length (filter P rs)"
    using v by (intro length_filter_less[of v]) auto
  ultimately show ?thesis by simp
qed

section \<open>The statements\<close>

lemma G_drop_entries: "sub_guarantee k d (d\<lparr>subagents := filter Q (subagents d)\<rparr>)"
  by (auto simp: sub_guarantee_def subagents_ok_def entries_ok_def launches_ok_def list_all_iff entries_evolve_def
      within_cap_filter distinct_map_filter intro: entry_step_refl)

lemma G_drop_launches: "sub_guarantee k d (d\<lparr>subagent_launches := filter Q (subagent_launches d)\<rparr>)"
  by (auto simp: sub_guarantee_def subagents_ok_def entries_ok_def launches_ok_def list_all_iff entries_evolve_def
      within_cap_filter distinct_map_filter intro: entry_step_refl)

lemma G_update_entries:
  assumes "\<And>a. subagents_ok d \<Longrightarrow> a \<in> set (subagents d) \<Longrightarrow> P a \<Longrightarrow> entry_ok a \<Longrightarrow> entry_ok (f a) \<and> entry_moves k a (f a)"
    and key: "\<And>a. sa_created_seq (f a) = sa_created_seq a" "\<And>a. entry_key (f a) = entry_key a" "\<And>a. sa_session_id (f a) = sa_session_id a"
  shows "sub_guarantee k d (d\<lparr>subagents := update_where P f (subagents d)\<rparr>)"
  unfolding sub_guarantee_def
proof
  assume ok: "subagents_ok d"
  then have each: "sa_created_seq a < next_subagent_seq d" "entry_ok a" if "a \<in> set (subagents d)" for a
    using that by (auto simp: subagents_ok_def entries_ok_def list_all_iff)
  let ?d = "d\<lparr>subagents := update_where P f (subagents d)\<rparr>"
  have own: "sa_instance_id (f a) = sa_instance_id a" for a
    using key(2)[of a] by (simp add: entry_key_def)
  have "subagents_ok ?d"
    using ok assms(1)[OF ok] each
    by (auto simp: subagents_ok_def entries_ok_def launches_ok_def map_update_where_key key within_cap_update own
        list_all_iff set_update_where)
  moreover have "\<exists>a \<in> set (subagents d). entry_step k a b" if "b \<in> set (update_where P f (subagents d))" for b
  proof -
    from that obtain a where a: "a \<in> set (subagents d)" "b = (if P a then f a else a)" by (auto simp: set_update_where)
    then have "entry_step k a b" using assms(1)[OF ok a(1)] each(2)[OF a(1)] key by (simp add: entry_step_def entry_moves_def)
    with a(1) show ?thesis ..
  qed
  then have "entries_evolve k d ?d" by (simp add: entries_evolve_def)
  ultimately show "subagents_ok ?d \<and> entries_evolve k d ?d" ..
qed

lemma evictEntryStmt_frame:
  assumes "evictEntryStmt i g d = (b, d1)"
  shows "spawns d1 = spawns d \<and> cursor_runtimes d1 = cursor_runtimes d \<and> next_subagent_seq d1 = next_subagent_seq d
     \<and> subagent_launches d1 = subagent_launches d \<and> next_launch_seq d1 = next_launch_seq d"
  using assms by (auto simp: evictEntryStmt_def split: option.splits if_splits)

lemma gate_cong:
  assumes "spawns d1 = spawns d" and "cursor_runtimes d1 = cursor_runtimes d"
  shows "hookGate d1 = hookGate d" and "subagentRowGate d1 = subagentRowGate d"
    and "subagentGateExists d1 = subagentGateExists d" and "subagentGateBelongs d1 = subagentGateBelongs d"
proof -
  show h: "hookGate d1 = hookGate d"
    using assms by (simp add: fun_eq_iff hookGate_def cursorGate_def split: option.splits)
  show r: "subagentRowGate d1 = subagentRowGate d"
    by (simp add: fun_eq_iff subagentRowGate_def h)
  show "subagentGateExists d1 = subagentGateExists d" "subagentGateBelongs d1 = subagentGateBelongs d"
    by (simp_all add: fun_eq_iff subagentGateExists_def subagentGateBelongs_def r assms(1))
qed

text \<open>After the eviction a gated row has room for one more entry, and likewise for a launch.\<close>

definition evictOne :: "('r \<Rightarrow> 'k::linorder) \<Rightarrow> ('r \<Rightarrow> string) \<Rightarrow> ('r \<Rightarrow> int) \<Rightarrow> string \<Rightarrow> 'r list \<Rightarrow> 'r list" where
  "evictOne key own seq i rs = (case victim key (\<lambda>r. own r = i) rs of
     None \<Rightarrow> rs
   | Some v \<Rightarrow> if length (filter (\<lambda>r. own r = i) rs) \<ge> SubagentCap then filter (\<lambda>r. seq r \<noteq> seq v) rs else rs)"

lemma evictOne_room:
  assumes "within_cap own rs"
  shows "length (filter (\<lambda>r. own r = i) (evictOne key own seq i rs)) < SubagentCap"
proof (cases "victim key (\<lambda>r. own r = i) rs")
  case None
  then have "filter (\<lambda>r. own r = i) rs = []" by (simp add: victim_None)
  then show ?thesis by (simp add: evictOne_def None)
next
  case (Some v)
  have "length (filter (\<lambda>r. own r = i) rs) \<le> SubagentCap" using assms by (simp add: within_cap_all)
  with victim_Some[OF Some] filter_drops[of v rs "\<lambda>r. own r = i" "\<lambda>r. seq r \<noteq> seq v"] Some show ?thesis
    by (auto simp: evictOne_def)
qed

lemma evict_stmts_gated:
  assumes "subagentGateExists d i g"
  shows "subagents (snd (evictEntryStmt i g d)) = evictOne evictKey sa_instance_id sa_created_seq i (subagents d)"
    and "subagent_launches (snd (evictLaunchStmt i g d)) = evictOne launchKey sl_instance_id sl_created_seq i (subagent_launches d)"
  using assms by (auto simp: evictEntryStmt_def evictLaunchStmt_def evictOne_def split: option.splits)

lemma evictEntryStmt_room:
  "evictEntryStmt i g d = (b, d1) \<Longrightarrow> entries_ok d \<Longrightarrow> subagentGateExists d i g
    \<Longrightarrow> length (filter (\<lambda>a. sa_instance_id a = i) (subagents d1)) < SubagentCap"
  using evict_stmts_gated(1)[of d i g] evictOne_room[of sa_instance_id "subagents d"] by (simp add: entries_ok_def)

lemma evictLaunchStmt_room:
  "evictLaunchStmt i g d = (b, d1) \<Longrightarrow> launches_ok d \<Longrightarrow> subagentGateExists d i g
    \<Longrightarrow> length (filter (\<lambda>l. sl_instance_id l = i) (subagent_launches d1)) < SubagentCap"
  using evict_stmts_gated(2)[of d i g] evictOne_room[of sl_instance_id "subagent_launches d"] by (simp add: launches_ok_def)

lemma G_evictEntry: "sub_guarantee k d (snd (evictEntryStmt i g d))"
  by (auto simp: evictEntryStmt_def G_drop_entries subs.G_refl split: option.splits)

lemma G_evictLaunch: "sub_guarantee k d (snd (evictLaunchStmt i g d))"
  by (auto simp: evictLaunchStmt_def G_drop_launches subs.G_refl split: option.splits)

lemma claimStmt_shape: "\<exists>Q b. claimStmt t ty d = (b, d\<lparr>subagent_launches := filter Q (subagent_launches d)\<rparr>)"
proof -
  have same: "d = d\<lparr>subagent_launches := filter (\<lambda>_. True) (subagent_launches d)\<rparr>" by simp
  show ?thesis by (auto simp: claimStmt_def split: option.splits) (metis same)+
qed

lemma G_claim: "sub_guarantee k d (snd (claimStmt t ty d))"
  using claimStmt_shape[of t ty d] G_drop_launches by fastforce

definition new_entry_ok :: "subagent_row \<Rightarrow> bool" where
  "new_entry_ok e \<longleftrightarrow> entry_state_ok e \<and> entry_fields_ok e \<and> short_opt (sa_session_id e)"

lemma entry_parts_frame [simp]:
  "entry_state_ok (insertedEntry d sid e r) = entry_state_ok e" "entry_fields_ok (insertedEntry d sid e r) = entry_fields_ok e"
  "entry_state_ok (e\<lparr>sa_confirmed := c\<rparr>) = entry_state_ok e" "entry_fields_ok (e\<lparr>sa_confirmed := c\<rparr>) = entry_fields_ok e"
  "entry_state_ok (entrySet d t n at mv a) = entry_state_ok n" "entry_fields_ok (entrySet d t n at mv a) = entry_fields_ok n"
  "entry_moves k e (entrySet d t n at mv a) = entry_moves k e n"
  by (simp_all add: entry_state_ok_def entry_fields_ok_def entry_moves_def insertedEntry_def entrySet_def)

lemma insertedEntry_ok:
  "new_entry_ok e \<Longrightarrow> short sid \<Longrightarrow> entry_ok (insertedEntry d sid e r)"
  by (simp add: new_entry_ok_def entry_ok_def) (simp add: insertedEntry_def)

lemma insertEntry_honours:
  assumes "insertEntry s t sid e d = Inr (b, d')" and "new_entry_ok e" and "short sid" and "subagents_ok d"
    and born: "may_move k SubagentStateRunning (sa_state e)"
    and room: "subagentGateExists d (t_instanceID t) (t_gate t) \<Longrightarrow>
       length (filter (\<lambda>a. sa_instance_id a = t_instanceID t) (subagents d)) < SubagentCap"
  shows "subagents_ok d' \<and> entries_evolve k d d'"
proof (cases "find (subagentRowGate d (t_instanceID t) (t_gate t)) (spawns d)")
  case None
  then have "d' = d" using assms(1) by (auto simp: insertEntry_def split: if_splits)
  with assms(4) show ?thesis by (simp add: entries_evolve_refl)
next
  case (Some r)
  let ?n = "insertedEntry d sid e r"
  have r: "r \<in> set (spawns d)" "subagentRowGate d (t_instanceID t) (t_gate t) r"
    using Some by (auto simp: find_Some_iff)
  then have "subagentGateExists d (t_instanceID t) (t_gate t)" by (auto simp: subagentGateExists_def)
  note space = room[OF this]
  have d': "d' = d\<lparr>subagents := subagents d @ [?n], next_subagent_seq := next_subagent_seq d + 1\<rparr>"
    and uniq: "\<not> any_row (sameEntry ?n) (subagents d)"
    using assms(1) Some by (auto simp: insertEntry_def Let_def split: if_splits)
  have own: "sa_instance_id ?n = t_instanceID t" "sa_created_seq ?n = next_subagent_seq d"
    using r(2) by (simp_all add: insertedEntry_def subagentRowGate_def)
  have "entry_key ?n \<notin> entry_key ` set (subagents d)"
    using uniq by (auto simp: sameEntry_def entry_key_def)
  moreover have "sa_created_seq ?n \<notin> sa_created_seq ` set (subagents d)"
    using assms(4) own(2) by (auto simp: subagents_ok_def entries_ok_def list_all_iff)
  moreover have "within_cap sa_instance_id (subagents d @ [?n])"
    using assms(4) space own(1) by (intro within_cap_snoc) (simp_all add: subagents_ok_def entries_ok_def)
  ultimately have "subagents_ok d'"
    using assms(4) insertedEntry_ok[OF assms(2,3), of d r] own(2)
    by (auto simp: d' subagents_ok_def entries_ok_def launches_ok_def list_all_iff)
  moreover have "entries_evolve k d d'"
    using own(2) born by (auto simp: d' entries_evolve_def insertedEntry_def intro: entry_step_refl)
  ultimately show ?thesis ..
qed

lemma create_honours:
  assumes "new_entry_ok e" and "short sid" and born: "may_move k SubagentStateRunning (sa_state e)"
  shows "tx_honours (sub_guarantee k) (create_tx s t sid e claimType)"
  unfolding tx_honours_def sub_guarantee_def
proof (intro allI impI)
  fix d u d'
  assume run: "create_tx s t sid e claimType d = Inr (u, d')" and ok: "subagents_ok d"
  let ?i = "t_instanceID t" and ?g = "t_gate t"
  obtain ev d1 cl d2 b where d1: "evictEntryStmt ?i ?g d = (ev, d1)"
    and d2: "(if claimType \<noteq> [] then claim_tx s t claimType else tx_return False) d1 = Inr (cl, d2)"
    and ins: "insertEntry s t sid (e\<lparr>sa_confirmed := sa_confirmed e \<or> cl\<rparr>) d2 = Inr (b, d')"
    using run by (auto simp: create_tx_def evictSubagentEntryGated_def tx_bind_Inr tx_exec_Inr tx_return_def split: if_splits)
  have g1: "subagents_ok d1 \<and> entries_evolve k d d1"
    using G_evictEntry[of k d ?i ?g] d1 ok by (simp add: sub_guarantee_def)
  have shape: "\<exists>Q. d2 = d1\<lparr>subagent_launches := filter Q (subagent_launches d1)\<rparr>"
    using d2 claimStmt_shape[of t claimType d1]
    by (auto simp: claim_tx_def tx_exec_Inr tx_return_def split: if_splits intro: exI[of _ "\<lambda>_. True"])
  then have g2: "subagents_ok d2 \<and> entries_evolve k d1 d2"
    using G_drop_launches[of k d1] g1 unfolding sub_guarantee_def by blast
  have same: "spawns d2 = spawns d" "cursor_runtimes d2 = cursor_runtimes d" "subagents d2 = subagents d1"
    using shape evictEntryStmt_frame[OF d1] by auto
  have "subagents_ok d' \<and> entries_evolve k d2 d'"
  proof (rule insertEntry_honours[OF ins _ assms(2)])
    show "new_entry_ok (e\<lparr>sa_confirmed := sa_confirmed e \<or> cl\<rparr>)"
      using assms(1) by (simp add: new_entry_ok_def)
    show "length (filter (\<lambda>a. sa_instance_id a = ?i) (subagents d2)) < SubagentCap"
      if "subagentGateExists d2 ?i ?g"
      using evictEntryStmt_room[OF d1] ok that by (simp add: same gate_cong(3)[OF same(1,2)] subagents_ok_def)
  qed (use g2 born in simp_all)
  with g1 g2 show "subagents_ok d' \<and> entries_evolve k d d'" by (blast intro: entries_evolve_trans)
qed

lemma entrySet_keys [simp]:
  "sa_created_seq (entrySet d t n at mv a) = sa_created_seq a" "entry_key (entrySet d t n at mv a) = entry_key a"
  "sa_session_id (entrySet d t n at mv a) = sa_session_id a"
  by (simp_all add: entrySet_def entry_key_def)

lemma write_honours:
  assumes "subagents_ok d" and "e \<in> set (subagents d)" and "writeEntry s t e n at mv co d = Inr (u, d')"
    and "entry_state_ok n" and "entry_fields_ok n" and "entry_moves k e n"
  shows "sub_guarantee k d d'"
proof (cases "n\<lparr>sa_activity_at := sa_activity_at e\<rparr> = e")
  case True
  then show ?thesis using assms(3) by (simp add: writeEntry_def tx_return_def subs.G_refl)
next
  case False
  let ?P = "\<lambda>a. sa_created_seq a = sa_created_seq e \<and> sa_instance_id a = t_instanceID t \<and> entryGate d t co a"
  have d': "d' = d\<lparr>subagents := update_where ?P (entrySet d t n at mv) (subagents d)\<rparr>"
    using assms(3) False by (simp add: writeEntry_def tx_exec_Inr)
  show ?thesis unfolding d'
  proof (rule G_update_entries)
    fix a assume a: "a \<in> set (subagents d)" "?P a" "entry_ok a"
    have "a = e"
      using assms(1,2) a by (auto simp: subagents_ok_def entries_ok_def distinct_map inj_on_def)
    with assms(4-6) a(3) show "entry_ok (entrySet d t n at mv a) \<and> entry_moves k a (entrySet d t n at mv a)"
      by (simp add: entry_ok_def) (simp add: entrySet_def)
  qed simp_all
qed

lemma read_honours:
  assumes "tx_honours (sub_guarantee k) A"
    and "\<And>e d u d'. subagents_ok d \<Longrightarrow> e \<in> set (subagents d) \<Longrightarrow> entry_ok e \<Longrightarrow> B e d = Inr (u, d') \<Longrightarrow> sub_guarantee k d d'"
  shows "tx_honours (sub_guarantee k) (tx_bind (readEntry s t sid) (\<lambda>found. case found of None \<Rightarrow> A | Some e \<Rightarrow> B e))"
  unfolding tx_honours_def
proof (intro allI impI)
  fix d u d'
  let ?P = "\<lambda>a. sa_instance_id a = t_instanceID t \<and> sa_subagent_id a = sid
     \<and> where_true (sql_eq (Some (sa_life_number a)) (currentLife d (t_instanceID t)))"
  assume run: "tx_bind (readEntry s t sid) (\<lambda>found. case found of None \<Rightarrow> A | Some e \<Rightarrow> B e) d = Inr (u, d')"
  show "sub_guarantee k d d'"
  proof (cases "find ?P (subagents d)")
    case None
    with run have "A d = Inr (u, d')" by (auto simp: readEntry_def tx_bind_Inr split: if_splits)
    with assms(1) show ?thesis by (simp add: tx_honours_def)
  next
    case (Some e)
    with run have B: "B e d = Inr (u, d')" by (auto simp: readEntry_def tx_bind_Inr split: if_splits)
    have e: "e \<in> set (subagents d)" using Some by (auto simp: find_Some_iff)
    show ?thesis
    proof (cases "subagents_ok d")
      case True
      with e have "entry_ok e" by (auto simp: subagents_ok_def entries_ok_def list_all_iff)
      from assms(2)[OF True e this B] show ?thesis .
    qed (simp add: sub_guarantee_def)
  qed
qed

section \<open>The transitions\<close>

lemma cutPoint_le: "cutPoint x n \<le> n"
  by (induction n) auto

lemma short_cut [simp]: "short (CutSubagentString x)"
proof (cases "length x \<le> SubagentStringMaxBytes")
  case False
  then show ?thesis using cutPoint_le[of x SubagentStringMaxBytes] by (simp add: short_def CutSubagentString_def del: cutPoint.simps)
qed (simp add: short_def CutSubagentString_def)

lemma short_opt_simps [simp]: "short_opt None" "short_opt (Some x) = short x" "short x \<Longrightarrow> short_opt (nullableStringArg x)"
  "short v \<Longrightarrow> short_opt val \<Longrightarrow> short_opt (applyFirst val v)"
  by (simp_all add: short_opt_def nullableStringArg_def applyFirst_def)

lemma listed_short: "l \<in> set (cutListed ls) \<Longrightarrow> short (ls_ID l) \<and> short (ls_Type l)"
proof -
  have "l \<in> set (cutListedFrom seen ls) \<Longrightarrow> short (ls_ID l) \<and> short (ls_Type l)" for seen
    by (induction seen ls rule: cutListedFrom.induct) (auto simp: Let_def split: if_splits)
  then show "l \<in> set (cutListed ls) \<Longrightarrow> short (ls_ID l) \<and> short (ls_Type l)" by (simp add: cutListed_def)
qed

lemma not_later_simps [simp]:
  "not_later None z" "not_later (Some x) None = False" "not_later (Some x) (Some y) = (y \<le> x)"
  "not_later t (earlier t at)" "not_later (Some at) (earlier t at)"
  by (simp_all add: not_later_def earlier_def split: option.splits)

lemma not_later_earlier: "not_later x t \<Longrightarrow> not_later x (earlier t at)"
  by (auto intro: not_later_trans)

lemma first_wins_applyFirst [simp]: "first_wins val (applyFirst val v)"
  by (simp add: first_wins_def applyFirst_def)

lemma applyRanked_cases:
  obtains "applyRanked (val, src) v s = (val, src)" | "applyRanked (val, src) v s = (Some v, Some s)" "v \<noteq> []"
  by (cases "v = []"; cases "val = None \<or> sourceRank s > sourceRank (coalesce src [])") (auto simp: applyRanked_def)

text \<open>A ranked field changes nothing else of the entry, and its source is known exactly with it.\<close>

lemma rankedType_frame [simp]:
  "sa_state (rankedType v src a) = sa_state a" "sa_close_reason (rankedType v src a) = sa_close_reason a"
  "sa_lost_at (rankedType v src a) = sa_lost_at a" "sa_stopped_at (rankedType v src a) = sa_stopped_at a"
  "sa_stopped_at_source (rankedType v src a) = sa_stopped_at_source a" "sa_started_at (rankedType v src a) = sa_started_at a"
  "sa_first_started_at (rankedType v src a) = sa_first_started_at a" "sa_run_mode (rankedType v src a) = sa_run_mode a"
  "sa_run_mode_source (rankedType v src a) = sa_run_mode_source a" "sa_description (rankedType v src a) = sa_description a"
  "sa_model (rankedType v src a) = sa_model a" "sa_tool_use_id (rankedType v src a) = sa_tool_use_id a"
  "sa_parent_type (rankedType v src a) = sa_parent_type a" "sa_confirmed (rankedType v src a) = sa_confirmed a"
  "sa_session_id (rankedType v src a) = sa_session_id a" "sa_launch_token (rankedType v src a) = sa_launch_token a"
  by (simp_all add: rankedType_def split: prod.splits)

lemma rankedMode_frame [simp]:
  "sa_state (rankedMode v src a) = sa_state a" "sa_close_reason (rankedMode v src a) = sa_close_reason a"
  "sa_lost_at (rankedMode v src a) = sa_lost_at a" "sa_stopped_at (rankedMode v src a) = sa_stopped_at a"
  "sa_stopped_at_source (rankedMode v src a) = sa_stopped_at_source a" "sa_started_at (rankedMode v src a) = sa_started_at a"
  "sa_first_started_at (rankedMode v src a) = sa_first_started_at a" "sa_subagent_type (rankedMode v src a) = sa_subagent_type a"
  "sa_subagent_type_source (rankedMode v src a) = sa_subagent_type_source a" "sa_description (rankedMode v src a) = sa_description a"
  "sa_model (rankedMode v src a) = sa_model a" "sa_tool_use_id (rankedMode v src a) = sa_tool_use_id a"
  "sa_parent_type (rankedMode v src a) = sa_parent_type a" "sa_confirmed (rankedMode v src a) = sa_confirmed a"
  "sa_session_id (rankedMode v src a) = sa_session_id a"
  by (simp_all add: rankedMode_def split: prod.splits)

lemma rankedType_fields:
  assumes "sa_subagent_type a = None \<longleftrightarrow> sa_subagent_type_source a = None" and "short_opt (sa_subagent_type a)" and "short v"
  shows "(sa_subagent_type (rankedType v src a) = None \<longleftrightarrow> sa_subagent_type_source (rankedType v src a) = None)
     \<and> short_opt (sa_subagent_type (rankedType v src a))"
  using assms by (cases rule: applyRanked_cases[of "sa_subagent_type a" "sa_subagent_type_source a" v src]) (simp_all add: rankedType_def)

lemma rankedMode_fields:
  assumes "sa_run_mode a = None \<longleftrightarrow> sa_run_mode_source a = None"
  shows "sa_run_mode (rankedMode v src a) = None \<longleftrightarrow> sa_run_mode_source (rankedMode v src a) = None"
  using assms by (cases rule: applyRanked_cases[of "sa_run_mode a" "sa_run_mode_source a" v src]) (simp_all add: rankedMode_def)

lemma fillDetails_frame [simp]:
  "sa_state (fillDetails i l a) = sa_state a" "sa_close_reason (fillDetails i l a) = sa_close_reason a"
  "sa_lost_at (fillDetails i l a) = sa_lost_at a" "sa_stopped_at (fillDetails i l a) = sa_stopped_at a"
  "sa_stopped_at_source (fillDetails i l a) = sa_stopped_at_source a" "sa_started_at (fillDetails i l a) = sa_started_at a"
  "sa_first_started_at (fillDetails i l a) = sa_first_started_at a" "sa_confirmed (fillDetails i l a) = sa_confirmed a"
  "sa_session_id (fillDetails i l a) = sa_session_id a"
  by (simp_all add: fillDetails_def Let_def)

lemma fillDetails_fields:
  assumes "entry_fields_ok a" and "short (ld_Type l)" "short (ld_Description l)" "short (ld_Model l)" "short (ld_ToolUseID l)"
  shows "entry_fields_ok (fillDetails i l a)"
    and "first_wins (sa_description a) (sa_description (fillDetails i l a))" "first_wins (sa_model a) (sa_model (fillDetails i l a))"
    and "first_wins (sa_tool_use_id a) (sa_tool_use_id (fillDetails i l a))"
    and "first_wins (sa_parent_type a) (sa_parent_type (fillDetails i l a))"
proof -
  let ?b = "rankedType (ld_Type l) SubagentSourceDetails a"
  have ty: "(sa_subagent_type ?b = None \<longleftrightarrow> sa_subagent_type_source ?b = None) \<and> short_opt (sa_subagent_type ?b)"
    using assms(1,2) by (intro rankedType_fields) (simp_all add: entry_fields_ok_def)
  have mo: "sa_run_mode (rankedMode (detailsMode l) SubagentSourceDetails ?b) = None
      \<longleftrightarrow> sa_run_mode_source (rankedMode (detailsMode l) SubagentSourceDetails ?b) = None"
    using assms(1) by (intro rankedMode_fields) (simp add: entry_fields_ok_def)
  show "entry_fields_ok (fillDetails i l a)"
    using assms ty mo by (simp add: fillDetails_def Let_def entry_fields_ok_def)
qed (simp_all add: fillDetails_def Let_def, simp add: first_wins_def)

lemma startedEntry_ok: "short (le_Type ev) \<Longrightarrow> short (le_SessionID ev) \<Longrightarrow> new_entry_ok (startedEntry ev)"
  using rankedType_fields[of "zeroEntry\<lparr>sa_session_id := nullableStringArg (le_SessionID ev), sa_state := SubagentStateRunning,
        sa_first_started_at := Some (le_ReceivedMs ev), sa_started_at := Some (le_ReceivedMs ev), sa_opened_at := le_ReceivedMs ev,
        sa_activity_at := le_ReceivedMs ev\<rparr>" "le_Type ev" SubagentSourceStart]
  by (simp add: startedEntry_def Let_def new_entry_ok_def entry_state_ok_def entry_fields_ok_def zeroEntry_def)

lemma restartedEntry_ok:
  assumes "entry_ok e" and "short (le_Type ev)"
  shows "entry_state_ok (restartedEntry ev tok e)" "entry_fields_ok (restartedEntry ev tok e)"
    "entry_moves EntryStart e (restartedEntry ev tok e)"
proof -
  have ty: "(sa_subagent_type (rankedType (le_Type ev) SubagentSourceStart e) = None
        \<longleftrightarrow> sa_subagent_type_source (rankedType (le_Type ev) SubagentSourceStart e) = None)
      \<and> short_opt (sa_subagent_type (rankedType (le_Type ev) SubagentSourceStart e))"
    using assms by (intro rankedType_fields) (simp_all add: entry_ok_def entry_fields_ok_def)
  show "entry_state_ok (restartedEntry ev tok e)"
    using assms(1) by (simp add: restartedEntry_def Let_def entry_ok_def entry_state_ok_def)
  show "entry_fields_ok (restartedEntry ev tok e)"
    using assms(1) ty by (simp add: restartedEntry_def Let_def entry_ok_def entry_fields_ok_def not_later_earlier)
  show "entry_moves EntryStart e (restartedEntry ev tok e)"
    by (simp add: restartedEntry_def Let_def entry_moves_def)
qed

lemma stoppedEntry_ok:
  assumes "entry_ok e"
  shows "entry_state_ok (stoppedEntry ev e)" "entry_fields_ok (stoppedEntry ev e)" "entry_moves EntryStop e (stoppedEntry ev e)"
  using assms by (auto simp: stoppedEntry_def Let_def entry_ok_def entry_state_ok_def entry_fields_ok_def entry_moves_def)

lemma listedEntry_ok: "short sess \<Longrightarrow> short ty \<Longrightarrow> new_entry_ok (listedEntry at sess ty)"
  using rankedType_fields[of "zeroEntry\<lparr>sa_confirmed := True, sa_session_id := nullableStringArg sess, sa_state := SubagentStateRunning,
        sa_run_mode := Some SubagentRunModeBackground, sa_run_mode_source := Some SubagentSourceSnapshot,
        sa_opened_at := at, sa_activity_at := at\<rparr>" ty SubagentSourceSnapshot]
  by (simp add: listedEntry_def new_entry_ok_def entry_state_ok_def entry_fields_ok_def zeroEntry_def)

lemma confirmedEntry_ok:
  assumes "entry_ok e"
  shows "entry_state_ok (confirmedEntry tok e)" "entry_fields_ok (confirmedEntry tok e)" "entry_moves k e (confirmedEntry tok e)"
  using assms by (auto simp: confirmedEntry_def Let_def entry_ok_def entry_state_ok_def entry_fields_ok_def entry_moves_def)

definition details_short :: "SubagentLaunchDetails \<Rightarrow> bool" where
  "details_short l \<longleftrightarrow> short (ld_Type l) \<and> short (ld_Description l) \<and> short (ld_Model l) \<and> short (ld_ToolUseID l)
     \<and> short (ld_SessionID l) \<and> short (ld_SubagentID l)"

lemma detailedEntry_ok:
  assumes "details_short l"
  shows "new_entry_ok (detailedEntry i l)"
proof -
  let ?z = "zeroEntry\<lparr>sa_confirmed := True, sa_session_id := nullableStringArg (ld_SessionID l),
     sa_opened_at := ld_ReceivedMs l, sa_activity_at := ld_ReceivedMs l\<rparr>"
  have "entry_fields_ok ?z" by (simp add: entry_fields_ok_def zeroEntry_def)
  note f = fillDetails_fields(1)[OF this, of l i]
  have "entry_fields_ok (fillDetails i l ?z)" using assms by (intro f) (simp_all add: details_short_def)
  then show ?thesis
    using assms unfolding detailedEntry_def Let_def new_entry_ok_def entry_state_ok_def entry_fields_ok_def
    by (simp add: details_short_def) (simp add: zeroEntry_def)
qed

definition details_event :: "SubagentLaunchDetails \<Rightarrow> entry_event" where
  "details_event l = (if ld_Outcome l = SubagentLaunchForegroundFinished then EntryDone else EntryKeep)"

lemma completedEntry_ok:
  assumes "entry_ok e" and "details_short l"
  shows "entry_state_ok (completedEntry i l tok e)" "entry_fields_ok (completedEntry i l tok e)"
    "entry_moves (details_event l) e (completedEntry i l tok e)"
proof -
  have s: "short (ld_Type l)" "short (ld_Description l)" "short (ld_Model l)" "short (ld_ToolUseID l)"
    using assms(2) by (simp_all add: details_short_def)
  have e: "entry_fields_ok e" "entry_state_ok e" using assms(1) by (simp_all add: entry_ok_def)
  note f = fillDetails_fields[OF e(1) s, of i]
  show "entry_state_ok (completedEntry i l tok e)"
    using e(2) by (simp add: completedEntry_def Let_def entry_state_ok_def)
  show "entry_fields_ok (completedEntry i l tok e)"
    using f(1) by (simp add: completedEntry_def Let_def entry_fields_ok_def not_later_earlier)
  show "entry_moves (details_event l) e (completedEntry i l tok e)"
    using f(2-5) by (simp add: completedEntry_def details_event_def Let_def entry_moves_def)
qed

lemma G_absent: "sub_guarantee EntryLose d (d\<lparr>subagents := update_where (\<lambda>a. staleBackground at a \<and> Q a) (absentSet at) (subagents d)\<rparr>)"
proof (rule G_update_entries)
  fix a assume "staleBackground at a \<and> Q a" "entry_ok a"
  then show "entry_ok (absentSet at a) \<and> entry_moves EntryLose a (absentSet at a)"
    by (simp add: absentSet_def entry_ok_def entry_state_ok_def entry_fields_ok_def entry_moves_def staleBackground_def)
qed (simp_all add: absentSet_def entry_key_def)

lemmas sub_steps = subs.tx_honours_bind subs.tx_honours_return subs.tx_honours_fail

lemma closeLaunch_honours: "tx_honours (sub_guarantee k) (closeLaunch s t tu)"
  by (auto simp: closeLaunch_def tx_return_def subs.G_refl tx_honours_def tx_exec_Inr G_drop_launches)

lemma tx_honours_if: "(b \<Longrightarrow> tx_honours G x) \<Longrightarrow> (\<not> b \<Longrightarrow> tx_honours G y) \<Longrightarrow> tx_honours G (if b then x else y)"
  by simp

lemma start_honours:
  assumes "short (le_Type ev)" "short (le_SessionID ev)" "short (le_SubagentID ev)"
  shows "tx_honours (sub_guarantee EntryStart) (start_tx s t ev)"
  unfolding start_tx_def
proof (rule read_honours)
  show "tx_honours (sub_guarantee EntryStart) (create_tx s t (le_SubagentID ev) (startedEntry ev) (le_Type ev))"
    using assms by (intro create_honours startedEntry_ok) (simp_all add: startedEntry_def Let_def)
  show "sub_guarantee EntryStart d d'" if "subagents_ok d" "e \<in> set (subagents d)" "entry_ok e"
    "writeEntry s t e (restartedEntry ev (t_token t) e) (le_ReceivedMs ev) True False d = Inr (u, d')" for e d u d'
    using write_honours[OF that(1,2,4)] restartedEntry_ok[OF that(3) assms(1)] by blast
qed

lemma stopEntry_honours: "tx_honours (sub_guarantee EntryStop) (stopEntry s t ev)"
  unfolding stopEntry_def
proof (rule read_honours)
  show "sub_guarantee EntryStop d d'" if "subagents_ok d" "e \<in> set (subagents d)" "entry_ok e"
    and run: "(if sa_launch_token e \<noteq> t_token t then tx_return ()
       else writeEntry s t e (stoppedEntry ev e) (le_ReceivedMs ev) False True) d = Inr (u, d')" for e d u d'
    using run write_honours[OF that(1,2), of s t "stoppedEntry ev e"] stoppedEntry_ok[OF that(3), of ev]
    by (auto simp: tx_return_def subs.G_refl split: if_splits)
qed (rule sub_steps)

lemma listedEntry_born: "sa_state (listedEntry at sess ty) = SubagentStateRunning"
  by (simp add: listedEntry_def)

lemma applyListed_honours:
  "list_all (\<lambda>l. short (ls_ID l) \<and> short (ls_Type l)) ls \<Longrightarrow> short sess
    \<Longrightarrow> tx_honours (sub_guarantee k) (applyListed s t ls at creates sess)"
proof (induction ls)
  case Nil
  show ?case by (simp add: sub_steps)
next
  case (Cons l ls)
  have body: "tx_honours (sub_guarantee k) (tx_bind (readEntry s t (ls_ID l)) (\<lambda>found. case found of
         None \<Rightarrow> if \<not> creates then tx_return () else create_tx s t (ls_ID l) (listedEntry at sess (ls_Type l)) []
       | Some e \<Rightarrow> writeEntry s t e (confirmedEntry (t_token t) e) at True False))"
  proof (rule read_honours)
    show "tx_honours (sub_guarantee k) (if \<not> creates then tx_return () else create_tx s t (ls_ID l) (listedEntry at sess (ls_Type l)) [])"
      using Cons.prems by (auto intro!: sub_steps create_honours listedEntry_ok simp: listedEntry_born)
    show "sub_guarantee k d d'" if "subagents_ok d" "e \<in> set (subagents d)" "entry_ok e"
      "writeEntry s t e (confirmedEntry (t_token t) e) at True False d = Inr (u, d')" for e d u d'
      using write_honours[OF that(1,2,4)] confirmedEntry_ok[OF that(3)] by blast
  qed
  have split: "applyListed s t (l # ls) at creates sess = tx_bind (tx_bind (readEntry s t (ls_ID l)) (\<lambda>found. case found of
         None \<Rightarrow> if \<not> creates then tx_return () else create_tx s t (ls_ID l) (listedEntry at sess (ls_Type l)) []
       | Some e \<Rightarrow> writeEntry s t e (confirmedEntry (t_token t) e) at True False)) (\<lambda>_. applyListed s t ls at creates sess)"
    by (simp add: fun_eq_iff tx_bind_def split: sum.splits prod.splits)
  show ?case unfolding split using Cons by (intro sub_steps(1) body) simp_all
qed

lemma cutListed_all: "list_all (\<lambda>l. short (ls_ID l) \<and> short (ls_Type l)) (cutListed ls)"
  using listed_short by (auto simp: list_all_iff)

lemma stop_honours: "tx_honours (sub_guarantee EntryStop) (stop_tx s t ev)"
  unfolding stop_tx_def by (intro sub_steps stopEntry_honours applyListed_honours cutListed_all) (simp add: short_def)

lemma launchDetails_honours:
  assumes "details_short l"
  shows "tx_honours (sub_guarantee (details_event l)) (launchDetails s t l)"
proof -
  have body: "tx_honours (sub_guarantee (details_event l)) (tx_bind (readEntry s t (ld_SubagentID l)) (\<lambda>found. case found of
         None \<Rightarrow> if ld_Outcome l \<noteq> SubagentLaunchBackgroundStarted \<and> ld_Outcome l \<noteq> SubagentLaunchForegroundFinished then tx_return ()
                 else create_tx s t (ld_SubagentID l) (detailedEntry (t_instanceID t) l) []
       | Some e \<Rightarrow> writeEntry s t e (completedEntry (t_instanceID t) l (t_token t) e) (ld_ReceivedMs l) True False))"
  proof (rule read_honours)
    show "tx_honours (sub_guarantee (details_event l)) (if ld_Outcome l \<noteq> SubagentLaunchBackgroundStarted
        \<and> ld_Outcome l \<noteq> SubagentLaunchForegroundFinished then tx_return ()
        else create_tx s t (ld_SubagentID l) (detailedEntry (t_instanceID t) l) [])"
    proof (rule tx_honours_if)
      assume "\<not> (ld_Outcome l \<noteq> SubagentLaunchBackgroundStarted \<and> ld_Outcome l \<noteq> SubagentLaunchForegroundFinished)"
      then have "may_move (details_event l) SubagentStateRunning (sa_state (detailedEntry (t_instanceID t) l))"
        by (auto simp: detailedEntry_def details_event_def Let_def)
      then show "tx_honours (sub_guarantee (details_event l)) (create_tx s t (ld_SubagentID l) (detailedEntry (t_instanceID t) l) [])"
        using assms by (intro create_honours detailedEntry_ok) (simp_all add: details_short_def)
    qed (rule sub_steps)
    show "sub_guarantee (details_event l) d d'" if "subagents_ok d" "e \<in> set (subagents d)" "entry_ok e"
      "writeEntry s t e (completedEntry (t_instanceID t) l (t_token t) e) (ld_ReceivedMs l) True False d = Inr (u, d')" for e d u d'
      using write_honours[OF that(1,2,4)] completedEntry_ok[OF that(3) assms] by blast
  qed
  show ?thesis
    unfolding launchDetails_def by (rule sub_steps(1)[OF closeLaunch_honours], rule tx_honours_if, rule sub_steps(2), rule body)
qed

lemma openLaunch_honours:
  assumes "openLaunchStmt t r d = (n, d')" and "subagents_ok d"
    and room: "subagentGateExists d (t_instanceID t) (t_gate t) \<Longrightarrow>
       length (filter (\<lambda>l. sl_instance_id l = t_instanceID t) (subagent_launches d)) < SubagentCap"
  shows "subagents_ok d' \<and> entries_evolve k d d'"
proof (cases "find (\<lambda>sp. subagentRowGate d (t_instanceID t) (t_gate t) sp
      \<and> \<not> any_row (\<lambda>l. sl_instance_id l = s_instance_id sp \<and> sl_tool_use_id l = lr_ToolUseID r) (subagent_launches d)) (spawns d)")
  case None
  then have "d' = d" using assms(1) by (simp add: openLaunchStmt_def del: any_row_iff)
  with assms(2) show ?thesis by (simp add: entries_evolve_refl)
next
  case (Some sp)
  then have d': "d' = d\<lparr>subagent_launches := subagent_launches d @ [\<lparr>sl_created_seq = next_launch_seq d,
              sl_instance_id = s_instance_id sp, sl_launch_token = coalesce (s_launch_token sp) [], sl_tool_use_id = lr_ToolUseID r,
              sl_subagent_type = lr_Type r, sl_opened_at = lr_ReceivedMs r\<rparr>], next_launch_seq := next_launch_seq d + 1\<rparr>"
    using assms(1) by (simp add: openLaunchStmt_def del: any_row_iff)
  have sp: "sp \<in> set (spawns d)" "subagentRowGate d (t_instanceID t) (t_gate t) sp"
    and fresh: "\<not> any_row (\<lambda>l. sl_instance_id l = s_instance_id sp \<and> sl_tool_use_id l = lr_ToolUseID r) (subagent_launches d)"
    using find_member[OF Some] by simp_all
  have own: "s_instance_id sp = t_instanceID t" using sp(2) by (simp add: subagentRowGate_def)
  have "subagentGateExists d (t_instanceID t) (t_gate t)" using sp by (auto simp: subagentGateExists_def)
  note space = room[OF this]
  have "within_cap sl_instance_id (subagent_launches d')"
    unfolding d' using assms(2) space own
    by (simp add: within_cap_snoc subagents_ok_def launches_ok_def)
  then have "subagents_ok d'"
    using assms(2) fresh by (auto simp: d' subagents_ok_def entries_ok_def launches_ok_def list_all_iff)
  moreover have "entries_evolve k d d'" by (auto simp: d' entries_evolve_def intro: entry_step_refl)
  ultimately show ?thesis ..
qed

lemma launchRequest_honours: "tx_honours (sub_guarantee k) (launchRequest s t r)"
  unfolding tx_honours_def sub_guarantee_def
proof (intro allI impI)
  fix d u d'
  assume run: "launchRequest s t r d = Inr (u, d')" and ok: "subagents_ok d"
  consider "d' = d" | ev d1 n where "evictLaunchStmt (t_instanceID t) (t_gate t) d = (ev, d1)" "openLaunchStmt t r d1 = (n, d')"
    using run by (auto simp: launchRequest_def evictSubagentLaunchGated_def tx_bind_Inr tx_exec_Inr tx_return_def split: if_splits)
  then show "subagents_ok d' \<and> entries_evolve k d d'"
  proof cases
    case 1
    with ok show ?thesis by (simp add: entries_evolve_refl)
  next
    case 2
    have g1: "subagents_ok d1 \<and> entries_evolve k d d1"
      using G_evictLaunch[of k d "t_instanceID t" "t_gate t"] 2(1) ok by (simp add: sub_guarantee_def)
    have same: "spawns d1 = spawns d" "cursor_runtimes d1 = cursor_runtimes d"
      using 2(1) by (auto simp: evictLaunchStmt_def split: option.splits if_splits)
    have "subagents_ok d' \<and> entries_evolve k d1 d'"
      using evictLaunchStmt_room[OF 2(1)] ok g1
      by (intro openLaunch_honours[OF 2(2)]) (simp_all add: gate_cong(3)[OF same] subagents_ok_def)
    with g1 show ?thesis by (blast intro: entries_evolve_trans)
  qed
qed

lemma closeAbsentLoop_honours: "tx_honours (sub_guarantee EntryLose) (closeAbsentLoop s t at qs)"
proof (induction qs)
  case (Cons q qs)
  have "sub_guarantee EntryLose d (d\<lparr>subagents := update_where (\<lambda>a. sa_created_seq a = q \<and> sa_instance_id a = t_instanceID t
       \<and> staleBackground at a \<and> subagentGateBelongs d (t_instanceID t) (t_gate t) (sa_launch_token a)) (absentSet at) (subagents d)\<rparr>)" for d
    using G_absent[of d at "\<lambda>a. sa_created_seq a = q \<and> sa_instance_id a = t_instanceID t
       \<and> subagentGateBelongs d (t_instanceID t) (t_gate t) (sa_launch_token a)"]
    by (simp add: conj_left_commute)
  then show ?case
    unfolding closeAbsentLoop.simps by (intro sub_steps(1) Cons.IH subs.tx_honours_exec) simp
qed (simp add: sub_steps)

lemma turnEnd_honours: "tx_honours (sub_guarantee EntryLose) (turnEnd s t te)"
proof -
  have ca: "tx_honours (sub_guarantee EntryLose) (closeAbsent s t ls at)" for ls at
    unfolding closeAbsent_def readUnlistedCandidates_def
    by (intro tx_honours_if sub_steps(1,2) closeAbsentLoop_honours subs.tx_honours_exec) (simp add: subs.G_refl)
  have "tx_honours (sub_guarantee EntryLose) (case te_Snapshot te of None \<Rightarrow> tx_return ()
     | Some sn \<Rightarrow> let listed = cutListed (sn_Listed sn)
         in tx_bind (applyListed s t listed (te_ReceivedMs te) True (CutSubagentString (sn_SessionID sn))) (\<lambda>_.
            closeAbsent s t listed (te_ReceivedMs te)))"
    by (cases "te_Snapshot te") (auto simp: Let_def intro!: sub_steps ca applyListed_honours cutListed_all)
  then show ?thesis
    unfolding turnEnd_def by (intro sub_steps(1) subs.tx_honours_exec) (simp_all add: G_drop_launches)
qed

section \<open>The calls\<close>

definition after_event :: "SubagentAfterWrite \<Rightarrow> entry_event" where
  "after_event w = (case aw_LaunchRequest w of Some _ \<Rightarrow> EntryKeep
     | None \<Rightarrow> (case aw_LaunchDetails w of Some l \<Rightarrow> details_event l
     | None \<Rightarrow> (case aw_LaunchFailure w of Some _ \<Rightarrow> EntryKeep
     | None \<Rightarrow> (case aw_TurnEnd w of Some _ \<Rightarrow> EntryLose | None \<Rightarrow> EntryKeep))))"

lemma afterWriteTx_honours: "tx_honours (sub_guarantee (after_event w)) (afterWriteTx s i g w)"
proof -
  have new: "tx_honours (sub_guarantee k) (newSubagentTx s i g)" for k
    by (auto simp: tx_honours_def newSubagentTx_def Let_def subs.G_refl split: if_splits)
  have "details_short (cutDetails l)" for l by (simp add: details_short_def cutDetails_def)
  then have ld: "tx_honours (sub_guarantee (details_event l)) (launchDetails s t (cutDetails l))" for t l
    using launchDetails_honours[of "cutDetails l"] by (simp add: details_event_def cutDetails_def)
  show ?thesis
    unfolding afterWriteTx_def
    by (intro sub_steps(1) new)
      (auto intro: launchRequest_honours ld turnEnd_honours sub_steps(2)
        simp: after_event_def launchFailure_def closeLaunch_honours split: option.splits)
qed

definition lifecycle_event :: "SubagentLifecycleEvent \<Rightarrow> entry_event" where
  "lifecycle_event ev = (if le_Kind ev = SubagentLifecycleStart then EntryStart else EntryStop)"

lemma gatedHookUpdate_tables:
  "subagents (snd (gatedHookUpdate i g upd p b c d)) = subagents d"
  "subagent_launches (snd (gatedHookUpdate i g upd p b c d)) = subagent_launches d"
  "next_subagent_seq (snd (gatedHookUpdate i g upd p b c d)) = next_subagent_seq d"
  "next_launch_seq (snd (gatedHookUpdate i g upd p b c d)) = next_launch_seq d"
  by (simp_all add: gatedHookUpdate_def update_spawns_def)

lemma lifecycleWrite_honours: "tx_honours (sub_guarantee (lifecycle_event ev)) (lifecycleWrite s i g (cutEvent ev) p b)"
proof -
  let ?k = "lifecycle_event ev" and ?ev = "cutEvent ev"
  have sh: "short (le_Type ?ev)" "short (le_SessionID ?ev)" "short (le_SubagentID ?ev)" by (simp_all add: cutEvent_def)
  have kind: "le_Kind ?ev = le_Kind ev" by (simp add: cutEvent_def)
  have new: "tx_honours (sub_guarantee ?k) (newSubagentTx s i g)"
    by (auto simp: tx_honours_def newSubagentTx_def Let_def subs.G_refl split: if_splits)
  have upd: "tx_honours (sub_guarantee ?k) (tx_exec s what (gatedHookUpdate i g seenSet p b no_cond))" for what
    by (intro subs.tx_honours_exec sub_guarantee_frame(2)) (rule gatedHookUpdate_tables)+
  show ?thesis
    unfolding lifecycleWrite_def
    by (intro sub_steps tx_honours_if upd new) (simp_all add: lifecycle_event_def kind start_honours[OF sh] stop_honours)
qed

lemma lifecycleTx_Inr:
  "lifecycleTx s i g ev p b d = Inr (st, d') \<Longrightarrow> lifecycleWrite s i g ev p b d = Inr ((), d') \<and> map_option s_state (find_spawn d i) = Some st"
  by (auto simp: lifecycleTx_def tx_bind_Inr tx_return_def split: if_splits option.splits)

lemma lifecycleTx_honours: "tx_honours (sub_guarantee (lifecycle_event ev)) (lifecycleTx s i g (cutEvent ev) p b)"
  using lifecycleWrite_honours[of ev s i g p b] unfolding tx_honours_def by (blast dest: lifecycleTx_Inr)

lemma finish_tx_counters [simp]:
  "next_subagent_seq (finish_tx s i d) = next_subagent_seq d" "next_launch_seq (finish_tx s i d) = next_launch_seq d"
  by (simp_all add: finish_tx_def)

lemma sub_inImmediateTx: "tx_honours (sub_guarantee k) t \<Longrightarrow> sub_guarantee k d (snd (inImmediateTx s i t d))"
proof -
  assume t: "tx_honours (sub_guarantee k) t"
  obtain x d' where e: "inImmediateTx s i t d = (x, d')" by force
  show ?thesis
  proof (cases x)
    case (Inl a)
    with e show ?thesis by (auto dest: inImmediateTx_Inl simp: subs.G_refl)
  next
    case (Inr a)
    with e obtain d1 where "t d = Inr (a, d1)" "d' = finish_tx s i d1" by (auto dest: inImmediateTx_Inr)
    with t e show ?thesis by (simp add: tx_honours_def sub_guarantee_frame(1)[of "finish_tx s i d1" d1])
  qed
qed

lemma honours_after_write: "honours (sub_guarantee (after_event w)) (ApplySubagentAfterWrite s i g w)"
  unfolding honours_def ApplySubagentAfterWrite_def
  by (simp add: subs.G_refl sub_inImmediateTx[OF afterWriteTx_honours])

lemma sub_guarantee_weaken: "sub_guarantee j d d' \<Longrightarrow> k = j \<or> k = EntryAny \<Longrightarrow> sub_guarantee k d d'"
proof -
  have "entry_step j a b \<Longrightarrow> entry_step EntryAny a b" for a b by (simp add: entry_step_def entry_moves_def)
  then have "entries_evolve j d d' \<Longrightarrow> entries_evolve EntryAny d d'" unfolding entries_evolve_def by (metis may_move.simps(6))
  then show "sub_guarantee j d d' \<Longrightarrow> k = j \<or> k = EntryAny \<Longrightarrow> sub_guarantee k d d'" by (auto simp: sub_guarantee_def)
qed

lemma honours_lifecycle:
  assumes "others_honour (sub_guarantee k) s" and k: "k = lifecycle_event ev \<or> k = EntryAny"
  shows "honours (sub_guarantee k) (ApplySubagentLifecycle s i g ev name p b)"
  unfolding honours_def
proof
  fix d
  let ?na = "call_bind (read_then s 9 (hookNotApplied s i g ''store: subagent lifecycle'' \<circ> others s 8)) (\<lambda>a. call_return (UpsertNoChange, a))"
  obtain x d1 where e: "inImmediateTx s i (lifecycleTx s i g (cutEvent ev) p b) d = (x, d1)" by force
  with sub_inImmediateTx[OF lifecycleTx_honours, of ev d s i s i g p b] have d1: "sub_guarantee k d d1"
    using sub_guarantee_weaken k by simp
  have na: "honours (sub_guarantee k) ?na"
    using assms(1) by (intro subs.honours_bind subs.honours_read_then subs.honours_return)
  then have "sub_guarantee k d (snd (?na d1))" using subs.G_trans[OF d1] by (simp add: honours_def)
  with d1 show "sub_guarantee k d (snd (ApplySubagentLifecycle s i g ev name p b d))"
    by (auto simp: ApplySubagentLifecycle_def e Let_def subs.G_refl emit_call_def intro: subs.G_trans[OF _ subs.G_emit]
        split: sum.splits store_error.splits)
qed

section \<open>The other tables\<close>

text \<open>The transitions write the two tables of subagents and nothing the other components read.\<close>

definition entries_only :: "db \<Rightarrow> db \<Rightarrow> bool" where
  "entries_only d d' \<longleftrightarrow> spawns d' = spawns d \<and> permission_requests d' = permission_requests d \<and> next_request_id d' = next_request_id d"

interpretation only: guarantee entries_only
  by unfold_locales (simp_all add: entries_only_def)

lemmas only_steps = only.tx_honours_bind only.tx_honours_return only.tx_honours_fail only.tx_honours_exec tx_honours_if

lemma only_stmts:
  "entries_only d (snd (evictEntryStmt i g d))" "entries_only d (snd (evictLaunchStmt i g d))"
  "entries_only d (snd (claimStmt t ty d))" "entries_only d (snd (openLaunchStmt t r d))"
  by (auto simp: entries_only_def evictEntryStmt_def evictLaunchStmt_def claimStmt_def openLaunchStmt_def split: option.splits)

lemma only_basic:
  "tx_honours entries_only (readEntry s t sid)" "tx_honours entries_only (newSubagentTx s i g)"
  "tx_honours entries_only (insertEntry s t sid e)" "tx_honours entries_only (writeEntry s t e n at mv co)"
  "tx_honours entries_only (closeLaunch s t tu)"
  by (auto simp: tx_honours_def readEntry_def newSubagentTx_def insertEntry_def writeEntry_def closeLaunch_def Let_def entries_only_def
      tx_exec_Inr tx_return_def split: if_splits option.splits)

lemma only_create: "tx_honours entries_only (create_tx s t sid e ty)"
  unfolding create_tx_def evictSubagentEntryGated_def claim_tx_def by (intro only_steps only_basic only_stmts)

lemma only_option:
  "tx_honours G A \<Longrightarrow> (\<And>e. tx_honours G (B e)) \<Longrightarrow> tx_honours G (case x of None \<Rightarrow> A | Some e \<Rightarrow> B e)"
  by (cases x) simp_all

lemma only_applyListed: "tx_honours entries_only (applyListed s t ls at creates sess)"
  by (induction ls) (simp_all only: applyListed.simps, (intro only_steps only_option only_basic only_create; assumption?)+)

lemma only_closeAbsentLoop: "tx_honours entries_only (closeAbsentLoop s t at qs)"
proof (induction qs)
  case Nil
  show ?case unfolding closeAbsentLoop.simps by (rule only_steps)
next
  case (Cons q qs)
  show ?case unfolding closeAbsentLoop.simps
    by (rule only_steps(1), rule only_steps(4), simp add: entries_only_def, rule Cons.IH)
qed

lemma only_lifecycle: "tx_honours entries_only (start_tx s t ev)" "tx_honours entries_only (stop_tx s t ev)"
  unfolding start_tx_def stop_tx_def stopEntry_def by (intro only_steps only_option only_basic only_create only_applyListed)+

lemma only_afterWrite: "tx_honours entries_only (afterWriteTx s i g w)"
proof -
  have te: "tx_honours entries_only (turnEnd s t te)" for t te
    unfolding turnEnd_def closeAbsent_def readUnlistedCandidates_def Let_def
    by (intro only_steps only_option only_applyListed only_closeAbsentLoop) (simp_all add: entries_only_def)
  have lr: "tx_honours entries_only (launchRequest s t r)" for t r
    unfolding launchRequest_def evictSubagentLaunchGated_def by (intro only_steps only_stmts) (simp_all add: entries_only_def)
  have ld: "tx_honours entries_only (launchDetails s t l)" for t l
    unfolding launchDetails_def by (intro only_steps only_option only_basic only_create)
  show ?thesis
    unfolding afterWriteTx_def launchFailure_def by (intro only_steps only_option only_basic te lr ld)
qed

lemma lifecycleWrite_Inr:
  assumes "lifecycleWrite s i g ev p b d = Inr (u, d')"
  shows "\<exists>d1. gatedHookUpdate i g seenSet p b no_cond d = (True, d1) \<and> entries_only d1 d'"
proof -
  obtain n d1 where d1: "gatedHookUpdate i g seenSet p b no_cond d = (n, d1)"
    and rest: "(if \<not> n then (\<lambda>d. Inl errNotApplied) else if le_SubagentID ev = [] then tx_return ()
       else tx_bind (newSubagentTx s i g) (\<lambda>t. if le_Kind ev = SubagentLifecycleStart then start_tx s t ev else stop_tx s t ev)) d1 = Inr (u, d')"
    using assms unfolding lifecycleWrite_def tx_bind_Inr[of "tx_exec _ _ _"] tx_exec_Inr by blast
  have "tx_honours entries_only (if \<not> n then (\<lambda>d. Inl errNotApplied) else if le_SubagentID ev = [] then tx_return ()
       else tx_bind (newSubagentTx s i g) (\<lambda>t. if le_Kind ev = SubagentLifecycleStart then start_tx s t ev else stop_tx s t ev))"
    by (intro only_steps only_basic only_lifecycle)
  with rest have "entries_only d1 d'" unfolding tx_honours_def by blast
  moreover have n using rest by (cases n) simp_all
  ultimately show ?thesis using d1 by auto
qed

text \<open>An invariant of the other tables is kept by the subagent calls too.\<close>

locale entry_invariant = life_invariant +
  assumes J_entries: "entries_only d d' \<Longrightarrow> J d \<Longrightarrow> J d'"
begin

lemma keeps_ApplySubagentAfterWrite: "keeps J (ApplySubagentAfterWrite s i g w)"
proof -
  have "keeps J (inImmediateTx s i (afterWriteTx s i g w))"
    by (rule keeps_inImmediateTx) (meson J_entries only_afterWrite tx_honours_def)
  then show ?thesis by (simp add: keeps_def ApplySubagentAfterWrite_def)
qed

lemma keeps_ApplySubagentLifecycle:
  assumes "rely J s"
  shows "keeps J (ApplySubagentLifecycle s i g ev name p b)"
  unfolding keeps_def
proof (intro allI impI)
  fix d assume d: "J d"
  let ?tx = "lifecycleTx s i g (cutEvent ev) p b"
  let ?na = "call_bind (read_then s 9 (hookNotApplied s i g ''store: subagent lifecycle'' \<circ> others s 8)) (\<lambda>a. call_return (UpsertNoChange, a))"
  have tx: "J d'" if before: "J d" and run: "?tx d = Inr (st, d')" for d st d'
  proof -
    obtain d1 where "gatedHookUpdate i g seenSet p b no_cond d = (True, d1)" "entries_only d1 d'"
      using lifecycleTx_Inr[OF run] lifecycleWrite_Inr by blast
    moreover have "J (snd (gatedHookUpdate i g seenSet p b no_cond d))"
      using before by (intro J_gated) (simp_all add: seenSet_def A_same[of _ r for r, simplified])
    ultimately show ?thesis by (auto intro: J_entries)
  qed
  have "keeps J (inImmediateTx s i ?tx)" by (rule keeps_inImmediateTx) (rule tx)
  moreover obtain x d1 where e: "inImmediateTx s i ?tx d = (x, d1)" by force
  ultimately have "J d1" using d by (auto simp: keeps_def dest: spec[of _ d])
  moreover have "keeps J ?na" using assms by (intro keeps_bind keeps_return keeps_read_then)
  ultimately show "J (snd (ApplySubagentLifecycle s i g ev name p b d))"
    using d by (auto simp: ApplySubagentLifecycle_def Let_def e emit_call_def keeps_def split: sum.splits store_error.splits)
qed

end

interpretation held_entries: entry_invariant held_not_working working_allowed
  by unfold_locales (simp add: entries_only_def held_not_working_def noRequestHoldsRow_def)

interpretation rows_entries: entry_invariant rows_ok stored_state_allowed
  by unfold_locales (simp add: entries_only_def rows_ok_def)

section \<open>The records under the other writes\<close>

lemma entry_agent_gone:
  "entry_ok a \<Longrightarrow> entry_ok (agentGoneSet at a) \<and> entry_moves EntryAny a (agentGoneSet at a)"
  by (simp add: agentGoneSet_def entry_ok_def entry_state_ok_def entry_fields_ok_def entry_moves_def)

lemma sub_frames:
  "sub_guarantee k d0 (d\<lparr>trail := x1\<rparr>) = sub_guarantee k d0 d" "sub_guarantee k d0 (d\<lparr>spawns := x2\<rparr>) = sub_guarantee k d0 d"
  "sub_guarantee k d0 (d\<lparr>permission_requests := x3\<rparr>) = sub_guarantee k d0 d"
  "sub_guarantee k d0 (d\<lparr>session_history := x4\<rparr>) = sub_guarantee k d0 d"
  "sub_guarantee k d0 (d\<lparr>next_history_id := x5\<rparr>) = sub_guarantee k d0 d"
  "sub_guarantee k d0 (d\<lparr>next_request_id := x6\<rparr>) = sub_guarantee k d0 d"
  "sub_guarantee k d0 (finish_tx s i d) = sub_guarantee k d0 d"
  by (rule sub_guarantee_frame(1); simp)+

interpretation sub_lives: life_invariant "sub_guarantee EntryAny d0" "\<lambda>_ _ _. True"
proof unfold_locales
  fix d :: db
  assume d: "sub_guarantee EntryAny d0 d"
  show "sub_guarantee EntryAny d0 (d\<lparr>subagents := update_where (\<lambda>a. sa_instance_id a = i \<and> sa_state a = SubagentStateRunning)
      (agentGoneSet at) (subagents d)\<rparr>)" for i at
    using subs.G_trans[OF d G_update_entries[of d _ "agentGoneSet at" EntryAny]] entry_agent_gone[of _ at]
    by (simp add: entry_key_def) (simp add: agentGoneSet_def)
  show "sub_guarantee EntryAny d0 (d\<lparr>subagent_launches := filter Q (subagent_launches d)\<rparr>)" for Q
    by (rule subs.G_trans[OF d G_drop_launches])
  show "sub_guarantee EntryAny d0 (d\<lparr>subagents := filter Q (subagents d)\<rparr>)" for Q
    by (rule subs.G_trans[OF d G_drop_entries])
qed (simp_all add: sub_frames)

end
