(* ===== verification/Subagent_Events.thy ===== *)
theory Subagent_Events
  imports Subagent_Laws
begin

text \<open>
  What a subagent event achieves, next to what it keeps: a start leaves a running entry of the row's
  current life and launch, a stop closes the current launch's entry, the skip of a turn end that has
  no work is sound, and the cut of a payload string is the longest prefix of whole characters that
  fits.
\<close>

section \<open>The gate survives the row write\<close>

lemma seenSet_keys [simp]: "s_instance_id (seenSet d r) = s_instance_id r" "s_state (seenSet d r) = s_state r"
  by (simp_all add: seenSet_def)

lemma seen_row [simp]:
  "s_instance_id (hookWrite g (seenSet d) p b r) = s_instance_id r" "s_state (hookWrite g (seenSet d) p b r) = s_state r"
  "s_launch_token (hookWrite g (seenSet d) p b r) = s_launch_token r" "s_life_number (hookWrite g (seenSet d) p b r) = s_life_number r"
  "s_subagent_tracking (hookWrite g (seenSet d) p b r) = s_subagent_tracking r" "s_agent (hookWrite g (seenSet d) p b r) = s_agent r"
  "s_pane_pid (hookWrite g (seenSet d) p b r) = s_pane_pid r"
  "s_pane_starttime (hookWrite g (seenSet d) p b r) = Some (coalesce (s_pane_starttime r) (g_ParentStart g))"
  by (simp_all add: hookWrite_def rowVersionAdvance_def hookPaneStartSet_def codexTurnSet_def hookSessionRecordSet_def
      livenessClear_def seenSet_def Let_def)

lemma seen_gate:
  assumes "subagentRowGate d i g r" and "cursor_runtimes d1 = cursor_runtimes d"
  shows "subagentRowGate d1 i g (hookWrite g (seenSet d) p b r)"
proof -
  let ?r = "hookWrite g (seenSet d) p b r"
  have g: "hookGate d g r" using assms(1) by (simp add: subagentRowGate_def)
  have "cursorGate d1 g ?r" if "cursorGate d g r"
    using that assms(2) by (auto simp: cursorGate_def split: option.splits)
  then have "hookGate d1 g ?r" using g by (auto simp: hookGate_iff)
  then show ?thesis using assms(1) by (simp add: subagentRowGate_def subagentRowLive_def)
qed

lemma seen_write:
  assumes "distinct (map s_instance_id (spawns d))" and "find_spawn d i = Some r" and "subagentRowGate d i g r"
  shows "\<exists>d1. gatedHookUpdate i g seenSet p b no_cond d = (True, d1) \<and> find_spawn d1 i = Some (hookWrite g (seenSet d) p b r)
     \<and> distinct (map s_instance_id (spawns d1)) \<and> subagentRowGate d1 i g (hookWrite g (seenSet d) p b r)
     \<and> subagents d1 = subagents d \<and> subagent_launches d1 = subagent_launches d \<and> next_subagent_seq d1 = next_subagent_seq d"
proof -
  let ?f = "hookWrite g (seenSet d) p b"
  let ?d1 = "d\<lparr>spawns := update_where (\<lambda>q. s_instance_id q = i) ?f (spawns d)\<rparr>"
  have "gatedHookUpdate i g seenSet p b no_cond d = (True, ?d1)"
    using update_the_row[OF assms(1,2), of "\<lambda>q. hookGate d g q" ?f] assms(3)
    by (simp add: gatedHookUpdate_def subagentRowGate_def)
  moreover have "find_spawn ?d1 i = Some (?f r)"
    using assms(2) find_update_where[of "\<lambda>q. s_instance_id q = i" s_instance_id ?f i "spawns d"] find_spawn_Some[OF assms(2)]
    by (simp add: find_spawn_def)
  moreover have "distinct (map s_instance_id (spawns ?d1))" using assms(1) by (simp add: map_update_where_key)
  moreover have "subagentRowGate ?d1 i g (?f r)" by (rule seen_gate[OF assms(3)]) simp
  ultimately show ?thesis by fastforce
qed

section \<open>A start runs\<close>

definition runs_in :: "spawn_row \<Rightarrow> string \<Rightarrow> subagent_row \<Rightarrow> bool" where
  "runs_in r sid a \<longleftrightarrow> sa_instance_id a = s_instance_id r \<and> sa_subagent_id a = sid \<and> sa_life_number a = s_life_number r
     \<and> Some (sa_launch_token a) = s_launch_token r \<and> sa_state a = SubagentStateRunning"

definition the_tx :: "spawn_row \<Rightarrow> HookGate \<Rightarrow> subagentTx" where
  "the_tx r g = \<lparr>t_instanceID = s_instance_id r, t_gate = g, t_token = coalesce (s_launch_token r) [],
     t_tokenOK = (coalesce (s_launch_token r) [] \<noteq> [])\<rparr>"

lemma the_tx_simps [simp]:
  "t_instanceID (the_tx r g) = s_instance_id r" "t_gate (the_tx r g) = g" "t_token (the_tx r g) = coalesce (s_launch_token r) []"
  "t_tokenOK (the_tx r g) = (coalesce (s_launch_token r) [] \<noteq> [])"
  by (simp_all add: the_tx_def)

lemma row_gate_facts:
  assumes "find_spawn d i = Some r" and "subagentRowGate d i g r"
  shows "subagentGateExists d i g" and "\<exists>tok. s_launch_token r = Some tok" and "s_instance_id r = i"
  using find_spawn_Some[OF assms(1)] assms(2) by (auto simp: subagentGateExists_def subagentRowGate_def subagentRowLive_def)

lemma insert_quiet:
  assumes "quiet s" and "distinct (map s_instance_id (spawns d))" and "find_spawn d i = Some r" and "subagentRowGate d i g r"
    and "\<And>a. a \<in> set (subagents d) \<Longrightarrow> \<not> (sa_instance_id a = i \<and> sa_life_number a = s_life_number r \<and> sa_subagent_id a = sid)"
  shows "insertEntry s (the_tx r g) sid e d
     = Inr (True, d\<lparr>subagents := subagents d @ [insertedEntry d sid e r], next_subagent_seq := next_subagent_seq d + 1\<rparr>)"
proof -
  have i: "s_instance_id r = i" using row_gate_facts(3)[OF assms(3,4)] .
  have "find (subagentRowGate d i g) (spawns d) = Some r"
    using find_guarded[OF assms(2,3), of "\<lambda>q. subagentRowLive q \<and> hookGate d g q"] assms(4)
    by (simp add: subagentRowGate_def[abs_def])
  moreover have "\<not> any_row (sameEntry (insertedEntry d sid e r)) (subagents d)"
    using i by (auto simp: sameEntry_def insertedEntry_def dest!: assms(5))
  ultimately show ?thesis using assms(1) i by (simp add: insertEntry_def Let_def del: any_row_iff)
qed

lemma create_quiet:
  assumes "quiet s" and "distinct (map s_instance_id (spawns d))" and "find_spawn d i = Some r" and "subagentRowGate d i g r"
    and "\<And>a. a \<in> set (subagents d) \<Longrightarrow> \<not> (sa_instance_id a = i \<and> sa_life_number a = s_life_number r \<and> sa_subagent_id a = sid)"
    and "sa_state e = SubagentStateRunning"
  shows "\<exists>d'. create_tx s (the_tx r g) sid e ty d = Inr ((), d') \<and> (\<exists>a \<in> set (subagents d'). runs_in r sid a)"
proof -
  have i: "s_instance_id r = i" using row_gate_facts(3)[OF assms(3,4)] .
  obtain tok where tok: "s_launch_token r = Some tok" using row_gate_facts(2)[OF assms(3,4)] by blast
  obtain ev d1 where ev: "evictEntryStmt i g d = (ev, d1)" by force
  have d1: "spawns d1 = spawns d" "cursor_runtimes d1 = cursor_runtimes d" using evictEntryStmt_frame[OF ev] by simp_all
  have sub1: "set (subagents d1) \<subseteq> set (subagents d)"
    using ev by (auto simp: evictEntryStmt_def split: option.splits if_splits)
  have "\<exists>cl d2. (if ty \<noteq> [] then claim_tx s (the_tx r g) ty else tx_return False) d1 = Inr (cl, d2)
      \<and> spawns d2 = spawns d \<and> cursor_runtimes d2 = cursor_runtimes d \<and> subagents d2 = subagents d1"
    using assms(1) claimStmt_shape[of "the_tx r g" ty d1] d1 by (auto simp: claim_tx_def tx_exec_def tx_return_def)
  then obtain cl d2 where cl: "(if ty \<noteq> [] then claim_tx s (the_tx r g) ty else tx_return False) d1 = Inr (cl, d2)"
    and d2: "spawns d2 = spawns d" "cursor_runtimes d2 = cursor_runtimes d" "subagents d2 = subagents d1" by blast
  have row2: "distinct (map s_instance_id (spawns d2))" "find_spawn d2 i = Some r" "subagentRowGate d2 i g r"
    using assms(2-4) d2 by (simp_all add: find_spawn_def gate_cong(2)[OF d2(1,2)])
  let ?e = "e\<lparr>sa_confirmed := sa_confirmed e \<or> cl\<rparr>"
  let ?d' = "d2\<lparr>subagents := subagents d2 @ [insertedEntry d2 sid ?e r], next_subagent_seq := next_subagent_seq d2 + 1\<rparr>"
  have ins: "insertEntry s (the_tx r g) sid ?e d2 = Inr (True, ?d')"
    using sub1 d2(3) by (intro insert_quiet[OF assms(1) row2]) (auto dest!: assms(5))
  have evict: "evictSubagentEntryGated s (t_instanceID (the_tx r g)) (t_gate (the_tx r g)) d = Inr (ev, d1)"
    using assms(1) ev i by (simp add: evictSubagentEntryGated_def tx_exec_def)
  have "create_tx s (the_tx r g) sid e ty d = Inr ((), ?d')"
    unfolding create_tx_def tx_bind_Inr by (intro exI conjI, rule evict, rule cl, rule ins) (simp add: tx_return_def)
  moreover have "runs_in r sid (insertedEntry d2 sid ?e r)"
    using assms(6) tok by (simp add: runs_in_def insertedEntry_def)
  ultimately show ?thesis by auto
qed

lemma write_quiet:
  assumes "quiet s" and "e \<in> set (subagents d)" and "sa_instance_id e = t_instanceID t" and "entryGate d t co e"
  shows "\<exists>d' a. writeEntry s t e n at mv co d = Inr ((), d') \<and> a \<in> set (subagents d')
     \<and> map sa_created_seq (subagents d') = map sa_created_seq (subagents d)
     \<and> (a = e \<and> n\<lparr>sa_activity_at := sa_activity_at e\<rparr> = e \<or> a = entrySet d t n at mv e)"
proof (cases "n\<lparr>sa_activity_at := sa_activity_at e\<rparr> = e")
  case True
  then show ?thesis using assms(2) by (auto simp: writeEntry_def tx_return_def)
next
  case False
  let ?P = "\<lambda>a. sa_created_seq a = sa_created_seq e \<and> sa_instance_id a = t_instanceID t \<and> entryGate d t co a"
  let ?d' = "d\<lparr>subagents := update_where ?P (entrySet d t n at mv) (subagents d)\<rparr>"
  have "writeEntry s t e n at mv co d = Inr ((), ?d')" using assms(1) False by (simp add: writeEntry_def tx_exec_def)
  moreover have "entrySet d t n at mv e \<in> set (subagents ?d')"
    using update_where_hit[OF assms(2), of ?P] assms(3,4) by simp
  moreover have "map sa_created_seq (subagents ?d') = map sa_created_seq (subagents d)"
    by (simp add: map_update_where_key)
  ultimately show ?thesis by blast
qed

lemma restartedEntry_runs [simp]:
  "sa_state (restartedEntry ev tok e) = SubagentStateRunning" "sa_launch_token (restartedEntry ev tok e) = tok"
  by (simp_all add: restartedEntry_def Let_def)

lemma read_quiet:
  assumes "quiet s" and "find_spawn d i = Some r" and "s_instance_id r = i"
  shows "readEntry s (the_tx r g) sid d
     = Inr (find (\<lambda>a. sa_instance_id a = i \<and> sa_subagent_id a = sid \<and> sa_life_number a = s_life_number r) (subagents d), d)"
  using assms by (simp add: readEntry_def currentLife_def conj_commute)

lemma start_quiet:
  assumes "quiet s" and "distinct (map s_instance_id (spawns d))" and "find_spawn d i = Some r" and "subagentRowGate d i g r"
  shows "\<exists>d'. start_tx s (the_tx r g) ev d = Inr ((), d') \<and> (\<exists>a \<in> set (subagents d'). runs_in r (le_SubagentID ev) a)"
proof -
  have i: "s_instance_id r = i" and gate: "subagentGateExists d i g" using row_gate_facts[OF assms(3,4)] by auto
  obtain tok where tok: "s_launch_token r = Some tok" using row_gate_facts(2)[OF assms(3,4)] by blast
  let ?sid = "le_SubagentID ev"
  let ?P = "\<lambda>a. sa_instance_id a = i \<and> sa_subagent_id a = ?sid \<and> sa_life_number a = s_life_number r"
  note rd = read_quiet[OF assms(1,3) i, of g ?sid]
  show ?thesis
  proof (cases "find ?P (subagents d)")
    case None
    then have "\<not> ?P a" if "a \<in> set (subagents d)" for a using that by (auto simp: find_None_iff)
    then have fresh: "a \<in> set (subagents d) \<Longrightarrow> \<not> (sa_instance_id a = i \<and> sa_life_number a = s_life_number r \<and> sa_subagent_id a = ?sid)" for a
      by blast
    have st: "sa_state (startedEntry ev) = SubagentStateRunning" by (simp add: startedEntry_def Let_def)
    from create_quiet[OF assms fresh st, of "le_Type ev"] show ?thesis
      by (simp add: start_tx_def tx_bind_def rd None)
  next
    case (Some e)
    have e: "e \<in> set (subagents d)" "?P e" using find_member[OF Some] by simp_all
    let ?n = "restartedEntry ev tok e"
    obtain d' a where w: "writeEntry s (the_tx r g) e ?n (le_ReceivedMs ev) True False d = Inr ((), d')" "a \<in> set (subagents d')"
      and a: "a = e \<and> ?n\<lparr>sa_activity_at := sa_activity_at e\<rparr> = e \<or> a = entrySet d (the_tx r g) ?n (le_ReceivedMs ev) True e"
      using write_quiet[OF assms(1) e(1), of "the_tx r g" False ?n "le_ReceivedMs ev" True] e(2) i gate by (auto simp: entryGate_def)
    have "runs_in r ?sid a"
      using a
    proof
      assume same: "a = e \<and> ?n\<lparr>sa_activity_at := sa_activity_at e\<rparr> = e"
      have "sa_state (?n\<lparr>sa_activity_at := sa_activity_at e\<rparr>) = SubagentStateRunning"
        "sa_launch_token (?n\<lparr>sa_activity_at := sa_activity_at e\<rparr>) = tok" by simp_all
      then have "sa_state e = SubagentStateRunning" "sa_launch_token e = tok" unfolding conjunct2[OF same] by simp_all
      with same e(2) i tok show ?thesis by (simp add: runs_in_def)
    next
      assume "a = entrySet d (the_tx r g) ?n (le_ReceivedMs ev) True e"
      with e(2) i tok assms(3) show ?thesis by (simp add: runs_in_def entrySet_def)
    qed
    with w show ?thesis by (auto simp: start_tx_def tx_bind_def rd Some tok)
  qed
qed

section \<open>A stop closes\<close>

definition current_entry :: "spawn_row \<Rightarrow> string \<Rightarrow> subagent_row \<Rightarrow> bool" where
  "current_entry r sid e \<longleftrightarrow> sa_instance_id e = s_instance_id r \<and> sa_subagent_id e = sid \<and> sa_life_number e = s_life_number r
     \<and> Some (sa_launch_token e) = s_launch_token r"

definition stopped_entry :: "subagent_row \<Rightarrow> bool" where
  "stopped_entry a \<longleftrightarrow> sa_state a = SubagentStateStopped \<and> sa_close_reason a = Some SubagentCloseStopEvent
     \<and> sa_lost_at a = None \<and> sa_stopped_at a \<noteq> None"

lemma stoppedEntry_stops: "entry_ok e \<Longrightarrow> stopped_entry (stoppedEntry ev e)"
  by (auto simp: stoppedEntry_def stopped_entry_def Let_def entry_ok_def entry_state_ok_def)

lemma stopEntry_quiet:
  assumes "quiet s" and "find_spawn d i = Some r" and "subagentRowGate d i g r" and "subagents_ok d"
    and "e \<in> set (subagents d)" and "current_entry r (le_SubagentID ev) e"
  shows "\<exists>d' a. stopEntry s (the_tx r g) ev d = Inr ((), d') \<and> a \<in> set (subagents d') \<and> stopped_entry a
     \<and> sa_created_seq a = sa_created_seq e"
proof -
  have i: "s_instance_id r = i" using row_gate_facts(3)[OF assms(2,3)] .
  obtain tok where tok: "s_launch_token r = Some tok" using row_gate_facts(2)[OF assms(2,3)] by blast
  let ?P = "\<lambda>a. sa_instance_id a = i \<and> sa_subagent_id a = le_SubagentID ev \<and> sa_life_number a = s_life_number r"
  have uniq: "distinct (map entry_key (subagents d))" and ok: "entry_ok e"
    using assms(4,5) by (auto simp: subagents_ok_def entries_ok_def list_all_iff)
  have "find ?P (subagents d) = Some e"
  proof (cases "find ?P (subagents d)")
    case None
    then show ?thesis using assms(5,6) i by (auto simp: find_None_iff current_entry_def)
  next
    case (Some a)
    then have "a \<in> set (subagents d)" "entry_key a = entry_key e"
      using find_member[OF Some] assms(6) i by (simp_all add: entry_key_def current_entry_def)
    with uniq assms(5) Some show ?thesis by (simp add: distinct_map inj_on_def)
  qed
  note rd = read_quiet[OF assms(1,2) i, of g "le_SubagentID ev", unfolded this]
  have belongs: "entryGate d (the_tx r g) True e"
    using assms(3,6) find_spawn_Some[OF assms(2)] i tok by (auto simp: entryGate_def subagentGateBelongs_def current_entry_def)
  obtain d' a where w: "writeEntry s (the_tx r g) e (stoppedEntry ev e) (le_ReceivedMs ev) False True d = Inr ((), d')" "a \<in> set (subagents d')"
    and a: "a = e \<and> (stoppedEntry ev e)\<lparr>sa_activity_at := sa_activity_at e\<rparr> = e
       \<or> a = entrySet d (the_tx r g) (stoppedEntry ev e) (le_ReceivedMs ev) False e"
    using write_quiet[OF assms(1,5), of "the_tx r g" True "stoppedEntry ev e" "le_ReceivedMs ev" False] assms(6) belongs
    by (auto simp: current_entry_def)
  have "stopped_entry a \<and> sa_created_seq a = sa_created_seq e"
    using a
  proof
    assume same: "a = e \<and> (stoppedEntry ev e)\<lparr>sa_activity_at := sa_activity_at e\<rparr> = e"
    have "stopped_entry ((stoppedEntry ev e)\<lparr>sa_activity_at := sa_activity_at e\<rparr>)"
      using stoppedEntry_stops[OF ok, of ev] by (simp add: stopped_entry_def)
    with same show ?thesis by simp
  next
    assume "a = entrySet d (the_tx r g) (stoppedEntry ev e) (le_ReceivedMs ev) False e"
    with stoppedEntry_stops[OF ok, of ev] show ?thesis by (simp add: stopped_entry_def entrySet_def)
  qed
  with w show ?thesis using assms(6) tok by (auto simp: stopEntry_def tx_bind_def rd current_entry_def)
qed

lemma writeEntry_quiet: "quiet s \<Longrightarrow> \<exists>d'. writeEntry s t e n at mv co d = Inr ((), d')
    \<and> map sa_created_seq (subagents d') = map sa_created_seq (subagents d)"
  by (auto simp: writeEntry_def tx_return_def tx_exec_def map_update_where_key)

lemma applyListed_quiet:
  assumes "quiet s"
  shows "\<exists>d'. applyListed s t ls at False sess d = Inr ((), d') \<and> map sa_created_seq (subagents d') = map sa_created_seq (subagents d)"
proof (induction ls arbitrary: d)
  case Nil
  show ?case by (simp add: tx_return_def)
next
  case (Cons l ls)
  obtain f where rd: "readEntry s t (ls_ID l) d = Inr (f, d)" using assms by (simp add: readEntry_def)
  have "\<exists>d1. (case f of None \<Rightarrow> tx_return () | Some e \<Rightarrow> writeEntry s t e (confirmedEntry (t_token t) e) at True False) d = Inr ((), d1)
      \<and> map sa_created_seq (subagents d1) = map sa_created_seq (subagents d)"
    using writeEntry_quiet[OF assms] by (cases f) (simp_all add: tx_return_def)
  then obtain d1 where w: "(case f of None \<Rightarrow> tx_return () | Some e \<Rightarrow> writeEntry s t e (confirmedEntry (t_token t) e) at True False) d = Inr ((), d1)"
    "map sa_created_seq (subagents d1) = map sa_created_seq (subagents d)" by blast
  obtain d2 where "applyListed s t ls at False sess d1 = Inr ((), d2)" "map sa_created_seq (subagents d2) = map sa_created_seq (subagents d1)"
    using Cons.IH by blast
  with rd w show ?case by (simp add: tx_bind_def)
qed

lemma stop_quiet:
  assumes "quiet s" and "find_spawn d i = Some r" and "subagentRowGate d i g r" and "subagents_ok d"
    and "e \<in> set (subagents d)" and "current_entry r (le_SubagentID ev) e"
  shows "\<exists>d'. stop_tx s (the_tx r g) ev d = Inr ((), d')
     \<and> (\<exists>a \<in> set (subagents d'). sa_created_seq a = sa_created_seq e \<and> stopped_entry a)"
proof -
  obtain d1 a where s1: "stopEntry s (the_tx r g) ev d = Inr ((), d1)" and a: "a \<in> set (subagents d1)" "stopped_entry a"
    "sa_created_seq a = sa_created_seq e"
    using stopEntry_quiet[OF assms] by blast
  let ?ls = "applyListed s (the_tx r g) (cutListed (le_Listing ev)) (le_ReceivedMs ev) False []"
  obtain d2 where s2: "?ls d1 = Inr ((), d2)" and seqs: "map sa_created_seq (subagents d2) = map sa_created_seq (subagents d1)"
    using applyListed_quiet[OF assms(1)] by blast
  have g1: "subagents_ok d1" using stopEntry_honours s1 assms(4) by (auto simp: tx_honours_def sub_guarantee_def)
  have "tx_honours (sub_guarantee EntryStop) ?ls" by (intro applyListed_honours cutListed_all) (simp add: short_def)
  with s2 g1 have g2: "subagents_ok d2" "entries_evolve EntryStop d1 d2" by (auto simp: tx_honours_def sub_guarantee_def)
  have "sa_created_seq a \<in> set (map sa_created_seq (subagents d2))" using a(1) unfolding seqs by auto
  then obtain b where b: "b \<in> set (subagents d2)" "sa_created_seq b = sa_created_seq a" by auto
  have lt: "sa_created_seq a < next_subagent_seq d1" using g1 a(1) by (auto simp: subagents_ok_def entries_ok_def list_all_iff)
  then obtain a' where a': "a' \<in> set (subagents d1)" "entry_step EntryStop a' b"
    using g2(2) b by (auto simp: entries_evolve_def)
  then have "a' = a"
    using b(2) a(1) g1 by (auto simp: entry_step_def subagents_ok_def entries_ok_def distinct_map inj_on_def)
  with a' a(2) have "sa_state b = SubagentStateStopped" by (auto simp: entry_step_def entry_moves_def stopped_entry_def)
  moreover have "entry_ok b" using g2(1) b(1) by (auto simp: subagents_ok_def entries_ok_def list_all_iff)
  ultimately have "stopped_entry b" by (auto simp: stopped_entry_def entry_ok_def entry_state_ok_def)
  with b a(3) s1 s2 show ?thesis by (auto simp: stop_tx_def tx_bind_def)
qed

section \<open>The properties of the subagent records\<close>

lemma lifecycle_quiet:
  assumes "quiet s" and "distinct (map s_instance_id (spawns d))" and "find_spawn d i = Some r" and "subagentRowGate d i g r"
    and "CutSubagentString (le_SubagentID ev) \<noteq> []" and "le_Kind ev = SubagentLifecycleStart \<or> le_Kind ev = SubagentLifecycleStop"
    and d1: "gatedHookUpdate i g seenSet p b no_cond d = (True, d1)" "find_spawn d1 i = Some r1" "s_instance_id r1 = i"
    and tx: "(if le_Kind ev = SubagentLifecycleStart then start_tx s (the_tx r1 g) (cutEvent ev)
       else stop_tx s (the_tx r1 g) (cutEvent ev)) d1 = Inr ((), d2)"
  shows "\<exists>d3. ApplySubagentLifecycle s i g ev name p b d = (Inr (UpsertUpdated, hook_applied), d3) \<and> subagents d3 = subagents d2"
proof -
  have k: "le_Kind (cutEvent ev) = le_Kind ev" "le_SubagentID (cutEvent ev) = CutSubagentString (le_SubagentID ev)"
    by (simp_all add: cutEvent_def)
  have new: "newSubagentTx s i g d1 = Inr (the_tx r1 g, d1)"
    using assms(1) d1(2,3) by (simp add: newSubagentTx_def the_tx_def Let_def)
  have "lifecycleWrite s i g (cutEvent ev) p b d = Inr ((), d2)"
    using assms(1,5) d1(1) tx by (simp add: lifecycleWrite_def tx_bind_def tx_exec_def new k)
  then have "lifecycleTx s i g (cutEvent ev) p b d = Inr (s_state r, d2)"
    using assms(1,3) by (simp add: lifecycleTx_def tx_bind_def tx_return_def)
  from tx_quiet[where fn = "lifecycleTx s i g (cutEvent ev) p b", OF assms(1) this, of i] show ?thesis
    using assms(6) by (simp add: ApplySubagentLifecycle_def Let_def k emit_call_def)
qed

text \<open>
  C28. A subagent event takes effect: on a quiet store, a start on a tracked row the hook may write is
  applied and leaves a running entry with the event's (cut) id in the row's current life and launch,
  whether it was new, running, stopped or lost; a stop of an entry of the current launch is applied
  and leaves it stopped by a stop event, whatever else its listing names.
\<close>

theorem subagent_lifecycle_takes_effect:
  assumes "quiet s" and "distinct (map s_instance_id (spawns d))" and "find_spawn d i = Some r" and "subagentRowGate d i g r"
    and "CutSubagentString (le_SubagentID ev) \<noteq> []" and "subagents_ok d"
  shows "(le_Kind ev = SubagentLifecycleStart \<longrightarrow>
       (\<exists>d1. ApplySubagentLifecycle s i g ev name p b d = (Inr (UpsertUpdated, hook_applied), d1)
          \<and> (\<exists>a \<in> set (subagents d1). runs_in r (CutSubagentString (le_SubagentID ev)) a)))
     \<and> (le_Kind ev = SubagentLifecycleStop \<longrightarrow> (\<forall>e \<in> set (subagents d). current_entry r (CutSubagentString (le_SubagentID ev)) e \<longrightarrow>
       (\<exists>d1. ApplySubagentLifecycle s i g ev name p b d = (Inr (UpsertUpdated, hook_applied), d1)
          \<and> (\<exists>a \<in> set (subagents d1). sa_created_seq a = sa_created_seq e \<and> stopped_entry a))))"
proof -
  let ?r = "hookWrite g (seenSet d) p b r"
  obtain d1 where d1: "gatedHookUpdate i g seenSet p b no_cond d = (True, d1)" "find_spawn d1 i = Some ?r"
    "distinct (map s_instance_id (spawns d1))" "subagentRowGate d1 i g ?r" "subagents d1 = subagents d"
    "subagent_launches d1 = subagent_launches d" "next_subagent_seq d1 = next_subagent_seq d"
    using seen_write[OF assms(2-4)] by blast
  have i: "s_instance_id ?r = i" using row_gate_facts(3)[OF assms(3,4)] by simp
  have "next_launch_seq d1 = next_launch_seq d" using d1(1) gatedHookUpdate_tables(4)[of i g seenSet p b no_cond d] by simp
  then have ok: "subagents_ok d1" using assms(6) d1(5-7) subagents_ok_cong[of d1 d] by simp
  have id: "le_SubagentID (cutEvent ev) = CutSubagentString (le_SubagentID ev)" by (simp add: cutEvent_def)
  have same: "runs_in ?r sid a = runs_in r sid a" "current_entry ?r sid a = current_entry r sid a" for sid a
    by (simp_all add: runs_in_def current_entry_def)
  have "\<exists>d3. ApplySubagentLifecycle s i g ev name p b d = (Inr (UpsertUpdated, hook_applied), d3)
      \<and> (\<exists>a \<in> set (subagents d3). runs_in r (CutSubagentString (le_SubagentID ev)) a)" if "le_Kind ev = SubagentLifecycleStart"
  proof -
    obtain d2 where d2: "start_tx s (the_tx ?r g) (cutEvent ev) d1 = Inr ((), d2)"
      "\<exists>a \<in> set (subagents d2). runs_in r (CutSubagentString (le_SubagentID ev)) a"
      using start_quiet[OF assms(1) d1(3,2,4), of "cutEvent ev"] by (auto simp: id same)
    from lifecycle_quiet[OF assms(1-5) _ d1(1,2) i] that d2 show ?thesis by fastforce
  qed
  moreover have "\<exists>d3. ApplySubagentLifecycle s i g ev name p b d = (Inr (UpsertUpdated, hook_applied), d3)
      \<and> (\<exists>a \<in> set (subagents d3). sa_created_seq a = sa_created_seq e \<and> stopped_entry a)"
    if kind: "le_Kind ev = SubagentLifecycleStop" and e: "e \<in> set (subagents d)" "current_entry r (CutSubagentString (le_SubagentID ev)) e" for e
  proof -
    obtain d2 where d2: "stop_tx s (the_tx ?r g) (cutEvent ev) d1 = Inr ((), d2)"
      "\<exists>a \<in> set (subagents d2). sa_created_seq a = sa_created_seq e \<and> stopped_entry a"
      using stop_quiet[OF assms(1) d1(2,4) ok, of e "cutEvent ev"] e by (auto simp: id same d1(5))
    from lifecycle_quiet[OF assms(1-5) _ d1(1,2) i] kind d2 show ?thesis by fastforce
  qed
  ultimately show ?thesis by blast
qed

definition sample_tracked :: db where
  "sample_tracked = sample_db\<lparr>spawns := [sample_row\<lparr>s_launch_token := Some ''0123456789abcdef'', s_subagent_tracking := 1\<rparr>]\<rparr>"

definition sample_start :: SubagentLifecycleEvent where
  "sample_start = \<lparr>le_Kind = SubagentLifecycleStart, le_SubagentID = ''x1'', le_SessionID = ''s1'', le_Type = ''explore'',
     le_SupersedesBlockedStop = False, le_Listing = [], le_ReceivedMs = 5000\<rparr>"

lemma sample_tracked_facts:
  "distinct (map s_instance_id (spawns sample_tracked))" "find_spawn sample_tracked ''a'' = Some (hd (spawns sample_tracked))"
  "subagentRowGate sample_tracked ''a'' sample_gate (hd (spawns sample_tracked))" "subagents_ok sample_tracked"
  "CutSubagentString (le_SubagentID sample_start) \<noteq> []"
  by (simp_all add: sample_tracked_def sample_db_def sample_row_def find_spawn_def subagentRowGate_def subagentRowLive_def hookGate_iff
      sample_gate_def subagents_ok_def entries_ok_def launches_ok_def within_cap_def sample_start_def CutSubagentString_def)

theorem subagent_lifecycle_takes_effect_witness:
  "\<exists>d1. ApplySubagentLifecycle sample_store ''a'' sample_gate sample_start ''SubagentStart'' [] False sample_tracked
       = (Inr (UpsertUpdated, hook_applied), d1)
     \<and> (\<exists>a \<in> set (subagents d1). runs_in (hd (spawns sample_tracked)) ''x1'' a)"
proof -
  have "le_Kind sample_start = SubagentLifecycleStart" "CutSubagentString (le_SubagentID sample_start) = ''x1''"
    by (simp_all add: sample_start_def CutSubagentString_def)
  with subagent_lifecycle_takes_effect[OF quiet_sample sample_tracked_facts(1-3,5,4), of "''SubagentStart''" "[]" False]
  show ?thesis by simp
qed

text \<open>
  C29. Every subagent event follows the entry's state machine and keeps its records well-formed: no
  entry changes its identity, session or life, un-confirms or loses a first value. Only a start reopens:
  it keeps a state or makes it running. Only a stop or the result of a finished launch stops: each keeps a
  state or makes it stopped. Only the end of a turn loses: it keeps a state or makes a running entry lost.
  A launch request, a failed launch and the result of a background launch leave every entry's state. An entry
  that was not there before is running, or as the same event leaves a running one.
  Closed entries carry their reason and time, running ones none; neither table exceeds its cap. Driver
  failures change nothing of this, nor do other connections that follow it too.
\<close>

theorem subagent_events_follow_state_machine:
  assumes "subagents_ok d" and "others_honour (sub_guarantee (lifecycle_event ev)) s"
  shows "subagents_ok (snd (ApplySubagentLifecycle s i g ev name p b d))
     \<and> entries_evolve (lifecycle_event ev) d (snd (ApplySubagentLifecycle s i g ev name p b d))
     \<and> subagents_ok (snd (ApplySubagentAfterWrite s i g w d))
     \<and> entries_evolve (after_event w) d (snd (ApplySubagentAfterWrite s i g w d))"
  using honours_lifecycle[OF assms(2) disjI1[OF refl]] honours_after_write[of w s i g] assms(1) unfolding honours_def sub_guarantee_def by blast

theorem subagent_events_follow_state_machine_witness:
  "subagents_ok (snd (ApplySubagentLifecycle sample_store ''a'' sample_gate sample_start ''SubagentStart'' [] False sample_tracked))"
proof -
  have "others_honour (sub_guarantee (lifecycle_event sample_start)) sample_store"
    by (simp add: others_honour_def sample_store_def subs.G_refl)
  from subagent_events_follow_state_machine[OF sample_tracked_facts(4) this] show ?thesis by blast
qed

abbreviation turn_end_write :: "SubagentTurnEnd \<Rightarrow> SubagentAfterWrite" where
  "turn_end_write te \<equiv> \<lparr>aw_LaunchRequest = None, aw_LaunchDetails = None, aw_LaunchFailure = None, aw_TurnEnd = Some te\<rparr>"

lemma turnEnd_no_work:
  assumes "SubagentTurnEndHasWork s i te d = Inr False" and "newSubagentTx s i g d = Inr (t, d)"
    and "turnEnd s t te d = Inr (u, d')"
  shows "subagents d' = subagents d \<and> subagent_launches d' = subagent_launches d \<and> spawns d' = spawns d"
proof -
  let ?now = "\<lambda>tok. \<exists>r \<in> set (spawns d). s_instance_id r = i \<and> s_launch_token r = Some tok"
  have none: "te_Snapshot te = Some sn \<Longrightarrow> cutListed (sn_Listed sn) = []" for sn
    using assms(1) by (auto simp: SubagentTurnEndHasWork_def split: if_splits)
  have launches: "l \<in> set (subagent_launches d) \<Longrightarrow> sl_instance_id l = i \<Longrightarrow> ?now (sl_launch_token l)
      \<Longrightarrow> \<not> sl_opened_at l < te_ReceivedMs te - SubagentGraceMs" for l
    using assms(1) by (auto simp: SubagentTurnEndHasWork_def Let_def split: if_splits)
  have entries: "te_Snapshot te \<noteq> None \<Longrightarrow> a \<in> set (subagents d) \<Longrightarrow> sa_instance_id a = i \<Longrightarrow> ?now (sa_launch_token a)
      \<Longrightarrow> \<not> staleBackground (te_ReceivedMs te) a" for a
    using assms(1) by (auto simp: SubagentTurnEndHasWork_def Let_def split: if_splits)
  have t: "t_instanceID t = i" "t_gate t = g" "t_tokenOK t \<Longrightarrow> ?now (t_token t)"
    using assms(2) find_spawn_Some[of d i] by (auto simp: newSubagentTx_def Let_def split: if_splits option.splits) blast
  let ?Q = "\<lambda>l. \<not> (sl_instance_id l = i \<and> sl_opened_at l < te_ReceivedMs te - SubagentGraceMs
      \<and> subagentGateBelongs d i g (sl_launch_token l))"
  have "subagentGateBelongs d i g tok \<Longrightarrow> ?now tok" for tok
    by (auto simp: subagentGateBelongs_def subagentRowGate_def)
  with launches have "filter ?Q (subagent_launches d) = subagent_launches d" by (auto simp: filter_id_conv)
  then have first: "d\<lparr>subagent_launches := filter ?Q (subagent_launches d)\<rparr> = d" by simp
  have stale: "filter (\<lambda>a. sa_instance_id a = i \<and> sa_launch_token a = t_token t \<and> staleBackground (te_ReceivedMs te) a
      \<and> sa_subagent_id a \<notin> set []) (subagents d) = []" if "t_tokenOK t" "te_Snapshot te \<noteq> None"
    using entries[OF that(2)] t(3)[OF that(1)] by (auto simp: filter_empty_conv)
  have "d' = d"
  proof (cases "te_Snapshot te")
    case None
    with assms(3) first t show ?thesis by (auto simp: turnEnd_def tx_bind_Inr tx_exec_Inr tx_return_def)
  next
    case (Some sn)
    with assms(3) first t none[OF Some] stale show ?thesis
      by (auto simp: turnEnd_def tx_bind_Inr tx_exec_Inr tx_return_def closeAbsent_def readUnlistedCandidates_def split: if_splits)
  qed
  then show ?thesis by simp
qed

text \<open>
  The skip of a turn end is sound: when the plain read finds no work, the transaction it saves
  would have left every entry and every claimable launch as it is, whatever the driver does.
\<close>

theorem turn_end_skip_is_sound:
  assumes "SubagentTurnEndHasWork s i te d = Inr False"
  shows "subagents (snd (ApplySubagentAfterWrite s i g (turn_end_write te) d)) = subagents d
     \<and> subagent_launches (snd (ApplySubagentAfterWrite s i g (turn_end_write te) d)) = subagent_launches d"
proof -
  have one: "writesSet (turn_end_write te) = 1" by (simp add: writesSet_def)
  obtain x d' where e: "inImmediateTx s i (afterWriteTx s i g (turn_end_write te)) d = (x, d')" by force
  have "subagents d' = subagents d \<and> subagent_launches d' = subagent_launches d"
  proof (cases x)
    case (Inl a)
    with e show ?thesis by (auto dest: inImmediateTx_Inl)
  next
    case (Inr u)
    with e obtain d1 where d1: "afterWriteTx s i g (turn_end_write te) d = Inr (u, d1)" "d' = finish_tx s i d1"
      by (auto dest: inImmediateTx_Inr)
    from d1(1) obtain t d0 where t0: "newSubagentTx s i g d = Inr (t, d0)" and r0: "turnEnd s t te d0 = Inr (u, d1)"
      unfolding afterWriteTx_def tx_bind_Inr by auto
    have "d0 = d" using t0 by (auto simp: newSubagentTx_def Let_def split: if_splits)
    with t0 r0 have t: "newSubagentTx s i g d = Inr (t, d)" "turnEnd s t te d = Inr (u, d1)" by simp_all
    from turnEnd_no_work[OF assms t] d1(2) show ?thesis by simp
  qed
  with e one show ?thesis by (simp add: ApplySubagentAfterWrite_def)
qed

definition sample_entry :: subagent_row where
  "sample_entry = (listedEntry 8000 ''s1'' ''explore'')\<lparr>sa_created_seq := 1, sa_instance_id := ''a'', sa_subagent_id := ''x1'',
     sa_launch_token := ''0123456789abcdef'', sa_life_number := 1\<rparr>"

theorem turn_end_skip_is_sound_witness:
  "subagents (snd (ApplySubagentAfterWrite sample_store ''a'' sample_gate
      (turn_end_write \<lparr>te_ReceivedMs = 9000, te_Snapshot = Some \<lparr>sn_SessionID = ''s1'', sn_Listed = []\<rparr>\<rparr>)
      (sample_tracked\<lparr>subagents := [sample_entry]\<rparr>))) = [sample_entry]"
proof -
  have "SubagentTurnEndHasWork sample_store ''a'' \<lparr>te_ReceivedMs = 9000, te_Snapshot = Some \<lparr>sn_SessionID = ''s1'', sn_Listed = []\<rparr>\<rparr>
      (sample_tracked\<lparr>subagents := [sample_entry]\<rparr>) = Inr False"
    by (simp add: SubagentTurnEndHasWork_def sample_store_def sample_tracked_def sample_db_def Let_def cutListed_def staleBackground_def
        sample_entry_def listedEntry_def rankedType_def split: prod.splits)
  from turn_end_skip_is_sound[OF this] show ?thesis by simp
qed

section \<open>The cut of a payload string\<close>

lemma cutPoint_spec:
  "(cutPoint x n = 0 \<or> RuneStart (x ! cutPoint x n)) \<and> (\<forall>m. cutPoint x n < m \<longrightarrow> m \<le> n \<longrightarrow> \<not> RuneStart (x ! m))"
  by (induction n) (auto simp: le_Suc_eq)

text \<open>
  The cut keeps a short string whole and shortens a longer one to its longest prefix of at most
  1024 bytes that ends between two characters (where the next byte starts one, or at the beginning),
  so cutting again changes nothing and a long value matches what was stored from it.
\<close>

theorem cut_is_longest_whole_prefix:
  "length (CutSubagentString x) \<le> 1024 \<and> (\<exists>y. x = CutSubagentString x @ y)
   \<and> CutSubagentString (CutSubagentString x) = CutSubagentString x
   \<and> (CutSubagentString x = x \<or>
        (CutSubagentString x = [] \<or> RuneStart (x ! length (CutSubagentString x)))
        \<and> filter (\<lambda>m. RuneStart (x ! m)) [Suc (length (CutSubagentString x))..<1025] = [])"
proof (cases "length x \<le> SubagentStringMaxBytes")
  case True
  then show ?thesis by (simp add: CutSubagentString_def)
next
  case False
  let ?n = "cutPoint x SubagentStringMaxBytes"
  have le: "?n \<le> SubagentStringMaxBytes" by (rule cutPoint_le)
  have c: "CutSubagentString x = take ?n x" using False by (simp add: CutSubagentString_def del: cutPoint.simps)
  have len: "length (CutSubagentString x) = ?n" using le False unfolding c by simp
  have spec: "?n = 0 \<or> RuneStart (x ! ?n)" "\<And>m. ?n < m \<Longrightarrow> m \<le> SubagentStringMaxBytes \<Longrightarrow> \<not> RuneStart (x ! m)"
    using cutPoint_spec[of x SubagentStringMaxBytes] by blast+
  have "\<exists>y. x = CutSubagentString x @ y" unfolding c by (metis append_take_drop_id)
  moreover have "CutSubagentString (CutSubagentString x) = CutSubagentString x"
    using short_cut[of x] by (simp add: short_def CutSubagentString_def[of "CutSubagentString x"])
  moreover have "CutSubagentString x = [] \<or> RuneStart (x ! length (CutSubagentString x))"
    using spec(1) unfolding len by (auto simp: c)
  moreover have "filter (\<lambda>m. RuneStart (x ! m)) [Suc (length (CutSubagentString x))..<1025] = []"
    using spec(2) unfolding len by (auto simp: filter_empty_conv)
  ultimately show ?thesis using le len by simp
qed

end
