(* ===== verification/Store_Runs.thy ===== *)
theory Store_Runs
  imports Cursor_Laws Claude_Capacity Subagent_Events
begin

text \<open>
  The runs of the store: one step is one call of any process, and along every run, whatever other
  connections do between two statements of a call, the finality guarantee of the requests and the
  guarantee of the subagent records hold.
\<close>

section \<open>The calls of the store\<close>

text \<open>
  One call of the store, by any process, or the passage of time. Calls of one run follow each
  other; what other connections do between two statements of a call is the handle's
  \<open>others\<close>.
\<close>

inductive store_step :: "store \<Rightarrow> db \<Rightarrow> db \<Rightarrow> bool" for s :: store where
  hook_transition: "soft \<or> IsLiveState v \<or> v = StateEnded \<Longrightarrow> store_step s d (snd (ApplyHookTransitionResult s i g v soft ev p b d))"
| end_report: "store_step s d (snd (ApplyHookEndReport s i g ev p b d))"
| idle_notification: "store_step s d (snd (ApplyHookWaitingIfWorking s i g ev p b d))"
| session_start: "store_step s d (snd (RecordSessionStartIdentity s i g p b d))"
| codex_turn_end: "store_step s d (snd (EndCodexTurn s t d))"
| relay_insert: "store_step s d (snd (InsertRelayRequest s i g req cap d))"
| relay_ack: "store_step s d (snd (AckRelayDecision s i tok at c d))"
| relay_timeout: "store_step s d (snd (DenyRelayTimeout s i tok at c d))"
| decide: "store_step s d (snd (DecideRelayRequest s i tok v reason w cutoff d))"
| refused: "store_step s d (snd (RecordRefusedDecision s i tok v at gone d))"
| hook_gone: "store_step s d (snd (RecordHookGone s at ids d))"
| fallbacks: "store_step s d (snd (RecordPermissionFallbacks s T at obs d))"
| pane_intent: "store_step s d (snd (RecordPaneIntent s i tok v sender pc d))"
| pane_sent: "store_step s d (snd (RecordPaneSent s i tok n d))"
| pane_release: "store_step s d (snd (ReleasePaneIntent s i tok n d))"
| pane_outside: "store_step s d (snd (RecordPaneOutside s i tok claim pc d))"
| tool_ran: "store_step s d (snd (CloseToolRanRequests s i g tu at judge d))"
| prove_gone: "store_step s d (snd (ProveRequestsGone s i g x d))"
| insert_pending: "store_step s d (snd (InsertPending s sp d))"
| launch_identity: "store_step s d (snd (RecordLaunchIdentity s i v' tok x d))"
| launch_release: "store_step s d (snd (ReleaseLaunchOwner s i tok d))"
| held_launch_end: "store_step s d (snd (EndHeldLaunch s i at at' d))"
| adopt_unchanged: "store_step s d (snd (AdoptIdentityIfUnchanged s i examined x d))"
| set_parent: "store_step s d (snd (SetParentID s i parent d))"
| resume_move: "store_step s d (snd (MoveToPending s i examined at tok socket parent owner d))"
| resume_restore: "store_step s d (snd (RestoreAfterFailedResume s i v' prior d))"
| mark_missing: "store_step s d (snd (MarkMissingIfSameLife s i examined d))"
| mark_ended: "store_step s d (snd (MarkEndedIfSameLife s i examined d))"
| note_unreported: "store_step s d (snd (NoteUnreportedIfSameLife s i examined d))"
| note_set: "store_step s d (snd (SetLivenessNoteIfSameLife s i examined note d))"
| note_clear: "store_step s d (snd (ClearLivenessIfSameLife s i examined d))"
| adopt_same_life: "store_step s d (snd (AdoptIdentityIfSameLife s i examined x d))"
| repair: "store_step s d (snd (RepairCheckPermissionIfSameLife s i examined d))"
| reuse_reset: "store_step s d (snd (ResetForReuse s i examined agent fresh at d))"
| reuse_restore: "store_step s d (snd (RestoreAfterFailedReuse s i v' life at d))"
| expire_delete: "store_step s d (snd (DeleteFinishedIfSameLife s i examined d))"
| admin_delete: "store_step s d (snd (DeleteSpawn s i d))"
| subagent_event: "store_step s d (snd (ApplySubagentLifecycle s i g le ev p b d))"
| subagent_after_write: "store_step s d (snd (ApplySubagentAfterWrite s i g w d))"
| heal: "store_step s d (snd (HealJsonlPath s i sid p d))"
| capacity: "store_step s d (snd (RecordClaudeCapacity s i g cap' d))"
| cursor_register: "store_step s d (snd (RegisterCursorRuntime s row cr d))"
| cursor_session: "store_step s d (snd (SetCursorRuntimeSession s cr sid d))"
| cursor_loaded: "store_step s d (snd (BindLoadedCursorSession s row cr p until current cancelled now d))"
| cursor_gone: "store_step s d (snd (MarkCursorRuntimeGone s cr d))"
| cursor_missing: "store_step s d (snd (MarkCursorMissingIfSameLaunch s row cr d))"
| cursor_failed: "store_step s d (snd (MarkFailedCursorRuntimeMissing s row cr d))"
| cursor_insert: "store_step s d (snd (InsertCursorRequest s cr req cap until check t d))"
| cursor_ack: "store_step s d (snd (AckCursorDecision s cr tok timeout until allowUntil check now d))"
| cursor_claim: "store_step s d (snd (ClaimCursorPaneAnswer s cr tok v until check now d))"
| cursor_ran: "store_step s d (snd (ProveCursorToolRan s cr tok tool turnOpen check now d))"
| cursor_tool_failed: "store_step s d (snd (ProveCursorToolFailed s cr tok tool turnOpen check now d))"
| cursor_turn_ended: "store_step s d (snd (ProveCursorTurnEnded s cr toks until check now d))"
| cursor_rotate: "store_step s d (snd (RotateCursorSession s row g sid p until check now d))"
| audit: "store_step s d (emit e d)"
| clock: "store_step s d (d\<lparr>sql_now_ms := a, sql_now_text := b', go_now_ms := c'\<rparr>)"

interpretation final_entries: entry_invariant "store_guarantee d0" moves_allowed
proof unfold_locales
  fix d d' assume e: "entries_only d d'" and g: "store_guarantee d0 d"
  show "store_guarantee d0 d'"
    using store_guarantee_frame[OF _ _ _ _ g, of d'] e held_entries.J_entries[OF e] rows_entries.J_entries[OF e]
    by (simp add: entries_only_def)
qed

lemma honours_subagent_calls:
  assumes "others_honour store_guarantee s"
  shows "honours store_guarantee (ApplySubagentLifecycle s i g le ev p b)" "honours store_guarantee (ApplySubagentAfterWrite s i g w)"
  using rely_guarantee[OF assms]
  by (auto intro!: honours_from_keeps final_entries.keeps_ApplySubagentLifecycle final_entries.keeps_ApplySubagentAfterWrite)

context life_invariant
begin

lemma keeps_RecordClaudeCapacity: "keeps J (RecordClaudeCapacity s i g cap)"
  unfolding RecordClaudeCapacity_def
  by (intro keeps_if keeps_return keeps_dbExec J_guarded) (simp_all add: A_same capacitySet_def)

lemma keeps_HealJsonlPath: "keeps J (HealJsonlPath s i sid p)"
  unfolding HealJsonlPath_def
  by (intro keeps_bind keeps_if keeps_return keeps_emit_call keeps_dbExec J_guarded) (simp_all add: A_same)

end

lemmas final_cursor = cursor_final.keeps_bindings cursor_final.keeps_BindLoadedCursorSession cursor_final.keeps_cursor_marks
  cursor_final.keeps_InsertCursorRequest cursor_final.keeps_AckCursorDecision cursor_final.keeps_ClaimCursorPaneAnswer
  cursor_final.keeps_cursor_proofs cursor_final.keeps_RotateCursorSession lives.keeps_HealJsonlPath
  lives.keeps_RecordClaudeCapacity

lemma step_guarantee:
  assumes "store_step s d d'" and "others_honour store_guarantee s"
  shows "store_guarantee d d'"
  using assms(1)
proof cases
  case (hook_transition soft v i g ev p b)
  then show ?thesis using honours_hook_writes(1)[OF assms(2)] by (simp add: honours_def)
next
  case (clock a b' c')
  then show ?thesis
    by (simp add: store_guarantee_def store_ok_def requests_ok_def rows_ok_def held_not_working_def noRequestHoldsRow_def evolves_def)
      (blast intro: final_step_refl)
next
  case (audit e)
  then show ?thesis using store.G_emit by blast
qed (use honours_hook_writes(2-5)[OF assms(2)] honours_life_writes[OF assms(2)] honours_subagent_calls[OF assms(2)] store_requests.honours_InsertRelayRequest[OF assms(2)] store_requests.honours_AckRelayDecision
      store_requests.honours_DenyRelayTimeout store_requests.honours_DecideRelayRequest store_requests.honours_RecordRefusedDecision store_requests.honours_RecordHookGone store_requests.honours_RecordPermissionFallbacks
      store_requests.honours_RecordPaneIntent store_requests.honours_RecordPaneSent store_requests.honours_ReleasePaneIntent store_requests.honours_RecordPaneOutside
      store_requests.honours_CloseToolRanRequests[OF assms(2)] store_requests.honours_ProveRequestsGone[OF assms(2)]
      in \<open>simp_all add: honours_def\<close>,
    (rule keepsD[OF _ store.G_refl], rule final_cursor)+)

lemma run_guarantee:
  assumes "(store_step s)\<^sup>*\<^sup>* d d'" and "others_honour store_guarantee s"
  shows "store_guarantee d d'"
  using assms(1) by (induction rule: rtranclp_induct) (auto intro: store.G_refl store.G_trans step_guarantee[OF _ assms(2)])

lemma sub_relay: "tx_honours (sub_guarantee k) (relayTx s i g req cap)"
  unfolding tx_honours_def
proof (intro allI impI)
  fix d x d' assume run: "relayTx s i g req cap d = Inr (x, d')"
  obtain prior d1 r1 elig d2 where
    u: "gatedHookUpdate i g (relayStateSet s) (rq_TranscriptPath req) (rq_TranscriptPresent req) no_cond d = (True, d1)"
    and d2: "d2 = d1\<lparr>permission_requests := permission_requests d1 @ [relay_request d1 i req elig r1], next_request_id := next_request_id d1 + 1\<rparr>"
    and rest: "tx_bind (evictClosedRequests s cap) (\<lambda>_.
              tx_bind (refreshFamiliesAfterStateChange s prior StateCheckPermission ([] :: unit list)) (\<lambda>_.
              tx_return (prior, next_request_id d2 - 1))) d2 = Inr (x, d')"
    using relayTx_Inr[OF run] by blast
  have "sub_guarantee k d d1" using u gatedHookUpdate_tables[of i g "relayStateSet s" "rq_TranscriptPath req" "rq_TranscriptPresent req" no_cond d]
    by (intro sub_guarantee_frame(2)) simp_all
  then have g2: "sub_guarantee k d d2" by (simp add: d2 sub_frames)
  have "tx_honours (sub_guarantee k) (evictClosedRequests s cap)"
    by (auto simp: tx_honours_def evictClosedRequests_def tx_exec_Inr sub_frames subs.G_refl split: if_splits)
  moreover have "tx_honours (sub_guarantee k) (refreshFamiliesAfterStateChange s prior StateCheckPermission ([] :: unit list))"
    by (auto simp: tx_honours_def refreshFamiliesAfterStateChange_def refreshFamilies_def tx_exec_Inr tx_return_def Let_def sub_frames subs.G_refl
        split: if_splits)
  ultimately have "tx_honours (sub_guarantee k) (tx_bind (evictClosedRequests s cap) (\<lambda>_.
              tx_bind (refreshFamiliesAfterStateChange s prior StateCheckPermission ([] :: unit list)) (\<lambda>_.
              tx_return (prior, next_request_id d2 - 1))))"
    by (intro sub_steps)
  with rest have "sub_guarantee k d2 d'" unfolding tx_honours_def by blast
  with g2 show "sub_guarantee k d d'" by (rule subs.G_trans)
qed

interpretation sub_requests: request_guarantee "sub_guarantee EntryAny"
  by unfold_locales (simp add: sub_frames subs.G_refl, rule sub_relay)

interpretation sub_cursor: cursor_invariant "sub_guarantee EntryAny d0" "\<lambda>_ _ _. True"
  by unfold_locales (rule sub_guarantee_frame(1), simp_all add: sub_frames)

lemmas sub_cursor_calls = sub_cursor.keeps_bindings sub_cursor.keeps_BindLoadedCursorSession sub_cursor.keeps_cursor_marks
  sub_cursor.keeps_InsertCursorRequest sub_cursor.keeps_AckCursorDecision sub_cursor.keeps_ClaimCursorPaneAnswer
  sub_cursor.keeps_cursor_proofs sub_cursor.keeps_RotateCursorSession sub_lives.keeps_HealJsonlPath
  sub_lives.keeps_RecordClaudeCapacity

lemma sub_from_keeps: "(\<And>d0. keeps (sub_guarantee EntryAny d0) m) \<Longrightarrow> honours (sub_guarantee EntryAny) m"
  by (auto simp: honours_def keeps_def subs.G_refl)

lemma sub_rely: "others_honour (sub_guarantee EntryAny) s \<Longrightarrow> rely (sub_guarantee EntryAny d0) s"
  by (auto simp: rely_def others_honour_def intro: subs.G_trans)

lemma sub_hook_writes:
  assumes "others_honour (sub_guarantee EntryAny) s"
  shows "soft \<or> IsLiveState v \<or> v = StateEnded \<Longrightarrow> honours (sub_guarantee EntryAny) (ApplyHookTransitionResult s i g v soft ev p b)"
    and "honours (sub_guarantee EntryAny) (ApplyHookEndReport s i g ev p b)"
    and "honours (sub_guarantee EntryAny) (ApplyHookWaitingIfWorking s i g ev p b)"
    and "honours (sub_guarantee EntryAny) (RecordSessionStartIdentity s i g p b)"
    and "honours (sub_guarantee EntryAny) (EndCodexTurn s t)"
  using sub_rely[OF assms]
  by (auto intro!: sub_from_keeps sub_lives.keeps_ApplyHookTransitionResult sub_lives.keeps_ApplyHookEndReport
      sub_lives.keeps_ApplyHookWaitingIfWorking sub_lives.keeps_RecordSessionStartIdentity sub_lives.keeps_EndCodexTurn)

lemma step_entries:
  assumes "store_step s d d'" and "others_honour (sub_guarantee EntryAny) s"
  shows "sub_guarantee EntryAny d d'"
  using assms(1)
proof cases
  case (hook_transition soft v i g ev p b)
  then show ?thesis using sub_hook_writes(1)[OF assms(2)] by (simp add: honours_def)
next
  case (subagent_event i g le ev p b)
  then show ?thesis using honours_lifecycle[OF assms(2) disjI2[OF refl]] by (simp add: honours_def)
next
  case (subagent_after_write i g w)
  then show ?thesis using honours_after_write[of w s i g] by (auto simp: honours_def intro: sub_guarantee_weaken)
next
  case (clock a b' c')
  then show ?thesis by (intro sub_guarantee_frame(2)) simp_all
next
  case (audit e)
  then show ?thesis using subs.G_emit by blast
qed (use sub_hook_writes(2-5)[OF assms(2)] sub_requests.honours_InsertRelayRequest[OF assms(2)] sub_requests.honours_AckRelayDecision
      sub_requests.honours_DenyRelayTimeout sub_requests.honours_DecideRelayRequest sub_requests.honours_RecordRefusedDecision
      sub_requests.honours_RecordHookGone sub_requests.honours_RecordPermissionFallbacks sub_requests.honours_RecordPaneIntent sub_requests.honours_RecordPaneSent
      sub_requests.honours_ReleasePaneIntent sub_requests.honours_RecordPaneOutside
      sub_requests.honours_CloseToolRanRequests[OF assms(2)] sub_requests.honours_ProveRequestsGone[OF assms(2)]
      in \<open>simp_all add: honours_def\<close>,
    (rule keepsD[OF _ subs.G_refl], rule sub_lives.keeps_InsertPending sub_lives.keeps_RecordLaunchIdentity sub_lives.keeps_ReleaseLaunchOwner
      sub_lives.keeps_EndHeldLaunch sub_lives.keeps_AdoptIdentityIfUnchanged sub_lives.keeps_SetParentID sub_lives.keeps_MoveToPending
      sub_lives.keeps_RestoreAfterFailedResume sub_lives.keeps_marks sub_lives.keeps_notes sub_lives.keeps_AdoptIdentityIfSameLife
      sub_lives.keeps_RepairCheckPermissionIfSameLife sub_lives.keeps_ResetForReuse sub_lives.keeps_RestoreAfterFailedReuse sub_lives.keeps_deletes sub_cursor_calls,
      (rule sub_rely[OF assms(2)])?)+)

end
