(* ===== verification/Payloads.thy ===== *)
theory Payloads
  imports Subagents Go_Text
begin

text \<open>
  The payload of a hook and what the hook process reads from it (internal/hook: io.go, classify.go,
  subagent.go, envelope.go). A payload is the parse tree of its JSON text; a member keeps the bytes
  of its value beside the tree, as \<open>json.RawMessage\<close> does. Reading a tree into a struct is
  \<open>encoding/json\<close>'s: a key names a field exactly or up to case, a later member overrides an earlier
  one, null changes nothing, and a value of another type is an error that does not stop the rest.
\<close>

section \<open>Values\<close>

datatype json =
    JNull
  | JBool bool
  | JNumber string
  | JString string
  | JArray "json list"
  | JObject "(string \<times> string \<times> json) list"

text \<open>What stdin held: no bytes, bytes that are no JSON text, or a value.\<close>

datatype payload_text = NoBytes | Malformed | Document json

text \<open>
  Names are compared folded: ASCII letters in upper case, and the two characters outside ASCII that
  fold to an ASCII letter, long s (C5 BF) and the Kelvin sign (E2 84 AA).
\<close>

definition upperASCII :: "char \<Rightarrow> char" where
  "upperASCII c = (if 97 \<le> (of_char c :: nat) \<and> (of_char c :: nat) \<le> 122 then char_of ((of_char c :: nat) - 32) else c)"

function foldName :: "string \<Rightarrow> string" where
  "foldName [] = []"
| "foldName (c # cs) =
     (if take 2 (c # cs) = [CHR 0xC5, CHR 0xBF] then CHR ''S'' # foldName (drop 1 cs)
      else if take 3 (c # cs) = [CHR 0xE2, CHR 0x84, CHR 0xAA] then CHR ''K'' # foldName (drop 2 cs)
      else upperASCII c # foldName cs)"
  by pat_completeness auto
termination by (relation "measure length") auto

definition namesField :: "string \<Rightarrow> string \<Rightarrow> bool" where
  "namesField field key \<longleftrightarrow> key = field \<or> foldName key = foldName field"

definition members :: "json \<Rightarrow> (string \<times> string \<times> json) list" where
  "members v = (case v of JObject ms \<Rightarrow> ms | _ \<Rightarrow> [])"

text \<open>A string field: its value and whether some member of it had another type.\<close>

definition decodeString :: "json \<Rightarrow> string \<times> bool \<Rightarrow> string \<times> bool" where
  "decodeString v acc = (case v of JString x \<Rightarrow> (x, snd acc) | JNull \<Rightarrow> acc | _ \<Rightarrow> (fst acc, True))"

definition stringField :: "json \<Rightarrow> string \<Rightarrow> string \<times> bool" where
  "stringField v field = fold (\<lambda>(k, _, x) acc. if namesField field k then decodeString x acc else acc) (members v) ([], False)"

text \<open>A \<open>json.RawMessage\<close> field: the bytes and the value of its last member.\<close>

definition rawField :: "json \<Rightarrow> string \<Rightarrow> (string \<times> json) option" where
  "rawField v field = fold (\<lambda>(k, b, x) acc. if namesField field k then Some (b, x) else acc) (members v) None"

text \<open>Only an object, or null, reads into a struct.\<close>

definition isStruct :: "json \<Rightarrow> bool" where
  "isStruct v = (case v of JNull \<Rightarrow> True | JObject _ \<Rightarrow> True | _ \<Rightarrow> False)"

section \<open>Strings\<close>

text \<open>\<open>base[:i]\<close> at the last dot, when that is not the first character.\<close>

definition cutExtension :: "string \<Rightarrow> string" where
  "cutExtension b =
     (let n = length b - length (afterLast (CHR ''.'') b)
      in if CHR ''.'' \<in> set b \<and> n > 1 then take (n - 1) b else b)"

definition extractSessionID :: "string \<Rightarrow> string" where
  "extractSessionID transcriptPath =
     (if transcriptPath = [] then []
      else let base = filepath_Base transcriptPath
           in if base = ''/'' \<or> base = ''.'' \<or> base = [] then []
              else let b = cutExtension base in if b = ''.'' \<or> b = ''..'' then [] else b)"

section \<open>The instance id\<close>

datatype hook_error = ErrInstanceIDMissing | ErrInstanceIDInvalid string | ErrInvalidAgent string | ErrUnmarshal

abbreviation "envInstanceID \<equiv> ''AGENT_DIRECTOR_INSTANCE_ID''"

definition ResolveInstanceID :: "(string \<Rightarrow> string) \<Rightarrow> hook_error + string" where
  "ResolveInstanceID env =
     (let v = strings_TrimSpace (env envInstanceID)
      in if v = [] then Inl ErrInstanceIDMissing
         else if list_ex (\<lambda>c. c = CHR ''/'' \<or> c = CHR 0x5C \<or> c = CHR 0x00) v then Inl (ErrInstanceIDInvalid ''contains path separator or NUL'')
         else if list_ex (\<lambda>c. (of_char c :: nat) < 32 \<or> c = CHR 0x7F) v then Inl (ErrInstanceIDInvalid ''contains control byte'')
         else Inr v)"

section \<open>Classification\<close>

abbreviation "ToolAskUserQuestion \<equiv> ''AskUserQuestion''"
abbreviation "NotificationTypeIdlePrompt \<equiv> ''idle_prompt''"
abbreviation "EventNamePreToolUse \<equiv> ''PreToolUse''"
abbreviation "EventNamePostToolUse \<equiv> ''PostToolUse''"
abbreviation "EventNamePostToolUseFailure \<equiv> ''PostToolUseFailure''"
abbreviation "EventNameStop \<equiv> ''Stop''"
abbreviation "EventNameInterrupt \<equiv> ''Interrupt''"
abbreviation "EventNameSubagentStart \<equiv> ''SubagentStart''"
abbreviation "EventNameSubagentStop \<equiv> ''SubagentStop''"
abbreviation "EventNamePermissionRequest \<equiv> ''PermissionRequest''"
abbreviation "ToolAgent \<equiv> ''Agent''"

definition terminalSessionEndReasons :: "string list" where
  "terminalSessionEndReasons = [''logout'', ''prompt_input_exit'', ''exit'']"

record payload =
  pl_Source :: string
  pl_Origin :: string
  pl_HookEventName :: string
  pl_EventName :: string
  pl_ToolName :: string
  pl_Reason :: string
  pl_Matcher :: string
  pl_EndReason :: string
  pl_TranscriptPath :: string
  pl_AgentID :: string
  pl_NotificationType :: string
  pl_ToolUseID :: string
  pl_SessionID :: string
  pl_TurnID :: string

definition payloadFields :: "string list" where
  "payloadFields = [''source'', ''origin'', ''hook_event_name'', ''event_name'', ''tool_name'', ''reason'', ''matcher'', ''endReason'',
     ''transcript_path'', ''agent_id'', ''notification_type'', ''tool_use_id'', ''session_id'', ''turn_id'']"

definition payloadOf :: "json \<Rightarrow> payload" where
  "payloadOf v = (let f = (\<lambda>n. fst (stringField v n)) in
     \<lparr>pl_Source = f ''source'', pl_Origin = f ''origin'', pl_HookEventName = f ''hook_event_name'', pl_EventName = f ''event_name'',
      pl_ToolName = f ''tool_name'', pl_Reason = f ''reason'', pl_Matcher = f ''matcher'', pl_EndReason = f ''endReason'',
      pl_TranscriptPath = f ''transcript_path'', pl_AgentID = f ''agent_id'', pl_NotificationType = f ''notification_type'',
      pl_ToolUseID = f ''tool_use_id'', pl_SessionID = f ''session_id'', pl_TurnID = f ''turn_id''\<rparr>)"

definition payloadFails :: "json \<Rightarrow> bool" where
  "payloadFails v \<longleftrightarrow> \<not> isStruct v \<or> list_ex (\<lambda>n. snd (stringField v n)) payloadFields"

definition sessionEndCause :: "payload \<Rightarrow> string" where
  "sessionEndCause p = (if pl_Reason p \<noteq> [] then pl_Reason p else if pl_Matcher p \<noteq> [] then pl_Matcher p else pl_EndReason p)"

definition eventName :: "payload \<Rightarrow> string" where
  "eventName p = (if pl_HookEventName p \<noteq> [] then pl_HookEventName p else pl_EventName p)"

definition ResolveAgent :: "string \<Rightarrow> hook_error + string" where
  "ResolveAgent raw = (if raw = [] \<or> raw = AgentClaude then Inr AgentClaude
     else if raw = AgentCodex then Inr AgentCodex else if raw = AgentCursor then Inr AgentCursor else Inl (ErrInvalidAgent raw))"

record ClassifyResult =
  cl_Agent :: string
  cl_SubagentCapture :: bool
  cl_EndReport :: bool
  cl_HealsTranscript :: bool
  cl_CodexStartup :: bool
  cl_EventName :: string
  cl_NewState :: string
  cl_SoftRefresh :: bool
  cl_WaitingIfWorking :: bool
  cl_SessionID :: string
  cl_TranscriptPath :: string
  cl_UnknownEvent :: bool
  cl_ToolName :: string
  cl_AgentID :: string
  cl_ToolUseID :: string
  cl_MainThread :: bool
  cl_TurnID :: string

definition zeroResult :: ClassifyResult where
  "zeroResult = \<lparr>cl_Agent = [], cl_SubagentCapture = False, cl_EndReport = False, cl_HealsTranscript = False, cl_CodexStartup = False,
     cl_EventName = [], cl_NewState = [], cl_SoftRefresh = False, cl_WaitingIfWorking = False, cl_SessionID = [], cl_TranscriptPath = [],
     cl_UnknownEvent = False, cl_ToolName = [], cl_AgentID = [], cl_ToolUseID = [], cl_MainThread = False, cl_TurnID = []\<rparr>"

definition ToolRan :: "ClassifyResult \<Rightarrow> bool" where
  "ToolRan r \<longleftrightarrow> cl_Agent r = AgentClaude \<and> cl_ToolUseID r \<noteq> []
     \<and> (cl_EventName r = EventNamePostToolUse \<or> cl_EventName r = EventNamePostToolUseFailure)"

definition TurnEnded :: "ClassifyResult \<Rightarrow> bool" where
  "TurnEnded r \<longleftrightarrow>
     (if cl_Agent r = AgentCursor \<and> cl_UnknownEvent r then False
      else if cl_AgentID r \<noteq> [] then False
      else cl_EventName r = EventNameStop \<or> cl_WaitingIfWorking r
           \<or> (cl_Agent r = AgentCodex \<or> cl_Agent r = AgentCursor) \<and> cl_EventName r = EventNameInterrupt)"

definition SubagentLifecycle :: "ClassifyResult \<Rightarrow> bool" where
  "SubagentLifecycle r \<longleftrightarrow> cl_AgentID r \<noteq> [] \<and> (cl_EventName r = ''SessionStart'' \<or> cl_EventName r = ''SessionEnd'')"

definition PeekEventName :: "payload_text \<Rightarrow> string" where
  "PeekEventName raw = (case raw of Document v \<Rightarrow> if payloadFails v then [] else eventName (payloadOf v) | _ \<Rightarrow> [])"

definition classifyClaude :: "payload \<Rightarrow> ClassifyResult" where
  "classifyClaude p =
     (let ev = eventName p;
          res = zeroResult\<lparr>cl_Agent := AgentClaude, cl_SubagentCapture := True, cl_EventName := ev, cl_ToolName := pl_ToolName p,
                  cl_SessionID := extractSessionID (pl_TranscriptPath p), cl_TranscriptPath := pl_TranscriptPath p,
                  cl_AgentID := pl_AgentID p, cl_ToolUseID := pl_ToolUseID p\<rparr>
      in if ev = ''SessionStart'' then res\<lparr>cl_NewState := StateWaiting\<rparr>
         else if ev = ''UserPromptSubmit'' then res\<lparr>cl_NewState := StateWorking\<rparr>
         else if ev = EventNamePreToolUse then
           res\<lparr>cl_NewState := (if pl_ToolName p = ToolAskUserQuestion then StateAskUser else StateWorking)\<rparr>
         else if ev = EventNamePostToolUse \<or> ev = EventNamePostToolUseFailure then res\<lparr>cl_NewState := StateWorking\<rparr>
         else if ev = EventNameStop then res\<lparr>cl_NewState := StateWaiting\<rparr>
         else if ev = ''Notification'' then
           res\<lparr>cl_SoftRefresh := True,
               cl_WaitingIfWorking := (pl_NotificationType p = NotificationTypeIdlePrompt \<and> pl_AgentID p = [])\<rparr>
         else if ev = ''PermissionRequest'' then res\<lparr>cl_NewState := StateCheckPermission\<rparr>
         else if ev = EventNameSubagentStart \<or> ev = EventNameSubagentStop then res\<lparr>cl_SoftRefresh := True\<rparr>
         else if ev = ''SessionEnd'' then
           (if sessionEndCause p \<in> set terminalSessionEndReasons then res\<lparr>cl_NewState := StateEnded\<rparr> else res\<lparr>cl_SoftRefresh := True\<rparr>)
         else res\<lparr>cl_SoftRefresh := True, cl_UnknownEvent := True\<rparr>)"

abbreviation MaxCodexTurnBytes :: nat where "MaxCodexTurnBytes \<equiv> 256"

definition classifyCodex :: "payload \<Rightarrow> ClassifyResult" where
  "classifyCodex p =
     (let ev = eventName p;
          sid = (if pl_AgentID p \<noteq> [] then [] else pl_SessionID p);
          main = (sid \<noteq> [] \<and> strings_Contains (filepath_Base (pl_TranscriptPath p)) sid);
          res = zeroResult\<lparr>cl_Agent := AgentCodex, cl_EventName := ev, cl_ToolName := pl_ToolName p, cl_SessionID := sid,
                  cl_TranscriptPath := pl_TranscriptPath p, cl_AgentID := pl_AgentID p, cl_ToolUseID := pl_ToolUseID p,
                  cl_HealsTranscript := (pl_AgentID p = []),
                  cl_CodexStartup := (pl_AgentID p = [] \<and> ev = ''SessionStart'' \<and> pl_Source p = ''startup''),
                  cl_MainThread := main,
                  cl_TurnID := (if main \<and> length (pl_TurnID p) \<le> MaxCodexTurnBytes then pl_TurnID p else [])\<rparr>
      in if ev = ''SessionStart'' \<or> ev = EventNameStop then res\<lparr>cl_NewState := StateWaiting\<rparr>
         else if ev = ''UserPromptSubmit'' \<or> ev = EventNamePreToolUse \<or> ev = EventNamePostToolUse then res\<lparr>cl_NewState := StateWorking\<rparr>
         else if ev = EventNameInterrupt then
           (if pl_AgentID p = [] then res\<lparr>cl_NewState := StateWaiting\<rparr> else res\<lparr>cl_SoftRefresh := True\<rparr>)
         else if ev = ''PermissionRequest'' then res\<lparr>cl_NewState := StateCheckPermission\<rparr>
         else if ev = ''SessionEnd'' then res\<lparr>cl_SoftRefresh := True, cl_EndReport := (pl_AgentID p = [])\<rparr>
         else if ev = ''Notification'' \<or> ev = EventNamePostToolUseFailure \<or> ev = EventNameSubagentStart \<or> ev = EventNameSubagentStop
         then res\<lparr>cl_SoftRefresh := True\<rparr>
         else res\<lparr>cl_SoftRefresh := True, cl_UnknownEvent := True\<rparr>)"

definition classifyCursor :: "payload \<Rightarrow> ClassifyResult" where
  "classifyCursor p =
     (let ev = eventName p;
          r = zeroResult\<lparr>cl_Agent := AgentCursor, cl_EventName := ev, cl_SessionID := pl_SessionID p,
                cl_TranscriptPath := pl_TranscriptPath p, cl_AgentID := pl_AgentID p\<rparr>
      in if pl_AgentID p \<noteq> [] \<or> pl_Origin p \<noteq> ''main''
         then r\<lparr>cl_UnknownEvent := True, cl_SessionID := [], cl_TranscriptPath := [], cl_SoftRefresh := True\<rparr>
         else if ev = ''SessionStart'' \<or> ev = ''Stop'' \<or> ev = ''Interrupt'' then r\<lparr>cl_NewState := StateWaiting\<rparr>
         else if ev = ''UserPromptSubmit'' then r\<lparr>cl_NewState := StateWorking\<rparr>
         else if ev = ''SessionEnd'' then
           (if pl_Reason p = ''prompt_input_exit'' then r\<lparr>cl_NewState := StateEnded\<rparr> else r\<lparr>cl_SoftRefresh := True\<rparr>)
         else r\<lparr>cl_SoftRefresh := True, cl_UnknownEvent := True\<rparr>)"

definition ClassifyEvent :: "string \<Rightarrow> payload_text \<Rightarrow> hook_error + ClassifyResult" where
  "ClassifyEvent rawAgent raw = (case ResolveAgent rawAgent of
     Inl e \<Rightarrow> Inl e
   | Inr agent \<Rightarrow> (case raw of
         NoBytes \<Rightarrow> Inr (zeroResult\<lparr>cl_Agent := agent, cl_SubagentCapture := (agent = AgentClaude), cl_SoftRefresh := True\<rparr>)
       | Malformed \<Rightarrow> Inl ErrUnmarshal
       | Document v \<Rightarrow>
           if payloadFails v then Inl ErrUnmarshal
           else let p = payloadOf v
                in Inr (if agent = AgentCursor then classifyCursor p else if agent = AgentCodex then classifyCodex p else classifyClaude p)))"

section \<open>Subagent events of a payload\<close>

abbreviation "launchStatusAsync \<equiv> ''async_launched''"
abbreviation "launchStatusCompleted \<equiv> ''completed''"
abbreviation "backgroundTaskSubagent \<equiv> ''subagent''"
abbreviation "backgroundTaskRunning \<equiv> ''running''"

text \<open>\<open>rawObject\<close> reads into a map, so its keys are exact; a later member overrides an earlier one.\<close>

definition documentValue :: "payload_text \<Rightarrow> json option" where
  "documentValue raw = (case raw of Document v \<Rightarrow> Some v | _ \<Rightarrow> None)"

definition rawObject :: "json option \<Rightarrow> (string \<rightharpoonup> json)" where
  "rawObject v = (case v of None \<Rightarrow> (\<lambda>_. None) | Some x \<Rightarrow> fold (\<lambda>(k, _, y) m. m(k \<mapsto> y)) (members x) (\<lambda>_. None))"

definition rawString :: "json option \<Rightarrow> string" where
  "rawString v = (case v of Some (JString x) \<Rightarrow> x | _ \<Rightarrow> [])"

definition rawBool :: "json option \<Rightarrow> bool" where
  "rawBool v = (case v of Some (JBool b) \<Rightarrow> b | _ \<Rightarrow> False)"

record subagentFields =
  sf_SessionID :: string
  sf_AgentType :: string
  sf_StopHookActive :: bool
  sf_InputType :: string
  sf_InputDescription :: string
  sf_InputNamed :: bool
  sf_ResponseAgentID :: string
  sf_ResponseStatus :: string
  sf_ResponseModel :: string
  sf_ResponseAgentType :: string

definition readSubagentFields :: "payload_text \<Rightarrow> subagentFields" where
  "readSubagentFields raw =
     (let top = rawObject (documentValue raw); inp = rawObject (top ''tool_input''); resp = rawObject (top ''tool_response'');
          status = rawString (resp ''status'')
      in \<lparr>sf_SessionID = rawString (top ''session_id''), sf_AgentType = rawString (top ''agent_type''),
          sf_StopHookActive = rawBool (top ''stop_hook_active''), sf_InputType = rawString (inp ''subagent_type''),
          sf_InputDescription = rawString (inp ''description''), sf_InputNamed = (rawString (inp ''name'') \<noteq> []),
          sf_ResponseAgentID = rawString (resp ''agentId''), sf_ResponseStatus = status,
          sf_ResponseModel = rawString (resp ''resolvedModel''),
          sf_ResponseAgentType = (if status = launchStatusCompleted then rawString (resp ''agentType'') else [])\<rparr>)"

definition listedTask :: "json \<Rightarrow> SubagentListed option" where
  "listedTask el =
     (let fld = (\<lambda>n. rawString (map_option snd (rawField el n)))
      in if isStruct el \<and> fld ''type'' = backgroundTaskSubagent \<and> fld ''status'' = backgroundTaskRunning \<and> fld ''id'' \<noteq> []
         then Some \<lparr>ls_ID = fld ''id'', ls_Type = fld ''agent_type''\<rparr> else None)"

definition readBackgroundTasks :: "payload_text \<Rightarrow> SubagentListed list option" where
  "readBackgroundTasks raw = (case rawObject (documentValue raw) ''background_tasks'' of
     Some (JArray els) \<Rightarrow> Some (List.map_filter listedTask els) | _ \<Rightarrow> None)"

definition isSubagentLifecycle :: "ClassifyResult \<Rightarrow> bool" where
  "isSubagentLifecycle res \<longleftrightarrow> cl_SubagentCapture res
     \<and> (cl_EventName res = EventNameSubagentStart \<or> cl_EventName res = EventNameSubagentStop)"

definition subagentLifecycleEvent :: "ClassifyResult \<Rightarrow> payload_text \<Rightarrow> int \<Rightarrow> SubagentLifecycleEvent" where
  "subagentLifecycleEvent res raw receivedMs =
     (let ev = \<lparr>le_Kind = [], le_SubagentID = [], le_SessionID = [], le_Type = [], le_SupersedesBlockedStop = False,
                le_Listing = [], le_ReceivedMs = receivedMs\<rparr>;
          f = readSubagentFields raw
      in if cl_AgentID res = [] then ev
         else if cl_EventName res = EventNameSubagentStart
         then ev\<lparr>le_SubagentID := cl_AgentID res, le_Kind := SubagentLifecycleStart, le_SessionID := sf_SessionID f, le_Type := sf_AgentType f\<rparr>
         else ev\<lparr>le_SubagentID := cl_AgentID res, le_Kind := SubagentLifecycleStop, le_SupersedesBlockedStop := sf_StopHookActive f,
                 le_Listing := coalesce (readBackgroundTasks raw) []\<rparr>)"

definition isAgentToolHook :: "ClassifyResult \<Rightarrow> bool" where
  "isAgentToolHook res \<longleftrightarrow> cl_SubagentCapture res \<and> cl_ToolName res = ToolAgent
     \<and> cl_EventName res \<in> {EventNamePreToolUse, EventNamePostToolUse, EventNamePostToolUseFailure}"

definition isMainAgentStop :: "ClassifyResult \<Rightarrow> bool" where
  "isMainAgentStop res \<longleftrightarrow> cl_SubagentCapture res \<and> cl_EventName res = EventNameStop \<and> cl_AgentID res = []"

definition noAfterWrite :: SubagentAfterWrite where
  "noAfterWrite = \<lparr>aw_LaunchRequest = None, aw_LaunchDetails = None, aw_LaunchFailure = None, aw_TurnEnd = None\<rparr>"

definition launchOutcome :: "string \<Rightarrow> string" where
  "launchOutcome status = (if status = launchStatusAsync then SubagentLaunchBackgroundStarted
     else if status = launchStatusCompleted then SubagentLaunchForegroundFinished else [])"

definition subagentAfterWrite :: "ClassifyResult \<Rightarrow> payload_text \<Rightarrow> int \<Rightarrow> SubagentAfterWrite option" where
  "subagentAfterWrite res raw receivedMs =
     (let f = readSubagentFields raw
      in if isMainAgentStop res
         then Some (noAfterWrite\<lparr>aw_TurnEnd := Some \<lparr>te_ReceivedMs = receivedMs,
                te_Snapshot = map_option (\<lambda>ls. \<lparr>sn_SessionID = sf_SessionID f, sn_Listed = ls\<rparr>) (readBackgroundTasks raw)\<rparr>\<rparr>)
         else if \<not> isAgentToolHook res then None
         else if cl_EventName res = EventNamePreToolUse
         then (if cl_ToolUseID res = [] \<or> sf_InputType f = [] \<or> sf_InputNamed f then None
               else Some (noAfterWrite\<lparr>aw_LaunchRequest := Some \<lparr>lr_ToolUseID = cl_ToolUseID res, lr_Type = sf_InputType f,
                      lr_ReceivedMs = receivedMs\<rparr>\<rparr>))
         else if cl_EventName res = EventNamePostToolUseFailure
         then (if cl_ToolUseID res = [] then None
               else Some (noAfterWrite\<lparr>aw_LaunchFailure := Some \<lparr>lf_ToolUseID = cl_ToolUseID res\<rparr>\<rparr>))
         else if cl_ToolUseID res = [] \<and> sf_ResponseAgentID f = [] then None
         else Some (noAfterWrite\<lparr>aw_LaunchDetails := Some \<lparr>ld_ToolUseID = cl_ToolUseID res, ld_SubagentID = sf_ResponseAgentID f,
                ld_LauncherID = cl_AgentID res, ld_SessionID = sf_SessionID f,
                ld_Type = (if sf_InputType f = [] then sf_ResponseAgentType f else sf_InputType f),
                ld_Description = sf_InputDescription f, ld_Model = sf_ResponseModel f,
                ld_Outcome = launchOutcome (sf_ResponseStatus f), ld_ReceivedMs = receivedMs\<rparr>\<rparr>))"

section \<open>The decision envelope\<close>

text \<open>
  \<open>json.Marshal\<close>'s string: the length of the valid UTF-8 sequence a string starts with (0 when it
  starts with none), the escapes of ASCII, of the line separators, and of invalid bytes.
\<close>

definition byteIn :: "nat \<Rightarrow> nat \<Rightarrow> string \<Rightarrow> nat \<Rightarrow> bool" where
  "byteIn lo hi s i \<longleftrightarrow> i < length s \<and> lo \<le> of_char (s ! i) \<and> of_char (s ! i) \<le> hi"

definition runeLength :: "string \<Rightarrow> nat" where
  "runeLength s =
     (let cont = byteIn 128 191 s; lead = (\<lambda>lo hi. byteIn lo hi s 0)
      in if lead 0 127 then 1
         else if lead 194 223 \<and> cont 1 then 2
         else if (lead 224 224 \<and> byteIn 160 191 s 1 \<or> lead 237 237 \<and> byteIn 128 159 s 1
                  \<or> (lead 225 236 \<or> lead 238 239) \<and> cont 1) \<and> cont 2 then 3
         else if (lead 240 240 \<and> byteIn 144 191 s 1 \<or> lead 244 244 \<and> byteIn 128 143 s 1 \<or> lead 241 243 \<and> cont 1)
                 \<and> cont 2 \<and> cont 3 then 4
         else 0)"

definition hexDigit :: "nat \<Rightarrow> char" where
  "hexDigit n = ''0123456789abcdef'' ! n"

definition escapeASCII :: "char \<Rightarrow> string" where
  "escapeASCII c =
     (if c = CHR 0x22 \<or> c = CHR 0x5C then [CHR 0x5C, c]
      else if c = CHR 0x08 then [CHR 0x5C, CHR ''b'']
      else if c = CHR 0x0C then [CHR 0x5C, CHR ''f'']
      else if c = CHR 0x0A then [CHR 0x5C, CHR ''n'']
      else if c = CHR 0x0D then [CHR 0x5C, CHR ''r'']
      else if c = CHR 0x09 then [CHR 0x5C, CHR ''t'']
      else if (of_char c :: nat) < 32 \<or> c = CHR ''<'' \<or> c = CHR ''>'' \<or> c = CHR ''&''
      then CHR 0x5C # ''u00'' @ [hexDigit (of_char c div 16), hexDigit (of_char c mod 16)]
      else [c])"

function escapeJSON :: "string \<Rightarrow> string" where
  "escapeJSON [] = []"
| "escapeJSON (c # cs) =
     (let n = runeLength (c # cs)
      in if n = 0 then CHR 0x5C # ''ufffd'' @ escapeJSON cs
         else if n = 1 then escapeASCII c @ escapeJSON cs
         else if take n (c # cs) = [CHR 0xE2, CHR 0x80, CHR 0xA8] then CHR 0x5C # ''u2028'' @ escapeJSON (drop (n - 1) cs)
         else if take n (c # cs) = [CHR 0xE2, CHR 0x80, CHR 0xA9] then CHR 0x5C # ''u2029'' @ escapeJSON (drop (n - 1) cs)
         else take n (c # cs) @ escapeJSON (drop (n - 1) cs))"
  by pat_completeness auto
termination by (relation "measure length") auto

definition quoteJSON :: "string \<Rightarrow> string" where
  "quoteJSON s = CHR 0x22 # escapeJSON s @ [CHR 0x22]"

definition decisionMessage :: "string \<Rightarrow> string \<Rightarrow> string" where
  "decisionMessage behavior reason = (if behavior = ''deny'' \<and> reason = [] then ''Denied by orchestrator'' else reason)"

definition EncodeDecision :: "string \<Rightarrow> string \<Rightarrow> string \<Rightarrow> string" where
  "EncodeDecision evName behavior reason =
     (let msg = decisionMessage behavior reason
      in ''{'' @ quoteJSON ''hookSpecificOutput'' @ '':{'' @ quoteJSON ''decision'' @ '':{'' @ quoteJSON ''behavior'' @ '':'' @ quoteJSON behavior
         @ (if msg = [] then [] else '','' @ quoteJSON ''message'' @ '':'' @ quoteJSON msg)
         @ ''},'' @ quoteJSON ''hookEventName'' @ '':'' @ quoteJSON evName @ ''}}'')"

section \<open>Reading an envelope back\<close>

text \<open>
  A reader of JSON strings, as the agent's: the value of a quoted string and what follows it, with
  every escape of RFC 8259 but surrogate pairs, which the writer never makes.
\<close>

definition hexValue :: "char \<Rightarrow> nat option" where
  "hexValue c = (let n = of_char c :: nat in
     if 48 \<le> n \<and> n \<le> 57 then Some (n - 48) else if 97 \<le> n \<and> n \<le> 102 then Some (n - 87)
     else if 65 \<le> n \<and> n \<le> 70 then Some (n - 55) else None)"

definition utf8 :: "nat \<Rightarrow> string" where
  "utf8 n = (if n < 128 then [char_of n]
     else if n < 2048 then [char_of (192 + n div 64), char_of (128 + n mod 64)]
     else [char_of (224 + n div 4096), char_of (128 + n div 64 mod 64), char_of (128 + n mod 64)])"

definition simpleEscape :: "char \<Rightarrow> char option" where
  "simpleEscape c = (if c = CHR 0x22 \<or> c = CHR 0x5C \<or> c = CHR ''/'' then Some c
     else if c = CHR ''b'' then Some (CHR 0x08) else if c = CHR ''f'' then Some (CHR 0x0C)
     else if c = CHR ''n'' then Some (CHR 0x0A) else if c = CHR ''r'' then Some (CHR 0x0D)
     else if c = CHR ''t'' then Some (CHR 0x09) else None)"

fun unescape :: "string \<Rightarrow> (string \<times> string) option" where
  "unescape [] = None"
| "unescape (c # cs) =
     (if c = CHR 0x22 then Some ([], cs)
      else if c = CHR 0x5C then (case cs of
          CHR ''u'' # a # b # x # y # rest \<Rightarrow> (case (hexValue a, hexValue b, hexValue x, hexValue y) of
              (Some n1, Some n2, Some n3, Some n4) \<Rightarrow>
                map_option (\<lambda>(v, r). (utf8 (((n1 * 16 + n2) * 16 + n3) * 16 + n4) @ v, r)) (unescape rest)
            | _ \<Rightarrow> None)
        | e # rest \<Rightarrow> (case simpleEscape e of None \<Rightarrow> None | Some k \<Rightarrow> map_option (\<lambda>(v, r). (k # v, r)) (unescape rest))
        | [] \<Rightarrow> None)
      else if (of_char c :: nat) < 32 then None
      else map_option (\<lambda>(v, r). (c # v, r)) (unescape cs))"

definition unquoteJSON :: "string \<Rightarrow> (string \<times> string) option" where
  "unquoteJSON s = (case s of c # cs \<Rightarrow> if c = CHR 0x22 then unescape cs else None | [] \<Rightarrow> None)"

function validUTF8 :: "string \<Rightarrow> bool" where
  "validUTF8 [] = True"
| "validUTF8 (c # cs) = (let n = runeLength (c # cs) in n > 0 \<and> validUTF8 (drop (n - 1) cs))"
  by pat_completeness auto
termination by (relation "measure length") auto

lemma hexDigit_value: "n < 16 \<Longrightarrow> hexValue (hexDigit n) = Some n"
proof -
  have "\<forall>n \<in> {..<16}. hexValue (hexDigit n) = Some n"
    by (simp add: lessThan_nat_numeral lessThan_Suc hexDigit_def hexValue_def)
  then show "n < 16 \<Longrightarrow> hexValue (hexDigit n) = Some n" by simp
qed

lemma unescape_control:
  assumes "(of_char c :: nat) < 128"
  shows "unescape (CHR 0x5C # ''u00'' @ [hexDigit (of_char c div 16), hexDigit (of_char c mod 16)] @ s)
       = map_option (\<lambda>(v, r). (c # v, r)) (unescape s)"
proof -
  have "hexValue (hexDigit (of_char c div 16)) = Some (of_char c div 16)" "hexValue (hexDigit (of_char c mod 16)) = Some (of_char c mod 16)"
    using assms by (simp_all add: hexDigit_value)
  moreover have "hexValue (CHR ''0'') = Some 0" by (simp add: hexValue_def)
  moreover have "of_char c div 16 * 16 + of_char c mod 16 = (of_char c :: nat)" by simp
  ultimately show ?thesis using assms by (simp add: utf8_def)
qed

lemma unescape_ASCII:
  assumes "(of_char c :: nat) < 128"
  shows "unescape (escapeASCII c @ s) = map_option (\<lambda>(v, r). (c # v, r)) (unescape s)"
proof (cases "(of_char c :: nat) < 32 \<or> c = CHR ''<'' \<or> c = CHR ''>'' \<or> c = CHR ''&''")
  case True
  then show ?thesis
    using unescape_control[OF assms, of s]
    by (auto simp: escapeASCII_def simpleEscape_def)
next
  case False
  then show ?thesis by (auto simp: escapeASCII_def simpleEscape_def)
qed

lemma unescape_pass:
  "list_all (\<lambda>c. (of_char c :: nat) \<ge> 128) bs \<Longrightarrow> unescape (bs @ s) = map_option (\<lambda>(v, r). (bs @ v, r)) (unescape s)"
proof (induction bs)
  case (Cons c bs)
  then have "c \<noteq> CHR 0x22" "c \<noteq> CHR 0x5C" "\<not> (of_char c :: nat) < 32" by auto
  with Cons show ?case by (simp add: option.map_comp comp_def split_beta)
qed (simp add: option.map_id)

definition high :: "string \<Rightarrow> nat \<Rightarrow> bool" where
  "high s i \<longleftrightarrow> i < length s \<and> (of_char (s ! i) :: nat) \<ge> 128"

lemma byteIn_high: "byteIn lo hi s i \<Longrightarrow> 128 \<le> lo \<Longrightarrow> high s i"
  by (auto simp: byteIn_def high_def)

lemma runeLength_cases:
  assumes "runeLength s = n" and "n > 1"
  shows "n = 2 \<and> high s 0 \<and> high s 1 \<or> n = 3 \<and> high s 0 \<and> high s 1 \<and> high s 2
       \<or> n = 4 \<and> high s 0 \<and> high s 1 \<and> high s 2 \<and> high s 3"
  using assms unfolding runeLength_def Let_def
  by (simp split: if_splits) (auto dest: byteIn_high)

lemma runeLength_multi:
  assumes "runeLength s = n" and "n > 1"
  shows "n \<le> length s" "list_all (\<lambda>x. (of_char x :: nat) \<ge> 128) (take n s)"
proof -
  have "\<forall>i<n. high s i" using runeLength_cases[OF assms] by (auto simp: less_Suc_eq numeral_eq_Suc)
  then show "n \<le> length s" "list_all (\<lambda>x. (of_char x :: nat) \<ge> 128) (take n s)"
    by (auto simp: high_def list_all_length not_less[symmetric])
qed

lemma runeLength_one: "runeLength (c # cs) = 1 \<Longrightarrow> (of_char c :: nat) < 128"
  by (auto simp: runeLength_def byteIn_def Let_def split: if_splits)

lemma unescape_line_separators:
  "unescape (CHR 0x5C # ''u2028'' @ s) = map_option (\<lambda>(v, r). ([CHR 0xE2, CHR 0x80, CHR 0xA8] @ v, r)) (unescape s)"
  "unescape (CHR 0x5C # ''u2029'' @ s) = map_option (\<lambda>(v, r). ([CHR 0xE2, CHR 0x80, CHR 0xA9] @ v, r)) (unescape s)"
  by (simp_all add: hexValue_def utf8_def char_of_def bit_iff_odd)

lemma unescape_escape: "validUTF8 s \<Longrightarrow> unescape (escapeJSON s @ CHR 0x22 # rest) = Some (s, rest)"
proof (induction s rule: escapeJSON.induct)
  case (2 c cs)
  define n where "n = runeLength (c # cs)"
  from 2(6) have valid: "n > 0" "validUTF8 (drop (n - 1) cs)" by (simp_all add: n_def Let_def)
  consider (one) "n = 1" | (many) "n > 1" using valid by linarith
  then show ?case
  proof cases
    case one
    with valid have "unescape (escapeJSON cs @ CHR 0x22 # rest) = Some (cs, rest)" using 2(2)[OF n_def] by simp
    moreover have "(of_char c :: nat) < 128" using one by (intro runeLength_one[of c cs]) (simp add: n_def)
    ultimately show ?thesis using one by (simp add: n_def[symmetric] Let_def unescape_ASCII)
  next
    case many
    have ih: "unescape (escapeJSON (drop (n - 1) cs) @ CHR 0x22 # rest) = Some (drop (n - 1) cs, rest)"
      using 2(3-5)[OF n_def] many valid by (cases "take n (c # cs) = [CHR 0xE2, CHR 0x80, CHR 0xA8]") auto
    have whole: "take n (c # cs) @ drop (n - 1) cs = c # cs" using many by (cases n) auto
    note pass = unescape_pass[OF runeLength_multi(2)[OF n_def[symmetric] many]]
    consider (ls) "take n (c # cs) = [CHR 0xE2, CHR 0x80, CHR 0xA8]" | (ps) "take n (c # cs) = [CHR 0xE2, CHR 0x80, CHR 0xA9]"
      | (other) "take n (c # cs) \<noteq> [CHR 0xE2, CHR 0x80, CHR 0xA8]" "take n (c # cs) \<noteq> [CHR 0xE2, CHR 0x80, CHR 0xA9]" by blast
    then show ?thesis
    proof cases
      case ls
      then have "escapeJSON (c # cs) = CHR 0x5C # ''u2028'' @ escapeJSON (drop (n - 1) cs)"
        using many by (simp add: n_def[symmetric] Let_def)
      then show ?thesis using ih ls whole unescape_line_separators(1) by (simp del: unescape.simps escapeJSON.simps)
    next
      case ps
      then have "escapeJSON (c # cs) = CHR 0x5C # ''u2029'' @ escapeJSON (drop (n - 1) cs)"
        using many by (simp add: n_def[symmetric] Let_def)
      then show ?thesis using ih ps whole unescape_line_separators(2) by (simp del: unescape.simps escapeJSON.simps)
    next
      case other
      then have "escapeJSON (c # cs) = take n (c # cs) @ escapeJSON (drop (n - 1) cs)"
        using many by (simp add: n_def[symmetric] Let_def)
      then show ?thesis using ih whole by (simp add: pass del: unescape.simps escapeJSON.simps)
    qed
  qed
qed simp

definition expect :: "string \<Rightarrow> string \<Rightarrow> string option" where
  "expect lit s = (if take (length lit) s = lit then Some (drop (length lit) s) else None)"

definition envelopeHead :: string where
  "envelopeHead = ''{'' @ quoteJSON ''hookSpecificOutput'' @ '':{'' @ quoteJSON ''decision'' @ '':{'' @ quoteJSON ''behavior'' @ '':''"

definition envelopeMessage :: string where
  "envelopeMessage = '','' @ quoteJSON ''message'' @ '':''"

definition envelopeEvent :: string where
  "envelopeEvent = ''},'' @ quoteJSON ''hookEventName'' @ '':''"

text \<open>The event, the behaviour and the message of a decision envelope.\<close>

definition readEnvelope :: "string \<Rightarrow> (string \<times> string \<times> string option) option" where
  "readEnvelope line =
     Option.bind (expect envelopeHead line) (\<lambda>s1.
     Option.bind (unquoteJSON s1) (\<lambda>(behavior, s2).
     Option.bind (case expect envelopeMessage s2 of
         None \<Rightarrow> Some (None, s2)
       | Some s3 \<Rightarrow> map_option (\<lambda>(m, s4). (Some m, s4)) (unquoteJSON s3)) (\<lambda>(msg, s5).
     Option.bind (expect envelopeEvent s5) (\<lambda>s6.
     Option.bind (unquoteJSON s6) (\<lambda>(ev, s7). if s7 = ''}}'' then Some (ev, behavior, msg) else None)))))"

lemma expect_append [simp]: "expect lit (lit @ s) = Some s"
  by (simp add: expect_def)

lemma expect_no_message [simp]: "expect envelopeMessage (envelopeEvent @ s) = None"
  by (simp add: expect_def envelopeMessage_def envelopeEvent_def)

lemma EncodeDecision_parts:
  "EncodeDecision ev behavior reason = envelopeHead @ quoteJSON behavior
     @ (let msg = decisionMessage behavior reason in if msg = [] then [] else envelopeMessage @ quoteJSON msg)
     @ envelopeEvent @ quoteJSON ev @ ''}}''"
  by (simp add: EncodeDecision_def envelopeHead_def envelopeMessage_def envelopeEvent_def Let_def)

lemma unquote_quote: "validUTF8 s \<Longrightarrow> unquoteJSON (quoteJSON s @ rest) = Some (s, rest)"
  by (simp add: unquoteJSON_def quoteJSON_def unescape_escape del: unescape.simps)

text \<open>
  C31. The decision envelope says what was decided, whatever text it carries: read back, the line the
  hook writes to its agent has the event, the behaviour and the message it was built from; a deny
  always carries a message, and an allow without a reason none.
\<close>

theorem decision_envelope_reads_back:
  assumes "validUTF8 ev" and "validUTF8 behavior" and "validUTF8 reason"
  shows "readEnvelope (EncodeDecision ev behavior reason) =
    Some (ev, behavior, if behavior = ''deny'' \<and> reason = [] then Some ''Denied by orchestrator''
                        else if reason = [] then None else Some reason)"
proof -
  have msg: "validUTF8 (decisionMessage behavior reason)"
    using assms(3) by (simp add: decisionMessage_def runeLength_def byteIn_def Let_def)
  have "readEnvelope (EncodeDecision ev behavior reason) = Some (ev, behavior, nullif_empty (decisionMessage behavior reason))"
    by (simp add: readEnvelope_def EncodeDecision_parts Let_def unquote_quote assms msg nullif_empty_def)
  then show ?thesis by (simp add: decisionMessage_def nullif_empty_def)
qed

theorem decision_envelope_reads_back_witness:
  "readEnvelope (EncodeDecision EventNamePermissionRequest ''deny'' [CHR 0x22, CHR 0x0A, CHR ''<'']) =
     Some (EventNamePermissionRequest, ''deny'', Some [CHR 0x22, CHR 0x0A, CHR ''<''])"
  using decision_envelope_reads_back[of EventNamePermissionRequest "''deny''" "[CHR 0x22, CHR 0x0A, CHR ''<'']"]
  by (simp add: runeLength_def byteIn_def Let_def)

section \<open>What a classification may ask for\<close>


lemmas classify_defs = classifyClaude_def classifyCodex_def classifyCursor_def zeroResult_def Let_def

text \<open>The state a table asks for is one a hook may write, and none beside a soft refresh.\<close>

definition writableResult :: "ClassifyResult \<Rightarrow> bool" where
  "writableResult r \<longleftrightarrow>
     (if cl_SoftRefresh r then cl_NewState r = []
      else cl_NewState r \<in> {StateWaiting, StateWorking, StateAskUser, StateCheckPermission, StateEnded})"

lemma ClassifyEvent_cases:
  assumes "ClassifyEvent a raw = Inr r"
  obtains (claude) p where "r = classifyClaude p" | (codex) p where "r = classifyCodex p" | (cursor) p where "r = classifyCursor p"
    | (none) agent where "r = zeroResult\<lparr>cl_Agent := agent, cl_SubagentCapture := (agent = AgentClaude), cl_SoftRefresh := True\<rparr>"
  using assms unfolding ClassifyEvent_def by (auto split: sum.splits payload_text.splits if_splits simp: Let_def)

text \<open>What every result of a table satisfies; \<open>soundResult\<close> is checked once per table.\<close>

definition soundResult :: "ClassifyResult \<Rightarrow> bool" where
  "soundResult r \<longleftrightarrow> writableResult r
     \<and> (cl_UnknownEvent r \<or> cl_WaitingIfWorking r \<or> cl_EndReport r \<longrightarrow> cl_SoftRefresh r)
     \<and> (cl_WaitingIfWorking r \<or> cl_SubagentCapture r \<longrightarrow> cl_Agent r = AgentClaude)
     \<and> (cl_EndReport r \<or> cl_MainThread r \<or> cl_HealsTranscript r \<longrightarrow> cl_Agent r = AgentCodex \<and> cl_AgentID r = [])
     \<and> (cl_NewState r = StateEnded \<longrightarrow> cl_EventName r = ''SessionEnd'' \<and> cl_Agent r \<noteq> AgentCodex)
     \<and> (cl_NewState r = StateAskUser
          \<longrightarrow> cl_Agent r = AgentClaude \<and> cl_EventName r = EventNamePreToolUse \<and> cl_ToolName r = ToolAskUserQuestion)
     \<and> (cl_Agent r \<noteq> AgentClaude \<and> cl_AgentID r \<noteq> [] \<longrightarrow> cl_SessionID r = [])"

lemmas result_defs = soundResult_def writableResult_def zeroResult_def

lemma sound_if: "(c \<Longrightarrow> soundResult a) \<Longrightarrow> (\<not> c \<Longrightarrow> soundResult b) \<Longrightarrow> soundResult (if c then a else b)"
  and sound_else: "(c \<Longrightarrow> soundResult a) \<Longrightarrow> soundResult b \<Longrightarrow> soundResult (if c then a else b)"
  by simp_all

lemma claude_sound: "soundResult (classifyClaude p)"
  unfolding classifyClaude_def Let_def
  by (intro sound_else) (simp_all add: result_defs)

lemma codex_sound: "soundResult (classifyCodex p)"
  unfolding classifyCodex_def Let_def
  by (intro sound_else) (simp_all add: result_defs)

lemma cursor_sound: "soundResult (classifyCursor p)"
  unfolding classifyCursor_def Let_def
  by (intro sound_if) (simp_all add: result_defs)

lemma classified_sound: "ClassifyEvent a raw = Inr r \<Longrightarrow> soundResult r"
  by (erule ClassifyEvent_cases) (simp_all only: claude_sound codex_sound cursor_sound, simp add: result_defs)

lemma classified_agent [simp]:
  "cl_Agent (classifyClaude p) = AgentClaude" "cl_Agent (classifyCodex p) = AgentCodex" "cl_Agent (classifyCursor p) = AgentCursor"
  by (simp_all add: classify_defs)

lemma classified_tool_ran:
  assumes "ClassifyEvent a raw = Inr r" and "ToolRan r"
  shows "cl_NewState r = StateWorking"
  using assms
proof (cases rule: ClassifyEvent_cases)
  case (claude p)
  moreover have "cl_EventName (classifyClaude p) = eventName p" by (simp add: classifyClaude_def Let_def)
  ultimately have "eventName p = EventNamePostToolUse \<or> eventName p = EventNamePostToolUseFailure"
    using assms(2) by (simp add: ToolRan_def)
  then show ?thesis using claude by (auto simp: classifyClaude_def Let_def)
qed (simp_all add: ToolRan_def, simp add: zeroResult_def)

lemma soundD:
  assumes "soundResult r"
  shows "writableResult r" and "cl_UnknownEvent r \<or> cl_WaitingIfWorking r \<or> cl_EndReport r \<longrightarrow> cl_SoftRefresh r"
    and "cl_NewState r = StateEnded \<longrightarrow> cl_EventName r = ''SessionEnd'' \<and> cl_Agent r \<noteq> AgentCodex"
    and "cl_NewState r = StateAskUser
          \<longrightarrow> cl_Agent r = AgentClaude \<and> cl_EventName r = EventNamePreToolUse \<and> cl_ToolName r = ToolAskUserQuestion"
  by (insert assms[unfolded soundResult_def], (elim conjE, assumption)+)

text \<open>What each table asks for, read by what it asks for instead of by event.\<close>

definition heard :: "string \<Rightarrow> payload \<Rightarrow> bool" where
  "heard agent p \<longleftrightarrow> agent \<noteq> AgentCursor \<or> pl_AgentID p = [] \<and> pl_Origin p = ''main''"

definition asksWaiting :: "string \<Rightarrow> payload \<Rightarrow> bool" where
  "asksWaiting agent p \<longleftrightarrow> heard agent p
     \<and> (eventName p \<in> {''SessionStart'', ''Stop''} \<or> eventName p = ''Interrupt'' \<and> pl_AgentID p = [] \<and> agent \<noteq> AgentClaude)"

definition asksWorking :: "string \<Rightarrow> payload \<Rightarrow> bool" where
  "asksWorking agent p \<longleftrightarrow> heard agent p
     \<and> (eventName p = ''UserPromptSubmit''
        \<or> agent \<noteq> AgentCursor \<and> eventName p = ''PostToolUse''
        \<or> agent \<noteq> AgentCursor \<and> eventName p = ''PreToolUse'' \<and> \<not> (agent = AgentClaude \<and> pl_ToolName p = ''AskUserQuestion'')
        \<or> agent = AgentClaude \<and> eventName p = ''PostToolUseFailure'')"

definition asksUser :: "string \<Rightarrow> payload \<Rightarrow> bool" where
  "asksUser agent p \<longleftrightarrow> agent = AgentClaude \<and> eventName p = ''PreToolUse'' \<and> pl_ToolName p = ''AskUserQuestion''"

definition asksPermission :: "string \<Rightarrow> payload \<Rightarrow> bool" where
  "asksPermission agent p \<longleftrightarrow> agent \<noteq> AgentCursor \<and> eventName p = ''PermissionRequest''"

definition asksEnd :: "string \<Rightarrow> payload \<Rightarrow> bool" where
  "asksEnd agent p \<longleftrightarrow> eventName p = ''SessionEnd''
     \<and> (agent = AgentClaude \<and> sessionEndCause p \<in> {''logout'', ''prompt_input_exit'', ''exit''}
        \<or> agent = AgentCursor \<and> heard agent p \<and> pl_Reason p = ''prompt_input_exit'')"

definition idlePrompt :: "string \<Rightarrow> payload \<Rightarrow> bool" where
  "idlePrompt agent p \<longleftrightarrow> agent = AgentClaude \<and> eventName p = ''Notification'' \<and> pl_NotificationType p = ''idle_prompt'' \<and> pl_AgentID p = []"

definition endsTurn :: "string \<Rightarrow> payload \<Rightarrow> bool" where
  "endsTurn agent p \<longleftrightarrow> heard agent p \<and> pl_AgentID p = []
     \<and> (eventName p = ''Stop'' \<or> idlePrompt agent p \<or> agent \<noteq> AgentClaude \<and> eventName p = ''Interrupt'')"

definition provesTool :: "string \<Rightarrow> payload \<Rightarrow> bool" where
  "provesTool agent p \<longleftrightarrow> agent = AgentClaude \<and> eventName p \<in> {''PostToolUse'', ''PostToolUseFailure''} \<and> pl_ToolUseID p \<noteq> []"

lemmas asks_defs = heard_def asksWaiting_def asksWorking_def asksUser_def asksPermission_def asksEnd_def idlePrompt_def endsTurn_def provesTool_def

lemma known_agent: "ResolveAgent a = Inr agent \<Longrightarrow> agent \<in> {AgentClaude, AgentCodex, AgentCursor}"
  by (auto simp: ResolveAgent_def split: if_splits)

text \<open>What a classification asks for, compared with a payload of its agent.\<close>

definition matchesPayload :: "string \<Rightarrow> payload \<Rightarrow> ClassifyResult \<Rightarrow> bool" where
  "matchesPayload agent p r \<longleftrightarrow>
     (cl_NewState r = StateWaiting \<longleftrightarrow> asksWaiting agent p) \<and> (cl_NewState r = StateWorking \<longleftrightarrow> asksWorking agent p)
     \<and> (cl_NewState r = StateAskUser \<longleftrightarrow> asksUser agent p) \<and> (cl_NewState r = StateCheckPermission \<longleftrightarrow> asksPermission agent p)
     \<and> (cl_NewState r = StateEnded \<longleftrightarrow> asksEnd agent p)
     \<and> (cl_SoftRefresh r \<longleftrightarrow> \<not> asksWaiting agent p \<and> \<not> asksWorking agent p \<and> \<not> asksUser agent p \<and> \<not> asksPermission agent p \<and> \<not> asksEnd agent p)
     \<and> (cl_SoftRefresh r \<longleftrightarrow> cl_NewState r = [])
     \<and> (cl_WaitingIfWorking r \<longleftrightarrow> idlePrompt agent p)
     \<and> (cl_EndReport r \<longleftrightarrow> agent = AgentCodex \<and> eventName p = ''SessionEnd'' \<and> pl_AgentID p = [])
     \<and> (TurnEnded r \<longleftrightarrow> endsTurn agent p) \<and> (ToolRan r \<longleftrightarrow> provesTool agent p)"

lemmas matches_defs = matchesPayload_def TurnEnded_def ToolRan_def terminalSessionEndReasons_def

lemma matches_else:
  "(c \<Longrightarrow> matchesPayload g p a) \<Longrightarrow> (\<not> c \<Longrightarrow> matchesPayload g p b) \<Longrightarrow> matchesPayload g p (if c then a else b)"
  by simp

lemma claude_matches: "matchesPayload AgentClaude p (classifyClaude p)"
  unfolding classifyClaude_def Let_def
  by (intro matches_else) (simp_all add: matches_defs asks_defs zeroResult_def, auto)

lemma codex_matches: "matchesPayload AgentCodex p (classifyCodex p)"
  unfolding classifyCodex_def Let_def
  by (intro matches_else) (simp_all add: matches_defs asks_defs zeroResult_def, auto)

lemma cursor_matches: "matchesPayload AgentCursor p (classifyCursor p)"
  unfolding classifyCursor_def Let_def
  by (intro matches_else) (simp_all add: matches_defs asks_defs zeroResult_def, auto)



end
