(* ===== verification/Relay_Hook.thy ===== *)
theory Relay_Hook
  imports Store_Runs Payloads
begin

text \<open>
  The relay hook's process (internal/hook: gate.go, polling.go, permission.go): the process of one
  hook, what it knows of its parent, the report of a hook that does not apply, the polling loop and
  the relayed permission request from its first write to its answer.

  The process runs in a \<open>world\<close>: the database, the clock (nanoseconds), the cancellation of its
  context, its standard output, its parent pid and the process table. Between any two actions of the
  hook the rest of the system runs: the \<open>host\<close> says what it does then and during a sleep, which
  store handle (failures, interference inside a call) each call has, what the random source gives and
  what a call that starts in a world reads from the clock while it runs.
  \<open>w_tick\<close> counts the actions of the hook and \<open>w_emitted\<close> lists the events its own code (not the store's)
  has handed to \<open>trail.Emit\<close>; both are the process's own and no other process changes them. \<open>trail.Emit\<close>
  is fail-open: the trail of the database is the events handed to it, and whether the file took one is not modelled.
\<close>

section \<open>The process\<close>

record world =
  w_db :: db
  w_now :: int
  w_cancel :: "string option"
  w_stdout :: "string list"
  w_ppid :: int
  w_procs :: "int \<Rightarrow> string \<times> bool \<times> bool"
  w_commands :: "int \<Rightarrow> string option"
  w_parents :: "int \<Rightarrow> int option"
  w_tick :: nat
  w_emitted :: "trail_event list"

record host =
  h_store :: "nat \<Rightarrow> store"
  h_pass :: "world \<Rightarrow> world"
  h_sleep :: "int \<Rightarrow> world \<Rightarrow> world"
  h_rand :: "nat \<Rightarrow> int \<Rightarrow> int"
  h_clock :: "world \<Rightarrow> nat \<Rightarrow> int"

definition tick :: "host \<Rightarrow> world \<Rightarrow> world" where
  "tick h w = (h_pass h w)\<lparr>w_tick := Suc (w_tick w), w_emitted := w_emitted w\<rparr>"

definition clock_now :: "host \<Rightarrow> world \<Rightarrow> int \<times> world" where
  "clock_now h w = (let w1 = tick h w in (w_now w1, w1))"

definition clock_sleep :: "host \<Rightarrow> int \<Rightarrow> world \<Rightarrow> world" where
  "clock_sleep h t w = (h_sleep h t w)\<lparr>w_tick := Suc (w_tick w), w_emitted := w_emitted w\<rparr>"

definition store_read :: "host \<Rightarrow> (store \<Rightarrow> db \<Rightarrow> store_error + 'a) \<Rightarrow> world \<Rightarrow> (store_error + 'a) \<times> world" where
  "store_read h q w = (let w1 = tick h w in (q (h_store h (w_tick w1)) (w_db w1), w1))"

definition store_call :: "host \<Rightarrow> (store \<Rightarrow> world \<Rightarrow> 'a call) \<Rightarrow> world \<Rightarrow> (store_error + 'a) \<times> world" where
  "store_call h m w =
     (let w1 = tick h w in case m (h_store h (w_tick w1)) w1 (w_db w1) of (res, d) \<Rightarrow> (res, w1\<lparr>w_db := d\<rparr>))"

definition trail_Emit :: "trail_event \<Rightarrow> world \<Rightarrow> world" where
  "trail_Emit e w = w\<lparr>w_db := emit e (w_db w), w_emitted := w_emitted w @ [e]\<rparr>"

definition Fprintln :: "string \<Rightarrow> world \<Rightarrow> world" where
  "Fprintln line w = w\<lparr>w_stdout := w_stdout w @ [line]\<rparr>"

section \<open>Times\<close>

abbreviation Millisecond :: int where "Millisecond \<equiv> 1000000"
abbreviation Second :: int where "Second \<equiv> 1000000000"

text \<open>\<open>time.Time.Sub\<close> saturates at the ends of \<open>time.Duration\<close>.\<close>

definition saturated :: "int \<Rightarrow> int" where
  "saturated t = max (- (2 ^ 63)) (min (2 ^ 63 - 1) t)"

section \<open>The hook's configuration and its parent\<close>

record Relay =
  PollBaseMs :: int
  PollJitterMs :: int
  TimeoutSeconds :: int
  PermissionRequestCap :: int

abbreviation DefaultRelayTimeoutSeconds :: int where "DefaultRelayTimeoutSeconds \<equiv> 86400"

definition EffectiveTimeoutSeconds :: "Relay \<Rightarrow> int" where
  "EffectiveTimeoutSeconds r = (if TimeoutSeconds r > 0 then TimeoutSeconds r else DefaultRelayTimeoutSeconds)"

text \<open>
  The readers of the parent and the verifiers of a Cursor gateway are wired or not (nil): a wired one
  reads the world. \<open>hc_Now\<close> says whether the clock is wired: a nil one reads the same clock, but
  SessionStart then never waits. \<open>hc_statPresent\<close> is \<open>os.Stat\<close>'s answer for a path, \<open>hc_parseTime\<close> what
  \<open>time.Parse\<close> reads from an RFC 3339 text, \<open>hc_transcript\<close> the lines of a transcript file it can read and \<open>hc_mint\<close> the random token, none when the source
  fails.
\<close>

record HandleConfig =
  hc_Agent :: string
  hc_ContextSource :: string
  hc_Env :: "string \<Rightarrow> string"
  hc_Cfg :: Relay
  hc_ParentPID :: "(world \<Rightarrow> int) option"
  hc_ParentProc :: bool
  hc_VerifyCursor :: "(world \<Rightarrow> CursorRuntime \<Rightarrow> string \<Rightarrow> bool \<Rightarrow> bool) option"
  hc_VerifyCursorRotation :: "(world \<Rightarrow> CursorRuntime \<Rightarrow> string \<Rightarrow> Spawn \<Rightarrow> store_error option) option"
  hc_Now :: bool
  hc_Start :: "int option"
  hc_RelayTimeout :: int
  hc_Self :: ProcessIdentity
  hc_RelayHookGone :: "(PermissionRow \<Rightarrow> bool) option"
  hc_PendingGrace :: int
  hc_statPresent :: "world \<Rightarrow> string \<Rightarrow> bool"
  hc_parseTime :: "string \<Rightarrow> go_time option"
  hc_transcript :: "world \<Rightarrow> string \<Rightarrow> transcript option"
  hc_mint :: "string option"

record parentIdentity =
  pa_pid :: int
  pa_start :: string

definition captureParent :: "HandleConfig \<Rightarrow> world \<Rightarrow> parentIdentity" where
  "captureParent hc w =
     (let pid = (case hc_ParentPID hc of None \<Rightarrow> 0 | Some f \<Rightarrow> f w)
      in if hc_ParentProc hc \<and> pid > 0
         then (case w_procs w pid of (start, alive, _) \<Rightarrow> \<lparr>pa_pid = pid, pa_start = (if alive then start else [])\<rparr>)
         else \<lparr>pa_pid = pid, pa_start = []\<rparr>)"

section \<open>A hook that does not apply\<close>

record ignoredHook =
  ig_instanceID :: string
  ig_event :: string
  ig_sessionID :: string
  ig_parent :: parentIdentity
  ig_reason :: string
  ig_silentWithoutRow :: bool

definition optionalTS :: "string \<Rightarrow> trail_val" where
  "optionalTS x = (if x = [] then TNull else TS x)"

definition commandName :: "HandleConfig \<Rightarrow> world \<Rightarrow> int \<Rightarrow> trail_val" where
  "commandName hc w pid =
     (if \<not> hc_ParentProc hc then TNull else case w_commands w pid of None \<Rightarrow> TNull | Some n \<Rightarrow> optionalTS n)"

definition ignoredFields :: "HandleConfig \<Rightarrow> world \<Rightarrow> ignoredHook \<Rightarrow> trail_val \<Rightarrow> trail_val \<Rightarrow> (string \<times> trail_val) list" where
  "ignoredFields hc w ig rowSession rowPane =
     [(''instance_id'', optionalTS (ig_instanceID ig)), (''hook_event'', TS (ig_event ig)), (''reason'', TS (ig_reason ig)),
      (''parent_pid'', TI (pa_pid (ig_parent ig))), (''parent_command'', commandName hc w (pa_pid (ig_parent ig))),
      (''hook_session_id'', optionalTS (ig_sessionID ig)), (''row_session_id'', rowSession), (''row_pane_pid'', rowPane),
      (''source'', TS ''ad_hook'')]"

definition paneIsGrandparent :: "HandleConfig \<Rightarrow> world \<Rightarrow> ignoredHook \<Rightarrow> Spawn \<Rightarrow> bool" where
  "paneIsGrandparent hc w ig sp \<longleftrightarrow>
     ig_event ig = ''SessionStart'' \<and> ig_reason ig = HookReasonPIDMismatch \<and> sp_State sp = StatePending
     \<and> hc_ParentProc hc \<and> pa_pid (ig_parent ig) > 0 \<and> li_PanePID (sp_Identity sp) > 0
     \<and> w_parents w (pa_pid (ig_parent ig)) = Some (li_PanePID (sp_Identity sp))"

definition paneIsGrandparentAdvice :: string where
  "paneIsGrandparentAdvice = ''The parent of this agent's hooks is a child of its pane process, not the pane process itself, ''
     @ ''so agent-director ignores every hook of this agent (pid_mismatch). ''
     @ ''Either the claude on PATH is a launcher that runs Claude Code as a child instead of exec-ing it ''
     @ ''(replace it with the native claude binary or a wrapper that execs it, or name that binary in [launch] claude_path), ''
     @ ''or Claude Code ran the hook through a shell instead of in exec form; parent_command names that parent.''"

definition paneIsGrandparentAdviceCodex :: string where
  "paneIsGrandparentAdviceCodex = ''The parent of this agent's hooks is a child of its pane process, not the pane process itself, ''
     @ ''so agent-director ignores every hook of this agent (pid_mismatch). ''
     @ ''Either the codex on PATH is a launcher that runs Codex as a child instead of exec-ing it, such as the npm launcher ''
     @ ''(name the native codex program in [launch] codex_path, or use a wrapper that execs it), ''
     @ ''or Codex ran the hook through a shell instead of in exec form; parent_command names that parent.''"

definition paneIsGrandparentAdviceFor :: "string \<Rightarrow> string" where
  "paneIsGrandparentAdviceFor agent = (if agent = AgentCodex then paneIsGrandparentAdviceCodex else paneIsGrandparentAdvice)"

definition emitPaneIsGrandparent :: "HandleConfig \<Rightarrow> ignoredHook \<Rightarrow> int \<Rightarrow> string \<Rightarrow> trail_val \<Rightarrow> world \<Rightarrow> world" where
  "emitPaneIsGrandparent hc ig panePID agent parentCommand w = trail_Emit (''ad.hook.pane_is_grandparent'',
     [(''instance_id'', TS (ig_instanceID ig)), (''pane_pid'', TI panePID), (''pane_command'', commandName hc w panePID),
      (''parent_pid'', TI (pa_pid (ig_parent ig))), (''parent_command'', parentCommand),
      (''advice'', TS (paneIsGrandparentAdviceFor agent)), (''source'', TS ''ad_hook'')]) w"

definition emitIgnored :: "host \<Rightarrow> HandleConfig \<Rightarrow> ignoredHook \<Rightarrow> world \<Rightarrow> world" where
  "emitIgnored h hc ig w =
     (case store_read h (\<lambda>s. GetSpawn s (ig_instanceID ig)) w of
        (Inl e, w1) \<Rightarrow>
          if ig_silentWithoutRow ig \<and> e = ErrSpawnNotFound (ig_instanceID ig) then w1
          else trail_Emit (''ad.hook.ignored'', ignoredFields hc w1 ig TNull TNull) w1
      | (Inr sp, w1) \<Rightarrow>
          let w2 = trail_Emit (''ad.hook.ignored'', ignoredFields hc w1 ig (optionalTS (sp_SessionID sp))
                     (if li_PanePID (sp_Identity sp) > 0 then TI (li_PanePID (sp_Identity sp)) else TNull)) w1
          in if paneIsGrandparent hc w2 ig sp
             then emitPaneIsGrandparent hc ig (li_PanePID (sp_Identity sp)) (sp_Agent sp) (commandName hc w1 (pa_pid (ig_parent ig))) w2
             else w2)"

section \<open>The polling loop\<close>

abbreviation pollFloor :: int where "pollFloor \<equiv> 50 * Millisecond"
abbreviation pollMaxReadRetries :: nat where "pollMaxReadRetries \<equiv> 5"

record PollResult =
  po_Decision :: string
  po_Reason :: string
  po_Why :: string
  po_TimedOut :: bool
  po_CreatedAt :: "string option"

definition gaveUp :: "string \<Rightarrow> string option \<Rightarrow> PollResult" where
  "gaveUp why createdAt = \<lparr>po_Decision = [], po_Reason = [], po_Why = why, po_TimedOut = False, po_CreatedAt = createdAt\<rparr>"

text \<open>The sleep between two polls; \<open>time.Duration\<close> products and sums wrap at 64 bits.\<close>

definition pollSleep :: "Relay \<Rightarrow> (int \<Rightarrow> int) \<Rightarrow> int \<Rightarrow> int" where
  "pollSleep cfg Intn remaining =
     (let base = wrap64 (PollBaseMs cfg * Millisecond);
          t = (if PollJitterMs cfg > 0 then wrap64 (base + wrap64 (Intn (PollJitterMs cfg) * Millisecond)) else base)
      in min (max t pollFloor) remaining)"

text \<open>\<open>po_Why\<close> is the log line's text up to the wrapped error, whose own text is not modelled.\<close>

partial_function (option) Poll :: "host \<Rightarrow> Relay \<Rightarrow> int \<Rightarrow> string \<Rightarrow> string \<Rightarrow> nat \<Rightarrow> string option \<Rightarrow> world
    \<Rightarrow> (PollResult \<times> world) option" where
  "Poll h cfg deadline i token readFails createdAt w =
     (case w_cancel w of
        Some err \<Rightarrow> Some (gaveUp (''ctx cancelled: '' @ err) createdAt, w)
      | None \<Rightarrow> (case clock_now h w of (now, w1) \<Rightarrow>
          if \<not> now < deadline then Some ((gaveUp ''polling timeout exceeded'' createdAt)\<lparr>po_TimedOut := True\<rparr>, w1)
          else (case store_read h (\<lambda>s. GetPermissionRequest s i token) w1 of (res, w2) \<Rightarrow> (case res of
              Inl e \<Rightarrow>
                if Suc readFails > pollMaxReadRetries then Some (gaveUp ''exceeded read-retry budget: '' createdAt, w2)
                else Poll h cfg deadline i token (Suc readFails) createdAt (clock_sleep h pollFloor w2)
            | Inr found \<Rightarrow> (case found of
                None \<Rightarrow> Some (gaveUp ''row preempted (deleted) during poll'' createdAt, w2)
              | Some row \<Rightarrow>
                if Decision row \<noteq> []
                then Some (\<lparr>po_Decision = Decision row, po_Reason = DecisionReason row, po_Why = ''decided'', po_TimedOut = False,
                            po_CreatedAt = Some (CreatedAt row)\<rparr>, w2)
                else (case clock_now h w2 of (now', w3) \<Rightarrow>
                  let t = pollSleep cfg (h_rand h (w_tick w2)) (saturated (deadline - now'))
                  in Poll h cfg deadline i token 0 (Some (CreatedAt row)) (if t > 0 then clock_sleep h t w3 else w3)))))))"

section \<open>The relayed request\<close>

abbreviation "EnvRelayMode \<equiv> ''AGENT_DIRECTOR_RELAY_MODE''"
abbreviation "RelayModeOn \<equiv> ''on''"
abbreviation relayReserve :: int where "relayReserve \<equiv> 2 * Second"
abbreviation relayDenyLead :: int where "relayDenyLead \<equiv> Second"

text \<open>\<open>relayClock\<close> is its kill instant: its clock is the world's.\<close>

definition newRelayClock :: "HandleConfig \<Rightarrow> int \<Rightarrow> int" where
  "newRelayClock hc start =
     start + (if hc_RelayTimeout hc > 0 then hc_RelayTimeout hc else wrap64 (EffectiveTimeoutSeconds (hc_Cfg hc) * Second))"

definition ackBy :: "int \<Rightarrow> int" where
  "ackBy killAt = killAt - relayReserve"

definition waitLeft :: "int \<Rightarrow> int \<Rightarrow> int" where
  "waitLeft killAt now = saturated (ackBy killAt - now)"

definition pollEnd :: "int \<Rightarrow> int" where
  "pollEnd killAt = ackBy killAt - relayDenyLead"

definition relaySettledAt :: "int \<Rightarrow> int" where
  "relaySettledAt killAt = UnixMilli (killAt + relayReserve)"

record permissionPayload =
  pp_ToolName :: string
  pp_ToolInput :: string
  pp_ToolUseID :: string

text \<open>The bytes of \<open>tool_input\<close> as the payload has them, \<open>null\<close> when it has none.\<close>

definition readPermissionPayload :: "payload_text \<Rightarrow> permissionPayload" where
  "readPermissionPayload raw = (let v = (case raw of Document v \<Rightarrow> v | _ \<Rightarrow> JNull) in
     \<lparr>pp_ToolName = fst (stringField v ''tool_name''),
      pp_ToolInput = (case rawField v ''tool_input'' of None \<Rightarrow> ''null'' | Some (b, _) \<Rightarrow> if b = [] then ''null'' else b),
      pp_ToolUseID = fst (stringField v ''tool_use_id'')\<rparr>)"

record relayInput =
  in_instanceID :: string
  in_gate :: HookGate
  in_parent :: parentIdentity
  in_agentID :: string
  in_transcriptPath :: string
  in_transcriptPresent :: bool
  in_raw :: payload_text

text \<open>What the relay leaves in the fields of \<open>ad.hook.fired\<close>.\<close>

record relayFired =
  rf_request_token :: "string option"
  rf_upsert_outcome :: "UpsertOutcome option"

definition failClosedDeny :: "world \<Rightarrow> world" where
  "failClosedDeny w = Fprintln (EncodeDecision EventNamePermissionRequest ''deny'' []) w"

definition parentIsStarter :: "HandleConfig \<Rightarrow> parentIdentity \<Rightarrow> world \<Rightarrow> bool" where
  "parentIsStarter hc parent w \<longleftrightarrow>
     (case hc_ParentPID hc of None \<Rightarrow> False | Some f \<Rightarrow>
        hc_ParentProc hc \<and> pa_pid parent > 0 \<and> pa_start parent \<noteq> [] \<and> f w = pa_pid parent
        \<and> w_procs w (pa_pid parent) = (pa_start parent, True, True))"

definition errParentChanged :: store_error where
  "errParentChanged = CheckFailed ''its parent is no longer the agent that started it''"

definition parentCheck :: "HandleConfig \<Rightarrow> parentIdentity \<Rightarrow> world \<Rightarrow> store_error option" where
  "parentCheck hc parent w = (if parentIsStarter hc parent w then None else Some errParentChanged)"

definition emitResume :: "string \<Rightarrow> string \<Rightarrow> string \<Rightarrow> int \<Rightarrow> world \<Rightarrow> world" where
  "emitResume i token verdict elapsed = trail_Emit (''ad.resume.observed'',
     [(''instance_id'', TS i), (''request_token'', TS token), (''verdict'', TS verdict),
      (''elapsed_ms_from_row_open'', TI elapsed), (''source'', TS ''ad_polling'')])"

text \<open>
  \<open>elapsed\<close> is \<open>time.Since\<close> the request's \<open>created_at\<close> in milliseconds, for the hook's log only: the
  handle's parameter, since the model keeps \<open>created_at\<close> as the text SQLite stored.
\<close>

definition deliver :: "host \<Rightarrow> HandleConfig \<Rightarrow> int \<Rightarrow> parentIdentity \<Rightarrow> string \<Rightarrow> string \<Rightarrow> int \<Rightarrow> world \<Rightarrow> world" where
  "deliver h hc killAt parent i token elapsed w =
     (case clock_now h w of (now, w1) \<Rightarrow>
        if waitLeft killAt now \<le> 0 then w1
        else (case clock_now h w1 of (at, w2) \<Rightarrow>
          (case store_call h (\<lambda>s wc. AckRelayDecision s i token (UnixMilli at) (parentCheck hc parent wc)) w2 of
             (Inl e, w3) \<Rightarrow> w3
           | (Inr None, w3) \<Rightarrow> w3
           | (Inr (Some (decision, reason)), w3) \<Rightarrow>
               emitResume i token decision elapsed (Fprintln (EncodeDecision EventNamePermissionRequest decision reason) w3))))"

definition timeoutDeny :: "host \<Rightarrow> HandleConfig \<Rightarrow> int \<Rightarrow> parentIdentity \<Rightarrow> string \<Rightarrow> string \<Rightarrow> int \<Rightarrow> world \<Rightarrow> world" where
  "timeoutDeny h hc killAt parent i token elapsed w =
     (case clock_now h w of (now, w1) \<Rightarrow>
        if waitLeft killAt now \<le> 0 then w1
        else (case clock_now h w1 of (at, w2) \<Rightarrow>
          (case store_call h (\<lambda>s wc. DenyRelayTimeout s i token (UnixMilli at) (parentCheck hc parent wc)) w2 of
             (Inl e, w3) \<Rightarrow> w3
           | (Inr denied, w3) \<Rightarrow>
               if \<not> denied then deliver h hc killAt parent i token elapsed w3
               else emitResume i token ''timeout'' elapsed (Fprintln (EncodeDecision EventNamePermissionRequest ''deny'' []) w3))))"

definition relayCap :: "HandleConfig \<Rightarrow> int" where
  "relayCap hc = (if PermissionRequestCap (hc_Cfg hc) < 0 then 1000 else PermissionRequestCap (hc_Cfg hc))"

definition relayRequestOf :: "HandleConfig \<Rightarrow> int \<Rightarrow> relayInput \<Rightarrow> string \<Rightarrow> RelayRequest" where
  "relayRequestOf hc killAt inp token = (let pp = readPermissionPayload (in_raw inp) in
     \<lparr>rq_RequestToken = token, rq_ToolName = pp_ToolName pp, rq_ToolInput = pp_ToolInput pp, rq_ToolUseID = pp_ToolUseID pp,
      rq_AgentID = in_agentID inp, rq_MainTurnEndEligible = Some (in_agentID inp = []), rq_Hook = hc_Self hc,
      rq_SettledAt = relaySettledAt killAt, rq_TranscriptPath = in_transcriptPath inp,
      rq_TranscriptPresent = in_transcriptPresent inp\<rparr>)"

definition relayAttempt :: "string \<Rightarrow> string \<Rightarrow> trail_event" where
  "relayAttempt i token = (''ad.relay_attempt.completed'',
     [(''instance_id'', TS i), (''request_token'', TS token), (''target_endpoint'', TS ''db_poll''), (''outcome'', TS ''db_relay_active''),
      (''bytes_sent'', TI 0), (''bytes_received'', TI 0), (''source'', TS ''relay_hook'')])"

definition afterPoll :: "host \<Rightarrow> HandleConfig \<Rightarrow> int \<Rightarrow> parentIdentity \<Rightarrow> string \<Rightarrow> string \<Rightarrow> int \<Rightarrow> PollResult \<Rightarrow> world \<Rightarrow> world" where
  "afterPoll h hc killAt parent i token elapsed res w =
     (if po_Decision res \<noteq> [] then deliver h hc killAt parent i token elapsed w
      else if po_TimedOut res then timeoutDeny h hc killAt parent i token elapsed w
      else w)"

text \<open>From the recorded request on: the poll until its deadline, then the answer.\<close>

definition relayAnswer :: "host \<Rightarrow> HandleConfig \<Rightarrow> int \<Rightarrow> parentIdentity \<Rightarrow> string \<Rightarrow> string \<Rightarrow> int \<Rightarrow> world \<Rightarrow> world option" where
  "relayAnswer h hc killAt parent i token elapsed w =
     map_option (\<lambda>(res, w1). afterPoll h hc killAt parent i token elapsed res w1)
       (Poll h (hc_Cfg hc) (pollEnd killAt) i token 0 None w)"

definition runRelay :: "host \<Rightarrow> HandleConfig \<Rightarrow> int \<Rightarrow> relayInput \<Rightarrow> int \<Rightarrow> (string \<Rightarrow> world \<Rightarrow> world) \<Rightarrow> world
    \<Rightarrow> (relayFired \<times> world) option" where
  "runRelay h hc killAt inp elapsed onIgnored w =
     (case hc_mint hc of
        None \<Rightarrow> Some (\<lparr>rf_request_token = None, rf_upsert_outcome = None\<rparr>, failClosedDeny w)
      | Some token \<Rightarrow> (case clock_now h w of (now, w1) \<Rightarrow>
          (case store_call h (\<lambda>s _. InsertRelayRequest s (in_instanceID inp) (in_gate inp) (relayRequestOf hc killAt inp token) (relayCap hc)) w1 of
             (Inl e, w2) \<Rightarrow> Some (\<lparr>rf_request_token = Some token, rf_upsert_outcome = Some UpsertError\<rparr>, failClosedDeny w2)
           | (Inr (outcome, applied), w2) \<Rightarrow>
               let fired = \<lparr>rf_request_token = Some token, rf_upsert_outcome = Some outcome\<rparr>
               in if \<not> Applied applied
                  then Some (fired, if Reason applied \<noteq> [] then onIgnored (Reason applied) w2 else w2)
                  else map_option (Pair fired) (relayAnswer h hc killAt (in_parent inp) (in_instanceID inp) token elapsed
                         (trail_Emit (relayAttempt (in_instanceID inp) token) w2)))))"

section \<open>The poll ends\<close>

text \<open>
  What the hook relies on of its clock: it never runs back, and a sleep of \<open>t\<close> lasts at least \<open>t\<close>
  unless the context is cancelled meanwhile.
\<close>

definition clock_fair :: "host \<Rightarrow> bool" where
  "clock_fair h \<longleftrightarrow> (\<forall>w. w_now w \<le> w_now (h_pass h w))
     \<and> (\<forall>t w. 0 < t \<longrightarrow> w_now w + t \<le> w_now (h_sleep h t w) \<or> w_cancel (h_sleep h t w) \<noteq> None)"

text \<open>The polls left before a deadline, one for each started floor sleep.\<close>

definition pollsLeft :: "int \<Rightarrow> int \<Rightarrow> nat" where
  "pollsLeft deadline now = nat ((deadline - now + (pollFloor - 1)) div pollFloor)"

lemma pollsLeft_less:
  assumes "now < deadline" and "now + pollFloor \<le> now' \<or> deadline \<le> now'"
  shows "Suc (pollsLeft deadline now') \<le> pollsLeft deadline now"
proof -
  let ?f = "50000000 :: int"
  have ge: "1 \<le> (deadline - now + (?f - 1)) div ?f" using assms(1) by linarith
  have "(deadline - now' + (?f - 1)) div ?f + 1 \<le> (deadline - now + (?f - 1)) div ?f" if "now + ?f \<le> now'"
    using that by linarith
  moreover have "(deadline - now' + (?f - 1)) div ?f \<le> 0" if "deadline \<le> now'"
    using that by linarith
  ultimately show ?thesis using assms(2) ge by (auto simp: pollsLeft_def)
qed

lemma clock_now_simps [simp]:
  "w_tick (snd (clock_now h w)) = Suc (w_tick w)" "fst (clock_now h w) = w_now (snd (clock_now h w))"
  by (simp_all add: clock_now_def tick_def Let_def)

lemma tick_simps [simp]: "w_tick (tick h w) = Suc (w_tick w)" "w_tick (clock_sleep h t w) = Suc (w_tick w)"
  by (simp_all add: tick_def clock_sleep_def)

lemma tick_now: "clock_fair h \<Longrightarrow> w_now w \<le> w_now (tick h w)"
  by (simp add: tick_def clock_fair_def)

lemma sleep_now: "clock_fair h \<Longrightarrow> 0 < t \<Longrightarrow> w_now w + t \<le> w_now (clock_sleep h t w) \<or> w_cancel (clock_sleep h t w) \<noteq> None"
  by (simp add: clock_sleep_def clock_fair_def)

lemma pollSleep_cases:
  assumes "t = pollSleep cfg r (saturated (deadline - now))"
  shows "deadline \<le> now \<or> 0 < t \<and> (now + pollFloor \<le> now + t \<or> deadline \<le> now + t)"
proof -
  have "t \<ge> min pollFloor (saturated (deadline - now))" unfolding assms pollSleep_def Let_def by linarith
  moreover have "now < deadline \<Longrightarrow> saturated (deadline - now) > 0"
    "now < deadline \<Longrightarrow> saturated (deadline - now) = deadline - now \<or> saturated (deadline - now) \<ge> pollFloor"
    by (auto simp: saturated_def)
  ultimately show ?thesis by linarith
qed

definition pollWake :: "host \<Rightarrow> Relay \<Rightarrow> int \<Rightarrow> world \<Rightarrow> world" where
  "pollWake h cfg deadline w =
     (let w1 = tick h w; t = pollSleep cfg (h_rand h (w_tick w)) (saturated (deadline - w_now w1))
      in if t > 0 then clock_sleep h t w1 else w1)"

lemma Poll_late:
  assumes "w_cancel w = None" and "\<not> w_now (tick h w) < deadline"
  shows "Poll h cfg deadline i token n c w = Some ((gaveUp ''polling timeout exceeded'' c)\<lparr>po_TimedOut := True\<rparr>, tick h w)"
  using assms by (subst Poll.simps) (simp add: clock_now_def Let_def)

lemma Poll_open:
  assumes "w_cancel w = None" and "w_now (tick h w) < deadline"
  shows "Poll h cfg deadline i token n c w =
      (let w2 = tick h (tick h w) in case GetPermissionRequest (h_store h (w_tick w2)) i token (w_db w2) of
         Inl e \<Rightarrow> if Suc n > pollMaxReadRetries then Some (gaveUp ''exceeded read-retry budget: '' c, w2)
                  else Poll h cfg deadline i token (Suc n) c (clock_sleep h pollFloor w2)
       | Inr None \<Rightarrow> Some (gaveUp ''row preempted (deleted) during poll'' c, w2)
       | Inr (Some row) \<Rightarrow>
           if Decision row \<noteq> []
           then Some (\<lparr>po_Decision = Decision row, po_Reason = DecisionReason row, po_Why = ''decided'', po_TimedOut = False,
                       po_CreatedAt = Some (CreatedAt row)\<rparr>, w2)
           else Poll h cfg deadline i token 0 (Some (CreatedAt row)) (pollWake h cfg deadline w2))"
  using assms
  by (subst Poll.simps) (simp only: clock_now_def store_read_def pollWake_def Let_def prod.case option.case if_True if_False not_True_eq_False)

lemma Poll_cancelled: "w_cancel w = Some e \<Longrightarrow> Poll h cfg deadline i token n c w = Some (gaveUp (''ctx cancelled: '' @ e) c, w)"
  by (subst Poll.simps) simp

lemma pollWake_progress:
  assumes "clock_fair h"
  shows "w_cancel (pollWake h cfg deadline w) \<noteq> None \<or> w_now w + pollFloor \<le> w_now (pollWake h cfg deadline w)
      \<or> deadline \<le> w_now (pollWake h cfg deadline w)"
    and "w_tick (pollWake h cfg deadline w) \<le> w_tick w + 2"
proof -
  define t where "t = pollSleep cfg (h_rand h (w_tick w)) (saturated (deadline - w_now (tick h w)))"
  have wake: "pollWake h cfg deadline w = (if t > 0 then clock_sleep h t (tick h w) else tick h w)"
    by (simp add: pollWake_def t_def Let_def)
  show "w_cancel (pollWake h cfg deadline w) \<noteq> None \<or> w_now w + pollFloor \<le> w_now (pollWake h cfg deadline w)
      \<or> deadline \<le> w_now (pollWake h cfg deadline w)"
    using pollSleep_cases[OF t_def] sleep_now[OF assms, of t "tick h w"] tick_now[OF assms, of w]
    unfolding wake by (auto split: if_splits)
  show "w_tick (pollWake h cfg deadline w) \<le> w_tick w + 2" by (simp add: wake)
qed

lemma poll_ends:
  assumes "clock_fair h"
  shows "\<exists>res w'. Poll h cfg deadline i token readFails createdAt w = Some (res, w')
     \<and> w_tick w' \<le> w_tick w + 4 * pollsLeft deadline (w_now w) + 2"
proof (induction "pollsLeft deadline (w_now w)" arbitrary: w readFails createdAt rule: less_induct)
  case less
  note now1 = tick_now[OF assms, of w] and now2 = tick_now[OF assms, of "tick h w"]
  let ?w2 = "tick h (tick h w)"
  have again: "\<exists>res w'. Poll h cfg deadline i token n c w3 = Some (res, w')
      \<and> w_tick w' \<le> w_tick w + 4 * pollsLeft deadline (w_now w) + 2"
    if "w_now (tick h w) < deadline" "w_tick w3 \<le> w_tick w + 4"
      "w_cancel w3 \<noteq> None \<or> w_now (tick h w) + pollFloor \<le> w_now w3 \<or> deadline \<le> w_now w3" for n c w3
  proof (cases "w_cancel w3")
    case (Some e)
    moreover have "pollsLeft deadline (w_now w) \<ge> 1" using that(1) now1 pollsLeft_less[of "w_now w" deadline deadline] by linarith
    ultimately show ?thesis using that(2) by (simp add: Poll_cancelled)
  next
    case None
    then have "Suc (pollsLeft deadline (w_now w3)) \<le> pollsLeft deadline (w_now w)"
      using that now1 by (intro pollsLeft_less) auto
    moreover obtain res w' where "Poll h cfg deadline i token n c w3 = Some (res, w')"
      "w_tick w' \<le> w_tick w3 + 4 * pollsLeft deadline (w_now w3) + 2"
      using less[of w3 n c] calculation by auto
    ultimately show ?thesis using that(2) by auto
  qed
  consider (cancelled) e where "w_cancel w = Some e" | (late) "w_cancel w = None" "\<not> w_now (tick h w) < deadline"
    | (open_) "w_cancel w = None" "w_now (tick h w) < deadline" by (cases "w_cancel w") auto
  then show ?case
  proof cases
    case open_
    have "w_now (tick h w) + pollFloor \<le> w_now (clock_sleep h pollFloor ?w2) \<or> w_cancel (clock_sleep h pollFloor ?w2) \<noteq> None"
      using sleep_now[OF assms, of pollFloor ?w2] now2 by auto
    then have retry: "\<exists>res w'. Poll h cfg deadline i token (Suc readFails) createdAt (clock_sleep h pollFloor ?w2) = Some (res, w')
        \<and> w_tick w' \<le> w_tick w + 4 * pollsLeft deadline (w_now w) + 2"
      using open_ by (intro again) auto
    have wake: "\<exists>res w'. Poll h cfg deadline i token 0 c (pollWake h cfg deadline ?w2) = Some (res, w')
        \<and> w_tick w' \<le> w_tick w + 4 * pollsLeft deadline (w_now w) + 2" for c
      using pollWake_progress[OF assms, of cfg deadline ?w2] now2 by (intro again open_) auto
    show ?thesis using retry wake unfolding Poll_open[OF open_] Let_def by (simp split: sum.split option.split)
  qed (simp_all add: Poll_cancelled Poll_late)
qed

definition sample_host :: host where
  "sample_host = \<lparr>h_store = (\<lambda>_. sample_store), h_pass = (\<lambda>w. w), h_sleep = (\<lambda>t w. w\<lparr>w_now := w_now w + max 0 t\<rparr>), h_rand = (\<lambda>_ _. 0),
     h_clock = (\<lambda>w _. w_now w)\<rparr>"

definition sample_world :: world where
  "sample_world = \<lparr>w_db = sample_db, w_now = 0, w_cancel = None, w_stdout = [], w_ppid = 7, w_procs = (\<lambda>_. (''t0'', True, True)),
     w_commands = (\<lambda>_. None), w_parents = (\<lambda>_. None), w_tick = 0, w_emitted = []\<rparr>"

definition sample_relay_config :: Relay where
  "sample_relay_config = \<lparr>PollBaseMs = 100, PollJitterMs = 100, TimeoutSeconds = 60, PermissionRequestCap = 1000\<rparr>"

lemma sample_clock_fair: "clock_fair sample_host"
  by (simp add: clock_fair_def sample_host_def)

text \<open>
  C16. The poll ends: whatever the store's reads give and however the agents and the user act
  meanwhile, on a clock that does not run back and sleeps that last, the loop returns, after at most
  four actions (two clock reads, one store read, one sleep) per 50 ms left before its deadline, and
  two more; a configured interval of zero, negative or overflowing milliseconds included.
\<close>

theorem poll_returns_by_deadline:
  assumes "clock_fair h"
  shows "\<exists>res w'. Poll h cfg deadline i token readFails createdAt w = Some (res, w')
     \<and> w_tick w' \<le> w_tick w + 4 * nat ((deadline - w_now w + (pollFloor - 1)) div pollFloor) + 2"
  using poll_ends[OF assms] by (simp add: pollsLeft_def)

theorem poll_returns_by_deadline_witness:
  "\<exists>res w'. Poll sample_host sample_relay_config 200000000 ''a'' ''k'' 0 None sample_world = Some (res, w') \<and> w_tick w' \<le> 18"
  using poll_returns_by_deadline[OF sample_clock_fair, of sample_relay_config 200000000 "''a''" "''k''" 0 None sample_world]
  by (simp add: sample_world_def)

section \<open>What the rest of the system leaves alone\<close>

text \<open>
  The rest of the system commits only what the store's guarantee allows, never runs the clock back
  and does not write the hook's standard output; \<open>progress\<close> is what this gives between two moments.
\<close>

definition progress :: "world \<Rightarrow> world \<Rightarrow> bool" where
  "progress w w' \<longleftrightarrow> w_stdout w' = w_stdout w \<and> w_now w \<le> w_now w' \<and> store_guarantee (w_db w) (w_db w')"

definition host_honest :: "host \<Rightarrow> bool" where
  "host_honest h \<longleftrightarrow> (\<forall>w. progress w (h_pass h w)) \<and> (\<forall>t w. progress w (h_sleep h t w))
     \<and> (\<forall>n. others_honour store_guarantee (h_store h n))"

lemma progress_refl [intro, simp]: "progress w w"
  by (simp add: progress_def store.G_refl)

lemma progress_trans [trans]: "progress a b \<Longrightarrow> progress b c \<Longrightarrow> progress a c"
  by (auto simp: progress_def intro: store.G_trans)

lemma progress_tick: "host_honest h \<Longrightarrow> progress w (tick h w)" "host_honest h \<Longrightarrow> progress w (clock_sleep h t w)"
  by (simp_all add: host_honest_def progress_def tick_def clock_sleep_def)

lemma progress_emit: "progress w (trail_Emit e w)"
  by (simp add: progress_def trail_Emit_def emit_def store.G_trail)

lemma progress_emits: "progress w w' \<Longrightarrow> progress w (trail_Emit e w')"
  by (rule progress_trans[OF _ progress_emit])

lemma progress_clock_now: "host_honest h \<Longrightarrow> clock_now h w = (t, w') \<Longrightarrow> progress w w' \<and> t = w_now w'"
  using progress_tick(1)[of h w] by (auto simp: clock_now_def Let_def)

lemma progress_store_read: "host_honest h \<Longrightarrow> store_read h q w = (res, w') \<Longrightarrow> progress w w'"
  using progress_tick(1)[of h w] by (auto simp: store_read_def Let_def)

lemma progress_store_call:
  assumes "host_honest h" and "\<And>s w. others_honour store_guarantee s \<Longrightarrow> honours store_guarantee (m s w)"
    and "store_call h m w = (res, w')"
  shows "progress w w'"
proof -
  let ?s = "h_store h (w_tick (tick h w))"
  have "honours store_guarantee (m ?s (tick h w))" using assms(1,2) by (simp add: host_honest_def)
  then have "store_guarantee (w_db (tick h w)) (snd (m ?s (tick h w) (w_db (tick h w))))" by (simp add: honours_def)
  then have "progress (tick h w) w'"
    using assms(3) by (auto simp: store_call_def Let_def progress_def split: prod.splits)
  with progress_tick(1)[OF assms(1)] show ?thesis by (rule progress_trans)
qed

lemma progress_pollWake: "host_honest h \<Longrightarrow> progress w (pollWake h cfg deadline w)"
  unfolding pollWake_def Let_def by (auto intro: progress_trans progress_tick)

text \<open>A poll passes time, sleeps and reads: what these keep it keeps.\<close>

lemma Poll_keeps:
  assumes refl: "\<And>w. R w w" and trans: "\<And>a b c. R a b \<Longrightarrow> R b c \<Longrightarrow> R a c"
    and "\<And>w. R w (tick h w)" and "\<And>t w. R w (clock_sleep h t w)" and "Poll h cfg deadline i token n c w = Some y"
  shows "R w (snd y)"
proof -
  let ?ok = "\<lambda>h. (\<forall>w. R w (tick h w)) \<and> (\<forall>t w. R w (clock_sleep h t w))"
  have "?ok h \<longrightarrow> R w (snd y)"
  proof (rule Poll.raw_induct[where P = "\<lambda>h cfg deadline i token n c w y. ?ok h \<longrightarrow> R w (snd y)", OF _ assms(5)], goal_cases)
    case (1 F h cfg deadline i token n c w y)
    note rec = 1(1) and body = 1(2)
    show "?ok h \<longrightarrow> R w (snd y)"
    proof
      assume h: "?ok h"
      obtain now w1 where w1: "clock_now h w = (now, w1)" by fastforce
      obtain q w2 where w2: "store_read h (\<lambda>s. GetPermissionRequest s i token) w1 = (q, w2)" by fastforce
      obtain now' w3 where w3: "clock_now h w2 = (now', w3)" by fastforce
      have one: "R w w1" "R w1 w2" "R w2 w3"
        using h w1 w2 w3 by (auto simp: clock_now_def store_read_def Let_def)
      have steps: "R w w1" "R w w2" "R w w3" "R w (clock_sleep h t w2)" "R w (clock_sleep h t w3)" for t
        using one h by (meson trans)+
      have again: "R w (snd y)" if "F h cfg deadline i token m k w4 = Some y" "R w w4" for m k w4
        using rec[OF that(1)] h that(2) trans by blast
      show "R w (snd y)"
        using body w1 w2 w3 steps again refl by (auto simp: Let_def split: if_splits sum.splits option.splits)
    qed
  qed
  with assms(3,4) show ?thesis by blast
qed

lemma progress_Poll: "host_honest h \<Longrightarrow> Poll h cfg deadline i token n c w = Some y \<Longrightarrow> progress w (snd y)"
  by (rule Poll_keeps[where R = progress]) (auto intro: progress_tick progress_trans)

section \<open>The answer is the acknowledged one\<close>

text \<open>
  The request a relay hook answered: stored, delivered, without a pane answer, and with the verdict
  and the reason that were written (a timeout's deny is written without its reason).
\<close>

definition answeredAs :: "string \<Rightarrow> string \<Rightarrow> string \<Rightarrow> string \<Rightarrow> perm_row \<Rightarrow> bool" where
  "answeredAs i token decision reason p \<longleftrightarrow> the_request i token p \<and> pr_decision p = Some decision \<and> pr_delivered_at p \<noteq> None
     \<and> pr_pane_answer p = PaneAnswerNone
     \<and> (reason = coalesce (pr_decision_reason p) [] \<or> decision = ''deny'' \<and> reason = [] \<and> pr_decision_reason p = Some DecisionReasonTimeout)"

lemma UnixMilli_set: "0 \<le> t \<Longrightarrow> millisArg (UnixMilli t) = Some (UnixMilli t)"
  by (auto simp: millisArg_def UnixMilli_def zeroTime_def)

lemma ack_outcome:
  assumes "AckRelayDecision s i token at c d = (Inr (Some (decision, reason)), d')" and "millisArg at \<noteq> None"
  shows "\<exists>p \<in> set (permission_requests d'). answeredAs i token decision reason p"
proof -
  obtain p where p: "find (ackMatch i token) (permission_requests d) = Some p"
    and r: "decision = coalesce (pr_decision p) []" "reason = coalesce (pr_decision_reason p) []"
    and d': "permission_requests d' = update_where (ackMatch i token) (ackSet at) (permission_requests d)"
    using assms(1)
    by (auto simp: AckRelayDecision_def inWriteTx_def run_check_def tx_bind_def tx_exec_def update_requests_def tx_return_def ackSet_def
        split: if_splits option.splits sum.splits)
  have m: "p \<in> set (permission_requests d)" "ackMatch i token p" using p by (auto simp: find_Some_iff)
  then have "ackSet at p \<in> set (permission_requests d')" unfolding d' by (rule update_where_hit)
  moreover have "answeredAs i token decision reason (ackSet at p)"
    using m(2) assms(2) r by (auto simp: answeredAs_def ackMatch_def the_request_def ackSet_def)
  ultimately show ?thesis by blast
qed

lemma timeout_outcome:
  assumes "DenyRelayTimeout s i token at c d = (Inr True, d')" and "millisArg at \<noteq> None"
  shows "\<exists>p \<in> set (permission_requests d'). answeredAs i token ''deny'' [] p"
proof -
  obtain p where p: "find (timeoutMatch i token) (permission_requests d) = Some p"
    and d': "permission_requests d' = update_where (timeoutMatch i token) (timeoutSet d at) (permission_requests d)"
    using assms(1)
    by (auto simp: DenyRelayTimeout_def call_bind_def inWriteTx_def run_check_def tx_bind_def tx_exec_def update_requests_def
        emitDecisionCommitted_def split: if_splits option.splits sum.splits)
  have m: "p \<in> set (permission_requests d)" "timeoutMatch i token p" using p by (auto simp: find_Some_iff)
  then have "timeoutSet d at p \<in> set (permission_requests d')" unfolding d' by (rule update_where_hit)
  moreover have "answeredAs i token ''deny'' [] (timeoutSet d at p)"
    using m(2) assms(2) by (auto simp: answeredAs_def timeoutMatch_def the_request_def timeoutSet_def)
  ultimately show ?thesis by blast
qed

text \<open>What the answering phase may leave: nothing written, or one acknowledged answer.\<close>

definition wroteAnswer :: "string \<Rightarrow> string \<Rightarrow> world \<Rightarrow> world \<Rightarrow> bool" where
  "wroteAnswer i token w w' \<longleftrightarrow>
     (\<exists>decision reason. w_stdout w' = w_stdout w @ [EncodeDecision EventNamePermissionRequest decision reason]
        \<and> any_row (answeredAs i token decision reason) (permission_requests (w_db w')))"

definition answered :: "string \<Rightarrow> string \<Rightarrow> world \<Rightarrow> world \<Rightarrow> bool" where
  "answered i token w w' \<longleftrightarrow> store_guarantee (w_db w) (w_db w') \<and> wroteAnswer i token w w'"

lemma wroteAnswer_report: "wroteAnswer i token w (emitResume i' t' v e w1) = wroteAnswer i token w w1"
  by (simp add: wroteAnswer_def emitResume_def trail_Emit_def)

lemma answered_after: "progress w w1 \<Longrightarrow> answered i token w1 w2 \<Longrightarrow> answered i token w w2"
  by (auto simp: progress_def answered_def wroteAnswer_def intro: store.G_trans)

lemma answered_report: "answered i token w w1 \<Longrightarrow> answered i token w (emitResume i' t' v e w1)"
  by (simp add: answered_def wroteAnswer_report) (simp add: emitResume_def trail_Emit_def)

lemma store_call_run:
  assumes "store_call h m w = (res, w')"
  shows "m (h_store h (w_tick (tick h w))) (tick h w) (w_db (tick h w)) = (res, w_db w')" and "w_stdout w' = w_stdout (tick h w)"
  using assms by (auto simp: store_call_def Let_def split: prod.splits)

lemma deliver_outcome:
  assumes h: "host_honest h" and now: "0 \<le> w_now w"
  shows "progress w (deliver h hc killAt parent i token elapsed w) \<or> answered i token w (deliver h hc killAt parent i token elapsed w)"
proof -
  obtain n1 w1 where w1: "clock_now h w = (n1, w1)" by fastforce
  obtain at w2 where w2: "clock_now h w1 = (at, w2)" by fastforce
  obtain res w3 where w3: "store_call h (\<lambda>s wc. AckRelayDecision s i token (UnixMilli at) (parentCheck hc parent wc)) w2 = (res, w3)"
    by fastforce
  note steps = progress_clock_now[OF h w1] progress_clock_now[OF h w2] progress_store_call[OF h _ w3, OF store_requests.honours_AckRelayDecision]
  then have p2: "progress w w1" "progress w w2" "progress w w3" by (auto intro: progress_trans)
  have "0 \<le> at" using steps now by (auto simp: progress_def)
  then have "answered i token w (Fprintln (EncodeDecision EventNamePermissionRequest decision reason) w3)"
    if "res = Inr (Some (decision, reason))" for decision reason
    using ack_outcome[of _ i token "UnixMilli at"] store_call_run(1)[OF w3] that p2(3)
    by (fastforce simp: answered_def wroteAnswer_def Fprintln_def progress_def UnixMilli_set)
  then show ?thesis
    using p2 by (auto simp: deliver_def w1 w2 w3 intro: answered_report split: sum.splits option.splits)
qed

lemma timeoutDeny_outcome:
  assumes h: "host_honest h" and now: "0 \<le> w_now w"
  shows "progress w (timeoutDeny h hc killAt parent i token elapsed w) \<or> answered i token w (timeoutDeny h hc killAt parent i token elapsed w)"
proof -
  obtain n1 w1 where w1: "clock_now h w = (n1, w1)" by fastforce
  obtain at w2 where w2: "clock_now h w1 = (at, w2)" by fastforce
  obtain res w3 where w3: "store_call h (\<lambda>s wc. DenyRelayTimeout s i token (UnixMilli at) (parentCheck hc parent wc)) w2 = (res, w3)"
    by fastforce
  note steps = progress_clock_now[OF h w1] progress_clock_now[OF h w2] progress_store_call[OF h _ w3, OF store_requests.honours_DenyRelayTimeout]
  then have p2: "progress w w1" "progress w w2" "progress w w3" by (auto intro: progress_trans)
  have at: "0 \<le> at" "0 \<le> w_now w3" using steps now p2 by (auto simp: progress_def)
  then have "answered i token w (Fprintln (EncodeDecision EventNamePermissionRequest ''deny'' []) w3)" if "res = Inr True"
    using timeout_outcome[of _ i token "UnixMilli at"] store_call_run(1)[OF w3] that p2(3)
    by (fastforce simp: answered_def wroteAnswer_def Fprintln_def progress_def UnixMilli_set)
  then show ?thesis
    using p2 deliver_outcome[OF h at(2), of hc killAt parent i token elapsed] progress_trans[OF p2(3)] answered_after[OF p2(3)]
    by (auto simp: timeoutDeny_def w1 w2 w3 intro: answered_report split: sum.splits)
qed

lemma relayAnswer_outcome:
  assumes h: "host_honest h" and now: "0 \<le> w_now w" and "relayAnswer h hc killAt parent i token elapsed w = Some w'"
  shows "progress w w' \<or> answered i token w w'"
proof -
  obtain res w1 where poll: "Poll h (hc_Cfg hc) (pollEnd killAt) i token 0 None w = Some (res, w1)"
    and w': "w' = afterPoll h hc killAt parent i token elapsed res w1"
    using assms(3) by (auto simp: relayAnswer_def)
  have p: "progress w w1" using progress_Poll[OF h poll] by simp
  with now have "0 \<le> w_now w1" by (simp add: progress_def)
  then have "progress w1 w' \<or> answered i token w1 w'"
    unfolding w' afterPoll_def using deliver_outcome[OF h] timeoutDeny_outcome[OF h] by auto
  then show ?thesis using p by (auto intro: progress_trans answered_after)
qed

lemma progress_emitIgnored: "host_honest h \<Longrightarrow> progress w (emitIgnored h hc ig w)"
  by (auto simp: emitIgnored_def emitPaneIsGrandparent_def Let_def split: prod.splits sum.splits
      dest!: progress_store_read intro!: progress_emits)

lemma runRelay_returns:
  assumes "clock_fair h"
  shows "\<exists>fired w'. runRelay h hc killAt inp elapsed onIgnored w = Some (fired, w')"
proof -
  have poll: "\<exists>y. Poll h cfg deadline i token n c w = Some y" for cfg deadline i token n c w
    using poll_ends[OF assms] by blast
  then show ?thesis
    by (force simp: runRelay_def relayAnswer_def Let_def split: option.splits prod.splits sum.splits)
qed

definition sample_config :: HandleConfig where
  "sample_config = \<lparr>hc_Agent = [], hc_ContextSource = [], hc_Env = (\<lambda>_. []), hc_Cfg = sample_relay_config, hc_ParentPID = Some w_ppid, hc_ParentProc = True,
     hc_VerifyCursor = None, hc_VerifyCursorRotation = None, hc_Now = True,
     hc_Start = Some 0, hc_RelayTimeout = 60 * Second, hc_Self = \<lparr>pi_PID = 11, pi_Starttime = ''h0'', pi_PIDNamespace = []\<rparr>,
     hc_RelayHookGone = Some (\<lambda>_. False), hc_PendingGrace = 0, hc_statPresent = (\<lambda>_ _. False),
     hc_parseTime = (\<lambda>_. None), hc_transcript = (\<lambda>_ _. None), hc_mint = Some ''k2''\<rparr>"

definition sample_parent :: parentIdentity where
  "sample_parent = \<lparr>pa_pid = 7, pa_start = ''t0''\<rparr>"

definition sample_input :: relayInput where
  "sample_input = \<lparr>in_instanceID = ''b'', in_gate = sample_gate, in_parent = sample_parent, in_agentID = [], in_transcriptPath = [],
     in_transcriptPresent = False, in_raw = NoBytes\<rparr>"

definition sample_ignored :: ignoredHook where
  "sample_ignored = \<lparr>ig_instanceID = ''b'', ig_event = EventNamePermissionRequest, ig_sessionID = [], ig_parent = sample_parent,
     ig_reason = [], ig_silentWithoutRow = False\<rparr>"

lemma sample_host_honest: "host_honest sample_host"
  by (simp add: host_honest_def progress_def sample_host_def others_honour_def sample_store_def store.G_refl)

lemma runRelay_outcome:
  assumes "host_honest h" and "0 \<le> w_now w"
    and "runRelay h hc killAt inp elapsed (\<lambda>reason. emitIgnored h hc (ig\<lparr>ig_reason := reason\<rparr>)) w = Some (fired, w')"
  shows "store_guarantee (w_db w) (w_db w')
     \<and> (w_stdout w' = w_stdout w
       \<or> w_stdout w' = w_stdout w @ [EncodeDecision EventNamePermissionRequest ''deny'' []] \<and> rf_upsert_outcome fired \<in> {None, Some UpsertError}
       \<or> (\<exists>token decision reason. rf_request_token fired = Some token \<and> hc_mint hc = Some token
           \<and> w_stdout w' = w_stdout w @ [EncodeDecision EventNamePermissionRequest decision reason]
           \<and> any_row (answeredAs (in_instanceID inp) token decision reason) (permission_requests (w_db w'))))"
proof (cases "hc_mint hc")
  case None
  with assms(3) show ?thesis by (auto simp: runRelay_def failClosedDeny_def Fprintln_def store.G_refl)
next
  case (Some token)
  note h = assms(1)
  obtain n1 w1 where w1: "clock_now h w = (n1, w1)" by fastforce
  obtain res w2 where w2: "store_call h (\<lambda>s _. InsertRelayRequest s (in_instanceID inp) (in_gate inp) (relayRequestOf hc killAt inp token)
      (relayCap hc)) w1 = (res, w2)" by fastforce
  have p: "progress w w2"
    using progress_clock_now[OF h w1] progress_store_call[OF h _ w2, OF store_requests.honours_InsertRelayRequest] by (auto intro: progress_trans)
  show ?thesis
  proof (cases res)
    case (Inl e)
    with assms(3) Some w1 w2 p show ?thesis by (auto simp: runRelay_def failClosedDeny_def Fprintln_def progress_def)
  next
    case (Inr oa)
    obtain outcome applied where oa: "oa = (outcome, applied)" by fastforce
    let ?w3 = "trail_Emit (relayAttempt (in_instanceID inp) token) w2"
    consider (ignored) "progress w2 w'" | (answer) "rf_request_token fired = Some token"
        "relayAnswer h hc killAt (in_parent inp) (in_instanceID inp) token elapsed ?w3 = Some w'"
      using assms(3) Some w1 w2 Inr oa progress_emitIgnored[OF h]
      by (auto simp: runRelay_def Let_def split: if_splits)
    then show ?thesis
    proof cases
      case ignored
      then have "progress w w'" using p by (rule progress_trans[rotated])
      then show ?thesis by (simp add: progress_def)
    next
      case answer
      have p3: "progress w ?w3" using p progress_emit by (rule progress_trans)
      then have "0 \<le> w_now ?w3" using assms(2) by (simp add: progress_def)
      from relayAnswer_outcome[OF h this answer(2)] have "progress w w' \<or> answered (in_instanceID inp) token w w'"
        using p3 by (auto intro: progress_trans answered_after)
      then show ?thesis using answer(1) Some by (auto simp: progress_def answered_def wroteAnswer_def)
    qed
  qed
qed

text \<open>
  C14. The relay hook never answers for anyone: whatever fails, whoever else writes and however the
  poll ends, it writes at most one line, and that line is the fail-closed deny of a request that was
  not recorded, or the stored verdict of its own request, which by then is marked delivered and has
  no pane answer; and everything it commits keeps the store's guarantee.
\<close>

theorem relay_answers_only_what_it_acked:
  assumes "host_honest h" and "0 \<le> w_now w"
    and "runRelay h hc killAt inp elapsed (\<lambda>reason. emitIgnored h hc (ig\<lparr>ig_reason := reason\<rparr>)) w = Some (fired, w')"
  shows "store_guarantee (w_db w) (w_db w')
     \<and> (w_stdout w' = w_stdout w
       \<or> w_stdout w' = w_stdout w @ [EncodeDecision EventNamePermissionRequest ''deny'' []] \<and> rf_upsert_outcome fired \<in> {None, Some UpsertError}
       \<or> (\<exists>token decision reason. rf_request_token fired = Some token
           \<and> w_stdout w' = w_stdout w @ [EncodeDecision EventNamePermissionRequest decision reason]
           \<and> any_row (answeredAs (in_instanceID inp) token decision reason) (permission_requests (w_db w'))))"
  using runRelay_outcome[OF assms] by blast

theorem relay_answers_only_what_it_acked_witness:
  "\<exists>fired w'. runRelay sample_host sample_config (60 * Second) sample_input 0
        (\<lambda>reason. emitIgnored sample_host sample_config (sample_ignored\<lparr>ig_reason := reason\<rparr>)) sample_world = Some (fired, w')
     \<and> length (w_stdout w') \<le> 1"
proof -
  obtain fired w' where run: "runRelay sample_host sample_config (60 * Second) sample_input 0
      (\<lambda>reason. emitIgnored sample_host sample_config (sample_ignored\<lparr>ig_reason := reason\<rparr>)) sample_world = Some (fired, w')"
    using runRelay_returns[OF sample_clock_fair] by blast
  have "0 \<le> w_now sample_world" "w_stdout sample_world = []" by (simp_all add: sample_world_def)
  with relay_answers_only_what_it_acked[OF sample_host_honest _ run] have "length (w_stdout w') \<le> 1" by auto
  with run show ?thesis by blast
qed

section \<open>The agent gets its answer\<close>

text \<open>
  A calm system: the store does not fail, the context is not cancelled, the hook's parent stays, no
  action takes longer than a tenth of a second (beyond a sleep's own time), and the others neither
  delete the hook's request nor answer it at the pane nor take a verdict back. They may decide it.
\<close>

definition openRequest :: "string \<Rightarrow> string \<Rightarrow> bool \<Rightarrow> db \<Rightarrow> bool" where
  "openRequest i token decided d = (case find (the_request i token) (permission_requests d) of
     None \<Rightarrow> False
   | Some p \<Rightarrow> pr_delivered_at p = None \<and> pr_pane_answer p = PaneAnswerNone \<and> (decided \<longrightarrow> pr_decision p \<noteq> None))"

abbreviation actionTime :: int where "actionTime \<equiv> 100 * Millisecond"

definition calmStep :: "HandleConfig \<Rightarrow> parentIdentity \<Rightarrow> string \<Rightarrow> string \<Rightarrow> int \<Rightarrow> world \<Rightarrow> world \<Rightarrow> bool" where
  "calmStep hc parent i token t w w' \<longleftrightarrow> w_cancel w' = w_cancel w \<and> w_stdout w' = w_stdout w
     \<and> w_now w + t \<le> w_now w' \<and> w_now w' \<le> w_now w + t + actionTime
     \<and> (parentIsStarter hc parent w \<longrightarrow> parentIsStarter hc parent w')
     \<and> (\<forall>decided. openRequest i token decided (w_db w) \<longrightarrow> openRequest i token decided (w_db w'))"

definition calm :: "host \<Rightarrow> HandleConfig \<Rightarrow> parentIdentity \<Rightarrow> string \<Rightarrow> string \<Rightarrow> bool" where
  "calm h hc parent i token \<longleftrightarrow> (\<forall>n. quiet (h_store h n)) \<and> hc_ParentPID hc = Some w_ppid
     \<and> (\<forall>w. calmStep hc parent i token 0 w (h_pass h w)) \<and> (\<forall>t w. 0 < t \<longrightarrow> calmStep hc parent i token t w (h_sleep h t w))"

definition ready :: "HandleConfig \<Rightarrow> parentIdentity \<Rightarrow> string \<Rightarrow> string \<Rightarrow> bool \<Rightarrow> world \<Rightarrow> bool" where
  "ready hc parent i token decided w \<longleftrightarrow> w_cancel w = None \<and> parentIsStarter hc parent w \<and> openRequest i token decided (w_db w)"

lemma calm_fair: "calm h hc parent i token \<Longrightarrow> clock_fair h"
  by (auto simp: calm_def calmStep_def clock_fair_def)

lemma openRequest_weaken: "openRequest i token True d \<Longrightarrow> openRequest i token b d"
  by (auto simp: openRequest_def split: option.splits)

lemma calm_tick:
  assumes "calm h hc parent i token" and "ready hc parent i token b w"
  shows "ready hc parent i token b (tick h w)" "w_stdout (tick h w) = w_stdout w"
    "w_now w \<le> w_now (tick h w)" "w_now (tick h w) \<le> w_now w + actionTime"
  using assms by (auto simp: calm_def calmStep_def ready_def tick_def parentIsStarter_def)

lemma calm_sleep:
  assumes "calm h hc parent i token" and "ready hc parent i token b w" and "0 < t"
  shows "ready hc parent i token b (clock_sleep h t w)" "w_stdout (clock_sleep h t w) = w_stdout w"
    "w_now (clock_sleep h t w) \<le> w_now w + t + actionTime" "w_now w + t \<le> w_now (clock_sleep h t w)"
  using assms by (auto simp: calm_def calmStep_def ready_def clock_sleep_def parentIsStarter_def)

lemma calm_wake:
  assumes c: "calm h hc parent i token" and r: "ready hc parent i token b w" and now: "w_now w \<le> deadline + actionTime"
  shows "ready hc parent i token b (pollWake h cfg deadline w)" "w_stdout (pollWake h cfg deadline w) = w_stdout w"
    "w_now (pollWake h cfg deadline w) \<le> deadline + 2 * actionTime" "w_now w \<le> w_now (pollWake h cfg deadline w)"
proof -
  define t where "t = pollSleep cfg (h_rand h (w_tick w)) (saturated (deadline - w_now (tick h w)))"
  have wake: "pollWake h cfg deadline w = (if t > 0 then clock_sleep h t (tick h w) else tick h w)"
    by (simp add: pollWake_def t_def Let_def)
  have "t \<le> saturated (deadline - w_now (tick h w))" by (simp add: t_def pollSleep_def Let_def)
  then have "0 < t \<Longrightarrow> t \<le> deadline - w_now (tick h w)" by (auto simp: saturated_def split: if_splits)
  then show "ready hc parent i token b (pollWake h cfg deadline w)" "w_stdout (pollWake h cfg deadline w) = w_stdout w"
    "w_now (pollWake h cfg deadline w) \<le> deadline + 2 * actionTime" "w_now w \<le> w_now (pollWake h cfg deadline w)"
    using calm_tick[OF c r] calm_sleep[OF c calm_tick(1)[OF c r], of t] now unfolding wake by auto
qed

text \<open>What a poll of a calm system ends with, at most three actions after its deadline.\<close>

definition polled :: "HandleConfig \<Rightarrow> parentIdentity \<Rightarrow> string \<Rightarrow> string \<Rightarrow> int \<Rightarrow> world \<Rightarrow> PollResult \<times> world \<Rightarrow> bool" where
  "polled hc parent i token deadline w y \<longleftrightarrow> w_stdout (snd y) = w_stdout w \<and> w_now w \<le> w_now (snd y) \<and> w_now (snd y) \<le> deadline + 3 * actionTime
     \<and> ready hc parent i token (po_Decision (fst y) \<noteq> []) (snd y) \<and> (po_Decision (fst y) \<noteq> [] \<or> po_TimedOut (fst y))"

lemma calm_Poll:
  assumes "calm h hc parent i token" and "ready hc parent i token False w" and "w_now w \<le> deadline + 2 * actionTime"
    and "Poll h cfg deadline i token n c w = Some y"
  shows "polled hc parent i token deadline w y"
proof -
  let ?P = "\<lambda>h cfg deadline i token n c w y. calm h hc parent i token \<and> ready hc parent i token False w
     \<and> w_now w \<le> deadline + 2 * actionTime \<longrightarrow> polled hc parent i token deadline w y"
  have "?P h cfg deadline i token n c w y"
  proof (rule Poll.raw_induct[where P = ?P, OF _ assms(4)], goal_cases)
    case (1 F h cfg deadline i token n c w y)
    note rec = 1(1) and body = 1(2)
    show ?case
    proof (intro impI, elim conjE)
      assume c: "calm h hc parent i token" and r: "ready hc parent i token False w" and now: "w_now w \<le> deadline + 2 * actionTime"
      let ?w1 = "tick h w" and ?w2 = "tick h (tick h w)"
      note t1 = calm_tick[OF c r] and t2 = calm_tick[OF c calm_tick(1)[OF c r]]
      have q: "quiet (h_store h m)" for m using c by (simp add: calm_def)
      obtain p where p: "find (the_request i token) (permission_requests (w_db ?w2)) = Some p"
        "pr_delivered_at p = None" "pr_pane_answer p = PaneAnswerNone"
        using t2(1) by (auto simp: ready_def openRequest_def split: option.splits)
      have late: "polled hc parent i token deadline w ((gaveUp x c')\<lparr>po_TimedOut := True\<rparr>, ?w1)" for x c'
        using t1 now by (simp add: polled_def gaveUp_def)
      have again: "polled hc parent i token deadline w y"
        if "w_now ?w1 < deadline" "F h cfg deadline i token 0 k (pollWake h cfg deadline ?w2) = Some y" for k
      proof -
        have "w_now ?w2 \<le> deadline + actionTime" using that(1) t2(4) by linarith
        note wake = calm_wake[OF c t2(1) this, of cfg]
        have "polled hc parent i token deadline (pollWake h cfg deadline ?w2) y"
          using rec[OF that(2)] c wake by blast
        then show ?thesis using t1(2,3) t2(2,3) wake(2,4) by (simp add: polled_def)
      qed
      have decided: "polled hc parent i token deadline w (\<lparr>po_Decision = Decision (scanPermissionRow p), po_Reason = x, po_Why = z,
          po_TimedOut = False, po_CreatedAt = k\<rparr>, ?w2)" if "w_now ?w1 < deadline" "Decision (scanPermissionRow p) \<noteq> []" for x z k
        using that t1 t2 p by (auto simp: polled_def ready_def openRequest_def scanPermissionRow_def)
      show "polled hc parent i token deadline w y"
        using body late again decided p(1) q r
        by (auto simp: clock_now_def store_read_def ready_def GetPermissionRequest_def pollWake_def Let_def split: if_splits)
    qed
  qed
  with assms(1-3) show ?thesis by blast
qed

lemma open_member:
  assumes "openRequest i token b d"
  shows "\<exists>p \<in> set (permission_requests d). the_request i token p \<and> pr_delivered_at p = None \<and> pr_pane_answer p = PaneAnswerNone
     \<and> (b \<longrightarrow> pr_decision p \<noteq> None)"
  using assms by (auto simp: openRequest_def find_Some_iff split: option.splits)

lemma quiet_ack:
  assumes "quiet s" and "openRequest i token True d"
  shows "\<exists>decision reason d'. AckRelayDecision s i token at None d = (Inr (Some (decision, reason)), d')"
proof -
  have "find (ackMatch i token) (permission_requests d) \<noteq> None"
    using open_member[OF assms(2)] by (auto simp: find_None_iff ackMatch_def)
  then show ?thesis
    using assms(1) by (auto simp: AckRelayDecision_def inWriteTx_def run_check_def tx_bind_def tx_exec_def update_requests_def tx_return_def)
qed

lemma quiet_timeout:
  assumes "quiet s" and "openRequest i token False d"
  shows "(\<exists>d'. DenyRelayTimeout s i token at None d = (Inr True, d'))
     \<or> DenyRelayTimeout s i token at None d = (Inr False, d) \<and> openRequest i token True d"
proof (cases "openRequest i token True d")
  case False
  then have "find (timeoutMatch i token) (permission_requests d) \<noteq> None"
    using assms(2) by (auto simp: openRequest_def find_None_iff find_Some_iff timeoutMatch_def split: option.splits)
  then show ?thesis
    using assms(1) by (auto simp: DenyRelayTimeout_def call_bind_def inWriteTx_def run_check_def tx_bind_def tx_exec_def update_requests_def)
next
  case True
  have "DenyRelayTimeout s i token at None d = (Inr False, d)"
    if "find (timeoutMatch i token) (permission_requests d) = None"
  proof -
    have "\<not> any_row (timeoutMatch i token) (permission_requests d)" using that by (auto simp: find_None_iff)
    then show ?thesis using that assms(1)
      by (simp add: DenyRelayTimeout_def call_bind_def inWriteTx_def run_check_def tx_bind_def tx_exec_def update_requests_def update_where_none)
  qed
  moreover have "\<exists>d'. DenyRelayTimeout s i token at None d = (Inr True, d')"
    if "find (timeoutMatch i token) (permission_requests d) = Some p" for p
    using that assms(1) by (auto simp: DenyRelayTimeout_def call_bind_def inWriteTx_def run_check_def tx_bind_def tx_exec_def update_requests_def)
  ultimately show ?thesis using True by (cases "find (timeoutMatch i token) (permission_requests d)") auto
qed

lemma calm_deliver:
  assumes c: "calm h hc parent i token" and r: "ready hc parent i token True w" and now: "0 \<le> w_now w" "w_now w + actionTime < ackBy killAt"
  shows "wroteAnswer i token w (deliver h hc killAt parent i token elapsed w)"
proof -
  let ?w1 = "tick h w" let ?w2 = "tick h ?w1" let ?w3 = "tick h ?w2"
  note t1 = calm_tick[OF c r] note t2 = calm_tick[OF c t1(1)] note t3 = calm_tick[OF c t2(1)]
  have q: "quiet (h_store h m)" for m using c by (simp add: calm_def)
  have wait: "waitLeft killAt (w_now ?w1) > 0" using t1(4) now(2) by (auto simp: waitLeft_def saturated_def)
  have check: "parentCheck hc parent ?w3 = None" using t3(1) by (simp add: ready_def parentCheck_def)
  let ?at = "UnixMilli (w_now ?w2)"
  obtain decision reason d' where ack: "AckRelayDecision (h_store h (w_tick ?w3)) i token ?at None (w_db ?w3) = (Inr (Some (decision, reason)), d')"
    using quiet_ack[OF q, of i token "w_db ?w3" "w_tick ?w3" ?at] t3(1) by (auto simp: ready_def)
  have "millisArg ?at \<noteq> None" using now(1) t1(3) t2(3) by (simp add: UnixMilli_set)
  from ack_outcome[OF ack this] show ?thesis
    using wait ack check t1(2) t2(2) t3(2)
    by (auto simp: deliver_def clock_now_def store_call_def Let_def wroteAnswer_report) (auto simp: wroteAnswer_def Fprintln_def)
qed

lemma calm_timeout:
  assumes c: "calm h hc parent i token" and r: "ready hc parent i token False w" and now: "0 \<le> w_now w" "w_now w + 5 * actionTime < ackBy killAt"
  shows "wroteAnswer i token w (timeoutDeny h hc killAt parent i token elapsed w)"
proof -
  let ?w1 = "tick h w" let ?w2 = "tick h ?w1" let ?w3 = "tick h ?w2"
  note t1 = calm_tick[OF c r] note t2 = calm_tick[OF c t1(1)] note t3 = calm_tick[OF c t2(1)]
  have q: "quiet (h_store h m)" for m using c by (simp add: calm_def)
  have wait: "waitLeft killAt (w_now ?w1) > 0" using t1(4) now(2) by (auto simp: waitLeft_def saturated_def)
  have check: "parentCheck hc parent ?w3 = None" using t3(1) by (simp add: ready_def parentCheck_def)
  let ?at = "UnixMilli (w_now ?w2)"
  have at: "millisArg ?at \<noteq> None" using now(1) t1(3) t2(3) by (simp add: UnixMilli_set)
  have same: "w_stdout ?w3 = w_stdout w" using t1(2) t2(2) t3(2) by simp
  from quiet_timeout[OF q, of i token "w_db ?w3" "w_tick ?w3" ?at] consider
      (denied) d' where "DenyRelayTimeout (h_store h (w_tick ?w3)) i token ?at None (w_db ?w3) = (Inr True, d')"
    | (decided) "DenyRelayTimeout (h_store h (w_tick ?w3)) i token ?at None (w_db ?w3) = (Inr False, w_db ?w3)" "openRequest i token True (w_db ?w3)"
    using t3(1) by (auto simp: ready_def)
  then show ?thesis
  proof cases
    case denied
    from timeout_outcome[OF denied at] show ?thesis
      using wait denied check same
      by (auto simp: timeoutDeny_def clock_now_def store_call_def Let_def wroteAnswer_report) (auto simp: wroteAnswer_def Fprintln_def)
  next
    case decided
    have "ready hc parent i token True ?w3" using t3(1) decided(2) by (simp add: ready_def)
    moreover have "0 \<le> w_now ?w3" "w_now ?w3 + actionTime < ackBy killAt" using now t1(3,4) t2(3,4) t3(3,4) by linarith+
    ultimately have "wroteAnswer i token ?w3 (deliver h hc killAt parent i token elapsed ?w3)" by (rule calm_deliver[OF c])
    then show ?thesis
      using wait decided(1) check same by (simp add: timeoutDeny_def clock_now_def store_call_def Let_def wroteAnswer_def)
  qed
qed

text \<open>
  C15. In a calm system the agent always gets its answer: from the recorded request on, with at least
  the poll's time left, the hook ends, having written exactly one line, the verdict given meanwhile or
  the timeout's deny, and its request is marked delivered with what was written.
\<close>

theorem relay_hook_always_answers:
  assumes "calm h hc parent i token" and "ready hc parent i token False w" and "0 \<le> w_now w" and "w_now w \<le> pollEnd killAt"
  shows "\<exists>w'. relayAnswer h hc killAt parent i token elapsed w = Some w' \<and> wroteAnswer i token w w'"
proof -
  obtain res w1 where poll: "Poll h (hc_Cfg hc) (pollEnd killAt) i token 0 None w = Some (res, w1)"
    using poll_ends[OF calm_fair[OF assms(1)]] by blast
  have p: "polled hc parent i token (pollEnd killAt) w (res, w1)"
    using calm_Poll[OF assms(1,2) _ poll] assms(4) by simp
  then have time: "w_now w1 + 5 * actionTime < ackBy killAt" by (simp add: polled_def pollEnd_def)
  have start: "0 \<le> w_now w1" using p assms(3) by (simp add: polled_def)
  have "wroteAnswer i token w1 (afterPoll h hc killAt parent i token elapsed res w1)"
    using p time start calm_deliver[OF assms(1)] calm_timeout[OF assms(1)] by (auto simp: afterPoll_def polled_def)
  then show ?thesis using p poll by (auto simp: relayAnswer_def wroteAnswer_def polled_def)
qed

theorem relay_hook_always_answers_witness:
  "\<exists>w'. relayAnswer sample_host sample_config (60 * Second) sample_parent ''a'' ''k'' 0 sample_world = Some w'
     \<and> wroteAnswer ''a'' ''k'' sample_world w'"
proof -
  have "calm sample_host sample_config sample_parent ''a'' ''k''"
    by (simp add: calm_def calmStep_def sample_host_def sample_config_def quiet_def sample_store_def parentIsStarter_def)
  moreover have "ready sample_config sample_parent ''a'' ''k'' False sample_world"
    by (simp add: ready_def sample_world_def parentIsStarter_def sample_config_def sample_parent_def openRequest_def sample_db_def
        sample_request_def the_request_def)
  ultimately show ?thesis
    by (rule relay_hook_always_answers) (simp_all add: sample_world_def pollEnd_def ackBy_def)
qed

end
