(* ===== verification/Capacity_Hook.thy ===== *)
theory Capacity_Hook
  imports Relay_Hook "HOL-Library.AList"
begin

text \<open>
  The capacity callback of a Claude session (internal/hook/claude_capacity.go): it records the context
  window of the newest response, and of the visible subagents' newest responses, on the row whose
  launch, session and process it reads, and nothing else.
\<close>

section \<open>The callback's payload\<close>

text \<open>What \<open>encoding/json\<close> reads from the callback's bytes into the code's struct.\<close>

record capacityTask =
  ta_ID :: string
  ta_Type :: string
  ta_Model :: string
  ta_Window :: int

record capacityPayload =
  cy_Session :: string
  cy_Version :: string
  cy_Model :: string
  cy_Size :: int
  cy_Usage :: Counts
  cy_Tasks :: "capacityTask list"

definition firstPartyKeys :: "string list" where
  "firstPartyKeys = [''ANTHROPIC_BASE_URL'', ''CLAUDE_CODE_USE_BEDROCK'', ''CLAUDE_CODE_USE_VERTEX'', ''CLAUDE_CODE_USE_FOUNDRY'',
     ''CLAUDE_CODE_USE_ANTHROPIC_AWS'', ''CLAUDE_CODE_USE_ANTHROPIC_GOOGLE_CLOUD'', ''CLAUDE_CODE_USE_MANTLE'', ''CLAUDE_CODE_USE_GATEWAY'',
     ''CLAUDE_CODE_PROVIDER_MANAGED_BY_HOST'', ''CLAUDE_CODE_PROFILE'', ''ANTHROPIC_CUSTOM_MODEL_OPTION'', ''CLAUDE_CODE_MAX_CONTEXT_TOKENS'',
     ''DISABLE_COMPACT'', ''ANTHROPIC_DEFAULT_HAIKU_MODEL_SUPPORTED_CAPABILITIES'', ''ANTHROPIC_DEFAULT_SONNET_MODEL_SUPPORTED_CAPABILITIES'',
     ''ANTHROPIC_DEFAULT_OPUS_MODEL_SUPPORTED_CAPABILITIES'', ''ANTHROPIC_DEFAULT_FABLE_MODEL_SUPPORTED_CAPABILITIES'',
     ''ANTHROPIC_CUSTOM_MODEL_OPTION_SUPPORTED_CAPABILITIES'']"

definition claudeFirstParty :: "(string \<Rightarrow> string) \<Rightarrow> bool" where
  "claudeFirstParty env \<longleftrightarrow> list_all (\<lambda>key. env key = []) firstPartyKeys"

section \<open>The capacity to record\<close>

definition invalidated :: "ClaudeWindow \<Rightarrow> ClaudeWindow" where
  "invalidated w = w\<lparr>cw_Invalidated := True\<rparr>"

definition sameResponseInvalidated :: "ClaudeWindow option \<Rightarrow> ClaudeWindow \<Rightarrow> bool" where
  "sameResponseInvalidated prior nxt = (case prior of
     None \<Rightarrow> False
   | Some p \<Rightarrow> cw_ResponseUUID p = cw_ResponseUUID nxt
       \<and> (cw_Invalidated p \<or> cw_Model p \<noteq> cw_Model nxt \<or> cw_Window p \<noteq> cw_Window nxt))"

definition blankCapacity :: "SpawnContext \<Rightarrow> string \<Rightarrow> string \<Rightarrow> ClaudeCapacity" where
  "blankCapacity e version provider =
     \<lparr>cp_LaunchToken = sx_LaunchToken e, cp_SessionID = sx_SessionID e, cp_JSONLPath = sx_JSONLPath e, cp_PID = sx_PID e,
      cp_Starttime = sx_ProcStarttime e, cp_Version = version, cp_Provider = provider, cp_Main = None, cp_Children = []\<rparr>"

definition currentCapacity :: "SpawnContext \<Rightarrow> ClaudeCapacity" where
  "currentCapacity e = (case BoundClaudeCapacity e of Some c \<Rightarrow> c | None \<Rightarrow> blankCapacity e ClaudeVersion ''anthropic'')"

definition clearClaudeCapacity :: "SpawnContext \<Rightarrow> ClaudeCapacity" where
  "clearClaudeCapacity e = (case BoundClaudeCapacity e of
     None \<Rightarrow> blankCapacity e ''unqualified'' ''unknown''
   | Some c \<Rightarrow> c\<lparr>cp_Version := ''unqualified'', cp_Provider := ''unknown'', cp_Main := map_option invalidated (cp_Main c),
                cp_Children := map (\<lambda>(x, w). (x, invalidated w)) (cp_Children c)\<rparr>)"

definition windowOf :: "ClaudeUsage \<Rightarrow> int \<Rightarrow> go_time \<Rightarrow> ClaudeWindow option \<Rightarrow> ClaudeWindow" where
  "windowOf u win at prior =
     (let w = \<lparr>cw_Model = cu_Model u, cw_Window = win, cw_ResponseUUID = cu_UUID u, cw_ObservedAt = toUTC at, cw_Invalidated = False\<rparr>
      in w\<lparr>cw_Invalidated := sameResponseInvalidated prior w\<rparr>)"

definition statusLineCapacity :: "ClaudeCapacity \<Rightarrow> ClaudeUsage option \<Rightarrow> capacityPayload \<Rightarrow> go_time \<Rightarrow> ClaudeCapacity" where
  "statusLineCapacity cap usage p at =
     (let cap1 = cap\<lparr>cp_Version := ClaudeVersion, cp_Provider := ''anthropic'', cp_Main := map_option invalidated (cp_Main cap)\<rparr>
      in case usage of
           None \<Rightarrow> cap1
         | Some u \<Rightarrow>
             if cy_Size p > 0 \<and> cu_Model u = cy_Model p \<and> \<not> t_ns (cu_At u) > t_ns at \<and> countsEqual (cy_Usage p) (cu_Counts u)
             then cap1\<lparr>cp_Main := Some (windowOf u (cy_Size p) at (cp_Main cap))\<rparr>
             else cap1)"

definition visibleChildren :: "SpawnContext \<Rightarrow> SubagentRow list \<Rightarrow> string \<Rightarrow> bool" where
  "visibleChildren e rows = fold (\<lambda>r m. m(sa_subagent_id (sr_Entry r) :=
       (case sr_ContextEvidence r of None \<Rightarrow> [] | Some x \<Rightarrow> sx_LaunchToken x) = sx_LaunchToken e
       \<and> sa_session_id (sr_Entry r) = Some (sx_SessionID e))) rows (\<lambda>_. False)"

definition keptChildren :: "(string \<Rightarrow> bool) \<Rightarrow> (string \<times> ClaudeWindow) list \<Rightarrow> (string \<times> ClaudeWindow) list" where
  "keptChildren visible prior = map (\<lambda>(x, w). (x, invalidated w)) (filter (\<lambda>(x, w). visible x) prior)"

text \<open>The tasks of one callback, each recorded when its transcript agrees; \<open>None\<close> when a task is named twice.\<close>

fun taskCapacity :: "(string \<Rightarrow> ClaudeUsage option) \<Rightarrow> (string \<Rightarrow> bool) \<Rightarrow> go_time \<Rightarrow> (string \<times> ClaudeWindow) list \<Rightarrow> capacityTask list
    \<Rightarrow> string list \<Rightarrow> (string \<times> ClaudeWindow) list \<Rightarrow> (string \<times> ClaudeWindow) list option" where
  "taskCapacity usage visible at prior [] seen children = Some children"
| "taskCapacity usage visible at prior (t # ts) seen children =
     (if ta_ID t \<in> set seen then None
      else taskCapacity usage visible at prior ts (ta_ID t # seen)
        (if \<not> visible (ta_ID t) \<or> ta_Type t \<noteq> ''local_agent'' \<or> ta_Model t = [] \<or> ta_Window t \<le> 0 then children
         else if map_of children (ta_ID t) = None \<and> length children \<ge> 128 then children
         else (case usage (ta_ID t) of
             None \<Rightarrow> children
           | Some u \<Rightarrow>
               if cu_Model u = ta_Model t \<and> \<not> t_ns (cu_At u) > t_ns at
               then AList.update (ta_ID t) (windowOf u (ta_Window t) at (map_of prior (ta_ID t))) children
               else children)))"

section \<open>One observation\<close>

datatype capacity_result = CapacityDone | CapacityContention | CapacityError store_error

text \<open>The row's evidence, with the stored capacity as the code writes it back.\<close>

definition readEvidence :: "store \<Rightarrow> string \<Rightarrow> db \<Rightarrow> store_error + SpawnContext \<times> string" where
  "readEvidence s i d = (case GetSpawn s i d of
     Inl e \<Rightarrow> Inl e
   | Inr sp \<Rightarrow> (let e = ContextEvidence s sp
               in Inr (e, case sx_ClaudeCapacity e of None \<Rightarrow> ''null'' | Some c \<Rightarrow> capacityText s c)))"

definition observable :: "SpawnContext \<Rightarrow> parentIdentity \<Rightarrow> bool" where
  "observable e parent \<longleftrightarrow> sx_Agent e = AgentClaude \<and> IsLiveState (sx_State e) \<and> sx_State e \<noteq> StatePending \<and> sx_SessionID e \<noteq> []
     \<and> sx_JSONLPath e \<noteq> [] \<and> sx_PID e = pa_pid parent \<and> sx_PanePID e = pa_pid parent \<and> sx_ProcStarttime e = pa_start parent
     \<and> sx_PaneStarttime e = pa_start parent \<and> pa_start parent \<noteq> []"

definition capacityGate :: "parentIdentity \<Rightarrow> SpawnContext \<Rightarrow> string \<Rightarrow> HookGate" where
  "capacityGate parent e snapshot =
     \<lparr>g_CodexStartup = False, g_Cursor = None, g_ClaudeCapacitySnapshot = Some snapshot, g_Event = [], g_ParentPID = pa_pid parent,
      g_ParentStart = pa_start parent, g_SessionID = sx_SessionID e, g_SessionStart = False,
      g_Examined = zeroSnapshot,
      g_CodexTurn = [], g_CodexTurnStart = False, g_CodexTurnEnd = False, g_CodexToolTurn = False\<rparr>"

definition writeClaudeCapacity :: "host \<Rightarrow> string \<Rightarrow> HookGate \<Rightarrow> ClaudeCapacity \<Rightarrow> world \<Rightarrow> capacity_result \<times> world" where
  "writeClaudeCapacity h i gate cap w = (case store_call h (\<lambda>s _. RecordClaudeCapacity s i gate cap) w of
     (Inl e, w1) \<Rightarrow> (CapacityError e, w1)
   | (Inr applied, w1) \<Rightarrow> (if applied then CapacityDone else CapacityContention, w1))"

definition observeMain :: "host \<Rightarrow> HandleConfig \<Rightarrow> string \<Rightarrow> HookGate \<Rightarrow> SpawnContext \<Rightarrow> capacityPayload \<Rightarrow> go_time \<Rightarrow> world
    \<Rightarrow> capacity_result \<times> world" where
  "observeMain h hc i gate e p at w =
     (if \<not> claudeFirstParty (hc_Env hc) \<or> cy_Version p \<noteq> ClaudeVersion then writeClaudeCapacity h i gate (clearClaudeCapacity e) w
      else let w1 = tick h w
           in writeClaudeCapacity h i gate (statusLineCapacity (currentCapacity e)
                (Claude (hc_parseTime hc) (sx_SessionID e) [] (hc_transcript hc w1 (sx_JSONLPath e))) p at) w1)"

definition observeChildren :: "host \<Rightarrow> HandleConfig \<Rightarrow> string \<Rightarrow> HookGate \<Rightarrow> SpawnContext \<Rightarrow> capacityPayload \<Rightarrow> go_time \<Rightarrow> world
    \<Rightarrow> capacity_result \<times> world" where
  "observeChildren h hc i gate e p at w =
     (if \<not> claudeFirstParty (hc_Env hc) then writeClaudeCapacity h i gate (clearClaudeCapacity e) w
      else if CurrentClaudeCapacity e = None then (CapacityDone, w)
      else (case store_read h (\<lambda>s. ListSubagentRecords s i) w of
          (Inl err, w1) \<Rightarrow> (CapacityError err, w1)
        | (Inr (_, rows), w1) \<Rightarrow>
            let cap = currentCapacity e; visible = visibleChildren e rows; w2 = tick h w1;
                usage = (\<lambda>x. Claude (hc_parseTime hc) (sx_SessionID e) x
                           (hc_transcript hc w2 (ClaudeChildPath (sx_JSONLPath e) (sx_SessionID e) x)))
            in case taskCapacity usage visible at (cp_Children cap) (cy_Tasks p) [] (keptChildren visible (cp_Children cap)) of
                 None \<Rightarrow> writeClaudeCapacity h i gate (clearClaudeCapacity e) w2
               | Some children \<Rightarrow> writeClaudeCapacity h i gate (cap\<lparr>cp_Children := children\<rparr>) w2))"

definition observeCapacity :: "host \<Rightarrow> HandleConfig \<Rightarrow> string \<Rightarrow> HookGate \<Rightarrow> SpawnContext \<Rightarrow> capacityPayload \<Rightarrow> go_time \<Rightarrow> world
    \<Rightarrow> capacity_result \<times> world" where
  "observeCapacity h hc i gate e p at w =
     (if hc_ContextSource hc = ''statusLine'' then observeMain h hc i gate e p at w
      else if hc_ContextSource hc = ''subagentStatusLine'' then observeChildren h hc i gate e p at w
      else (CapacityDone, w))"

text \<open>\<open>launch\<close> is the launch the first attempt saw: a later one gives up when the row has another.\<close>

definition recordClaudeCapacity :: "host \<Rightarrow> HandleConfig \<Rightarrow> parentIdentity \<Rightarrow> capacityPayload option \<Rightarrow> go_time \<Rightarrow> string \<Rightarrow> world
    \<Rightarrow> (capacity_result \<times> string) \<times> world" where
  "recordClaudeCapacity h hc parent payload at launch w =
     (if hc_Agent hc \<noteq> [] \<and> hc_Agent hc \<noteq> AgentClaude then ((CapacityDone, launch), w)
      else (case ResolveInstanceID (hc_Env hc) of
          Inl _ \<Rightarrow> ((CapacityDone, launch), w)
        | Inr i \<Rightarrow> (case store_read h (\<lambda>s. readEvidence s i) w of
            (Inl _, w1) \<Rightarrow> ((CapacityDone, launch), w1)
          | (Inr (e, snapshot), w1) \<Rightarrow>
              if \<not> observable e parent \<or> launch \<noteq> [] \<and> launch \<noteq> sx_LaunchToken e then ((CapacityDone, launch), w1)
              else (case payload of
                  None \<Rightarrow> ((CapacityDone, sx_LaunchToken e), w1)
                | Some p \<Rightarrow>
                    if cy_Session p \<noteq> sx_SessionID e then ((CapacityDone, sx_LaunchToken e), w1)
                    else (case observeCapacity h hc i (capacityGate parent e snapshot) e p at w1 of (res, w2) \<Rightarrow>
                            ((res, sx_LaunchToken e), w2))))))"

fun capacityAttempts :: "host \<Rightarrow> HandleConfig \<Rightarrow> parentIdentity \<Rightarrow> capacityPayload option \<Rightarrow> go_time \<Rightarrow> nat \<Rightarrow> string \<Rightarrow> world \<Rightarrow> world" where
  "capacityAttempts h hc parent payload at 0 launch w = w"
| "capacityAttempts h hc parent payload at (Suc attempts) launch w =
     (case recordClaudeCapacity h hc parent payload at launch w of ((res, launch'), w1) \<Rightarrow>
        if res = CapacityContention then capacityAttempts h hc parent payload at attempts launch' w1 else w1)"

definition handleClaudeCapacity :: "host \<Rightarrow> HandleConfig \<Rightarrow> parentIdentity \<Rightarrow> capacityPayload option \<Rightarrow> go_time \<Rightarrow> world \<Rightarrow> world" where
  "handleClaudeCapacity h hc parent payload at w = capacityAttempts h hc parent payload at 8 [] w"

end
