(* ===== verification/Cursor_Rules.thy ===== *)
theory Cursor_Rules
  imports Cursor_Laws
begin

text \<open>
  What the Cursor store promises its gateway: no write without the authority of the current
  connection of the current launch, no allow acknowledged after the approval deadline, no prompt
  under an open dialog, one connection for each launch, and a rotation that moves the whole
  conversation at once and leaves the outgoing one without authority.
\<close>

section \<open>Authority\<close>

text \<open>The row and the binding a gateway's \<open>b\<close> must still have.\<close>

definition currentLaunch :: "CursorRuntime \<Rightarrow> spawn_row \<Rightarrow> bool" where
  "currentLaunch b r \<longleftrightarrow> s_instance_id r = cr_InstanceID b \<and> s_agent r = AgentCursor
     \<and> li_Token (lifeIdentity r) = cr_Token b \<and> s_life_number r = cr_Life b \<and> coalesce (s_pane_pid r) 0 = cr_GatewayPID b
     \<and> coalesce (s_pane_starttime r) [] = cr_GatewayStart b \<and> coalesce (s_session_id r) [] = cr_SessionID b
     \<and> \<not> isTerminalState (s_state r)"

definition authorised :: "CursorRuntime \<Rightarrow> db \<Rightarrow> bool" where
  "authorised b d \<longleftrightarrow> cr_SessionID b \<noteq> [] \<and> \<not> cr_Terminated b
     \<and> (\<exists>r. find_spawn d (cr_InstanceID b) = Some r \<and> currentLaunch b r)
     \<and> (\<exists>c \<in> set (cursor_runtimes d). currentBinding b c)"

lemma authority_Inr:
  assumes "cursorAuthorityForPrompt s b until check p now d = Inr (row, d')"
  shows "d' = d \<and> authorised b d \<and> (\<exists>r. find_spawn d (cr_InstanceID b) = Some r \<and> row = scanSpawn r \<and> currentLaunch b r
           \<and> (s_state r = StatePending \<longrightarrow> p \<noteq> [] \<and> s_jsonl_path r = Some p))
     \<and> (\<exists>c. check = Some c \<and> c row = None) \<and> (until \<noteq> None \<longrightarrow> before now until)
     \<and> length (filter (currentBinding b) (cursor_runtimes d)) = 1"
proof -
  obtain r where r: "find_spawn d (cr_InstanceID b) = Some r" "row = scanSpawn r" "\<not> launchChanged b p (scanSpawn r)" "d' = d"
    and n: "length (filter (currentBinding b) (cursor_runtimes d)) = 1"
    and c: "\<exists>c. check = Some c \<and> c row = None" "until \<noteq> None \<longrightarrow> before now until"
    using assms by (auto simp: cursorAuthorityForPrompt_def GetSpawn_def split: sum.splits if_splits option.splits)
  have "currentLaunch b r" "cr_SessionID b \<noteq> []" "\<not> cr_Terminated b" "s_state r = StatePending \<longrightarrow> p \<noteq> [] \<and> s_jsonl_path r = Some p"
    using r(3) find_spawn_Some[OF r(1)]
    by (auto simp: launchChanged_def currentLaunch_def scanSpawn_def lifeIdentity_def isTerminalState_def coalesce_def split: option.splits)
  moreover have "\<exists>c \<in> set (cursor_runtimes d). currentBinding b c"
    using n by (cases "filter (currentBinding b) (cursor_runtimes d) = []") (auto simp: filter_empty_conv)
  ultimately show ?thesis using r n c by (auto simp: authorised_def)
qed

lemma authority_fails:
  assumes "\<not> authorised b d \<or> check = None \<or> (\<exists>c e. check = Some c \<and> (\<forall>row. c row = Some e))"
  shows "\<exists>e. cursorAuthorityForPrompt s b until check p now d = Inl e"
proof (cases "cursorAuthorityForPrompt s b until check p now d")
  case (Inr x)
  then obtain row d' where "cursorAuthorityForPrompt s b until check p now d = Inr (row, d')" by (cases x) auto
  from authority_Inr[OF this] assms show ?thesis by auto
qed blast

lemma tx_fails: "m d = Inl e \<Longrightarrow> \<exists>e'. inWriteTx s (tx_bind m f) d = (Inl e', d)"
  by (simp add: inWriteTx_def tx_bind_def)

lemma call_fails: "\<exists>e. m d = (Inl e, d) \<Longrightarrow> \<exists>e. call_bind m f d = (Inl e, d)"
  by (auto simp: call_bind_def)

text \<open>The gateway's calls, with whatever they return dropped.\<close>

definition forget :: "'a call \<Rightarrow> unit call" where
  "forget m = call_bind m (\<lambda>_. call_return ())"

definition gateway_calls :: "store \<Rightarrow> CursorRuntime \<Rightarrow> int option \<Rightarrow> CursorCheck \<Rightarrow> (nat \<Rightarrow> int) \<Rightarrow> RelayRequest \<Rightarrow> int \<Rightarrow> string
     \<Rightarrow> string \<Rightarrow> string \<Rightarrow> bool \<Rightarrow> bool \<Rightarrow> int option \<Rightarrow> string list \<Rightarrow> unit call list" where
  "gateway_calls s b until check now req cap token tool decision timeout turnOpen allowUntil tokens =
     [InsertCursorRequest s b req cap until check (now 0), forget (AckCursorDecision s b token timeout until allowUntil check now),
      forget (ClaimCursorPaneAnswer s b token decision until check now), CheckCursorAnswer s b token timeout until check now,
      ProveCursorToolRan s b token tool turnOpen check now, ProveCursorToolFailed s b token tool turnOpen check now,
      ProveCursorTurnEnded s b tokens until check now, forget (CheckCursorPrompt s b until check now),
      forget (CheckLoadedCursorPrompt s b tool until check now)]"

text \<open>
  C24. A gateway without current authority changes nothing: when its connection, launch, life,
  conversation or pane process is no longer the row's, or the row ended, or the kernel's evidence
  refuses it, every call of its permission interface fails and leaves the database as it was.
\<close>

theorem stale_gateway_changes_nothing:
  assumes "\<not> authorised b d \<or> check = None \<or> (\<exists>c e. check = Some c \<and> (\<forall>row. c row = Some e))"
    and "tokens \<noteq> []"
    and "call \<in> set (gateway_calls s b until check now req cap token tool decision timeout turnOpen allowUntil tokens)"
  shows "\<exists>e. call d = (Inl e, d)"
proof -
  note f = authority_fails[OF assms(1)]
  have g: "\<exists>e. inWriteTx s (tx_bind (cursorAuthority s b until' check now') k) d = (Inl e, d)" for k :: "Spawn \<Rightarrow> 'x tx" and until' now'
    using f[of s until' "[]" now'] tx_fails unfolding cursorAuthority_def by blast
  have p: "\<exists>e. inWriteTx s (tx_bind (cursorAuthorityForPrompt s b until' check q now') k) d = (Inl e, d)" for k :: "Spawn \<Rightarrow> 'x tx" and until' q now'
    using f[of s until' q now'] tx_fails by blast
  show ?thesis
    using assms(3) unfolding gateway_calls_def
  proof (simp, elim disjE, goal_cases)
    case 1
    then show ?case
      by (auto simp: InsertCursorRequest_def insertCursorTx_def intro!: call_fails g)
  next
    case 2
    then show ?case by (auto simp: forget_def AckCursorDecision_def ackCursorTx_def intro!: call_fails g)
  next
    case 3
    then show ?case by (auto simp: forget_def ClaimCursorPaneAnswer_def intro!: call_fails g)
  next
    case 4
    then show ?case by (auto simp: CheckCursorAnswer_def intro!: g)
  next
    case 5
    then show ?case by (auto simp: ProveCursorToolRan_def proveCursorTool_def proveCursorTx_def intro!: call_fails g)
  next
    case 6
    then show ?case by (auto simp: ProveCursorToolFailed_def proveCursorTool_def proveCursorTx_def intro!: call_fails g)
  next
    case 7
    then show ?case using assms(2) by (auto simp: ProveCursorTurnEnded_def intro!: g)
  next
    case 8
    then show ?case by (auto simp: forget_def CheckCursorPrompt_def checkCursorPrompt_def intro!: call_fails p)
  next
    case 9
    then show ?case by (auto simp: forget_def CheckLoadedCursorPrompt_def checkCursorPrompt_def intro!: call_fails p)
  qed
qed

section \<open>The acknowledgement\<close>

lemma find_the_request:
  assumes "distinct (map (\<lambda>p. (pr_instance_id p, pr_request_token p)) ps)" and "find (the_request i token) ps = Some p"
  shows "find (\<lambda>q. the_request i token q \<and> Q q) ps = (if Q p then Some p else None)"
  using assms
proof (induction ps)
  case (Cons x ps)
  show ?case
  proof (cases "the_request i token x")
    case True
    then have "\<not> the_request i token q" if "q \<in> set ps" for q
      using Cons.prems(1) that by (auto simp: the_request_def rev_image_eqI)
    then have "find (\<lambda>q. the_request i token q \<and> Q q) ps = None" by (auto simp: find_None_iff)
    with True Cons.prems(2) show ?thesis by simp
  next
    case False
    with Cons show ?thesis by simp
  qed
qed simp

lemma find_updated_request:
  assumes "find (the_request i token) ps = Some p" and "\<And>q. the_request i token (f q) = the_request i token q"
  shows "find (the_request i token) (update_where (\<lambda>q. the_request i token q \<and> Q q) f ps) = Some (if Q p then f p else p)"
  using assms(1)
proof (induction ps)
  case (Cons x ps)
  then show ?case using assms(2) by (cases "the_request i token x") (auto simp: update_where_def)
qed simp

text \<open>One guarded statement on the request of a token: what it returns and what it leaves.\<close>

lemma update_the_request:
  assumes "distinct (map (\<lambda>p. (pr_instance_id p, pr_request_token p)) (permission_requests d))"
    and "find (the_request i token) (permission_requests d) = Some p"
    and "\<And>q. P q = (the_request i token q \<and> Q q)" and "\<And>q. the_request i token (f q) = the_request i token q"
  shows "fst (update_requests P f d) = (if Q p then Some (f p) else None)"
    and "find (the_request i token) (permission_requests (snd (update_requests P f d))) = Some (if Q p then f p else p)"
proof -
  have "P = (\<lambda>q. the_request i token q \<and> Q q)" using assms(3) by blast
  then show "fst (update_requests P f d) = (if Q p then Some (f p) else None)"
    and "find (the_request i token) (permission_requests (snd (update_requests P f d))) = Some (if Q p then f p else p)"
    using find_the_request[OF assms(1,2)] find_updated_request[OF assms(2,4)] by (simp_all add: update_requests_def)
qed

text \<open>The request an acknowledgement takes and what it becomes.\<close>

definition ackedAs :: "CursorRuntime \<Rightarrow> int option \<Rightarrow> int option \<Rightarrow> (nat \<Rightarrow> int) \<Rightarrow> string \<Rightarrow> perm_row \<Rightarrow> perm_row \<Rightarrow> bool" where
  "ackedAs b until allowUntil now v p q \<longleftrightarrow>
     pr_delivered_at p = None \<and> pr_closed_at p = None \<and> pr_proven_gone_at p = None \<and> pr_pane_answer p = PaneAnswerNone
     \<and> (\<exists>t. pr_settled_at p = Some t \<and> until = Some (t * 1000000) \<and> now 1 < t * 1000000)
     \<and> pr_decision q = Some v \<and> (pr_decision p \<noteq> None \<longrightarrow> pr_decision q = pr_decision p) \<and> (pr_decision p = None \<longrightarrow> v = ''deny'')
     \<and> pr_delivered_at q \<in> {millisArg (UnixMilli (now 4)), millisArg (UnixMilli (now 5))}
     \<and> (v = ''allow'' \<longrightarrow> before (now 3) allowUntil)"

lemma scanned_open:
  assumes "stored_request p" and "\<not> unackable until now (scanPermissionRow p)"
  shows "pr_closed_at p = None \<and> pr_proven_gone_at p = None \<and> pr_pane_answer p = PaneAnswerNone
     \<and> (\<exists>t. pr_settled_at p = Some t \<and> until = Some (t * 1000000) \<and> now < t * 1000000)"
  using assms by (auto simp: unackable_def Closed_def ProvenGone_def scanPermissionRow_def stored_request_def millisTime_def split: option.splits)

text \<open>The two statements of the acknowledgement, and how the transaction runs them.\<close>

definition ackStmt :: "CursorRuntime \<Rightarrow> string \<Rightarrow> (nat \<Rightarrow> int) \<Rightarrow> db \<Rightarrow> perm_row option \<times> db" where
  "ackStmt b token now = update_requests (ackMatch (cr_InstanceID b) token) (ackSet (UnixMilli (now 5)))"

definition denyStmt :: "CursorRuntime \<Rightarrow> string \<Rightarrow> (nat \<Rightarrow> int) \<Rightarrow> db \<Rightarrow> perm_row option \<times> db" where
  "denyStmt b token now d = update_requests (timeoutMatch (cr_InstanceID b) token) (timeoutSet d (UnixMilli (now 4))) d"

definition ackOnly :: "store \<Rightarrow> CursorRuntime \<Rightarrow> string \<Rightarrow> (nat \<Rightarrow> int) \<Rightarrow> (string \<times> bool \<times> perm_row option) tx" where
  "ackOnly s b token now = tx_bind (tx_exec s ''cursor ack'' (ackStmt b token now))
     (\<lambda>hit. tx_return (case hit of None \<Rightarrow> ([], False, None) | Some p \<Rightarrow> (coalesce (pr_decision p) [], True, None)))"

lemma ackCursor_steps:
  assumes "ackCursorTx s b token timeout until allowUntil check now d = Inr (x, d')"
  shows "authorised b d
     \<and> (find (the_request (cr_InstanceID b) token) (permission_requests d) = None \<longrightarrow> (x, d') = (([], False, None), d))
     \<and> (\<forall>p. find (the_request (cr_InstanceID b) token) (permission_requests d) = Some p \<longrightarrow>
      (if unackable until (now 1) (scanPermissionRow p) then Inr (([], False, None), d)
       else if Decision (scanPermissionRow p) = ''allow'' \<and> \<not> before (now 3) allowUntil then Inr (([], False, None), d)
       else if \<not> (timeout \<or> \<not> before (now 2) allowUntil) then ackOnly s b token now d
       else tx_bind (tx_exec s ''cursor timeout deny'' (denyStmt b token now)) (\<lambda>hit.
             case hit of Some p \<Rightarrow> tx_return (''deny'', True, Some p) | None \<Rightarrow> ackOnly s b token now) d) = Inr (x, d'))"
proof -
  obtain row d0 where au: "cursorAuthority s b until check (now 0) d = Inr (row, d0)"
    using assms by (auto simp: ackCursorTx_def tx_bind_def split: sum.splits)
  from authority_Inr[OF this[unfolded cursorAuthority_def]] have a: "d0 = d" "authorised b d" by auto
  have run: "ackCursorTx s b token timeout until allowUntil check now d =
      (case GetPermissionRequest s (cr_InstanceID b) token d of
         Inl e \<Rightarrow> Inl e
       | Inr None \<Rightarrow> Inr (([], False, None), d)
       | Inr (Some pr) \<Rightarrow>
           if unackable until (now 1) pr then Inr (([], False, None), d)
           else if Decision pr = ''allow'' \<and> \<not> before (now 3) allowUntil then Inr (([], False, None), d)
           else if \<not> (timeout \<or> \<not> before (now 2) allowUntil) then ackOnly s b token now d
           else tx_bind (tx_exec s ''cursor timeout deny'' (denyStmt b token now)) (\<lambda>hit.
                 case hit of Some p \<Rightarrow> tx_return (''deny'', True, Some p) | None \<Rightarrow> ackOnly s b token now) d)"
    unfolding ackCursorTx_def Let_def tx_bind_def[of "cursorAuthority s b until check (now 0)"] au a(1) ackOnly_def ackStmt_def denyStmt_def
    by simp
  have fails: "\<not> sqlFails s ''store: get permission''"
    using assms unfolding run GetPermissionRequest_def by (auto split: if_splits)
  note res = assms[unfolded run GetPermissionRequest_def]
  show ?thesis
  proof (cases "find (the_request (cr_InstanceID b) token) (permission_requests d)")
    case None
    with res a(2) fails show ?thesis by simp
  next
    case (Some p)
    from res[unfolded Some] have "(if unackable until (now 1) (scanPermissionRow p) then Inr (([], False, None), d)
       else if Decision (scanPermissionRow p) = ''allow'' \<and> \<not> before (now 3) allowUntil then Inr (([], False, None), d)
       else if \<not> (timeout \<or> \<not> before (now 2) allowUntil) then ackOnly s b token now d
       else tx_bind (tx_exec s ''cursor timeout deny'' (denyStmt b token now)) (\<lambda>hit.
             case hit of Some p \<Rightarrow> tx_return (''deny'', True, Some p) | None \<Rightarrow> ackOnly s b token now) d) = Inr (x, d')"
      by (simp only: fails if_False sum.case option.case option.map)
    with a(2) Some show ?thesis by simp
  qed
qed

lemma ackCursor_run:
  assumes "ackCursorTx s b token timeout until allowUntil check now d = Inr ((v, True, denied), d')"
  obtains p where "authorised b d" and "find (the_request (cr_InstanceID b) token) (permission_requests d) = Some p"
    and "\<not> unackable until (now 1) (scanPermissionRow p)"
    and "\<not> (Decision (scanPermissionRow p) = ''allow'' \<and> \<not> before (now 3) allowUntil)"
    and "(if \<not> (timeout \<or> \<not> before (now 2) allowUntil) then ackOnly s b token now d
          else tx_bind (tx_exec s ''cursor timeout deny'' (denyStmt b token now)) (\<lambda>hit.
            case hit of Some p \<Rightarrow> tx_return (''deny'', True, Some p) | None \<Rightarrow> ackOnly s b token now) d) = Inr ((v, True, denied), d')"
proof (cases "find (the_request (cr_InstanceID b) token) (permission_requests d)")
  case (Some p)
  from ackCursor_steps[OF assms] have a: "authorised b d"
    and r: "(if unackable until (now 1) (scanPermissionRow p) then Inr (([], False, None), d)
       else if Decision (scanPermissionRow p) = ''allow'' \<and> \<not> before (now 3) allowUntil then Inr (([], False, None), d)
       else if \<not> (timeout \<or> \<not> before (now 2) allowUntil) then ackOnly s b token now d
       else tx_bind (tx_exec s ''cursor timeout deny'' (denyStmt b token now)) (\<lambda>hit.
             case hit of Some p \<Rightarrow> tx_return (''deny'', True, Some p) | None \<Rightarrow> ackOnly s b token now) d) = Inr ((v, True, denied), d')"
    using Some by blast+
  from r have un: "\<not> unackable until (now 1) (scanPermissionRow p)"
    and late: "\<not> (Decision (scanPermissionRow p) = ''allow'' \<and> \<not> before (now 3) allowUntil)" by (auto split: if_splits)
  from r show thesis by (intro that[OF a Some un late]) (simp only: un late if_False simp_thms)
qed (use ackCursor_steps[OF assms] in simp)

lemma ackStmt_effect:
  assumes "distinct (map (\<lambda>p. (pr_instance_id p, pr_request_token p)) (permission_requests d))"
    and "find (the_request (cr_InstanceID b) token) (permission_requests d) = Some p" and "pr_pane_answer p = PaneAnswerNone"
    and "ackOnly s b token now d = Inr ((v, True, denied), d')"
  shows "coalesce (pr_decision p) [] = v \<and> pr_decision p \<noteq> None \<and> pr_delivered_at p = None
     \<and> find (the_request (cr_InstanceID b) token) (permission_requests d') = Some (ackSet (UnixMilli (now 5)) p)"
proof -
  let ?Q = "\<lambda>q. pr_decision q \<noteq> None \<and> pr_delivered_at q = None \<and> pr_pane_answer q = PaneAnswerNone"
  have "fst (ackStmt b token now d) = (if ?Q p then Some (ackSet (UnixMilli (now 5)) p) else None)"
    "find (the_request (cr_InstanceID b) token) (permission_requests (snd (ackStmt b token now d)))
       = Some (if ?Q p then ackSet (UnixMilli (now 5)) p else p)"
    unfolding ackStmt_def by (rule update_the_request[OF assms(1,2)]; simp add: ackMatch_def ackSet_def the_request_def)+
  with assms(3,4) show ?thesis
    by (cases "ackStmt b token now d")
      (auto simp: ackOnly_def tx_bind_Inr tx_exec_Inr tx_return_def ackSet_def split: option.splits if_splits)
qed

lemma denyStmt_effect:
  assumes "distinct (map (\<lambda>p. (pr_instance_id p, pr_request_token p)) (permission_requests d))"
    and "find (the_request (cr_InstanceID b) token) (permission_requests d) = Some p" and "pr_pane_answer p = PaneAnswerNone"
  shows "pr_decision p = None \<Longrightarrow> fst (denyStmt b token now d) = Some (timeoutSet d (UnixMilli (now 4)) p)
      \<and> find (the_request (cr_InstanceID b) token) (permission_requests (snd (denyStmt b token now d))) = Some (timeoutSet d (UnixMilli (now 4)) p)"
    and "pr_decision p \<noteq> None \<Longrightarrow> denyStmt b token now d = (None, d)"
proof -
  let ?Q = "\<lambda>q. pr_decision q = None \<and> pr_pane_answer q = PaneAnswerNone"
  have e: "fst (denyStmt b token now d) = (if ?Q p then Some (timeoutSet d (UnixMilli (now 4)) p) else None)"
    "find (the_request (cr_InstanceID b) token) (permission_requests (snd (denyStmt b token now d)))
       = Some (if ?Q p then timeoutSet d (UnixMilli (now 4)) p else p)"
    unfolding denyStmt_def by (rule update_the_request[OF assms(1,2)]; simp add: timeoutMatch_def timeoutSet_def the_request_def)+
  show "pr_decision p = None \<Longrightarrow> fst (denyStmt b token now d) = Some (timeoutSet d (UnixMilli (now 4)) p)
      \<and> find (the_request (cr_InstanceID b) token) (permission_requests (snd (denyStmt b token now d))) = Some (timeoutSet d (UnixMilli (now 4)) p)"
    using e assms(3) by simp
  assume "pr_decision p \<noteq> None"
  then have f: "find (timeoutMatch (cr_InstanceID b) token) (permission_requests d) = None"
    using e(1) by (auto simp: denyStmt_def update_requests_def split: if_splits)
  then have "\<not> any_row (timeoutMatch (cr_InstanceID b) token) (permission_requests d)" by (simp add: find_None_iff)
  with f show "denyStmt b token now d = (None, d)" by (simp add: denyStmt_def update_requests_def update_where_none)
qed

lemma ackCursor_Inr:
  assumes "distinct (map (\<lambda>p. (pr_instance_id p, pr_request_token p)) (permission_requests d))"
    and "list_all stored_request (permission_requests d)" and "requests_ok d"
    and "ackCursorTx s b token timeout until allowUntil check now d = Inr ((v, True, denied), d')"
  shows "authorised b d \<and> (\<exists>p q. find (the_request (cr_InstanceID b) token) (permission_requests d) = Some p
     \<and> find (the_request (cr_InstanceID b) token) (permission_requests d') = Some q \<and> ackedAs b until allowUntil now v p q)"
proof (rule ackCursor_run[OF assms(4)])
  fix p assume a: "authorised b d" and p: "find (the_request (cr_InstanceID b) token) (permission_requests d) = Some p"
    and un: "\<not> unackable until (now 1) (scanPermissionRow p)"
    and late: "\<not> (Decision (scanPermissionRow p) = ''allow'' \<and> \<not> before (now 3) allowUntil)"
    and res: "(if \<not> (timeout \<or> \<not> before (now 2) allowUntil) then ackOnly s b token now d
          else tx_bind (tx_exec s ''cursor timeout deny'' (denyStmt b token now)) (\<lambda>hit.
            case hit of Some p \<Rightarrow> tx_return (''deny'', True, Some p) | None \<Rightarrow> ackOnly s b token now) d) = Inr ((v, True, denied), d')"
  have pin: "p \<in> set (permission_requests d)" using find_member[OF p] by simp
  then have st: "stored_request p" using assms(2) by (simp add: list_all_iff)
  note op = scanned_open[OF st un]
  have undelivered: "pr_decision p = None \<Longrightarrow> pr_delivered_at p = None"
    using assms(3) pin by (auto simp: requests_ok_def list_all_iff req_ok_def)
  have deny: "pr_decision p = None \<Longrightarrow> fst (denyStmt b token now d) = Some (timeoutSet d (UnixMilli (now 4)) p)
      \<and> find (the_request (cr_InstanceID b) token) (permission_requests (snd (denyStmt b token now d))) = Some (timeoutSet d (UnixMilli (now 4)) p)"
    and miss: "pr_decision p \<noteq> None \<Longrightarrow> denyStmt b token now d = (None, d)"
    using denyStmt_effect[OF assms(1) p] op by blast+
  consider "ackOnly s b token now d = Inr ((v, True, denied), d')"
    | "pr_decision p = None" "v = ''deny''" "d' = snd (denyStmt b token now d)"
    using res deny miss
    by (cases "pr_decision p = None"; cases "denyStmt b token now d")
      (auto simp: tx_bind_Inr[of "tx_exec s ''cursor timeout deny'' _"] tx_exec_Inr tx_return_def split: if_splits)
  then have "\<exists>q. find (the_request (cr_InstanceID b) token) (permission_requests d') = Some q \<and> ackedAs b until allowUntil now v p q"
  proof cases
    case 1
    with ackStmt_effect[OF assms(1) p _ 1] op late show ?thesis
      by (auto simp: ackedAs_def ackSet_def scanPermissionRow_def)
  next
    case 2
    with deny op undelivered show ?thesis by (auto simp: ackedAs_def timeoutSet_def)
  qed
  with p a show ?thesis by blast
qed

text \<open>
  Which requests an acknowledgement answers: open, unanswered at the pane, undelivered and before their settle
  instant; without a verdict only once the approval deadline has passed or the wait has timed out, and with a
  recorded allow only before that deadline.
\<close>

definition answerable :: "bool \<Rightarrow> int option \<Rightarrow> int option \<Rightarrow> (nat \<Rightarrow> int) \<Rightarrow> perm_row \<Rightarrow> bool" where
  "answerable timeout until allowUntil now p \<longleftrightarrow>
     pr_delivered_at p = None \<and> pr_closed_at p = None \<and> pr_proven_gone_at p = None \<and> pr_pane_answer p = PaneAnswerNone
     \<and> (\<exists>t. pr_settled_at p = Some t \<and> until = Some (t * 1000000) \<and> now 1 < t * 1000000)
     \<and> (case pr_decision p of None \<Rightarrow> timeout \<or> \<not> before (now 2) allowUntil | Some v \<Rightarrow> v \<noteq> ''allow'' \<or> before (now 3) allowUntil)"

lemma scanned_open_iff:
  assumes "stored_request p"
  shows "\<not> unackable until now (scanPermissionRow p) \<longleftrightarrow> pr_closed_at p = None \<and> pr_proven_gone_at p = None \<and> pr_pane_answer p = PaneAnswerNone
     \<and> (\<exists>t. pr_settled_at p = Some t \<and> until = Some (t * 1000000) \<and> now < t * 1000000)"
  using assms by (auto simp: unackable_def Closed_def ProvenGone_def scanPermissionRow_def stored_request_def millisTime_def split: option.splits)

lemma ackOnly_miss:
  assumes "distinct (map (\<lambda>p. (pr_instance_id p, pr_request_token p)) (permission_requests d))"
    and "find (the_request (cr_InstanceID b) token) (permission_requests d) = Some p" and "pr_decision p = None \<or> pr_delivered_at p \<noteq> None"
    and "ackOnly s b token now d = Inr ((v, acked, denied), d')"
  shows "\<not> acked \<and> v = [] \<and> d' = d"
proof -
  let ?Q = "\<lambda>q. pr_decision q \<noteq> None \<and> pr_delivered_at q = None \<and> pr_pane_answer q = PaneAnswerNone"
  have "fst (ackStmt b token now d) = (if ?Q p then Some (ackSet (UnixMilli (now 5)) p) else None)"
    unfolding ackStmt_def by (rule update_the_request(1)[OF assms(1,2)]; simp add: ackMatch_def ackSet_def the_request_def)+
  then have f: "find (ackMatch (cr_InstanceID b) token) (permission_requests d) = None"
    using assms(3) by (auto simp: ackStmt_def update_requests_def split: if_splits)
  then have "\<not> any_row (ackMatch (cr_InstanceID b) token) (permission_requests d)" by (simp add: find_None_iff)
  with f have "ackStmt b token now d = (None, d)" by (simp add: ackStmt_def update_requests_def update_where_none)
  with assms(4) show ?thesis by (auto simp: ackOnly_def tx_bind_Inr tx_exec_Inr tx_return_def)
qed

lemma ackOnly_hit:
  assumes "distinct (map (\<lambda>p. (pr_instance_id p, pr_request_token p)) (permission_requests d))"
    and "find (the_request (cr_InstanceID b) token) (permission_requests d) = Some p"
    and "pr_decision p \<noteq> None" "pr_delivered_at p = None" "pr_pane_answer p = PaneAnswerNone"
    and "ackOnly s b token now d = Inr ((v, acked, denied), d')"
  shows acked
proof -
  let ?Q = "\<lambda>q. pr_decision q \<noteq> None \<and> pr_delivered_at q = None \<and> pr_pane_answer q = PaneAnswerNone"
  have "fst (ackStmt b token now d) = (if ?Q p then Some (ackSet (UnixMilli (now 5)) p) else None)"
    unfolding ackStmt_def by (rule update_the_request(1)[OF assms(1,2)]; simp add: ackMatch_def ackSet_def the_request_def)+
  with assms(3-6) show ?thesis
    by (cases "ackStmt b token now d") (auto simp: ackOnly_def tx_bind_Inr tx_exec_Inr tx_return_def)
qed

lemma ackCursor_decides:
  assumes dist: "distinct (map (\<lambda>p. (pr_instance_id p, pr_request_token p)) (permission_requests d))"
    and stored: "list_all stored_request (permission_requests d)" and ok: "requests_ok d"
    and run: "ackCursorTx s b token timeout until allowUntil check now d = Inr ((v, acked, denied), d')"
  shows "authorised b d
     \<and> (acked \<longleftrightarrow> (\<exists>p. find (the_request (cr_InstanceID b) token) (permission_requests d) = Some p \<and> answerable timeout until allowUntil now p))
     \<and> (\<not> acked \<longrightarrow> v = [] \<and> denied = None \<and> d' = d)"
proof -
  obtain a: "authorised b d" and none: "find (the_request (cr_InstanceID b) token) (permission_requests d) = None
        \<Longrightarrow> ((v, acked, denied), d') = (([], False, None), d)"
    and some: "\<And>p. find (the_request (cr_InstanceID b) token) (permission_requests d) = Some p \<Longrightarrow>
      (if unackable until (now 1) (scanPermissionRow p) then Inr (([], False, None), d)
       else if Decision (scanPermissionRow p) = ''allow'' \<and> \<not> before (now 3) allowUntil then Inr (([], False, None), d)
       else if \<not> (timeout \<or> \<not> before (now 2) allowUntil) then ackOnly s b token now d
       else tx_bind (tx_exec s ''cursor timeout deny'' (denyStmt b token now)) (\<lambda>hit.
             case hit of Some p \<Rightarrow> tx_return (''deny'', True, Some p) | None \<Rightarrow> ackOnly s b token now) d) = Inr ((v, acked, denied), d')"
    using ackCursor_steps[OF run] by blast
  show ?thesis
  proof (cases "find (the_request (cr_InstanceID b) token) (permission_requests d)")
    case None
    with a none show ?thesis by simp
  next
    case p: (Some p)
    have pin: "p \<in> set (permission_requests d)" using find_member[OF p] by simp
    then have st: "stored_request p" using stored by (simp add: list_all_iff)
    have undelivered: "pr_decision p = None \<Longrightarrow> pr_delivered_at p = None"
      using ok pin by (auto simp: requests_ok_def list_all_iff req_ok_def)
    note res = some[OF p] and op = scanned_open_iff[OF st, of until "now 1"]
    have dec: "Decision (scanPermissionRow p) = ''allow'' \<longleftrightarrow> pr_decision p = Some ''allow''"
      by (cases "pr_decision p") (simp_all add: scanPermissionRow_def)
    consider (closed) "unackable until (now 1) (scanPermissionRow p)"
      | (late) "pr_decision p = Some ''allow''" "\<not> before (now 3) allowUntil"
      | (silent) "\<not> unackable until (now 1) (scanPermissionRow p)" "pr_decision p = None" "\<not> (timeout \<or> \<not> before (now 2) allowUntil)"
      | (deny) "\<not> unackable until (now 1) (scanPermissionRow p)" "pr_decision p = None" "timeout \<or> \<not> before (now 2) allowUntil"
      | (given) w where "\<not> unackable until (now 1) (scanPermissionRow p)" "pr_decision p = Some w" "w \<noteq> ''allow'' \<or> before (now 3) allowUntil"
      by (cases "pr_decision p") auto
    then show ?thesis
    proof cases
      case closed
      with op have "\<not> answerable timeout until allowUntil now p" unfolding answerable_def by blast
      with closed a res p show ?thesis by simp
    next
      case late
      then have "\<not> answerable timeout until allowUntil now p" by (simp add: answerable_def)
      with late dec a res p show ?thesis by (simp split: if_splits)
    next
      case silent
      then have "\<not> answerable timeout until allowUntil now p" by (auto simp: answerable_def)
      moreover have run: "ackOnly s b token now d = Inr ((v, acked, denied), d')" using silent dec res by simp
      have "\<not> acked \<and> v = [] \<and> d' = d" using ackOnly_miss[OF dist p _ run] silent(2) by blast
      moreover from this run have "denied = None" by (auto simp: ackOnly_def tx_bind_Inr tx_exec_Inr tx_return_def split: option.splits)
      ultimately show ?thesis using a p by simp
    next
      case deny
      then have "answerable timeout until allowUntil now p" using op undelivered by (auto simp: answerable_def)
      moreover have acked
        using res deny dec denyStmt_effect(1)[OF dist p _ deny(2), of now] op
        by (cases "denyStmt b token now d") (auto simp: tx_bind_Inr tx_exec_Inr tx_return_def)
      ultimately show ?thesis using a p by simp
    next
      case given
      have miss: "denyStmt b token now d = (None, d)" using denyStmt_effect(2)[OF dist p, of now] op given by auto
      have run: "ackOnly s b token now d = Inr ((v, acked, denied), d')"
        using res given dec miss by (auto simp: tx_bind_Inr[of "tx_exec _ _ _"] tx_exec_Inr split: if_splits)
      show ?thesis
      proof (cases "pr_delivered_at p = None")
        case True
        then have "answerable timeout until allowUntil now p" using op given by (auto simp: answerable_def)
        moreover have acked using ackOnly_hit[OF dist p _ True _ run] op given by simp
        ultimately show ?thesis using a p by simp
      next
        case False
        then have "\<not> answerable timeout until allowUntil now p" by (simp add: answerable_def)
        moreover have "\<not> acked \<and> v = [] \<and> d' = d" using ackOnly_miss[OF dist p _ run] False by blast
        moreover from this run have "denied = None" by (auto simp: ackOnly_def tx_bind_Inr tx_exec_Inr tx_return_def split: option.splits)
        ultimately show ?thesis using a p by simp
      qed
    qed
  qed
qed

text \<open>
  C25. What a Cursor gateway may put on the wire is committed, timely and the recorded verdict. A call that
  returns was made by the current connection. It acknowledges exactly a request that is open, undelivered,
  unanswered at the pane and before its settle instant, and whose verdict is in time: a recorded verdict other
  than allow, an allow before the approval deadline, or none at all once that deadline has passed or the wait
  timed out, which is then denied. The request records what was returned as delivered, and a verdict recorded
  earlier is the one returned. In every other case, a recorded allow past its deadline included, the call
  acknowledges nothing and leaves the requests as they were.
\<close>

theorem cursor_ack_is_timely:
  assumes "requests_ok d" and "list_all stored_request (permission_requests d)"
    and "distinct (map (\<lambda>p. (pr_instance_id p, pr_request_token p)) (permission_requests d))"
    and "AckCursorDecision s b token timeout until allowUntil check now d = (Inr (v, acked), d')"
  shows "authorised b d
     \<and> (acked \<longleftrightarrow> (\<exists>p. find (the_request (cr_InstanceID b) token) (permission_requests d) = Some p \<and> answerable timeout until allowUntil now p))
     \<and> (if acked then \<exists>p q. find (the_request (cr_InstanceID b) token) (permission_requests d) = Some p
          \<and> find (the_request (cr_InstanceID b) token) (permission_requests d') = Some q \<and> ackedAs b until allowUntil now v p q
        else v = [] \<and> d' = d)"
proof -
  obtain denied d1 where tx: "ackCursorTx s b token timeout until allowUntil check now d = Inr ((v, acked, denied), d1)"
    and d': "permission_requests d' = permission_requests d1" "denied = None \<Longrightarrow> d' = d1"
    using assms(4)
    by (auto simp: AckCursorDecision_def call_bind_Inr inWriteTx_def emitDecisionCommitted_def split: if_splits sum.splits option.splits)
  note decides = ackCursor_decides[OF assms(3,2,1) tx]
  show ?thesis
  proof (cases acked)
    case True
    with tx have "ackCursorTx s b token timeout until allowUntil check now d = Inr ((v, True, denied), d1)" by simp
    from ackCursor_Inr[OF assms(3,2,1) this] decides d' True show ?thesis by simp
  next
    case False
    with decides d' have "v = []" "d' = d" by blast+
    with False decides show ?thesis by (simp only: if_False)
  qed
qed

section \<open>One connection for each launch\<close>

definition bindings_ok :: "db \<Rightarrow> bool" where
  "bindings_ok d \<longleftrightarrow> distinct (map cr_InstanceID (cursor_runtimes d))"

lemma find_binding: "bindings_ok d \<Longrightarrow> c \<in> set (cursor_runtimes d) \<Longrightarrow> cr_InstanceID c = i
    \<Longrightarrow> find (\<lambda>c. cr_InstanceID c = i) (cursor_runtimes d) = Some c"
  unfolding bindings_ok_def by (rule find_key_unique)

text \<open>
  A launch has one connection: a registration that succeeds is for the examined pending launch
  whose pane process is the gateway and is read back as registered, with no conversation bound; once a
  connection is registered, any other registration of the same launch and life is refused and changes
  nothing.
\<close>

theorem registration_is_once_per_launch:
  assumes "quiet s" and "bindings_ok d" and "RegisterCursorRuntime s row b d = (Inr True, d1)"
  shows "(\<exists>r. r \<in> set (spawns d) \<and> registerGuard row b r) \<and> bindings_ok d1
     \<and> ReadCursorRuntime s (cr_InstanceID b) d1 = Inr (b\<lparr>cr_SessionID := [], cr_Terminated := False\<rparr>)
     \<and> (cr_InstanceID b' = cr_InstanceID b \<and> cr_Token b' = cr_Token b \<and> cr_Life b' = cr_Life b
          \<longrightarrow> RegisterCursorRuntime s row' b' d1 = (Inr False, d1))"
proof -
  let ?new = "b\<lparr>cr_SessionID := [], cr_Terminated := False\<rparr>"
  let ?old = "\<lambda>c. cr_InstanceID c = cr_InstanceID b \<and> (cr_Token c \<noteq> cr_Token b \<or> cr_Life c \<noteq> cr_Life b)"
  have st: "registerStmt row b d = (True, d1)"
    using assms(1,3) by (auto simp: RegisterCursorRuntime_def execCursorRuntime_def dbExec_def split: if_splits prod.splits)
  then have g: "\<exists>r. r \<in> set (spawns d) \<and> registerGuard row b r"
    by (auto simp: registerStmt_def split: if_splits)
  have sp: "spawns d1 = spawns d"
    using st by (auto simp: registerStmt_def update_runtimes_def Let_def split: if_splits)
  have cases: "(\<exists>c \<in> set (cursor_runtimes d). ?old c) \<and> cursor_runtimes d1 = update_where ?old (\<lambda>_. ?new) (cursor_runtimes d)
      \<or> (\<forall>c \<in> set (cursor_runtimes d). cr_InstanceID c \<noteq> cr_InstanceID b) \<and> cursor_runtimes d1 = cursor_runtimes d @ [?new]"
    using st by (auto simp: registerStmt_def update_runtimes_def Let_def split: if_splits)
  have keys: "map cr_InstanceID (update_where ?old (\<lambda>_. ?new) cs) = map cr_InstanceID cs" for cs
    by (rule map_update_where_key) simp
  have ok1: "bindings_ok d1"
    using cases
  proof (elim disjE conjE)
    assume "cursor_runtimes d1 = update_where ?old (\<lambda>_. ?new) (cursor_runtimes d)"
    then have "map cr_InstanceID (cursor_runtimes d1) = map cr_InstanceID (cursor_runtimes d)" by (simp only: keys)
    with assms(2) show ?thesis by (simp add: bindings_ok_def)
  next
    assume "\<forall>c \<in> set (cursor_runtimes d). cr_InstanceID c \<noteq> cr_InstanceID b" "cursor_runtimes d1 = cursor_runtimes d @ [?new]"
    with assms(2) show ?thesis by (fastforce simp: bindings_ok_def)
  qed
  have "?new \<in> set (cursor_runtimes d1)" using cases by (auto simp: set_update_where image_iff)
  with ok1 have read: "find (\<lambda>c. cr_InstanceID c = cr_InstanceID b) (cursor_runtimes d1) = Some ?new"
    by (intro find_binding) simp_all
  have same: "\<not> ?old c" if "c \<in> set (cursor_runtimes d1)" for c
    using find_binding[OF ok1 that] read by auto
  have refused: "RegisterCursorRuntime s row' b' d1 = (Inr False, d1)"
    if "cr_InstanceID b' = cr_InstanceID b \<and> cr_Token b' = cr_Token b \<and> cr_Life b' = cr_Life b"
  proof -
    have "registerStmt row' b' d1 = (False, d1)"
      using that same find_member[OF read]
      by (auto simp: registerStmt_def update_runtimes_def Let_def update_where_none)
    then show ?thesis
      using assms(1) by (simp add: RegisterCursorRuntime_def execCursorRuntime_def dbExec_def call_return_def)
  qed
  show ?thesis using g ok1 read refused assms(1) by (simp add: ReadCursorRuntime_def)
qed

section \<open>Prompts\<close>

text \<open>
  A prompt is admitted only when nothing is open: the check says yes only to the current
  connection, before its deadline, when no request of the row still holds a dialog of this launch; a
  pending row passes only for the transcript the gateway loaded.
\<close>

theorem prompt_admitted_only_without_dialogs:
  assumes "checkCursorPrompt s b until check path now d = (Inr True, d')"
  shows "d' = d \<and> authorised b d \<and> before (now 1) until
     \<and> (\<exists>r. find_spawn d (cr_InstanceID b) = Some r \<and> (s_state r = StatePending \<longrightarrow> path \<noteq> [] \<and> s_jsonl_path r = Some path))
     \<and> list_all (\<lambda>p. pr_instance_id p = cr_InstanceID b \<longrightarrow> \<not> cursorHoldsDialog (cr_Token b) p) (permission_requests d)"
proof -
  obtain row d0 where au: "cursorAuthorityForPrompt s b until check path (now 0) d = Inr (row, d0)"
    using assms by (auto simp: checkCursorPrompt_def inWriteTx_def tx_bind_def split: if_splits sum.splits)
  from authority_Inr[OF this] obtain r where d0: "d0 = d" "authorised b d"
    and r: "find_spawn d (cr_InstanceID b) = Some r" "row = scanSpawn r" "currentLaunch b r"
      "s_state r = StatePending \<longrightarrow> path \<noteq> [] \<and> s_jsonl_path r = Some path" by blast
  have tok: "li_Token (sp_Identity row) = cr_Token b" using r by (simp add: scanSpawn_def currentLaunch_def)
  show ?thesis
    using assms au d0 r tok
    by (auto simp: checkCursorPrompt_def inWriteTx_def tx_bind_def list_all_iff filter_empty_conv split: if_splits sum.splits)
qed

section \<open>Rotation\<close>

lemma rotateTx_run:
  assumes "rotateTx s examined g b sid path until check now d = Inr (x, d')"
  obtains r v d1 d2 where "find_spawn d (cr_InstanceID b) = Some r" and "currentLaunch b r" and "authorised b d"
    and "length (filter (currentBinding b) (cursor_runtimes d)) = 1"
    and "\<not> rotationChanged examined g b path (scanSpawn r)"
    and "v = (if any_row (\<lambda>r. s_instance_id r = cr_InstanceID b \<and> \<not> noRequestHoldsRow d r) (spawns d) then StateCheckPermission else StateWaiting)"
    and "guarded (cr_InstanceID b) (\<lambda>r. hookGate d g r \<and> snapshotMatch (sp_Snapshot examined) r) (rotateSet s v sid path) d = (True, d1)"
    and "d2 = snd (update_runtimes (currentBinding b) (\<lambda>c. c\<lparr>cr_SessionID := sid\<rparr>)
           (upsertSessionHistoryEntry (cr_InstanceID b) (cr_SessionID b) (sp_JSONLPath (scanSpawn r)) (cr_Life b) d1))"
    and "refreshFamiliesAfterStateChange s (s_state r) v ([] :: unit list) d2 = Inr ((), d')"
    and "before (now 2) until"
proof -
  obtain row d0 where au: "cursorAuthority s b until check (now 1) d = Inr (row, d0)"
    using assms unfolding rotateTx_def tx_bind_def[of "cursorAuthority s b until check (now 1)"] by (auto split: sum.splits)
  from authority_Inr[OF this[unfolded cursorAuthority_def]] obtain r where d0: "d0 = d" and
    r: "find_spawn d (cr_InstanceID b) = Some r" "row = scanSpawn r" "currentLaunch b r" "authorised b d"
      "length (filter (currentBinding b) (cursor_runtimes d)) = 1" by blast
  have st: "sp_State row = s_state r" by (simp add: r scanSpawn_def)
  note run = assms[unfolded rotateTx_def tx_bind_def[of "cursorAuthority s b until check (now 1)"] au d0 sum.case prod.case]
  have same: "\<not> rotationChanged examined g b path row" using run by (auto split: if_splits)
  note run1 = run[unfolded if_not_P[OF same]]
  show ?thesis
    using run1 same
    by (auto simp: tx_bind_Inr tx_exec_Inr tx_return_def Let_def r(2) st[unfolded r(2)] update_runtimes_def split: if_splits
        intro!: that[OF r(1,3-5)])
qed

text \<open>
  What a rotation does: the row, the binding and the archive move together, no request changes, the
  new conversation has the authority and the outgoing one has lost it.
\<close>

definition rotated :: "CursorRuntime \<Rightarrow> string \<Rightarrow> db \<Rightarrow> db \<Rightarrow> bool" where
  "rotated b sid d d' \<longleftrightarrow> authorised b d \<and> \<not> authorised b d' \<and> authorised (b\<lparr>cr_SessionID := sid\<rparr>) d'
     \<and> (\<exists>r r'. find_spawn d (cr_InstanceID b) = Some r \<and> find_spawn d' (cr_InstanceID b) = Some r'
          \<and> s_session_id r' = Some sid \<and> s_row_version r' = s_row_version r + 1
          \<and> s_state r' = (if noRequestHoldsRow d r then StateWaiting else StateCheckPermission))
     \<and> any_row (\<lambda>h. h_instance_id h = cr_InstanceID b \<and> h_session_id h = cr_SessionID b \<and> h_life_number h = cr_Life b) (session_history d')
     \<and> permission_requests d' = permission_requests d"

lemma refreshRow_family: "\<exists>x y. refreshRow tw now v r = r\<lparr>s_family_settled_state := x, s_family_changed_ms := y, s_family_state := v\<rparr>"
proof (cases "s_family_state r = v")
  case True
  then have "refreshRow tw now v r = r\<lparr>s_family_settled_state := s_family_settled_state r, s_family_changed_ms := s_family_changed_ms r,
      s_family_state := v\<rparr>"
    by (simp add: refreshRow_def)
  then show ?thesis by blast
next
  case False
  then show ?thesis by (auto simp: refreshRow_def)
qed

lemma refreshAfter_tables:
  assumes "refreshFamiliesAfterStateChange s a v (ex :: unit list) d = Inr (u, d')"
  shows "permission_requests d' = permission_requests d" "session_history d' = session_history d" "cursor_runtimes d' = cursor_runtimes d"
    and "find_spawn d i = Some r \<Longrightarrow> \<exists>x y z. find_spawn d' i = Some (r\<lparr>s_family_settled_state := x, s_family_changed_ms := y, s_family_state := z\<rparr>)"
proof -
  show "permission_requests d' = permission_requests d" "session_history d' = session_history d" "cursor_runtimes d' = cursor_runtimes d"
    using assms by (auto simp: refreshFamiliesAfterStateChange_def tx_return_def refreshFamilies_def tx_exec_Inr Let_def split: if_splits)
  assume f: "find_spawn d i = Some r"
  have same: "r = r\<lparr>s_family_settled_state := s_family_settled_state r, s_family_changed_ms := s_family_changed_ms r, s_family_state := s_family_state r\<rparr>"
    by simp
  consider "d' = d" | "find_spawn d' i = Some (refreshRow (settleMs s) (sql_now_ms d) (familyAggregate (spawns d) (s_instance_id r)) r)"
    using assms f
    by (auto simp: refreshFamiliesAfterStateChange_def tx_return_def refreshFamilies_def tx_exec_Inr Let_def find_spawn_def find_map_key
        split: if_splits)
  then show "\<exists>x y z. find_spawn d' i = Some (r\<lparr>s_family_settled_state := x, s_family_changed_ms := y, s_family_state := z\<rparr>)"
  proof cases
    case 1
    with f same show ?thesis by metis
  next
    case 2
    then show ?thesis using refreshRow_family by metis
  qed
qed

lemma upsert_frames [simp]:
  "spawns (upsertSessionHistoryEntry i sid p life d) = spawns d"
  "permission_requests (upsertSessionHistoryEntry i sid p life d) = permission_requests d"
  "cursor_runtimes (upsertSessionHistoryEntry i sid p life d) = cursor_runtimes d"
  "find_spawn (upsertSessionHistoryEntry i sid p life d) = find_spawn d"
  by (simp_all add: upsertSessionHistoryEntry_def Let_def find_spawn_def fun_eq_iff)

lemma upsert_archives_outgoing:
  assumes "p \<noteq> []"
  shows "any_row (\<lambda>h. h_instance_id h = i \<and> h_session_id h = sid \<and> h_life_number h = life \<and> h_jsonl_path h = Some p)
     (session_history (upsertSessionHistoryEntry i sid p life d))"
proof (cases "any_row (\<lambda>h. h_instance_id h = i \<and> h_session_id h = sid) (session_history d)")
  case True
  let ?f = "\<lambda>h. h\<lparr>h_jsonl_path := Some p, h_life_number := life, h_recorded_at := sql_now_text d\<rparr>"
  obtain h where h: "h \<in> set (session_history d)" "h_instance_id h = i \<and> h_session_id h = sid" using True by auto
  have "session_history (upsertSessionHistoryEntry i sid p life d)
      = update_where (\<lambda>h. h_instance_id h = i \<and> h_session_id h = sid) ?f (session_history d)"
    using True assms by (simp add: upsertSessionHistoryEntry_def Let_def nullableStringArg_def cong: if_cong)
  moreover have "?f h \<in> set (update_where (\<lambda>h. h_instance_id h = i \<and> h_session_id h = sid) ?f (session_history d))"
    using h by (intro update_where_hit) simp_all
  ultimately show ?thesis using h(2) by (auto intro!: bexI[of _ "?f h"])
next
  case False
  then show ?thesis using assms by (auto simp: upsertSessionHistoryEntry_def Let_def nullableStringArg_def)
qed

lemma rotateSet_fields [simp]:
  "s_session_id (rotateSet s v sid p d r) = Some sid" "s_agent (rotateSet s v sid p d r) = s_agent r"
  "s_launch_token (rotateSet s v sid p d r) = s_launch_token r" "s_life_number (rotateSet s v sid p d r) = s_life_number r"
  "s_pane_pid (rotateSet s v sid p d r) = s_pane_pid r" "s_pane_starttime (rotateSet s v sid p d r) = s_pane_starttime r"
  "s_row_version (rotateSet s v sid p d r) = s_row_version r + 1" "s_jsonl_path (rotateSet s v sid p d r) = Some p"
  "s_tmux_socket (rotateSet s v sid p d r) = s_tmux_socket r" "s_tmux_server_pid (rotateSet s v sid p d r) = s_tmux_server_pid r"
  "s_tmux_server_started (rotateSet s v sid p d r) = s_tmux_server_started r"
  "s_tmux_server_starttime (rotateSet s v sid p d r) = s_tmux_server_starttime r" "s_pane_id (rotateSet s v sid p d r) = s_pane_id r"
  "s_instance_id (rotateSet s v sid p d r) = s_instance_id r" "s_state (rotateSet s v sid p d r) = v"
  by (simp_all add: rotateSet_def livenessClear_def launchStartClear_def rowVersionAdvance_def hookWriteStateSet_def hookStateSet_def
      immediateStateSet_def immediateSettleSet_def)

text \<open>The database a rotation's transaction leaves.\<close>

lemma rotateTx_effect:
  assumes "distinct (map s_instance_id (spawns d))" and "path \<noteq> []" and "rotateTx s examined g b sid path until check now d = Inr (x, d')"
  obtains r v x y z where "find_spawn d (cr_InstanceID b) = Some r" and "currentLaunch b r" and "authorised b d"
    and "length (filter (currentBinding b) (cursor_runtimes d)) = 1" and "\<not> rotationChanged examined g b path (scanSpawn r)"
    and "v = (if noRequestHoldsRow d r then StateWaiting else StateCheckPermission)" and "hookGate d g r"
    and "find_spawn d' (cr_InstanceID b)
        = Some ((rotateSet s v sid path d r)\<lparr>s_family_settled_state := x, s_family_changed_ms := y, s_family_state := z\<rparr>)"
    and "cursor_runtimes d' = update_where (currentBinding b) (\<lambda>c. c\<lparr>cr_SessionID := sid\<rparr>) (cursor_runtimes d)"
    and "any_row (\<lambda>h. h_instance_id h = cr_InstanceID b \<and> h_session_id h = cr_SessionID b \<and> h_life_number h = cr_Life b
           \<and> h_jsonl_path h = Some path) (session_history d')"
    and "permission_requests d' = permission_requests d"
proof (rule rotateTx_run[OF assms(3)])
  fix r v d1 d2
  assume r: "find_spawn d (cr_InstanceID b) = Some r" "currentLaunch b r" "authorised b d" "length (filter (currentBinding b) (cursor_runtimes d)) = 1"
    and same: "\<not> rotationChanged examined g b path (scanSpawn r)"
    and v: "v = (if any_row (\<lambda>r. s_instance_id r = cr_InstanceID b \<and> \<not> noRequestHoldsRow d r) (spawns d) then StateCheckPermission else StateWaiting)"
    and w: "guarded (cr_InstanceID b) (\<lambda>r. hookGate d g r \<and> snapshotMatch (sp_Snapshot examined) r) (rotateSet s v sid path) d = (True, d1)"
    and d2: "d2 = snd (update_runtimes (currentBinding b) (\<lambda>c. c\<lparr>cr_SessionID := sid\<rparr>)
           (upsertSessionHistoryEntry (cr_InstanceID b) (cr_SessionID b) (sp_JSONLPath (scanSpawn r)) (cr_Life b) d1))"
    and ref: "refreshFamiliesAfterStateChange s (s_state r) v ([] :: unit list) d2 = Inr ((), d')"
  have path: "sp_JSONLPath (scanSpawn r) = path" using same by (simp add: rotationChanged_def)
  have one: "q = r" if "q \<in> set (spawns d)" "s_instance_id q = cr_InstanceID b" for q
    using the_row[OF assms(1) r(1) that] .
  then have v': "v = (if noRequestHoldsRow d r then StateWaiting else StateCheckPermission)"
    using v find_spawn_Some[OF r(1)] by auto
  have gate: "hookGate d g r" and d1: "d1 = d\<lparr>spawns := update_where (\<lambda>q. s_instance_id q = cr_InstanceID b) (rotateSet s v sid path d) (spawns d)\<rparr>"
    using w update_the_row[OF assms(1) r(1), of "\<lambda>r. hookGate d g r \<and> snapshotMatch (sp_Snapshot examined) r"]
    by (auto simp: guarded_def split: if_splits)
  have f1: "find_spawn d1 (cr_InstanceID b) = Some (rotateSet s v sid path d r)"
    using r(1) find_spawn_Some[OF r(1)] by (simp add: d1 find_spawn_def find_update_where)
  have d2': "find_spawn d2 = find_spawn d1" "cursor_runtimes d2 = update_where (currentBinding b) (\<lambda>c. c\<lparr>cr_SessionID := sid\<rparr>) (cursor_runtimes d)"
    "permission_requests d2 = permission_requests d"
    "session_history d2 = session_history (upsertSessionHistoryEntry (cr_InstanceID b) (cr_SessionID b) path (cr_Life b) d1)"
    by (simp_all add: d2 path update_runtimes_def d1 find_spawn_def fun_eq_iff)
  note tabs = refreshAfter_tables[OF ref]
  obtain x y z where f: "find_spawn d' (cr_InstanceID b)
        = Some ((rotateSet s v sid path d r)\<lparr>s_family_settled_state := x, s_family_changed_ms := y, s_family_state := z\<rparr>)"
    using tabs(4)[of "cr_InstanceID b"] f1 d2'(1) by (metis (no_types))
  have arch: "any_row (\<lambda>h. h_instance_id h = cr_InstanceID b \<and> h_session_id h = cr_SessionID b \<and> h_life_number h = cr_Life b
           \<and> h_jsonl_path h = Some path) (session_history d')"
    unfolding tabs(2) d2'(4) by (rule upsert_archives_outgoing[OF assms(2)])
  show thesis
    by (rule that[OF r same v' gate f _ arch]) (simp_all only: tabs(1,3) d2'(2,3))
qed

lemma rotateTx_rotated:
  assumes "distinct (map s_instance_id (spawns d))" and "path \<noteq> []" and "sid \<noteq> []" and "sid \<noteq> cr_SessionID b"
    and "rotateTx s examined g b sid path until check now d = Inr (x, d')"
  shows "rotated b sid d d'"
proof (rule rotateTx_effect[OF assms(1,2,5)])
  fix r v x y z
  let ?r' = "(rotateSet s v sid path d r)\<lparr>s_family_settled_state := x, s_family_changed_ms := y, s_family_state := z\<rparr>"
  assume r: "find_spawn d (cr_InstanceID b) = Some r" "currentLaunch b r" "authorised b d"
    and v: "v = (if noRequestHoldsRow d r then StateWaiting else StateCheckPermission)"
    and f: "find_spawn d' (cr_InstanceID b) = Some ?r'"
    and rt: "cursor_runtimes d' = update_where (currentBinding b) (\<lambda>c. c\<lparr>cr_SessionID := sid\<rparr>) (cursor_runtimes d)"
    and h: "any_row (\<lambda>h. h_instance_id h = cr_InstanceID b \<and> h_session_id h = cr_SessionID b \<and> h_life_number h = cr_Life b
           \<and> h_jsonl_path h = Some path) (session_history d')"
    and pr: "permission_requests d' = permission_requests d"
  obtain c where c: "c \<in> set (cursor_runtimes d)" "currentBinding b c" using r(3) by (auto simp: authorised_def)
  have "c\<lparr>cr_SessionID := sid\<rparr> \<in> set (cursor_runtimes d')"
    unfolding rt using c by (intro update_where_hit[where f = "\<lambda>c. c\<lparr>cr_SessionID := sid\<rparr>"]) simp_all
  moreover have "currentBinding (b\<lparr>cr_SessionID := sid\<rparr>) (c\<lparr>cr_SessionID := sid\<rparr>)"
    using c(2) by (simp add: currentBinding_def cursorBindingMatch_def)
  moreover have "currentLaunch (b\<lparr>cr_SessionID := sid\<rparr>) ?r'"
    using r(2) by (simp add: currentLaunch_def lifeIdentity_def v isTerminalState_def)
  ultimately have new: "authorised (b\<lparr>cr_SessionID := sid\<rparr>) d'"
    using f assms(3) r(3) by (auto simp: authorised_def)
  have "\<not> currentLaunch b ?r'" using assms(4) by (simp add: currentLaunch_def)
  then have old: "\<not> authorised b d'" using f by (simp add: authorised_def)
  show ?thesis
    unfolding rotated_def using r f v h pr new old by auto
qed

lemma RotateCursorSession_run:
  assumes "g_Cursor g = Some b"
  shows "RotateCursorSession s examined g sid path until check now d =
    (if cr_Terminated b \<or> g_SessionID g \<noteq> cr_SessionID b \<or> \<not> validNextSession sid \<or> sid = g_SessionID g \<or> path = [] \<or> \<not> before (now 0) until
     then (Inl (CheckFailed ''store: invalid Cursor rotation''), d)
     else case inWriteTx s (rotateTx s examined g b sid path until check now) d of
         (Inl e, d1) \<Rightarrow> (Inl e, d1)
       | (Inr (prior, v), d1) \<Rightarrow> (Inr True, emit (transitionEvent (cr_InstanceID b) prior v ''SessionStart'' False)
            (emit (''ad.session.archived'', [(''instance_id'', TS (cr_InstanceID b)), (''prior_session_id'', TS (cr_SessionID b)),
               (''new_session_id'', TS sid), (''source'', TS ''ad_spawn_store'')]) d1)))"
  using assms by (auto simp: RotateCursorSession_def call_bind_def split: prod.splits sum.splits)

lemma rotated_emit [simp]: "rotated b sid d (emit e d') = rotated b sid d d'"
  by (simp add: rotated_def authorised_def)

text \<open>
  C26. A Cursor rotation is all or nothing: unless its commit is unconfirmed, an error leaves the
  database as it was; a reported rotation moved the row and its binding to the new conversation,
  archived the outgoing one under its life, left every request alone (a held row stays in
  check_permission), and from then on the new conversation has the gateway's authority and the
  outgoing one has none.
\<close>

theorem rotation_moves_conversation_whole:
  assumes "rows_ok d" and "g_Cursor g = Some b"
  shows "case RotateCursorSession s examined g sid path until check now d of
      (Inl e, d1) \<Rightarrow> d1 = d \<or> e = ErrCommitUnconfirmed \<and> rotated b sid d d1
    | (Inr done, d1) \<Rightarrow> done \<and> rotated b sid d d1"
proof -
  have dist: "distinct (map s_instance_id (spawns d))" using assms(1) by (simp add: rows_ok_def)
  show ?thesis
    unfolding RotateCursorSession_run[OF assms(2)]
    by (auto simp: inWriteTx_def validNextSession_def split: sum.splits intro!: rotateTx_rotated[OF dist, where s = s
          and examined = examined and g = g and path = path and until = until and check = check and now = now])
qed

section \<open>An unconfirmed rotation\<close>

text \<open>Every column of the launch identity is recorded.\<close>

definition identityRecorded :: "spawn_row \<Rightarrow> bool" where
  "identityRecorded r \<longleftrightarrow> s_tmux_socket r \<noteq> None \<and> s_tmux_server_pid r \<noteq> None \<and> s_tmux_server_started r \<noteq> None
     \<and> s_tmux_server_starttime r \<noteq> None \<and> s_pane_id r \<noteq> None"

lemma one_binding:
  assumes "bindings_ok d" and "length (filter (currentBinding b) (cursor_runtimes d)) = 1"
  obtains c where "c \<in> set (cursor_runtimes d)" and "currentBinding b c"
    and "\<And>c'. c' \<in> set (cursor_runtimes d) \<Longrightarrow> cursorBindingMatch b c' \<Longrightarrow> c' = c"
proof -
  obtain c where c: "c \<in> set (cursor_runtimes d)" "currentBinding b c"
    using assms(2) by (cases "filter (currentBinding b) (cursor_runtimes d) = []") (auto simp: filter_empty_conv)
  moreover have "c' = c" if "c' \<in> set (cursor_runtimes d)" "cursorBindingMatch b c'" for c'
    using assms(1) c that by (auto simp: bindings_ok_def distinct_map inj_on_def currentBinding_def cursorBindingMatch_def)
  ultimately show thesis using that by blast
qed

lemma rotationBinding_row:
  assumes "currentLaunch b r" and "hookGate d g r" and "g_Cursor g = Some b" and "identityRecorded r" and "currentBinding b c"
    and "\<not> rotationChanged examined g b path (scanSpawn r)" and "path \<noteq> []"
  shows "rotationBinding b examined path c r" and "rotationBinding b examined path (c\<lparr>cr_SessionID := sid\<rparr>)
     ((rotateSet s v sid path d r)\<lparr>s_family_settled_state := x, s_family_changed_ms := y, s_family_state := z\<rparr>)"
proof -
  have agent: "s_agent r = AgentCursor" using assms(1) by (simp add: currentLaunch_def)
  have gate: "s_launch_token r = Some (cr_Token b)" "s_pane_pid r = Some (cr_GatewayPID b)" "s_pane_starttime r = Some (cr_GatewayStart b)"
    using assms(2,3) agent by (auto simp: hookGate_iff cursorGate_def cursorBindingMatch_def)
  have ident: "sp_Identity examined = lifeIdentity r" "sp_LifeNumber examined = s_life_number r" "s_jsonl_path r = Some path"
    using assms(6,7) by (auto simp: rotationChanged_def scanSpawn_def coalesce_def split: option.splits)
  have tok: "li_Token (lifeIdentity r) = cr_Token b" using assms(1) by (simp add: currentLaunch_def)
  have cols: "s_tmux_socket r = Some (li_Socket (lifeIdentity r))" "s_tmux_server_pid r = Some (li_ServerPID (lifeIdentity r))"
    "s_tmux_server_started r = Some (li_ServerStart (lifeIdentity r))" "s_tmux_server_starttime r = Some (li_ServerStarttime (lifeIdentity r))"
    "s_pane_id r = Some (li_PaneID (lifeIdentity r))" "li_PanePID (lifeIdentity r) = cr_GatewayPID b" "li_PaneStarttime (lifeIdentity r) = cr_GatewayStart b"
    using assms(4) gate by (auto simp: identityRecorded_def lifeIdentity_def)
  have c: "cr_InstanceID c = s_instance_id r" "cursorBindingMatch b c" "\<not> cr_Terminated c"
    using assms(1,5) by (auto simp: currentBinding_def cursorBindingMatch_def currentLaunch_def)
  then have c': "cursorBindingMatch b (c\<lparr>cr_SessionID := sid\<rparr>)" by (simp add: cursorBindingMatch_def)
  show "rotationBinding b examined path c r"
    unfolding rotationBinding_def Let_def ident(1,2) using c agent ident(3) gate tok cols by simp
  show "rotationBinding b examined path (c\<lparr>cr_SessionID := sid\<rparr>)
     ((rotateSet s v sid path d r)\<lparr>s_family_settled_state := x, s_family_changed_ms := y, s_family_state := z\<rparr>)"
    unfolding rotationBinding_def Let_def ident(1,2) using c c' agent gate tok cols by simp
qed

lemma reconcile_rotation:
  assumes "rows_ok d" and "bindings_ok d" and "quiet s'" and "g_Cursor g = Some b" and "path \<noteq> []" and "sid \<noteq> cr_SessionID b"
    and "rotateTx s examined g b sid path until check now d = Inr (x, d')"
    and "find_spawn d (cr_InstanceID b) = Some r0" and "identityRecorded r0"
    and "\<not> any_row (\<lambda>h. h_instance_id h = cr_InstanceID b \<and> h_session_id h = cr_SessionID b \<and> h_life_number h = cr_Life b) (session_history d)"
  shows "ReconcileCursorRotation s' b examined sid path d = Inr (False, True)"
    and "ReconcileCursorRotation s' b examined sid path d' = Inr (True, False)"
proof -
  have dist: "distinct (map s_instance_id (spawns d))" using assms(1) by (simp add: rows_ok_def)
  obtain r v x y z where f: "find_spawn d (cr_InstanceID b) = Some r" and launch: "currentLaunch b r" and au: "authorised b d"
    and n: "length (filter (currentBinding b) (cursor_runtimes d)) = 1" and same: "\<not> rotationChanged examined g b path (scanSpawn r)"
    and gate: "hookGate d g r"
    and f': "find_spawn d' (cr_InstanceID b)
        = Some ((rotateSet s v sid path d r)\<lparr>s_family_settled_state := x, s_family_changed_ms := y, s_family_state := z\<rparr>)"
    and rt: "cursor_runtimes d' = update_where (currentBinding b) (\<lambda>c. c\<lparr>cr_SessionID := sid\<rparr>) (cursor_runtimes d)"
    and h: "any_row (\<lambda>h. h_instance_id h = cr_InstanceID b \<and> h_session_id h = cr_SessionID b \<and> h_life_number h = cr_Life b
           \<and> h_jsonl_path h = Some path) (session_history d')"
    by (rule rotateTx_effect[OF dist assms(5,7)])
  let ?r' = "(rotateSet s v sid path d r)\<lparr>s_family_settled_state := x, s_family_changed_ms := y, s_family_state := z\<rparr>"
  have rec: "identityRecorded r" using f assms(8,9) by simp
  obtain c where c: "c \<in> set (cursor_runtimes d)" "currentBinding b c"
    and one: "\<And>c'. c' \<in> set (cursor_runtimes d) \<Longrightarrow> cursorBindingMatch b c' \<Longrightarrow> c' = c"
    using one_binding[OF assms(2) n] by metis
  note bind = rotationBinding_row(1)[OF launch gate assms(4) rec c(2) same assms(5)]
    rotationBinding_row(2)[OF launch gate assms(4) rec c(2) same assms(5), where sid = sid and s = s and v = v and x = x and y = y and z = z]
  have cs: "cr_SessionID c = cr_SessionID b" "cr_InstanceID c = cr_InstanceID b" using c(2) by (simp_all add: currentBinding_def cursorBindingMatch_def)
  have sess: "s_session_id r = Some (cr_SessionID b)"
    using launch au by (auto simp: currentLaunch_def authorised_def coalesce_def split: option.splits)
  have snap: "snapshotMatch (sp_Snapshot examined) r"
    using same by (simp add: rotationChanged_def scanSpawn_def snapshotMatch_life)
  have r: "r \<in> set (spawns d)" "?r' \<in> set (spawns d')" using find_spawn_Some[OF f] find_spawn_Some[OF f'] by simp_all
  have "\<not> bindingWhere (\<lambda>c r. rotationBinding b examined path c r \<and> cr_SessionID c = sid \<and> Q c r) d" for Q
    using one cs(1) assms(6) by (fastforce simp: bindingWhere_def rotationBinding_def Let_def)
  moreover have "bindingWhere (\<lambda>c r. rotationBinding b examined path c r \<and> cr_SessionID c = cr_SessionID b
           \<and> where_true (sql_eq (s_session_id r) (Some (cr_SessionID b))) \<and> snapshotMatch (sp_Snapshot examined) r
           \<and> \<not> any_row (\<lambda>h. h_instance_id h = cr_InstanceID c \<and> h_session_id h = cr_SessionID b
                \<and> h_life_number h = cr_Life b) (session_history d)) d"
    unfolding bindingWhere_def any_row_iff[of _ "cursor_runtimes d"] any_row_iff[of _ "spawns d"]
    using bind(1) cs sess snap assms(10) by (intro bexI[OF _ c(1)] bexI[OF _ r(1)]) simp
  ultimately show "ReconcileCursorRotation s' b examined sid path d = Inr (False, True)"
    using assms(3) by (simp add: ReconcileCursorRotation_def)
  have c': "c\<lparr>cr_SessionID := sid\<rparr> \<in> set (cursor_runtimes d')"
    unfolding rt using c by (intro update_where_hit[where f = "\<lambda>c. c\<lparr>cr_SessionID := sid\<rparr>"]) simp_all
  have one': "cr_SessionID c' = sid" if "c' \<in> set (cursor_runtimes d')" "cursorBindingMatch b c'" for c'
    using that c(2) one unfolding rt by (auto simp: set_update_where cursorBindingMatch_def split: if_splits)
  have "bindingWhere (\<lambda>c r. rotationBinding b examined path c r \<and> cr_SessionID c = sid
           \<and> where_true (sql_eq (s_session_id r) (Some sid))
           \<and> any_row (\<lambda>h. h_instance_id h = cr_InstanceID c \<and> h_session_id h = cr_SessionID b
                \<and> h_life_number h = cr_Life b \<and> where_true (sql_eq (h_jsonl_path h) (Some path))) (session_history d')) d'"
    unfolding bindingWhere_def any_row_iff[of _ "cursor_runtimes d'"] any_row_iff[of _ "spawns d'"]
    using bind(2) cs h by (intro bexI[OF _ c'] bexI[OF _ r(2)]) auto
  moreover have "\<not> bindingWhere (\<lambda>c r. rotationBinding b examined path c r \<and> cr_SessionID c = cr_SessionID b \<and> Q c r) d'" for Q
    using one' assms(6) by (fastforce simp: bindingWhere_def rotationBinding_def Let_def)
  ultimately show "ReconcileCursorRotation s' b examined sid path d' = Inr (True, False)"
    using assms(3) by (simp add: ReconcileCursorRotation_def)
qed

text \<open>Only the commit leaves its outcome open.\<close>

definition tx_confirmed :: "'a tx \<Rightarrow> bool" where
  "tx_confirmed t \<longleftrightarrow> (\<forall>d. t d \<noteq> Inl ErrCommitUnconfirmed)"

lemma confirmed_bind: "tx_confirmed m \<Longrightarrow> (\<And>a. tx_confirmed (f a)) \<Longrightarrow> tx_confirmed (tx_bind m f)"
  by (auto simp: tx_confirmed_def tx_bind_def split: sum.splits)

lemma confirmed_if: "tx_confirmed x \<Longrightarrow> tx_confirmed y \<Longrightarrow> tx_confirmed (if b then x else y)"
  by simp

lemma confirmed_steps: "tx_confirmed (tx_exec s what stmt)" "tx_confirmed (tx_return a)" "tx_confirmed (\<lambda>_. Inl (CheckFailed why))"
  "tx_confirmed (refreshFamiliesAfterStateChange s a' v ex)" "tx_confirmed (cursorAuthority s b until (Some (\<lambda>_. None)) t)"
  by (auto simp: tx_confirmed_def tx_exec_def tx_return_def refreshFamiliesAfterStateChange_def refreshFamilies_def
      cursorAuthority_def cursorAuthorityForPrompt_def GetSpawn_def split: option.splits)

lemma rotateTx_confirmed: "tx_confirmed (rotateTx s examined g b sid path until (Some (\<lambda>_. None)) now)"
  unfolding rotateTx_def Let_def by (intro confirmed_bind confirmed_if confirmed_steps)

text \<open>
  C27. An unconfirmed rotation is resolved by one read: when the commit's answer was lost, what the
  gateway reads afterwards tells whether the rotation happened; it reads committed exactly when the
  whole rotation is there, and unchanged exactly when nothing was written.
\<close>

theorem unconfirmed_rotation_is_resolved:
  assumes "rows_ok d" and "bindings_ok d" and "g_Cursor g = Some b" and "quiet s'"
    and "find_spawn d (cr_InstanceID b) = Some r" and "identityRecorded r"
    and "\<not> any_row (\<lambda>h. h_instance_id h = cr_InstanceID b \<and> h_session_id h = cr_SessionID b \<and> h_life_number h = cr_Life b) (session_history d)"
    and "check = Some (\<lambda>_. None)"
    and "RotateCursorSession s examined g sid path until check now d = (Inl ErrCommitUnconfirmed, d1)"
  shows "(d1 = d \<and> ReconcileCursorRotation s' b examined sid path d1 = Inr (False, True))
     \<or> (rotated b sid d d1 \<and> ReconcileCursorRotation s' b examined sid path d1 = Inr (True, False))"
proof -
  have dist: "distinct (map s_instance_id (spawns d))" using assms(1) by (simp add: rows_ok_def)
  have noErr: "rotateTx s examined g b sid path until check now d \<noteq> Inl ErrCommitUnconfirmed"
    using rotateTx_confirmed unfolding tx_confirmed_def assms(8) by blast
  obtain x d2 where run: "rotateTx s examined g b sid path until check now d = Inr (x, d2)" and d1: "d1 = d \<or> d1 = d2"
    and ok: "path \<noteq> []" "sid \<noteq> []" "sid \<noteq> cr_SessionID b"
    using assms(9) noErr unfolding RotateCursorSession_run[OF assms(3)]
    by (auto simp: inWriteTx_def validNextSession_def split: if_splits sum.splits prod.splits)
  note rec = reconcile_rotation[OF assms(1,2,4,3) ok(1,3) run assms(5-7)]
  show ?thesis
    using d1 rec rotateTx_rotated[OF dist ok run] by blast
qed

section \<open>A sample launch\<close>

definition sample_binding :: CursorRuntime where
  "sample_binding = \<lparr>cr_InstanceID = ''a'', cr_Token = ''aaaabbbbccccdddd'', cr_Life = 1, cr_GatewayPID = 7, cr_GatewayStart = ''p0'',
     cr_RuntimePID = 8, cr_RuntimeStart = ''q0'', cr_Connection = ''c1'', cr_InputPipe = ''i1'', cr_OutputPipe = ''o1'', cr_InputFD = 3,
     cr_OutputFD = 4, cr_SessionID = ''s1'', cr_Terminated = False\<rparr>"

definition sample_cursor_row :: spawn_row where
  "sample_cursor_row = sample_row\<lparr>s_agent := AgentCursor, s_launch_token := Some ''aaaabbbbccccdddd'', s_session_id := Some ''s1'',
     s_jsonl_path := Some ''/t'', s_tmux_socket := Some ''/s'', s_tmux_server_pid := Some 3, s_tmux_server_started := Some 4,
     s_tmux_server_starttime := Some ''5'', s_pane_id := Some ''%1''\<rparr>"

definition sample_cursor :: db where
  "sample_cursor = sample_db\<lparr>spawns := [sample_cursor_row], cursor_runtimes := [sample_binding],
     permission_requests := [sample_request\<lparr>pr_decision := Some ''allow''\<rparr>]\<rparr>"

abbreviation evidence :: CursorCheck where "evidence \<equiv> Some (\<lambda>_. None)"
abbreviation second :: "nat \<Rightarrow> int" where "second \<equiv> \<lambda>_. 1000000000"

lemma sample_token: "decodeLaunchToken (SText ''aaaabbbbccccdddd'') = ''aaaabbbbccccdddd''"
  by (simp add: decodeLaunchToken_def launchTokenLen_def lower_hex_def)

lemma sample_cursor_row_fields [simp]:
  "s_instance_id sample_cursor_row = ''a''" "s_agent sample_cursor_row = AgentCursor" "s_launch_token sample_cursor_row = Some ''aaaabbbbccccdddd''"
  "s_session_id sample_cursor_row = Some ''s1''" "s_jsonl_path sample_cursor_row = Some ''/t''" "s_pane_pid sample_cursor_row = Some 7"
  "s_pane_starttime sample_cursor_row = Some ''p0''" "s_state sample_cursor_row = StateWaiting" "s_life_number sample_cursor_row = 1"
  by (simp_all add: sample_cursor_row_def sample_row_def)

lemma sample_cursor_fields [simp]:
  "spawns sample_cursor = [sample_cursor_row]" "cursor_runtimes sample_cursor = [sample_binding]" "session_history sample_cursor = []"
  "permission_requests sample_cursor = [sample_request\<lparr>pr_decision := Some ''allow''\<rparr>]" "find_spawn sample_cursor ''a'' = Some sample_cursor_row"
  "cr_InstanceID sample_binding = ''a''" "cr_SessionID sample_binding = ''s1''" "\<not> cr_Terminated sample_binding"
  "cr_Token sample_binding = ''aaaabbbbccccdddd''" "cr_Life sample_binding = 1" "cr_GatewayPID sample_binding = 7"
  "cr_GatewayStart sample_binding = ''p0''" "currentBinding sample_binding sample_binding"
  by (simp_all add: sample_cursor_def sample_binding_def sample_db_def find_spawn_def currentBinding_def cursorBindingMatch_def)

lemma sample_authority:
  "cursorAuthorityForPrompt sample_store sample_binding until evidence p t sample_cursor
     = (if until \<noteq> None \<and> \<not> before t until then Inl (CheckFailed ''store: Cursor request deadline passed'')
        else Inr (scanSpawn sample_cursor_row, sample_cursor))"
proof -
  have "\<not> launchChanged sample_binding p (scanSpawn sample_cursor_row)"
    by (simp add: launchChanged_def scanSpawn_def lifeIdentity_def sample_binding_def sql_text_def sample_token)
  moreover have "filter (currentBinding sample_binding) (cursor_runtimes sample_cursor) = [sample_binding]"
    by (simp add: sample_cursor_def currentBinding_def cursorBindingMatch_def sample_binding_def)
  moreover have "GetSpawn sample_store (cr_InstanceID sample_binding) sample_cursor = Inr (scanSpawn sample_cursor_row)"
    by (simp add: GetSpawn_def sample_store_def find_spawn_def sample_cursor_def sample_binding_def)
  ultimately show ?thesis
    by (simp add: cursorAuthorityForPrompt_def sample_store_def)
qed

lemma sample_cursor_ok:
  "rows_ok sample_cursor" "bindings_ok sample_cursor" "requests_ok sample_cursor" "list_all stored_request (permission_requests sample_cursor)"
  "distinct (map (\<lambda>p. (pr_instance_id p, pr_request_token p)) (permission_requests sample_cursor))"
  by (simp_all add: rows_ok_def bindings_ok_def requests_ok_def sample_cursor_def sample_db_def IsLiveState_iff sample_request_def req_ok_def
      stored_request_def zeroTime_def)

theorem stale_gateway_changes_nothing_witness:
  "\<exists>e. CheckCursorAnswer sample_store (sample_binding\<lparr>cr_SessionID := ''s0''\<rparr>) ''k'' True (Some 2000000000) evidence second sample_cursor
     = (Inl e, sample_cursor)"
proof -
  have "\<not> authorised (sample_binding\<lparr>cr_SessionID := ''s0''\<rparr>) sample_cursor"
    by (simp add: authorised_def currentBinding_def sample_cursor_def sample_binding_def)
  moreover have "CheckCursorAnswer sample_store (sample_binding\<lparr>cr_SessionID := ''s0''\<rparr>) ''k'' True (Some 2000000000) evidence second
      \<in> set (gateway_calls sample_store (sample_binding\<lparr>cr_SessionID := ''s0''\<rparr>) (Some 2000000000) evidence second sample_relay 0 ''k'' [] []
          True True None [[]])"
    unfolding gateway_calls_def list.set by blast
  ultimately show ?thesis
    using stale_gateway_changes_nothing[of "sample_binding\<lparr>cr_SessionID := ''s0''\<rparr>" sample_cursor evidence "[[]]"] by blast
qed

theorem cursor_ack_is_timely_witness:
  "\<exists>d' p q. AckCursorDecision sample_store sample_binding ''k'' False (Some 5000000000) (Some 4000000000) evidence second sample_cursor
       = (Inr (''allow'', True), d')
     \<and> find (the_request ''a'' ''k'') (permission_requests d') = Some q \<and> pr_decision q = Some ''allow'' \<and> pr_delivered_at q = Some 1000"
proof -
  have au: "cursorAuthority sample_store sample_binding (Some 5000000000) evidence 1000000000 sample_cursor = Inr (scanSpawn sample_cursor_row, sample_cursor)"
    unfolding cursorAuthority_def sample_authority by (simp add: before_def)
  have "\<exists>d'. AckCursorDecision sample_store sample_binding ''k'' False (Some 5000000000) (Some 4000000000) evidence second sample_cursor
       = (Inr (''allow'', True), d')"
    by (simp add: AckCursorDecision_def call_bind_def inWriteTx_def ackCursorTx_def tx_bind_def au GetPermissionRequest_def
        the_request_def sample_request_def unackable_def scanPermissionRow_def Closed_def ProvenGone_def
        millisTime_def zeroTime_def before_def tx_exec_def update_requests_def ackMatch_def ackSet_def tx_return_def)
  then obtain d' where e: "AckCursorDecision sample_store sample_binding ''k'' False (Some 5000000000) (Some 4000000000) evidence second sample_cursor
       = (Inr (''allow'', True), d')" by blast
  from cursor_ack_is_timely[OF sample_cursor_ok(3-5) e] obtain p q where
    "find (the_request ''a'' ''k'') (permission_requests d') = Some q" "ackedAs sample_binding (Some 5000000000) (Some 4000000000) second ''allow'' p q"
    by auto
  with e show ?thesis by (auto simp: ackedAs_def millisArg_def UnixMilli_def zeroTime_def)
qed

theorem registration_is_once_per_launch_witness:
  "\<exists>d1. RegisterCursorRuntime sample_store (scanSpawn (sample_cursor_row\<lparr>s_state := StatePending\<rparr>)) sample_binding
       (sample_cursor\<lparr>spawns := [sample_cursor_row\<lparr>s_state := StatePending\<rparr>], cursor_runtimes := []\<rparr>) = (Inr True, d1)
     \<and> ReadCursorRuntime sample_store ''a'' d1 = Inr (sample_binding\<lparr>cr_SessionID := []\<rparr>)
     \<and> RegisterCursorRuntime sample_store (scanSpawn sample_cursor_row) (sample_binding\<lparr>cr_Connection := ''c2''\<rparr>) d1 = (Inr False, d1)"
proof -
  let ?r = "sample_cursor_row\<lparr>s_state := StatePending\<rparr>"
  let ?d = "sample_cursor\<lparr>spawns := [?r], cursor_runtimes := []\<rparr>"
  have "lifeSnapshot ?r = sp_Snapshot (scanSpawn ?r)" by (simp add: scanSpawn_def)
  then have "registerGuard (scanSpawn ?r) sample_binding ?r" by (simp add: registerGuard_def snapshotMatch_life)
  then have "\<exists>d1. RegisterCursorRuntime sample_store (scanSpawn ?r) sample_binding ?d = (Inr True, d1)"
    by (simp add: RegisterCursorRuntime_def execCursorRuntime_def dbExec_def registerStmt_def scanSpawn_def lifeIdentity_def sql_text_def
        sample_token) (simp add: sample_binding_def)
  then obtain d1 where e: "RegisterCursorRuntime sample_store (scanSpawn ?r) sample_binding ?d = (Inr True, d1)" by blast
  have "bindings_ok ?d" by (simp add: bindings_ok_def)
  from registration_is_once_per_launch[OF quiet_sample this e, of "sample_binding\<lparr>cr_Connection := ''c2''\<rparr>" "scanSpawn sample_cursor_row"]
  show ?thesis using e by (auto simp: sample_binding_def)
qed

theorem prompt_admitted_only_without_dialogs_witness:
  "authorised sample_binding (sample_cursor\<lparr>permission_requests := []\<rparr>)"
proof -
  let ?d = "sample_cursor\<lparr>permission_requests := []\<rparr>"
  have "cursorAuthorityForPrompt sample_store sample_binding (Some 2000000000) evidence [] 1000000000 ?d = Inr (scanSpawn sample_cursor_row, ?d)"
    using sample_authority[of "Some 2000000000" "[]" 1000000000]
    by (simp add: cursorAuthorityForPrompt_def GetSpawn_def find_spawn_def before_def split: if_splits sum.splits)
  then have "checkCursorPrompt sample_store sample_binding (Some 2000000000) evidence [] second ?d = (Inr True, ?d)"
    by (simp add: checkCursorPrompt_def inWriteTx_def tx_bind_def before_def)
  from prompt_admitted_only_without_dialogs[OF this] show ?thesis by simp
qed

definition sample_rotation :: HookGate where
  "sample_rotation = sample_gate\<lparr>g_Cursor := Some sample_binding\<rparr>"

lemma sample_rotation_fields [simp]:
  "g_Cursor sample_rotation = Some sample_binding" "g_SessionID sample_rotation = ''s1''" "g_ParentPID sample_rotation = 7"
  "g_ParentStart sample_rotation = ''p0''"
  by (simp_all add: sample_rotation_def sample_gate_def)

lemma sample_next_session: "validNextSession ''s2''"
proof -
  have "leadingSpace ''s2'' = 0" "trailingSpace ''s2'' = 0"
    by (simp_all add: leadingSpace_def trailingSpace_def spaceRunes_def upt_conv_Cons char_of_def)
  then have "strings_TrimSpace ''s2'' = ''s2''" by (simp add: strings_TrimSpace_def)
  then show ?thesis by (simp add: validNextSession_def)
qed

text \<open>The sample rotation's transaction succeeds, whatever its commit does.\<close>

lemma sample_rotateTx:
  assumes "s = sample_store \<or> s = sample_store\<lparr>sqlFails := (\<lambda>w. w = ''commit unconfirmed'')\<rparr>"
  shows "\<exists>x d'. rotateTx s (scanSpawn sample_cursor_row) sample_rotation sample_binding ''s2'' ''/t'' (Some 2000000000) evidence second sample_cursor
     = Inr (x, d')"
proof -
  have fails: "\<not> sqlFails s w" if "w \<noteq> ''commit unconfirmed''" for w
    using assms that by (auto simp: sample_store_def)
  have au: "cursorAuthority s sample_binding (Some 2000000000) evidence 1000000000 sample_cursor = Inr (scanSpawn sample_cursor_row, sample_cursor)"
    using sample_authority[of "Some 2000000000" "[]" 1000000000] fails
    by (simp add: cursorAuthority_def cursorAuthorityForPrompt_def GetSpawn_def before_def split: if_splits)
  have same: "\<not> rotationChanged (scanSpawn sample_cursor_row) sample_rotation sample_binding ''/t'' (scanSpawn sample_cursor_row)"
    by (simp add: rotationChanged_def scanSpawn_def)
  have gate: "hookGate sample_cursor sample_rotation sample_cursor_row"
    by (simp add: hookGate_iff cursorGate_def) (simp add: cursorBindingMatch_def)
  have snap: "snapshotMatch (sp_Snapshot (scanSpawn sample_cursor_row)) sample_cursor_row"
    by (simp add: scanSpawn_def snapshotMatch_life)
  show ?thesis
    by (simp add: rotateTx_def tx_bind_def au same tx_exec_def fails Let_def guarded_def update_spawns_def gate snap update_runtimes_def before_def
        tx_return_def refreshFamiliesAfterStateChange_def refreshFamilies_def)
qed

theorem rotation_moves_conversation_whole_witness:
  "\<exists>d1. RotateCursorSession sample_store (scanSpawn sample_cursor_row) sample_rotation ''s2'' ''/t'' (Some 2000000000) evidence second sample_cursor
      = (Inr True, d1) \<and> rotated sample_binding ''s2'' sample_cursor d1"
proof -
  have "\<exists>d1. RotateCursorSession sample_store (scanSpawn sample_cursor_row) sample_rotation ''s2'' ''/t'' (Some 2000000000) evidence second sample_cursor
      = (Inr True, d1)"
    using sample_rotateTx[of sample_store] sample_next_session
    by (auto simp: RotateCursorSession_run inWriteTx_def before_def split: prod.splits)
  then obtain d1 where "RotateCursorSession sample_store (scanSpawn sample_cursor_row) sample_rotation ''s2'' ''/t'' (Some 2000000000) evidence second sample_cursor
      = (Inr True, d1)" by blast
  with rotation_moves_conversation_whole[OF sample_cursor_ok(1) sample_rotation_fields(1), where s = sample_store
      and examined = "scanSpawn sample_cursor_row" and sid = "''s2''" and path = "''/t''" and until = "Some 2000000000" and check = evidence and now = second]
  show ?thesis by auto
qed

theorem unconfirmed_rotation_is_resolved_witness:
  "\<exists>d1. RotateCursorSession (sample_store\<lparr>sqlFails := (\<lambda>w. w = ''commit unconfirmed'')\<rparr>) (scanSpawn sample_cursor_row) sample_rotation ''s2'' ''/t''
        (Some 2000000000) evidence second sample_cursor = (Inl ErrCommitUnconfirmed, d1)
     \<and> (ReconcileCursorRotation sample_store sample_binding (scanSpawn sample_cursor_row) ''s2'' ''/t'' d1 = Inr (False, True)
        \<or> rotated sample_binding ''s2'' sample_cursor d1)"
proof -
  let ?s = "sample_store\<lparr>sqlFails := (\<lambda>w. w = ''commit unconfirmed'')\<rparr>"
  have "\<exists>d1. RotateCursorSession ?s (scanSpawn sample_cursor_row) sample_rotation ''s2'' ''/t'' (Some 2000000000) evidence second sample_cursor
      = (Inl ErrCommitUnconfirmed, d1)"
    using sample_rotateTx[of ?s] sample_next_session
    by (auto simp: RotateCursorSession_run inWriteTx_def before_def split: prod.splits)
  then obtain d1 where e: "RotateCursorSession ?s (scanSpawn sample_cursor_row) sample_rotation ''s2'' ''/t'' (Some 2000000000) evidence second sample_cursor
      = (Inl ErrCommitUnconfirmed, d1)" by blast
  have "identityRecorded sample_cursor_row" by (simp add: identityRecorded_def sample_cursor_row_def)
  from unconfirmed_rotation_is_resolved[OF sample_cursor_ok(1,2) sample_rotation_fields(1) quiet_sample _ this _ refl e]
  show ?thesis using e by auto
qed

end
