(* ===== verification/Hook_Handler.thy ===== *)
theory Hook_Handler
  imports Capacity_Hook Cursor_Rules
begin

text \<open>
  The hook verb (internal/hook: handler.go, io.go and the two calls of subagent.go): one process per
  hook of an agent, from the payload on its standard input to its store calls, its answer and its
  record in the trail. Log lines are not modelled.
\<close>

section \<open>The payload\<close>

text \<open>
  Standard input: whether reading it fails, how many bytes it holds, what they are and what they are
  read into as a capacity callback.
\<close>

record stdin =
  si_fails :: bool
  si_bytes :: int
  si_payload :: payload_text
  si_capacity :: "capacityPayload option"

datatype read_error = ErrReadStdin | ErrPayloadTooLarge

abbreviation MaxPayloadBytes :: int where "MaxPayloadBytes \<equiv> 1048576"

definition ReadPayload :: "stdin \<Rightarrow> read_error + payload_text" where
  "ReadPayload r = (if si_fails r then Inl ErrReadStdin
     else if min (si_bytes r) (MaxPayloadBytes + 1) > MaxPayloadBytes then Inl ErrPayloadTooLarge else Inr (si_payload r))"

section \<open>The record of the hook\<close>

record firedFields =
  ff_instance_id :: "string option"
  ff_event_name :: "string option"
  ff_tool_name :: "string option"
  ff_session_id :: string
  ff_upsert_outcome :: "UpsertOutcome option"
  ff_request_token :: "string option"

definition zeroFired :: firedFields where
  "zeroFired = \<lparr>ff_instance_id = None, ff_event_name = None, ff_tool_name = None, ff_session_id = [], ff_upsert_outcome = None,
     ff_request_token = None\<rparr>"

definition outcomeText :: "UpsertOutcome \<Rightarrow> string" where
  "outcomeText u = (case u of UpsertInserted \<Rightarrow> ''inserted'' | UpsertUpdated \<Rightarrow> ''updated'' | UpsertNoChange \<Rightarrow> ''no_change''
     | UpsertError \<Rightarrow> ''error'')"

definition nullTS :: "string option \<Rightarrow> trail_val" where
  "nullTS v = (case v of None \<Rightarrow> TNull | Some x \<Rightarrow> TS x)"

definition firedEvent :: "HandleConfig \<Rightarrow> firedFields \<Rightarrow> trail_event" where
  "firedEvent hc f = (''ad.hook.fired'',
     [(''source'', TS ''ad_hook''), (''relay_mode'', TS (hc_Env hc EnvRelayMode)), (''matcher'', TL [''*'']),
      (''instance_id'', nullTS (ff_instance_id f)), (''event_name'', nullTS (ff_event_name f)), (''tool_name'', nullTS (ff_tool_name f)),
      (''session_id'', TS (ff_session_id f)), (''upsert_outcome'', nullTS (map_option outcomeText (ff_upsert_outcome f))),
      (''request_token'', nullTS (ff_request_token f))])"

definition emitFired :: "HandleConfig \<Rightarrow> firedFields \<Rightarrow> world \<Rightarrow> world" where
  "emitFired hc f = trail_Emit (firedEvent hc f)"

definition firedOf :: "string \<Rightarrow> ClassifyResult \<Rightarrow> firedFields" where
  "firedOf i res = zeroFired\<lparr>ff_instance_id := Some i, ff_event_name := nullableStringArg (cl_EventName res),
     ff_tool_name := nullableStringArg (cl_ToolName res), ff_session_id := cl_SessionID res\<rparr>"

section \<open>The writes before the hook's own\<close>

text \<open>A failed proof or close is logged and changes nothing else: only the world after it goes on.\<close>

definition proofOf :: "int \<Rightarrow> ClassifyResult \<Rightarrow> RequestProof option" where
  "proofOf start res =
     (if ToolRan res then Some \<lparr>rp_How = ProvenGoneToolRan, rp_ToolUseID = cl_ToolUseID res, rp_RecordedBefore = zeroTime, rp_At = zeroTime\<rparr>
      else if TurnEnded res then Some \<lparr>rp_How = ProvenGoneTurnEnd, rp_ToolUseID = [], rp_RecordedBefore = UnixMilli start, rp_At = zeroTime\<rparr>
      else None)"

definition proveRequestsGone :: "host \<Rightarrow> int \<Rightarrow> string \<Rightarrow> HookGate \<Rightarrow> ClassifyResult \<Rightarrow> world \<Rightarrow> world" where
  "proveRequestsGone h start i gate res w = (case proofOf start res of
     None \<Rightarrow> w
   | Some pf \<Rightarrow> (case clock_now h w of (at, w1) \<Rightarrow>
       snd (store_call h (\<lambda>s _. ProveRequestsGone s i gate (pf\<lparr>rp_At := UnixMilli at\<rparr>)) w1)))"

definition closeToolRan :: "host \<Rightarrow> HandleConfig \<Rightarrow> string \<Rightarrow> HookGate \<Rightarrow> string \<Rightarrow> world \<Rightarrow> world" where
  "closeToolRan h hc i gate toolUseID w = (case clock_now h w of (at, w1) \<Rightarrow>
     snd (store_call h (\<lambda>s _. CloseToolRanRequests s i gate toolUseID (UnixMilli at) (hc_RelayHookGone hc)) w1))"

section \<open>The hook's own write\<close>

definition codexTurnGate :: "ClassifyResult \<Rightarrow> HookGate \<Rightarrow> HookGate" where
  "codexTurnGate res gate =
     (if cl_Agent res \<noteq> AgentCodex \<or> \<not> cl_MainThread res then gate
      else let g = gate\<lparr>g_CodexTurn := cl_TurnID res\<rparr>; ev = cl_EventName res
           in if ev = ''UserPromptSubmit'' then g\<lparr>g_CodexTurnStart := True\<rparr>
              else if ev = EventNameStop \<or> ev = EventNameInterrupt then g\<lparr>g_CodexTurnEnd := True\<rparr>
              else if ev = EventNamePreToolUse \<or> ev = EventNamePostToolUse then g\<lparr>g_CodexToolTurn := True\<rparr>
              else g)"

definition gateOf :: "parentIdentity \<Rightarrow> ClassifyResult \<Rightarrow> HookGate" where
  "gateOf parent res = codexTurnGate res
     \<lparr>g_CodexStartup = cl_CodexStartup res, g_Cursor = None, g_ClaudeCapacitySnapshot = None, g_Event = cl_EventName res,
      g_ParentPID = pa_pid parent, g_ParentStart = pa_start parent, g_SessionID = (if cl_AgentID res \<noteq> [] then [] else cl_SessionID res),
      g_SessionStart = False, g_Examined = zeroSnapshot, g_CodexTurn = [], g_CodexTurnStart = False, g_CodexTurnEnd = False,
      g_CodexToolTurn = False\<rparr>"

definition transcriptPresent :: "HandleConfig \<Rightarrow> world \<Rightarrow> string \<Rightarrow> bool" where
  "transcriptPresent hc w path \<longleftrightarrow> path \<noteq> [] \<and> hc_statPresent hc w path"

definition applyOrdinaryHook :: "store \<Rightarrow> string \<Rightarrow> HookGate \<Rightarrow> ClassifyResult \<Rightarrow> string \<Rightarrow> bool \<Rightarrow> hook_result call" where
  "applyOrdinaryHook s i gate res jsonlPath jsonlPresent =
     (if cl_WaitingIfWorking res then ApplyHookWaitingIfWorking s i gate (cl_EventName res) jsonlPath jsonlPresent
      else ApplyHookTransitionResult s i gate (cl_NewState res) (cl_SoftRefresh res) (cl_EventName res) jsonlPath jsonlPresent)"

definition applyEndReport :: "store \<Rightarrow> string \<Rightarrow> HookGate \<Rightarrow> ClassifyResult \<Rightarrow> string \<Rightarrow> bool \<Rightarrow> hook_result call" where
  "applyEndReport s i gate res jsonlPath jsonlPresent = ApplyHookEndReport s i gate (cl_EventName res) jsonlPath jsonlPresent"

definition applySubagentLifecycle :: "store \<Rightarrow> string \<Rightarrow> HookGate \<Rightarrow> ClassifyResult \<Rightarrow> payload_text \<Rightarrow> int \<Rightarrow> string \<Rightarrow> bool
    \<Rightarrow> hook_result call" where
  "applySubagentLifecycle s i gate res raw receivedMs jsonlPath jsonlPresent =
     ApplySubagentLifecycle s i gate (subagentLifecycleEvent res raw receivedMs) (cl_EventName res) jsonlPath jsonlPresent"

definition ownWrite :: "store \<Rightarrow> string \<Rightarrow> HookGate \<Rightarrow> ClassifyResult \<Rightarrow> payload_text \<Rightarrow> int \<Rightarrow> string \<Rightarrow> bool \<Rightarrow> hook_result call" where
  "ownWrite s i gate res raw receivedMs jsonlPath jsonlPresent =
     (if isSubagentLifecycle res then applySubagentLifecycle s i gate res raw receivedMs jsonlPath jsonlPresent
      else if cl_EndReport res then applyEndReport s i gate res jsonlPath jsonlPresent
      else applyOrdinaryHook s i gate res jsonlPath jsonlPresent)"

section \<open>The writes after the hook's own\<close>

definition runSubagentAfterWrite :: "host \<Rightarrow> string \<Rightarrow> HookGate \<Rightarrow> ClassifyResult \<Rightarrow> payload_text \<Rightarrow> int \<Rightarrow> world \<Rightarrow> world" where
  "runSubagentAfterWrite h i gate res raw start w = (case subagentAfterWrite res raw (UnixMilli start) of
     None \<Rightarrow> w
   | Some aw \<Rightarrow>
       (let apply_entries = (\<lambda>w. snd (store_call h (\<lambda>s _. ApplySubagentAfterWrite s i gate aw) w))
        in case aw_TurnEnd aw of
             None \<Rightarrow> apply_entries w
           | Some te \<Rightarrow> (case store_read h (\<lambda>s. SubagentTurnEndHasWork s i te) w of
                 (Inl e, w1) \<Rightarrow> w1
               | (Inr work, w1) \<Rightarrow> if work then apply_entries w1 else w1)))"

definition healCodexTranscript :: "host \<Rightarrow> HandleConfig \<Rightarrow> string \<Rightarrow> ClassifyResult \<Rightarrow> string \<Rightarrow> world \<Rightarrow> world" where
  "healCodexTranscript h hc i res path w =
     (if \<not> cl_HealsTranscript res \<or> cl_SessionID res = [] \<or> path = [] then w
      else if \<not> strings_Contains (filepath_Base path) (cl_SessionID res) \<or> \<not> transcriptPresent hc w path then w
      else snd (store_call h (\<lambda>s _. HealJsonlPath s i (cl_SessionID res) path) w))"

section \<open>SessionStart\<close>

abbreviation sessionStartWaitInterval :: int where "sessionStartWaitInterval \<equiv> 250 * Millisecond"
abbreviation sessionStartWaitCap :: int where "sessionStartWaitCap \<equiv> 540 * Second"

text \<open>
  \<open>time.Duration.Milliseconds\<close> and the quotient of two durations round toward zero.
\<close>

definition truncated :: "int \<Rightarrow> int \<Rightarrow> int" where
  "truncated a b = sgn a * (\<bar>a\<bar> div b)"

definition waitingForIdentity :: "Spawn \<Rightarrow> int \<Rightarrow> int \<Rightarrow> bool" where
  "waitingForIdentity sp grace now \<longleftrightarrow> li_PanePID (sp_Identity sp) = 0
     \<and> InsidePendingGrace (sp_State sp) (sp_LaunchStartedAtMillis sp) (truncated grace Millisecond) (UnixMilli now)"

text \<open>The attempts of one gated write: each reads the row and writes against what it read.\<close>

record sessionStartResult =
  ss_applied :: HookApplied
  ss_outcome :: UpsertOutcome
  ss_examined :: "Spawn option"

fun writeSessionStartLoop :: "host \<Rightarrow> string \<Rightarrow> HookGate \<Rightarrow> string \<Rightarrow> bool \<Rightarrow> nat \<Rightarrow> world
    \<Rightarrow> (store_error + sessionStartResult) \<times> world" where
  "writeSessionStartLoop h i gate jsonlPath jsonlPresent 0 w =
     (Inr \<lparr>ss_applied = hook_zero, ss_outcome = UpsertNoChange, ss_examined = None\<rparr>, w)"
| "writeSessionStartLoop h i gate jsonlPath jsonlPresent (Suc attempts) w =
     (case store_read h (\<lambda>s. GetSpawn s i) w of
        (Inl e, w1) \<Rightarrow>
          if e = ErrSpawnNotFound i then (Inr \<lparr>ss_applied = hook_zero, ss_outcome = UpsertNoChange, ss_examined = None\<rparr>, w1)
          else (Inl e, w1)
      | (Inr sp, w1) \<Rightarrow>
          (case store_call h (\<lambda>s _. RecordSessionStartIdentity s i (gate\<lparr>g_Examined := sp_Snapshot sp\<rparr>) jsonlPath jsonlPresent) w1 of
             (Inl e, w2) \<Rightarrow> (Inl e, w2)
           | (Inr (applied, changed), w2) \<Rightarrow>
               if Applied applied then (Inr \<lparr>ss_applied = applied, ss_outcome = UpsertUpdated, ss_examined = Some sp\<rparr>, w2)
               else if \<not> changed then (Inr \<lparr>ss_applied = applied, ss_outcome = UpsertNoChange, ss_examined = Some sp\<rparr>, w2)
               else writeSessionStartLoop h i gate jsonlPath jsonlPresent attempts w2))"

definition writeSessionStart :: "host \<Rightarrow> string \<Rightarrow> HookGate \<Rightarrow> string \<Rightarrow> bool \<Rightarrow> world \<Rightarrow> (store_error + sessionStartResult) \<times> world" where
  "writeSessionStart h i gate jsonlPath jsonlPresent w = writeSessionStartLoop h i gate jsonlPath jsonlPresent 2 w"

text \<open>The wait's turns: \<open>bound\<close> is the grace bound and \<open>capEnd\<close> the cap, both instants.\<close>

definition identitySleep :: "int \<Rightarrow> int \<Rightarrow> int \<Rightarrow> int" where
  "identitySleep bound capEnd now = min (saturated (bound - now)) (min (saturated (capEnd - now)) sessionStartWaitInterval)"

fun identityWait :: "host \<Rightarrow> HandleConfig \<Rightarrow> string \<Rightarrow> Spawn \<Rightarrow> int \<Rightarrow> int \<Rightarrow> nat \<Rightarrow> world \<Rightarrow> world" where
  "identityWait h hc i examined bound capEnd 0 w = w"
| "identityWait h hc i examined bound capEnd (Suc reads) w =
     (case clock_now h w of (now, w1) \<Rightarrow>
        let t = identitySleep bound capEnd now
        in if t \<le> 0 then w1
           else let w2 = clock_sleep h t w1
                in if w_cancel w2 \<noteq> None then w2
                   else (case store_read h (\<lambda>s. GetSpawn s i) w2 of
                       (Inl e, w3) \<Rightarrow> w3
                     | (Inr sp, w3) \<Rightarrow>
                         if sp_State sp \<noteq> sp_State examined \<or> rs_RowVersion (sp_Snapshot sp) \<noteq> rs_RowVersion (sp_Snapshot examined) then w3
                         else (case clock_now h w3 of (now', w4) \<Rightarrow>
                             if \<not> waitingForIdentity sp (hc_PendingGrace hc) now' then w4
                             else identityWait h hc i examined bound capEnd reads w4)))"

definition graceBound :: "HandleConfig \<Rightarrow> Spawn \<Rightarrow> int" where
  "graceBound hc sp = sp_LaunchStartedAtMillis sp * Millisecond + hc_PendingGrace hc"

definition maxReads :: "int \<Rightarrow> int \<Rightarrow> nat" where
  "maxReads bound start = nat (truncated (min (saturated (bound - start)) sessionStartWaitCap) sessionStartWaitInterval + 1)"

definition waitForLaunchIdentity :: "host \<Rightarrow> HandleConfig \<Rightarrow> string \<Rightarrow> Spawn option \<Rightarrow> world \<Rightarrow> bool \<times> world" where
  "waitForLaunchIdentity h hc i examined w =
     (if \<not> hc_Now hc \<or> hc_PendingGrace hc \<le> 0 then (False, w)
      else (case clock_now h w of (start, w1) \<Rightarrow> (case examined of
          None \<Rightarrow> (False, w1)
        | Some sp \<Rightarrow>
            if \<not> waitingForIdentity sp (hc_PendingGrace hc) start then (False, w1)
            else let bound = graceBound hc sp
                 in (True, identityWait h hc i sp bound (start + sessionStartWaitCap) (maxReads bound start) w1))))"

definition recordSessionStart :: "host \<Rightarrow> HandleConfig \<Rightarrow> string \<Rightarrow> HookGate \<Rightarrow> string \<Rightarrow> bool \<Rightarrow> world
    \<Rightarrow> (store_error + HookApplied \<times> UpsertOutcome) \<times> world" where
  "recordSessionStart h hc i gate0 jsonlPath jsonlPresent w =
     (let gate = gate0\<lparr>g_SessionStart := True\<rparr>
      in case writeSessionStart h i gate jsonlPath jsonlPresent w of
           (Inl e, w1) \<Rightarrow> (Inl e, w1)
         | (Inr r, w1) \<Rightarrow>
             if Applied (ss_applied r) \<or> Reason (ss_applied r) \<noteq> HookReasonNoPaneRecorded then (Inr (ss_applied r, ss_outcome r), w1)
             else (case waitForLaunchIdentity h hc i (ss_examined r) w1 of (waited, w2) \<Rightarrow>
                 if \<not> waited then (Inr (ss_applied r, ss_outcome r), w2)
                 else (case writeSessionStart h i gate jsonlPath jsonlPresent w2 of
                     (Inl e, w3) \<Rightarrow> (Inl e, w3)
                   | (Inr r', w3) \<Rightarrow> (Inr (ss_applied r', ss_outcome r'), w3))))"

section \<open>A Cursor gateway's report\<close>

record cursorClaim =
  cc_Connection :: string
  cc_Previous :: string
  cc_Deadline :: string

definition readCursorClaim :: "payload_text \<Rightarrow> cursorClaim option" where
  "readCursorClaim raw = (case raw of
     Document v \<Rightarrow>
       (if \<not> isStruct v \<or> list_ex (\<lambda>n. snd (stringField v n)) [''cursor_connection'', ''cursor_previous_session'', ''cursor_rotation_deadline'']
        then None
        else Some \<lparr>cc_Connection = fst (stringField v ''cursor_connection''), cc_Previous = fst (stringField v ''cursor_previous_session''),
                   cc_Deadline = fst (stringField v ''cursor_rotation_deadline'')\<rparr>)
   | _ \<Rightarrow> None)"

definition cursorClaims :: "parentIdentity \<Rightarrow> ClassifyResult \<Rightarrow> CursorRuntime \<Rightarrow> cursorClaim \<Rightarrow> bool" where
  "cursorClaims parent res b claim \<longleftrightarrow> cc_Connection claim \<noteq> [] \<and> cc_Connection claim = cr_Connection b \<and> cr_SessionID b \<noteq> []
     \<and> cr_GatewayPID b = pa_pid parent \<and> cr_GatewayStart b = pa_start parent
     \<and> (cc_Previous claim = [] \<longrightarrow> cr_SessionID b = cl_SessionID res)
     \<and> cr_Terminated b = (cl_EventName res = ''SessionEnd'')"

definition publishRotation :: "host \<Rightarrow> (world \<Rightarrow> CursorRuntime \<Rightarrow> string \<Rightarrow> Spawn \<Rightarrow> store_error option) \<Rightarrow> Spawn \<Rightarrow> HookGate
    \<Rightarrow> ClassifyResult \<Rightarrow> CursorRuntime \<Rightarrow> string \<Rightarrow> int \<Rightarrow> world \<Rightarrow> (store_error + bool) \<times> world" where
  "publishRotation h verify examined gate res b path until w =
     store_call h (\<lambda>s wc. RotateCursorSession s examined (gate\<lparr>g_SessionID := cr_SessionID b\<rparr>) (cl_SessionID res) path
       (Some until) (Some (verify wc b path)) (h_clock h wc)) w"

text \<open>The publication of a new conversation; nothing when the claim, the row or the deadline is not in order.\<close>

definition rotateReported :: "host \<Rightarrow> HandleConfig \<Rightarrow> string \<Rightarrow> HookGate \<Rightarrow> ClassifyResult \<Rightarrow> CursorRuntime \<Rightarrow> cursorClaim \<Rightarrow> string
    \<Rightarrow> world \<Rightarrow> bool \<times> world" where
  "rotateReported h hc i gate res b claim path w =
     (case hc_VerifyCursorRotation hc of
        None \<Rightarrow> (True, w)
      | Some verify \<Rightarrow>
          if cl_EventName res \<noteq> ''SessionStart'' \<or> cc_Previous claim \<noteq> cr_SessionID b \<or> cl_SessionID res = cr_SessionID b then (True, w)
          else (case store_read h (\<lambda>s. GetSpawn s i) w of
              (Inl e, w1) \<Rightarrow> (True, w1)
            | (Inr examined, w1) \<Rightarrow> (case hc_parseTime hc (cc_Deadline claim) of
                None \<Rightarrow> (True, w1)
              | Some until \<Rightarrow> (case clock_now h w1 of (now, w2) \<Rightarrow>
                  if \<not> now < t_ns until then (True, w2)
                  else (case clock_now h w2 of (now', w3) \<Rightarrow>
                    if now' + 3 * Second < t_ns until then (True, w3)
                    else (case publishRotation h verify examined gate res b path (t_ns until) w3 of
                        (Inl e, w4) \<Rightarrow> (False, w4)
                      | (Inr _, w4) \<Rightarrow> (True, w4)))))))"

datatype cursor_step = CursorDone bool | CursorGate HookGate

text \<open>\<open>CursorDone ok\<close> ends the hook, failed when not \<open>ok\<close>; \<open>CursorGate\<close> goes on with the verified binding.\<close>

definition handleCursor :: "host \<Rightarrow> HandleConfig \<Rightarrow> parentIdentity \<Rightarrow> payload_text \<Rightarrow> string \<Rightarrow> ClassifyResult \<Rightarrow> string \<Rightarrow> HookGate
    \<Rightarrow> world \<Rightarrow> cursor_step \<times> world" where
  "handleCursor h hc parent raw i res path gate w =
     (if cl_AgentID res \<noteq> [] \<or> cl_UnknownEvent res then (CursorDone True, w)
      else (case store_read h (\<lambda>s. ReadCursorRuntime s i) w of
          (Inl e, w1) \<Rightarrow> (CursorDone True, w1)
        | (Inr b, w1) \<Rightarrow> (case readCursorClaim raw of
            None \<Rightarrow> (CursorDone True, w1)
          | Some claim \<Rightarrow>
              if \<not> cursorClaims parent res b claim then (CursorDone True, w1)
              else (case hc_VerifyCursor hc of
                  None \<Rightarrow> (CursorDone True, w1)
                | Some verify \<Rightarrow>
                    let w2 = tick h w1; ended = (cl_EventName res = ''SessionEnd'')
                    in if \<not> verify w2 b path ended then (CursorDone True, w2)
                       else let gate' = gate\<lparr>g_Cursor := Some b\<rparr>
                            in if cc_Previous claim \<noteq> []
                               then (case rotateReported h hc i gate' res b claim path w2 of (ok, w3) \<Rightarrow> (CursorDone ok, w3))
                               else if cr_SessionID b \<noteq> cl_SessionID res then (CursorDone True, w2)
                               else (CursorGate gate', w2)))))"

section \<open>The hook\<close>

definition relayActive :: "HandleConfig \<Rightarrow> bool" where
  "relayActive hc \<longleftrightarrow> hc_Env hc EnvRelayMode = RelayModeOn"

definition failClosed :: "HandleConfig \<Rightarrow> payload_text \<Rightarrow> world \<Rightarrow> world" where
  "failClosed hc raw w =
     (if relayActive hc \<and> PeekEventName raw = EventNamePermissionRequest then Fprintln (EncodeDecision (PeekEventName raw) ''deny'' []) w else w)"

definition ignoredOf :: "string \<Rightarrow> ClassifyResult \<Rightarrow> parentIdentity \<Rightarrow> string \<Rightarrow> bool \<Rightarrow> ignoredHook" where
  "ignoredOf i res parent reason silent = \<lparr>ig_instanceID = i, ig_event = cl_EventName res, ig_sessionID = cl_SessionID res,
     ig_parent = parent, ig_reason = reason, ig_silentWithoutRow = silent\<rparr>"

text \<open>After the hook's own write: the heal of a Codex transcript, or the report of a hook that did not apply.\<close>

definition afterOwnWrite :: "host \<Rightarrow> HandleConfig \<Rightarrow> parentIdentity \<Rightarrow> string \<Rightarrow> ClassifyResult \<Rightarrow> string \<Rightarrow> HookApplied \<Rightarrow> world \<Rightarrow> world" where
  "afterOwnWrite h hc parent i res path applied w =
     (if Applied applied then healCodexTranscript h hc i res path w
      else if Reason applied \<noteq> [] then emitIgnored h hc (ignoredOf i res parent (Reason applied) False) w
      else w)"

definition sessionStartHook :: "host \<Rightarrow> HandleConfig \<Rightarrow> parentIdentity \<Rightarrow> payload_text \<Rightarrow> string \<Rightarrow> ClassifyResult \<Rightarrow> string \<Rightarrow> HookGate
    \<Rightarrow> world \<Rightarrow> UpsertOutcome \<times> world" where
  "sessionStartHook h hc parent raw i res path gate w =
     (case recordSessionStart h hc i gate path (transcriptPresent hc w path) w of
        (Inl e, w1) \<Rightarrow> (UpsertError, failClosed hc raw w1)
      | (Inr (applied, outcome), w1) \<Rightarrow> (outcome, afterOwnWrite h hc parent i res path applied w1))"

definition trackingHook :: "host \<Rightarrow> HandleConfig \<Rightarrow> int \<Rightarrow> parentIdentity \<Rightarrow> payload_text \<Rightarrow> string \<Rightarrow> ClassifyResult \<Rightarrow> string \<Rightarrow> HookGate
    \<Rightarrow> world \<Rightarrow> UpsertOutcome \<times> world" where
  "trackingHook h hc start parent raw i res path gate w =
     (let present = transcriptPresent hc w path;
          w1 = (if relayActive hc then proveRequestsGone h start i gate res w else w);
          w2 = (if relayActive hc \<and> ToolRan res then closeToolRan h hc i gate (cl_ToolUseID res) w1 else w1)
      in case store_call h (\<lambda>s _. ownWrite s i gate res raw (UnixMilli start) path present) w2 of
           (Inl e, w3) \<Rightarrow> (UpsertError, failClosed hc raw w3)
         | (Inr (outcome, applied), w3) \<Rightarrow>
             (outcome, afterOwnWrite h hc parent i res path applied
                (if Applied applied \<and> \<not> isSubagentLifecycle res then runSubagentAfterWrite h i gate res raw start w3 else w3)))"

definition dispatchHook :: "host \<Rightarrow> HandleConfig \<Rightarrow> int \<Rightarrow> parentIdentity \<Rightarrow> payload_text \<Rightarrow> string \<Rightarrow> ClassifyResult \<Rightarrow> string \<Rightarrow> HookGate
    \<Rightarrow> int \<Rightarrow> world \<Rightarrow> (firedFields \<times> world) option" where
  "dispatchHook h hc start parent raw i res path gate elapsed w =
     (let fired = firedOf i res in
      if cl_EventName res = ''SessionStart''
      then (case sessionStartHook h hc parent raw i res path gate w of (outcome, w1) \<Rightarrow> Some (fired\<lparr>ff_upsert_outcome := Some outcome\<rparr>, w1))
      else if relayActive hc \<and> cl_EventName res = EventNamePermissionRequest
      then map_option (\<lambda>(rf, w1). (fired\<lparr>ff_upsert_outcome := rf_upsert_outcome rf, ff_request_token := rf_request_token rf\<rparr>, w1))
        (runRelay h hc (newRelayClock hc start)
           \<lparr>in_instanceID = i, in_gate = gate, in_parent = parent, in_agentID = cl_AgentID res, in_transcriptPath = path,
            in_transcriptPresent = transcriptPresent hc w path, in_raw = raw\<rparr> elapsed
           (\<lambda>reason. emitIgnored h hc (ignoredOf i res parent reason False)) w)
      else (case trackingHook h hc start parent raw i res path gate w of (outcome, w1) \<Rightarrow>
              Some (fired\<lparr>ff_upsert_outcome := Some outcome\<rparr>, w1)))"

definition handleEvent :: "host \<Rightarrow> HandleConfig \<Rightarrow> int \<Rightarrow> parentIdentity \<Rightarrow> payload_text \<Rightarrow> int \<Rightarrow> world \<Rightarrow> (firedFields \<times> world) option" where
  "handleEvent h hc start parent raw elapsed w =
     (case ResolveInstanceID (hc_Env hc) of
        Inl e \<Rightarrow> Some (zeroFired, failClosed hc raw w)
      | Inr i \<Rightarrow> (case ResolveAgent (hc_Agent hc) of
          Inl e \<Rightarrow> Some (zeroFired\<lparr>ff_instance_id := Some i\<rparr>, failClosed hc raw w)
        | Inr agent \<Rightarrow> (case ClassifyEvent agent raw of
            Inl e \<Rightarrow> Some (zeroFired\<lparr>ff_instance_id := Some i\<rparr>, failClosed hc raw w)
          | Inr res \<Rightarrow>
              if SubagentLifecycle res
              then Some ((firedOf i res)\<lparr>ff_upsert_outcome := Some UpsertNoChange\<rparr>,
                         emitIgnored h hc (ignoredOf i res parent HookReasonSubagentEvent True) w)
              else let path = (if cl_AgentID res \<noteq> [] then [] else cl_TranscriptPath res); gate = gateOf parent res
                   in if cl_Agent res = AgentCursor
                      then (case handleCursor h hc parent raw i res path gate w of
                              (CursorDone ok, w1) \<Rightarrow> Some (firedOf i res, if ok then w1 else failClosed hc raw w1)
                            | (CursorGate gate', w1) \<Rightarrow> dispatchHook h hc start parent raw i res path gate' elapsed w1)
                      else dispatchHook h hc start parent raw i res path gate elapsed w)))"

text \<open>\<open>elapsed\<close> is only for the relay hook's log of the answer. The callback of a context source never enters the lifecycle.\<close>

definition handleStart :: "host \<Rightarrow> HandleConfig \<Rightarrow> world \<Rightarrow> int \<times> world" where
  "handleStart h hc w = (case hc_Start hc of Some start \<Rightarrow> (start, w) | None \<Rightarrow> clock_now h w)"

definition Handle :: "host \<Rightarrow> HandleConfig \<Rightarrow> stdin \<Rightarrow> int \<Rightarrow> world \<Rightarrow> world option" where
  "Handle h hc input elapsed w0 =
     (case handleStart h hc w0 of (start, w) \<Rightarrow>
        let parent = captureParent hc w
        in case ReadPayload input of
             Inl e \<Rightarrow> Some (emitFired hc zeroFired w)
           | Inr raw \<Rightarrow>
               if hc_ContextSource hc \<noteq> []
               then Some (emitFired hc zeroFired (handleClaudeCapacity h hc parent (si_capacity input) \<lparr>t_ns = start, t_offset = 0\<rparr> w))
               else map_option (\<lambda>(fired, w1). emitFired hc fired w1) (handleEvent h hc start parent raw elapsed w))"

end
