(* ===== verification/Handler_Laws.thy ===== *)
theory Handler_Laws
  imports Hook_Handler
begin

text \<open>
  What the hook verb promises: everything it commits keeps the store's guarantee, it writes its
  standard output only to answer a relayed permission request, and its SessionStart wait is bounded.
\<close>

section \<open>What the hook does to the world\<close>

lemma classified_event: "ClassifyEvent a raw = Inr res \<Longrightarrow> cl_EventName res = PeekEventName raw"
  by (auto simp: ClassifyEvent_def PeekEventName_def classifyClaude_def classifyCodex_def classifyCursor_def zeroResult_def Let_def
      split: sum.splits payload_text.splits if_splits)

lemma classified_writable: "ClassifyEvent a raw = Inr res \<Longrightarrow> cl_SoftRefresh res \<or> IsLiveState (cl_NewState res) \<or> cl_NewState res = StateEnded"
  using soundD(1)[OF classified_sound, of a raw res] by (auto simp: writableResult_def IsLiveState_def liveStates_def split: if_splits)

text \<open>
  A relation between two moments of the hook's world that time, a sleep, every store call and the report of an
  ignored hook keep: the hook's operations but its answers are followed once, for every such relation.
\<close>

locale hook_actions =
  fixes h :: host and R :: "world \<Rightarrow> world \<Rightarrow> bool"
  assumes R_refl: "R w w" and R_trans: "R a b \<Longrightarrow> R b c \<Longrightarrow> R a c"
    and R_tick: "R w (tick h w)" and R_sleep: "R w (clock_sleep h t w)"
    and R_write: "store_step (h_store h n) (w_db w) d \<Longrightarrow> R w (w\<lparr>w_db := d\<rparr>)"
    and R_emitIgnored: "R w (emitIgnored h hc ig w)"
begin

lemma R_step:
  assumes "\<And>s w d. store_step s d (snd (m s w d))"
  shows "R w (snd (store_call h m w))"
proof -
  let ?w = "tick h w"
  have "snd (store_call h m w) = ?w\<lparr>w_db := snd (m (h_store h (w_tick ?w)) ?w (w_db ?w))\<rparr>"
    by (simp add: store_call_def Let_def split: prod.splits)
  then show ?thesis using R_trans[OF R_tick R_write[OF assms]] by simp
qed

lemma R_read: "store_read h q w = (r, w1) \<Longrightarrow> R w w1"
  by (auto simp: store_read_def Let_def R_tick)

lemma R_clock: "clock_now h w = (t, w1) \<Longrightarrow> R w w1"
  by (auto simp: clock_now_def Let_def R_tick)

lemma R_now: "R w (snd (clock_now h w))"
  using R_tick by (simp add: clock_now_def Let_def)

lemma R_proveRequestsGone: "R w (proveRequestsGone h start i gate res w)"
  by (auto simp: proveRequestsGone_def R_refl split: option.split prod.split
      intro!: R_trans[OF R_now[of w]] R_step store_step.prove_gone)

lemma R_closeToolRan: "R w (closeToolRan h hc i gate tu w)"
  by (auto simp: closeToolRan_def split: prod.split intro!: R_trans[OF R_now[of w]] R_step store_step.tool_ran)

lemma R_ownWrite:
  assumes "cl_SoftRefresh res \<or> IsLiveState (cl_NewState res) \<or> cl_NewState res = StateEnded"
  shows "R w (snd (store_call h (\<lambda>s _. ownWrite s i gate res raw ms p b) w))"
  using assms
  by (intro R_step) (auto simp: ownWrite_def applySubagentLifecycle_def applyEndReport_def applyOrdinaryHook_def
      intro: store_step.subagent_event store_step.end_report store_step.idle_notification store_step.hook_transition)

lemma R_runSubagentAfterWrite: "R w (runSubagentAfterWrite h i gate res raw start w)"
proof -
  have "R w (snd (store_call h (\<lambda>s _. ApplySubagentAfterWrite s i gate aw) w'))" if "R w w'" for aw w'
    using that R_step[OF store_step.subagent_after_write] by (rule R_trans)
  then show ?thesis using R_read R_refl
    by (fastforce simp: runSubagentAfterWrite_def Let_def split: option.split prod.split sum.split)
qed

lemma R_healCodexTranscript: "R w (healCodexTranscript h hc i res path w)"
  by (auto simp: healCodexTranscript_def R_refl intro: R_step store_step.heal)

lemma R_afterOwnWrite: "R w (afterOwnWrite h hc parent i res path applied w)"
  by (simp add: afterOwnWrite_def R_healCodexTranscript R_emitIgnored R_refl)

lemma R_writeSessionStartLoop: "R w (snd (writeSessionStartLoop h i gate p b n w))"
proof (induction n arbitrary: w)
  case (Suc n)
  obtain q w1 where w1: "store_read h (\<lambda>s. GetSpawn s i) w = (q, w1)" by fastforce
  note p1 = R_read[OF w1]
  show ?case
  proof (cases q)
    case (Inl e)
    then show ?thesis using w1 p1 by simp
  next
    case (Inr sp)
    let ?m = "\<lambda>s _. RecordSessionStartIdentity s i (gate\<lparr>g_Examined := sp_Snapshot sp\<rparr>) p b"
    obtain r w2 where w2: "store_call h ?m w1 = (r, w2)" by fastforce
    have "R w1 w2" using R_step[of ?m w1] w2 store_step.session_start by fastforce
    with p1 have "R w w2" by (rule R_trans)
    then show ?thesis
      using w1 w2 Inr Suc.IH[of w2] by (auto split: sum.split prod.split intro: R_trans)
  qed
qed (simp add: R_refl)

lemma R_identityWait: "R w (identityWait h hc i sp bound capEnd n w)"
proof (induction n arbitrary: w)
  case (Suc n)
  obtain now w1 where w1: "clock_now h w = (now, w1)" by fastforce
  let ?t = "identitySleep bound capEnd now"
  obtain q w3 where w3: "store_read h (\<lambda>s. GetSpawn s i) (clock_sleep h ?t w1) = (q, w3)" by fastforce
  obtain now' w4 where w4: "clock_now h w3 = (now', w4)" by fastforce
  have p: "R w w1" "R w (clock_sleep h ?t w1)" "R w w3" "R w w4"
    using R_clock[OF w1] R_sleep[of w1 ?t] R_read[OF w3] R_clock[OF w4] by (meson R_trans)+
  show ?case
    using w1 w3 w4 p R_trans[OF p(4) Suc.IH] by (simp add: Let_def split: sum.split)
qed (simp add: R_refl)

lemma R_recordSessionStart: "R w (snd (recordSessionStart h hc i gate p b w))"
proof -
  have wr: "R w (snd (writeSessionStart h i g p b w))" for g w
    unfolding writeSessionStart_def by (rule R_writeSessionStartLoop)
  have wait: "R w (snd (waitForLaunchIdentity h hc i ex w))" for ex w
    using R_now[of w] R_identityWait
    by (auto simp: waitForLaunchIdentity_def Let_def R_refl split: prod.split option.split intro: R_trans)
  obtain r w1 where w1: "writeSessionStart h i (gate\<lparr>g_SessionStart := True\<rparr>) p b w = (r, w1)" by fastforce
  have p1: "R w w1" using wr[of w "gate\<lparr>g_SessionStart := True\<rparr>"] w1 by simp
  show ?thesis
  proof (cases r)
    case (Inl e)
    then show ?thesis using w1 p1 by (simp add: recordSessionStart_def)
  next
    case (Inr x)
    obtain waited w2 where w2: "waitForLaunchIdentity h hc i (ss_examined x) w1 = (waited, w2)" by fastforce
    obtain r' w3 where w3: "writeSessionStart h i (gate\<lparr>g_SessionStart := True\<rparr>) p b w2 = (r', w3)" by fastforce
    have "R w w2" "R w w3"
      using p1 wait[of w1 "ss_examined x"] wr[of w2 "gate\<lparr>g_SessionStart := True\<rparr>"] w2 w3 by (auto intro: R_trans)
    then show ?thesis using w1 w2 w3 p1 Inr by (simp add: recordSessionStart_def split: sum.split)
  qed
qed

lemma R_rotateReported: "R w (snd (rotateReported h hc i gate res b claim path w))"
proof -
  obtain q w1 where w1: "store_read h (\<lambda>s. GetSpawn s i) w = (q, w1)" by fastforce
  obtain now w2 where w2: "clock_now h w1 = (now, w2)" by fastforce
  obtain now' w3 where w3: "clock_now h w2 = (now', w3)" by fastforce
  have p: "R w w1" "R w w2" "R w w3" using R_read[OF w1] R_clock[OF w2] R_clock[OF w3] by (auto intro: R_trans)
  have "R w (snd (publishRotation h verify examined gate res b path until w3))" for verify examined until
    unfolding publishRotation_def using p(3) by (rule R_trans) (intro R_step store_step.cursor_rotate)
  then have pub: "R w w4" if "publishRotation h verify examined gate res b path until w3 = (r, w4)" for verify examined until r w4
    using that by (metis snd_conv)
  show ?thesis
  proof (cases "hc_VerifyCursorRotation hc")
    case (Some verify)
    show ?thesis
    proof (cases q)
      case (Inr examined)
      then show ?thesis using p pub R_refl Some by (auto simp: rotateReported_def w1 w2 w3 split: option.split sum.split prod.split)
    qed (use p R_refl Some in \<open>simp add: rotateReported_def w1\<close>)
  qed (simp add: rotateReported_def R_refl)
qed

lemma R_handleCursor: "R w (snd (handleCursor h hc parent raw i res path gate w))"
proof -
  obtain q w1 where w1: "store_read h (\<lambda>s. ReadCursorRuntime s i) w = (q, w1)" by fastforce
  have p: "R w w1" "R w (tick h w1)" using R_read[OF w1] R_tick[of w1] by (auto intro: R_trans)
  have "R w w3" if "rotateReported h hc i g res b claim path (tick h w1) = (ok, w3)" for g b claim ok w3
    using R_trans[OF p(2) R_rotateReported[of "tick h w1" hc i g res b claim path]] that by simp
  with p R_refl show ?thesis by (auto simp: handleCursor_def w1 Let_def split: option.split sum.split prod.split)
qed

lemma R_writeClaudeCapacity: "R w (snd (writeClaudeCapacity h i gate cap w))"
proof -
  have "R w (snd (store_call h (\<lambda>s _. RecordClaudeCapacity s i gate cap) w))" by (rule R_step[OF store_step.capacity])
  then show ?thesis by (auto simp: writeClaudeCapacity_def split: prod.splits sum.splits)
qed

lemma R_writeAfter: "R w w1 \<Longrightarrow> R w (snd (writeClaudeCapacity h i gate cap w1))"
  using R_trans R_writeClaudeCapacity by blast

lemma R_observeMain: "R w (snd (observeMain h hc i gate e p at w))"
  unfolding observeMain_def Let_def by (simp add: R_writeAfter R_tick R_refl)

lemma R_observeChildren: "R w (snd (observeChildren h hc i gate e p at w))"
proof -
  obtain q w1 where w1: "store_read h (\<lambda>s. ListSubagentRecords s i) w = (q, w1)" by fastforce
  have p1: "R w w1" "R w (tick h w1)" using R_read[OF w1] R_tick[of w1] by (auto intro: R_trans)
  then show ?thesis
    using R_writeAfter[OF p1(2)] R_writeClaudeCapacity R_refl
    by (simp add: observeChildren_def w1 Let_def split: sum.split prod.split option.split)
qed

lemma R_recordClaudeCapacity: "R w (snd (recordClaudeCapacity h hc parent payload at launch w))"
proof (cases "ResolveInstanceID (hc_Env hc)")
  case (Inr i)
  obtain q w1 where w1: "store_read h (\<lambda>s. readEvidence s i) w = (q, w1)" by fastforce
  note p1 = R_read[OF w1]
  show ?thesis
  proof (cases q)
    case q: (Inr es)
    obtain e snapshot where es: "es = (e, snapshot)" by fastforce
    have "R w (snd (observeCapacity h hc i (capacityGate parent e snapshot) e p at w1))" for p
      using R_observeMain R_observeChildren p1 R_trans by (simp add: observeCapacity_def)
    then have "R w w2" if "observeCapacity h hc i (capacityGate parent e snapshot) e p at w1 = (r, w2)" for p r w2
      using that by (metis snd_conv)
    then show ?thesis
      using Inr w1 p1 q es R_refl by (auto simp: recordClaudeCapacity_def split: option.split prod.split)
  qed (use Inr w1 p1 R_refl in \<open>simp add: recordClaudeCapacity_def\<close>)
qed (simp add: recordClaudeCapacity_def R_refl)

lemma R_handleClaudeCapacity: "R w (handleClaudeCapacity h hc parent payload at w)"
proof -
  have "R w (capacityAttempts h hc parent payload at n launch w)" for n launch w
  proof (induction n arbitrary: launch w)
    case (Suc n)
    obtain res launch' w1 where r: "recordClaudeCapacity h hc parent payload at launch w = ((res, launch'), w1)" by (metis prod.exhaust)
    have "R w w1" using R_recordClaudeCapacity[of w hc parent payload at launch] r by simp
    then show ?case using r R_refl R_trans[OF _ Suc.IH] by simp
  qed (simp add: R_refl)
  then show ?thesis by (simp add: handleClaudeCapacity_def)
qed

lemma R_handleStart: "R w (snd (handleStart h hc w))"
  by (auto simp: handleStart_def R_now R_refl split: option.split)

end

section \<open>Every store call of the hook is a step\<close>

interpretation hooked: hook_actions h "\<lambda>w w'. host_honest h \<longrightarrow> progress w w'"
proof unfold_locales
  show "host_honest h \<longrightarrow> progress w (w\<lparr>w_db := d\<rparr>)" if "store_step (h_store h n) (w_db w) d" for n w d
    using step_guarantee[OF that] by (simp add: host_honest_def progress_def)
qed (auto intro: progress_trans simp: progress_tick progress_emitIgnored)

lemmas progress_proveRequestsGone = hooked.R_proveRequestsGone[THEN mp]
  and progress_closeToolRan = hooked.R_closeToolRan[THEN mp]
  and progress_ownWrite = hooked.R_ownWrite[THEN mp]
  and progress_runSubagentAfterWrite = hooked.R_runSubagentAfterWrite[THEN mp]
  and progress_afterOwnWrite = hooked.R_afterOwnWrite[THEN mp]
  and progress_recordSessionStart = hooked.R_recordSessionStart[THEN mp]
  and progress_handleCursor = hooked.R_handleCursor[THEN mp]
  and progress_handleClaudeCapacity = hooked.R_handleClaudeCapacity[THEN mp]
  and progress_handleStart = hooked.R_handleStart[THEN mp]

section \<open>What reaches the agent\<close>

text \<open>
  What one hook may leave on its standard output: nothing, or, when the relay is on and the payload is
  a permission request, one line: the fail-closed deny, or the acknowledged verdict of its own request.
\<close>

definition spoke :: "HandleConfig \<Rightarrow> payload_text \<Rightarrow> world \<Rightarrow> world \<Rightarrow> bool" where
  "spoke hc raw w w' \<longleftrightarrow> store_guarantee (w_db w) (w_db w') \<and>
     (w_stdout w' = w_stdout w
      \<or> relayActive hc \<and> PeekEventName raw = EventNamePermissionRequest
        \<and> (w_stdout w' = w_stdout w @ [EncodeDecision EventNamePermissionRequest ''deny'' []]
           \<or> (\<exists>i token. ResolveInstanceID (hc_Env hc) = Inr i \<and> hc_mint hc = Some token \<and> wroteAnswer i token w w')))"

lemma spoke_progress: "progress w w' \<Longrightarrow> spoke hc raw w w'"
  by (simp add: spoke_def progress_def)

lemma spoke_failClosed: "progress w w' \<Longrightarrow> spoke hc raw w (failClosed hc raw w')"
  by (auto simp: spoke_def failClosed_def progress_def Fprintln_def)

lemma spoke_after: "progress w w1 \<Longrightarrow> spoke hc raw w1 w2 \<Longrightarrow> spoke hc raw w w2"
  by (auto simp: progress_def spoke_def wroteAnswer_def intro: store.G_trans)

lemma spoke_sessionStart: "host_honest h \<Longrightarrow> spoke hc raw w (snd (sessionStartHook h hc parent raw i res path gate w))"
proof -
  assume h: "host_honest h"
  obtain r w1 where w1: "recordSessionStart h hc i gate path (transcriptPresent hc w path) w = (r, w1)" by fastforce
  have "progress w w1" using progress_recordSessionStart[OF h, of w hc i gate path "transcriptPresent hc w path"] w1 by simp
  then have "spoke hc raw w (failClosed hc raw w1)" "spoke hc raw w (afterOwnWrite h hc parent i res path applied w1)" for applied
    using progress_afterOwnWrite[OF h] by (blast intro: spoke_failClosed spoke_progress progress_trans)+
  then show ?thesis by (auto simp: sessionStartHook_def w1 split: sum.split)
qed

lemma spoke_tracking:
  assumes h: "host_honest h" and "ClassifyEvent a raw = Inr res"
  shows "spoke hc raw w (snd (trackingHook h hc start parent raw i res path gate w))"
proof -
  define w1 where "w1 = (if relayActive hc then proveRequestsGone h start i gate res w else w)"
  define w2 where "w2 = (if relayActive hc \<and> ToolRan res then closeToolRan h hc i gate (cl_ToolUseID res) w1 else w1)"
  obtain r w3 where w3: "store_call h (\<lambda>s _. ownWrite s i gate res raw (UnixMilli start) path (transcriptPresent hc w path)) w2 = (r, w3)"
    by fastforce
  have "progress w w1" "progress w1 w2" "progress w2 w3"
    using progress_proveRequestsGone[OF h] progress_closeToolRan[OF h] w3
      progress_ownWrite[OF classified_writable[OF assms(2)] h, of w2 i gate raw "UnixMilli start" path "transcriptPresent hc w path"]
    by (auto simp: w1_def w2_def)
  then have p: "progress w w3" by (meson progress_trans)
  then have "spoke hc raw w (afterOwnWrite h hc parent i res path x w3)"
      "spoke hc raw w (afterOwnWrite h hc parent i res path x (runSubagentAfterWrite h i gate res raw start w3))" for x
    using progress_trans[OF p progress_afterOwnWrite[OF h]]
      progress_trans[OF progress_trans[OF p progress_runSubagentAfterWrite[OF h]] progress_afterOwnWrite[OF h]]
    by (auto intro: spoke_progress)
  then show ?thesis
    using spoke_failClosed[OF p]
    by (auto simp: trackingHook_def Let_def w1_def[symmetric] w2_def[symmetric] w3 split: sum.split)
qed


lemma spoke_relay:
  assumes h: "host_honest h" and "0 \<le> w_now w" and "relayActive hc" and "PeekEventName raw = EventNamePermissionRequest"
    and "ResolveInstanceID (hc_Env hc) = Inr i" and "in_instanceID inp = i"
    and "runRelay h hc killAt inp elapsed (\<lambda>reason. emitIgnored h hc (ignoredOf i res parent reason False)) w = Some (fired, w')"
  shows "spoke hc raw w w'"
proof -
  have "(\<lambda>reason. emitIgnored h hc (ignoredOf i res parent reason False))
      = (\<lambda>reason. emitIgnored h hc ((ignoredOf i res parent [] False)\<lparr>ig_reason := reason\<rparr>))" by (simp add: ignoredOf_def)
  from runRelay_outcome[OF h assms(2) assms(7)[unfolded this]] show ?thesis
    using assms(3-6) by (auto simp: spoke_def wroteAnswer_def)
qed

lemma spoke_dispatch:
  assumes h: "host_honest h" and "0 \<le> w_now w" and c: "ClassifyEvent a raw = Inr res" and "ResolveInstanceID (hc_Env hc) = Inr i"
    and "dispatchHook h hc start parent raw i res path gate elapsed w = Some (fired, w')"
  shows "spoke hc raw w w'"
proof -
  let ?inp = "\<lparr>in_instanceID = i, in_gate = gate, in_parent = parent, in_agentID = cl_AgentID res, in_transcriptPath = path,
            in_transcriptPresent = transcriptPresent hc w path, in_raw = raw\<rparr>"
  consider (start) "w' = snd (sessionStartHook h hc parent raw i res path gate w)"
    | (relay) rf where "relayActive hc" "PeekEventName raw = EventNamePermissionRequest"
        "runRelay h hc (newRelayClock hc start) ?inp elapsed (\<lambda>reason. emitIgnored h hc (ignoredOf i res parent reason False)) w = Some (rf, w')"
    | (other) "w' = snd (trackingHook h hc start parent raw i res path gate w)"
    using assms(5) classified_event[OF c]
    by (auto simp: dispatchHook_def Let_def split: if_splits prod.splits)
  then show ?thesis
  proof cases
    case relay
    then show ?thesis by (intro spoke_relay[OF h assms(2) relay(1,2) assms(4) _ relay(3)]) simp
  qed (simp_all add: spoke_sessionStart[OF h] spoke_tracking[OF h c])
qed

lemma spoke_handleEvent:
  assumes h: "host_honest h" and now: "0 \<le> w_now w" and "handleEvent h hc start parent raw elapsed w = Some (fired, w')"
  shows "spoke hc raw w w'"
proof (cases "ResolveInstanceID (hc_Env hc)")
  case (Inl e)
  then show ?thesis using assms(3) by (auto simp: handleEvent_def intro: spoke_failClosed)
next
  case i: (Inr i)
  show ?thesis
  proof (cases "\<exists>agent res. ResolveAgent (hc_Agent hc) = Inr agent \<and> ClassifyEvent agent raw = Inr res")
    case False
    then show ?thesis using assms(3) i by (auto simp: handleEvent_def split: sum.splits intro: spoke_failClosed)
  next
    case True
    then obtain agent res where c: "ResolveAgent (hc_Agent hc) = Inr agent" "ClassifyEvent agent raw = Inr res" by blast
    define path where "path = (if cl_AgentID res \<noteq> [] then [] else cl_TranscriptPath res)"
    obtain x w1 where w1: "handleCursor h hc parent raw i res path (gateOf parent res) w = (x, w1)" by fastforce
    have p: "progress w w1" using progress_handleCursor[OF h, of w hc parent raw i res path "gateOf parent res"] w1 by simp
    then have "0 \<le> w_now w1" using now by (simp add: progress_def)
    then have go: "spoke hc raw w w'" if "dispatchHook h hc start parent raw i res path g elapsed w1 = Some (fired, w')" for g
      using spoke_after[OF p spoke_dispatch[OF h _ c(2) i that]] by blast
    show ?thesis
    proof (cases "SubagentLifecycle res \<or> cl_Agent res \<noteq> AgentCursor")
      case True
      then show ?thesis
        using assms(3) i c progress_emitIgnored[OF h] spoke_dispatch[OF h now c(2) i]
        by (auto simp: handleEvent_def Let_def split: if_splits intro: spoke_progress)
    next
      case False
      then show ?thesis
        using assms(3) i c w1 go p spoke_failClosed[OF p] spoke_progress[OF p]
        by (auto simp: handleEvent_def Let_def path_def[symmetric] split: cursor_step.splits)
    qed
  qed
qed


section \<open>The hook\<close>

lemma emitFired_fields [simp]: "w_stdout (emitFired hc f w) = w_stdout w" "permission_requests (w_db (emitFired hc f w)) = permission_requests (w_db w)"
  "w_db (emitFired hc f w) = emit (firedEvent hc f) (w_db w)"
  by (simp_all add: emitFired_def trail_Emit_def)

lemma spoke_fired: "spoke hc raw w w' \<Longrightarrow> spoke hc raw w (emitFired hc f w')"
  by (simp add: spoke_def wroteAnswer_def store.G_emit)

text \<open>
  C7. A hook answers nobody but its own agent's permission request. Whatever the payload is, whatever
  fails and whoever else writes meanwhile, everything the hook verb commits keeps the store's guarantee,
  and its standard output stays empty unless the relay is on, the invocation is no capacity callback and
  the payload is a permission request; then it is at most one line: the fail-closed deny, or the stored
  verdict of the hook's own request, marked delivered and without a pane answer.
\<close>

theorem hook_answers_only_relayed_requests:
  assumes "host_honest h" and "0 \<le> w_now w" and "Handle h hc input elapsed w = Some w'"
  shows "store_guarantee (w_db w) (w_db w') \<and>
     (w_stdout w' = w_stdout w
      \<or> relayActive hc \<and> hc_ContextSource hc = [] \<and> PeekEventName (si_payload input) = EventNamePermissionRequest
        \<and> (w_stdout w' = w_stdout w @ [EncodeDecision EventNamePermissionRequest ''deny'' []]
           \<or> (\<exists>i token decision reason. ResolveInstanceID (hc_Env hc) = Inr i \<and> hc_mint hc = Some token
               \<and> w_stdout w' = w_stdout w @ [EncodeDecision EventNamePermissionRequest decision reason]
               \<and> any_row (answeredAs i token decision reason) (permission_requests (w_db w')))))"
proof -
  note h = assms(1)
  obtain start w1 where w1: "handleStart h hc w = (start, w1)" by fastforce
  have p1: "progress w w1" using progress_handleStart[OF h, of w hc] w1 by simp
  have quiet: "w_stdout w' = w_stdout w \<and> store_guarantee (w_db w) (w_db w')" if "w' = emitFired hc f w2" "progress w w2" for f w2
    using that by (simp del: emitFired_fields(3) add: emitFired_def) (use progress_emits in \<open>auto simp: progress_def\<close>)
  show ?thesis
  proof (cases "ReadPayload input")
    case (Inl e)
    then have "w' = emitFired hc zeroFired w1" using assms(3) w1 by (simp add: Handle_def)
    from quiet[OF this p1] show ?thesis by blast
  next
    case (Inr raw)
    then have raw: "raw = si_payload input" by (auto simp: ReadPayload_def split: if_splits)
    show ?thesis
    proof (cases "hc_ContextSource hc = []")
      case False
      then have "\<exists>cap at. w' = emitFired hc zeroFired (handleClaudeCapacity h hc (captureParent hc w1) cap at w1)"
        using assms(3) w1 Inr by (auto simp: Handle_def)
      with quiet[OF _ progress_trans[OF p1 progress_handleClaudeCapacity[OF h]]] show ?thesis by blast
    next
      case True
      then obtain fired w2 where w2: "handleEvent h hc start (captureParent hc w1) raw elapsed w1 = Some (fired, w2)" "w' = emitFired hc fired w2"
        using assms(3) w1 Inr by (auto simp: Handle_def)
      have "0 \<le> w_now w1" using p1 assms(2) by (simp add: progress_def)
      then have "spoke hc raw w w'"
        unfolding w2(2) by (intro spoke_fired spoke_after[OF p1 spoke_handleEvent[OF h _ w2(1)]])
      then show ?thesis using True raw by (auto simp: spoke_def wroteAnswer_def)
    qed
  qed
qed


definition sample_stdin :: stdin where
  "sample_stdin = \<lparr>si_fails = False, si_bytes = 30, si_payload = NoBytes, si_capacity = None\<rparr>"

section \<open>One record for each hook\<close>

abbreviation "hookFiredEvent \<equiv> ''ad.hook.fired''"

text \<open>The events the process handed to \<open>trail.Emit\<close> between two moments, none of them an \<open>ad.hook.fired\<close>.\<close>

definition unfired :: "world \<Rightarrow> world \<Rightarrow> bool" where
  "unfired w w' \<longleftrightarrow> (\<exists>evs. w_emitted w' = w_emitted w @ evs \<and> list_all (\<lambda>ev. fst ev \<noteq> hookFiredEvent) evs)"

lemma unfired_same: "w_emitted w' = w_emitted w \<Longrightarrow> unfired w w'"
  by (simp add: unfired_def)

lemma unfired_trans: "unfired a b \<Longrightarrow> unfired b c \<Longrightarrow> unfired a c"
  unfolding unfired_def by (elim exE conjE) (simp add: exI[of _ "_ @ _"])

lemma unfired_emit: "fst ev \<noteq> hookFiredEvent \<Longrightarrow> unfired w (trail_Emit ev w)"
  unfolding unfired_def by (intro exI[of _ "[ev]"]) (simp add: trail_Emit_def)

lemma unfired_emits: "unfired w w' \<Longrightarrow> fst ev \<noteq> hookFiredEvent \<Longrightarrow> unfired w (trail_Emit ev w')"
  by (rule unfired_trans[OF _ unfired_emit])

lemma unfired_steps:
  "unfired w (tick h w)" "unfired w (clock_sleep h t w)" "unfired w (Fprintln line w)"
  "store_read h q w = (r, w1) \<Longrightarrow> unfired w w1" "clock_now h w = (t, w1) \<Longrightarrow> unfired w w1" "store_call h m w = (x, w1) \<Longrightarrow> unfired w w1"
  by (auto intro!: unfired_same simp: tick_def clock_sleep_def Fprintln_def store_read_def clock_now_def store_call_def Let_def split: prod.splits)

lemma unfired_emitIgnored: "unfired w (emitIgnored h hc ig w)"
  by (auto simp: emitIgnored_def emitPaneIsGrandparent_def Let_def intro!: unfired_emits dest!: unfired_steps(4) split: prod.splits sum.splits)

interpretation recorded: hook_actions h unfired
  by unfold_locales (simp_all add: unfired_same unfired_steps unfired_emitIgnored, rule unfired_trans)

lemma unfired_print: "unfired w w' \<Longrightarrow> unfired w (Fprintln line w')" and unfired_tick: "unfired w w' \<Longrightarrow> unfired w (tick h w')"
  by (blast intro: unfired_trans unfired_steps(1,3))+

lemma unfired_failClosed: "unfired w w' \<Longrightarrow> unfired w (failClosed hc raw w')"
  by (simp add: failClosed_def unfired_print)

lemma unfired_deliver: "unfired w (deliver h hc killAt parent i token elapsed w)"
  by (auto simp: deliver_def emitResume_def intro!: unfired_emits unfired_print dest!: unfired_steps(5,6) intro: unfired_trans
      split: prod.splits sum.splits option.splits)

lemma unfired_timeoutDeny: "unfired w (timeoutDeny h hc killAt parent i token elapsed w)"
  by (auto simp: timeoutDeny_def emitResume_def intro!: unfired_emits unfired_print dest!: unfired_steps(5,6)
      intro: unfired_trans unfired_trans[OF _ unfired_deliver] split: prod.splits sum.splits)

lemma unfired_Poll: "Poll h cfg deadline i token n c w = Some (res, w') \<Longrightarrow> unfired w w'"
  using Poll_keeps[of unfired h cfg deadline i token n c w "(res, w')"]
  by (simp add: unfired_same unfired_steps) (blast intro: unfired_trans)

lemma unfired_afterPoll: "unfired w (afterPoll h hc killAt parent i token elapsed res w)"
  by (simp add: afterPoll_def unfired_deliver unfired_timeoutDeny unfired_same)

lemma unfired_runRelay:
  assumes "runRelay h hc killAt inp elapsed (\<lambda>reason. emitIgnored h hc (ig reason)) w = Some (fired, w')"
  shows "unfired w w'"
proof (cases "hc_mint hc")
  case None
  with assms show ?thesis by (auto simp: runRelay_def failClosedDeny_def intro: unfired_print unfired_same)
next
  case (Some token)
  obtain now w1 where w1: "clock_now h w = (now, w1)" by fastforce
  obtain x w2 where w2: "store_call h (\<lambda>s _. InsertRelayRequest s (in_instanceID inp) (in_gate inp) (relayRequestOf hc killAt inp token) (relayCap hc)) w1
      = (x, w2)" by fastforce
  have u: "unfired w w2" using unfired_steps(5)[OF w1] unfired_steps(6)[OF w2] by (rule unfired_trans)
  have ig: "unfired w (emitIgnored h hc i w2)" for i by (rule unfired_trans[OF u unfired_emitIgnored])
  have "unfired w w3" if ans: "relayAnswer h hc killAt (in_parent inp) (in_instanceID inp) token elapsed
      (trail_Emit (relayAttempt (in_instanceID inp) token) w2) = Some w3" for w3
  proof -
    obtain res w4 where p: "Poll h (hc_Cfg hc) (pollEnd killAt) (in_instanceID inp) token 0 None (trail_Emit (relayAttempt (in_instanceID inp) token) w2)
        = Some (res, w4)" "w3 = afterPoll h hc killAt (in_parent inp) (in_instanceID inp) token elapsed res w4"
      using ans by (auto simp: relayAnswer_def)
    have "unfired w (trail_Emit (relayAttempt (in_instanceID inp) token) w2)" using u by (rule unfired_emits) (simp add: relayAttempt_def)
    from unfired_trans[OF unfired_trans[OF this unfired_Poll[OF p(1)]] unfired_afterPoll] p(2) show ?thesis by simp
  qed
  with assms Some w1 w2 u ig show ?thesis
    by (cases x) (auto simp: runRelay_def Let_def failClosedDeny_def intro: unfired_print split: if_splits)
qed

lemma unfired_trackingHook: "unfired w (snd (trackingHook h hc start parent raw i res path gate w))"
proof -
  define w1 where "w1 = (if relayActive hc then proveRequestsGone h start i gate res w else w)"
  define w2 where "w2 = (if relayActive hc \<and> ToolRan res then closeToolRan h hc i gate (cl_ToolUseID res) w1 else w1)"
  obtain r w3 where w3: "store_call h (\<lambda>s _. ownWrite s i gate res raw (UnixMilli start) path (transcriptPresent hc w path)) w2 = (r, w3)"
    by fastforce
  have "unfired w w1" "unfired w1 w2"
    using recorded.R_proveRequestsGone recorded.R_closeToolRan by (auto simp: w1_def w2_def unfired_same)
  with unfired_steps(6)[OF w3] have u: "unfired w w3" by (blast intro: unfired_trans)
  have "unfired w (afterOwnWrite h hc parent i res path x w3)" for x
    by (rule unfired_trans[OF u recorded.R_afterOwnWrite])
  moreover have "unfired w (afterOwnWrite h hc parent i res path x (runSubagentAfterWrite h i gate res raw start w3))" for x
    by (rule unfired_trans[OF unfired_trans[OF u recorded.R_runSubagentAfterWrite] recorded.R_afterOwnWrite])
  ultimately show ?thesis
    using unfired_failClosed[OF u] by (auto simp: trackingHook_def Let_def w1_def[symmetric] w2_def[symmetric] w3 split: sum.split)
qed

lemma unfired_sessionStartHook: "unfired w (snd (sessionStartHook h hc parent raw i res path gate w))"
proof -
  obtain r w1 where w1: "recordSessionStart h hc i gate path (transcriptPresent hc w path) w = (r, w1)" by fastforce
  have u: "unfired w w1" using recorded.R_recordSessionStart[of w h hc i gate path "transcriptPresent hc w path"] w1 by simp
  show ?thesis
    using unfired_failClosed[OF u] unfired_trans[OF u recorded.R_afterOwnWrite] by (auto simp: sessionStartHook_def w1 split: sum.split)
qed

lemma unfired_dispatchHook: "dispatchHook h hc start parent raw i res path gate elapsed w = Some (fired, w') \<Longrightarrow> unfired w w'"
  using unfired_sessionStartHook[of w h hc parent raw i res path gate] unfired_trackingHook[of w h hc start parent raw i res path gate]
  by (auto simp: dispatchHook_def Let_def dest: unfired_runRelay split: if_splits prod.splits)

lemma unfired_handleEvent:
  assumes "handleEvent h hc start parent raw elapsed w = Some (fired, w')"
  shows "unfired w w'"
proof -
  have cur: "unfired w w1" if "handleCursor h hc parent raw i res path gate w = (x, w1)" for i res path gate x w1
    using recorded.R_handleCursor[of w h hc parent raw i res path gate] that by simp
  have bound: "unfired w w'" if "handleCursor h hc parent raw i res path gate w = (CursorGate g, w1)"
      "dispatchHook h hc start parent raw i res path g elapsed w1 = Some (fired, w')" for i res path gate g w1
    by (rule unfired_trans[OF cur[OF that(1)] unfired_dispatchHook[OF that(2)]])
  show ?thesis
    using assms cur bound by (auto simp: handleEvent_def Let_def intro: unfired_failClosed unfired_same unfired_emitIgnored
        dest: unfired_dispatchHook split: sum.splits if_splits prod.splits cursor_step.splits)
qed

lemma dispatch_returns:
  assumes "clock_fair h"
  shows "\<exists>y. dispatchHook h hc start parent raw i res path gate elapsed w = Some y"
  using runRelay_returns[OF assms] by (fastforce simp: dispatchHook_def Let_def split: prod.split)

lemma handle_fires:
  assumes "clock_fair h"
  shows "\<exists>w1 f. Handle h hc input elapsed w = Some (emitFired hc f w1) \<and> unfired w w1"
proof -
  obtain start w1 where w1: "handleStart h hc w = (start, w1)" by fastforce
  have u: "unfired w w1" using recorded.R_handleStart[of w h hc] w1 by simp
  show ?thesis
  proof (cases "\<exists>raw. ReadPayload input = Inr raw \<and> hc_ContextSource hc = []")
    case True
    then obtain raw where raw: "ReadPayload input = Inr raw" "hc_ContextSource hc = []" by blast
    obtain f w2 where e: "handleEvent h hc start (captureParent hc w1) raw elapsed w1 = Some (f, w2)"
      using dispatch_returns[OF assms] by (fastforce simp: handleEvent_def Let_def split: sum.split prod.split cursor_step.split)
    with raw w1 unfired_trans[OF u unfired_handleEvent[OF e]] show ?thesis by (auto simp: Handle_def Let_def)
  next
    case False
    with w1 u unfired_trans[OF u recorded.R_handleClaudeCapacity] show ?thesis
      by (auto simp: Handle_def Let_def split: sum.split)
  qed
qed

lemma handle_returns: "clock_fair h \<Longrightarrow> \<exists>w'. Handle h hc input elapsed w = Some w'"
  using handle_fires by blast

text \<open>
  C8. The hook verb ends and is recorded once. On a clock that does not run back and whose sleeps last (or end
  with the context), it returns whatever it reads, whatever fails and whoever else writes, and of the events it
  has handed to \<open>trail.Emit\<close> exactly the last one is an \<open>ad.hook.fired\<close>.
\<close>

theorem hook_ends_and_is_recorded:
  assumes "clock_fair h"
  shows "\<exists>w' evs f. Handle h hc input elapsed w = Some w' \<and> w_emitted w' = w_emitted w @ evs @ [firedEvent hc f]
     \<and> filter (\<lambda>ev. fst ev = ''ad.hook.fired'') (evs @ [firedEvent hc f]) = [firedEvent hc f]"
proof -
  obtain w1 f where run: "Handle h hc input elapsed w = Some (emitFired hc f w1)" and "unfired w w1"
    using handle_fires[OF assms, of hc input elapsed w] by blast
  then obtain evs where evs: "w_emitted w1 = w_emitted w @ evs" "list_all (\<lambda>ev. fst ev \<noteq> hookFiredEvent) evs"
    unfolding unfired_def by blast
  have "filter (\<lambda>ev. fst ev = hookFiredEvent) evs = []" using evs(2) by (auto simp: list_all_iff filter_empty_conv)
  with run evs(1) show ?thesis
    by (intro exI[of _ "emitFired hc f w1"] exI[of _ evs] exI[of _ f]) (simp add: emitFired_def trail_Emit_def firedEvent_def)
qed

theorem hook_ends_and_is_recorded_witness:
  "\<exists>w' f. Handle sample_host sample_config sample_stdin 0 sample_world = Some w'
     \<and> filter (\<lambda>ev. fst ev = ''ad.hook.fired'') (w_emitted w') = [firedEvent sample_config f]"
proof -
  have "w_emitted sample_world = []" by (simp add: sample_world_def)
  with hook_ends_and_is_recorded[OF sample_clock_fair, of sample_config sample_stdin 0 sample_world] show ?thesis by fastforce
qed

section \<open>SessionStart's wait\<close>

text \<open>A clock on which only sleeps take time, and no longer than asked.\<close>

definition punctual :: "host \<Rightarrow> bool" where
  "punctual h \<longleftrightarrow> (\<forall>w. w_now (h_pass h w) = w_now w) \<and> (\<forall>t w. 0 < t \<longrightarrow> w_now (h_sleep h t w) \<le> w_now w + t)"

lemma punctual_now:
  assumes "punctual h"
  shows "clock_now h w = (t, w1) \<Longrightarrow> w_now w1 = w_now w \<and> t = w_now w" "store_read h q w = (r, w1) \<Longrightarrow> w_now w1 = w_now w"
    "0 < t \<Longrightarrow> w_now (clock_sleep h t w) \<le> w_now w + t"
  using assms by (auto simp: punctual_def clock_now_def store_read_def clock_sleep_def tick_def Let_def)

lemma action_ticks: "clock_now h w = (t, w1) \<Longrightarrow> w_tick w1 = Suc (w_tick w)" "store_read h q w = (r, w1) \<Longrightarrow> w_tick w1 = Suc (w_tick w)"
  by (auto simp: clock_now_def store_read_def tick_def Let_def)

lemma identityWait_ticks: "w_tick (identityWait h hc i sp bound capEnd n w) \<le> w_tick w + 4 * n"
proof (induction n arbitrary: w)
  case (Suc n)
  obtain now w1 where w1: "clock_now h w = (now, w1)" by fastforce
  let ?t = "identitySleep bound capEnd now"
  obtain q w3 where w3: "store_read h (\<lambda>s. GetSpawn s i) (clock_sleep h ?t w1) = (q, w3)" by fastforce
  obtain now' w4 where w4: "clock_now h w3 = (now', w4)" by fastforce
  show ?case
    using action_ticks(1)[OF w1] action_ticks(2)[OF w3] action_ticks(1)[OF w4] Suc.IH[of w4]
    by (simp add: w1 w3 w4 Let_def split: sum.split)
qed simp

lemma saturated_le: "0 < saturated x \<Longrightarrow> saturated x \<le> x"
  by (auto simp: saturated_def)

lemma identityWait_inside:
  assumes "punctual h"
  shows "w_now (identityWait h hc i sp bound capEnd n w) \<le> max (w_now w) (min bound capEnd)"
proof (induction n arbitrary: w)
  case (Suc n)
  obtain now w1 where w1: "clock_now h w = (now, w1)" by fastforce
  let ?t = "identitySleep bound capEnd now"
  obtain q w3 where w3: "store_read h (\<lambda>s. GetSpawn s i) (clock_sleep h ?t w1) = (q, w3)" by fastforce
  obtain now' w4 where w4: "clock_now h w3 = (now', w4)" by fastforce
  note now = punctual_now(1)[OF assms w1] punctual_now(2)[OF assms w3] punctual_now(1)[OF assms w4]
  show ?case
  proof (cases "?t \<le> 0")
    case False
    then have "now + ?t \<le> min bound capEnd"
      using saturated_le[of "bound - now"] saturated_le[of "capEnd - now"] unfolding identitySleep_def by linarith
    then have "w_now (clock_sleep h ?t w1) \<le> min bound capEnd" "w_now w3 \<le> min bound capEnd" "w_now w4 \<le> min bound capEnd"
      using punctual_now(3)[OF assms, of ?t w1] False now by linarith+
    then have inside: "w_now (clock_sleep h ?t w1) \<le> max (w_now w) (min bound capEnd)" "w_now w3 \<le> max (w_now w) (min bound capEnd)"
        "w_now w4 \<le> max (w_now w) (min bound capEnd)" "w_now (identityWait h hc i sp bound capEnd n w4) \<le> max (w_now w) (min bound capEnd)"
      using Suc.IH[of w4] by linarith+
    show ?thesis using inside False by (simp add: w1 w3 w4 Let_def split: sum.split)
  qed (use now w1 in simp)
qed simp

lemma maxReads_le: "maxReads bound start \<le> 2161"
proof -
  let ?b = "min (saturated (bound - start)) sessionStartWaitCap"
  have "truncated ?b sessionStartWaitInterval \<le> 2160"
  proof (cases "?b > 0")
    case True
    then have "truncated ?b sessionStartWaitInterval = ?b div sessionStartWaitInterval" by (simp add: truncated_def)
    moreover have "?b div sessionStartWaitInterval \<le> sessionStartWaitCap div sessionStartWaitInterval"
      by (rule zdiv_mono1) simp_all
    ultimately show ?thesis by simp
  next
    case False
    then have "sgn ?b * (\<bar>?b\<bar> div sessionStartWaitInterval) \<le> 0"
      by (intro mult_nonpos_nonneg) (auto simp: sgn_if)
    then show ?thesis by (simp add: truncated_def)
  qed
  then show ?thesis unfolding maxReads_def by linarith
qed

text \<open>
  C10. SessionStart's wait for its launch's identity write is bounded. On every clock, one that stands
  still or runs back included, it takes at most 2161 turns of four actions (two clock reads, one sleep
  and one read of the row) and one clock read; and on a clock on which sleeps last no longer than asked,
  it never runs past the row's grace bound nor past the cap of 540 s after it began.
\<close>

theorem session_start_wait_is_bounded:
  "w_tick (snd (waitForLaunchIdentity h hc i (Some sp) w)) \<le> w_tick w + 8645
   \<and> (punctual h \<longrightarrow> w_now (snd (waitForLaunchIdentity h hc i (Some sp) w))
        \<le> max (w_now w) (min (graceBound hc sp) (w_now w + sessionStartWaitCap)))"
proof -
  obtain start w1 where w1: "clock_now h w = (start, w1)" by fastforce
  let ?n = "maxReads (graceBound hc sp) start"
  let ?w = "identityWait h hc i sp (graceBound hc sp) (start + sessionStartWaitCap) ?n w1"
  have "w_tick ?w \<le> w_tick w + 8645"
    using identityWait_ticks[of h hc i sp "graceBound hc sp" "start + sessionStartWaitCap" ?n w1] action_ticks(1)[OF w1]
      maxReads_le[of "graceBound hc sp" start] by linarith
  moreover have "w_now ?w \<le> max (w_now w) (min (graceBound hc sp) (w_now w + sessionStartWaitCap))" if "punctual h"
    using identityWait_inside[OF that, of hc i sp "graceBound hc sp" "start + sessionStartWaitCap" ?n w1] punctual_now(1)[OF that w1] by simp
  ultimately show ?thesis
    using action_ticks(1)[OF w1] punctual_now(1)[of h w start w1] w1 by (auto simp: waitForLaunchIdentity_def Let_def)
qed

theorem session_start_wait_is_bounded_witness:
  "w_now (snd (waitForLaunchIdentity sample_host (sample_config\<lparr>hc_PendingGrace := Second\<rparr>) ''a'' (Some (scanSpawn sample_row)) sample_world))
     \<le> sessionStartWaitCap"
proof -
  have "punctual sample_host" "w_now sample_world = 0" by (simp_all add: punctual_def sample_host_def sample_world_def)
  with session_start_wait_is_bounded[of sample_host "sample_config\<lparr>hc_PendingGrace := Second\<rparr>" "''a''" "scanSpawn sample_row" sample_world]
  show ?thesis by auto
qed

theorem hook_answers_only_relayed_requests_witness:
  "\<exists>w'. Handle sample_host sample_config sample_stdin 0 sample_world = Some w' \<and> w_stdout w' = []"
proof -
  obtain w' where run: "Handle sample_host sample_config sample_stdin 0 sample_world = Some w'"
    using dispatch_returns[OF sample_clock_fair]
    by (auto simp: Handle_def handleEvent_def sample_config_def ResolveInstanceID_def sample_stdin_def handleStart_def ReadPayload_def
        strings_TrimSpace_def)
  have "0 \<le> w_now sample_world" "w_stdout sample_world = []" "\<not> relayActive sample_config"
    by (simp_all add: sample_world_def relayActive_def sample_config_def)
  with hook_answers_only_relayed_requests[OF sample_host_honest _ run] run show ?thesis by simp
qed

end
