(* ===== verification/Foreign_Hooks.thy ===== *)
theory Foreign_Hooks
  imports Handler_Laws
begin

text \<open>
  The gate of the hook verb as a whole: a hook whose parent is not the row's pane process leaves every
  table as it was, whatever its event, its agent and its payload.
\<close>

section \<open>A foreign parent\<close>

definition foreignTo :: "parentIdentity \<Rightarrow> spawn_row \<Rightarrow> bool" where
  "foreignTo pa r \<longleftrightarrow> \<not> (s_pane_pid r = Some (pa_pid pa) \<and> pa_pid pa > 0 \<and> pa_start pa \<noteq> []
     \<and> (s_pane_starttime r = Some (pa_start pa) \<or> s_pane_starttime r = None))"

definition foreign :: "parentIdentity \<Rightarrow> string \<Rightarrow> db \<Rightarrow> bool" where
  "foreign pa i d \<longleftrightarrow> distinct (map s_instance_id (spawns d)) \<and> (\<exists>r. find_spawn d i = Some r \<and> foreignTo pa r)"

definition gateBy :: "parentIdentity \<Rightarrow> HookGate \<Rightarrow> bool" where
  "gateBy pa g \<longleftrightarrow> g_ParentPID g = pa_pid pa \<and> g_ParentStart g = pa_start pa"

lemma foreign_row:
  assumes "foreign pa i d" and "gateBy pa g"
  obtains r where "distinct (map s_instance_id (spawns d))" and "find_spawn d i = Some r" and "\<not> hookGate d g r"
  using assms by (auto simp: foreign_def gateBy_def foreignTo_def hookGate_iff)

lemma foreign_rows:
  assumes "foreign pa i d" and "gateBy pa g" and "r \<in> set (spawns d)" and "s_instance_id r = i"
  shows "\<not> hookGate d g r"
proof -
  obtain r0 where r0: "distinct (map s_instance_id (spawns d))" "find_spawn d i = Some r0" "\<not> hookGate d g r0"
    by (rule foreign_row[OF assms(1,2)])
  have "find_spawn d i = Some r" unfolding find_spawn_def by (rule find_key_unique[OF r0(1) assms(3,4)])
  with r0 show ?thesis by simp
qed

lemma gated_update_foreign:
  assumes "foreign pa i d" and "gateBy pa g"
  shows "gatedHookUpdate i g upd p b cond d = (False, d)"
proof -
  obtain r where r: "distinct (map s_instance_id (spawns d))" "find_spawn d i = Some r" "\<not> hookGate d g r"
    by (rule foreign_row[OF assms])
  then show ?thesis
    unfolding gatedHookUpdate_def
    using update_the_row[OF r(1,2), of "\<lambda>q. hookGate d g q \<and> cond d q" "hookWrite g (upd d) p b"] by simp
qed

lemma update_where_absent: "(\<And>x. x \<in> set xs \<Longrightarrow> \<not> P x) \<Longrightarrow> update_where P f xs = xs"
  by (rule update_where_none) auto

lemma update_spawns_foreign:
  assumes "foreign pa i d" and "gateBy pa g" and "\<And>r. P r \<Longrightarrow> s_instance_id r = i \<and> hookGate d g r"
  shows "update_spawns P f d = (False, d)"
proof -
  have no: "\<not> P r" if "r \<in> set (spawns d)" for r using foreign_rows[OF assms(1,2) that] assms(3) by blast
  then show ?thesis using update_where_absent[of "spawns d" P f] by (auto simp: update_spawns_def)
qed

lemma gate_read_foreign:
  assumes "foreign pa i d" and "gateBy pa g" and "readHookGateRow s i g what d = Inr r"
  shows "\<not> hg_gateMatches r"
proof -
  obtain r0 where "find_spawn d i = Some r0" "\<not> hookGate d g r0" by (rule foreign_row[OF assms(1,2)])
  with assms(3) show ?thesis by (auto simp: readHookGateRow_def split: if_splits)
qed

section \<open>The store calls\<close>

text \<open>
  \<open>J\<close> is anything true of the tables which the trail does not matter to and which says that the row is not
  the parent's. A call \<open>yields J Q\<close> when it keeps \<open>J\<close>, beside connections that keep it and with any failure,
  and its result, if it has one, satisfies \<open>Q\<close>.
\<close>

definition shut_out :: "(db \<Rightarrow> bool) \<Rightarrow> parentIdentity \<Rightarrow> string \<Rightarrow> bool" where
  "shut_out J pa i \<longleftrightarrow> (\<forall>d. J d \<longrightarrow> foreign pa i d) \<and> (\<forall>d x. J (d\<lparr>trail := x\<rparr>) = J d)"

definition yields :: "(db \<Rightarrow> bool) \<Rightarrow> ('a \<Rightarrow> bool) \<Rightarrow> 'a call \<Rightarrow> bool" where
  "yields J Q m \<longleftrightarrow> (\<forall>d. J d \<longrightarrow> J (snd (m d)) \<and> (\<forall>x. fst (m d) = Inr x \<longrightarrow> Q x))"

lemma yields_bind: "yields J Q m \<Longrightarrow> (\<And>a. Q a \<Longrightarrow> yields J P (f a)) \<Longrightarrow> yields J P (call_bind m f)"
  by (fastforce simp: yields_def call_bind_def split: prod.splits sum.splits)

lemma yields_return: "Q a \<Longrightarrow> yields J Q (call_return a)"
  by (simp add: yields_def call_return_def)

lemma yields_read: "rely J s \<Longrightarrow> (\<And>d a. J d \<Longrightarrow> q d = Inr a \<Longrightarrow> Q a) \<Longrightarrow> yields J Q (read_then s n q)"
  by (auto simp: yields_def rely_def read_then_def split: sum.splits)

lemma yields_any_read: "rely J s \<Longrightarrow> yields J (\<lambda>_. True) (read_then s n q)"
  by (rule yields_read) simp_all

lemma yields_write: "rely J s \<Longrightarrow> yields J Q m \<Longrightarrow> yields J Q (write_then s n m)"
  by (fastforce simp: yields_def rely_def write_then_def split: prod.splits sum.splits)

lemma yields_if: "(c \<Longrightarrow> yields J Q x) \<Longrightarrow> (\<not> c \<Longrightarrow> yields J Q y) \<Longrightarrow> yields J Q (if c then x else y)"
  by simp

lemma yields_option: "yields J Q x \<Longrightarrow> (\<And>a. yields J Q (y a)) \<Longrightarrow> yields J Q (case v of None \<Rightarrow> x | Some a \<Rightarrow> y a)"
  by (cases v) simp_all

lemma yields_miss: "(\<And>d. J d \<Longrightarrow> stmt d = (False, d)) \<Longrightarrow> yields J (\<lambda>n. \<not> n) (execFamily s i what stmt)"
  by (simp add: yields_def execFamily_def execFamilyTx_def inImmediateTx_def tx_exec_def)

lemmas yields_rules = yields_return yields_any_read yields_if yields_option

text \<open>The hook of the foreign parent at one store handle: the gate it carries and who else writes.\<close>

definition shut_call :: "(db \<Rightarrow> bool) \<Rightarrow> parentIdentity \<Rightarrow> string \<Rightarrow> HookGate \<Rightarrow> store \<Rightarrow> bool" where
  "shut_call J pa i g s \<longleftrightarrow> shut_out J pa i \<and> gateBy pa g \<and> rely J s"

lemma shut_foreign: "shut_call J pa i g s \<Longrightarrow> J d \<Longrightarrow> foreign pa i d"
  by (simp add: shut_call_def shut_out_def)

lemma shut_gate: "shut_call J pa i g s \<Longrightarrow> gateBy pa g"
  by (simp add: shut_call_def)

lemma shut_rely: "shut_call J pa i g s \<Longrightarrow> rely J s"
  by (simp add: shut_call_def)

lemma gated_miss: "shut_call J pa i g s \<Longrightarrow> yields J (\<lambda>n. \<not> n) (execFamily s i what (gatedHookUpdate i g upd p b cond))"
  by (rule yields_miss) (rule gated_update_foreign[OF shut_foreign shut_gate])

lemma yields_not_applied: "rely J s \<Longrightarrow> yields J (\<lambda>a. \<not> Applied a) (read_then s n (hookNotApplied s i g what \<circ> others s m))"
  by (erule yields_read) (auto simp: hookNotApplied_def notAppliedReason_def split: sum.splits if_splits)

lemma yields_ignored:
  "rely J s \<Longrightarrow> yields J (\<lambda>x. \<not> Applied (snd x))
     (call_bind (read_then s n (hookNotApplied s i g what \<circ> others s m)) (\<lambda>a. call_return (o', a)))"
  by (rule yields_bind[OF yields_not_applied]) (auto intro: yields_return)

text \<open>\<open>ignored\<close> is a hook write that keeps \<open>J\<close> and never applies.\<close>

abbreviation ignored :: "(db \<Rightarrow> bool) \<Rightarrow> hook_result call \<Rightarrow> bool" where
  "ignored J \<equiv> yields J (\<lambda>x. \<not> Applied (snd x))"

lemma ignored_gated:
  assumes "shut_call J pa i g s"
  shows "ignored J (applyGatedHookWrite s i g upd prior new soft ev p b what)"
  unfolding applyGatedHookWrite_def
  by (rule yields_bind[OF gated_miss[OF assms]]) (simp add: yields_ignored[OF shut_rely[OF assms]])

lemma ignored_held:
  assumes "shut_call J pa i g s"
  shows "ignored J (reportWorkingHeld s i g ev)"
  unfolding reportWorkingHeld_def
proof (rule yields_bind)
  show "yields J (\<lambda>r. \<not> hg_gateMatches r) (read_then s 7 (readHookGateRow s i g ''store: working transition hold''))"
    by (rule yields_read[OF shut_rely[OF assms] gate_read_foreign[OF shut_foreign[OF assms] shut_gate[OF assms]]])
qed (simp add: yields_return notAppliedReason_def)

lemma ignored_hold:
  assumes "shut_call J pa i g s"
  shows "yields J (\<lambda>x. \<forall>r. x = Some r \<longrightarrow> \<not> Applied (snd r)) (holdWorkingTransition s i g ev)"
  unfolding holdWorkingTransition_def
  by (rule yields_bind[OF yields_any_read[OF shut_rely[OF assms]]])
    (auto intro!: yields_if yields_return yields_bind[OF ignored_held[OF assms]])

lemma ignored_working:
  assumes "shut_call J pa i g s"
  shows "ignored J (applyWorkingWrite s i g upd prior new ev p b what)"
  unfolding applyWorkingWrite_def Let_def execGuarded_def
proof (rule yields_bind[OF gated_miss[OF assms]])
  fix moved assume "\<not> moved"
  note r = shut_rely[OF assms]
  then show "ignored J (if moved then emit_call (transitionEvent i prior new ev False) (UpsertUpdated, hook_applied)
        else call_bind (if g_Cursor g \<noteq> None then call_return True
                        else if new = StateWorking \<and> codexToolTurn g then read_then s 4 (codexToolTurnLate s i (g_CodexTurn g) \<circ> others s 3)
                        else call_return False) (\<lambda>soft.
          if soft then call_bind (read_then s 6 (selectPriorState s i \<circ> others s 5)) (\<lambda>prior. case prior of
              None \<Rightarrow> call_return (UpsertNoChange, hook_zero)
            | Some p' \<Rightarrow> applyGatedHookWrite s i g softRefreshSet p' p' True ev p b what)
          else reportWorkingHeld s i g ev))"
    using \<open>\<not> moved\<close> r
    by (auto intro!: yields_if ignored_held[OF assms] ignored_gated[OF assms] yields_option yields_return
        yields_bind[where Q = "\<lambda>_. True"] yields_any_read)
qed

text \<open>A write's transaction that fails, by the driver or because its gate matched nothing.\<close>

definition misses :: "(db \<Rightarrow> bool) \<Rightarrow> 'a tx \<Rightarrow> bool" where
  "misses J t \<longleftrightarrow> (\<forall>d. J d \<longrightarrow> (\<exists>e. t d = Inl e))"

lemma misses_immediate: "misses J t \<Longrightarrow> J d \<Longrightarrow> \<exists>e. inImmediateTx s i t d = (Inl e, d)"
  by (force simp: misses_def inImmediateTx_def)

lemma misses_write: "misses J t \<Longrightarrow> J d \<Longrightarrow> \<exists>e. inWriteTx s t d = (Inl e, d)"
  by (force simp: misses_def inWriteTx_def)

lemma misses_gate:
  assumes "shut_call J pa i g s" and "\<And>n. n = False \<Longrightarrow> misses J (f n)"
  shows "misses J (tx_bind (tx_exec s what (gatedHookUpdate i g upd p b cond)) f)"
  using assms(2) by (simp add: misses_def tx_bind_def tx_exec_def gated_update_foreign[OF shut_foreign[OF assms(1)] shut_gate[OF assms(1)]])

lemma misses_fail: "misses J (\<lambda>_. Inl e)"
  by (simp add: misses_def)

lemma yields_after_miss:
  assumes "\<And>d. J d \<Longrightarrow> \<exists>e. m d = (if e = errNotApplied then other d else (Inl e, d))" and "yields J Q other"
  shows "yields J Q m"
  unfolding yields_def
proof (intro allI impI)
  fix d assume J: "J d"
  with assms(1) obtain e where "m d = (if e = errNotApplied then other d else (Inl e, d))" by blast
  then show "J (snd (m d)) \<and> (\<forall>x. fst (m d) = Inr x \<longrightarrow> Q x)" using J assms(2) by (simp add: yields_def)
qed

lemma ignored_ended:
  assumes "shut_call J pa i g s"
  shows "ignored J (applyEndedTransition s i g ev p b)"
proof -
  have "misses J (endedTx s i g p b)"
    unfolding misses_def endedTx_def
    using misses_gate[OF assms misses_fail] by (auto simp: misses_def tx_bind_def tx_exec_def
        gated_update_foreign[OF shut_foreign[OF assms] shut_gate[OF assms]] split: option.split)
  note miss = misses_immediate[OF this, of _ s i]
  show ?thesis
  proof (rule yields_after_miss[OF _ yields_ignored[OF shut_rely[OF assms]]])
    fix d assume "J d"
    from miss[OF this] obtain e where "inImmediateTx s i (endedTx s i g p b) d = (Inl e, d)" by blast
    then show "\<exists>e. applyEndedTransition s i g ev p b d = (if e = errNotApplied
          then call_bind (read_then s 9 (hookNotApplied s i g ''store: ended transition'' \<circ> others s 8)) (\<lambda>a. call_return (UpsertNoChange, a)) d
          else (Inl e, d))"
      by (intro exI[of _ e]) (cases e, simp_all add: applyEndedTransition_def)
  qed
qed

lemma ignored_transition:
  assumes "shut_call J pa i g s"
  shows "ignored J (ApplyHookTransitionResult s i g v soft ev p b)"
proof -
  note r = shut_rely[OF assms]
  have late: "yields J (\<lambda>_. True) (if c then read_then s 0 q else call_return False)" for c q
    using r by (intro yields_if yields_any_read yields_return) simp_all
  have held: "yields J (\<lambda>x. \<forall>r. x = Some r \<longrightarrow> \<not> Applied (snd r)) (if c then holdWorkingTransition s i g ev else call_return None)" for c
    by (intro yields_if ignored_hold[OF assms] yields_return) simp
  show ?thesis
    unfolding ApplyHookTransitionResult_def Let_def
    by (rule yields_bind[OF late], rule yields_bind[OF held])
      (auto intro!: yields_return yields_if yields_option ignored_ended[OF assms] ignored_working[OF assms] ignored_gated[OF assms]
          yields_bind[OF yields_any_read[OF r]] split: option.split)
qed

lemma ignored_end_report:
  assumes "shut_call J pa i g s"
  shows "ignored J (ApplyHookEndReport s i g ev p b)"
  unfolding ApplyHookEndReport_def
  by (rule yields_bind[OF yields_any_read[OF shut_rely[OF assms]]])
    (auto intro!: yields_option yields_return ignored_gated[OF assms])

lemma ignored_idle:
  assumes "shut_call J pa i g s"
  shows "ignored J (ApplyHookWaitingIfWorking s i g ev p b)"
proof -
  note r = shut_rely[OF assms]
  have move: "yields J (\<lambda>n. \<not> n) (write_then s n (idleMove s i g p b st))" for n st
    unfolding idleMove_def execGuarded_def by (rule yields_write[OF r gated_miss[OF assms]])
  show ?thesis
    unfolding ApplyHookWaitingIfWorking_def
    by (rule yields_bind[OF move], simp, rule yields_bind[OF move], simp)
      (auto intro!: yields_bind[OF yields_any_read[OF r]] yields_option yields_return ignored_gated[OF assms])
qed

lemma ignored_lifecycle:
  assumes "shut_call J pa i g s"
  shows "ignored J (ApplySubagentLifecycle s i g ev evName p b)"
proof -
  have "misses J (lifecycleTx s i g (cutEvent ev) p b)"
    by (auto simp: misses_def lifecycleTx_def lifecycleWrite_def tx_bind_def tx_exec_def
        gated_update_foreign[OF shut_foreign[OF assms] shut_gate[OF assms]] split: option.split)
  note miss = misses_immediate[OF this, of _ s i]
  show ?thesis
  proof (rule yields_after_miss[OF _ yields_ignored[OF shut_rely[OF assms]]])
    fix d assume "J d"
    from miss[OF this] obtain e where tx: "inImmediateTx s i (lifecycleTx s i g (cutEvent ev) p b) d = (Inl e, d)" by blast
    let ?known = "\<not> (le_SubagentID (cutEvent ev) \<noteq> [] \<and> le_Kind (cutEvent ev) \<noteq> SubagentLifecycleStart
        \<and> le_Kind (cutEvent ev) \<noteq> SubagentLifecycleStop)"
    show "\<exists>e. ApplySubagentLifecycle s i g ev evName p b d = (if e = errNotApplied
          then call_bind (read_then s 9 (hookNotApplied s i g ''store: subagent lifecycle'' \<circ> others s 8)) (\<lambda>a. call_return (UpsertNoChange, a)) d
          else (Inl e, d))"
    proof (cases ?known)
      case True
      then show ?thesis by (intro exI[of _ e]) (cases e, auto simp: ApplySubagentLifecycle_def Let_def tx)
    next
      case False
      then show ?thesis by (intro exI[of _ "errUnknownEventKind (le_Kind (cutEvent ev))"]) (simp add: ApplySubagentLifecycle_def Let_def)
    qed
  qed
qed

lemma ignored_relay:
  assumes "shut_call J pa i g s"
  shows "ignored J (InsertRelayRequest s i g req cap)"
proof -
  have "misses J (relayTx s i g req cap)"
    by (auto simp: misses_def relayTx_def tx_bind_def tx_exec_def
        gated_update_foreign[OF shut_foreign[OF assms] shut_gate[OF assms]] split: option.split)
  note miss = misses_write[OF this, of _ s]
  show ?thesis
  proof (rule yields_after_miss[OF _ yields_ignored[OF shut_rely[OF assms]]])
    fix d assume "J d"
    from miss[OF this] obtain e where "inWriteTx s (relayTx s i g req cap) d = (Inl e, d)" by blast
    then show "\<exists>e. InsertRelayRequest s i g req cap d = (if e = errNotApplied
          then call_bind (read_then s 9 (hookNotApplied s i g ''store: relay request'' \<circ> others s 8)) (\<lambda>a. call_return (UpsertNoChange, a)) d
          else (Inl e, d))"
      by (intro exI[of _ e]) (cases e, simp_all add: InsertRelayRequest_def)
  qed
qed

lemma ignored_session_start:
  assumes "shut_call J pa i g s"
  shows "yields J (\<lambda>x. \<not> Applied (fst x)) (RecordSessionStartIdentity s i g p b)"
proof -
  note r = shut_rely[OF assms]
  have again: "yields J (\<lambda>x. \<not> Applied (fst x)) (sessionStartNotApplied s i g)"
    unfolding sessionStartNotApplied_def
    by (rule yields_bind[OF yields_any_read[OF r]]) (auto intro!: yields_return simp: notAppliedReason_def)
  have tx: "\<exists>e. sessionStartTx s i g p b prior d = Inl e" if "J d" for prior d
  proof -
    have "update_spawns (\<lambda>r. s_instance_id r = i \<and> hookGate d g r \<and> snapshotMatch (g_Examined g) r) f d = (False, d)" for f
      by (rule update_spawns_foreign[OF shut_foreign[OF assms that] shut_gate[OF assms]]) simp
    then show ?thesis by (simp add: sessionStartTx_def Let_def tx_bind_def tx_exec_def)
  qed
  have "yields J (\<lambda>x. \<not> Applied (fst x)) (sessionStartWrite s i g p b prior)" for prior
    unfolding yields_def
  proof (intro allI impI)
    fix d assume J: "J d"
    then have "J (others s 3 d)" using r by (simp add: rely_def)
    moreover obtain e where "sessionStartTx s i g p b prior d = Inl e" using tx[OF J] by blast
    ultimately show "J (snd (sessionStartWrite s i g p b prior d))
        \<and> (\<forall>x. fst (sessionStartWrite s i g p b prior d) = Inr x \<longrightarrow> \<not> Applied (fst x))"
      using again J by (cases e) (simp_all add: sessionStartWrite_def yields_def)
  qed
  with again show ?thesis
    unfolding RecordSessionStartIdentity_def
    by (intro yields_bind[OF yields_any_read[OF r]] yields_option)
qed

lemma prove_foreign:
  assumes "shut_call J pa i g s"
  shows "yields J (\<lambda>_. True) (ProveRequestsGone s i g x)"
proof -
  have no: "\<not> proveMatch d i g how covers newest p" if "J d" for d how covers newest p
    using foreign_rows[OF shut_foreign[OF assms that] shut_gate[OF assms]] by (auto simp: proveMatch_def)
  then have "update_where (proveMatch d i g how covers newest) f xs = xs" if "J d" for d how covers newest f xs
    using that by (simp add: update_where_none)
  then have marks: "yields J (\<lambda>_. True) (\<lambda>d. if sqlFails s what then (Inl (DriverError what), d)
       else (Inr (length (filter (proveMatch d i g how covers newest) (permission_requests d))),
             d\<lparr>permission_requests := update_where (proveMatch d i g how covers newest) (f d) (permission_requests d)\<rparr>))"
    for what how covers newest f
    by (simp add: yields_def)
  show ?thesis
    unfolding ProveRequestsGone_def Let_def
    by (auto split: sum.split option.split intro!: yields_return yields_bind[OF yields_any_read[OF shut_rely[OF assms]]] marks)
      (simp add: yields_def)
qed

lemma tool_ran_foreign:
  assumes "shut_call J pa i g s"
  shows "yields J (\<lambda>_. True) (CloseToolRanRequests s i g tu at gone)"
proof -
  note r = shut_rely[OF assms]
  have "\<not> toolRanMatch d i g tu rid p" if "J d" for d rid p
    using foreign_rows[OF shut_foreign[OF assms that] shut_gate[OF assms]] by (auto simp: toolRanMatch_def)
  then have "update_requests (toolRanMatch d i g tu rid) f d = (None, d)" if "J d" for d rid f
    using that by (simp add: update_requests_def find_None_iff update_where_absent)
  then have "yields J (\<lambda>_. True) (closeToolRanLoop s i g tu at judge n prs closed)" for judge n prs closed
    using r by (induction prs arbitrary: n closed) (auto simp: yields_def call_return_def rely_def)
  then show ?thesis
    unfolding CloseToolRanRequests_def
    by (auto intro!: yields_if yields_option yields_return yields_bind[OF yields_any_read[OF r]])
qed

lemma capacity_foreign:
  assumes "shut_call J pa i g s"
  shows "yields J (\<lambda>_. True) (RecordClaudeCapacity s i g cap)"
proof -
  have "guarded i (capacityGuard d g cap) f d = (False, d)" if "J d" for d f
    unfolding guarded_def
    by (rule update_spawns_foreign[OF shut_foreign[OF assms that] shut_gate[OF assms]]) (simp add: capacityGuard_def)
  then show ?thesis
    unfolding RecordClaudeCapacity_def by (auto intro!: yields_if yields_return simp: yields_def[of _ _ "dbExec _ _ _"] dbExec_def)
qed

text \<open>The rotation of a Cursor conversation: its write carries the hook's gate, so its transaction never commits.\<close>

lemma rotation_foreign:
  assumes "shut_call J pa i g s" and "g_Cursor g = Some b" and "cr_InstanceID b = i"
  shows "yields J (\<lambda>_. False) (RotateCursorSession s examined g sid path until check now)"
proof -
  have "misses J (rotateTx s examined g b sid path until check now)"
    unfolding misses_def
  proof (intro allI impI)
    fix d assume J: "J d"
    have "False" if run: "rotateTx s examined g b sid path until check now d = Inr (x, d')" for x d'
    proof (rule rotateTx_run[OF run])
      fix v d1
      assume w: "guarded (cr_InstanceID b) (\<lambda>r. hookGate d g r \<and> snapshotMatch (sp_Snapshot examined) r) (rotateSet s v sid path) d = (True, d1)"
      have "guarded (cr_InstanceID b) (\<lambda>r. hookGate d g r \<and> snapshotMatch (sp_Snapshot examined) r) (rotateSet s v sid path) d = (False, d)"
        unfolding guarded_def by (rule update_spawns_foreign[OF shut_foreign[OF assms(1) J] shut_gate[OF assms(1)]]) (simp add: assms(3))
      with w show False by simp
    qed
    then show "\<exists>e. rotateTx s examined g b sid path until check now d = Inl e"
      by (cases "rotateTx s examined g b sid path until check now d") auto
  qed
  note miss = misses_write[OF this, of _ s]
  show ?thesis
    unfolding yields_def
  proof (intro allI impI)
    fix d assume J: "J d"
    obtain e where "inWriteTx s (rotateTx s examined g b sid path until check now) d = (Inl e, d)" using miss[OF J] by blast
    then show "J (snd (RotateCursorSession s examined g sid path until check now d))
        \<and> (\<forall>x. fst (RotateCursorSession s examined g sid path until check now d) = Inr x \<longrightarrow> False)"
      using J by (simp add: RotateCursorSession_def assms(2) call_bind_def)
  qed
qed

section \<open>The process\<close>

text \<open>
  The system beside the hook keeps \<open>J\<close> too: the connections that write while one of its calls runs, and
  whatever runs between its actions and during its sleeps. Only the hook writes its output. Any statement may fail.
\<close>

definition others_keep :: "(db \<Rightarrow> bool) \<Rightarrow> host \<Rightarrow> bool" where
  "others_keep J h \<longleftrightarrow> (\<forall>n. rely J (h_store h n))
     \<and> (\<forall>w. (J (w_db w) \<longrightarrow> J (w_db (h_pass h w))) \<and> w_stdout (h_pass h w) = w_stdout w)
     \<and> (\<forall>t w. (J (w_db w) \<longrightarrow> J (w_db (h_sleep h t w))) \<and> w_stdout (h_sleep h t w) = w_stdout w)"

definition beside :: "(db \<Rightarrow> bool) \<Rightarrow> parentIdentity \<Rightarrow> string \<Rightarrow> host \<Rightarrow> bool" where
  "beside J pa i h \<longleftrightarrow> shut_out J pa i \<and> others_keep J h"

definition untouched :: "(db \<Rightarrow> bool) \<Rightarrow> world \<Rightarrow> world \<Rightarrow> bool" where
  "untouched J w w' \<longleftrightarrow> w_stdout w' = w_stdout w \<and> (J (w_db w) \<longrightarrow> J (w_db w'))"

lemma untouched_refl [intro, simp]: "untouched J w w"
  by (simp add: untouched_def)

lemma untouched_trans [trans]: "untouched J a b \<Longrightarrow> untouched J b c \<Longrightarrow> untouched J a c"
  by (simp add: untouched_def)

lemma foreign_untouched: "J (w_db w) \<Longrightarrow> untouched J w w' \<Longrightarrow> J (w_db w')"
  by (simp add: untouched_def)

lemma beside_emit: "beside J pa i h \<Longrightarrow> J (emit e d) = J d"
  by (simp add: beside_def shut_out_def emit_def)

lemma untouched_steps:
  assumes "beside J pa i h"
  shows "untouched J w (tick h w)" "untouched J w (clock_sleep h t w)" "clock_now h w = (n, w1) \<Longrightarrow> untouched J w w1"
    "store_read h q w = (r, w1) \<Longrightarrow> untouched J w w1" "untouched J w (trail_Emit e w)"
  using assms beside_emit[OF assms]
  by (auto simp: beside_def others_keep_def untouched_def tick_def clock_sleep_def clock_now_def store_read_def trail_Emit_def Let_def)

lemma call_foreign:
  assumes "beside J pa i h" and "J (w_db w)" and "store_call h m w = (res, w1)"
    and "\<And>s wc. shut_out J pa i \<Longrightarrow> rely J s \<Longrightarrow> yields J Q (m s wc)"
  shows "untouched J w w1" and "res = Inr x \<Longrightarrow> Q x"
proof -
  let ?w = "tick h w" let ?s = "h_store h (w_tick ?w)"
  have w: "rely J ?s" "shut_out J pa i" using assms(1) by (simp_all add: beside_def others_keep_def)
  have t: "untouched J w ?w" by (rule untouched_steps(1)[OF assms(1)])
  obtain d where d: "m ?s ?w (w_db ?w) = (res, d)" "w1 = ?w\<lparr>w_db := d\<rparr>"
    using assms(3) by (auto simp: store_call_def Let_def split: prod.splits)
  have "J d \<and> (\<forall>x. res = Inr x \<longrightarrow> Q x)"
    using assms(4)[OF w(2,1), of ?w] foreign_untouched[of J, OF assms(2) t] d(1) by (auto simp: yields_def)
  then show "untouched J w w1" "res = Inr x \<Longrightarrow> Q x" using t d(2) by (auto simp: untouched_def)
qed

lemma shut: "shut_out J pa i \<Longrightarrow> rely J s \<Longrightarrow> gateBy pa g \<Longrightarrow> shut_call J pa i g s"
  by (simp add: shut_call_def)

lemma emitIgnored_untouched:
  assumes "beside J pa i h"
  shows "untouched J w (emitIgnored h hc ig w)"
proof -
  obtain q w1 where w1: "store_read h (\<lambda>s. GetSpawn s (ig_instanceID ig)) w = (q, w1)" by fastforce
  note u = untouched_steps(4)[OF assms w1]
  have "untouched J w (trail_Emit e w1)" for e by (rule untouched_trans[OF u untouched_steps(5)[OF assms]])
  then have "untouched J w (trail_Emit e (trail_Emit e' w1))" for e e' using untouched_trans untouched_steps(5)[OF assms] by blast
  with \<open>\<And>e. untouched J w (trail_Emit e w1)\<close> u show ?thesis
    by (simp add: emitIgnored_def w1 emitPaneIsGrandparent_def Let_def split: sum.split)
qed

lemma before_untouched:
  assumes "beside J pa i h" and "J (w_db w)" and "gateBy pa g"
  shows "untouched J w (proveRequestsGone h start i g res w)" "untouched J w (closeToolRan h hc i g tu w)"
proof -
  obtain n w1 where w1: "clock_now h w = (n, w1)" by fastforce
  note u = untouched_steps(3)[OF assms(1) w1]
  note j1 = foreign_untouched[of J, OF assms(2) u]
  have step: "untouched J w (snd (store_call h m w1))"
    if "\<And>s wc. shut_out J pa i \<Longrightarrow> rely J s \<Longrightarrow> yields J (\<lambda>_. True) (m s wc)" for m :: "store \<Rightarrow> world \<Rightarrow> 'b call"
    by (rule untouched_trans[OF u call_foreign(1)[OF assms(1) j1 surjective_pairing that]])
  have step': "untouched J w (snd (store_call h m w1))"
    if "\<And>s wc. shut_out J pa i \<Longrightarrow> rely J s \<Longrightarrow> yields J (\<lambda>_. True) (m s wc)" for m :: "store \<Rightarrow> world \<Rightarrow> 'c call"
    by (rule untouched_trans[OF u call_foreign(1)[OF assms(1) j1 surjective_pairing that]])
  show "untouched J w (proveRequestsGone h start i g res w)"
    using u by (auto simp: proveRequestsGone_def w1 split: option.split intro!: step prove_foreign[OF shut[OF _ _ assms(3)]])
  show "untouched J w (closeToolRan h hc i g tu w)"
    by (auto simp: closeToolRan_def w1 intro!: step' tool_ran_foreign[OF shut[OF _ _ assms(3)]])
qed

lemma own_write_refused: "shut_call J pa i g s \<Longrightarrow> ignored J (ownWrite s i g res raw ms p b)"
  by (simp add: ownWrite_def applySubagentLifecycle_def applyEndReport_def applyOrdinaryHook_def ignored_lifecycle ignored_end_report
      ignored_idle ignored_transition)

lemma session_start_untouched:
  assumes "beside J pa i h" and "gateBy pa g" and "J (w_db w)"
  shows "untouched J w (snd (writeSessionStartLoop h i g p b n w))
     \<and> (\<forall>x. fst (writeSessionStartLoop h i g p b n w) = Inr x \<longrightarrow> \<not> Applied (ss_applied x))"
  using assms(3)
proof (induction n arbitrary: w)
  case 0
  then show ?case by simp
next
  case (Suc n)
  obtain q w1 where w1: "store_read h (\<lambda>s. GetSpawn s i) w = (q, w1)" by fastforce
  note u1 = untouched_steps(4)[OF assms(1) w1]
  note f1 = foreign_untouched[OF Suc.prems u1]
  show ?case
  proof (cases q)
    case (Inl e)
    with w1 u1 show ?thesis by simp
  next
    case (Inr sp)
    let ?g = "g\<lparr>g_Examined := sp_Snapshot sp\<rparr>"
    let ?m = "\<lambda>s (_ :: world). RecordSessionStartIdentity s i ?g p b"
    have g: "gateBy pa ?g" using assms(2) by (simp add: gateBy_def)
    obtain r w2 where w2: "store_call h ?m w1 = (r, w2)" by fastforce
    have call: "yields J (\<lambda>x. \<not> Applied (fst x)) (?m s wc)" if "shut_out J pa i" "rely J s" for s wc
      by (rule ignored_session_start[OF shut[OF that g]])
    have u2: "untouched J w w2" by (rule untouched_trans[OF u1 call_foreign(1)[OF assms(1) f1 w2 call]])
    have no: "\<not> Applied a" if "r = Inr (a, c)" for a c
      using call_foreign(2)[OF assms(1) f1 w2 call that] by simp
    show ?thesis
      using w1 w2 Inr u2 no Suc.IH[OF foreign_untouched[OF Suc.prems u2]] untouched_trans[OF u2]
      by (auto split: sum.split prod.split)
  qed
qed

lemma wait_untouched:
  assumes "beside J pa i h"
  shows "untouched J w (identityWait h hc i sp bound capEnd n w)"
proof (induction n arbitrary: w)
  case (Suc n)
  obtain now w1 where w1: "clock_now h w = (now, w1)" by fastforce
  let ?t = "identitySleep bound capEnd now"
  obtain q w3 where w3: "store_read h (\<lambda>s. GetSpawn s i) (clock_sleep h ?t w1) = (q, w3)" by fastforce
  obtain now' w4 where w4: "clock_now h w3 = (now', w4)" by fastforce
  note u1 = untouched_steps(3)[OF assms w1]
  note u2 = untouched_trans[OF u1 untouched_steps(2)[OF assms, of w1 ?t]]
  note u3 = untouched_trans[OF u2 untouched_steps(4)[OF assms w3]]
  note u4 = untouched_trans[OF u3 untouched_steps(3)[OF assms w4]]
  show ?case
    using w1 w3 w4 u1 u2 u3 u4 untouched_trans[OF u4 Suc.IH] by (simp add: Let_def split: sum.split)
qed simp

lemma record_start_untouched:
  assumes "beside J pa i h" and "gateBy pa g0" and "J (w_db w)"
  shows "untouched J w (snd (recordSessionStart h hc i g0 p b w))
     \<and> (\<forall>a o'. fst (recordSessionStart h hc i g0 p b w) = Inr (a, o') \<longrightarrow> \<not> Applied a)"
proof -
  let ?g = "g0\<lparr>g_SessionStart := True\<rparr>"
  have g: "gateBy pa ?g" using assms(2) by (simp add: gateBy_def)
  obtain r w1 where w1: "writeSessionStart h i ?g p b w = (r, w1)" by fastforce
  have s1: "untouched J w w1" "\<And>x. r = Inr x \<Longrightarrow> \<not> Applied (ss_applied x)"
    using session_start_untouched[OF assms(1) g assms(3), of p b 2] w1 by (auto simp: writeSessionStart_def)
  show ?thesis
  proof (cases r)
    case (Inl e)
    with w1 s1 show ?thesis by (simp add: recordSessionStart_def)
  next
    case (Inr x)
    obtain waited w2 where w2: "waitForLaunchIdentity h hc i (ss_examined x) w1 = (waited, w2)" by fastforce
    have "untouched J w1 w2"
      using w2 untouched_steps(3)[OF assms(1)] untouched_trans[OF _ wait_untouched[OF assms(1)]]
      by (auto simp: waitForLaunchIdentity_def Let_def split: if_splits prod.splits option.splits)
    with s1(1) have u2: "untouched J w w2" by (rule untouched_trans)
    obtain r' w3 where w3: "writeSessionStart h i ?g p b w2 = (r', w3)" by fastforce
    have s3: "untouched J w2 w3" "\<And>x. r' = Inr x \<Longrightarrow> \<not> Applied (ss_applied x)"
      using session_start_untouched[OF assms(1) g foreign_untouched[OF assms(3) u2], of p b 2] w3 by (auto simp: writeSessionStart_def)
    show ?thesis
      using w1 w2 w3 Inr s1 u2 s3(2) untouched_trans[OF u2 s3(1)] by (auto simp: recordSessionStart_def split: sum.split)
  qed
qed


section \<open>The hook\<close>

text \<open>What a foreign hook may write on its output: the fail-closed deny, and only when it is asked about a permission.\<close>

definition mayDeny :: "(db \<Rightarrow> bool) \<Rightarrow> HandleConfig \<Rightarrow> payload_text \<Rightarrow> world \<Rightarrow> world \<Rightarrow> bool" where
  "mayDeny J hc raw w w' \<longleftrightarrow> (J (w_db w) \<longrightarrow> J (w_db w')) \<and> (w_stdout w' = w_stdout w
     \<or> relayActive hc \<and> PeekEventName raw = EventNamePermissionRequest
       \<and> w_stdout w' = w_stdout w @ [EncodeDecision EventNamePermissionRequest ''deny'' []])"

lemma mayDeny_untouched: "untouched J w w' \<Longrightarrow> mayDeny J hc raw w w'"
  by (simp add: mayDeny_def untouched_def)

lemma mayDeny_failClosed: "untouched J w w' \<Longrightarrow> mayDeny J hc raw w (failClosed hc raw w')"
  by (auto simp: mayDeny_def untouched_def failClosed_def Fprintln_def)

lemma afterOwn_untouched: "beside J pa i h \<Longrightarrow> \<not> Applied a \<Longrightarrow> untouched J w w1 \<Longrightarrow> untouched J w (afterOwnWrite h hc parent i res path a w1)"
  using emitIgnored_untouched untouched_trans by (simp add: afterOwnWrite_def)

lemma session_start_foreign:
  assumes "beside J pa i h" and "gateBy pa g" and "J (w_db w)"
  shows "mayDeny J hc raw w (snd (sessionStartHook h hc parent raw i res path g w))"
proof -
  obtain r w1 where w1: "recordSessionStart h hc i g path (transcriptPresent hc w path) w = (r, w1)" by fastforce
  have "untouched J w w1" "\<And>a o'. r = Inr (a, o') \<Longrightarrow> \<not> Applied a"
    using record_start_untouched[OF assms, of hc path "transcriptPresent hc w path"] w1 by auto
  then show ?thesis
    using afterOwn_untouched[OF assms(1)] by (auto simp: sessionStartHook_def w1 split: sum.split intro: mayDeny_untouched mayDeny_failClosed)
qed

lemma tracking_foreign:
  assumes "beside J pa i h" and "gateBy pa g" and "J (w_db w)"
  shows "mayDeny J hc raw w (snd (trackingHook h hc start parent raw i res path g w))"
proof -
  define w1 where "w1 = (if relayActive hc then proveRequestsGone h start i g res w else w)"
  define w2 where "w2 = (if relayActive hc \<and> ToolRan res then closeToolRan h hc i g (cl_ToolUseID res) w1 else w1)"
  have u1: "untouched J w w1" using before_untouched(1)[OF assms(1,3,2)] by (simp add: w1_def)
  have u2: "untouched J w w2"
    using untouched_trans[OF u1 before_untouched(2)[OF assms(1) foreign_untouched[OF assms(3) u1] assms(2)]] u1 by (simp add: w2_def)
  note f2 = foreign_untouched[OF assms(3) u2]
  let ?m = "\<lambda>s (_ :: world). ownWrite s i g res raw (UnixMilli start) path (transcriptPresent hc w path)"
  obtain r w3 where w3: "store_call h ?m w2 = (r, w3)" by fastforce
  have call: "ignored J (?m s wc)" if "shut_out J pa i" "rely J s" for s wc
    by (rule own_write_refused[OF shut[OF that assms(2)]])
  have u3: "untouched J w w3" by (rule untouched_trans[OF u2 call_foreign(1)[OF assms(1) f2 w3 call]])
  have "\<not> Applied a" if "r = Inr (o', a)" for o' a
    using call_foreign(2)[OF assms(1) f2 w3 call that] by simp
  then show ?thesis
    using u3 afterOwn_untouched[OF assms(1) _ u3]
    by (auto simp: trackingHook_def Let_def w1_def[symmetric] w2_def[symmetric] w3 split: sum.split intro: mayDeny_untouched mayDeny_failClosed)
qed

lemma relay_foreign:
  assumes "beside J pa (in_instanceID inp) h" and "gateBy pa (in_gate inp)" and "J (w_db w)"
    and "relayActive hc" and "PeekEventName raw = EventNamePermissionRequest"
    and "runRelay h hc killAt inp elapsed (\<lambda>reason. emitIgnored h hc (ig reason)) w = Some (fired, w')"
  shows "mayDeny J hc raw w w'"
proof (cases "hc_mint hc")
  case None
  with assms(4-6) show ?thesis by (auto simp: runRelay_def failClosedDeny_def mayDeny_def Fprintln_def)
next
  case (Some token)
  obtain n w1 where w1: "clock_now h w = (n, w1)" by fastforce
  note u1 = untouched_steps(3)[OF assms(1) w1] and f1 = foreign_untouched[OF assms(3) untouched_steps(3)[OF assms(1) w1]]
  let ?m = "\<lambda>s (_ :: world). InsertRelayRequest s (in_instanceID inp) (in_gate inp) (relayRequestOf hc killAt inp token) (relayCap hc)"
  obtain r w2 where w2: "store_call h ?m w1 = (r, w2)" by fastforce
  have call: "ignored J (?m s wc)" if "shut_out J pa (in_instanceID inp)" "rely J s" for s wc
    by (rule ignored_relay[OF shut[OF that assms(2)]])
  have u2: "untouched J w w2" by (rule untouched_trans[OF u1 call_foreign(1)[OF assms(1) f1 w2 call]])
  have no: "\<not> Applied a" if "r = Inr (o', a)" for o' a
    using call_foreign(2)[OF assms(1) f1 w2 call that] by simp
  have ig: "untouched J w (emitIgnored h hc x w2)" for x by (rule untouched_trans[OF u2 emitIgnored_untouched[OF assms(1)]])
  have deny: "mayDeny J hc raw w (failClosedDeny w2)"
    using u2 assms(4,5) by (auto simp: failClosedDeny_def mayDeny_def Fprintln_def untouched_def)
  show ?thesis
  proof (cases r)
    case (Inl e)
    then show ?thesis using assms(6) Some deny by (auto simp: runRelay_def w1 w2)
  next
    case (Inr x)
    obtain o' a where x: "x = (o', a)" by fastforce
    then show ?thesis
      using assms(6) Some Inr no[of o' a] mayDeny_untouched[OF u2] mayDeny_untouched[OF ig] by (auto simp: runRelay_def w1 w2 Let_def split: if_splits)
  qed
qed

lemma gateOf_by: "gateBy parent (gateOf parent res)"
  by (simp add: gateBy_def gateOf_def codexTurnGate_def Let_def)

lemma dispatch_foreign:
  assumes "beside J parent i h" and "J (w_db w)" and g: "gateBy parent g" and c: "ClassifyEvent a raw = Inr res"
    and "dispatchHook h hc start parent raw i res path g elapsed w = Some (fired, w')"
  shows "mayDeny J hc raw w w'"
proof -
  let ?inp = "\<lparr>in_instanceID = i, in_gate = g, in_parent = parent, in_agentID = cl_AgentID res, in_transcriptPath = path,
            in_transcriptPresent = transcriptPresent hc w path, in_raw = raw\<rparr>"
  consider (start) "w' = snd (sessionStartHook h hc parent raw i res path g w)"
    | (relay) rf where "relayActive hc" "PeekEventName raw = EventNamePermissionRequest"
        "runRelay h hc (newRelayClock hc start) ?inp elapsed (\<lambda>reason. emitIgnored h hc (ignoredOf i res parent reason False)) w = Some (rf, w')"
    | (other) "w' = snd (trackingHook h hc start parent raw i res path g w)"
    using assms(5) classified_event[OF c] by (auto simp: dispatchHook_def Let_def split: if_splits prod.splits)
  then show ?thesis
  proof cases
    case relay
    show ?thesis by (rule relay_foreign[where pa = parent, OF _ _ _ relay(1,2,3)]) (simp_all add: assms(1,2) g)
  qed (simp_all add: session_start_foreign[OF assms(1) g assms(2)] tracking_foreign[OF assms(1) g assms(2)])
qed

section \<open>The Cursor branch\<close>

lemma rotate_reported_foreign:
  assumes "beside J pa i h" and "J (w_db w)" and "gateBy pa g" and "g_Cursor g = Some b" and "cr_InstanceID b = i"
  shows "untouched J w (snd (rotateReported h hc i g res b claim path w))"
proof -
  obtain q w1 where w1: "store_read h (\<lambda>s. GetSpawn s i) w = (q, w1)" by fastforce
  obtain n w2 where w2: "clock_now h w1 = (n, w2)" by fastforce
  obtain n' w3 where w3: "clock_now h w2 = (n', w3)" by fastforce
  note u1 = untouched_steps(4)[OF assms(1) w1]
  note u2 = untouched_trans[OF u1 untouched_steps(3)[OF assms(1) w2]]
  note u3 = untouched_trans[OF u2 untouched_steps(3)[OF assms(1) w3]]
  have call: "yields J (\<lambda>_. False) (RotateCursorSession s ex (g\<lparr>g_SessionID := x\<rparr>) sid p until check now)"
    if "shut_out J pa i" "rely J s" for s ex x sid p until check now
    by (rule rotation_foreign[OF shut[OF that]]) (use assms(3-5) in \<open>simp_all add: gateBy_def\<close>)
  have u4: "untouched J w w4" if "publishRotation h verify ex g res b path until w3 = (r, w4)" for verify ex until r w4
    by (rule untouched_trans[OF u3 call_foreign(1)[OF assms(1) foreign_untouched[OF assms(2) u3] that[unfolded publishRotation_def] call]])
  show ?thesis
    using u1 u2 u3 u4 by (auto simp: rotateReported_def w1 w2 w3 split: option.split sum.split prod.split)
qed

lemma cursor_foreign:
  assumes "beside J parent i h" and "J (w_db w)" and "gateBy parent g"
    and "handleCursor h hc parent raw i res path g w = (step, w')"
  shows "untouched J w w'" and "step = CursorGate g' \<Longrightarrow> gateBy parent g'"
proof -
  obtain q w1 where w1: "store_read h (\<lambda>s. ReadCursorRuntime s i) w = (q, w1)" by fastforce
  note u1 = untouched_steps(4)[OF assms(1) w1]
  note u2 = untouched_trans[OF u1 untouched_steps(1)[OF assms(1)]]
  have b: "cr_InstanceID b = i" if "q = Inr b" for b
    using w1 that by (auto simp: store_read_def ReadCursorRuntime_def Let_def find_Some_iff split: if_splits option.splits)
  have rot: "untouched J w (snd (rotateReported h hc i (g\<lparr>g_Cursor := Some b\<rparr>) res b claim path (tick h w1)))" if "q = Inr b" for b claim
    by (rule untouched_trans[OF u2 rotate_reported_foreign[OF assms(1) foreign_untouched[of J, OF assms(2) u2]]])
      (use assms(3) b[OF that] in \<open>simp_all add: gateBy_def\<close>)
  have "untouched J w w' \<and> (\<forall>g'. step = CursorGate g' \<longrightarrow> gateBy parent g')"
  proof (cases "cl_AgentID res \<noteq> [] \<or> cl_UnknownEvent res")
    case True
    with assms(4) show ?thesis by (auto simp: handleCursor_def)
  next
    case False
    show ?thesis
    proof (cases q)
      case (Inl e)
      with False assms(4) u1 show ?thesis by (auto simp: handleCursor_def w1)
    next
      case (Inr b)
      show ?thesis
      proof (cases "readCursorClaim raw")
        case None
        with False assms(4) u1 Inr show ?thesis by (auto simp: handleCursor_def w1)
      next
        case (Some claim)
        have g': "gateBy parent (g\<lparr>g_Cursor := Some b\<rparr>)" using assms(3) by (simp add: gateBy_def)
        obtain ok w3 where w3: "rotateReported h hc i (g\<lparr>g_Cursor := Some b\<rparr>) res b claim path (tick h w1) = (ok, w3)" by fastforce
        have "untouched J w w3" using rot[OF Inr, of claim] w3 by simp
        let ?cursor = "hc_VerifyCursor hc"
        have run: "(step, w') = (if \<not> cursorClaims parent res b claim then (CursorDone True, w1)
            else case ?cursor of None \<Rightarrow> (CursorDone True, w1)
              | Some verify \<Rightarrow> if \<not> verify (tick h w1) b path (cl_EventName res = ''SessionEnd'') then (CursorDone True, tick h w1)
                  else if cc_Previous claim \<noteq> [] then (CursorDone ok, w3)
                  else if cr_SessionID b \<noteq> cl_SessionID res then (CursorDone True, tick h w1)
                  else (CursorGate (g\<lparr>g_Cursor := Some b\<rparr>), tick h w1))"
          using assms(4)[symmetric] False Inr Some w3 by (cases ?cursor) (simp_all add: handleCursor_def w1 Let_def)
        show ?thesis
          by (cases ?cursor; use run \<open>untouched J w w3\<close> u1 u2 g' in \<open>simp split: if_split_asm\<close>)
      qed
    qed
  qed
  then show "untouched J w w'" "step = CursorGate g' \<Longrightarrow> gateBy parent g'" by blast+
qed

lemma event_foreign:
  assumes "beside J parent i h" and "ResolveInstanceID (hc_Env hc) = Inr i" and "J (w_db w)"
    and "handleEvent h hc start parent raw elapsed w = Some (fired, w')"
  shows "mayDeny J hc raw w w'"
proof (cases "\<exists>agent res. ResolveAgent (hc_Agent hc) = Inr agent \<and> ClassifyEvent agent raw = Inr res")
  case False
  then show ?thesis
    using assms(2,4) by (auto simp: handleEvent_def split: sum.splits intro: mayDeny_failClosed)
next
  case True
  then obtain agent res where c: "ResolveAgent (hc_Agent hc) = Inr agent" "ClassifyEvent agent raw = Inr res" by blast
  let ?path = "if cl_AgentID res \<noteq> [] then [] else cl_TranscriptPath res"
  obtain step w1 where cur: "handleCursor h hc parent raw i res ?path (gateOf parent res) w = (step, w1)" by fastforce
  note after = cursor_foreign[OF assms(1,3) gateOf_by cur]
  note event = assms(4)[unfolded handleEvent_def assms(2) c sum.case Let_def cur prod.case]
  show ?thesis
  proof (cases "SubagentLifecycle res")
    case True
    with event have "w' = emitIgnored h hc (ignoredOf i res parent HookReasonSubagentEvent True) w" by simp
    then show ?thesis using mayDeny_untouched[OF emitIgnored_untouched[OF assms(1)]] by simp
  next
    case False
    note event = event[unfolded if_not_P[OF False]]
    show ?thesis
    proof (cases "cl_Agent res = AgentCursor")
      case False
      show ?thesis by (rule dispatch_foreign[OF assms(1,3) gateOf_by c(2) event[unfolded if_not_P[OF False]]])
    next
      case True
      note event = event[unfolded if_P[OF True]]
      show ?thesis
      proof (cases step)
        case (CursorDone ok)
        with event show ?thesis using mayDeny_untouched[OF after(1)] mayDeny_failClosed[OF after(1)] by (auto split: if_split_asm)
      next
        case (CursorGate g')
        note j1 = foreign_untouched[of J, OF assms(3) after(1)]
        have "mayDeny J hc raw w1 w'"
          using event CursorGate by (intro dispatch_foreign[OF assms(1) j1 after(2)[OF CursorGate] c(2)]) simp
        then show ?thesis using after(1) by (auto simp: mayDeny_def untouched_def)
      qed
    qed
  qed
qed

section \<open>The callback of a context source\<close>

lemma write_capacity_foreign:
  assumes "beside J pa i h" and "J (w_db w)" and "gateBy pa g"
  shows "untouched J w (snd (writeClaudeCapacity h i g cap w))"
proof -
  have "untouched J w (snd (store_call h (\<lambda>s _. RecordClaudeCapacity s i g cap) w))"
    by (rule call_foreign(1)[OF assms(1,2) surjective_pairing capacity_foreign[OF shut[OF _ _ assms(3)]]])
  then show ?thesis by (simp add: writeClaudeCapacity_def case_prod_beta split: sum.split)
qed

lemma observe_foreign:
  assumes "beside J pa i h" and "J (w_db w)" and "gateBy pa g"
  shows "untouched J w (snd (observeCapacity h hc i g e p at w))"
proof -
  note writes = write_capacity_foreign[OF assms(1) _ assms(3)]
  have wrote: "untouched J w (snd (writeClaudeCapacity h i g cap (tick h w1)))" if u: "untouched J w w1" for cap w1
  proof -
    have u1: "untouched J w (tick h w1)" by (rule untouched_trans[OF u untouched_steps(1)[OF assms(1)]])
    show ?thesis by (rule untouched_trans[OF u1 writes[OF foreign_untouched[OF assms(2) u1]]])
  qed
  have main: "untouched J w (snd (observeMain h hc i g e p at w))"
    by (simp add: observeMain_def Let_def writes assms(2) wrote)
  obtain r w1 where w1: "store_read h (\<lambda>s. ListSubagentRecords s i) w = (r, w1)" by fastforce
  have "untouched J w (snd (observeChildren h hc i g e p at w))"
    using untouched_steps(4)[OF assms(1) w1]
    by (simp add: observeChildren_def Let_def w1 writes assms(2) wrote split: sum.split prod.split option.split)
  with main show ?thesis by (simp add: observeCapacity_def)
qed

lemma record_foreign:
  assumes "beside J pa i h" and "ResolveInstanceID (hc_Env hc) = Inr i" and "J (w_db w)"
  shows "untouched J w (snd (recordClaudeCapacity h hc pa payload at launch w))"
proof -
  obtain r w1 where w1: "store_read h (\<lambda>s. readEvidence s i) w = (r, w1)" by fastforce
  note u = untouched_steps(4)[OF assms(1) w1]
  have g: "gateBy pa (capacityGate pa e snapshot)" for e snapshot by (simp add: gateBy_def capacityGate_def)
  have "untouched J w (snd (observeCapacity h hc i (capacityGate pa e snapshot) e p at w1))" for e snapshot p
    by (rule untouched_trans[OF u observe_foreign[OF assms(1) foreign_untouched[OF assms(3) u] g]])
  with u show ?thesis by (simp add: recordClaudeCapacity_def assms(2) w1 case_prod_beta split: sum.split option.split)
qed

lemma attempts_foreign:
  assumes "beside J pa i h" and "ResolveInstanceID (hc_Env hc) = Inr i"
  shows "J (w_db w) \<Longrightarrow> untouched J w (capacityAttempts h hc pa payload at n launch w)"
proof (induction n arbitrary: launch w)
  case (Suc n)
  obtain res launch' w1 where w1: "recordClaudeCapacity h hc pa payload at launch w = ((res, launch'), w1)" by (metis surj_pair)
  have u: "untouched J w w1" using record_foreign[OF assms Suc.prems, of payload at launch] w1 by simp
  show ?case using u untouched_trans[OF u Suc.IH[OF foreign_untouched[OF Suc.prems u]]] by (simp add: w1)
qed simp

section \<open>The verb\<close>

lemma emitFired_mayDeny: "beside J pa i h \<Longrightarrow> mayDeny J hc raw w w' \<Longrightarrow> mayDeny J hc raw w (emitFired hc f w')"
  by (simp add: mayDeny_def emitFired_def trail_Emit_def beside_emit)

lemma handle_foreign:
  assumes "beside J (captureParent hc w) i h" and "ResolveInstanceID (hc_Env hc) = Inr i" and "handleStart h hc w0 = (start, w)"
    and "J (w_db w)" and "Handle h hc input elapsed w0 = Some w'"
  shows "\<exists>raw. mayDeny J hc raw w w' \<and> (ReadPayload input = Inr raw \<or> w_stdout w' = w_stdout w)"
proof (cases "ReadPayload input")
  case (Inl e)
  with assms(3,5) have "w' = emitFired hc zeroFired w" by (simp add: Handle_def)
  then have "w_stdout w' = w_stdout w" "mayDeny J hc NoBytes w w'"
    using emitFired_mayDeny[OF assms(1) mayDeny_untouched[OF untouched_refl]] by (simp_all add: emitFired_def trail_Emit_def)
  then show ?thesis by blast
next
  case (Inr raw)
  have "mayDeny J hc raw w w'"
  proof (cases "hc_ContextSource hc = []")
    case True
    with assms(3,5) Inr obtain fired w1 where
      "handleEvent h hc start (captureParent hc w) raw elapsed w = Some (fired, w1)" "w' = emitFired hc fired w1"
      by (auto simp: Handle_def Let_def)
    then show ?thesis using emitFired_mayDeny[OF assms(1) event_foreign[OF assms(1,2,4)]] by blast
  next
    case False
    with assms(3,5) Inr have "w' = emitFired hc zeroFired (handleClaudeCapacity h hc (captureParent hc w) (si_capacity input) \<lparr>t_ns = start, t_offset = 0\<rparr> w)"
      by (simp add: Handle_def Let_def)
    then show ?thesis
      using emitFired_mayDeny[OF assms(1) mayDeny_untouched[OF attempts_foreign[OF assms(1,2,4)]]] by (simp add: handleClaudeCapacity_def)
  qed
  with Inr show ?thesis by blast
qed

text \<open>
  C9. A hook of a foreign process changes nothing: \<open>J\<close> is any property of the tables, the trail apart, that says
  the row's pane process is not the one that called the hook (another pid, or the pid started again) and that the
  other processes keep, for instance that every table is as it was. Then the whole run keeps \<open>J\<close>, for every
  agent, Cursor with its rotation included, through every branch of the verb, with any failing statement, any
  configuration of the relay and of the context sources and any payload; and it prints nothing, but for the deny
  of a permission it could not hand on.
\<close>

theorem foreign_hook_changes_nothing:
  assumes "\<forall>d. J d \<longrightarrow> foreign (captureParent hc w) i d" and "\<forall>d x. J (d\<lparr>trail := x\<rparr>) = J d" and "others_keep J h"
    and "ResolveInstanceID (hc_Env hc) = Inr i" and "handleStart h hc w0 = (start, w)" and "J (w_db w)"
    and "Handle h hc input elapsed w0 = Some w'"
  shows "J (w_db w')
     \<and> (w_stdout w' = w_stdout w
        \<or> (\<exists>raw. ReadPayload input = Inr raw \<and> PeekEventName raw = EventNamePermissionRequest \<and> relayActive hc
             \<and> w_stdout w' = w_stdout w @ [EncodeDecision EventNamePermissionRequest ''deny'' []]))"
proof -
  have "beside J (captureParent hc w) i h" using assms(1-3) by (simp add: beside_def shut_out_def)
  from handle_foreign[OF this assms(4-7)] assms(6) show ?thesis by (auto simp: mayDeny_def)
qed

definition foreign_config :: HandleConfig where
  "foreign_config = sample_config\<lparr>hc_Env := (\<lambda>k. if k = envInstanceID then ''a'' else [])\<rparr>"

theorem foreign_hook_changes_nothing_witness:
  "\<exists>w'. Handle sample_host foreign_config sample_stdin 0 sample_world = Some w' \<and> w_stdout w' = []
      \<and> spawns (w_db w') = spawns sample_db \<and> permission_requests (w_db w') = permission_requests sample_db"
proof -
  have "leadingSpace ''a'' = 0" "trailingSpace ''a'' = 0"
    by (simp_all add: leadingSpace_def trailingSpace_def spaceRunes_def upt_conv_Cons char_of_def)
  then have i: "ResolveInstanceID (hc_Env foreign_config) = Inr ''a''"
    by (simp add: foreign_config_def ResolveInstanceID_def strings_TrimSpace_def)
  let ?J = "\<lambda>d. d\<lparr>trail := []\<rparr> = sample_db\<lparr>trail := []\<rparr>"
  have trails: "\<forall>d x. ?J (d\<lparr>trail := x\<rparr>) = ?J d" by simp
  have others: "others_keep ?J sample_host" using quiet_sample by (simp add: others_keep_def rely_def sample_host_def)
  have start: "handleStart sample_host foreign_config sample_world = (0, sample_world)"
    by (simp add: handleStart_def foreign_config_def sample_config_def)
  have db: "w_db sample_world = sample_db" "w_stdout sample_world = []" by (simp_all add: sample_world_def)
  have f: "foreign (captureParent foreign_config sample_world) ''a'' sample_db"
    by (simp add: foreign_def foreignTo_def captureParent_def foreign_config_def sample_config_def sample_world_def sample_db_def
        sample_row_def find_spawn_def)
  have "foreign (captureParent foreign_config sample_world) ''a'' d" if "?J d" for d
  proof -
    have "spawns d = spawns sample_db" using that by (metis db.select_convs(1) db.surjective db.update_convs(14))
    with f show ?thesis by (simp add: foreign_def find_spawn_def)
  qed
  then have shut: "\<forall>d. ?J d \<longrightarrow> foreign (captureParent foreign_config sample_world) ''a'' d" by blast
  obtain w' where run: "Handle sample_host foreign_config sample_stdin 0 sample_world = Some w'"
    using handle_returns[OF sample_clock_fair] by blast
  from foreign_hook_changes_nothing[OF shut trails others i start _ run]
  have same: "?J (w_db w')" "w_stdout w' = []"
    by (auto simp: db foreign_config_def sample_config_def relayActive_def)
  from same(1) have "spawns (w_db w') = spawns sample_db" "permission_requests (w_db w') = permission_requests sample_db"
    by (metis db.select_convs(1) db.surjective db.update_convs(14), metis db.select_convs(2) db.surjective db.update_convs(14))
  then show ?thesis using run same(2) by blast
qed

end
