(* ===== verification/Capacity_Laws.thy ===== *)
theory Capacity_Laws
  imports Capacity_Hook
begin

text \<open>
  What the context evidence promises: the usage read from a transcript is its newest response's, on a
  history without a gap; the capacity write is a compare-and-set on the row it was computed from; and a
  response whose capacity was rejected is not accepted again.
\<close>

section \<open>The sum of the counts\<close>

lemma countsTotal_exact:
  "0 \<le> tot \<Longrightarrow> countsTotal tot ns = Some t \<longleftrightarrow>
     list_all (\<lambda>n. n \<noteq> None \<and> 0 \<le> the n) ns \<and> (ns = [] \<or> t \<le> MaxInt64) \<and> t = tot + sum_list (map the ns)"
proof (induction ns arbitrary: tot)
  case (Cons n ns)
  have nonneg: "list_all (\<lambda>n. n \<noteq> None \<and> 0 \<le> the n) ns \<Longrightarrow> 0 \<le> sum_list (map the ns)"
    by (rule sum_list_nonneg) (auto simp: list_all_iff)
  show ?case
  proof (cases n)
    case (Some x)
    show ?thesis
    proof (cases "x < 0 \<or> x > MaxInt64 - tot")
      case True
      with Some nonneg show ?thesis by auto
    next
      case False
      with Some Cons.prems have "0 \<le> tot + x" "x \<le> MaxInt64 - tot" by auto
      with Some False Cons.IH[of "tot + x"] show ?thesis by (cases ns) auto
    qed
  qed simp
qed auto

lemma Total_exact:
  "Total c = Some t \<longleftrightarrow> list_all (\<lambda>n. n \<noteq> None \<and> 0 \<le> the n) (countsList c) \<and> t = sum_list (map the (countsList c)) \<and> t \<le> MaxInt64"
  using countsTotal_exact[of 0 "countsList c" t] by (auto simp: Total_def countsList_def)

section \<open>The newest response\<close>

definition boundary :: "claudeRecord \<Rightarrow> bool" where
  "boundary r \<longleftrightarrow> re_Type r = ''system'' \<and> re_Subtype r = ''compact_boundary''"

text \<open>The records of a transcript that are part of its history, in order.\<close>

fun history :: "transcript \<Rightarrow> claudeRecord list" where
  "history [] = []"
| "history ((len, decoded) # ls) =
     (case decoded of Some r \<Rightarrow> if re_Type r \<in> set chainedTypes then r # history ls else history ls | None \<Rightarrow> history ls)"

text \<open>Each record names the one before it as its parent, or starts the history anew after a compaction.\<close>

fun unbroken :: "claudeRecord list \<Rightarrow> bool" where
  "unbroken (x # y # cs) \<longleftrightarrow> (boundary y \<or> re_Parent y = Some (re_UUID x)) \<and> unbroken (y # cs)"
| "unbroken cs \<longleftrightarrow> True"

lemma unbroken_snoc: "unbroken (cs @ [y]) \<longleftrightarrow> unbroken cs \<and> (cs = [] \<or> boundary y \<or> re_Parent y = Some (re_UUID (last cs)))"
  by (induction cs rule: unbroken.induct) auto

definition readsResponse :: "claudeRecord \<Rightarrow> ClaudeUsage \<Rightarrow> bool" where
  "readsResponse r u \<longleftrightarrow> re_Type r = ''assistant'' \<and> re_UUID r = cu_UUID u
     \<and> (case re_Message r of
          None \<Rightarrow> False
        | Some m \<Rightarrow> cu_Model u = ms_Model m \<and> (case ms_Usage m of
            None \<Rightarrow> False
          | Some us \<Rightarrow> cu_Counts u \<in> set (us_Counts us # map it_Counts (us_Iterations us)) \<and> Total (cu_Counts u) = Some (cu_Tokens u)))"

definition newest :: "claudeRecord list \<Rightarrow> ClaudeUsage \<Rightarrow> bool" where
  "newest cs u \<longleftrightarrow> (\<exists>a r b. cs = a @ r # b \<and> readsResponse r u \<and> list_all (\<lambda>x. re_Type x \<noteq> ''assistant'' \<and> \<not> boundary x) b)"

definition ownRecord :: "string \<Rightarrow> string \<Rightarrow> claudeRecord \<Rightarrow> bool" where
  "ownRecord session child r \<longleftrightarrow> re_Session r = session \<and> re_Agent r = child \<and> (re_Sidechain r \<longleftrightarrow> child \<noteq> []) \<and> re_Version r = ClaudeVersion
     \<and> re_UUID r \<noteq> []"

definition scanned :: "string \<Rightarrow> string \<Rightarrow> claudeRecord list \<Rightarrow> scan \<Rightarrow> bool" where
  "scanned session child cs st \<longleftrightarrow> sc_previous st = (if cs = [] then [] else re_UUID (last cs)) \<and> list_all (ownRecord session child) cs
     \<and> unbroken cs \<and> (cu_UUID (sc_latest st) = [] \<or> newest cs (sc_latest st))"

lemma ordinaryCounts_from: "ordinaryCounts c its = Inr c' \<Longrightarrow> c' \<in> set (c # map it_Counts its)"
  by (induction c its rule: ordinaryCounts.induct) (auto split: if_splits option.splits)

lemma responseCounts_from: "responseCounts u tot = Inr c \<Longrightarrow> c \<in> set (us_Counts u # map it_Counts (us_Iterations u))"
  using ordinaryCounts_from[of "us_Counts u" "rev (us_Iterations u)" c] by (auto simp: responseCounts_def split: if_splits)

lemma zeroUsage_UUID [simp]: "cu_UUID zeroUsage = []"
  by (simp add: zeroUsage_def)

lemma measured:
  assumes "measureResponse ps r st = Some st'" and "re_Type r = ''assistant''"
  shows "sc_previous st' = sc_previous st" and "cu_UUID (sc_latest st') = [] \<or> readsResponse r (sc_latest st')"
proof -
  note m = assms(1)[unfolded measureResponse_def Let_def]
  consider (none) "sc_latest st' = zeroUsage" "sc_previous st' = sc_previous st"
    | (some) m u tot at counts t where "re_Message r = Some m" "ms_Usage m = Some u" "responseCounts u tot = Inr counts" "Total counts = Some t"
        "st' = st\<lparr>sc_measured := t_ns at,
           sc_latest := \<lparr>cu_UUID = re_UUID r, cu_Model = ms_Model m, cu_Tokens = t, cu_At = toUTC at, cu_Counts = counts\<rparr>\<rparr>"
    using m by (auto split: option.splits sum.splits if_splits)
  then have "sc_previous st' = sc_previous st \<and> (cu_UUID (sc_latest st') = [] \<or> readsResponse r (sc_latest st'))"
  proof cases
    case (some m u tot at counts t)
    from responseCounts_from[OF some(3)] some(1,2,4,5) show ?thesis by (auto simp: readsResponse_def assms(2))
  qed simp
  then show "sc_previous st' = sc_previous st" "cu_UUID (sc_latest st') = [] \<or> readsResponse r (sc_latest st')" by simp_all
qed

lemma newest_later: "newest cs u \<Longrightarrow> re_Type r \<noteq> ''assistant'' \<Longrightarrow> \<not> boundary r \<Longrightarrow> newest (cs @ [r]) u"
  by (fastforce simp: newest_def)

lemma scanned_line:
  assumes "scanned session child cs st" and "scanLine ps session child (len, decoded) st = Some st'"
  shows "scanned session child (cs @ history [(len, decoded)]) st'"
proof -
  obtain r where r: "decoded = Some r" using assms(2) by (auto simp: scanLine_def split: if_splits option.splits)
  show ?thesis
  proof (cases "re_Type r \<in> set chainedTypes")
    case False
    then show ?thesis using assms r by (auto simp: scanLine_def split: if_splits)
  next
    case True
    then have "re_Type r \<notin> set unchainedTypes" by (auto simp: chainedTypes_def unchainedTypes_def)
    with assms(2) r True have own: "ownRecord session child r"
      and step: "(if boundary r then Some \<lparr>sc_latest = zeroUsage, sc_previous = re_UUID r, sc_measured = zeroInstant\<rparr>
         else if \<not> followsPrevious (sc_previous st) r then None
         else let st1 = st\<lparr>sc_previous := re_UUID r\<rparr> in if re_Type r \<noteq> ''assistant'' then Some st1 else measureResponse ps r st1) = Some st'"
      by (auto simp: scanLine_def ownRecord_def boundary_def split: if_splits)
    have s: "list_all (ownRecord session child) (cs @ [r])" "unbroken cs" "sc_previous st = (if cs = [] then [] else re_UUID (last cs))"
      "cu_UUID (sc_latest st) = [] \<or> newest cs (sc_latest st)" "list_all (ownRecord session child) cs"
      using assms(1) own by (simp_all add: scanned_def)
    have last: "cs \<noteq> [] \<Longrightarrow> re_UUID (last cs) \<noteq> []" using s(5) by (auto simp: list_all_iff ownRecord_def)
    show ?thesis
    proof (cases "boundary r")
      case True
      with step s r \<open>re_Type r \<in> set chainedTypes\<close> show ?thesis by (auto simp: scanned_def unbroken_snoc)
    next
      case no: False
      with step have f: "followsPrevious (sc_previous st) r" by (auto split: if_splits)
      then have u: "unbroken (cs @ [r])" using s(2,3) last by (auto simp: unbroken_snoc followsPrevious_def split: if_splits)
      show ?thesis
      proof (cases "re_Type r = ''assistant''")
        case True
        with step no f have "measureResponse ps r (st\<lparr>sc_previous := re_UUID r\<rparr>) = Some st'" by simp
        note m = measured[OF this True]
        then have "cu_UUID (sc_latest st') = [] \<or> newest (cs @ [r]) (sc_latest st')" by (fastforce simp: newest_def)
        with m s(1) u r \<open>re_Type r \<in> set chainedTypes\<close> show ?thesis by (simp add: scanned_def)
      next
        case False
        with step no f have "st' = st\<lparr>sc_previous := re_UUID r\<rparr>" by simp
        then show ?thesis using s(1,4) u r False no \<open>re_Type r \<in> set chainedTypes\<close> newest_later by (auto simp: scanned_def)
      qed
    qed
  qed
qed

lemma history_Cons: "history (l # ls) = history [l] @ history ls"
  by (cases l) (simp split: option.split)

lemma scanned_lines: "scanned session child cs st \<Longrightarrow> scanLines ps session child ls st = Some st' \<Longrightarrow> scanned session child (cs @ history ls) st'"
proof (induction ls arbitrary: cs st)
  case (Cons l ls)
  then obtain st1 where st1: "scanLine ps session child l st = Some st1" "scanLines ps session child ls st1 = Some st'"
    by (auto split: option.splits)
  obtain len decoded where l: "l = (len, decoded)" by fastforce
  from Cons.IH[OF scanned_line[OF Cons.prems(1) st1(1)[unfolded l]] st1(2)] show ?case by (simp only: history_Cons[of "(len, decoded)" ls] l append_assoc)
qed simp

text \<open>
  C11. The usage read from a transcript is one response's, and the newest one's: the history has no gap and
  belongs wholly to the asked session and agent, no later record is a response or a compaction, and
  the tokens are the exact sum of four counts the record carries, below the 64-bit bound.
\<close>

theorem usage_is_newest_response:
  assumes "Claude ps session child (Some ls) = Some u"
  shows "unbroken (history ls) \<and> list_all (ownRecord session child) (history ls)
     \<and> (\<exists>before r after. history ls = before @ r # after \<and> readsResponse r u
          \<and> list_all (\<lambda>x. re_Type x \<noteq> ''assistant'' \<and> \<not> boundary x) after)
     \<and> cu_Tokens u = sum_list (map the (countsList (cu_Counts u))) \<and> 0 \<le> cu_Tokens u \<and> cu_Tokens u \<le> MaxInt64"
proof -
  obtain st where st: "scanLines ps session child ls initialScan = Some st" "sc_latest st = u" "cu_UUID u \<noteq> []"
    using assms by (auto simp: Claude_def split: if_splits option.splits)
  have "scanned session child [] initialScan" by (simp add: scanned_def initialScan_def)
  from scanned_lines[OF this st(1)] have s: "scanned session child (history ls) st" by simp
  then have n: "newest (history ls) u" using st(2,3) by (auto simp: scanned_def)
  then have "Total (cu_Counts u) = Some (cu_Tokens u)" by (auto simp: newest_def readsResponse_def split: option.splits)
  then have t: "list_all (\<lambda>n. n \<noteq> None \<and> 0 \<le> the n) (countsList (cu_Counts u))"
    "cu_Tokens u = sum_list (map the (countsList (cu_Counts u)))" "cu_Tokens u \<le> MaxInt64"
    by (simp_all add: Total_exact)
  have "0 \<le> cu_Tokens u" unfolding t(2) by (rule sum_list_nonneg) (use t(1) in \<open>auto simp: list_all_iff\<close>)
  with s n t(2,3) show ?thesis by (simp add: scanned_def newest_def)
qed

definition sample_counts :: Counts where
  "sample_counts = \<lparr>ct_Input = Some 4, ct_Creation = Some 3, ct_Read = Some 2, ct_Output = Some 1\<rparr>"

definition sample_turn :: claudeRecord where
  "sample_turn = \<lparr>re_Type = ''user'', re_Subtype = [], re_UUID = ''u1'', re_Parent = None, re_Session = ''s1'', re_Agent = [],
     re_Sidechain = False, re_Version = ClaudeVersion, re_Timestamp = ''t'', re_Message = None\<rparr>"

definition sample_response :: claudeRecord where
  "sample_response = sample_turn\<lparr>re_Type := ''assistant'', re_UUID := ''u2'', re_Parent := Some ''u1'',
     re_Message := Some \<lparr>ms_ID = ''m1'', ms_Model = ''opus'', ms_Usage = Some \<lparr>us_Counts = sample_counts, us_Iterations = []\<rparr>\<rparr>\<rparr>"

definition sample_transcript :: transcript where
  "sample_transcript = [(90, Some sample_turn), (200, Some sample_response)]"

theorem usage_is_newest_response_witness:
  "\<exists>u. Claude (\<lambda>_. Some \<lparr>t_ns = 5, t_offset = 0\<rparr>) ''s1'' [] (Some sample_transcript) = Some u \<and> cu_UUID u = ''u2'' \<and> cu_Tokens u = 10
     \<and> unbroken (history sample_transcript)"
proof -
  have "Total sample_counts = Some 10" by (simp add: Total_exact countsList_def sample_counts_def)
  then obtain u where u: "Claude (\<lambda>_. Some \<lparr>t_ns = 5, t_offset = 0\<rparr>) ''s1'' [] (Some sample_transcript) = Some u" "cu_UUID u = ''u2''"
      "cu_Counts u = sample_counts"
    by (simp add: Claude_def sample_transcript_def scanLine_def sample_turn_def sample_response_def unchainedTypes_def chainedTypes_def
        followsPrevious_def initialScan_def measureResponse_def responseCounts_def sample_counts_def zeroInstant_def yearInRange_def)
  from usage_is_newest_response[OF u(1)] u show ?thesis by (simp add: countsList_def sample_counts_def)
qed

section \<open>The write\<close>

text \<open>
  C12. The capacity write is a compare-and-set: it applies only to the examined row, still of the
  launch, session, transcript and process the capacity names, with the capacity it was computed from still
  stored; it then changes this one column and nothing else, and in every other case nothing at all.
\<close>

theorem capacity_write_is_compare_and_set:
  assumes "distinct (map s_instance_id (spawns d))"
    and "RecordClaudeCapacity s i (capacityGate parent e snapshot) cap d = (res, d')"
  shows "if res = Inr True
     then \<exists>r. find_spawn d i = Some r \<and> s_claude_capacity r = (if snapshot = ''null'' then None else Some snapshot)
        \<and> s_launch_token r = Some (cp_LaunchToken cap) \<and> s_session_id r = Some (cp_SessionID cap) \<and> s_jsonl_path r = Some (cp_JSONLPath cap)
        \<and> s_pid r = Some (cp_PID cap) \<and> hookGate d (capacityGate parent e snapshot) r
        \<and> d' = d\<lparr>spawns := map (\<lambda>x. if s_instance_id x = i then x\<lparr>s_claude_capacity := Some (capacityText s cap)\<rparr> else x) (spawns d)\<rparr>
     else d' = d"
proof -
  let ?g = "capacityGate parent e snapshot"
  let ?P = "capacityGuard d ?g cap" and ?f = "capacitySet (capacityText s cap)"
  have snap: "g_ClaudeCapacitySnapshot ?g = Some snapshot" by (simp add: capacityGate_def)
  have run: "res = Inl x \<and> d' = d \<or> res = Inr False \<and> d' = d \<or> Inr (fst (guarded i ?P (\<lambda>_. ?f) d)) = res \<and> d' = snd (guarded i ?P (\<lambda>_. ?f) d)"
    if "res = Inl x \<or> (\<exists>b. res = Inr b)" for x
    using assms(2) that by (auto simp: RecordClaudeCapacity_def dbExec_def call_return_def split: if_splits prod.splits)
  show ?thesis
  proof (cases "find_spawn d i")
    case None
    then have "guarded i ?P (\<lambda>_. ?f) d = (False, d)"
      by (auto simp: guarded_def update_spawns_def update_where_none any_row_def list_ex_iff find_spawn_def find_None_iff)
    with run show ?thesis by (cases res) auto
  next
    case (Some r)
    have "guarded i ?P (\<lambda>_. ?f) d = (?P r, if ?P r then d\<lparr>spawns := update_where (\<lambda>q. s_instance_id q = i) ?f (spawns d)\<rparr> else d)"
      unfolding guarded_def by (rule update_the_row[OF assms(1) Some])
    with run Some show ?thesis
      by (cases res) (auto simp: capacityGuard_def snap capacitySet_def update_where_def split: if_splits)
  qed
qed

definition sample_capacity :: ClaudeCapacity where
  "sample_capacity = \<lparr>cp_LaunchToken = ''aaaabbbbccccdddd'', cp_SessionID = ''s1'', cp_JSONLPath = ''/s1.jsonl'', cp_PID = 7, cp_Starttime = ''p0'',
     cp_Version = ClaudeVersion, cp_Provider = ''anthropic'', cp_Main = None, cp_Children = []\<rparr>"

definition capacity_row :: spawn_row where
  "capacity_row = sample_row\<lparr>s_launch_token := Some (''aaaabbbbccccdddd''), s_session_id := Some ''s1'', s_jsonl_path := Some ''/s1.jsonl'',
     s_pid := Some 7, s_proc_starttime := Some ''p0''\<rparr>"

definition capacity_evidence :: SpawnContext where
  "capacity_evidence = ContextEvidence sample_store (scanSpawn capacity_row)"

lemma sample_capacity_applies:
  "fst (RecordClaudeCapacity sample_store ''a'' (capacityGate \<lparr>pa_pid = 7, pa_start = ''p0''\<rparr> capacity_evidence ''null'') sample_capacity
     (sample_db\<lparr>spawns := [capacity_row]\<rparr>)) = Inr True"
proof -
  have "sx_SessionID capacity_evidence = ''s1''"
    by (simp add: capacity_evidence_def ContextEvidence_def scanSpawn_def capacity_row_def)
  moreover have "capacity_valid sample_capacity"
    by (simp add: capacity_valid_def startup_valid_def startupOf_def sample_capacity_def decodeLaunchToken_def
      launchTokenLen_def lower_hex_def)
  ultimately show ?thesis
    by (simp add: RecordClaudeCapacity_def dbExec_def guarded_def update_spawns_def capacityGuard_def capacityGate_def
        sample_capacity_def capacity_row_def sample_row_def sample_db_def sample_store_def hookGate_iff capacityText_def)
qed

theorem capacity_write_is_compare_and_set_witness:
  "spawns (snd (RecordClaudeCapacity sample_store ''a'' (capacityGate \<lparr>pa_pid = 7, pa_start = ''p0''\<rparr> capacity_evidence ''null'') sample_capacity
     (sample_db\<lparr>spawns := [capacity_row]\<rparr>))) = [capacity_row\<lparr>s_claude_capacity := Some ''{}''\<rparr>]"
proof -
  let ?d = "sample_db\<lparr>spawns := [capacity_row]\<rparr>"
  let ?run = "RecordClaudeCapacity sample_store ''a'' (capacityGate \<lparr>pa_pid = 7, pa_start = ''p0''\<rparr> capacity_evidence ''null'') sample_capacity ?d"
  have "distinct (map s_instance_id (spawns ?d))" by simp
  from capacity_write_is_compare_and_set[OF this surjective_pairing[of ?run]] sample_capacity_applies
  show ?thesis by (auto simp: capacity_row_def sample_row_def capacityText_def sample_store_def)
qed

section \<open>Rejected responses\<close>

text \<open>What a capacity says of a response it holds rejected is still said when a capacity computed from it names that response.\<close>

definition staysRejected :: "ClaudeCapacity \<Rightarrow> ClaudeCapacity \<Rightarrow> bool" where
  "staysRejected c c' \<longleftrightarrow>
     (\<forall>w w'. cp_Main c = Some w \<longrightarrow> cw_Invalidated w \<longrightarrow> cp_Main c' = Some w' \<longrightarrow> cw_ResponseUUID w' = cw_ResponseUUID w \<longrightarrow> cw_Invalidated w')
     \<and> (\<forall>x w w'. map_of (cp_Children c) x = Some w \<longrightarrow> cw_Invalidated w \<longrightarrow> map_of (cp_Children c') x = Some w'
          \<longrightarrow> cw_ResponseUUID w' = cw_ResponseUUID w \<longrightarrow> cw_Invalidated w')"

lemma invalidated_fields [simp]: "cw_Invalidated (invalidated w)" "cw_ResponseUUID (invalidated w) = cw_ResponseUUID w"
  by (simp_all add: invalidated_def)

lemma map_of_invalidated: "map_of (map (\<lambda>(x, w). (x, invalidated w)) cs) x = map_option invalidated (map_of cs x)"
  by (induction cs) auto

lemma windowOf_rejected:
  "cw_Invalidated w \<Longrightarrow> cw_ResponseUUID (windowOf u win at (Some w)) = cw_ResponseUUID w \<Longrightarrow> cw_Invalidated (windowOf u win at (Some w))"
  by (simp add: windowOf_def sameResponseInvalidated_def Let_def)

lemma task_rejected:
  assumes "taskCapacity usage visible at prior ts seen children = Some children'"
    and "\<And>x w w'. map_of prior x = Some w \<Longrightarrow> cw_Invalidated w \<Longrightarrow> map_of children x = Some w' \<Longrightarrow> cw_ResponseUUID w' = cw_ResponseUUID w
      \<Longrightarrow> cw_Invalidated w'"
    and "map_of prior x = Some w" and "cw_Invalidated w" and "map_of children' x = Some w'" and "cw_ResponseUUID w' = cw_ResponseUUID w"
  shows "cw_Invalidated w'"
  using assms
proof (induction ts arbitrary: seen children)
  case Nil
  then show ?case by auto
next
  case (Cons t ts)
  let ?next = "if \<not> visible (ta_ID t) \<or> ta_Type t \<noteq> ''local_agent'' \<or> ta_Model t = [] \<or> ta_Window t \<le> 0 then children
     else if map_of children (ta_ID t) = None \<and> length children \<ge> 128 then children
     else (case usage (ta_ID t) of
         None \<Rightarrow> children
       | Some u \<Rightarrow>
           if cu_Model u = ta_Model t \<and> \<not> t_ns (cu_At u) > t_ns at
           then AList.update (ta_ID t) (windowOf u (ta_Window t) at (map_of prior (ta_ID t))) children
           else children)"
  have run: "taskCapacity usage visible at prior ts (ta_ID t # seen) ?next = Some children'"
    using Cons.prems(1) by (simp only: taskCapacity.simps option.distinct split: if_split_asm)
  show ?case
  proof (rule Cons.IH[OF run _ Cons.prems(3-6)])
    fix y v v' assume y: "map_of prior y = Some v" "cw_Invalidated v" "map_of ?next y = Some v'" "cw_ResponseUUID v' = cw_ResponseUUID v"
    show "cw_Invalidated v'"
    proof (cases "map_of children y = Some v'")
      case True
      then show ?thesis using Cons.prems(2)[OF y(1,2)] y(4) by blast
    next
      case False
      with y(3) obtain u where "y = ta_ID t" "v' = windowOf u (ta_Window t) at (map_of prior y)"
        by (auto simp: update_conv' split: if_split_asm option.split_asm)
      with y windowOf_rejected show ?thesis by simp
    qed
  qed
qed

text \<open>
  C13. A response whose capacity was once rejected is not accepted again: every capacity the callback
  computes from a recorded one (of the main agent, of the subagents, or the withdrawal of an
  unqualified provider) keeps the rejection of each response it still names.
\<close>

theorem rejected_response_stays_rejected:
  assumes "BoundClaudeCapacity e = Some c"
  shows "staysRejected c (statusLineCapacity (currentCapacity e) usage p at) \<and> staysRejected c (clearClaudeCapacity e)
    \<and> (case taskCapacity usages visible at (cp_Children c) tasks [] (keptChildren visible (cp_Children c)) of
         None \<Rightarrow> True | Some children \<Rightarrow> staysRejected c (currentCapacity e\<lparr>cp_Children := children\<rparr>))"
proof (intro conjI)
  have c: "currentCapacity e = c" using assms by (simp add: currentCapacity_def)
  show "staysRejected c (statusLineCapacity (currentCapacity e) usage p at)"
    unfolding c staysRejected_def statusLineCapacity_def
    by (auto simp: Let_def invalidated_def windowOf_rejected split: option.splits if_splits)
  show "staysRejected c (clearClaudeCapacity e)"
    by (auto simp: clearClaudeCapacity_def assms staysRejected_def map_of_invalidated)
  show "case taskCapacity usages visible at (cp_Children c) tasks [] (keptChildren visible (cp_Children c)) of
      None \<Rightarrow> True | Some children \<Rightarrow> staysRejected c (currentCapacity e\<lparr>cp_Children := children\<rparr>)"
  proof (split option.split, intro conjI allI impI)
    fix children assume run: "taskCapacity usages visible at (cp_Children c) tasks [] (keptChildren visible (cp_Children c)) = Some children"
    have kept: "map_of (keptChildren visible (cp_Children c)) x = Some w' \<Longrightarrow> cw_Invalidated w'" for x w'
      by (auto simp: keptChildren_def map_of_invalidated)
    show "staysRejected c (currentCapacity e\<lparr>cp_Children := children\<rparr>)"
      using task_rejected[OF run] kept unfolding c staysRejected_def by auto
  qed simp
qed

definition sample_window :: ClaudeWindow where
  "sample_window = \<lparr>cw_Model = ''opus'', cw_Window = 1000, cw_ResponseUUID = ''u2'', cw_ObservedAt = \<lparr>t_ns = 9, t_offset = 0\<rparr>, cw_Invalidated = True\<rparr>"

definition rejected_evidence :: SpawnContext where
  "rejected_evidence = \<lparr>sx_FamilyState = [], sx_Agent = AgentClaude, sx_State = StateWorking, sx_SessionID = ''s1'', sx_JSONLPath = ''/s1.jsonl'',
     sx_LaunchToken = ''aaaabbbbccccdddd'', sx_PID = 7, sx_ProcStarttime = ''p0'', sx_PanePID = 7, sx_PaneStarttime = ''p0'',
     sx_EndReportedAtMillis = 0, sx_ClaudeCapacity = Some (sample_capacity\<lparr>cp_Main := Some sample_window\<rparr>)\<rparr>"

definition replayed_usage :: ClaudeUsage where
  "replayed_usage = \<lparr>cu_UUID = ''u2'', cu_Model = ''opus'', cu_Tokens = 10, cu_At = \<lparr>t_ns = 5, t_offset = 0\<rparr>, cu_Counts = sample_counts\<rparr>"

definition replayed_payload :: capacityPayload where
  "replayed_payload = \<lparr>cy_Session = ''s1'', cy_Version = ClaudeVersion, cy_Model = ''opus'', cy_Size = 1000, cy_Usage = sample_counts, cy_Tasks = []\<rparr>"

theorem rejected_response_stays_rejected_witness:
  "\<exists>w. cp_Main (statusLineCapacity (currentCapacity rejected_evidence) (Some replayed_usage) replayed_payload \<lparr>t_ns = 20, t_offset = 0\<rparr>) = Some w
     \<and> cw_ResponseUUID w = ''u2'' \<and> cw_Invalidated w"
proof -
  let ?c = "sample_capacity\<lparr>cp_Main := Some sample_window\<rparr>"
  let ?r = "statusLineCapacity (currentCapacity rejected_evidence) (Some replayed_usage) replayed_payload \<lparr>t_ns = 20, t_offset = 0\<rparr>"
  have b: "BoundClaudeCapacity rejected_evidence = Some ?c"
    by (simp add: BoundClaudeCapacity_def rejected_evidence_def capacity_valid_def startup_valid_def startupOf_def sample_capacity_def
        sample_window_def window_valid_def zeroInstant_def yearInRange_def decodeLaunchToken_def launchTokenLen_def lower_hex_def IsLiveState_iff)
  have "Total sample_counts = Some 10" by (simp add: Total_exact countsList_def sample_counts_def)
  then obtain w where w: "cp_Main ?r = Some w" "cw_ResponseUUID w = ''u2''"
    by (simp add: statusLineCapacity_def replayed_usage_def replayed_payload_def countsEqual_def windowOf_def Let_def)
  moreover have "cp_Main ?c = Some sample_window" "cw_Invalidated sample_window" "cw_ResponseUUID sample_window = ''u2''"
    by (simp_all add: sample_window_def)
  ultimately show ?thesis
    using rejected_response_stays_rejected[OF b, of "Some replayed_usage" replayed_payload "\<lparr>t_ns = 20, t_offset = 0\<rparr>" "\<lambda>_. None" "\<lambda>_. False" "[]"]
    by (simp add: staysRejected_def)
qed

end
