(* ===== verification/Tmux_Calls.thy ===== *)
theory Tmux_Calls
  imports Store_Rows Go_Text
begin

text \<open>
  The calls of the tmux client (internal/tmux: calls.go, invoke.go, calls_socket.go, create.go, parse.go):
  what is asked of the tmux binary, how its exit and its standard error become a failure, and how its
  output is parsed. Texts are bytes. Running the binary is outside the model: a \<open>RunResult\<close> is what a
  run gave, a parameter of the operations that read one.
\<close>

section \<open>Go's cuts and splits\<close>

definition strings_Cut :: "char \<Rightarrow> string \<Rightarrow> (string \<times> string) option" where
  "strings_Cut c s = (case dropWhile (\<lambda>x. x \<noteq> c) s of [] \<Rightarrow> None | _ # rest \<Rightarrow> Some (takeWhile (\<lambda>x. x \<noteq> c) s, rest))"

fun strings_Split :: "char \<Rightarrow> string \<Rightarrow> string list" where
  "strings_Split c [] = [[]]"
| "strings_Split c (x # xs) = (if x = c then [] # strings_Split c xs else (x # hd (strings_Split c xs)) # tl (strings_Split c xs))"

text \<open>\<open>strings.SplitN\<close> with a limit of one more than the given number of cuts.\<close>

fun splitCuts :: "nat \<Rightarrow> char \<Rightarrow> string \<Rightarrow> string list" where
  "splitCuts 0 c s = [s]"
| "splitCuts (Suc n) c s = (case strings_Cut c s of None \<Rightarrow> [s] | Some (a, b) \<Rightarrow> a # splitCuts n c b)"

definition strings_CutPrefix :: "string \<Rightarrow> string \<Rightarrow> string option" where
  "strings_CutPrefix p s = (if take (length p) s = p then Some (drop (length p) s) else None)"

definition strings_CutSuffix :: "string \<Rightarrow> string \<Rightarrow> string option" where
  "strings_CutSuffix x s = map_option rev (strings_CutPrefix (rev x) (rev s))"

text \<open>The text before and after the last \<open>c\<close>.\<close>

definition cutLast :: "char \<Rightarrow> string \<Rightarrow> (string \<times> string) option" where
  "cutLast c s = map_option (\<lambda>(b, a). (rev a, rev b)) (strings_Cut c (rev s))"

abbreviation newline :: char where "newline \<equiv> CHR 0x0A"
abbreviation tab :: char where "tab \<equiv> CHR 0x09"

section \<open>Characters and numbers\<close>

definition digit :: "char \<Rightarrow> bool" where
  "digit c \<longleftrightarrow> 48 \<le> (of_char c :: nat) \<and> (of_char c :: nat) \<le> 57"

definition isDigits :: "string \<Rightarrow> bool" where
  "isDigits s \<longleftrightarrow> s \<noteq> [] \<and> list_all digit s"

definition isLowerHex :: "string \<Rightarrow> bool" where
  "isLowerHex s \<longleftrightarrow> list_all lower_hex s"

definition hasControlChar :: "string \<Rightarrow> bool" where
  "hasControlChar s \<longleftrightarrow> list_ex (\<lambda>c. (of_char c :: nat) < 32 \<or> (of_char c :: nat) = 127) s"

definition isSessionID :: "string \<Rightarrow> bool" where
  "isSessionID s \<longleftrightarrow> (case s of c # ds \<Rightarrow> c = CHR ''$'' \<and> isDigits ds | [] \<Rightarrow> False)"

definition isPaneID :: "string \<Rightarrow> bool" where
  "isPaneID s \<longleftrightarrow> (case s of c # ds \<Rightarrow> c = CHR ''%'' \<and> isDigits ds | [] \<Rightarrow> False)"

definition decimalValue :: "string \<Rightarrow> int" where
  "decimalValue s = foldl (\<lambda>n c. 10 * n + (of_char c - 48)) 0 s"

text \<open>\<open>strconv\<close> refuses a value that does not fit; \<open>int\<close> has 64 bits.\<close>

definition parseDecimal64 :: "string \<Rightarrow> int option" where
  "parseDecimal64 s = (if isDigits s \<and> decimalValue s < 2 ^ 63 then Some (decimalValue s) else None)"

definition parseDecimalInt :: "string \<Rightarrow> int option" where
  "parseDecimalInt s = parseDecimal64 s"

section \<open>Calls and failures\<close>

datatype Call = CallLookup | CallListPanes | CallKillPane | CallKillSession | CallSendText | CallSendEnter | CallSendKey | CallCapture
  | CallCreate | CallSetLabel | CallPaneTerminal

datatype Failure = FailTimeout | FailUnavailable | FailSocketDenied | FailNoServer | FailNoSocket | FailDuplicate | FailLabel | FailUnrecognized

record CallError =
  ce_Call :: Call
  ce_Failure :: Failure
  ce_Timeout :: int
  ce_Socket :: string
  ce_FirstLine :: string
  ce_ExitStatus :: int
  ce_HadStdout :: bool
  ce_pipesCut :: bool

definition QueryInterrupted :: "CallError \<Rightarrow> bool" where
  "QueryInterrupted e \<longleftrightarrow> (ce_Call e = CallLookup \<or> ce_Call e = CallListPanes) \<and> (ce_Failure e = FailTimeout \<or> ce_pipesCut e)"

datatype LabelKind = LabelNone | LabelValid

record Label =
  lb_Kind :: LabelKind
  lb_Token :: string
  lb_InstanceID :: string
  lb_StoreID :: string

definition noLabel :: Label where
  "noLabel = \<lparr>lb_Kind = LabelNone, lb_Token = [], lb_InstanceID = [], lb_StoreID = []\<rparr>"

record Session =
  sn_ID :: string
  sn_Created :: int
  sn_Name :: string
  sn_Label :: Label

record LookupAnswer =
  an_Sessions :: "Session list"
  an_ServerPID :: int
  an_ServerStart :: int
  an_ScopeValue :: bool

record CreateReply =
  ry_SessionID :: string
  ry_ServerPID :: int
  ry_ServerStart :: int
  ry_PaneID :: string
  ry_PanePID :: int

record Pane =
  pn_SessionID :: string
  pn_Window :: int
  pn_Index :: int
  pn_ID :: string
  pn_PID :: int
  pn_AdPane :: string

record Timeouts =
  tm_Query :: int
  tm_Action :: int
  tm_Create :: int

section \<open>What is asked of tmux\<close>

definition escapeFinalSemicolon :: "string \<Rightarrow> string" where
  "escapeFinalSemicolon a = (case strings_CutSuffix '';'' a of None \<Rightarrow> a | Some x \<Rightarrow> x @ [CHR 0x5C, CHR '';''])"

fun commandArgv :: "string list list \<Rightarrow> string list" where
  "commandArgv [] = []"
| "commandArgv [c] = map escapeFinalSemicolon c"
| "commandArgv (c # cs) = map escapeFinalSemicolon c @ ['';''] @ commandArgv cs"


definition callArgv :: "string \<Rightarrow> string list list \<Rightarrow> string list" where
  "callArgv socket cmds = [''-u'', ''-S'', socket] @ commandArgv cmds"

definition tabbed :: "string list \<Rightarrow> string" where
  "tabbed fs = (case fs of [] \<Rightarrow> [] | f # gs \<Rightarrow> f @ concat (map (\<lambda>g. tab # g) gs))"

abbreviation "ownerOption \<equiv> ''@ad_owner''"
abbreviation "paneOption \<equiv> ''@ad_pane''"
abbreviation "identityPrefix \<equiv> ''ad-server''"
abbreviation "labelPrefix \<equiv> ''ad1 ''"

definition lookupCommands :: "string list list" where
  "lookupCommands =
     [[''display-message'', ''-p'', tabbed [identityPrefix, ''#{pid}'', ''#{start_time}'']],
      [''list-sessions'', ''-F'', tabbed [''#{session_id}'', ''#{session_created}'', ''#{pid}'', ''#{start_time}'', ''#{session_name}'', ''#{@ad_owner}'']],
      [''show-options'', ''-gqv'', ownerOption], [''show-options'', ''-sqv'', ownerOption], [''show-options'', ''-gwqv'', ownerOption]]"

definition listPanesCommands :: "string list list" where
  "listPanesCommands =
     [[''list-panes'', ''-a'', ''-F'',
       tabbed [''#{session_id}'', ''#{window_index}'', ''#{pane_index}'', ''#{pane_id}'', ''#{pane_pid}'', ''#{@ad_pane}'']]]"

definition ownerLabel :: "string \<Rightarrow> string \<Rightarrow> string \<Rightarrow> string \<Rightarrow> string" where
  "ownerLabel token sessionID instanceID storeID = labelPrefix @ token @ '' '' @ sessionID @ '' '' @ instanceID @ '' '' @ storeID"

definition paneLabel :: "string \<Rightarrow> string \<Rightarrow> string" where
  "paneLabel token paneID = token @ '' '' @ paneID"

definition setLabelCommands :: "string \<Rightarrow> string \<Rightarrow> string \<Rightarrow> string \<Rightarrow> string \<Rightarrow> string list list" where
  "setLabelCommands sessionID paneID token instanceID storeID =
     [[''set-option'', ''-t'', sessionID, ownerOption, ownerLabel token sessionID instanceID storeID],
      [''set-option'', ''-p'', ''-t'', paneID, paneOption, paneLabel token paneID]]"

text \<open>
  A run of \<open>#\<close> is doubled, but for one directly before \<open>[\<close>; \<open>n\<close> is the length of the run read so far.
\<close>

fun escapeRuns :: "nat \<Rightarrow> string \<Rightarrow> string" where
  "escapeRuns n [] = replicate (2 * n) (CHR ''#'')"
| "escapeRuns n (c # cs) =
     (if c = CHR ''#'' then escapeRuns (Suc n) cs
      else replicate (if c = CHR ''['' then n else 2 * n) (CHR ''#'') @ c # escapeRuns 0 cs)"

definition escapeFormat :: "string \<Rightarrow> string" where
  "escapeFormat text = escapeRuns 0 text"

definition NeedsLabelByID :: "string \<Rightarrow> bool" where
  "NeedsLabelByID name \<longleftrightarrow> list_ex (\<lambda>c. c = CHR ''$'' \<or> c = CHR 0x5C) name"

definition cursorSelectors :: "string list" where
  "cursorSelectors = [''CURSOR_CONFIG_DIR'', ''CURSOR_DATA_DIR'', ''CURSOR_API_KEY'', ''AGENT_CLI_CREDENTIAL_STORE'']"

abbreviation "instanceIDEnv \<equiv> ''AGENT_DIRECTOR_INSTANCE_ID''"

text \<open>A Go map of environment variables is an association list without a name twice.\<close>

definition sortedEnvFlags :: "(string \<times> string) list \<Rightarrow> string list" where
  "sortedEnvFlags envs = map (\<lambda>(k, v). k @ ''='' @ v) (sort_key fst envs)"

definition createReplyFormat :: string where
  "createReplyFormat = ''#{session_id} #{pid} #{start_time} #{pane_id} #{pane_pid}''"

definition createCommands :: "string \<Rightarrow> string \<Rightarrow> (string \<times> string) list \<Rightarrow> string list \<Rightarrow> string \<Rightarrow> string \<Rightarrow> string \<Rightarrow> bool \<Rightarrow> string list list" where
  "createCommands name cwd envs command token instanceID storeID chained =
     (let create = [''new-session'', ''-d'', ''-s'', name, ''-c'', escapeFormat cwd, ''-e'', instanceIDEnv @ ''='' @ instanceID]
            @ (if map_of envs ''AGENT_DIRECTOR_AGENT'' = Some ''cursor''
               then concat (map (\<lambda>k. if map_of envs k = None then [''-e'', k] else []) cursorSelectors) else [])
            @ concat (map (\<lambda>kv. [''-e'', kv]) (sortedEnvFlags (filter (\<lambda>(k, v). k \<noteq> instanceIDEnv) envs)))
            @ [''-P'', ''-F'', createReplyFormat, ''--''] @ command;
          target = ''='' @ name @ '':''
      in if \<not> chained then [create]
         else [create,
               [''set-option'', ''-F'', ''-t'', target, ownerOption, ownerLabel token ''#{session_id}'' (escapeFormat instanceID) storeID],
               [''set-option'', ''-p'', ''-F'', ''-t'', target, paneOption, token @ '' #{pane_id}'']])"

text \<open>The client's environment, less this program's own variables.\<close>

definition clientEnv :: "string list \<Rightarrow> string list" where
  "clientEnv environ =
     filter (\<lambda>kv. strings_CutPrefix ''AGENT_DIRECTOR_'' (case strings_Cut (CHR ''='') kv of None \<Rightarrow> kv | Some (name, _) \<Rightarrow> name) = None) environ"

section \<open>What a run's end means\<close>

datatype RunStatus = RunExited | RunPipesCut | RunTimedOut | RunNotStarted

record RunResult =
  rr_Status :: RunStatus
  rr_ExitStatus :: int
  rr_Stdout :: string
  rr_Stderr :: string

definition timeoutFor :: "Timeouts \<Rightarrow> Call \<Rightarrow> int" where
  "timeoutFor t call = (if call = CallLookup \<or> call = CallListPanes then tm_Query t else if call = CallCreate then tm_Create t else tm_Action t)"

definition trimmedFirstLine :: "string \<Rightarrow> string" where
  "trimmedFirstLine b = strings_TrimSpace (takeWhile (\<lambda>c. c \<noteq> newline) b)"

definition runeStart :: "char \<Rightarrow> bool" where
  "runeStart c \<longleftrightarrow> \<not> (128 \<le> (of_char c :: nat) \<and> (of_char c :: nat) < 192)"

fun backToRune :: "string \<Rightarrow> nat \<Rightarrow> nat \<Rightarrow> nat" where
  "backToRune s 0 k = k"
| "backToRune s (Suc n) k = (if k > 0 \<and> \<not> runeStart (s ! k) then backToRune s n (k - 1) else k)"

definition truncateFirstLine :: "string \<Rightarrow> string" where
  "truncateFirstLine s = (if length s \<le> 200 then s else take (backToRune s 4 200) s)"

definition firstLineOf :: "string \<Rightarrow> string" where
  "firstLineOf b = truncateFirstLine (trimmedFirstLine b)"

definition recognizeReply :: "Call \<Rightarrow> string \<Rightarrow> Failure \<times> string \<times> string" where
  "recognizeReply call stderr =
     (let line = trimmedFirstLine stderr;
          unrecognized = (if call = CallCreate \<and> strings_CutPrefix ''duplicate session: '' line \<noteq> None then (FailDuplicate, [], [])
                          else (FailUnrecognized, [], truncateFirstLine line))
      in case strings_CutPrefix ''no server running on '' line of
           Some s \<Rightarrow> (FailNoServer, s, [])
         | None \<Rightarrow> (case strings_CutPrefix ''error connecting to '' line of
             None \<Rightarrow> unrecognized
           | Some rest \<Rightarrow> (case strings_CutSuffix '' (Permission denied)'' rest of
               Some s \<Rightarrow> (FailSocketDenied, s, [])
             | None \<Rightarrow> (case strings_CutSuffix '' (No such file or directory)'' rest of
                 Some s \<Rightarrow> (FailNoSocket, s, [])
               | None \<Rightarrow> unrecognized))))"

definition runFailure :: "Timeouts \<Rightarrow> Call \<Rightarrow> RunResult \<Rightarrow> CallError option" where
  "runFailure t call res =
     (let e = \<lparr>ce_Call = call, ce_Failure = FailUnrecognized, ce_Timeout = 0, ce_Socket = [], ce_FirstLine = [],
               ce_ExitStatus = rr_ExitStatus res, ce_HadStdout = (rr_Stdout res \<noteq> []), ce_pipesCut = False\<rparr>
      in if rr_Status res = RunNotStarted then Some (e\<lparr>ce_Failure := FailUnavailable\<rparr>)
         else if rr_Status res = RunTimedOut then Some (e\<lparr>ce_Failure := FailTimeout, ce_Timeout := timeoutFor t call\<rparr>)
         else if rr_ExitStatus res \<noteq> 0
         then (case recognizeReply call (rr_Stderr res) of (f, socket, line) \<Rightarrow>
                 Some (e\<lparr>ce_Failure := f, ce_Socket := socket, ce_FirstLine := line\<rparr>))
         else None)"

definition firstLineOutputCut :: string where
  "firstLineOutputCut = ''output cut short: its pipes stayed open past the pipe-close wait''"

definition cutShort :: "Call \<Rightarrow> RunResult \<Rightarrow> CallError" where
  "cutShort call res =
     \<lparr>ce_Call = call, ce_Failure = FailUnrecognized, ce_Timeout = 0, ce_Socket = [], ce_FirstLine = firstLineOutputCut,
      ce_ExitStatus = rr_ExitStatus res, ce_HadStdout = (rr_Stdout res \<noteq> []), ce_pipesCut = True\<rparr>"

definition runAction :: "Timeouts \<Rightarrow> Call \<Rightarrow> RunResult \<Rightarrow> CallError option" where
  "runAction t call res = runFailure t call res"

definition runData :: "Timeouts \<Rightarrow> Call \<Rightarrow> RunResult \<Rightarrow> CallError + string" where
  "runData t call res = (case runFailure t call res of
     Some e \<Rightarrow> Inl e
   | None \<Rightarrow> if rr_Status res = RunPipesCut then Inl (cutShort call res) else Inr (rr_Stdout res))"

definition unparseable :: "Call \<Rightarrow> string \<Rightarrow> string \<Rightarrow> CallError" where
  "unparseable call out line =
     \<lparr>ce_Call = call, ce_Failure = FailUnrecognized, ce_Timeout = 0, ce_Socket = [], ce_FirstLine = line,
      ce_ExitStatus = 0, ce_HadStdout = (out \<noteq> []), ce_pipesCut = False\<rparr>"

section \<open>The lookup's answer\<close>

definition validLabel :: "string \<Rightarrow> string \<Rightarrow> string \<Rightarrow> Label" where
  "validLabel token instanceID storeID = \<lparr>lb_Kind = LabelValid, lb_Token = token, lb_InstanceID = instanceID, lb_StoreID = storeID\<rparr>"

definition classifyLabel :: "string \<Rightarrow> string \<Rightarrow> Label" where
  "classifyLabel raw sessionID = (case strings_CutPrefix labelPrefix raw of
     None \<Rightarrow> noLabel
   | Some rest \<Rightarrow>
       if length rest \<le> 16 \<or> rest ! 16 \<noteq> CHR '' '' \<or> \<not> isLowerHex (take 16 rest) then noLabel
       else (case strings_Cut (CHR '' '') (drop 17 rest) of
           None \<Rightarrow> noLabel
         | Some (embedded, tail) \<Rightarrow>
             if embedded \<noteq> sessionID \<or> \<not> isSessionID embedded then noLabel
             else (case cutLast (CHR '' '') tail of
                 None \<Rightarrow> noLabel
               | Some (instanceID, storeID) \<Rightarrow>
                   if instanceID = [] \<or> hasControlChar instanceID then noLabel
                   else if length storeID \<noteq> 16 \<or> \<not> isLowerHex storeID then noLabel
                   else validLabel (take 16 rest) instanceID storeID)))"

definition parseIdentityLine :: "string \<Rightarrow> (int \<times> int) option" where
  "parseIdentityLine line = (case strings_Split tab line of
     [p, pid, start] \<Rightarrow>
       (if p \<noteq> identityPrefix then None
        else (case (parseDecimalInt pid, parseDecimal64 start) of (Some a, Some b) \<Rightarrow> Some (a, b) | _ \<Rightarrow> None))
   | _ \<Rightarrow> None)"

definition isSessionShaped :: "string \<Rightarrow> bool" where
  "isSessionShaped line \<longleftrightarrow> (case strings_Cut tab line of Some (i, _) \<Rightarrow> isSessionID i | None \<Rightarrow> False)"

definition parseSessionLine :: "string \<Rightarrow> (Session \<times> int \<times> int) option" where
  "parseSessionLine line = (case splitCuts 5 tab line of
     [i, created, pid, start, name, label] \<Rightarrow>
       (case (parseDecimal64 created, parseDecimalInt pid, parseDecimal64 start) of
          (Some c, Some p, Some st) \<Rightarrow> Some (\<lparr>sn_ID = i, sn_Created = c, sn_Name = name, sn_Label = classifyLabel label i\<rparr>, p, st)
        | _ \<Rightarrow> None)
   | _ \<Rightarrow> None)"

abbreviation "firstLineBadIdentity \<equiv> ''malformed lookup answer: the first line is not a server identity line''"
abbreviation "firstLineBadSessionLine \<equiv> ''malformed lookup answer: a session line has a missing or unparseable field''"
abbreviation "firstLineSessionInScope \<equiv> ''malformed lookup answer: a session line follows the scope section''"
abbreviation "firstLineServerDisagrees \<equiv> ''malformed lookup answer: a session line disagrees with the server identity line''"

text \<open>The session lines up to the scope section, with the lines left for it; and the scope section.\<close>

fun parseSessions :: "int \<Rightarrow> int \<Rightarrow> string list \<Rightarrow> string + Session list \<times> string list" where
  "parseSessions pid start [] = Inr ([], [])"
| "parseSessions pid start (l # ls) =
     (if \<not> isSessionShaped l then Inr ([], l # ls)
      else (case parseSessionLine l of
          None \<Rightarrow> Inl firstLineBadSessionLine
        | Some (s, p, st) \<Rightarrow>
            if p \<noteq> pid \<or> st \<noteq> start then Inl firstLineServerDisagrees
            else (case parseSessions pid start ls of Inl e \<Rightarrow> Inl e | Inr (ss, rest) \<Rightarrow> Inr (s # ss, rest))))"

fun parseScope :: "string list \<Rightarrow> string + bool" where
  "parseScope [] = Inr False"
| "parseScope (l # ls) =
     (if isSessionShaped l then Inl firstLineSessionInScope
      else (case parseScope ls of Inl e \<Rightarrow> Inl e | Inr v \<Rightarrow> Inr (l \<noteq> [] \<or> v)))"

definition parseLookup :: "string \<Rightarrow> string + LookupAnswer" where
  "parseLookup out = (let lines = strings_Split newline out in case parseIdentityLine (hd lines) of
     None \<Rightarrow> Inl firstLineBadIdentity
   | Some (pid, start) \<Rightarrow> (case parseSessions pid start (tl lines) of
       Inl e \<Rightarrow> Inl e
     | Inr (ss, rest) \<Rightarrow> (case parseScope rest of
         Inl e \<Rightarrow> Inl e
       | Inr scope \<Rightarrow> Inr \<lparr>an_Sessions = ss, an_ServerPID = pid, an_ServerStart = start, an_ScopeValue = scope\<rparr>)))"

section \<open>The pane listing and the create's reply\<close>

definition classifyPaneLabel :: "string \<Rightarrow> string \<Rightarrow> string" where
  "classifyPaneLabel raw paneID = (case strings_Cut (CHR '' '') raw of
     None \<Rightarrow> []
   | Some (token, embedded) \<Rightarrow> if length token \<noteq> 16 \<or> \<not> isLowerHex token \<or> embedded \<noteq> paneID then [] else token)"

definition parsePaneLine :: "string \<Rightarrow> Pane option" where
  "parsePaneLine line = (case splitCuts 5 tab line of
     [session, window, index, pane, pid, label] \<Rightarrow>
       (if \<not> isSessionID session \<or> \<not> isPaneID pane then None
        else (case (parseDecimalInt window, parseDecimalInt index, parseDecimalInt pid) of
            (Some wi, Some ix, Some p) \<Rightarrow>
              Some \<lparr>pn_SessionID = session, pn_Window = wi, pn_Index = ix, pn_ID = pane, pn_PID = p, pn_AdPane = classifyPaneLabel label pane\<rparr>
          | _ \<Rightarrow> None))
   | _ \<Rightarrow> None)"

definition paneListingFirstLine :: "string \<Rightarrow> string" where
  "paneListingFirstLine out =
     (let line = takeWhile (\<lambda>c. c \<noteq> newline) out; f = splitCuts 5 tab line
      in truncateFirstLine (strings_TrimSpace (if length f = 6 then tabbed (take 5 f) else line)))"

fun parsePaneLines :: "string list \<Rightarrow> Pane list option" where
  "parsePaneLines [] = Some []"
| "parsePaneLines (l # ls) =
     (if l = [] then parsePaneLines ls
      else (case parsePaneLine l of None \<Rightarrow> None | Some p \<Rightarrow> map_option ((#) p) (parsePaneLines ls)))"

definition parsePanes :: "string \<Rightarrow> string + Pane list" where
  "parsePanes out = (case parsePaneLines (strings_Split newline out) of None \<Rightarrow> Inl (paneListingFirstLine out) | Some ps \<Rightarrow> Inr ps)"

definition parseCreateReply :: "string \<Rightarrow> CreateReply option" where
  "parseCreateReply out = (case strings_CutSuffix [newline] out of
     None \<Rightarrow> None
   | Some line \<Rightarrow>
       if newline \<in> set line then None
       else (case strings_Split (CHR '' '') line of
           [session, pid, start, pane, panePID] \<Rightarrow>
             (if \<not> isSessionID session \<or> \<not> isPaneID pane then None
              else (case (parseDecimalInt pid, parseDecimal64 start, parseDecimalInt panePID) of
                  (Some p, Some st, Some pp) \<Rightarrow>
                    Some \<lparr>ry_SessionID = session, ry_ServerPID = p, ry_ServerStart = st, ry_PaneID = pane, ry_PanePID = pp\<rparr>
                | _ \<Rightarrow> None))
         | _ \<Rightarrow> None))"

section \<open>The calls\<close>

definition clientLookup :: "Timeouts \<Rightarrow> RunResult \<Rightarrow> CallError + LookupAnswer" where
  "clientLookup t res = (case runData t CallLookup res of
     Inl e \<Rightarrow> Inl e
   | Inr out \<Rightarrow> (case parseLookup out of Inl line \<Rightarrow> Inl (unparseable CallLookup out line) | Inr ans \<Rightarrow> Inr ans))"

definition clientListPanes :: "Timeouts \<Rightarrow> RunResult \<Rightarrow> CallError + Pane list" where
  "clientListPanes t res = (case runData t CallListPanes res of
     Inl e \<Rightarrow> Inl e
   | Inr out \<Rightarrow> (case parsePanes out of Inl line \<Rightarrow> Inl (unparseable CallListPanes out line) | Inr ps \<Rightarrow> Inr ps))"

text \<open>The create gives a reply, an error, or both: the session exists but could not be labelled.\<close>

definition NewSession :: "Timeouts \<Rightarrow> string \<Rightarrow> RunResult \<Rightarrow> CreateReply option \<times> CallError option" where
  "NewSession t name res =
     (let chained = \<not> NeedsLabelByID name; failed = runFailure t CallCreate res
      in if rr_Status res = RunNotStarted \<or> rr_Status res = RunTimedOut then (None, failed)
         else (case parseCreateReply (rr_Stdout res) of
             Some reply \<Rightarrow>
               if rr_ExitStatus res = 0 \<or> \<not> chained then (Some reply, None)
               else (Some reply, Some \<lparr>ce_Call = CallCreate, ce_Failure = FailLabel, ce_Timeout = 0, ce_Socket = [], ce_FirstLine = [],
                                       ce_ExitStatus = rr_ExitStatus res, ce_HadStdout = True, ce_pipesCut = False\<rparr>)
           | None \<Rightarrow> (case failed of
               Some e \<Rightarrow> (None, Some e)
             | None \<Rightarrow> (None, Some \<lparr>ce_Call = CallCreate, ce_Failure = FailUnrecognized, ce_Timeout = 0, ce_Socket = [],
                     ce_FirstLine = (if rr_Status res = RunPipesCut then firstLineOutputCut else firstLineOf (rr_Stdout res)),
                     ce_ExitStatus = rr_ExitStatus res, ce_HadStdout = (rr_Stdout res \<noteq> []), ce_pipesCut = False\<rparr>))))"

end
