(* ===== verification/Tmux_Lookup.thy ===== *)
theory Tmux_Lookup
  imports Tmux_Calls Payloads
begin

text \<open>
  The shared lookup (internal/tmux: lookup.go, lookup_class.go, lookup_holder.go, lookup_server.go,
  agent_process.go, pane_token.go, unusable.go, starting_session.go): from one answer of a tmux server, a
  row's launch and the start-time reader, the verdict on the row's session, the holder of a name, the
  judgement of a recorded process and the starting-session rule. The start-time reader is a parameter:
  for a pid its start time, whether it is alive and whether that could be read.
\<close>

type_synonym procs = "int \<Rightarrow> string \<times> bool \<times> bool"

section \<open>Recorded processes\<close>

record ProcIdentity =
  pi_Pid :: int
  pi_Start :: string

definition recorded :: "ProcIdentity \<Rightarrow> bool" where
  "recorded p \<longleftrightarrow> pi_Pid p > 0"

datatype AgentSource = AgentNone | AgentSessionStart | AgentPane

definition processes_disagree :: "ProcIdentity \<Rightarrow> ProcIdentity \<Rightarrow> bool" where
  "processes_disagree a b \<longleftrightarrow> pi_Pid a \<noteq> pi_Pid b \<or> pi_Start a \<noteq> [] \<and> pi_Start b \<noteq> [] \<and> pi_Start a \<noteq> pi_Start b"

definition noProcess :: ProcIdentity where
  "noProcess = \<lparr>pi_Pid = 0, pi_Start = []\<rparr>"

definition SelectAgentProcess :: "ProcIdentity \<Rightarrow> ProcIdentity \<Rightarrow> AgentSource \<times> ProcIdentity" where
  "SelectAgentProcess sessionStart pane =
     (if \<not> recorded sessionStart \<and> \<not> recorded pane then (AgentNone, noProcess)
      else if \<not> recorded pane then (AgentSessionStart, sessionStart)
      else if \<not> recorded sessionStart \<or> processes_disagree sessionStart pane then (AgentPane, pane)
      else (AgentSessionStart, sessionStart))"

datatype ProcState = ProcNone | ProcAlive | ProcGone | ProcUnknown

definition JudgeProcess :: "procs \<Rightarrow> ProcIdentity \<Rightarrow> ProcState" where
  "JudgeProcess pc p =
     (if \<not> recorded p then ProcNone
      else (case pc (pi_Pid p) of (start, alive, known) \<Rightarrow>
        if \<not> known then ProcUnknown
        else if \<not> alive then ProcGone
        else if pi_Start p = [] then ProcUnknown
        else if start = pi_Start p then ProcAlive
        else ProcGone))"

definition KnownStartTime :: "procs \<Rightarrow> int \<Rightarrow> string" where
  "KnownStartTime pc pid =
     (if pid \<le> 0 then [] else (case pc pid of (start, alive, known) \<Rightarrow> if \<not> alive \<or> \<not> known then [] else start))"

section \<open>Names\<close>

definition escapesDollar :: "char \<Rightarrow> bool" where
  "escapesDollar c \<longleftrightarrow> (let n = (of_char c :: nat) in 97 \<le> n \<and> n \<le> 122 \<or> 65 \<le> n \<and> n \<le> 90 \<or> c = CHR ''_'' \<or> c = CHR 0x7B)"

fun escapeStoredName :: "string \<Rightarrow> string" where
  "escapeStoredName [] = []"
| "escapeStoredName (c # cs) =
     (if c = CHR 0x5C then [CHR 0x5C, CHR 0x5C]
      else if c = CHR ''$'' \<and> (case cs of d # _ \<Rightarrow> escapesDollar d | [] \<Rightarrow> False) then [CHR 0x5C, CHR ''$'']
      else [c]) @ escapeStoredName cs"

definition StoredForms :: "string \<Rightarrow> string list" where
  "StoredForms name =
     (if \<not> list_ex (\<lambda>c. c = CHR ''$'' \<or> c = CHR 0x5C) name then [name]
      else if escapeStoredName name = name then [name] else [name, escapeStoredName name])"

definition matchHolder :: "Session list \<Rightarrow> string \<Rightarrow> Session option \<times> bool" where
  "matchHolder ss name =
     (if name = [] then (None, False)
      else (case filter (\<lambda>x. sn_Name x \<in> set (StoredForms name)) ss of
          [] \<Rightarrow> (None, False)
        | [x] \<Rightarrow> (Some x, False)
        | _ \<Rightarrow> (None, True)))"

datatype UnusableKind = UnusableNone | UnusableEmpty | UnusableControl | UnusableRewritten

record Rewritten =
  rw_Dot :: bool
  rw_Colon :: bool
  rw_InvalidUTF8 :: bool

definition RewrittenIn :: "string \<Rightarrow> Rewritten" where
  "RewrittenIn name = \<lparr>rw_Dot = (CHR ''.'' \<in> set name), rw_Colon = (CHR '':'' \<in> set name), rw_InvalidUTF8 = (\<not> validUTF8 name)\<rparr>"

definition rewrittenAny :: "Rewritten \<Rightarrow> bool" where
  "rewrittenAny r \<longleftrightarrow> rw_Dot r \<or> rw_Colon r \<or> rw_InvalidUTF8 r"

definition Unusable :: "string \<Rightarrow> UnusableKind" where
  "Unusable name =
     (if name = [] then UnusableEmpty
      else if hasControlChar name then UnusableControl
      else if rewrittenAny (RewrittenIn name) then UnusableRewritten
      else UnusableNone)"

section \<open>Labels\<close>

record Launch =
  lu_InstanceID :: string
  lu_Token :: string
  lu_StoreID :: string
  lu_Socket :: string
  lu_ServerPID :: int
  lu_ServerStart :: int
  lu_ServerStarttime :: string

datatype LabelClass = ClassZero | ClassCurrent | ClassOld | ClassForeign | ClassOtherStore | ClassNone

definition ClassOf :: "Launch \<Rightarrow> Label \<Rightarrow> LabelClass" where
  "ClassOf l lb =
     (if lb_Kind lb \<noteq> LabelValid then ClassNone
      else if lu_StoreID l = [] \<or> lb_StoreID lb \<noteq> lu_StoreID l then ClassOtherStore
      else if lu_InstanceID l = [] \<or> hasControlChar (lu_InstanceID l) \<or> lb_InstanceID lb \<noteq> lu_InstanceID l then ClassForeign
      else if lu_Token l \<noteq> [] \<and> lb_Token lb = lu_Token l then ClassCurrent
      else ClassOld)"

section \<open>The server check\<close>

abbreviation "ServerMatch \<equiv> ''match''"
abbreviation "ServerRestarted \<equiv> ''restarted''"
abbreviation "ServerDiffers \<equiv> ''differs''"
abbreviation "ServerUnknown \<equiv> ''unknown''"

abbreviation "ReasonServerRestarted \<equiv> ''server_restarted''"
abbreviation "ReasonServerMismatch \<equiv> ''server_mismatch''"
abbreviation "ReasonDuplicateLabel \<equiv> ''duplicate_label''"
abbreviation "ReasonScopeValue \<equiv> ''scope_value''"
abbreviation "ReasonAdopted \<equiv> ''adopted''"
abbreviation "ReasonNameChanged \<equiv> ''name_changed''"

record serverCheck =
  sv_server :: string
  sv_differs :: bool
  sv_reason :: string

text \<open>The answer is the listing's server, none when the reply named no server.\<close>

definition checkServer :: "Launch \<Rightarrow> procs \<Rightarrow> (int \<times> int) option \<Rightarrow> serverCheck" where
  "checkServer row pc answer =
     (if lu_ServerPID row = 0 then \<lparr>sv_server = ServerUnknown, sv_differs = False, sv_reason = []\<rparr>
      else if answer = Some (lu_ServerPID row, lu_ServerStart row) then \<lparr>sv_server = ServerMatch, sv_differs = False, sv_reason = []\<rparr>
      else if JudgeProcess pc \<lparr>pi_Pid = lu_ServerPID row, pi_Start = lu_ServerStarttime row\<rparr> \<noteq> ProcGone
      then \<lparr>sv_server = ServerDiffers, sv_differs = True, sv_reason = ReasonServerMismatch\<rparr>
      else \<lparr>sv_server = ServerRestarted, sv_differs = False, sv_reason = (if answer = None then [] else ReasonServerRestarted)\<rparr>)"

section \<open>The verdict\<close>

datatype Verdict = NoVerdict | Ours | Leftover | Gone | CantTell

datatype CantTellKind = NoKind | CantTellUnreadable | CantTellDifferentServer | CantTellProvenanceConflict | CantTellUnavailable

record Result =
  lr_Verdict :: Verdict
  lr_CantTell :: CantTellKind
  lr_Session :: Session
  lr_Leftovers :: "Session list"
  lr_Conflicting :: "Session list"
  lr_Holder :: "Session option"
  lr_HolderClass :: LabelClass
  lr_HolderAmbiguous :: bool
  lr_Server :: string
  lr_ServerPID :: int
  lr_ServerStart :: int
  lr_Adopt :: bool
  lr_Disagree :: "string list"
  lr_Cause :: "CallError option"
  lr_Skipped :: bool

definition zeroSession :: Session where
  "zeroSession = \<lparr>sn_ID = [], sn_Created = 0, sn_Name = [], sn_Label = noLabel\<rparr>"

definition zeroLookup :: Result where
  "zeroLookup = \<lparr>lr_Verdict = NoVerdict, lr_CantTell = NoKind, lr_Session = zeroSession, lr_Leftovers = [], lr_Conflicting = [],
     lr_Holder = None, lr_HolderClass = ClassZero, lr_HolderAmbiguous = False, lr_Server = [], lr_ServerPID = 0, lr_ServerStart = 0,
     lr_Adopt = False, lr_Disagree = [], lr_Cause = None, lr_Skipped = False\<rparr>"

abbreviation "TokenNotRun \<equiv> ''not_run''"

definition Token :: "Result \<Rightarrow> string" where
  "Token r =
     (if lr_Skipped r then TokenNotRun
      else (case lr_Verdict r of
          Ours \<Rightarrow> ''ours'' | Leftover \<Rightarrow> ''leftover'' | Gone \<Rightarrow> ''gone'' | NoVerdict \<Rightarrow> []
        | CantTell \<Rightarrow> (case lr_CantTell r of
            CantTellUnreadable \<Rightarrow> ''cant_tell'' | CantTellDifferentServer \<Rightarrow> ''different_server''
          | CantTellProvenanceConflict \<Rightarrow> ''provenance_conflict'' | CantTellUnavailable \<Rightarrow> ''tmux_unavailable'' | NoKind \<Rightarrow> [])))"

definition StopsSocket :: "Result \<Rightarrow> bool" where
  "StopsSocket r \<longleftrightarrow> lr_Verdict r = CantTell \<and> (lr_CantTell r = CantTellUnreadable \<or> lr_CantTell r = CantTellUnavailable)"

definition appendReason :: "string list \<Rightarrow> string \<Rightarrow> string list" where
  "appendReason reasons reason = (if reason = [] \<or> reason \<in> set reasons then reasons else reasons @ [reason])"

definition classifySessions :: "Result \<Rightarrow> Session list \<Rightarrow> Launch \<Rightarrow> Result" where
  "classifySessions r ss row =
     (let current = filter (\<lambda>x. ClassOf row (sn_Label x) = ClassCurrent) ss;
          old = filter (\<lambda>x. ClassOf row (sn_Label x) = ClassOld) ss;
          r1 = r\<lparr>lr_Leftovers := lr_Leftovers r @ old\<rparr>
      in case current of
           _ # _ # _ \<Rightarrow> r1\<lparr>lr_Verdict := CantTell, lr_CantTell := CantTellProvenanceConflict,
                          lr_Disagree := appendReason (lr_Disagree r) ReasonDuplicateLabel, lr_Conflicting := current, lr_Leftovers := []\<rparr>
         | [x] \<Rightarrow> r1\<lparr>lr_Verdict := Ours, lr_Session := x, lr_Adopt := (lu_ServerPID row = 0)\<rparr>
         | [] \<Rightarrow> r1\<lparr>lr_Verdict := (if lr_Leftovers r1 \<noteq> [] then Leftover else Gone)\<rparr>)"

definition Classify :: "LookupAnswer \<Rightarrow> procs \<Rightarrow> Launch \<Rightarrow> string \<Rightarrow> Result" where
  "Classify ans pc row holderName =
     (let sc = checkServer row pc (Some (an_ServerPID ans, an_ServerStart ans));
          (holder, ambiguous) = matchHolder (an_Sessions ans) holderName;
          r = zeroLookup\<lparr>lr_Server := sv_server sc, lr_ServerPID := an_ServerPID ans, lr_ServerStart := an_ServerStart ans,
                lr_Holder := holder, lr_HolderAmbiguous := ambiguous,
                lr_HolderClass := (case holder of Some x \<Rightarrow> ClassOf row (sn_Label x) | None \<Rightarrow> ClassZero),
                lr_Disagree := appendReason [] (sv_reason sc)\<rparr>
      in if sv_differs sc then r\<lparr>lr_Verdict := CantTell, lr_CantTell := CantTellDifferentServer\<rparr>
         else if an_ScopeValue ans
         then r\<lparr>lr_Verdict := CantTell, lr_CantTell := CantTellProvenanceConflict,
                lr_Disagree := appendReason (lr_Disagree r) ReasonScopeValue\<rparr>
         else classifySessions r (an_Sessions ans) row)"

text \<open>A failed call; none is an error that is not a \<open>*CallError\<close>.\<close>

definition resultForFailure :: "CallError option \<Rightarrow> procs \<Rightarrow> Launch \<Rightarrow> Result" where
  "resultForFailure err pc row = (case err of
     None \<Rightarrow> zeroLookup\<lparr>lr_Verdict := CantTell, lr_CantTell := CantTellUnreadable\<rparr>
   | Some ce \<Rightarrow>
       if ce_Failure ce = FailUnavailable \<or> ce_Failure ce = FailSocketDenied
       then zeroLookup\<lparr>lr_Verdict := CantTell, lr_CantTell := CantTellUnavailable, lr_Cause := Some ce\<rparr>
       else if ce_Failure ce = FailNoServer \<or> ce_Failure ce = FailNoSocket
       then (let sc = checkServer row pc None;
                 r = zeroLookup\<lparr>lr_Verdict := Gone, lr_Server := sv_server sc, lr_Disagree := appendReason [] (sv_reason sc)\<rparr>
             in if sv_differs sc then r\<lparr>lr_Verdict := CantTell, lr_CantTell := CantTellDifferentServer\<rparr> else r)
       else zeroLookup\<lparr>lr_Verdict := CantTell, lr_CantTell := CantTellUnreadable, lr_Cause := Some ce\<rparr>)"

definition ListingFailure :: "CallError option \<Rightarrow> procs \<Rightarrow> Launch \<Rightarrow> Result" where
  "ListingFailure err pc row = resultForFailure err pc row"

definition resultForCall :: "CallError option + LookupAnswer \<Rightarrow> procs \<Rightarrow> Launch \<Rightarrow> string \<Rightarrow> Result" where
  "resultForCall outcome pc row holderName = (case outcome of
     Inr ans \<Rightarrow> Classify ans pc row holderName
   | Inl err \<Rightarrow> resultForFailure err pc row)"

text \<open>\<open>answer\<close> is what the client's one lookup call on the row's socket gives.\<close>

definition Lookup :: "(string \<Rightarrow> CallError option + LookupAnswer) \<Rightarrow> procs \<Rightarrow> Launch \<Rightarrow> string \<Rightarrow> Result" where
  "Lookup answer pc row holderName = resultForCall (answer (lu_Socket row)) pc row holderName"

section \<open>The pane of a launch\<close>

datatype PaneMatch = PaneNone | PaneOne | PaneMany

definition zeroPane :: Pane where
  "zeroPane = \<lparr>pn_SessionID = [], pn_Window = 0, pn_Index = 0, pn_ID = [], pn_PID = 0, pn_AdPane = []\<rparr>"

definition PaneByToken :: "Pane list \<Rightarrow> string \<Rightarrow> Pane \<times> PaneMatch" where
  "PaneByToken panes token =
     (if token = [] then (zeroPane, PaneNone)
      else (case filter (\<lambda>p. pn_AdPane p = token) panes of
          [] \<Rightarrow> (zeroPane, PaneNone)
        | p # ps \<Rightarrow> if list_all (\<lambda>q. pn_ID q = pn_ID p) ps then (p, PaneOne) else (zeroPane, PaneMany)))"

section \<open>The starting-session rule\<close>

record Elapsed =
  el_Since :: int
  el_Future :: bool

definition Under :: "Elapsed \<Rightarrow> int \<Rightarrow> bool" where
  "Under e limit \<longleftrightarrow> el_Future e \<or> el_Since e < limit"

definition elapsedSince :: "int \<Rightarrow> int \<Rightarrow> Elapsed" where
  "elapsedSince now then' = (if then' > now then \<lparr>el_Since = 0, el_Future = True\<rparr>
     else \<lparr>el_Since = min (2 ^ 63 - 1) (now - then'), el_Future = False\<rparr>)"

text \<open>
  Instants and durations are nanoseconds; a session's creation is in whole seconds, and \<open>time.Unix\<close>
  keeps it as a 64-bit count from the year 1.
\<close>

definition SessionAge :: "int \<Rightarrow> int \<Rightarrow> Elapsed" where
  "SessionAge now created = elapsedSince now ((wrap64 (created + 62135596800) - 62135596800) * 1000000000)"

datatype StartingSessionOutcome = StillStopping | StillStarting | PastBoth

record StartingSessionInput =
  sg_EndedAt :: "int option"
  sg_RecordsPID :: bool
  sg_RecordsSessionID :: bool
  sg_Session :: "Session option"
  sg_Now :: int
  sg_Bound :: int
  sg_Window :: int

record StartingSessionClass =
  sl_Outcome :: StartingSessionOutcome
  sl_WindowChecked :: bool
  sl_SessionPresent :: bool
  sl_Window :: int
  sl_Bound :: int
  sl_SinceEnd :: Elapsed
  sl_Age :: Elapsed

definition zeroElapsed :: Elapsed where
  "zeroElapsed = \<lparr>el_Since = 0, el_Future = False\<rparr>"

definition StartingSession :: "StartingSessionInput \<Rightarrow> StartingSessionClass" where
  "StartingSession inp =
     (let checked = sg_EndedAt inp \<noteq> None \<and> (sg_RecordsPID inp \<or> sg_RecordsSessionID inp);
          sinceEnd = (if checked then elapsedSince (sg_Now inp) (the (sg_EndedAt inp)) else zeroElapsed);
          c = \<lparr>sl_Outcome = PastBoth, sl_WindowChecked = checked, sl_SessionPresent = (sg_Session inp \<noteq> None), sl_Window = sg_Window inp,
               sl_Bound = sg_Bound inp, sl_SinceEnd = sinceEnd, sl_Age = zeroElapsed\<rparr>
      in if checked \<and> Under sinceEnd (sg_Window inp) then c\<lparr>sl_Outcome := StillStopping\<rparr>
         else (case sg_Session inp of
             None \<Rightarrow> c
           | Some x \<Rightarrow> (let age = SessionAge (sg_Now inp) (sn_Created x); c1 = c\<lparr>sl_Age := age\<rparr>
                       in if Under age (sg_Bound inp) then c1\<lparr>sl_Outcome := StillStarting\<rparr> else c1)))"

end
