(* ===== verification/Tmux_Sweep.thy ===== *)
theory Tmux_Sweep
  imports Relay_Hook Tmux_Lookup
begin

text \<open>
  One sweep's use of tmux (internal/tmux: sweep.go; pkg/api: sweep_socket.go): one lookup and at most one
  pane listing per socket, the stop rule of a socket and the time budget of the run. The tmux binary is a
  parameter: what a run of it gives in the world it is called in, and the socket the caller's environment
  resolves to. A call passes time like any other action; \<open>sw_calls\<close> lists the calls that were made, each with
  the moment tmux ran, the effect a sweep has outside the database.
\<close>

record tmuxEnv =
  te_Timeouts :: Timeouts
  te_run :: "world \<Rightarrow> Call \<Rightarrow> string \<Rightarrow> RunResult"
  te_callerSocket :: "world \<Rightarrow> string option"

section \<open>The sweep\<close>

record sweepSocket =
  sk_stopped :: bool
  sk_answer :: "(CallError option + LookupAnswer) option"
  sk_panes :: "(CallError option + Pane list) option"

record Sweep =
  sw_budget :: int
  sw_spent :: int
  sw_sockets :: "string \<Rightarrow> sweepSocket option"
  sw_calls :: "(Call \<times> string \<times> world) list"

definition NewSweep :: "int \<Rightarrow> Sweep" where
  "NewSweep budget = \<lparr>sw_budget = budget, sw_spent = 0, sw_sockets = (\<lambda>_. None), sw_calls = []\<rparr>"

definition socketOf :: "Sweep \<Rightarrow> string \<Rightarrow> sweepSocket" where
  "socketOf sw x = (case sw_sockets sw x of None \<Rightarrow> \<lparr>sk_stopped = False, sk_answer = None, sk_panes = None\<rparr> | Some st \<Rightarrow> st)"

definition setSocket :: "string \<Rightarrow> sweepSocket \<Rightarrow> Sweep \<Rightarrow> Sweep" where
  "setSocket x st sw = sw\<lparr>sw_sockets := (sw_sockets sw)(x \<mapsto> st)\<rparr>"

definition sweepOpen :: "Sweep \<Rightarrow> sweepSocket \<Rightarrow> bool" where
  "sweepOpen sw st \<longleftrightarrow> sw_spent sw < sw_budget sw \<and> \<not> sk_stopped st"

text \<open>The run of tmux for one call, and \<open>timed\<close>: no outcome when the call spent the budget.\<close>

definition tmuxRun :: "host \<Rightarrow> tmuxEnv \<Rightarrow> Call \<Rightarrow> string \<Rightarrow> world \<Rightarrow> RunResult \<times> world" where
  "tmuxRun h te call x w = (let w1 = tick h w in (te_run te w1 call x, w1))"

definition timed :: "host \<Rightarrow> tmuxEnv \<Rightarrow> Call \<Rightarrow> string \<Rightarrow> Sweep \<Rightarrow> world \<Rightarrow> RunResult option \<times> Sweep \<times> world" where
  "timed h te call x sw w =
     (let (start, w1) = clock_now h w; (res, w2) = tmuxRun h te call x w1; (stop, w3) = clock_now h w2;
          d = saturated (stop - start);
          sw1 = sw\<lparr>sw_calls := sw_calls sw @ [(call, x, w2)]\<rparr>;
          sw2 = (if d > 0 then sw1\<lparr>sw_spent := wrap64 (sw_spent sw1 + d)\<rparr> else sw1)
      in (if sw_spent sw2 < sw_budget sw2 then Some res else None, sw2, w3))"

definition skipped :: Result where
  "skipped = zeroLookup\<lparr>lr_Skipped := True\<rparr>"

definition stopOn :: "string \<Rightarrow> Result \<Rightarrow> Sweep \<Rightarrow> Sweep" where
  "stopOn x r sw = (if StopsSocket r then setSocket x ((socketOf sw x)\<lparr>sk_stopped := True\<rparr>) sw else sw)"

text \<open>An error of the client is always a \<open>*CallError\<close>.\<close>

definition asOutcome :: "CallError + 'a \<Rightarrow> CallError option + 'a" where
  "asOutcome r = (case r of Inl e \<Rightarrow> Inl (Some e) | Inr x \<Rightarrow> Inr x)"

definition heldAnswer :: "host \<Rightarrow> tmuxEnv \<Rightarrow> string \<Rightarrow> Sweep \<Rightarrow> world \<Rightarrow> (CallError option + LookupAnswer) option \<times> Sweep \<times> world" where
  "heldAnswer h te x sw w = (case sk_answer (socketOf sw x) of
     Some a \<Rightarrow> (Some a, sw, w)
   | None \<Rightarrow> (case timed h te CallLookup x sw w of
       (None, sw1, w1) \<Rightarrow> (None, sw1, w1)
     | (Some res, sw1, w1) \<Rightarrow> (let a = asOutcome (clientLookup (te_Timeouts te) res)
         in (Some a, setSocket x ((socketOf sw1 x)\<lparr>sk_answer := Some a\<rparr>) sw1, w1))))"

definition SweepLookup :: "host \<Rightarrow> tmuxEnv \<Rightarrow> Launch \<Rightarrow> string \<Rightarrow> Sweep \<Rightarrow> world \<Rightarrow> Result \<times> Sweep \<times> world" where
  "SweepLookup h te row holderName sw w =
     (if \<not> sweepOpen sw (socketOf sw (lu_Socket row)) then (skipped, sw, w)
      else (case heldAnswer h te (lu_Socket row) sw w of
          (None, sw1, w1) \<Rightarrow> (skipped, sw1, w1)
        | (Some a, sw1, w1) \<Rightarrow> (let r = resultForCall a (w_procs w1) row holderName
            in (r, stopOn (lu_Socket row) r sw1, w1))))"

record PaneListing =
  pl_Listed :: bool
  pl_Panes :: "Pane list"
  pl_Result :: Result

definition heldPanes :: "host \<Rightarrow> tmuxEnv \<Rightarrow> string \<Rightarrow> Sweep \<Rightarrow> world \<Rightarrow> (CallError option + Pane list) option \<times> Sweep \<times> world" where
  "heldPanes h te x sw w = (case sk_panes (socketOf sw x) of
     Some a \<Rightarrow> (Some a, sw, w)
   | None \<Rightarrow> (case timed h te CallListPanes x sw w of
       (None, sw1, w1) \<Rightarrow> (None, sw1, w1)
     | (Some res, sw1, w1) \<Rightarrow> (let a = asOutcome (clientListPanes (te_Timeouts te) res)
         in (Some a, setSocket x ((socketOf sw1 x)\<lparr>sk_panes := Some a\<rparr>) sw1, w1))))"

definition SweepListPanes :: "host \<Rightarrow> tmuxEnv \<Rightarrow> Launch \<Rightarrow> Sweep \<Rightarrow> world \<Rightarrow> PaneListing \<times> Sweep \<times> world" where
  "SweepListPanes h te row sw w =
     (let unlisted = (\<lambda>r. \<lparr>pl_Listed = False, pl_Panes = [], pl_Result = r\<rparr>) in
      if \<not> sweepOpen sw (socketOf sw (lu_Socket row)) then (unlisted skipped, sw, w)
      else (case heldPanes h te (lu_Socket row) sw w of
          (None, sw1, w1) \<Rightarrow> (unlisted skipped, sw1, w1)
        | (Some (Inr panes), sw1, w1) \<Rightarrow> (\<lparr>pl_Listed = True, pl_Panes = panes, pl_Result = zeroLookup\<rparr>, sw1, w1)
        | (Some (Inl err), sw1, w1) \<Rightarrow> (let r = resultForFailure err (w_procs w1) row
            in (unlisted r, stopOn (lu_Socket row) r sw1, w1))))"

section \<open>The socket of a row\<close>

record sweepSockets =
  so_resolved :: "string option option"
  so_refused :: bool

definition noSockets :: sweepSockets where
  "noSockets = \<lparr>so_resolved = None, so_refused = False\<rparr>"

text \<open>The socket, or the result of a row whose socket the resolution refused.\<close>

definition forRow :: "host \<Rightarrow> tmuxEnv \<Rightarrow> string \<Rightarrow> sweepSockets \<Rightarrow> world \<Rightarrow> (Result + string) \<times> sweepSockets \<times> world" where
  "forRow h te recordedSocket ss w =
     (if recordedSocket \<noteq> [] then (Inr recordedSocket, ss, w)
      else (let (ss1, w1) = (case so_resolved ss of
                Some _ \<Rightarrow> (ss, w)
              | None \<Rightarrow> (let w1 = tick h w in (ss\<lparr>so_resolved := Some (te_callerSocket te w1)\<rparr>, w1)))
            in case the (so_resolved ss1) of
                Some x \<Rightarrow> (Inr x, ss1, w1)
              | None \<Rightarrow> if so_refused ss1 then (Inl skipped, ss1, w1)
                        else (Inl (zeroLookup\<lparr>lr_Verdict := CantTell, lr_CantTell := CantTellUnavailable\<rparr>), ss1\<lparr>so_refused := True\<rparr>, w1)))"

section \<open>What a sweep may do\<close>

text \<open>A run takes lookups and listings in any order; between them the world does what it does.\<close>

inductive sweep_step :: "host \<Rightarrow> tmuxEnv \<Rightarrow> Sweep \<Rightarrow> Sweep \<Rightarrow> bool" for h te where
  lookup: "SweepLookup h te row name sw w = (r, sw', w') \<Longrightarrow> sweep_step h te sw sw'"
| listing: "SweepListPanes h te row sw w = (l, sw', w') \<Longrightarrow> sweep_step h te sw sw'"

inductive_cases sweep_stepE [elim]: "sweep_step h te sw sw'"

definition asked :: "Sweep \<Rightarrow> (Call \<times> string) list" where
  "asked sw = map (\<lambda>(c, x, _). (c, x)) (sw_calls sw)"

text \<open>
  What a sweep keeps: no call was made twice, a socket without a held answer was not asked for it while
  the budget lasts, a held answer is what a call gave, and the budget is overspent by one call at most.
\<close>

definition holds_answer :: "tmuxEnv \<Rightarrow> Sweep \<Rightarrow> string \<Rightarrow> CallError option + LookupAnswer \<Rightarrow> bool" where
  "holds_answer te sw x a \<longleftrightarrow> (\<exists>v. (CallLookup, x, v) \<in> set (sw_calls sw)
     \<and> a = asOutcome (clientLookup (te_Timeouts te) (te_run te v CallLookup x)))"

definition holds_panes :: "tmuxEnv \<Rightarrow> Sweep \<Rightarrow> string \<Rightarrow> CallError option + Pane list \<Rightarrow> bool" where
  "holds_panes te sw x a \<longleftrightarrow> (\<exists>v. (CallListPanes, x, v) \<in> set (sw_calls sw)
     \<and> a = asOutcome (clientListPanes (te_Timeouts te) (te_run te v CallListPanes x)))"

definition sweep_ok :: "tmuxEnv \<Rightarrow> Sweep \<Rightarrow> bool" where
  "sweep_ok te sw \<longleftrightarrow> (\<forall>x a. sk_answer (socketOf sw x) = Some a \<longrightarrow> holds_answer te sw x a)
     \<and> (\<forall>x a. sk_panes (socketOf sw x) = Some a \<longrightarrow> holds_panes te sw x a)"

definition calls_take :: "host \<Rightarrow> int \<Rightarrow> bool" where
  "calls_take h m \<longleftrightarrow> (\<forall>w. w_now (tick h (tick h w)) - w_now w \<le> m)"

definition within_budget :: "int \<Rightarrow> Sweep \<Rightarrow> bool" where
  "within_budget m sw \<longleftrightarrow> distinct (asked sw) \<and> 0 \<le> sw_spent sw \<and> sw_spent sw < max 1 (sw_budget sw + m)
     \<and> (sw_spent sw < sw_budget sw \<longrightarrow>
          (\<forall>x. (sk_answer (socketOf sw x) = None \<longrightarrow> (CallLookup, x) \<notin> set (asked sw))
             \<and> (sk_panes (socketOf sw x) = None \<longrightarrow> (CallListPanes, x) \<notin> set (asked sw))))"

section \<open>One call\<close>

lemma socketOf_simps [simp]:
  "socketOf (setSocket x st sw) y = (if y = x then st else socketOf sw y)"
  "sw_calls (setSocket x st sw) = sw_calls sw" "sw_spent (setSocket x st sw) = sw_spent sw" "sw_budget (setSocket x st sw) = sw_budget sw"
  "asked (setSocket x st sw) = asked sw"
  "socketOf (sw\<lparr>sw_calls := cs\<rparr>) y = socketOf sw y" "socketOf (sw\<lparr>sw_spent := n\<rparr>) y = socketOf sw y"
  by (simp_all add: socketOf_def setSocket_def asked_def)

lemma timed_facts:
  assumes "timed h te call x sw w = (out, sw1, w1)"
  shows "\<exists>v. sw_calls sw1 = sw_calls sw @ [(call, x, v)] \<and> (out = None \<or> out = Some (te_run te v call x))"
    and "socketOf sw1 y = socketOf sw y" and "sw_budget sw1 = sw_budget sw" and "out = None \<longleftrightarrow> \<not> sw_spent sw1 < sw_budget sw1"
  using assms by (auto simp: timed_def tmuxRun_def Let_def split: prod.splits if_splits)

lemma timed_spent:
  assumes "timed h te call x sw w = (out, sw1, w1)" and "calls_take h m" and "0 \<le> m"
    and "0 \<le> sw_spent sw" and "sw_spent sw < sw_budget sw" and "sw_budget sw + m < 2 ^ 63"
  shows "0 \<le> sw_spent sw1" and "sw_spent sw1 < sw_budget sw1 + m"
proof -
  define d where "d = saturated (w_now (tick h (tick h (tick h w))) - w_now (tick h w))"
  have d: "d \<le> m"
    using assms(2)[unfolded calls_take_def, rule_format, of "tick h w"] assms(3) by (simp add: d_def saturated_def)
  have s: "sw_spent sw1 = (if d > 0 then wrap64 (sw_spent sw + d) else sw_spent sw)" "sw_budget sw1 = sw_budget sw"
    using assms(1) by (auto simp: timed_def Let_def clock_now_def tmuxRun_def d_def split: if_splits)
  have "d > 0 \<Longrightarrow> wrap64 (sw_spent sw + d) = sw_spent sw + d" using d assms(4-6) by (intro wrap64_id) linarith+
  with s d assms(3-5) show "0 \<le> sw_spent sw1" "sw_spent sw1 < sw_budget sw1 + m" by (auto split: if_splits)
qed

section \<open>A lookup and a listing\<close>

lemma heldAnswer_cases:
  assumes "heldAnswer h te x sw w = (out, sw1, w1)"
  obtains (held) a where "sk_answer (socketOf sw x) = Some a" "out = Some a" "sw1 = sw" "w1 = w"
    | (spent) "sk_answer (socketOf sw x) = None" "out = None" "timed h te CallLookup x sw w = (None, sw1, w1)"
    | (asked) res sw2 a where "sk_answer (socketOf sw x) = None" "timed h te CallLookup x sw w = (Some res, sw2, w1)"
        "a = asOutcome (clientLookup (te_Timeouts te) res)" "out = Some a" "sw1 = setSocket x ((socketOf sw2 x)\<lparr>sk_answer := Some a\<rparr>) sw2"
  using assms by (auto simp: heldAnswer_def Let_def split: option.splits prod.splits)

lemma heldPanes_cases:
  assumes "heldPanes h te x sw w = (out, sw1, w1)"
  obtains (held) a where "sk_panes (socketOf sw x) = Some a" "out = Some a" "sw1 = sw" "w1 = w"
    | (spent) "sk_panes (socketOf sw x) = None" "out = None" "timed h te CallListPanes x sw w = (None, sw1, w1)"
    | (asked) res sw2 a where "sk_panes (socketOf sw x) = None" "timed h te CallListPanes x sw w = (Some res, sw2, w1)"
        "a = asOutcome (clientListPanes (te_Timeouts te) res)" "out = Some a" "sw1 = setSocket x ((socketOf sw2 x)\<lparr>sk_panes := Some a\<rparr>) sw2"
  using assms by (auto simp: heldPanes_def Let_def split: option.splits prod.splits)

lemma stopOn_simps [simp]:
  "sw_calls (stopOn x r sw) = sw_calls sw" "sw_spent (stopOn x r sw) = sw_spent sw" "sw_budget (stopOn x r sw) = sw_budget sw"
  "sk_answer (socketOf (stopOn x r sw) y) = sk_answer (socketOf sw y)" "sk_panes (socketOf (stopOn x r sw) y) = sk_panes (socketOf sw y)"
  by (simp_all add: stopOn_def)

lemma stopOn_keeps [simp]:
  "sweep_ok te (stopOn x r sw) = sweep_ok te sw" "within_budget m (stopOn x r sw) = within_budget m sw"
  by (simp_all add: sweep_ok_def within_budget_def asked_def holds_answer_def holds_panes_def)

text \<open>A step is one held answer or listing, and perhaps the stop of its socket.\<close>

lemma SweepLookup_step:
  assumes "SweepLookup h te row name sw w = (r, sw1, w1)"
  obtains (closed) "\<not> sweepOpen sw (socketOf sw (lu_Socket row))" "sw1 = sw" "w1 = w" "r = skipped"
    | (spent) "sweepOpen sw (socketOf sw (lu_Socket row))" "heldAnswer h te (lu_Socket row) sw w = (None, sw1, w1)" "r = skipped"
    | (answered) a sw2 where "sweepOpen sw (socketOf sw (lu_Socket row))" "heldAnswer h te (lu_Socket row) sw w = (Some a, sw2, w1)"
        "r = resultForCall a (w_procs w1) row name" "sw1 = stopOn (lu_Socket row) r sw2"
  using assms by (auto simp: SweepLookup_def Let_def split: if_splits prod.splits option.splits)

lemma SweepListPanes_step:
  assumes "SweepListPanes h te row sw w = (l, sw1, w1)"
  obtains (closed) "\<not> sweepOpen sw (socketOf sw (lu_Socket row))" "sw1 = sw" "w1 = w" "\<not> pl_Listed l"
    | (spent) "sweepOpen sw (socketOf sw (lu_Socket row))" "heldPanes h te (lu_Socket row) sw w = (None, sw1, w1)" "\<not> pl_Listed l"
    | (listed) panes where "sweepOpen sw (socketOf sw (lu_Socket row))" "heldPanes h te (lu_Socket row) sw w = (Some (Inr panes), sw1, w1)"
        "pl_Listed l" "pl_Panes l = panes"
    | (failed) err sw2 where "sweepOpen sw (socketOf sw (lu_Socket row))" "heldPanes h te (lu_Socket row) sw w = (Some (Inl err), sw2, w1)"
        "\<not> pl_Listed l" "sw1 = stopOn (lu_Socket row) (resultForFailure err (w_procs w1) row) sw2"
  using assms by (auto simp: SweepListPanes_def Let_def split: if_splits prod.splits option.splits sum.splits)

lemma sweep_step_ask:
  assumes "sweep_step h te sw sw'"
  obtains (same) "sw' = sw"
    | (stop) x r where "sw' = stopOn x r sw" "sweepOpen sw (socketOf sw x)"
    | (spent) call x w w1 where "sweepOpen sw (socketOf sw x)" "timed h te call x sw w = (None, sw', w1)"
        "call = CallLookup \<and> sk_answer (socketOf sw x) = None \<or> call = CallListPanes \<and> sk_panes (socketOf sw x) = None"
    | (lookup) x w res sw2 w1 r where "sweepOpen sw (socketOf sw x)" "sk_answer (socketOf sw x) = None"
        "timed h te CallLookup x sw w = (Some res, sw2, w1)"
        "sw' = stopOn x r (setSocket x ((socketOf sw2 x)\<lparr>sk_answer := Some (asOutcome (clientLookup (te_Timeouts te) res))\<rparr>) sw2)"
    | (listing) x w res sw2 w1 where "sweepOpen sw (socketOf sw x)" "sk_panes (socketOf sw x) = None"
        "timed h te CallListPanes x sw w = (Some res, sw2, w1)"
        "sw' = setSocket x ((socketOf sw2 x)\<lparr>sk_panes := Some (asOutcome (clientListPanes (te_Timeouts te) res))\<rparr>) sw2
         \<or> (\<exists>r. sw' = stopOn x r (setSocket x ((socketOf sw2 x)\<lparr>sk_panes := Some (asOutcome (clientListPanes (te_Timeouts te) res))\<rparr>) sw2))"
  using assms
proof (cases rule: sweep_step.cases)
  case (lookup row name w r w')
  from lookup show ?thesis
  proof (cases rule: SweepLookup_step)
    case spent
    from spent(2) show ?thesis by (cases rule: heldAnswer_cases) (use spent(1) that(3) in auto)
  next
    case (answered a sw2)
    from answered(2) show ?thesis
      by (cases rule: heldAnswer_cases) (use answered(1,4) that(2,4) in auto)
  qed (use that(1) in auto)
next
  case (listing row w l w')
  from listing show ?thesis
  proof (cases rule: SweepListPanes_step)
    case spent
    from spent(2) show ?thesis by (cases rule: heldPanes_cases) (use spent(1) that(3) in auto)
  next
    case (listed panes)
    from listed(2) show ?thesis by (cases rule: heldPanes_cases) (use listed(1) that(1,5) in auto)
  next
    case (failed err sw2)
    from failed(2) show ?thesis
    proof (cases rule: heldPanes_cases)
      case (asked res sw3 a)
      show ?thesis by (rule that(5)[OF failed(1) asked(1,2)]) (use asked(3,5) failed(4) in blast)
    qed (use failed(1,4) that(2) in auto)
  qed (use that(1) in auto)
qed


section \<open>What every sweep keeps\<close>

lemma asked_timed: "timed h te call x sw w = (out, sw1, w1) \<Longrightarrow> asked sw1 = asked sw @ [(call, x)]"
  using timed_facts(1)[of h te call x sw w out sw1 w1] by (auto simp: asked_def)

lemma holds_more:
  assumes "set (sw_calls sw) \<subseteq> set (sw_calls sw1)"
  shows "holds_answer te sw x a \<Longrightarrow> holds_answer te sw1 x a" and "holds_panes te sw x b \<Longrightarrow> holds_panes te sw1 x b"
  using assms by (auto simp: holds_answer_def holds_panes_def)

lemma sweep_step_calls:
  assumes "sweep_step h te sw sw'"
  shows "set (sw_calls sw) \<subseteq> set (sw_calls sw')" and "sw_budget sw' = sw_budget sw"
  using assms by (cases rule: sweep_step_ask; use timed_facts(1,3) in fastforce)+

lemma sweep_ok_step:
  assumes "sweep_step h te sw sw'" and "sweep_ok te sw"
  shows "sweep_ok te sw'"
proof -
  have grow: "holds_answer te sw' x a" if "sk_answer (socketOf sw x) = Some a" for x a
    using assms(2) that holds_more(1)[OF sweep_step_calls(1)[OF assms(1)]] by (auto simp: sweep_ok_def)
  have grow': "holds_panes te sw' x a" if "sk_panes (socketOf sw x) = Some a" for x a
    using assms(2) that holds_more(2)[OF sweep_step_calls(1)[OF assms(1)]] by (auto simp: sweep_ok_def)
  from assms(1) show ?thesis
  proof (cases rule: sweep_step_ask)
    case (spent call x w w1)
    then show ?thesis using grow grow' by (simp add: sweep_ok_def timed_facts(2)[OF spent(2)])
  next
    case (lookup x w res sw2 w1 r)
    let ?a = "asOutcome (clientLookup (te_Timeouts te) res)"
    obtain v where "sw_calls sw2 = sw_calls sw @ [(CallLookup, x, v)]" "res = te_run te v CallLookup x"
      using timed_facts(1)[OF lookup(3)] by (metis option.distinct(1) option.inject)
    with lookup(4) have "holds_answer te sw' x ?a" by (auto simp: holds_answer_def)
    then show ?thesis using grow grow' lookup(4) by (auto simp: sweep_ok_def timed_facts(2)[OF lookup(3)] split: if_splits)
  next
    case (listing x w res sw2 w1)
    let ?a = "asOutcome (clientListPanes (te_Timeouts te) res)"
    obtain v where "sw_calls sw2 = sw_calls sw @ [(CallListPanes, x, v)]" "res = te_run te v CallListPanes x"
      using timed_facts(1)[OF listing(3)] by (metis option.distinct(1) option.inject)
    with listing(4) have "holds_panes te sw' x ?a" by (auto simp: holds_panes_def)
    then show ?thesis using grow grow' listing(4) by (auto simp: sweep_ok_def timed_facts(2)[OF listing(3)] split: if_splits)
  qed (use assms(2) in auto)
qed

lemma within_budget_ask:
  assumes "timed h te call x sw w = (out, sw2, w1)" and "calls_take h m" "0 \<le> m" "sw_budget sw + m < 2 ^ 63"
    and "within_budget m sw" and "sweepOpen sw (socketOf sw x)" and "(call, x) \<notin> set (asked sw)"
  shows "distinct (asked sw2) \<and> 0 \<le> sw_spent sw2 \<and> sw_spent sw2 < max 1 (sw_budget sw2 + m)"
  using timed_spent[OF assms(1-3)] assms(4-7) timed_facts(3)[OF assms(1)]
  by (auto simp: within_budget_def sweepOpen_def asked_timed[OF assms(1)])

lemma within_budget_step:
  assumes "sweep_step h te sw sw'" and "calls_take h m" "0 \<le> m" "sw_budget sw + m < 2 ^ 63" and "within_budget m sw"
  shows "within_budget m sw'"
  using assms(1)
proof (cases rule: sweep_step_ask)
  case (spent call x w w1)
  have "(call, x) \<notin> set (asked sw)" using spent(1,3) assms(5) by (auto simp: within_budget_def sweepOpen_def)
  note ask = within_budget_ask[OF spent(2) assms(2-5) spent(1) this]
  then show ?thesis using timed_facts(4)[OF spent(2)] by (simp add: within_budget_def)
next
  case (lookup x w res sw2 w1 r)
  have new: "(CallLookup, x) \<notin> set (asked sw)" using lookup(1,2) assms(5) by (auto simp: within_budget_def sweepOpen_def)
  note ask = within_budget_ask[OF lookup(3) assms(2-5) lookup(1) new]
  have "sw_spent sw < sw_budget sw" using lookup(1) by (simp add: sweepOpen_def)
  with assms(5) have "sk_answer (socketOf sw y) = None \<longrightarrow> (CallLookup, y) \<notin> set (asked sw)"
    "sk_panes (socketOf sw y) = None \<longrightarrow> (CallListPanes, y) \<notin> set (asked sw)" for y by (auto simp: within_budget_def)
  then show ?thesis using ask unfolding lookup(4) stopOn_keeps
    by (auto simp: within_budget_def asked_timed[OF lookup(3)] timed_facts(2)[OF lookup(3)])
next
  case (listing x w res sw2 w1)
  have new: "(CallListPanes, x) \<notin> set (asked sw)" using listing(1,2) assms(5) by (auto simp: within_budget_def sweepOpen_def)
  note ask = within_budget_ask[OF listing(3) assms(2-5) listing(1) new]
  let ?sw = "setSocket x ((socketOf sw2 x)\<lparr>sk_panes := Some (asOutcome (clientListPanes (te_Timeouts te) res))\<rparr>) sw2"
  have "sw_spent sw < sw_budget sw" using listing(1) by (simp add: sweepOpen_def)
  with assms(5) have "sk_answer (socketOf sw y) = None \<longrightarrow> (CallLookup, y) \<notin> set (asked sw)"
    "sk_panes (socketOf sw y) = None \<longrightarrow> (CallListPanes, y) \<notin> set (asked sw)" for y by (auto simp: within_budget_def)
  then have "within_budget m ?sw" using ask
    by (auto simp: within_budget_def asked_timed[OF listing(3)] timed_facts(2)[OF listing(3)])
  with listing(4) show ?thesis by auto
qed (use assms(5) in auto)

lemma sweep_step_still:
  assumes "sweep_step h te sw sw'"
  shows "sw_budget sw \<le> sw_spent sw \<Longrightarrow> sw' = sw" and "sk_stopped (socketOf sw x) \<Longrightarrow> (c, x) \<in> set (asked sw') \<Longrightarrow> (c, x) \<in> set (asked sw)"
proof -
  show "sw_budget sw \<le> sw_spent sw \<Longrightarrow> sw' = sw"
    using assms by (cases rule: sweep_step_ask) (auto simp: sweepOpen_def)
  show "(c, x) \<in> set (asked sw)" if "sk_stopped (socketOf sw x)" "(c, x) \<in> set (asked sw')"
    using assms that by (cases rule: sweep_step_ask) (auto simp: sweepOpen_def asked_timed asked_def[of "stopOn _ _ _"] asked_def[symmetric])
qed

lemma sweep_run:
  assumes "(sweep_step h te)\<^sup>*\<^sup>* sw sw'"
  shows "set (sw_calls sw) \<subseteq> set (sw_calls sw')" and "sw_budget sw' = sw_budget sw" and "sweep_ok te sw \<Longrightarrow> sweep_ok te sw'"
    and "calls_take h m \<Longrightarrow> 0 \<le> m \<Longrightarrow> sw_budget sw + m < 2 ^ 63 \<Longrightarrow> within_budget m sw \<Longrightarrow> within_budget m sw'"
  using assms
  by (induction) (simp_all, blast dest: sweep_step_calls, simp add: sweep_step_calls, blast intro: sweep_ok_step, auto intro: within_budget_step)

lemma NewSweep_ok: "sweep_ok te (NewSweep budget)" "0 \<le> m \<Longrightarrow> within_budget m (NewSweep budget)"
  by (simp_all add: sweep_ok_def within_budget_def NewSweep_def socketOf_def asked_def)

end
