(* ===== verification/Missing_Run.thy ===== *)
theory Missing_Run
  imports Tmux_Sweep Hook_Handler
begin

text \<open>
  The find-missing verb (pkg/api: find_missing.go, find_missing_lookup.go, find_missing_writes.go,
  agent_pane.go, name_held_trail.go, provenance_disagree.go; internal/store/recovery.go;
  internal/spawn: launch_owner.go, jsonl.go): the read of the live rows, the judgement of each by its
  agent's process or by tmux, the guarded write of the outcome with its trail records, and the healing of
  transcripts. Log lines are not modelled. The caller's facts (pid namespace, home, store id, identity,
  which files exist, how an error reads) are a parameter.
\<close>

section \<open>The live rows\<close>

record LiveSpawnIdentity =
  it_InstanceID :: string
  it_State :: string
  it_PID :: int
  it_ProcStarttime :: string
  it_LaunchStartedAtMillis :: int
  it_TmuxSessionName :: string
  it_LivenessNote :: string
  it_Snapshot :: RowSnapshot
  it_Identity :: LaunchIdentity
  it_LaunchOwner :: ProcessIdentity
  it_Agent :: string
  it_EndReportedAtMillis :: int

definition liveIdentity :: "spawn_row \<Rightarrow> LiveSpawnIdentity" where
  "liveIdentity r = \<lparr>it_InstanceID = s_instance_id r, it_State = s_state r, it_PID = rs_PID (lifeSnapshot r),
     it_ProcStarttime = rs_ProcStarttime (lifeSnapshot r),
     it_LaunchStartedAtMillis = decodeLaunchStartedAt (sql_int (s_launch_started_at r)),
     it_TmuxSessionName = rs_TmuxSessionName (lifeSnapshot r), it_LivenessNote = coalesce (s_liveness_note r) [],
     it_Snapshot = lifeSnapshot r, it_Identity = lifeIdentity r, it_LaunchOwner = launchOwnerOf r, it_Agent = s_agent r,
     it_EndReportedAtMillis = decodeEndReportedAt (sql_int (s_end_reported_at r))\<rparr>"

definition ListLiveSpawnIdentities :: "store \<Rightarrow> db \<Rightarrow> store_error + LiveSpawnIdentity list" where
  "ListLiveSpawnIdentities s d =
     (if sqlFails s ''store: list live identities'' then Inl (DriverError ''store: list live identities'')
      else Inr (map liveIdentity (filter (\<lambda>r. list_ex (\<lambda>v. s_state r = v) liveStates) (spawns d))))"

section \<open>The caller\<close>

record caller =
  ca_process :: string
  ca_pid :: int
  ca_hostname :: string
  ca_user :: string

record missingEnv =
  me_host :: host
  me_tmux :: tmuxEnv
  me_ownNamespace :: "string option"
  me_storeID :: string
  me_home :: "string option"
  me_stat :: "world \<Rightarrow> string \<Rightarrow> bool"
  me_caller :: caller
  me_errText :: "store_error \<Rightarrow> string"

definition LaunchOwnerAlive :: "missingEnv \<Rightarrow> procs \<Rightarrow> ProcessIdentity \<Rightarrow> bool" where
  "LaunchOwnerAlive e pc owner \<longleftrightarrow> pi_PID owner > 0 \<and> me_ownNamespace e = Some (pi_PIDNamespace owner)
     \<and> JudgeProcess pc \<lparr>pi_Pid = pi_PID owner, pi_Start = pi_Starttime owner\<rparr> = ProcAlive"

section \<open>The writes of an outcome\<close>

abbreviation "findMissingTickEvent \<equiv> ''ad.find_missing.tick''"
abbreviation "findMissingTickSource \<equiv> ''ad_find_missing''"

record findMissingWrite =
  fw_Listed :: bool
  fw_Wrote :: bool
  fw_Res :: "CondResult option"
  fw_Err :: "store_error option"

definition noWrite :: findMissingWrite where
  "noWrite = \<lparr>fw_Listed = False, fw_Wrote = False, fw_Res = None, fw_Err = None\<rparr>"

definition wrote :: "CondResult \<Rightarrow> findMissingWrite" where
  "wrote res = \<lparr>fw_Listed = False, fw_Wrote = True, fw_Res = Some res, fw_Err = None\<rparr>"

definition failedWrite :: "store_error \<Rightarrow> findMissingWrite" where
  "failedWrite err = \<lparr>fw_Listed = False, fw_Wrote = True, fw_Res = None, fw_Err = Some err\<rparr>"

definition emitMarkTick :: "string \<Rightarrow> string \<Rightarrow> string \<Rightarrow> string \<Rightarrow> (string \<times> trail_val) list \<Rightarrow> world \<Rightarrow> world" where
  "emitMarkTick i prior newState reason extra =
     (let own = [(''instance_id'', TS i), (''prior_state'', TS prior), (''new_state'', TS newState),
                 (''reconciliation_reason'', TS reason), (''source'', TS findMissingTickSource)]
      in trail_Emit (findMissingTickEvent, filter (\<lambda>(k, _). k \<notin> fst ` set own) extra @ own))"

definition markMissingSameLife :: "host \<Rightarrow> string \<Rightarrow> RowSnapshot \<Rightarrow> string \<Rightarrow> (string \<times> trail_val) list \<Rightarrow> world \<Rightarrow> findMissingWrite \<times> world" where
  "markMissingSameLife h i examined reason extra w =
     (case store_call h (\<lambda>s _. MarkMissingIfSameLife s i examined) w of
        (Inl err, w1) \<Rightarrow> (failedWrite err, w1)
      | (Inr (prior, res), w1) \<Rightarrow>
          if res \<noteq> CondApplied then (wrote res, w1)
          else ((wrote res)\<lparr>fw_Listed := True\<rparr>, emitMarkTick i prior ''missing'' reason extra w1))"

definition markEndedSameLife :: "host \<Rightarrow> string \<Rightarrow> RowSnapshot \<Rightarrow> string \<Rightarrow> (string \<times> trail_val) list \<Rightarrow> world \<Rightarrow> findMissingWrite \<times> world" where
  "markEndedSameLife h i examined reason extra w =
     (case store_call h (\<lambda>s _. MarkEndedIfSameLife s i examined) w of
        (Inl err, w1) \<Rightarrow> (failedWrite err, w1)
      | (Inr (prior, res), w1) \<Rightarrow>
          (wrote res, if res = CondApplied then emitMarkTick i prior ''ended'' reason extra w1 else w1))"

definition noteTickReason :: "string \<Rightarrow> string \<Rightarrow> string option" where
  "noteTickReason readNote note =
     (if note = readNote then None
      else if note = LivenessNoteProvenanceConflict then Some LivenessNoteProvenanceConflict
      else if readNote = [] then Some note
      else None)"

definition emitNoteTick :: "string \<Rightarrow> string \<Rightarrow> string \<Rightarrow> world \<Rightarrow> world" where
  "emitNoteTick i readNote note w = (case noteTickReason readNote note of
     None \<Rightarrow> w
   | Some reason \<Rightarrow> trail_Emit (findMissingTickEvent, [(''instance_id'', TS i), (''prior_state'', TNull), (''new_state'', TNull),
       (''reconciliation_reason'', TS reason), (''source'', TS findMissingTickSource)]) w)"

definition writeUnreportedNote :: "host \<Rightarrow> string \<Rightarrow> RowSnapshot \<Rightarrow> string \<Rightarrow> world \<Rightarrow> findMissingWrite \<times> world" where
  "writeUnreportedNote h i examined readNote w =
     (if readNote = LivenessNoteUnreported then (noWrite, w)
      else (case store_call h (\<lambda>s _. NoteUnreportedIfSameLife s i examined) w of
          (Inl err, w1) \<Rightarrow> (failedWrite err, w1)
        | (Inr res, w1) \<Rightarrow> (wrote res, if res = CondApplied then emitNoteTick i readNote LivenessNoteUnreported w1 else w1)))"

definition writeLivenessNote :: "host \<Rightarrow> string \<Rightarrow> RowSnapshot \<Rightarrow> string \<Rightarrow> string \<Rightarrow> world \<Rightarrow> findMissingWrite \<times> world" where
  "writeLivenessNote h i examined readNote note w =
     (if note = readNote then (noWrite\<lparr>fw_Listed := True\<rparr>, w)
      else (case store_call h (\<lambda>s _. SetLivenessNoteIfSameLife s i examined note) w of
          (Inl err, w1) \<Rightarrow> (failedWrite err, w1)
        | (Inr res, w1) \<Rightarrow>
            if res \<noteq> CondApplied then (wrote res, w1)
            else ((wrote res)\<lparr>fw_Listed := True\<rparr>, emitNoteTick i readNote note w1)))"

definition clearLivenessNote :: "host \<Rightarrow> string \<Rightarrow> RowSnapshot \<Rightarrow> string \<Rightarrow> world \<Rightarrow> findMissingWrite \<times> world" where
  "clearLivenessNote h i examined readNote w =
     (if readNote = [] then (noWrite, w)
      else (case store_call h (\<lambda>s _. ClearLivenessIfSameLife s i examined) w of
          (Inl err, w1) \<Rightarrow> (failedWrite err, w1)
        | (Inr res, w1) \<Rightarrow> (wrote res, w1)))"

section \<open>The judgement of a row\<close>

abbreviation "reasonProcAbsent \<equiv> ''proc_absent''"
abbreviation "reasonTmuxAbsent \<equiv> ''tmux_absent''"
abbreviation "reasonTmuxNameHeld \<equiv> ''tmux_name_held''"
abbreviation "noteProbeEACCES \<equiv> ''probe_eacces''"
abbreviation "noteProcessNotSeenSessionPresent \<equiv> ''process_not_seen_session_present''"
abbreviation "noteProcessNotSeenTmuxUnchecked \<equiv> ''process_not_seen_tmux_unchecked''"
abbreviation "noteTmuxServerChanged \<equiv> ''tmux_server_changed''"
abbreviation "findMissingActionMarked \<equiv> ''marked_missing''"
abbreviation "findMissingActionLeftLive \<equiv> ''left_live''"
abbreviation "findMissingActionUnreported \<equiv> ''left_unreported''"
abbreviation "findMissingActionUnverified \<equiv> ''left_unverified''"
abbreviation "findMissingActionChanged \<equiv> ''left_changed''"
abbreviation "findMissingActionStoreError \<equiv> ''store_error''"
abbreviation "tickLookupOutcome \<equiv> ''lookup_outcome''"
abbreviation "tickSessionName \<equiv> ''tmux_session_name''"

definition unusableNameNote :: "UnusableKind \<Rightarrow> string" where
  "unusableNameNote k = (case k of
     UnusableEmpty \<Rightarrow> ''tmux_session_name_empty''
   | UnusableControl \<Rightarrow> ''tmux_session_name_control_char''
   | UnusableRewritten \<Rightarrow> ''tmux_session_name_rewritten''
   | UnusableNone \<Rightarrow> [])"

record findMissingRow =
  fm_write :: findMissingWrite
  fm_marked :: bool
  fm_action :: string
  fm_disagree :: "string list"
  fm_socket :: string
  fm_res :: Result
  fm_listing :: Result

definition zeroRow :: findMissingRow where
  "zeroRow = \<lparr>fm_write = noWrite, fm_marked = False, fm_action = [], fm_disagree = [], fm_socket = [], fm_res = zeroLookup,
     fm_listing = zeroLookup\<rparr>"

definition findMissingAction :: "findMissingRow \<Rightarrow> string" where
  "findMissingAction r =
     (if fw_Err (fm_write r) \<noteq> None then findMissingActionStoreError
      else if fw_Wrote (fm_write r) \<and> fw_Res (fm_write r) \<noteq> Some CondApplied then findMissingActionChanged
      else fm_action r)"

definition unreportedRow :: "missingEnv \<Rightarrow> findMissingRow \<Rightarrow> LiveSpawnIdentity \<Rightarrow> RowSnapshot \<Rightarrow> world \<Rightarrow> findMissingRow \<times> world" where
  "unreportedRow e row it guard w = (case writeUnreportedNote (me_host e) (it_InstanceID it) guard (it_LivenessNote it) w of
     (fw, w1) \<Rightarrow> (row\<lparr>fm_write := fw, fm_action := findMissingActionUnreported\<rparr>, w1))"

definition clearRow :: "missingEnv \<Rightarrow> findMissingRow \<Rightarrow> LiveSpawnIdentity \<Rightarrow> RowSnapshot \<Rightarrow> world \<Rightarrow> findMissingRow \<times> world" where
  "clearRow e row it guard w = (case clearLivenessNote (me_host e) (it_InstanceID it) guard (it_LivenessNote it) w of
     (fw, w1) \<Rightarrow> (row\<lparr>fm_write := fw, fm_action := findMissingActionLeftLive\<rparr>, w1))"

definition aliveRow :: "missingEnv \<Rightarrow> findMissingRow \<Rightarrow> LiveSpawnIdentity \<Rightarrow> RowSnapshot \<Rightarrow> LaunchIdentity \<Rightarrow> world \<Rightarrow> findMissingRow \<times> world" where
  "aliveRow e row it guard ident w =
     (if it_State it = StatePending \<and> li_PanePID ident > 0
      then (if it_LivenessNote it = LivenessNoteProvenanceConflict then (row\<lparr>fm_action := findMissingActionLeftLive\<rparr>, w)
            else unreportedRow e row it guard w)
      else clearRow e row it guard w)"

definition markRow :: "missingEnv \<Rightarrow> findMissingRow \<Rightarrow> LiveSpawnIdentity \<Rightarrow> RowSnapshot \<Rightarrow> string \<Rightarrow> (string \<times> trail_val) list \<Rightarrow> world
     \<Rightarrow> findMissingRow \<times> world" where
  "markRow e row it guard reason extra w = (case markMissingSameLife (me_host e) (it_InstanceID it) guard reason extra w of
     (fw, w1) \<Rightarrow> (row\<lparr>fm_write := fw, fm_marked := True, fm_action := findMissingActionMarked\<rparr>, w1))"

definition goneRow :: "missingEnv \<Rightarrow> findMissingRow \<Rightarrow> LiveSpawnIdentity \<Rightarrow> RowSnapshot \<Rightarrow> world \<Rightarrow> findMissingRow \<times> world" where
  "goneRow e row it guard w =
     (if it_Agent it \<noteq> AgentCodex \<or> it_EndReportedAtMillis it \<le> 0 then markRow e row it guard reasonProcAbsent [] w
      else (case markEndedSameLife (me_host e) (it_InstanceID it) guard reasonProcAbsent [] w of
          (fw, w1) \<Rightarrow> (row\<lparr>fm_write := fw, fm_marked := True, fm_action := findMissingActionMarked\<rparr>, w1)))"

definition noteRow :: "missingEnv \<Rightarrow> findMissingRow \<Rightarrow> LiveSpawnIdentity \<Rightarrow> RowSnapshot \<Rightarrow> string \<Rightarrow> world \<Rightarrow> findMissingRow \<times> world" where
  "noteRow e row it guard note w = (case writeLivenessNote (me_host e) (it_InstanceID it) guard (it_LivenessNote it) note w of
     (fw, w1) \<Rightarrow> (row\<lparr>fm_write := fw, fm_action := findMissingActionUnverified\<rparr>, w1))"

section \<open>Adoption\<close>

record adoption =
  ad_Identity :: LaunchIdentity
  ad_Due :: bool
  ad_Pane :: PaneMatch
  ad_Applied :: bool

definition adoptionDue :: "LaunchIdentity \<Rightarrow> Result \<Rightarrow> bool" where
  "adoptionDue x res \<longleftrightarrow> lr_Verdict res = Ours \<and> (lr_Adopt res \<or> li_PaneID x = [])"

definition adoptionNeedsListing :: "LaunchIdentity \<Rightarrow> bool" where
  "adoptionNeedsListing x \<longleftrightarrow> li_PaneID x = []"

definition findAdoption :: "LaunchIdentity \<Rightarrow> Result \<Rightarrow> Pane list \<Rightarrow> procs \<Rightarrow> adoption" where
  "findAdoption x res panes pc =
     (if \<not> adoptionDue x res then \<lparr>ad_Identity = x, ad_Due = False, ad_Pane = PaneNone, ad_Applied = False\<rparr>
      else (let x1 = (if lr_Adopt res then x\<lparr>li_ServerPID := lr_ServerPID res, li_ServerStart := lr_ServerStart res,
                        li_ServerStarttime := KnownStartTime pc (lr_ServerPID res)\<rparr> else x);
                (p, found) = (if adoptionNeedsListing x then PaneByToken panes (li_Token x) else (zeroPane, PaneNone));
                x2 = (if found = PaneOne then x1\<lparr>li_PaneID := pn_ID p, li_PanePID := pn_PID p,
                        li_PaneStarttime := KnownStartTime pc (pn_PID p)\<rparr> else x1)
            in \<lparr>ad_Identity = x2, ad_Due = True, ad_Pane = found, ad_Applied = False\<rparr>))"

record sweepAdoption = adoption +
  sa_Unlisted :: bool
  sa_Listing :: Result
  sa_Guard :: RowSnapshot
  sa_Write :: findMissingWrite
  sa_Left :: bool

definition sweepAdopted :: "adoption \<Rightarrow> RowSnapshot \<Rightarrow> sweepAdoption" where
  "sweepAdopted a guard = \<lparr>ad_Identity = ad_Identity a, ad_Due = ad_Due a, ad_Pane = ad_Pane a, ad_Applied = ad_Applied a,
     sa_Unlisted = False, sa_Listing = zeroLookup, sa_Guard = guard, sa_Write = noWrite, sa_Left = False\<rparr>"

definition adoptWrite :: "missingEnv \<Rightarrow> LiveSpawnIdentity \<Rightarrow> adoption \<Rightarrow> world \<Rightarrow> sweepAdoption \<times> world" where
  "adoptWrite e it a w =
     (let out = sweepAdopted a (it_Snapshot it) in
      if ad_Identity a = it_Identity it then (out, w)
      else (case store_call (me_host e) (\<lambda>s _. AdoptIdentityIfSameLife s (it_InstanceID it) (it_Snapshot it) (ad_Identity a)) w of
          (Inl err, w1) \<Rightarrow> (out\<lparr>sa_Write := failedWrite err, sa_Left := True\<rparr>, w1)
        | (Inr (cr, now), w1) \<Rightarrow>
            if cr \<noteq> CondApplied then (out\<lparr>sa_Write := wrote cr, sa_Left := True\<rparr>, w1)
            else (out\<lparr>sa_Write := wrote cr, ad_Applied := True, sa_Guard := now\<rparr>, w1)))"

text \<open>The start-time reader is read at one moment for both start times.\<close>

definition adoptInSweep :: "missingEnv \<Rightarrow> LiveSpawnIdentity \<Rightarrow> Launch \<Rightarrow> Result \<Rightarrow> Sweep \<Rightarrow> world \<Rightarrow> sweepAdoption \<times> Sweep \<times> world" where
  "adoptInSweep e it launch res sw w =
     (let none = \<lparr>ad_Identity = it_Identity it, ad_Due = False, ad_Pane = PaneNone, ad_Applied = False\<rparr>;
          adopt = (\<lambda>panes sw1 w1. let w2 = tick (me_host e) w1;
                     (out, w3) = adoptWrite e it (findAdoption (it_Identity it) res panes (w_procs w2)) w2 in (out, sw1, w3))
      in if \<not> adoptionDue (it_Identity it) res then (sweepAdopted none (it_Snapshot it), sw, w)
         else if \<not> adoptionNeedsListing (it_Identity it) then adopt [] sw w
         else (case SweepListPanes (me_host e) (me_tmux e) launch sw w of (l, sw1, w1) \<Rightarrow>
             if \<not> pl_Listed l then ((sweepAdopted none (it_Snapshot it))\<lparr>ad_Due := True, sa_Unlisted := True, sa_Listing := pl_Result l\<rparr>, sw1, w1)
             else adopt (pl_Panes l) sw1 w1))"


section \<open>The name-held record\<close>

definition shellQuote :: "string \<Rightarrow> string" where
  "shellQuote s = [CHR 0x27] @ concat (map (\<lambda>c. if c = CHR 0x27 then [CHR 0x27, CHR 0x5C, CHR 0x27, CHR 0x27] else [c]) s) @ [CHR 0x27]"

record heldNameHolder =
  hh_Identified :: bool
  hh_SessionID :: string
  hh_Created :: int
  hh_Class :: LabelClass

definition heldHolderFacts :: "Result \<Rightarrow> heldNameHolder" where
  "heldHolderFacts res =
     (if lr_HolderAmbiguous res then \<lparr>hh_Identified = False, hh_SessionID = [], hh_Created = 0, hh_Class = ClassZero\<rparr>
      else (case lr_Holder res of
          None \<Rightarrow> \<lparr>hh_Identified = False, hh_SessionID = [], hh_Created = 0, hh_Class = ClassZero\<rparr>
        | Some x \<Rightarrow> \<lparr>hh_Identified = True, hh_SessionID = sn_ID x, hh_Created = sn_Created x,
            hh_Class = (if lr_Verdict res \<noteq> CantTell then lr_HolderClass res else ClassZero)\<rparr>))"

record nameHeld =
  nh_Source :: string
  nh_Launch :: string
  nh_InstanceID :: string
  nh_Name :: string
  nh_Socket :: string
  nh_StoreID :: string
  nh_Holder :: heldNameHolder
  nh_LookupOutcome :: string
  nh_Err :: "string option"
  nh_RowResult :: string
  nh_StoreError :: "string option"
  nh_LeftoverCount :: int
  nh_Caller :: caller

definition callerFields :: "caller \<Rightarrow> (string \<times> trail_val) list" where
  "callerFields c = [(''caller_process'', TS (ca_process c)), (''caller_pid'', TI (ca_pid c)), (''caller_hostname'', TS (ca_hostname c)),
     (''caller_user'', TS (ca_user c))]"

definition textOrNull :: "string option \<Rightarrow> trail_val" where
  "textOrNull v = (case v of None \<Rightarrow> TNull | Some x \<Rightarrow> TS x)"

definition carriesThisID :: "LabelClass \<Rightarrow> trail_val \<times> trail_val" where
  "carriesThisID c = (case c of
     ClassCurrent \<Rightarrow> (TB True, TB True)
   | ClassOld \<Rightarrow> (TB True, TB False)
   | ClassZero \<Rightarrow> (TNull, TNull)
   | _ \<Rightarrow> (TB False, TNull))"

definition tmuxByHand :: "string \<Rightarrow> string \<Rightarrow> string \<Rightarrow> string" where
  "tmuxByHand verb socket session = ''tmux -u -S '' @ shellQuote socket @ verb @ shellQuote session"

definition emitNameHeld :: "nameHeld \<Rightarrow> world \<Rightarrow> world" where
  "emitNameHeld r =
     (let h = nh_Holder r; null = (\<lambda>v. if hh_Identified h then v else TNull);
          (carries, current) = (if hh_Identified h then carriesThisID (hh_Class h) else (TNull, TNull))
      in trail_Emit (''ad.launch.name_held'',
        [(''source'', TS (nh_Source r)), (''instance_id'', TS (nh_InstanceID r)), (''launch'', optionalTS (nh_Launch r)),
         (''tmux_session_name'', TS (nh_Name r)), (''tmux_socket'', TS (nh_Socket r)),
         (''tmux_session_id'', null (TS (hh_SessionID h))), (''session_created'', null (TI (hh_Created h))),
         (''store_id'', TS (nh_StoreID r)), (''carries_this_id'', carries), (''current_launch'', current),
         (''lookup_outcome'', TS (nh_LookupOutcome r)), (''outcome'', textOrNull (nh_Err r)), (''row_result'', optionalTS (nh_RowResult r)),
         (''store_error'', textOrNull (nh_StoreError r)),
         (''attach_command'', null (TS (tmuxByHand '' attach-session -r -t '' (nh_Socket r) (hh_SessionID h)))),
         (''end_command'', null (TS (tmuxByHand '' kill-session -t '' (nh_Socket r) (hh_SessionID h))))]
        @ callerFields (nh_Caller r)
        @ (if nh_LeftoverCount r > 0 then [(''leftover_count'', TI (nh_LeftoverCount r))] else [])))"

section \<open>The tmux path\<close>

definition rowLaunch :: "string \<Rightarrow> LaunchIdentity \<Rightarrow> string \<Rightarrow> string \<Rightarrow> Launch" where
  "rowLaunch i x storeID socket = \<lparr>lu_InstanceID = i, lu_Token = li_Token x, lu_StoreID = storeID, lu_Socket = socket,
     lu_ServerPID = li_ServerPID x, lu_ServerStart = li_ServerStart x, lu_ServerStarttime = li_ServerStarttime x\<rparr>"

definition notCalledNote :: "ProcState \<Rightarrow> string" where
  "notCalledNote st = (if st = ProcUnknown then noteProbeEACCES else noteProcessNotSeenTmuxUnchecked)"

definition nameChanged :: "Result \<Rightarrow> string \<Rightarrow> bool" where
  "nameChanged res recordedName \<longleftrightarrow> lr_Verdict res = Ours \<and> sn_Name (lr_Session res) \<notin> set (StoredForms recordedName)"

definition agentOf :: "LiveSpawnIdentity \<Rightarrow> LaunchIdentity \<Rightarrow> ProcIdentity" where
  "agentOf it x = snd (SelectAgentProcess \<lparr>pi_Pid = it_PID it, pi_Start = it_ProcStarttime it\<rparr>
     \<lparr>pi_Pid = li_PanePID x, pi_Start = li_PaneStarttime x\<rparr>)"

definition emitRowNameHeld :: "missingEnv \<Rightarrow> LiveSpawnIdentity \<Rightarrow> findMissingRow \<Rightarrow> world \<Rightarrow> world" where
  "emitRowNameHeld e it row = emitNameHeld
     \<lparr>nh_Source = findMissingTickSource, nh_Launch = [], nh_InstanceID = it_InstanceID it, nh_Name = it_TmuxSessionName it,
      nh_Socket = fm_socket row, nh_StoreID = me_storeID e, nh_Holder = heldHolderFacts (fm_res row),
      nh_LookupOutcome = Token (fm_res row), nh_Err = None,
      nh_RowResult = (if fw_Err (fm_write row) \<noteq> None then ''still_pending''
                      else if fw_Res (fm_write row) = Some CondApplied then ''marked_missing'' else ''left_changed''),
      nh_StoreError = map_option (me_errText e) (fw_Err (fm_write row)), nh_LeftoverCount = 0, nh_Caller = me_caller e\<rparr>"

definition lookupMarkRow :: "missingEnv \<Rightarrow> findMissingRow \<Rightarrow> LiveSpawnIdentity \<Rightarrow> RowSnapshot \<Rightarrow> world \<Rightarrow> findMissingRow \<times> world" where
  "lookupMarkRow e row it guard w =
     (let extra = [(tickLookupOutcome, TS (Token (fm_res row)))] in
      if lr_Holder (fm_res row) = None \<and> \<not> lr_HolderAmbiguous (fm_res row) then markRow e row it guard reasonTmuxAbsent extra w
      else (case markRow e row it guard reasonTmuxNameHeld (extra @ [(tickSessionName, TS (it_TmuxSessionName it))]) w of
          (row1, w1) \<Rightarrow> (row1, emitRowNameHeld e it row1 w1)))"

definition adoptedPaneRow :: "missingEnv \<Rightarrow> findMissingRow \<Rightarrow> LiveSpawnIdentity \<Rightarrow> sweepAdoption \<Rightarrow> world \<Rightarrow> findMissingRow \<times> world" where
  "adoptedPaneRow e row it sa w =
     (let w1 = tick (me_host e) w in case JudgeProcess (w_procs w1) (agentOf it (ad_Identity sa)) of
        ProcAlive \<Rightarrow> aliveRow e row it (sa_Guard sa) (ad_Identity sa) w1
      | ProcGone \<Rightarrow> goneRow e row it (sa_Guard sa) w1
      | ProcUnknown \<Rightarrow> noteRow e row it (sa_Guard sa) noteProbeEACCES w1
      | ProcNone \<Rightarrow> noteRow e row it (sa_Guard sa) noteProcessNotSeenSessionPresent w1)"

definition oursRow :: "missingEnv \<Rightarrow> findMissingRow \<Rightarrow> LiveSpawnIdentity \<Rightarrow> ProcState \<Rightarrow> Launch \<Rightarrow> Sweep \<Rightarrow> world
     \<Rightarrow> findMissingRow \<times> Sweep \<times> world" where
  "oursRow e row it st launch sw w =
     (case adoptInSweep e it launch (fm_res row) sw w of (sa, sw1, w1) \<Rightarrow>
        let row1 = row\<lparr>fm_listing := sa_Listing sa, fm_disagree := fm_disagree row @ (if ad_Applied sa then [ReasonAdopted] else [])\<rparr>
        in if sa_Left sa then (row1\<lparr>fm_write := sa_Write sa\<rparr>, sw1, w1)
           else (let (row2, w2) =
             (if st = ProcUnknown then noteRow e row1 it (sa_Guard sa) noteProbeEACCES w1
              else if \<not> adoptionNeedsListing (it_Identity it) \<or> sa_Unlisted sa \<or> ad_Pane sa = PaneMany
              then noteRow e row1 it (sa_Guard sa) noteProcessNotSeenSessionPresent w1
              else if ad_Pane sa = PaneNone
              then markRow e row1 it (sa_Guard sa) reasonTmuxAbsent [(tickLookupOutcome, TS (Token (fm_res row1)))] w1
              else adoptedPaneRow e row1 it sa w1) in (row2, sw1, w2)))"

text \<open>The run's state: its sweep and the socket of the rows that record none.\<close>

type_synonym missing_run = "Sweep \<times> sweepSockets"

definition judgeLookup :: "missingEnv \<Rightarrow> findMissingRow \<Rightarrow> LiveSpawnIdentity \<Rightarrow> ProcState \<Rightarrow> Launch \<Rightarrow> Sweep \<Rightarrow> world
     \<Rightarrow> findMissingRow \<times> Sweep \<times> world" where
  "judgeLookup e row it st launch sw w =
     (let res = fm_res row; done' = (\<lambda>(r, w1). (r, sw, w1)) in
      if lr_Skipped res then done' (noteRow e row it (it_Snapshot it) (notCalledNote st) w)
      else (let row1 = row\<lparr>fm_disagree := fm_disagree row @ lr_Disagree res\<rparr> in
        case lr_Verdict res of
          Ours \<Rightarrow> oursRow e (row1\<lparr>fm_disagree := fm_disagree row1 @ (if nameChanged res (it_TmuxSessionName it) then [ReasonNameChanged] else [])\<rparr>)
                    it st launch sw w
        | Leftover \<Rightarrow> done' (lookupMarkRow e row1 it (it_Snapshot it) w)
        | Gone \<Rightarrow> done' (lookupMarkRow e row1 it (it_Snapshot it) w)
        | CantTell \<Rightarrow> done' (noteRow e row1 it (it_Snapshot it)
            (if lr_CantTell res = CantTellDifferentServer then noteTmuxServerChanged
             else if lr_CantTell res = CantTellProvenanceConflict then LivenessNoteProvenanceConflict
             else notCalledNote st) w)
        | NoVerdict \<Rightarrow> done' (noteRow e row1 it (it_Snapshot it) (notCalledNote st) w)))"

definition lookupRow :: "missingEnv \<Rightarrow> LiveSpawnIdentity \<Rightarrow> ProcState \<Rightarrow> missing_run \<Rightarrow> world \<Rightarrow> findMissingRow \<times> missing_run \<times> world" where
  "lookupRow e it st run w = (case run of (sw, ss) \<Rightarrow>
     (case forRow (me_host e) (me_tmux e) (li_Socket (it_Identity it)) ss w of
        (Inl res, ss1, w1) \<Rightarrow>
          (case judgeLookup e (zeroRow\<lparr>fm_res := res\<rparr>) it st (rowLaunch [] \<lparr>li_Token = [], li_Socket = [], li_ServerPID = 0, li_ServerStart = 0,
                 li_ServerStarttime = [], li_PaneID = [], li_PanePID = 0, li_PaneStarttime = []\<rparr> [] []) sw w1 of
             (row, sw1, w2) \<Rightarrow> (row, (sw1, ss1), w2))
      | (Inr socket, ss1, w1) \<Rightarrow>
          (let launch = rowLaunch (it_InstanceID it) (it_Identity it) (me_storeID e) socket in
           case SweepLookup (me_host e) (me_tmux e) launch (it_TmuxSessionName it) sw w1 of (res, sw1, w2) \<Rightarrow>
             (case judgeLookup e (zeroRow\<lparr>fm_socket := socket, fm_res := res\<rparr>) it st launch sw1 w2 of
                (row, sw2, w3) \<Rightarrow> (row, (sw2, ss1), w3)))))"

definition judgeLiveRow :: "missingEnv \<Rightarrow> LiveSpawnIdentity \<Rightarrow> missing_run \<Rightarrow> world \<Rightarrow> findMissingRow \<times> missing_run \<times> world" where
  "judgeLiveRow e it run w =
     (let w1 = tick (me_host e) w; st = JudgeProcess (w_procs w1) (agentOf it (it_Identity it)); done' = (\<lambda>(r, w2). (r, run, w2)) in
      case st of
        ProcAlive \<Rightarrow> done' (aliveRow e zeroRow it (it_Snapshot it) (it_Identity it) w1)
      | ProcGone \<Rightarrow> done' (goneRow e zeroRow it (it_Snapshot it) w1)
      | _ \<Rightarrow> (let note = unusableNameNote (Unusable (it_TmuxSessionName it)) in
          if note \<noteq> [] then done' (noteRow e zeroRow it (it_Snapshot it) note w1)
          else lookupRow e it st run w1))"

section \<open>The records of a disagreement\<close>

definition disagreeReasons :: "string list" where
  "disagreeReasons = [ReasonServerRestarted, ReasonServerMismatch, ReasonAdopted, ReasonDuplicateLabel, ReasonScopeValue, ReasonNameChanged]"

definition disagreeEvent :: "caller \<Rightarrow> LiveSpawnIdentity \<Rightarrow> string \<Rightarrow> string \<Rightarrow> Result \<Rightarrow> string \<Rightarrow> trail_event" where
  "disagreeEvent c it socket action from reason = (''ad.provenance.disagree'',
     [(''instance_id'', TS (it_InstanceID it)), (''verb'', TS ''find-missing''), (''reason'', TS reason), (''tmux_socket'', TS socket),
      (''tmux_session_name'', TS (it_TmuxSessionName it)), (''tmux_session_id'', optionalTS (sn_ID (lr_Session from))),
      (''current_session_name'', if reason = ReasonNameChanged then TS (sn_Name (lr_Session from)) else TNull),
      (''server'', TS (if lr_Server from = [] then ServerUnknown else lr_Server from)),
      (''verdict'', TS (if Token from = [] then TokenNotRun else Token from)), (''action'', TS action)]
     @ callerFields c @ [(''source'', TS findMissingTickSource)])"

definition emitDisagree :: "missingEnv \<Rightarrow> LiveSpawnIdentity \<Rightarrow> findMissingRow \<Rightarrow> world \<Rightarrow> world" where
  "emitDisagree e it row w =
     (if fm_disagree row = [] \<and> lr_Disagree (fm_listing row) = [] then w
      else (let socket = (if fm_socket row = [] then li_Socket (it_Identity it) else fm_socket row); action = findMissingAction row
            in fold (\<lambda>reason w. if reason \<in> set (fm_disagree row) then trail_Emit (disagreeEvent (me_caller e) it socket action (fm_res row) reason) w
                  else if reason \<in> set (lr_Disagree (fm_listing row))
                  then trail_Emit (disagreeEvent (me_caller e) it socket action (fm_listing row) reason) w
                  else w) disagreeReasons w))"

section \<open>Transcripts\<close>

text \<open>\<open>filepath.Join\<close> of a rooted first element, with \<open>Clean\<close>.\<close>

definition cleanStep :: "bool \<Rightarrow> string list \<Rightarrow> string \<Rightarrow> string list" where
  "cleanStep rooted st p =
     (if p = [] \<or> p = ''.'' then st
      else if p = ''..'' then (case st of q # qs \<Rightarrow> if q \<noteq> ''..'' then qs else p # st | [] \<Rightarrow> if rooted then [] else [p])
      else p # st)"

definition filepath_Clean :: "string \<Rightarrow> string" where
  "filepath_Clean p =
     (let rooted = (take 1 p = ''/''); parts = rev (foldl (cleanStep rooted) [] (strings_Split (CHR ''/'') p));
          body = (case parts of [] \<Rightarrow> [] | q # qs \<Rightarrow> q @ concat (map (\<lambda>x. CHR ''/'' # x) qs))
      in if rooted then CHR ''/'' # body else if body = [] then ''.'' else body)"

definition filepath_Join :: "string list \<Rightarrow> string" where
  "filepath_Join ps = (case filter (\<lambda>p. p \<noteq> []) ps of [] \<Rightarrow> []
     | q # qs \<Rightarrow> filepath_Clean (q @ concat (map (\<lambda>x. CHR ''/'' # x) qs)))"

definition slugChar :: "char \<Rightarrow> bool" where
  "slugChar c \<longleftrightarrow> (let n = (of_char c :: nat) in 65 \<le> n \<and> n \<le> 90 \<or> 97 \<le> n \<and> n \<le> 122 \<or> 48 \<le> n \<and> n \<le> 57 \<or> c = CHR ''-'')"

text \<open>Go's range over a text goes by rune; a byte that is none is one step.\<close>

function slugifyCwd :: "string \<Rightarrow> string" where
  "slugifyCwd [] = []"
| "slugifyCwd (c # cs) = (if slugChar c then c else CHR ''-'') # slugifyCwd (drop (runeLength (c # cs) - 1) cs)"
  by pat_completeness auto
termination by (relation "measure length") auto

definition ConfigDirUsable :: "string \<Rightarrow> bool" where
  "ConfigDirUsable dir \<longleftrightarrow> take 1 dir = ''/''"

definition JsonlPathIn :: "string \<Rightarrow> string \<Rightarrow> string \<Rightarrow> string option" where
  "JsonlPathIn configDir cwd sessionID =
     (if sessionID = [] \<or> configDir = [] then None
      else Some (filepath_Join [configDir, ''projects'', slugifyCwd cwd, sessionID @ ''.jsonl'']))"

definition JsonlPath :: "string option \<Rightarrow> string \<Rightarrow> string \<Rightarrow> string option" where
  "JsonlPath home cwd sessionID =
     (if sessionID = [] then None else (case home of None \<Rightarrow> None | Some h \<Rightarrow> JsonlPathIn (filepath_Join [h, ''.claude'']) cwd sessionID))"

definition healTranscript :: "missingEnv \<Rightarrow> ProvisionalTranscript \<Rightarrow> world \<Rightarrow> world" where
  "healTranscript e pt w =
     (case (if ConfigDirUsable (pt_ConfigDir pt) then JsonlPathIn (pt_ConfigDir pt) (pt_CWD pt) (pt_SessionID pt)
            else JsonlPath (me_home e) (pt_CWD pt) (pt_SessionID pt)) of
        None \<Rightarrow> w
      | Some path \<Rightarrow> (let w1 = tick (me_host e) w in
          if \<not> me_stat e w1 path then w1
          else snd (store_call (me_host e) (\<lambda>s _. HealJsonlPath s (pt_InstanceID pt) (pt_SessionID pt) path) w1)))"

definition healProvisionalTranscripts :: "missingEnv \<Rightarrow> world \<Rightarrow> world" where
  "healProvisionalTranscripts e w = (case store_read (me_host e) ListProvisionalTranscripts w of
     (Inl _, w1) \<Rightarrow> w1
   | (Inr pts, w1) \<Rightarrow> fold (healTranscript e) pts w1)"

section \<open>The verb\<close>

record FindMissingResult =
  fr_Count :: int
  fr_IDs :: "string list"
  fr_Unverified :: int
  fr_UnverifiedIDs :: "string list"

definition sweepResult :: "string list \<Rightarrow> string list \<Rightarrow> FindMissingResult" where
  "sweepResult missing unverified = \<lparr>fr_Count = int (length missing), fr_IDs = missing, fr_Unverified = int (length unverified),
     fr_UnverifiedIDs = unverified\<rparr>"

text \<open>The rows the sweep leaves: inside the grace period, or held by a live launch owner.\<close>

definition notJudged :: "missingEnv \<Rightarrow> int \<Rightarrow> int \<Rightarrow> LiveSpawnIdentity \<Rightarrow> procs \<Rightarrow> bool" where
  "notJudged e pendingGrace sweepNow it pc \<longleftrightarrow>
     InsidePendingGrace (it_State it) (it_LaunchStartedAtMillis it) (truncated pendingGrace Millisecond) (UnixMilli sweepNow)
     \<or> it_State it = StatePending \<and> LaunchOwnerAlive e pc (it_LaunchOwner it)"

text \<open>The rows in order, with the ids marked and the ids left unverified.\<close>

fun judgeRows :: "missingEnv \<Rightarrow> int \<Rightarrow> int \<Rightarrow> LiveSpawnIdentity list \<Rightarrow> missing_run \<Rightarrow> world
     \<Rightarrow> (string list \<times> string list) \<times> missing_run \<times> world" where
  "judgeRows e grace now [] run w = (([], []), run, w)"
| "judgeRows e grace now (it # its) run w =
     (let w0 = tick (me_host e) w in
      if notJudged e grace now it (w_procs w0) then judgeRows e grace now its run w0
      else (case judgeLiveRow e it run w0 of (row, run1, w1) \<Rightarrow>
        (case judgeRows e grace now its run1 (emitDisagree e it row w1) of ((missing, unverified), run2, w2) \<Rightarrow>
          ((if fw_Listed (fm_write row) then if fm_marked row then (it_InstanceID it # missing, unverified)
               else (missing, it_InstanceID it # unverified)
             else (missing, unverified)), run2, w2))))"

definition FindMissing :: "missingEnv \<Rightarrow> int \<Rightarrow> int \<Rightarrow> world \<Rightarrow> FindMissingResult \<times> store_error option \<times> world" where
  "FindMissing e pendingGrace sweepBudget w =
     (case store_read (me_host e) ListLiveSpawnIdentities w of
        (Inl err, w1) \<Rightarrow> (sweepResult [] [], Some err, w1)
      | (Inr ids, w1) \<Rightarrow> (case clock_now (me_host e) w1 of (sweepNow, w2) \<Rightarrow>
          (case judgeRows e pendingGrace sweepNow (sort_key it_InstanceID ids) (NewSweep sweepBudget, noSockets) w2 of
             ((missing, unverified), _, w3) \<Rightarrow>
               (sweepResult (sort missing) (sort unverified), None, healProvisionalTranscripts e w3))))"

end
