(* ===== verification/Tmux_Laws.thy ===== *)
theory Tmux_Laws
  imports Tmux_Lookup
begin

text \<open>
  What the reading of tmux promises: a label is read exactly as it was written, a listing reads back, and
  a verdict is about the launch's own label on the launch's own server.
\<close>

section \<open>Cuts\<close>

lemma cut_append: "c \<notin> set a \<Longrightarrow> strings_Cut c (a @ c # b) = Some (a, b)"
  by (simp add: strings_Cut_def takeWhile_append dropWhile_append)

lemma cut_Some: "strings_Cut c s = Some (a, b) \<longleftrightarrow> s = a @ c # b \<and> c \<notin> set a"
proof
  assume "strings_Cut c s = Some (a, b)"
  then obtain x where "dropWhile (\<lambda>x. x \<noteq> c) s = x # b" "a = takeWhile (\<lambda>x. x \<noteq> c) s"
    by (cases "dropWhile (\<lambda>x. x \<noteq> c) s") (simp_all add: strings_Cut_def)
  then show "s = a @ c # b \<and> c \<notin> set a" by (auto simp: dropWhile_eq_Cons_conv dest: set_takeWhileD)
qed (auto simp: cut_append)

lemma cut_None: "strings_Cut c s = None \<longleftrightarrow> c \<notin> set s"
proof (cases "strings_Cut c s")
  case None
  then have "dropWhile (\<lambda>x. x \<noteq> c) s = []" by (cases "dropWhile (\<lambda>x. x \<noteq> c) s") (simp_all add: strings_Cut_def)
  with None show ?thesis by (auto simp: dropWhile_eq_Nil_conv)
next
  case (Some x)
  then show ?thesis using cut_Some[of c s "fst x" "snd x"] by auto
qed

lemma cutLast_Some: "cutLast c s = Some (a, b) \<longleftrightarrow> s = a @ c # b \<and> c \<notin> set b"
proof -
  have "cutLast c s = Some (a, b) \<longleftrightarrow> strings_Cut c (rev s) = Some (rev b, rev a)"
    by (auto simp: cutLast_def split: prod.splits)
  also have "\<dots> \<longleftrightarrow> rev s = rev b @ c # rev a \<and> c \<notin> set b" by (simp add: cut_Some)
  also have "rev s = rev b @ c # rev a \<longleftrightarrow> s = a @ c # b"
    using rev_is_rev_conv[of s "a @ c # b"] by simp
  finally show ?thesis .
qed

lemma cutPrefix_Some: "strings_CutPrefix p s = Some r \<longleftrightarrow> s = p @ r"
  by (auto simp: strings_CutPrefix_def) (metis append_take_drop_id)

lemma cutPrefix_append [simp]: "strings_CutPrefix p (p @ r) = Some r"
  by (simp add: cutPrefix_Some)

section \<open>Labels\<close>

lemma hex_no_space: "isLowerHex s \<Longrightarrow> CHR '' '' \<notin> set s"
  by (auto simp: isLowerHex_def list_all_iff lower_hex_def)

lemma id_no_space: "isSessionID s \<Longrightarrow> CHR '' '' \<notin> set s"
  by (auto simp: isSessionID_def isDigits_def list_all_iff digit_def split: list.splits)

definition wellLabelled :: "string \<Rightarrow> string \<Rightarrow> string \<Rightarrow> bool" where
  "wellLabelled token instanceID storeID \<longleftrightarrow> length token = 16 \<and> isLowerHex token \<and> instanceID \<noteq> [] \<and> \<not> hasControlChar instanceID
     \<and> length storeID = 16 \<and> isLowerHex storeID"

lemma classify_written:
  assumes "wellLabelled token i st" and "isSessionID sid"
  shows "classifyLabel (ownerLabel token sid i st) sid = validLabel token i st"
proof -
  have t: "length token = 16" "isLowerHex token" "i \<noteq> []" "\<not> hasControlChar i" "length st = 16" "isLowerHex st"
    using assms(1) by (simp_all add: wellLabelled_def)
  let ?rest = "token @ CHR '' '' # sid @ CHR '' '' # i @ CHR '' '' # st"
  have p: "strings_CutPrefix labelPrefix (ownerLabel token sid i st) = Some ?rest" by (simp add: ownerLabel_def cutPrefix_Some)
  have q: "take 16 ?rest = token" "?rest ! 16 = CHR '' ''" "drop 17 ?rest = sid @ CHR '' '' # i @ CHR '' '' # st" "16 < length ?rest"
    using t(1) by (simp_all add: nth_append)
  have c: "strings_Cut (CHR '' '') (sid @ CHR '' '' # i @ CHR '' '' # st) = Some (sid, i @ CHR '' '' # st)"
    by (rule cut_append[OF id_no_space[OF assms(2)]])
  have l: "cutLast (CHR '' '') (i @ CHR '' '' # st) = Some (i, st)" by (simp add: cutLast_Some hex_no_space[OF t(6)])
  show ?thesis using p q c l t assms(2) by (simp add: classifyLabel_def)
qed

lemma classify_valid:
  assumes "classifyLabel raw sid = validLabel token i st"
  shows "raw = ownerLabel token sid i st" and "wellLabelled token i st" and "isSessionID sid"
proof -
  obtain rest where r: "raw = labelPrefix @ rest" "length rest > 16" "rest ! 16 = CHR '' ''" "isLowerHex (take 16 rest)"
    and r2: "(case strings_Cut (CHR '' '') (drop 17 rest) of
         None \<Rightarrow> noLabel
       | Some (embedded, tail) \<Rightarrow>
           if embedded \<noteq> sid \<or> \<not> isSessionID embedded then noLabel
           else (case cutLast (CHR '' '') tail of
               None \<Rightarrow> noLabel
             | Some (instanceID, storeID) \<Rightarrow>
                 if instanceID = [] \<or> hasControlChar instanceID then noLabel
                 else if length storeID \<noteq> 16 \<or> \<not> isLowerHex storeID then noLabel
                 else validLabel (take 16 rest) instanceID storeID)) = validLabel token i st"
    using assms by (auto simp: classifyLabel_def cutPrefix_Some noLabel_def validLabel_def split: option.splits if_splits)
  obtain tl i' st' where c: "strings_Cut (CHR '' '') (drop 17 rest) = Some (sid, tl)" "isSessionID sid" "cutLast (CHR '' '') tl = Some (i', st')"
    and v: "i' \<noteq> []" "\<not> hasControlChar i'" "length st' = 16" "isLowerHex st'" "validLabel (take 16 rest) i' st' = validLabel token i st"
    using r2 by (auto simp: noLabel_def validLabel_def split: option.splits if_splits prod.splits)
  have eq: "token = take 16 rest" "i' = i" "st' = st" using v(5) by (simp_all add: validLabel_def)
  have "rest = take 16 rest @ rest ! 16 # drop 17 rest" using r(2) id_take_nth_drop[of 16 rest] by simp
  then have "rest = token @ CHR '' '' # sid @ CHR '' '' # i @ CHR '' '' # st" using r(3) c(1,3) eq by (simp add: cut_Some cutLast_Some)
  then show "raw = ownerLabel token sid i st" using r(1) by (simp add: ownerLabel_def)
  show "wellLabelled token i st" using r(2,4) v eq by (simp add: wellLabelled_def)
  show "isSessionID sid" by (rule c(2))
qed

text \<open>
  C35. A label counts exactly when it is the text this program writes on the session it was read from:
  reading gives a token, an instance id and a store id if and only if the value is their label on this very
  session, so no value set at another scope, on another session or by hand in another form is ever read as
  an owner.
\<close>

theorem label_is_read_as_written:
  "classifyLabel raw sessionID = validLabel token instanceID storeID \<longleftrightarrow>
     raw = ownerLabel token sessionID instanceID storeID \<and> wellLabelled token instanceID storeID \<and> isSessionID sessionID"
  using classify_written classify_valid by blast

section \<open>Verdicts\<close>

definition carries :: "Launch \<Rightarrow> Session \<Rightarrow> bool" where
  "carries row x \<longleftrightarrow> sn_Label x = validLabel (lu_Token row) (lu_InstanceID row) (lu_StoreID row)
     \<and> lu_Token row \<noteq> [] \<and> lu_StoreID row \<noteq> [] \<and> lu_InstanceID row \<noteq> [] \<and> \<not> hasControlChar (lu_InstanceID row)"

lemma current_carries: "ClassOf row (sn_Label x) = ClassCurrent \<longleftrightarrow> carries row x"
  by (cases "sn_Label x") (auto simp: ClassOf_def carries_def validLabel_def)

text \<open>Nothing says that the answer comes from another server than the launch's.\<close>

definition serverHolds :: "Launch \<Rightarrow> procs \<Rightarrow> (int \<times> int) option \<Rightarrow> bool" where
  "serverHolds row pc answer \<longleftrightarrow> lu_ServerPID row = 0 \<or> answer = Some (lu_ServerPID row, lu_ServerStart row)
     \<or> JudgeProcess pc \<lparr>pi_Pid = lu_ServerPID row, pi_Start = lu_ServerStarttime row\<rparr> = ProcGone"

lemma checkServer_differs: "sv_differs (checkServer row pc answer) \<longleftrightarrow> \<not> serverHolds row pc answer"
  by (auto simp: checkServer_def serverHolds_def)

lemma classifySessions_verdict:
  assumes "lr_Leftovers r = []"
  shows "lr_Verdict (classifySessions r ss row) = Ours \<Longrightarrow>
      filter (carries row) ss = [lr_Session (classifySessions r ss row)]"
    and "lr_Verdict (classifySessions r ss row) = Gone \<Longrightarrow> filter (carries row) ss = []"
    and "lr_Verdict (classifySessions r ss row) = Leftover \<Longrightarrow> filter (carries row) ss = []"
    and "lr_Verdict (classifySessions r ss row) = CantTell \<Longrightarrow> length (filter (carries row) ss) \<ge> 2"
    and "lr_Verdict (classifySessions r ss row) \<noteq> NoVerdict"
  using assms by (auto simp: classifySessions_def Let_def current_carries split: list.splits if_splits)

lemma Classify_cases:
  obtains (differs) "\<not> serverHolds row pc (Some (an_ServerPID ans, an_ServerStart ans))" "lr_Verdict (Classify ans pc row name) = CantTell"
      "lr_CantTell (Classify ans pc row name) = CantTellDifferentServer"
  | (scope) "an_ScopeValue ans" "lr_Verdict (Classify ans pc row name) = CantTell"
      "lr_CantTell (Classify ans pc row name) = CantTellProvenanceConflict"
  | (labels) r where "serverHolds row pc (Some (an_ServerPID ans, an_ServerStart ans))" "\<not> an_ScopeValue ans" "lr_Leftovers r = []"
      "Classify ans pc row name = classifySessions r (an_Sessions ans) row"
proof (cases "serverHolds row pc (Some (an_ServerPID ans, an_ServerStart ans))")
  case False
  then show thesis by (intro differs) (simp_all add: Classify_def Let_def checkServer_differs case_prod_beta)
next
  case True
  show thesis
  proof (cases "an_ScopeValue ans")
    case True
    then show thesis
      using \<open>serverHolds row pc _\<close> by (intro scope) (simp_all add: Classify_def Let_def checkServer_differs case_prod_beta)
  next
    case False
    have "\<exists>r. lr_Leftovers r = [] \<and> Classify ans pc row name = classifySessions r (an_Sessions ans) row"
      using True False by (simp add: Classify_def Let_def checkServer_differs case_prod_beta zeroLookup_def) (metis Result.select_convs(4))
    then show thesis using labels True False by blast
  qed
qed

lemma verdict_is_about_own_launch:
  assumes "r = Classify ans pc row name"
  shows "lr_Verdict r = Ours \<Longrightarrow> filter (carries row) (an_Sessions ans) = [lr_Session r]"
    and "lr_Verdict r = Gone \<or> lr_Verdict r = Leftover \<Longrightarrow> filter (carries row) (an_Sessions ans) = []"
    and "lr_Verdict r \<noteq> CantTell \<Longrightarrow> serverHolds row pc (Some (an_ServerPID ans, an_ServerStart ans)) \<and> \<not> an_ScopeValue ans"
  using assms by (cases rule: Classify_cases[of row pc ans name]; force dest: classifySessions_verdict)+

text \<open>
  C34. A verdict on a row is about its own launch, on its own server: Ours names the one listed session that
  carries this store's id, the row's id and its launch token; Gone and Leftover are given only when no listed
  session carries them, no value outside a session can have shadowed a label, and the answering server is the
  launch's, or the launch's server process is proven gone, or none was recorded.
\<close>

theorem verdict_names_own_launch:
  assumes "Classify ans pc row name = r" and "lr_Verdict r \<noteq> CantTell"
  shows "filter (carries row) (an_Sessions ans) = (if lr_Verdict r = Ours then [lr_Session r] else [])
     \<and> \<not> an_ScopeValue ans
     \<and> (lu_ServerPID row = 0 \<or> (an_ServerPID ans, an_ServerStart ans) = (lu_ServerPID row, lu_ServerStart row)
        \<or> JudgeProcess pc \<lparr>pi_Pid = lu_ServerPID row, pi_Start = lu_ServerStarttime row\<rparr> = ProcGone)"
proof -
  have "lr_Verdict r \<noteq> NoVerdict"
    using assms by (cases rule: Classify_cases[of row pc ans name]) (auto dest: classifySessions_verdict(5))
  then consider "lr_Verdict r = Ours" | "lr_Verdict r = Gone \<or> lr_Verdict r = Leftover" using assms(2) by (cases "lr_Verdict r") auto
  then show ?thesis
    using verdict_is_about_own_launch[OF assms(1)[symmetric]] assms(2) by cases (auto simp: serverHolds_def)
qed

definition sample_launch :: Launch where
  "sample_launch = \<lparr>lu_InstanceID = ''a'', lu_Token = ''aaaabbbbccccdddd'', lu_StoreID = ''0123456789abcdef'', lu_Socket = ''/tmp/s'',
     lu_ServerPID = 9, lu_ServerStart = 100, lu_ServerStarttime = ''s0''\<rparr>"

definition sample_session :: Session where
  "sample_session = \<lparr>sn_ID = ''$1'', sn_Created = 100, sn_Name = ''agent'', sn_Label = validLabel ''aaaabbbbccccdddd'' ''a'' ''0123456789abcdef''\<rparr>"

definition sample_answer :: LookupAnswer where
  "sample_answer = \<lparr>an_Sessions = [sample_session\<lparr>sn_ID := ''$0'', sn_Label := noLabel\<rparr>, sample_session], an_ServerPID = 9, an_ServerStart = 100,
     an_ScopeValue = False\<rparr>"

theorem verdict_names_own_launch_witness:
  "filter (carries sample_launch) (an_Sessions sample_answer) = [lr_Session (Classify sample_answer (\<lambda>_. ([], False, True)) sample_launch [])]"
proof -
  have "lr_Verdict (Classify sample_answer (\<lambda>_. ([], False, True)) sample_launch []) = Ours"
    by (simp add: Classify_def checkServer_def sample_answer_def sample_launch_def matchHolder_def classifySessions_def
        ClassOf_def sample_session_def noLabel_def validLabel_def hasControlChar_def Let_def)
  with verdict_names_own_launch[OF refl, of sample_answer "\<lambda>_. ([], False, True)" sample_launch "[]"] show ?thesis by simp
qed

section \<open>A listing reads back\<close>

fun decimalDigits :: "nat \<Rightarrow> string" where
  "decimalDigits n = (if n < 10 then [char_of (48 + n)] else decimalDigits (n div 10) @ [char_of (48 + n mod 10)])"

declare decimalDigits.simps [simp del]

lemma digit_char: "n < 10 \<Longrightarrow> digit (char_of (48 + n)) \<and> (of_char (char_of (48 + n) :: char) :: int) = 48 + int n"
proof -
  assume n: "n < 10"
  then have "(of_char (char_of (48 + n) :: char) :: nat) = 48 + n" by simp
  moreover from this have "(of_char (char_of (48 + n) :: char) :: int) = int (48 + n)"
    by (metis of_nat_of_char)
  ultimately show ?thesis using n by (simp add: digit_def)
qed

lemma decimalDigits_digits: "isDigits (decimalDigits n)"
proof (induction n rule: decimalDigits.induct)
  case (1 n)
  then show ?case
    using digit_char[of n] digit_char[of "n mod 10"] by (subst decimalDigits.simps) (auto simp: isDigits_def)
qed

lemma decimalDigits_value: "decimalValue (decimalDigits n) = int n"
proof (induction n rule: decimalDigits.induct)
  case (1 n)
  show ?case
  proof (cases "n < 10")
    case True
    then show ?thesis using digit_char[of n] by (subst decimalDigits.simps) (simp add: decimalValue_def)
  next
    case False
    have "int n = 10 * int (n div 10) + int (n mod 10)" by (metis mult_div_mod_eq of_nat_add of_nat_mult of_nat_numeral)
    moreover have "decimalValue (decimalDigits (n div 10)) = int (n div 10)" using False by (rule 1)
    ultimately show ?thesis
      using False digit_char[of "n mod 10"] by (subst decimalDigits.simps) (simp add: decimalValue_def)
  qed
qed

lemma parse_decimal: "n < 2 ^ 63 \<Longrightarrow> parseDecimal64 (decimalDigits n) = Some (int n)"
proof -
  assume "n < 2 ^ 63"
  then have "int n < 2 ^ 63" by (metis of_nat_less_iff of_nat_numeral of_nat_power)
  then show ?thesis by (simp add: parseDecimal64_def decimalDigits_digits decimalDigits_value)
qed

lemma digits_plain: "isDigits s \<Longrightarrow> tab \<notin> set s \<and> newline \<notin> set s"
  by (auto simp: isDigits_def list_all_iff digit_def)

lemma session_plain: "isSessionID s \<Longrightarrow> tab \<notin> set s \<and> newline \<notin> set s"
  using digits_plain by (auto simp: isSessionID_def split: list.splits)

record listedSession =
  ls_ID :: string
  ls_Created :: nat
  ls_Name :: string
  ls_Owner :: string

definition sessionLine :: "nat \<Rightarrow> nat \<Rightarrow> listedSession \<Rightarrow> string" where
  "sessionLine pid start x =
     tabbed [ls_ID x, decimalDigits (ls_Created x), decimalDigits pid, decimalDigits start, ls_Name x, ls_Owner x]"

definition listingText :: "nat \<Rightarrow> nat \<Rightarrow> listedSession list \<Rightarrow> string list \<Rightarrow> string" where
  "listingText pid start xs scope =
     concat (map (\<lambda>l. l @ [newline]) (tabbed [identityPrefix, decimalDigits pid, decimalDigits start] # map (sessionLine pid start) xs @ scope))"

definition printable :: "listedSession \<Rightarrow> bool" where
  "printable x \<longleftrightarrow> isSessionID (ls_ID x) \<and> ls_Created x < 2 ^ 63 \<and> tab \<notin> set (ls_Name x) \<and> newline \<notin> set (ls_Name x)
     \<and> newline \<notin> set (ls_Owner x)"

definition asSession :: "listedSession \<Rightarrow> Session" where
  "asSession x = \<lparr>sn_ID = ls_ID x, sn_Created = int (ls_Created x), sn_Name = ls_Name x, sn_Label = classifyLabel (ls_Owner x) (ls_ID x)\<rparr>"

lemma split_cut: "c \<notin> set a \<Longrightarrow> strings_Split c (a @ c # b) = a # strings_Split c b"
  by (induction a) auto

lemma split_none: "c \<notin> set a \<Longrightarrow> strings_Split c a = [a]"
  by (induction a) auto

lemma split_lines:
  "list_all (\<lambda>l. newline \<notin> set l) ls \<Longrightarrow> strings_Split newline (concat (map (\<lambda>l. l @ [newline]) ls)) = ls @ [[]]"
  by (induction ls) (simp_all add: split_cut)

lemma identity_reads:
  assumes "pid < 2 ^ 63" and "start < 2 ^ 63"
  shows "parseIdentityLine (tabbed [identityPrefix, decimalDigits pid, decimalDigits start]) = Some (int pid, int start)"
proof -
  have "strings_Split tab (tabbed [identityPrefix, decimalDigits pid, decimalDigits start]) = [identityPrefix, decimalDigits pid, decimalDigits start]"
    using split_cut[of tab identityPrefix] digits_plain[OF decimalDigits_digits]
    by (simp add: tabbed_def split_cut[of tab "decimalDigits pid"] split_none)
  then show ?thesis using assms by (simp add: parseIdentityLine_def parseDecimalInt_def parse_decimal)
qed

lemma cuts_step: "c \<notin> set a \<Longrightarrow> splitCuts (Suc n) c (a @ c # b) = a # splitCuts n c b"
  by (simp add: cut_append)

lemma session_reads:
  assumes "printable x" and "pid < 2 ^ 63" and "start < 2 ^ 63"
  shows "isSessionShaped (sessionLine pid start x)" and "parseSessionLine (sessionLine pid start x) = Some (asSession x, int pid, int start)"
    and "newline \<notin> set (sessionLine pid start x)"
proof -
  note d = digits_plain[OF decimalDigits_digits] and s = session_plain
  have p: "isSessionID (ls_ID x)" "ls_Created x < 2 ^ 63" "tab \<notin> set (ls_Name x)" "newline \<notin> set (ls_Name x)" "newline \<notin> set (ls_Owner x)"
    using assms(1) by (simp_all add: printable_def)
  have line: "sessionLine pid start x = ls_ID x @ tab # decimalDigits (ls_Created x) @ tab # decimalDigits pid @ tab # decimalDigits start
      @ tab # ls_Name x @ tab # ls_Owner x"
    by (simp add: sessionLine_def tabbed_def)
  have five: "(5 :: nat) = Suc (Suc (Suc (Suc (Suc 0))))" by simp
  have "splitCuts 5 tab (sessionLine pid start x)
      = [ls_ID x, decimalDigits (ls_Created x), decimalDigits pid, decimalDigits start, ls_Name x, ls_Owner x]"
    unfolding line five using d s[OF p(1)] p(3) by (simp add: cuts_step del: splitCuts.simps(2)) 
  then show "parseSessionLine (sessionLine pid start x) = Some (asSession x, int pid, int start)"
    using p(2) assms(2,3) by (simp add: parseSessionLine_def parseDecimalInt_def parse_decimal asSession_def)
  show "isSessionShaped (sessionLine pid start x)"
    unfolding line using s[OF p(1)] p(1) by (simp add: isSessionShaped_def cut_append)
  show "newline \<notin> set (sessionLine pid start x)" unfolding line using d s[OF p(1)] p(4,5) by simp
qed

lemma sessions_read:
  assumes "list_all printable xs" and "pid < 2 ^ 63" and "start < 2 ^ 63" and "rest \<noteq> [] \<Longrightarrow> \<not> isSessionShaped (hd rest)"
  shows "parseSessions (int pid) (int start) (map (sessionLine pid start) xs @ rest) = Inr (map asSession xs, rest)"
  using assms(1)
proof (induction xs)
  case Nil
  then show ?case using assms(4) by (cases rest) simp_all
next
  case (Cons x xs)
  then show ?case using session_reads(1,2)[OF _ assms(2,3), of x] by simp
qed

lemma scope_reads: "list_all (\<lambda>l. \<not> isSessionShaped l) ls \<Longrightarrow> parseScope ls = Inr (list_ex (\<lambda>l. l \<noteq> []) ls)"
  by (induction ls) auto

text \<open>
  C36. A listing reads back: from the text tmux prints for a server and its sessions, with whatever
  @ad_owner values there are at the global scopes, the answer has exactly these sessions in order, each with
  its label as read on its own line, the server's identity, and whether a scope value exists.
\<close>

theorem listing_reads_back:
  assumes "list_all printable xs" and "pid < 2 ^ 63" and "start < 2 ^ 63"
    and "list_all (\<lambda>l. \<not> isSessionShaped l \<and> newline \<notin> set l) scope"
  shows "parseLookup (listingText pid start xs scope) = Inr \<lparr>an_Sessions = map asSession xs, an_ServerPID = int pid,
     an_ServerStart = int start, an_ScopeValue = list_ex (\<lambda>l. l \<noteq> []) scope\<rparr>"
proof -
  let ?id = "tabbed [identityPrefix, decimalDigits pid, decimalDigits start]"
  have plain: "newline \<notin> set ?id" using digits_plain[OF decimalDigits_digits] by (simp add: tabbed_def)
  have "strings_Split newline (listingText pid start xs scope) = (?id # map (sessionLine pid start) xs @ scope) @ [[]]"
    unfolding listingText_def
    by (rule split_lines) (use plain session_reads(3)[OF _ assms(2,3)] assms(1,4) in \<open>auto simp: list_all_iff\<close>)
  moreover have "\<not> isSessionShaped []" by (simp add: isSessionShaped_def strings_Cut_def)
  moreover have "list_all (\<lambda>l. \<not> isSessionShaped l) (scope @ [[]])" using assms(4) calculation(2) by (auto simp: list_all_iff)
  moreover from this have "\<not> isSessionShaped (hd (scope @ [[]]))" by (cases scope) simp_all
  ultimately show ?thesis
    using sessions_read[OF assms(1-3), of "scope @ [[]]"] by (simp add: parseLookup_def identity_reads[OF assms(2,3)] scope_reads)
qed

definition sample_listed :: listedSession where
  "sample_listed = \<lparr>ls_ID = ''$1'', ls_Created = 100, ls_Name = ''agent'', ls_Owner = ownerLabel ''aaaabbbbccccdddd'' ''$1'' ''a'' ''0123456789abcdef''\<rparr>"

theorem listing_reads_back_witness:
  "parseLookup (listingText 9 100 [sample_listed] [[], [], []]) = Inr \<lparr>an_Sessions = [asSession sample_listed], an_ServerPID = 9,
     an_ServerStart = 100, an_ScopeValue = False\<rparr>"
proof -
  have "list_all printable [sample_listed]"
    by (simp add: printable_def sample_listed_def isSessionID_def isDigits_def digit_def ownerLabel_def)
  from listing_reads_back[OF this, of 9 100 "[[], [], []]"] show ?thesis
    by (simp add: isSessionShaped_def strings_Cut_def)
qed

end
