(* ===== verification/Missing_Laws.thy ===== *)
theory Missing_Laws
  imports Missing_Run Tmux_Laws
begin

text \<open>
  The laws of find-missing: its run makes only writes the store allows, asks tmux at most once per socket and
  within its budget, and marks only agents that are gone.
\<close>

section \<open>What a verb does to the world\<close>

text \<open>
  A relation between two moments of a world. \<open>quiet_actions\<close> asks that time and the trail keep it,
  \<open>note_actions\<close> that the notes and the adoption do, \<open>verb_actions\<close> that every store call that honours the
  store's guarantee does; the verb's operations are followed once, for every such relation.
\<close>

locale quiet_actions =
  fixes h :: host and R :: "world \<Rightarrow> world \<Rightarrow> bool"
  assumes R_refl: "R w w" and R_trans: "R a b \<Longrightarrow> R b c \<Longrightarrow> R a c"
    and R_tick: "R w (tick h w)" and R_emit: "R w (trail_Emit ev w)"
begin

lemma R_ticks: "R a b \<Longrightarrow> R a (tick h b)"
  by (rule R_trans[OF _ R_tick])

lemma R_from_tick: "R (tick h a) b \<Longrightarrow> R a b"
  by (rule R_trans[OF R_tick])

lemma R_emits: "R a b \<Longrightarrow> R a (trail_Emit ev b)"
  by (rule R_trans[OF _ R_emit])

lemma R_fold:
  assumes "\<And>x v. R v (f x v)"
  shows "R a b \<Longrightarrow> R a (fold f xs b)"
  by (induction xs arbitrary: b) (auto intro: R_trans[OF _ assms])

lemma R_store_read: "store_read h q w = (res, w') \<Longrightarrow> R w w'"
  by (auto simp: store_read_def Let_def R_tick)

lemma R_clock_now: "clock_now h w = (t, w') \<Longrightarrow> R w w'"
  by (auto simp: clock_now_def Let_def R_tick)

lemma R_timed: "timed h te call x sw w = (out, sw', w') \<Longrightarrow> R w w'"
  by (auto simp: timed_def Let_def tmuxRun_def clock_now_def intro!: R_ticks R_refl)

lemma R_sweep:
  "SweepLookup h te row name sw w = (r, sw', w') \<Longrightarrow> R w w'" "SweepListPanes h te row sw w = (l, sw', w') \<Longrightarrow> R w w'"
  by (auto simp: SweepLookup_def SweepListPanes_def heldAnswer_def heldPanes_def Let_def R_refl dest: R_timed
      split: if_splits prod.splits option.splits sum.splits)

lemma R_forRow: "forRow h te x ss w = (r, ss', w') \<Longrightarrow> R w w'"
  by (auto simp: forRow_def Let_def R_refl R_tick split: if_splits prod.splits option.splits)

lemma R_emitMarkTick: "R a b \<Longrightarrow> R a (emitMarkTick i p n reason extra b)"
  by (simp add: emitMarkTick_def Let_def R_emits)

lemma R_emitNoteTick: "R a b \<Longrightarrow> R a (emitNoteTick i p n b)"
  by (simp add: emitNoteTick_def R_emits split: option.splits)

lemma R_emitNameHeld: "R a b \<Longrightarrow> R a (emitNameHeld r b)"
  by (simp add: emitNameHeld_def Let_def case_prod_beta R_emits)

lemma R_emitDisagree: "R a b \<Longrightarrow> R a (emitDisagree e it row b)"
  by (auto simp: emitDisagree_def Let_def intro!: R_fold R_emit intro: R_refl)

end

locale note_actions = quiet_actions +
  assumes R_unreported: "store_call h (\<lambda>s _. NoteUnreportedIfSameLife s i examined) w = (res, w') \<Longrightarrow> R w w'"
    and R_note: "store_call h (\<lambda>s _. SetLivenessNoteIfSameLife s i examined note) w = (res, w') \<Longrightarrow> R w w'"
    and R_clear: "store_call h (\<lambda>s _. ClearLivenessIfSameLife s i examined) w = (res, w') \<Longrightarrow> R w w'"
    and R_adopt: "store_call h (\<lambda>s _. AdoptIdentityIfSameLife s i examined x) w = (res', w') \<Longrightarrow> R w w'"
begin

lemma R_note_writes:
  "writeUnreportedNote h i examined readNote w = (fw, w') \<Longrightarrow> R w w'"
  "writeLivenessNote h i examined readNote note w = (fw, w') \<Longrightarrow> R w w'"
  "clearLivenessNote h i examined readNote w = (fw, w') \<Longrightarrow> R w w'"
  by (auto simp: writeUnreportedNote_def writeLivenessNote_def clearLivenessNote_def R_refl intro!: R_emitNoteTick
      intro: R_unreported R_note R_clear split: if_splits prod.splits sum.splits)

lemma R_note_rows:
  assumes [simp]: "me_host e = h"
  shows "clearRow e row it guard w = (row1, w') \<Longrightarrow> R w w'" "aliveRow e row it guard x w = (row1, w') \<Longrightarrow> R w w'"
    "noteRow e row it guard note w = (row1, w') \<Longrightarrow> R w w'"
  by (auto simp: clearRow_def aliveRow_def unreportedRow_def noteRow_def R_refl dest: R_note_writes split: if_splits prod.splits)

lemma R_adoptWrite:
  assumes [simp]: "me_host e = h" and "adoptWrite e it a w = (sa, w')"
  shows "R w w'"
  using assms(2) by (auto simp: adoptWrite_def Let_def R_refl intro: R_adopt split: if_splits prod.splits sum.splits)

lemma R_adoptInSweep:
  assumes e [simp]: "me_host e = h" and "adoptInSweep e it launch res sw w = (sa, sw', w')"
  shows "R w w'"
  using assms(2)
  by (auto simp: adoptInSweep_def Let_def R_refl dest!: R_adoptWrite[OF e] R_sweep(2) intro: R_trans R_from_tick split: if_splits prod.splits)

end

locale verb_actions = quiet_actions +
  assumes R_write: "(others_honour store_guarantee (h_store h n) \<Longrightarrow> store_guarantee (w_db w) d) \<Longrightarrow> R w (w\<lparr>w_db := d\<rparr>)"
begin

lemma R_store_call:
  assumes "\<And>s. others_honour store_guarantee s \<Longrightarrow> honours store_guarantee (m s)" and "store_call h (\<lambda>s _. m s) w = (res, w')"
  shows "R w w'"
proof -
  let ?w = "tick h w" and ?s = "h_store h (w_tick (tick h w))"
  have "R ?w (?w\<lparr>w_db := snd (m ?s (w_db ?w))\<rparr>)" using assms(1) by (intro R_write) (auto simp: honours_def)
  moreover have "w' = ?w\<lparr>w_db := snd (m ?s (w_db ?w))\<rparr>" using assms(2) by (auto simp: store_call_def Let_def split: prod.splits)
  ultimately show ?thesis using R_trans[OF R_tick] by simp
qed

end

sublocale verb_actions \<subseteq> note_actions
  by unfold_locales (auto intro: R_store_call[OF honours_life_writes(11)] R_store_call[OF honours_life_writes(12)]
      R_store_call[OF honours_life_writes(13)] R_store_call[OF honours_life_writes(14)])

context verb_actions
begin

lemma R_mark_writes:
  "markMissingSameLife h i examined reason extra w = (fw, w') \<Longrightarrow> R w w'"
  "markEndedSameLife h i examined reason extra w = (fw, w') \<Longrightarrow> R w w'"
  by (auto simp: markMissingSameLife_def markEndedSameLife_def intro!: R_emitMarkTick intro: R_store_call[OF honours_life_writes(9)]
      R_store_call[OF honours_life_writes(10)] split: if_splits prod.splits sum.splits)

lemma R_rows:
  assumes e [simp]: "me_host e = h"
  shows "clearRow e row it guard w = (row1, w') \<Longrightarrow> R w w'" "aliveRow e row it guard x w = (row1, w') \<Longrightarrow> R w w'"
    "markRow e row it guard reason extra w = (row1, w') \<Longrightarrow> R w w'" "goneRow e row it guard w = (row1, w') \<Longrightarrow> R w w'"
    "noteRow e row it guard note w = (row1, w') \<Longrightarrow> R w w'" "lookupMarkRow e row it guard w = (row1, w') \<Longrightarrow> R w w'"
  by (rule R_note_rows[OF e], assumption)
    (auto simp: markRow_def goneRow_def lookupMarkRow_def emitRowNameHeld_def Let_def intro!: R_emitNameHeld dest: R_mark_writes R_note_rows[OF e]
      split: if_splits prod.splits)

lemma R_oursRow:
  assumes e [simp]: "me_host e = h" and "oursRow e row it st launch sw w = (row', sw', w')"
  shows "R w w'"
proof -
  obtain sa sw1 w1 where a: "adoptInSweep e it launch (fm_res row) sw w = (sa, sw1, w1)" by (metis prod.collapse)
  have "R w1 w'"
    using assms(2) a by (auto simp: oursRow_def adoptedPaneRow_def Let_def R_refl dest: R_rows[OF e] R_from_tick
        split: if_splits prod.splits ProcState.splits)
  with R_adoptInSweep[OF assms(1) a] show ?thesis by (rule R_trans)
qed

lemma R_judgeLookup:
  assumes e [simp]: "me_host e = h" and "judgeLookup e row it st launch sw w = (row', sw', w')"
  shows "R w w'"
  using assms(2)
  by (cases "lr_Verdict (fm_res row)")
    (auto simp: judgeLookup_def Let_def dest: R_rows[OF e] R_oursRow[OF e] split: if_splits prod.splits)

lemma R_lookupRow:
  assumes e [simp]: "me_host e = h" and "lookupRow e it st run w = (row, run', w')"
  shows "R w w'"
proof -
  obtain sw ss where run: "run = (sw, ss)" by (cases run)
  obtain r ss1 w1 where f: "forRow h (me_tmux e) (li_Socket (it_Identity it)) ss w = (r, ss1, w1)" by (metis prod.collapse)
  have "R w1 w'"
    using assms(2) f run by (auto simp: lookupRow_def Let_def dest!: R_judgeLookup[OF e] R_sweep(1) intro: R_trans
        split: prod.splits sum.splits)
  with R_forRow[OF f] show ?thesis by (rule R_trans)
qed

lemma R_judgeLiveRow:
  assumes e [simp]: "me_host e = h" and "judgeLiveRow e it run w = (row, run', w')"
  shows "R w w'"
proof -
  have "R (tick h w) w'"
    using assms(2) by (auto simp: judgeLiveRow_def Let_def dest: R_rows[OF e] R_lookupRow[OF e] split: if_splits prod.splits ProcState.splits)
  with R_tick show ?thesis by (rule R_trans)
qed

lemma R_judgeRows:
  assumes e [simp]: "me_host e = h"
  shows "judgeRows e grace now its run w = (ids, run', w') \<Longrightarrow> R w w'"
proof (induction its arbitrary: run w ids run' w')
  case (Cons it its)
  obtain row run1 w1 where j: "judgeLiveRow e it run (tick h w) = (row, run1, w1)" by (metis prod.collapse)
  have row: "R w (emitDisagree e it row w1)"
    using R_emitDisagree[OF R_trans[OF R_tick R_judgeLiveRow[OF e j]]] .
  show ?case
    using Cons.prems j row by (auto simp: Let_def dest!: Cons.IH intro: R_trans R_from_tick split: if_splits prod.splits)
qed (simp add: R_refl)

lemma R_heal:
  assumes [simp]: "me_host e = h"
  shows "R w (healTranscript e pt w)"
proof -
  have "R v (snd (store_call h (\<lambda>s _. HealJsonlPath s i sid path) v))" for v i sid path
    by (rule R_store_call[where m = "\<lambda>s. HealJsonlPath s i sid path"]) (auto intro: honours_from_keeps lives.keeps_HealJsonlPath prod.collapse[symmetric])
  then show ?thesis by (auto simp: healTranscript_def Let_def R_refl R_tick intro: R_from_tick split: option.splits)
qed

lemma R_healProvisionalTranscripts:
  assumes e [simp]: "me_host e = h"
  shows "R w (healProvisionalTranscripts e w)"
  by (auto simp: healProvisionalTranscripts_def intro: R_fold[OF R_heal[OF e]] dest!: R_store_read split: prod.splits sum.splits)

lemma R_FindMissing:
  assumes e [simp]: "me_host e = h" and "FindMissing e grace budget w = (res, err, w')"
  shows "R w w'"
  using assms(2)
  by (auto simp: FindMissing_def dest!: R_store_read R_clock_now R_judgeRows[OF e]
      intro!: R_trans[OF _ R_healProvisionalTranscripts[OF e]] intro: R_trans split: prod.splits sum.splits)

end

interpretation honest: verb_actions h "\<lambda>w w'. host_honest h \<longrightarrow> progress w w'"
  by unfold_locales (auto intro: progress_trans progress_tick progress_emit simp: host_honest_def progress_def[of _ "_\<lparr>w_db := _\<rparr>"])

section \<open>The sweep of a run\<close>

abbreviation sweeps :: "missingEnv \<Rightarrow> Sweep \<Rightarrow> Sweep \<Rightarrow> bool" where
  "sweeps e \<equiv> (sweep_step (me_host e) (me_tmux e))\<^sup>*\<^sup>*"

lemma SweepLookup_swept: "SweepLookup (me_host e) (me_tmux e) row name sw w = (r, sw', w') \<Longrightarrow> sweeps e sw sw'"
  by (rule r_into_rtranclp) (rule sweep_step.lookup)

lemma SweepListPanes_swept: "SweepListPanes (me_host e) (me_tmux e) row sw w = (l, sw', w') \<Longrightarrow> sweeps e sw sw'"
  by (rule r_into_rtranclp) (rule sweep_step.listing)

lemma adoptInSweep_swept: "adoptInSweep e it launch res sw w = (sa, sw', w') \<Longrightarrow> sweeps e sw sw'"
  by (auto simp: adoptInSweep_def Let_def dest!: SweepListPanes_swept split: if_splits prod.splits)

lemma oursRow_swept: "oursRow e row it st launch sw w = (row', sw', w') \<Longrightarrow> sweeps e sw sw'"
  by (auto simp: oursRow_def Let_def dest!: adoptInSweep_swept split: if_splits prod.splits)

lemma judgeLookup_swept: "judgeLookup e row it st launch sw w = (row', sw', w') \<Longrightarrow> sweeps e sw sw'"
  by (cases "lr_Verdict (fm_res row)") (auto simp: judgeLookup_def Let_def dest: oursRow_swept split: if_splits prod.splits)

lemma lookupRow_swept: "lookupRow e it st (sw, ss) w = (row, (sw', ss'), w') \<Longrightarrow> sweeps e sw sw'"
  by (auto simp: lookupRow_def Let_def dest!: judgeLookup_swept SweepLookup_swept split: prod.splits sum.splits)

lemma judgeLiveRow_swept: "judgeLiveRow e it (sw, ss) w = (row, (sw', ss'), w') \<Longrightarrow> sweeps e sw sw'"
  by (auto simp: judgeLiveRow_def Let_def dest: lookupRow_swept split: if_splits prod.splits ProcState.splits)

lemma judgeRows_swept: "judgeRows e grace now its (sw, ss) w = (ids, (sw', ss'), w') \<Longrightarrow> sweeps e sw sw'"
proof (induction its arbitrary: sw ss w ids)
  case (Cons it its)
  obtain row sw1 ss1 w1 where j: "judgeLiveRow e it (sw, ss) (tick (me_host e) w) = (row, (sw1, ss1), w1)" by (metis prod.collapse)
  show ?case
    using Cons.prems j judgeLiveRow_swept[OF j]
    by (auto simp: Let_def dest!: Cons.IH intro: rtranclp_trans split: if_splits prod.splits)
qed simp

section \<open>What tmux is asked\<close>

lemma sweep_open_only:
  assumes "sw_budget sw \<le> sw_spent sw \<or> sk_stopped (socketOf sw (lu_Socket row))"
  shows "SweepLookup h te row name sw w = (skipped, sw, w)" and "\<exists>l. SweepListPanes h te row sw w = (l, sw, w) \<and> pl_Result l = skipped"
  using assms by (auto simp: SweepLookup_def SweepListPanes_def sweepOpen_def Let_def)

text \<open>
  C39. A sweep asks tmux sparingly: over the whole run each socket is asked at most once for its sessions and
  at most once for its panes, the time spent exceeds the budget by less than one call (and no call is made on
  an empty budget), and once the budget is spent, or on a socket that stopped, every further row is skipped
  with no call.
\<close>

theorem sweep_asks_tmux_within_budget:
  assumes "judgeRows e grace now its (NewSweep budget, noSockets) w = (ids, (sw, ss), w')"
    and "calls_take (me_host e) m" and "0 \<le> m" and "budget + m < 2 ^ 63"
  shows "distinct (asked sw) \<and> sw_spent sw < max 1 (budget + m) \<and> (budget \<le> 0 \<longrightarrow> asked sw = [])
     \<and> (sw_budget sw \<le> sw_spent sw \<or> sk_stopped (socketOf sw (lu_Socket row)) \<longrightarrow>
          SweepLookup (me_host e) (me_tmux e) row name sw v = (skipped, sw, v)
        \<and> (\<exists>l. SweepListPanes (me_host e) (me_tmux e) row sw v = (l, sw, v) \<and> pl_Result l = skipped))"
proof -
  have run: "(sweep_step (me_host e) (me_tmux e))\<^sup>*\<^sup>* (NewSweep budget) sw"
    using judgeRows_swept[OF assms(1)] .
  have "within_budget m sw"
    by (rule sweep_run(4)[OF run assms(2,3)]) (use assms(3,4) NewSweep_ok(2) in \<open>simp_all add: NewSweep_def\<close>)
  moreover have "sw_budget sw = budget" using sweep_run(2)[OF run] by (simp add: NewSweep_def)
  moreover have "sw = NewSweep budget" if "budget \<le> 0"
    using run by (induction) (use that sweep_step_still(1) in \<open>auto simp: NewSweep_def\<close>)
  ultimately show ?thesis using sweep_open_only[of sw row] by (auto simp: within_budget_def NewSweep_def asked_def)
qed

section \<open>Which rows are marked\<close>

text \<open>
  What tmux said of a row's session: its socket has no server, or the answer comes from the launch's server
  and lists no session with the launch's label; and, for a row that records no pane, what the listing said
  of its pane.
\<close>

definition sessionGone :: "Launch \<Rightarrow> procs \<Rightarrow> CallError + LookupAnswer \<Rightarrow> bool" where
  "sessionGone launch pc out \<longleftrightarrow> (case out of
     Inl ce \<Rightarrow> (ce_Failure ce = FailNoServer \<or> ce_Failure ce = FailNoSocket) \<and> serverHolds launch pc None
   | Inr ans \<Rightarrow> serverHolds launch pc (Some (an_ServerPID ans, an_ServerStart ans)) \<and> \<not> an_ScopeValue ans
       \<and> filter (carries launch) (an_Sessions ans) = [])"

text \<open>
  The rows a run judges, each with the run and the moment at its judgement: these are the run's own moments,
  a function of its inputs, and not any moment that could have been.
\<close>

fun judgements :: "missingEnv \<Rightarrow> int \<Rightarrow> int \<Rightarrow> LiveSpawnIdentity list \<Rightarrow> missing_run \<Rightarrow> world \<Rightarrow> (LiveSpawnIdentity \<times> missing_run \<times> world) list" where
  "judgements e grace now [] run w = []"
| "judgements e grace now (it # its) run w =
     (let w0 = tick (me_host e) w in
      if notJudged e grace now it (w_procs w0) then judgements e grace now its run w0
      else (case judgeLiveRow e it run w0 of (row, run1, w1) \<Rightarrow>
        (it, run, w0) # judgements e grace now its run1 (emitDisagree e it row w1)))"

definition judgementsOfRun :: "missingEnv \<Rightarrow> int \<Rightarrow> int \<Rightarrow> world \<Rightarrow> (LiveSpawnIdentity \<times> missing_run \<times> world) list" where
  "judgementsOfRun e grace budget w =
     (case store_read (me_host e) ListLiveSpawnIdentities w of
        (Inl _, _) \<Rightarrow> []
      | (Inr ids, w1) \<Rightarrow> (case clock_now (me_host e) w1 of (now, w2) \<Rightarrow>
          judgements e grace now (sort_key it_InstanceID ids) (NewSweep budget, noSockets) w2))"

text \<open>
  What the listing of a row's socket showed of its pane, for a session of its launch found there: it listed no
  pane with the launch's token; or one (perhaps listed twice), and the process with that pane's pid and the
  start time read for it at the listing was gone when it was judged.
\<close>

definition paneGone :: "missingEnv \<Rightarrow> LiveSpawnIdentity \<Rightarrow> Launch \<Rightarrow> Result \<Rightarrow> Sweep \<Rightarrow> world \<Rightarrow> bool" where
  "paneGone e it launch r sw w \<longleftrightarrow>
     (case SweepListPanes (me_host e) (me_tmux e) launch sw w of (_, sw1, listed) \<Rightarrow>
      case adoptInSweep e it launch r sw w of (_, _, adopted) \<Rightarrow>
      \<exists>v panes. (CallListPanes, lu_Socket launch, v) \<in> set (sw_calls sw1)
        \<and> clientListPanes (te_Timeouts (me_tmux e)) (te_run (me_tmux e) v CallListPanes (lu_Socket launch)) = Inr panes
        \<and> (case filter (\<lambda>p. pn_AdPane p = li_Token (it_Identity it)) panes of
             [] \<Rightarrow> True
           | p # ps \<Rightarrow> list_all (\<lambda>q. pn_ID q = pn_ID p) ps
               \<and> JudgeProcess (w_procs (tick (me_host e) adopted))
                   \<lparr>pi_Pid = pn_PID p, pi_Start = KnownStartTime (w_procs (tick (me_host e) listed)) (pn_PID p)\<rparr> = ProcGone))"

text \<open>
  What the lookup of a row showed: on the socket of the row (the one it records, or the one the caller's
  environment gave the run) tmux was asked, in this run, and its answer says the session is gone; or the
  session is there, the row records neither a process nor a pane, and its pane is gone.
\<close>

definition lookedUp :: "missingEnv \<Rightarrow> LiveSpawnIdentity \<Rightarrow> ProcState \<Rightarrow> missing_run \<Rightarrow> world \<Rightarrow> bool" where
  "lookedUp e it st run w \<longleftrightarrow>
     (case forRow (me_host e) (me_tmux e) (li_Socket (it_Identity it)) (snd run) w of
        (Inl _, _, _) \<Rightarrow> False
      | (Inr socket, _, w1) \<Rightarrow> (let launch = rowLaunch (it_InstanceID it) (it_Identity it) (me_storeID e) socket in
          case SweepLookup (me_host e) (me_tmux e) launch (it_TmuxSessionName it) (fst run) w1 of (r, sw1, w2) \<Rightarrow>
            \<exists>v. (CallLookup, socket, v) \<in> set (sw_calls sw1)
              \<and> (let out = clientLookup (te_Timeouts (me_tmux e)) (te_run (me_tmux e) v CallLookup socket)
                 in sessionGone launch (w_procs w2) out
                  \<or> st = ProcNone \<and> li_PaneID (it_Identity it) = []
                    \<and> (\<exists>ans x. out = Inr ans \<and> filter (carries launch) (an_Sessions ans) = [x]) \<and> paneGone e it launch r sw1 w2)))"

text \<open>
  The evidence of a mark: at its judgement the process the row records is gone; or it is not known to be alive,
  the row's session name can be looked up, and tmux has no session of this launch with a live pane.
\<close>

definition goneEvidence :: "missingEnv \<Rightarrow> LiveSpawnIdentity \<Rightarrow> missing_run \<Rightarrow> world \<Rightarrow> bool" where
  "goneEvidence e it run w \<longleftrightarrow>
     (let w1 = tick (me_host e) w; st = JudgeProcess (w_procs w1) (agentOf it (it_Identity it))
      in st = ProcGone \<or> st \<noteq> ProcAlive \<and> Unusable (it_TmuxSessionName it) = UnusableNone \<and> lookedUp e it st run w1)"

lemma unmarked:
  "clearRow e row it guard w = (row', w') \<Longrightarrow> fm_marked row' = fm_marked row"
  "aliveRow e row it guard x w = (row', w') \<Longrightarrow> fm_marked row' = fm_marked row"
  "noteRow e row it guard note w = (row', w') \<Longrightarrow> fm_marked row' = fm_marked row"
  by (auto simp: clearRow_def aliveRow_def unreportedRow_def noteRow_def split: if_splits prod.splits)

lemma resultForCall_facts:
  assumes "r = resultForCall a pc launch name"
  shows "\<not> lr_Skipped r"
    and "lr_Verdict r = Gone \<or> lr_Verdict r = Leftover \<Longrightarrow> a = asOutcome out \<Longrightarrow> sessionGone launch pc out"
    and "lr_Verdict r = Ours \<Longrightarrow> a = asOutcome out \<Longrightarrow> \<exists>ans x. out = Inr ans \<and> filter (carries launch) (an_Sessions ans) = [x]"
proof -
  have skip: "\<not> lr_Skipped (Classify ans pc launch name)" for ans
    by (simp add: Classify_def classifySessions_def zeroLookup_def Let_def split: prod.splits list.splits)
  show "\<not> lr_Skipped r"
    using assms by (auto simp: resultForCall_def resultForFailure_def zeroLookup_def Let_def skip split: sum.splits option.splits)
  show "sessionGone launch pc out" if "lr_Verdict r = Gone \<or> lr_Verdict r = Leftover" "a = asOutcome out"
    using that assms verdict_is_about_own_launch[OF refl, of _ pc launch name]
    by (cases out) (auto simp: asOutcome_def resultForCall_def resultForFailure_def sessionGone_def zeroLookup_def Let_def
        checkServer_differs split: if_splits)
  show "\<exists>ans x. out = Inr ans \<and> filter (carries launch) (an_Sessions ans) = [x]" if "lr_Verdict r = Ours" "a = asOutcome out"
    using that assms verdict_is_about_own_launch(1)[OF refl, of _ pc launch name]
    by (cases out) (auto simp: asOutcome_def resultForCall_def resultForFailure_def zeroLookup_def Let_def split: if_splits)
qed

lemma lookup_answered:
  assumes "SweepLookup h te row name sw w = (r, sw', w')" and "\<not> lr_Skipped r" and "sweep_ok te sw"
  obtains v where "(CallLookup, lu_Socket row, v) \<in> set (sw_calls sw')"
    "r = resultForCall (asOutcome (clientLookup (te_Timeouts te) (te_run te v CallLookup (lu_Socket row)))) (w_procs w') row name"
proof -
  have ok: "sweep_ok te sw'" by (rule sweep_ok_step[OF sweep_step.lookup[OF assms(1)] assms(3)])
  from assms(1) obtain a where "sk_answer (socketOf sw' (lu_Socket row)) = Some a" "r = resultForCall a (w_procs w') row name"
    using assms(2) by (cases rule: SweepLookup_step) (auto simp: skipped_def elim!: heldAnswer_cases)
  with ok that show thesis by (auto simp: sweep_ok_def holds_answer_def)
qed

lemma asOutcome_Inr [simp]: "Inr x = asOutcome r \<longleftrightarrow> r = Inr x" "asOutcome r = Inr x \<longleftrightarrow> r = Inr x"
  by (auto simp: asOutcome_def split: sum.splits)

lemma listing_answered:
  assumes "SweepListPanes h te row sw w = (l, sw', w')" and "pl_Listed l" and "sweep_ok te sw"
  obtains v where "(CallListPanes, lu_Socket row, v) \<in> set (sw_calls sw')"
    "clientListPanes (te_Timeouts te) (te_run te v CallListPanes (lu_Socket row)) = Inr (pl_Panes l)"
proof -
  have ok: "sweep_ok te sw'" by (rule sweep_ok_step[OF sweep_step.listing[OF assms(1)] assms(3)])
  from assms(1) have "sk_panes (socketOf sw' (lu_Socket row)) = Some (Inr (pl_Panes l))"
    using assms(2) by (cases rule: SweepListPanes_step) (auto elim!: heldPanes_cases)
  with ok have "holds_panes te sw' (lu_Socket row) (Inr (pl_Panes l))" by (simp add: sweep_ok_def)
  with that show thesis by (auto simp: holds_panes_def)
qed

lemma adoptWrite_identity: "adoptWrite e it a w = (sa, w') \<Longrightarrow> ad_Identity sa = ad_Identity a \<and> ad_Pane sa = ad_Pane a"
  by (auto simp: adoptWrite_def sweepAdopted_def Let_def split: if_splits prod.splits sum.splits)

text \<open>A row that records no process is judged by the pane it adopts.\<close>

lemma adopted_agent:
  assumes "JudgeProcess pc (agentOf it (it_Identity it)) = ProcNone" and "JudgeProcess pc' (agentOf it x) = ProcGone"
  shows "agentOf it x = \<lparr>pi_Pid = li_PanePID x, pi_Start = li_PaneStarttime x\<rparr>"
  using assms by (auto simp: agentOf_def SelectAgentProcess_def JudgeProcess_def noProcess_def recorded_def split: if_splits prod.splits)

lemma PaneByToken_cases:
  assumes "PaneByToken panes token = (p, m)" and "token \<noteq> []"
  shows "m = PaneNone \<Longrightarrow> filter (\<lambda>p. pn_AdPane p = token) panes = []"
    and "m = PaneOne \<Longrightarrow> \<exists>ps. filter (\<lambda>p. pn_AdPane p = token) panes = p # ps \<and> list_all (\<lambda>q. pn_ID q = pn_ID p) ps"
  using assms by (auto simp: PaneByToken_def split: list.splits if_splits)

lemma adopted_pane:
  assumes "adoptInSweep e it launch res sw w = (sa, sw', w')" and "lr_Verdict res = Ours" and "li_PaneID (it_Identity it) = []"
    and "\<not> sa_Unlisted sa" and "sweep_ok (me_tmux e) sw"
  obtains l w1 v p where "SweepListPanes (me_host e) (me_tmux e) launch sw w = (l, sw', w1)" "(CallListPanes, lu_Socket launch, v) \<in> set (sw_calls sw')"
    "clientListPanes (te_Timeouts (me_tmux e)) (te_run (me_tmux e) v CallListPanes (lu_Socket launch)) = Inr (pl_Panes l)"
    "PaneByToken (pl_Panes l) (li_Token (it_Identity it)) = (p, ad_Pane sa)"
    "ad_Pane sa = PaneOne \<Longrightarrow> li_PanePID (ad_Identity sa) = pn_PID p
       \<and> li_PaneStarttime (ad_Identity sa) = KnownStartTime (w_procs (tick (me_host e) w1)) (pn_PID p)"
proof -
  obtain l sw1 w1 where l: "SweepListPanes (me_host e) (me_tmux e) launch sw w = (l, sw1, w1)" by (metis prod.collapse)
  have due: "adoptionDue (it_Identity it) res" "adoptionNeedsListing (it_Identity it)"
    using assms(2,3) by (simp_all add: adoptionDue_def adoptionNeedsListing_def)
  have a: "pl_Listed l" "sw' = sw1" "adoptWrite e it (findAdoption (it_Identity it) res (pl_Panes l) (w_procs (tick (me_host e) w1)))
      (tick (me_host e) w1) = (sa, w')"
    using assms(1,4) due l by (auto simp: adoptInSweep_def Let_def split: if_splits prod.splits)
  obtain p m where p: "PaneByToken (pl_Panes l) (li_Token (it_Identity it)) = (p, m)" by force
  have "ad_Pane sa = m" "m = PaneOne \<Longrightarrow> li_PanePID (ad_Identity sa) = pn_PID p
       \<and> li_PaneStarttime (ad_Identity sa) = KnownStartTime (w_procs (tick (me_host e) w1)) (pn_PID p)"
    using adoptWrite_identity[OF a(3)] due p
    by (auto simp: findAdoption_def Let_def split: prod.splits if_splits)
  with listing_answered[OF l a(1) assms(5)] a(2) l p that show thesis by metis
qed

lemma oursRow_marked:
  assumes run: "oursRow e row it st launch sw w = (row', sw', w')" and "lr_Verdict (fm_res row) = Ours" and "\<not> fm_marked row" and "fm_marked row'"
    and "sweep_ok (me_tmux e) sw" and "li_Token (it_Identity it) \<noteq> []"
    and st: "st = JudgeProcess pc (agentOf it (it_Identity it))" "st \<noteq> ProcGone" "st \<noteq> ProcAlive"
  shows "st = ProcNone \<and> li_PaneID (it_Identity it) = [] \<and> paneGone e it launch (fm_res row) sw w"
proof -
  obtain sa sw1 w1 where a: "adoptInSweep e it launch (fm_res row) sw w = (sa, sw1, w1)" by (metis prod.collapse)
  have m: "st = ProcNone" "\<not> sa_Unlisted sa" "li_PaneID (it_Identity it) = []"
    "ad_Pane sa = PaneNone \<or> ad_Pane sa = PaneOne \<and> JudgeProcess (w_procs (tick (me_host e) w1)) (agentOf it (ad_Identity sa)) = ProcGone"
    using run a assms(3,4) st(2,3)
    by (cases st; auto simp: oursRow_def adoptedPaneRow_def adoptionNeedsListing_def Let_def dest!: unmarked
        split: if_splits prod.splits ProcState.splits PaneMatch.splits; metis PaneMatch.exhaust)+
  from adopted_pane[OF a assms(2) m(3,2) assms(5)] obtain l wl v p where
    l: "SweepListPanes (me_host e) (me_tmux e) launch sw w = (l, sw1, wl)" "(CallListPanes, lu_Socket launch, v) \<in> set (sw_calls sw1)"
      "clientListPanes (te_Timeouts (me_tmux e)) (te_run (me_tmux e) v CallListPanes (lu_Socket launch)) = Inr (pl_Panes l)"
    and p: "PaneByToken (pl_Panes l) (li_Token (it_Identity it)) = (p, ad_Pane sa)"
      "ad_Pane sa = PaneOne \<Longrightarrow> li_PanePID (ad_Identity sa) = pn_PID p
       \<and> li_PaneStarttime (ad_Identity sa) = KnownStartTime (w_procs (tick (me_host e) wl)) (pn_PID p)" by metis
  have "case filter (\<lambda>p. pn_AdPane p = li_Token (it_Identity it)) (pl_Panes l) of [] \<Rightarrow> True
     | p # ps \<Rightarrow> list_all (\<lambda>q. pn_ID q = pn_ID p) ps \<and> JudgeProcess (w_procs (tick (me_host e) w1))
         \<lparr>pi_Pid = pn_PID p, pi_Start = KnownStartTime (w_procs (tick (me_host e) wl)) (pn_PID p)\<rparr> = ProcGone"
    using m(4)
  proof (elim disjE conjE)
    assume "ad_Pane sa = PaneNone"
    from PaneByToken_cases(1)[OF p(1) assms(6) this] show ?thesis by simp
  next
    assume one: "ad_Pane sa = PaneOne" and gone: "JudgeProcess (w_procs (tick (me_host e) w1)) (agentOf it (ad_Identity sa)) = ProcGone"
    have "JudgeProcess pc (agentOf it (it_Identity it)) = ProcNone" using m(1) st(1) by simp
    from adopted_agent[OF this gone] PaneByToken_cases(2)[OF p(1) assms(6) one] p(2)[OF one] gone show ?thesis by auto
  qed
  with l(2,3) have "paneGone e it launch (fm_res row) sw w" by (auto simp: paneGone_def l(1) a)
  with m(1,3) show ?thesis by simp
qed

lemma sweep_ok_swept: "sweeps e sw sw' \<Longrightarrow> sweep_ok (me_tmux e) sw \<Longrightarrow> sweep_ok (me_tmux e) sw'"
  by (rule sweep_run(3))

lemma lookup_evidence:
  assumes l: "SweepLookup (me_host e) (me_tmux e) launch name sw w = (r, sw1, w1)" and launch: "launch = rowLaunch (it_InstanceID it) (it_Identity it) (me_storeID e) socket"
    and j: "judgeLookup e row it st launch sw1 w1 = (row', sw2, w2)" "fm_res row = r" "\<not> fm_marked row" "fm_marked row'"
    and ok: "sweep_ok (me_tmux e) sw" and st: "st = JudgeProcess pc (agentOf it (it_Identity it))" "st \<noteq> ProcGone" "st \<noteq> ProcAlive"
  shows "\<exists>v. (CallLookup, socket, v) \<in> set (sw_calls sw1)
     \<and> (let out = clientLookup (te_Timeouts (me_tmux e)) (te_run (me_tmux e) v CallLookup socket)
        in sessionGone launch (w_procs w1) out
         \<or> st = ProcNone \<and> li_PaneID (it_Identity it) = []
           \<and> (\<exists>ans x. out = Inr ans \<and> filter (carries launch) (an_Sessions ans) = [x]) \<and> paneGone e it launch r sw1 w1)"
proof -
  have ok1: "sweep_ok (me_tmux e) sw1" by (rule sweep_ok_swept[OF SweepLookup_swept[OF l] ok])
  have skip: "\<not> lr_Skipped r" using j unmarked(3) by (auto simp: judgeLookup_def Let_def split: prod.splits)
  have sock: "lu_Socket launch = socket" "lu_Token launch = li_Token (it_Identity it)" using launch by (simp_all add: rowLaunch_def)
  obtain v where v: "(CallLookup, socket, v) \<in> set (sw_calls sw1)"
    "r = resultForCall (asOutcome (clientLookup (te_Timeouts (me_tmux e)) (te_run (me_tmux e) v CallLookup socket))) (w_procs w1) launch name"
    using lookup_answered[OF l skip ok] sock by auto
  note facts = resultForCall_facts[OF v(2)]
  have asOurs: "\<exists>row1. fm_res row1 = r \<and> \<not> fm_marked row1 \<and> oursRow e row1 it st launch sw1 w1 = (row', sw2, w2)" if "lr_Verdict r = Ours"
    using j(1-3) skip that
    by (intro exI[of _ "row\<lparr>fm_disagree := (fm_disagree row @ lr_Disagree r)
          @ (if nameChanged r (it_TmuxSessionName it) then [ReasonNameChanged] else [])\<rparr>"]) (simp add: judgeLookup_def Let_def)
  consider (gone) "lr_Verdict r = Gone \<or> lr_Verdict r = Leftover" | (ours) row1 where "lr_Verdict r = Ours" "fm_res row1 = r" "\<not> fm_marked row1"
      "oursRow e row1 it st launch sw1 w1 = (row', sw2, w2)"
    using j skip asOurs by (cases "lr_Verdict r") (auto simp: judgeLookup_def Let_def dest!: unmarked(3) split: prod.splits)
  then show ?thesis
  proof cases
    case gone
    from facts(2)[OF this refl] v show ?thesis unfolding Let_def by blast
  next
    case ours
    obtain ans x where x: "clientLookup (te_Timeouts (me_tmux e)) (te_run (me_tmux e) v CallLookup socket) = Inr ans"
      "filter (carries launch) (an_Sessions ans) = [x]" using facts(3)[OF ours(1) refl] by blast
    from x(2) have "carries launch x" by (metis filter_eq_ConsD)
    then have "li_Token (it_Identity it) \<noteq> []" using sock by (simp add: carries_def)
    from oursRow_marked[OF ours(4) _ ours(3) j(4) ok1 this st] ours(1,2)
    have "st = ProcNone \<and> li_PaneID (it_Identity it) = [] \<and> paneGone e it launch r sw1 w1" by simp
    with x v(1) show ?thesis unfolding Let_def by blast
  qed
qed

lemma forRow_refused: "forRow h te recordedSocket ss w = (Inl res, ss1, w1) \<Longrightarrow> lr_Skipped res \<or> lr_Verdict res = CantTell"
  by (auto simp: forRow_def skipped_def zeroLookup_def Let_def split: if_splits prod.splits option.splits)

lemma lookupRow_marked:
  assumes run: "lookupRow e it st (sw, ss) w = (row, (sw', ss'), w')" and "fm_marked row"
    and ok: "sweep_ok (me_tmux e) sw" and st: "st = JudgeProcess pc (agentOf it (it_Identity it))" "st \<noteq> ProcGone" "st \<noteq> ProcAlive"
  shows "lookedUp e it st (sw, ss) w"
proof -
  obtain r ss1 w1 where f: "forRow (me_host e) (me_tmux e) (li_Socket (it_Identity it)) ss w = (r, ss1, w1)" by (metis prod.collapse)
  show ?thesis
  proof (cases r)
    case (Inl res)
    then show ?thesis
      using run f assms(2) forRow_refused[OF f[unfolded Inl]]
      by (auto simp: lookupRow_def judgeLookup_def zeroRow_def Let_def dest!: unmarked(3) split: prod.splits if_splits)
  next
    case (Inr socket)
    let ?launch = "rowLaunch (it_InstanceID it) (it_Identity it) (me_storeID e) socket"
    obtain res sw1 w2 where l: "SweepLookup (me_host e) (me_tmux e) ?launch (it_TmuxSessionName it) sw w1 = (res, sw1, w2)"
      by (metis prod.collapse)
    have j: "judgeLookup e (zeroRow\<lparr>fm_socket := socket, fm_res := res\<rparr>) it st ?launch sw1 w2 = (row, sw', w')"
      using run f l Inr by (auto simp: lookupRow_def Let_def split: prod.splits)
    show ?thesis
      using lookup_evidence[OF l refl j _ _ assms(2) ok st] by (simp add: lookedUp_def f Inr Let_def l zeroRow_def)
  qed
qed

lemma unusableNameNote_none: "unusableNameNote k = [] \<longleftrightarrow> k = UnusableNone"
  by (cases k) (simp_all add: unusableNameNote_def)

lemma judgeLiveRow_marked:
  assumes run: "judgeLiveRow e it (sw, ss) w = (row, (sw', ss'), w')" and "fm_marked row" and ok: "sweep_ok (me_tmux e) sw"
  shows "goneEvidence e it (sw, ss) w"
proof -
  let ?w = "tick (me_host e) w"
  let ?st = "JudgeProcess (w_procs ?w) (agentOf it (it_Identity it))"
  consider (gone) "?st = ProcGone" | (lookup) "?st \<noteq> ProcAlive" "?st \<noteq> ProcGone" "Unusable (it_TmuxSessionName it) = UnusableNone"
      "lookupRow e it ?st (sw, ss) ?w = (row, (sw', ss'), w')"
    using run assms(2) by (cases ?st)
      (auto simp: judgeLiveRow_def Let_def zeroRow_def unusableNameNote_none dest!: unmarked(2,3) split: prod.splits if_splits)
  then show ?thesis
  proof cases
    case gone
    then show ?thesis by (simp add: goneEvidence_def Let_def)
  next
    case lookup
    from lookupRow_marked[OF lookup(4) assms(2) ok refl lookup(2,1)] lookup show ?thesis by (simp add: goneEvidence_def Let_def)
  qed
qed

lemma judgeRows_marked:
  assumes "judgeRows e grace now its (sw, ss) w = ((missing, unverified), run', w')" and "i \<in> set missing"
    and "sweep_ok (me_tmux e) sw"
  shows "\<exists>it run v. (it, run, v) \<in> set (judgements e grace now its (sw, ss) w) \<and> it \<in> set its \<and> it_InstanceID it = i \<and> goneEvidence e it run v"
  using assms
proof (induction its arbitrary: sw ss w missing unverified run' w')
  case (Cons it its)
  let ?w = "tick (me_host e) w"
  show ?case
  proof (cases "notJudged e grace now it (w_procs ?w)")
    case True
    with Cons.prems(1) have "judgeRows e grace now its (sw, ss) ?w = ((missing, unverified), run', w')" by (simp add: Let_def)
    from Cons.IH[OF this Cons.prems(2,3)] True show ?thesis by (auto simp: Let_def)
  next
    case False
    obtain row sw1 ss1 w1 where j: "judgeLiveRow e it (sw, ss) ?w = (row, (sw1, ss1), w1)" by (metis prod.collapse)
    obtain m u run2 w2 where rest: "judgeRows e grace now its (sw1, ss1) (emitDisagree e it row w1) = ((m, u), run2, w2)" by (metis prod.collapse)
    have i: "i \<in> set m \<or> fm_marked row \<and> it_InstanceID it = i"
      using Cons.prems(1,2) False j rest by (auto simp: Let_def split: if_splits)
    have js: "judgements e grace now (it # its) (sw, ss) w = (it, (sw, ss), ?w) # judgements e grace now its (sw1, ss1) (emitDisagree e it row w1)"
      using False j by (simp add: Let_def)
    from i show ?thesis
    proof (elim disjE conjE)
      assume "i \<in> set m"
      from Cons.IH[OF rest this sweep_ok_swept[OF judgeLiveRow_swept[OF j] Cons.prems(3)]] js show ?thesis by auto
    next
      assume "fm_marked row" "it_InstanceID it = i"
      with judgeLiveRow_marked[OF j _ Cons.prems(3)] js show ?thesis by auto
    qed
  qed
qed simp

lemma FindMissing_ids:
  assumes "FindMissing e grace budget w = (res, err, w')" and "i \<in> set (fr_IDs res)"
  shows "\<exists>r \<in> set (spawns (w_db (tick (me_host e) w))). s_instance_id r = i \<and> IsLiveState (s_state r)
     \<and> (\<exists>run v. (liveIdentity r, run, v) \<in> set (judgementsOfRun e grace budget w) \<and> goneEvidence e (liveIdentity r) run v)"
proof -
  let ?w = "tick (me_host e) w"
  let ?rows = "filter (\<lambda>r. list_ex (\<lambda>v. s_state r = v) liveStates) (spawns (w_db ?w))"
  let ?its = "sort_key it_InstanceID (map liveIdentity ?rows)"
  obtain now w2 where now: "clock_now (me_host e) ?w = (now, w2)" by fastforce
  obtain m u run w3 where rows: "judgeRows e grace now ?its (NewSweep budget, noSockets) w2 = ((m, u), run, w3)"
    by (metis prod.collapse)
  have i: "i \<in> set m" and js: "judgementsOfRun e grace budget w = judgements e grace now ?its (NewSweep budget, noSockets) w2"
    using assms now rows
    by (auto simp: FindMissing_def judgementsOfRun_def store_read_def ListLiveSpawnIdentities_def Let_def sweepResult_def split: if_splits)
  from judgeRows_marked[OF rows i NewSweep_ok(1)] js obtain it run v where
    "(it, run, v) \<in> set (judgementsOfRun e grace budget w)" "it \<in> set (map liveIdentity ?rows)" "it_InstanceID it = i" "goneEvidence e it run v" by auto
  moreover from this(2) obtain r where "r \<in> set (spawns (w_db ?w))" "IsLiveState (s_state r)" "it = liveIdentity r"
    by (auto simp: IsLiveState_def list_ex_iff)
  moreover have "it_InstanceID (liveIdentity r) = s_instance_id r" by (simp add: liveIdentity_def)
  ultimately show ?thesis by metis
qed

section \<open>Properties\<close>

text \<open>
  C38. Only a gone agent is marked missing. Every id the sweep reports is a live row it read and judged, and at
  that judgement, in this run, its agent was shown gone. The process the row records had ended or its pid had
  another start time. Or no process of the row was known to be alive and tmux, asked in this run on the row's own
  socket, has no server there, or the launch's server lists no session with the launch's label. Or the row
  records neither process nor pane, its session is there, and the listing of its panes has none with the
  launch's token, or one whose process had ended. So a row whose recorded process is alive at its judgement is
  never marked, nor one whose only pane is alive.
\<close>

theorem only_gone_agents_are_marked:
  assumes "FindMissing e grace budget w = (res, err, w')" and "i \<in> set (fr_IDs res)"
  shows "\<exists>r \<in> set (spawns (w_db (tick (me_host e) w))). s_instance_id r = i \<and> IsLiveState (s_state r)
     \<and> (\<exists>run v. (liveIdentity r, run, v) \<in> set (judgementsOfRun e grace budget w) \<and> goneEvidence e (liveIdentity r) run v)"
  by (rule FindMissing_ids[OF assms])

definition sample_reply :: "Call \<Rightarrow> RunResult" where
  "sample_reply c = \<lparr>rr_Status = RunExited, rr_ExitStatus = 1, rr_Stdout = [], rr_Stderr = ''no server running on /tmp/s''\<rparr>"

definition sample_missing_env :: missingEnv where
  "sample_missing_env = \<lparr>me_host = sample_host, me_tmux = \<lparr>te_Timeouts = \<lparr>tm_Query = 1, tm_Action = 1, tm_Create = 1\<rparr>,
       te_run = (\<lambda>_ c _. sample_reply c), te_callerSocket = (\<lambda>_. Some ''/tmp/s'')\<rparr>,
     me_ownNamespace = None, me_storeID = ''0123456789abcdef'', me_home = None, me_stat = (\<lambda>_ _. False),
     me_caller = \<lparr>ca_process = ''agent-director'', ca_pid = 1, ca_hostname = ''h'', ca_user = ''u''\<rparr>, me_errText = (\<lambda>_. [])\<rparr>"

text \<open>Row a records a process that is gone, row b none and no socket: it is looked up on the caller's.\<close>

definition sample_missing_world :: world where
  "sample_missing_world = sample_world\<lparr>
     w_db := sample_db\<lparr>spawns := [sample_row, sample_row\<lparr>s_instance_id := ''b'', s_pane_pid := None, s_pane_starttime := None\<rparr>],
                       permission_requests := []\<rparr>,
     w_procs := (\<lambda>_. ([], False, True))\<rparr>"

definition sample_gone_world :: world where
  "sample_gone_world = sample_missing_world\<lparr>w_db := sample_db\<lparr>spawns := [sample_row], permission_requests := []\<rparr>\<rparr>"

lemma sample_gone_run:
  "(let run = FindMissing sample_missing_env 0 1000 sample_gone_world in (fr_IDs (fst run), fst (snd run))) = ([''a''], None)"
  by code_simp

theorem only_gone_agents_are_marked_witness:
  "\<exists>r run v. r \<in> set (spawns (w_db (tick sample_host sample_gone_world))) \<and> s_instance_id r = ''a'' \<and> IsLiveState (s_state r)
     \<and> (liveIdentity r, run, v) \<in> set (judgementsOfRun sample_missing_env 0 1000 sample_gone_world)
     \<and> goneEvidence sample_missing_env (liveIdentity r) run v"
proof -
  obtain res err w' where run: "FindMissing sample_missing_env 0 1000 sample_gone_world = (res, err, w')" by (metis prod.collapse)
  with sample_gone_run have "''a'' \<in> set (fr_IDs res)" by (simp add: Let_def)
  from only_gone_agents_are_marked[OF run this] obtain r ev v where
    r: "r \<in> set (spawns (w_db (tick (me_host sample_missing_env) sample_gone_world)))"
    and more: "s_instance_id r = ''a''" "IsLiveState (s_state r)"
      "(liveIdentity r, ev, v) \<in> set (judgementsOfRun sample_missing_env 0 1000 sample_gone_world)"
      "goneEvidence sample_missing_env (liveIdentity r) ev v" by (elim bexE conjE exE)
  have "me_host sample_missing_env = sample_host" by (simp only: sample_missing_env_def missingEnv.select_convs)
  with r have "r \<in> set (spawns (w_db (tick sample_host sample_gone_world)))" by (simp only:)
  with more show ?thesis by (intro exI conjI)
qed

theorem sweep_asks_tmux_within_budget_witness:
  "distinct (asked (fst (fst (snd (judgeRows sample_missing_env 0 0 (map liveIdentity (spawns (w_db sample_missing_world)))
      (NewSweep 1000, noSockets) sample_missing_world)))))"
proof -
  obtain ids sw ss w' where run: "judgeRows sample_missing_env 0 0 (map liveIdentity (spawns (w_db sample_missing_world)))
      (NewSweep 1000, noSockets) sample_missing_world = (ids, (sw, ss), w')" by (metis prod.collapse)
  have "calls_take (me_host sample_missing_env) 0" by (simp add: calls_take_def sample_missing_env_def sample_host_def tick_def)
  from sweep_asks_tmux_within_budget[OF run this] show ?thesis using run by simp
qed

text \<open>
  C40. A sweep keeps what the store promises: run beside any processes that honour the store's guarantee, from
  any database and with any failure, it leaves a consistent database consistent and no delivered verdict,
  completed pane answer, close or proof changed; it prints nothing and never runs the clock back.
\<close>

theorem find_missing_keeps_store:
  assumes "host_honest (me_host e)" and "FindMissing e grace budget w = (res, err, w')" and "store_ok (w_db w)"
  shows "store_ok (w_db w') \<and> evolves (w_db w) (w_db w') \<and> w_stdout w' = w_stdout w"
  using honest.R_FindMissing[OF refl assms(2)] assms(1,3) by (auto simp: progress_def store_guarantee_def)

theorem find_missing_keeps_store_witness:
  "store_ok (w_db (snd (snd (FindMissing sample_missing_env 0 1000 sample_missing_world))))"
proof -
  obtain res err w' where run: "FindMissing sample_missing_env 0 1000 sample_missing_world = (res, err, w')" by (metis prod.collapse)
  have "host_honest (me_host sample_missing_env)" using sample_host_honest by (simp add: sample_missing_env_def)
  moreover have "store_ok (w_db sample_missing_world)"
    by (simp add: store_ok_def requests_ok_def rows_ok_def held_not_working_def sample_missing_world_def sample_world_def sample_db_def
        sample_row_def IsLiveState_iff)
  ultimately show ?thesis using find_missing_keeps_store[OF _ run] run by simp
qed

end
