(* ===== verification/Missing_Result.thy ===== *)
theory Missing_Result
  imports Missing_Laws
begin

text \<open>
  What find-missing reports is what it did: with no other process writing, the ids it returns are exactly
  the rows that were live before and are missing after, whatever the driver fails and tmux answers.
\<close>

section \<open>Writes that leave the states alone\<close>

text \<open>The state of every row; an invariant of the spawns table that allows state writes by \<open>A\<close>.\<close>

definition states :: "db \<Rightarrow> string \<Rightarrow> string option" where
  "states d j = map_option s_state (find_spawn d j)"

locale row_invariant = store_invariant +
  assumes J_rows: "spawns d' = spawns d \<Longrightarrow> J d' = J d"
begin

lemma J_guarded_rows:
  assumes "J d" and "\<And>r. s_instance_id (upd d r) = s_instance_id r" and "\<And>r. s_instance_id r = i \<Longrightarrow> P r \<Longrightarrow> A d r (s_state (upd d r))"
  shows "J (snd (guarded i P upd d))"
  unfolding guarded_def using assms by (intro J_update_spawns) auto

lemma keeps_cond: "rely J s \<Longrightarrow> keeps J m \<Longrightarrow> keeps J (condResult s i what m)"
  unfolding condResult_def condNotApplied_def by (intro keeps_bind keeps_if keeps_return keeps_read_then)

lemma keeps_guarded_call: "(\<And>d. J d \<Longrightarrow> J (snd (stmt d))) \<Longrightarrow> keeps J (execGuarded s i what stmt)"
  unfolding execGuarded_eq by (rule keeps_execFamily)

lemma keeps_row_notes:
  assumes "rely J s"
  shows "keeps J (NoteUnreportedIfSameLife s i examined)" "keeps J (SetLivenessNoteIfSameLife s i examined note)"
    "keeps J (ClearLivenessIfSameLife s i examined)" "keeps J (AdoptIdentityIfSameLife s i examined x)"
  unfolding NoteUnreportedIfSameLife_def SetLivenessNoteIfSameLife_def ClearLivenessIfSameLife_def AdoptIdentityIfSameLife_def condNotApplied_def
  by (intro keeps_cond keeps_bind keeps_if keeps_return keeps_read_then keeps_guarded_call J_guarded_rows assms; simp add: A_same)+

lemma keeps_row_heal: "keeps J (HealJsonlPath s i sid p)"
proof -
  have "keeps J (dbExec s what (guarded i (healGuard sid) (\<lambda>_. healSet p)))" for what
    using J_guarded_rows[of _ "\<lambda>_. healSet p" i "healGuard sid"] by (fastforce simp: keeps_def dbExec_def A_same split: prod.splits)
  then show ?thesis
    unfolding HealJsonlPath_def by (intro keeps_bind keeps_if keeps_return) (auto simp: keeps_def emit_call_def)
qed

lemma keeps_row_mark:
  assumes "\<And>d r. s_instance_id r = i \<Longrightarrow> A d r v"
  shows "keeps J (terminalMarkIfSameLife s what (guarded i P (terminalMarkSet v)) i reason)"
  unfolding keeps_def
proof (intro allI impI)
  fix d assume d: "J d"
  have tx: "J d1" if run: "terminalMarkOnConn s what (guarded i P (terminalMarkSet v)) i reason d = Inr (x, d1)" for x d1
  proof -
    let ?d1 = "snd (guarded i P (terminalMarkSet v) d)"
    have "J ?d1" by (rule J_guarded_rows[OF d]) (simp_all add: assms)
    moreover have "d1 = d \<or> d1 = ?d1 \<or> spawns d1 = spawns ?d1"
      using run by (auto simp: terminalMarkOnConn_def tx_bind_Inr tx_exec_Inr tx_return_def dest: closes_close_out split: if_splits option.splits)
    ultimately show "J d1" using d J_rows[of d1 ?d1] by auto
  qed
  have out: "J (emitTerminalCloseout cs i reason d1) = J d1" for cs d1
    by (rule J_rows) simp
  have fin: "J (emitDisplayTransitions ex d3)"
    if "J d1" "refreshFamilies s d1 = Inr (u, d2)" "takeDisplayExits s i d2 = Inr (ex, d3)" for d1 u d2 ex d3
    using J_finish[OF that(1)] committed_tx[OF that(2,3)] by simp
  show "J (snd (terminalMarkIfSameLife s what (guarded i P (terminalMarkSet v)) i reason d))"
    using d tx by (auto simp: terminalMarkIfSameLife_def out split: sum.splits intro: fin)
qed

end

text \<open>The same rows, and the same states outside \<open>X\<close>.\<close>

definition states_but :: "string set \<Rightarrow> db \<Rightarrow> db \<Rightarrow> bool" where
  "states_but X d0 d \<longleftrightarrow> map s_instance_id (spawns d) = map s_instance_id (spawns d0) \<and> (\<forall>j. j \<notin> X \<longrightarrow> states d j = states d0 j)"

lemma states_cong: "spawns d' = spawns d \<Longrightarrow> states d' = states d"
  by (simp add: fun_eq_iff states_def find_spawn_def)

interpretation row_states: row_invariant "states_but X d0" "\<lambda>_ r v. s_instance_id r \<in> X \<or> v = s_state r"
proof unfold_locales
  show same: "spawns d' = spawns d \<Longrightarrow> states_but X d0 d' = states_but X d0 d" for d d'
    using states_cong[of d' d] by (simp add: states_but_def)
  show "states_but X d0 (d\<lparr>trail := x\<rparr>) = states_but X d0 d" for d x by (rule same) simp
  have fin: "states (finish_tx s i d) = states d" "map s_instance_id (spawns (finish_tx s i d)) = map s_instance_id (spawns d)" for s i d
    by (simp add: fun_eq_iff states_def option.map_comp comp_def finish_row_def Let_def)
      (simp add: finish_tx_def finish_row_def Let_def)
  show "states_but X d0 d \<Longrightarrow> states_but X d0 (finish_tx s i d)" for d s i unfolding states_but_def fin by simp
  show "s_instance_id r \<in> X \<or> s_state r = s_state r" for r by simp
  show "states_but X d0 (d\<lparr>spawns := update_where P f (spawns d)\<rparr>)"
    if d: "states_but X d0 d" and key: "\<And>r. s_instance_id (f r) = s_instance_id r"
      and ok: "\<And>r. r \<in> set (spawns d) \<Longrightarrow> P r \<Longrightarrow> s_instance_id r \<in> X \<or> s_state (f r) = s_state r" for d f P
  proof -
    have "states (d\<lparr>spawns := update_where P f (spawns d)\<rparr>) j = states d j" if j: "j \<notin> X" for j
    proof (cases "find_spawn d j")
      case (Some r)
      then have "r \<in> set (spawns d)" "s_instance_id r = j" using find_spawn_Some[OF Some] by auto
      then have "P r \<Longrightarrow> s_state (f r) = s_state r" using ok j by blast
      with Some key show ?thesis by (simp add: states_def find_spawn_def find_update_where)
    qed (use key in \<open>simp add: states_def find_spawn_def find_update_where\<close>)
    moreover have "map s_instance_id (update_where P f (spawns d)) = map s_instance_id (spawns d)"
      using key by (simp add: update_where_def)
    ultimately show ?thesis using d by (simp add: states_but_def)
  qed
qed

lemma states_but_refl [simp, intro]: "states_but X d d"
  by (simp add: states_but_def)

lemma states_but_trans: "states_but X a b \<Longrightarrow> states_but Y b c \<Longrightarrow> states_but (X \<union> Y) a c"
  by (auto simp: states_but_def)

section \<open>A system at rest\<close>

text \<open>Nobody else writes the database; it may fail any statement, and processes and tmux do what they do.\<close>

definition alone :: "host \<Rightarrow> bool" where
  "alone h \<longleftrightarrow> (\<forall>w. w_db (h_pass h w) = w_db w) \<and> (\<forall>n k d. others (h_store h n) k d = d)"

lemma alone_tick [simp]: "alone h \<Longrightarrow> w_db (tick h w) = w_db w"
  by (simp add: alone_def tick_def)

lemma alone_call:
  assumes "alone h" and "store_call h (\<lambda>s _. m s) w = (res, w')" and "\<And>s. rely (states_but X (w_db w)) s \<Longrightarrow> keeps (states_but X (w_db w)) (m s)"
  shows "states_but X (w_db w) (w_db w')"
proof -
  let ?s = "h_store h (w_tick (tick h w))"
  have "rely (states_but X (w_db w)) ?s" using assms(1) by (simp add: alone_def rely_def)
  from keepsD[OF assms(3)[OF this] states_but_refl] show ?thesis
    using assms(1,2) by (auto simp: store_call_def Let_def split: prod.splits)
qed

definition unmoved :: "world \<Rightarrow> world \<Rightarrow> bool" where
  "unmoved w w' \<longleftrightarrow> states_but {} (w_db w) (w_db w')"

interpretation calm: note_actions h "\<lambda>w w'. alone h \<longrightarrow> unmoved w w'"
proof unfold_locales
  show "alone h \<longrightarrow> unmoved w w" for w by (simp add: unmoved_def)
  show "alone h \<longrightarrow> unmoved a c" if "alone h \<longrightarrow> unmoved a b" "alone h \<longrightarrow> unmoved b c" for a b c
    using that states_but_trans[of "{}" _ _ "{}"] by (auto simp: unmoved_def)
  show "alone h \<longrightarrow> unmoved w (tick h w)" for w by (simp add: unmoved_def)
  show "alone h \<longrightarrow> unmoved w (trail_Emit ev w)" for w ev
    using states_cong[of "w_db (trail_Emit ev w)" "w_db w"] by (simp add: unmoved_def states_but_def trail_Emit_def)
qed (auto simp: unmoved_def intro: alone_call row_states.keeps_row_notes)

section \<open>A mark moves its row only\<close>

definition moved :: "string \<Rightarrow> string \<Rightarrow> world \<Rightarrow> world \<Rightarrow> bool" where
  "moved i v w w' \<longleftrightarrow> states_but {i} (w_db w) (w_db w') \<and> (\<exists>u. states (w_db w) i = Some u \<and> IsLiveState u) \<and> states (w_db w') i = Some v"

lemma moved_around: "unmoved w w1 \<Longrightarrow> moved i v w1 w2 \<Longrightarrow> unmoved w2 w3 \<Longrightarrow> moved i v w w3"
  using states_but_trans[of "{}" "w_db w" "w_db w1" "{i}" "w_db w2"] states_but_trans[of "{i}" "w_db w" "w_db w2" "{}" "w_db w3"]
  by (auto simp: unmoved_def moved_def states_but_def)

lemma mark_moves:
  assumes "alone h" and "distinct (map s_instance_id (spawns (w_db w)))" and "\<And>r. P r \<Longrightarrow> IsLiveState (s_state r)"
    and "store_call h (\<lambda>s _. terminalMarkIfSameLife s what (guarded i P (terminalMarkSet v)) i reason) w = (res, w')"
  shows "case res of Inr (_, CondApplied) \<Rightarrow> moved i v w w' | _ \<Rightarrow> unmoved w w'"
proof -
  let ?s = "h_store h (w_tick (tick h w))"
  have run: "terminalMarkIfSameLife ?s what (guarded i P (terminalMarkSet v)) i reason (w_db w) = (res, w_db w')"
    using assms(1,4) by (auto simp: store_call_def Let_def split: prod.splits)
  note out = terminalMark_outcome[OF assms(2), where s = ?s and what = what and i = i and guard = P and v = v and reason = reason, unfolded run]
  have others: "states_but {i} (w_db w) (w_db w')"
    by (rule alone_call[OF assms(1,4)], rule row_states.keeps_row_mark) simp
  have "s_state (finish_row s d i (terminalMarkSet v d' r)) = v" for s d d' r by (simp add: finish_row_def Let_def)
  then show ?thesis
    using out others assms(3) by (auto simp: moved_def unmoved_def states_def split: sum.splits prod.splits CondResult.splits if_splits)
qed

lemma mark_write_moves:
  assumes "alone h" and "distinct (map s_instance_id (spawns (w_db w)))"
  shows "markMissingSameLife h i examined reason extra w = (fw, w') \<Longrightarrow> if fw_Listed fw then moved i StateMissing w w' else unmoved w w'"
    and "markEndedSameLife h i examined reason extra w = (fw, w') \<Longrightarrow> \<not> fw_Listed fw \<and> (unmoved w w' \<or> moved i StateEnded w w')"
proof -
  have tick: "moved i v w w1 \<Longrightarrow> moved i v w (emitMarkTick i p n reason extra w1)" "unmoved w w1 \<Longrightarrow> unmoved w (emitMarkTick i p n reason extra w1)"
    for v p n w1 using calm.R_emitMarkTick[of h w1 w1 i p n reason extra] assms(1) moved_around[of w w i v w1]
      states_but_trans[of "{}" "w_db w" "w_db w1" "{}"] by (auto simp: unmoved_def)
  show "if fw_Listed fw then moved i StateMissing w w' else unmoved w w'"
    if "markMissingSameLife h i examined reason extra w = (fw, w')"
  proof -
    obtain res w1 where c: "store_call h (\<lambda>s _. MarkMissingIfSameLife s i examined) w = (res, w1)" by fastforce
    have "case res of Inr (_, CondApplied) \<Rightarrow> moved i StateMissing w w1 | _ \<Rightarrow> unmoved w w1"
      using mark_moves[OF assms _ c[unfolded MarkMissingIfSameLife_def markMissingIfSameLife_def]] by (simp add: sameLifeLive_iff)
    then show ?thesis
      using that c tick by (auto simp: markMissingSameLife_def failedWrite_def wrote_def split: sum.splits prod.splits CondResult.splits if_splits)
  qed
  show "\<not> fw_Listed fw \<and> (unmoved w w' \<or> moved i StateEnded w w')"
    if "markEndedSameLife h i examined reason extra w = (fw, w')"
  proof -
    obtain res w1 where c: "store_call h (\<lambda>s _. MarkEndedIfSameLife s i examined) w = (res, w1)" by fastforce
    have "case res of Inr (_, CondApplied) \<Rightarrow> moved i StateEnded w w1 | _ \<Rightarrow> unmoved w w1"
      using mark_moves[OF assms _ c[unfolded MarkEndedIfSameLife_def markEndedIfSameLife_def]] by (simp add: sameLifeLive_iff)
    then show ?thesis
      using that c tick by (auto simp: markEndedSameLife_def failedWrite_def wrote_def split: sum.splits prod.splits CondResult.splits if_splits)
  qed
qed

section \<open>A judged row\<close>

text \<open>A listed mark moved the row to missing; any other outcome left every state, but for a Codex end.\<close>

definition outcome :: "string \<Rightarrow> findMissingRow \<Rightarrow> world \<Rightarrow> world \<Rightarrow> bool" where
  "outcome i row w w' \<longleftrightarrow> (if fm_marked row \<and> fw_Listed (fm_write row) then moved i StateMissing w w'
     else unmoved w w' \<or> fm_marked row \<and> moved i StateEnded w w')"

lemma unmoved_trans: "unmoved a b \<Longrightarrow> unmoved b c \<Longrightarrow> unmoved a c"
  using states_but_trans[of "{}" "w_db a" "w_db b" "{}"] by (simp add: unmoved_def)

lemma outcome_around: "unmoved w w1 \<Longrightarrow> outcome i row w1 w2 \<Longrightarrow> unmoved w2 w3 \<Longrightarrow> outcome i row w w3"
  by (auto simp: outcome_def intro: unmoved_trans moved_around split: if_splits)

lemma unmoved_refl [simp]: "unmoved w w"
  by (simp add: unmoved_def)

lemma outcome_before: "unmoved w w1 \<Longrightarrow> outcome i row w1 w2 \<Longrightarrow> outcome i row w w2"
  by (rule outcome_around[OF _ _ unmoved_refl])

lemma outcome_unmarked: "unmoved w w' \<Longrightarrow> \<not> fm_marked row \<Longrightarrow> outcome i row w w'"
  by (simp add: outcome_def)

lemma unmoved_distinct: "unmoved w w' \<Longrightarrow> distinct (map s_instance_id (spawns (w_db w))) \<Longrightarrow> distinct (map s_instance_id (spawns (w_db w')))"
  by (simp add: unmoved_def states_but_def)

lemma unmoved_run:
  assumes "alone (me_host e)"
  shows "unmoved w (tick (me_host e) w)" "clearRow e row it guard w = (row1, w') \<Longrightarrow> unmoved w w'"
    "aliveRow e row it guard x w = (row1, w') \<Longrightarrow> unmoved w w'" "noteRow e row it guard note w = (row1, w') \<Longrightarrow> unmoved w w'"
    "adoptInSweep e it launch res sw w = (sa, sw', w') \<Longrightarrow> unmoved w w'"
    "SweepLookup (me_host e) te lrow name sw w = (r, sw', w') \<Longrightarrow> unmoved w w'"
    "forRow (me_host e) te x' ss w = (r', ss', w') \<Longrightarrow> unmoved w w'" "unmoved w (emitNameHeld nh w)"
proof -
  note go = calm.R_tick[of "me_host e", rule_format, OF assms] calm.R_note_rows[OF refl, rule_format, OF _ assms]
    calm.R_adoptInSweep[OF refl, rule_format, OF _ assms] calm.R_sweep(1)[rule_format, OF _ assms] calm.R_forRow[rule_format, OF _ assms]
    calm.R_emitNameHeld[of "me_host e", rule_format, OF _ assms]
  show "unmoved w (tick (me_host e) w)" "clearRow e row it guard w = (row1, w') \<Longrightarrow> unmoved w w'"
    "aliveRow e row it guard x w = (row1, w') \<Longrightarrow> unmoved w w'" "noteRow e row it guard note w = (row1, w') \<Longrightarrow> unmoved w w'"
    "adoptInSweep e it launch res sw w = (sa, sw', w') \<Longrightarrow> unmoved w w'"
    "SweepLookup (me_host e) te lrow name sw w = (r, sw', w') \<Longrightarrow> unmoved w w'"
    "forRow (me_host e) te x' ss w = (r', ss', w') \<Longrightarrow> unmoved w w'" "unmoved w (emitNameHeld nh w)"
    by (rule go, simp?)+
qed

lemma row_outcomes:
  assumes a: "alone (me_host e)" and d: "distinct (map s_instance_id (spawns (w_db w)))" and u: "\<not> fm_marked row"
  shows "aliveRow e row it guard x w = (row', w') \<Longrightarrow> outcome (it_InstanceID it) row' w w'"
    "noteRow e row it guard note w = (row', w') \<Longrightarrow> outcome (it_InstanceID it) row' w w'"
    "markRow e row it guard reason extra w = (row', w') \<Longrightarrow> outcome (it_InstanceID it) row' w w'"
    "goneRow e row it guard w = (row', w') \<Longrightarrow> outcome (it_InstanceID it) row' w w'"
    "lookupMarkRow e row it guard w = (row', w') \<Longrightarrow> outcome (it_InstanceID it) row' w w'"
proof -
  show "aliveRow e row it guard x w = (row', w') \<Longrightarrow> outcome (it_InstanceID it) row' w w'"
    "noteRow e row it guard note w = (row', w') \<Longrightarrow> outcome (it_InstanceID it) row' w w'"
    using unmoved_run(3,4)[OF a] unmarked(2,3) u by (fastforce intro: outcome_unmarked)+
  show mark: "markRow e row it guard reason extra w = (row', w') \<Longrightarrow> outcome (it_InstanceID it) row' w w'" for reason extra row' w'
    using mark_write_moves(1)[OF a d] by (auto simp: markRow_def outcome_def split: prod.splits)
  then show "goneRow e row it guard w = (row', w') \<Longrightarrow> outcome (it_InstanceID it) row' w w'"
    by (auto simp: goneRow_def outcome_def split: prod.splits if_splits dest!: mark_write_moves(2)[OF a d])
  have held: "unmoved w1 (emitRowNameHeld e it row1 w1)" for row1 w1 unfolding emitRowNameHeld_def by (rule unmoved_run(8)[OF a])
  show "lookupMarkRow e row it guard w = (row', w') \<Longrightarrow> outcome (it_InstanceID it) row' w w'"
    by (auto simp: lookupMarkRow_def Let_def split: prod.splits if_splits intro: mark outcome_around[OF unmoved_refl mark held])
qed

lemma oursRow_outcome:
  assumes a: "alone (me_host e)" and d: "distinct (map s_instance_id (spawns (w_db w)))" and u: "\<not> fm_marked row"
    and run: "oursRow e row it st launch sw w = (row', sw', w')"
  shows "outcome (it_InstanceID it) row' w w'"
proof -
  obtain sa sw1 w1 where ad: "adoptInSweep e it launch (fm_res row) sw w = (sa, sw1, w1)" by (metis prod.collapse)
  note pre = unmoved_run(5)[OF a ad]
  note d1 = unmoved_distinct[OF pre d]
  have t: "unmoved w1 (tick (me_host e) w1)" by (rule unmoved_run(1)[OF a])
  note rows = row_outcomes[OF a d1] and ticked = outcome_before[OF t row_outcomes(1)[OF a unmoved_distinct[OF t d1]]]
    outcome_before[OF t row_outcomes(2)[OF a unmoved_distinct[OF t d1]]] outcome_before[OF t row_outcomes(4)[OF a unmoved_distinct[OF t d1]]]
  let ?row = "row\<lparr>fm_listing := sa_Listing sa, fm_disagree := fm_disagree row @ (if ad_Applied sa then [ReasonAdopted] else [])\<rparr>"
  have u1: "\<not> fm_marked ?row" using u by simp
  have "outcome (it_InstanceID it) row' w1 w'"
  proof (cases "sa_Left sa")
    case True
    then show ?thesis using run ad u by (auto simp: oursRow_def Let_def intro!: outcome_unmarked)
  next
    case False
    then show ?thesis
      using run ad by (auto simp: oursRow_def adoptedPaneRow_def Let_def intro: rows(2,3)[OF u1] ticked[OF u1]
          split: if_splits prod.splits ProcState.splits)
  qed
  with pre show ?thesis by (rule outcome_before)
qed

lemma judgeLookup_outcome:
  assumes "alone (me_host e)" and "distinct (map s_instance_id (spawns (w_db w)))" and "\<not> fm_marked row"
    and "judgeLookup e row it st launch sw w = (row', sw', w')"
  shows "outcome (it_InstanceID it) row' w w'"
proof -
  have z: "\<not> fm_marked (row\<lparr>fm_disagree := x\<rparr>)" for x using assms(3) by simp
  note rows = row_outcomes(2,5)[OF assms(1,2) z] oursRow_outcome[OF assms(1,2) z] row_outcomes(2)[OF assms(1-3)]
  show ?thesis
    using assms(3,4) by (cases "lr_Verdict (fm_res row)") (auto simp: judgeLookup_def Let_def intro: rows split: if_splits prod.splits)
qed

lemma lookupRow_outcome:
  assumes a: "alone (me_host e)" and d: "distinct (map s_instance_id (spawns (w_db w)))" and run: "lookupRow e it st (sw, ss) w = (row, run', w')"
  shows "outcome (it_InstanceID it) row w w'"
proof -
  obtain r ss1 w1 where f: "forRow (me_host e) (me_tmux e) (li_Socket (it_Identity it)) ss w = (r, ss1, w1)" by (metis prod.collapse)
  note p1 = unmoved_run(7)[OF a f]
  note d1 = unmoved_distinct[OF p1 d]
  have z: "\<not> fm_marked (zeroRow\<lparr>fm_res := x\<rparr>)" "\<not> fm_marked (zeroRow\<lparr>fm_socket := k, fm_res := x\<rparr>)" for x k
    by (simp_all add: zeroRow_def)
  have "outcome (it_InstanceID it) row w1 w'"
  proof (cases r)
    case (Inl res)
    then show ?thesis using run f judgeLookup_outcome[OF a d1 z(1)] by (auto simp: lookupRow_def split: prod.splits)
  next
    case (Inr socket)
    obtain res sw1 w2 where l: "SweepLookup (me_host e) (me_tmux e) (rowLaunch (it_InstanceID it) (it_Identity it) (me_storeID e) socket)
        (it_TmuxSessionName it) sw w1 = (res, sw1, w2)" by (metis prod.collapse)
    note p2 = unmoved_run(6)[OF a l]
    have "outcome (it_InstanceID it) row w2 w'"
      using run f l Inr judgeLookup_outcome[OF a unmoved_distinct[OF p2 d1] z(2)] by (auto simp: lookupRow_def Let_def split: prod.splits)
    with p2 show ?thesis by (rule outcome_before)
  qed
  with p1 show ?thesis by (rule outcome_before)
qed

lemma judgeLiveRow_outcome:
  assumes a: "alone (me_host e)" and d: "distinct (map s_instance_id (spawns (w_db w)))" and run: "judgeLiveRow e it (sw, ss) w = (row, run', w')"
  shows "outcome (it_InstanceID it) row w w'"
proof -
  have t: "unmoved w (tick (me_host e) w)" by (rule unmoved_run(1)[OF a])
  have z: "\<not> fm_marked zeroRow" by (simp add: zeroRow_def)
  note d1 = unmoved_distinct[OF t d]
  have "outcome (it_InstanceID it) row (tick (me_host e) w) w'"
    using run by (auto simp: judgeLiveRow_def Let_def intro: row_outcomes(1,2,4)[OF a d1 z] lookupRow_outcome[OF a d1]
        split: if_splits prod.splits ProcState.splits)
  with t show ?thesis by (rule outcome_before)
qed

section \<open>The whole sweep\<close>

text \<open>
  What the rows judged so far left: the ids marked are missing now, every other state is unchanged but for
  ended rows, and the unverified rows are none of them.
\<close>

definition swept_rows :: "string set \<Rightarrow> string list \<Rightarrow> string list \<Rightarrow> world \<Rightarrow> world \<Rightarrow> bool" where
  "swept_rows ids missing unverified w w' \<longleftrightarrow> distinct missing \<and> distinct unverified \<and> set missing \<union> set unverified \<subseteq> ids
     \<and> set missing \<inter> set unverified = {}
     \<and> map s_instance_id (spawns (w_db w')) = map s_instance_id (spawns (w_db w))
     \<and> (\<forall>j. if j \<in> set missing then states (w_db w') j = Some StateMissing
            else states (w_db w') j = states (w_db w) j \<or> j \<in> ids \<and> j \<notin> set unverified \<and> states (w_db w') j = Some StateEnded)"

lemma swept_rows_none: "unmoved w w' \<Longrightarrow> swept_rows {} [] [] w w'"
  by (simp add: swept_rows_def unmoved_def states_but_def)

lemma swept_rows_after: "swept_rows ids m u w w1 \<Longrightarrow> unmoved w1 w2 \<Longrightarrow> swept_rows ids m u w w2"
  by (auto simp: swept_rows_def unmoved_def states_but_def)

lemma unmoved_states: "unmoved w w1 \<Longrightarrow> states (w_db w1) = states (w_db w) \<and> map s_instance_id (spawns (w_db w1)) = map s_instance_id (spawns (w_db w))"
  by (simp add: unmoved_def states_but_def fun_eq_iff)

lemma swept_rows_before:
  assumes "unmoved w w1" and "swept_rows ids m u w1 w2"
  shows "swept_rows ids m u w w2"
proof -
  have "states (w_db w1) = states (w_db w)" "map s_instance_id (spawns (w_db w1)) = map s_instance_id (spawns (w_db w))"
    using unmoved_states[OF assms(1)] by simp_all
  then have "swept_rows ids m u w w2 \<longleftrightarrow> swept_rows ids m u w1 w2" unfolding swept_rows_def by (simp only:)
  with assms(2) show ?thesis by (simp only:)
qed

lemma swept_rows_more:
  assumes "swept_rows ids m u w w2"
  shows "swept_rows (insert i ids) m u w w2"
  using assms unfolding swept_rows_def by (intro conjI allI; simp add: subset_insertI2 split: if_splits; metis)

lemma swept_rows_row:
  assumes "outcome i row w w1" and "swept_rows ids m u w1 w2" and "i \<notin> ids"
  shows "swept_rows (insert i ids) (if fw_Listed (fm_write row) \<and> fm_marked row then i # m else m)
     (if fw_Listed (fm_write row) \<and> \<not> fm_marked row then i # u else u) w w2"
proof -
  have i: "i \<notin> set m" "i \<notin> set u" using assms(2,3) by (auto simp: swept_rows_def)
  have rest: "states (w_db w2) i = states (w_db w1) i" using assms(2,3) i by (metis swept_rows_def)
  have frame: "j \<noteq> i \<Longrightarrow> states (w_db w1) j = states (w_db w) j" for j
    using assms(1) by (auto simp: outcome_def unmoved_def moved_def states_but_def split: if_splits)
  have own: "if fm_marked row \<and> fw_Listed (fm_write row) then states (w_db w1) i = Some StateMissing
      else states (w_db w1) i = states (w_db w) i \<or> fm_marked row \<and> states (w_db w1) i = Some StateEnded"
    using assms(1) by (auto simp: outcome_def unmoved_def moved_def states_but_def)
  have keys: "map s_instance_id (spawns (w_db w1)) = map s_instance_id (spawns (w_db w))"
    using assms(1) by (auto simp: outcome_def unmoved_def moved_def states_but_def split: if_splits)
  let ?m = "if fw_Listed (fm_write row) \<and> fm_marked row then i # m else m"
  let ?u = "if fw_Listed (fm_write row) \<and> \<not> fm_marked row then i # u else u"
  have step: "if j \<in> set ?m then states (w_db w2) j = Some StateMissing
      else states (w_db w2) j = states (w_db w) j \<or> j \<in> insert i ids \<and> j \<notin> set ?u \<and> states (w_db w2) j = Some StateEnded" for j
  proof (cases "j = i")
    case True
    then show ?thesis using own rest i by auto
  next
    case False
    have "if j \<in> set m then states (w_db w2) j = Some StateMissing
        else states (w_db w2) j = states (w_db w1) j \<or> j \<in> ids \<and> j \<notin> set u \<and> states (w_db w2) j = Some StateEnded"
      using assms(2) unfolding swept_rows_def by blast
    with False show ?thesis using frame[OF False] by (auto split: if_splits)
  qed
  have p: "distinct m" "distinct u" "set m \<union> set u \<subseteq> ids" "set m \<inter> set u = {}"
      "map s_instance_id (spawns (w_db w2)) = map s_instance_id (spawns (w_db w1))"
    using assms(2) unfolding swept_rows_def by blast+
  have q: "distinct ?m" "distinct ?u" "set ?m \<union> set ?u \<subseteq> insert i ids" "set ?m \<inter> set ?u = {}"
    using p i by auto
  show ?thesis
    unfolding swept_rows_def by (intro conjI allI; (rule step q | simp only: p keys))
qed

lemma judgeRows_swept_rows:
  assumes a: "alone (me_host e)"
  shows "judgeRows e grace now its (sw, ss) w = ((m, u), run', w') \<Longrightarrow> distinct (map s_instance_id (spawns (w_db w)))
     \<Longrightarrow> distinct (map it_InstanceID its) \<Longrightarrow> swept_rows (set (map it_InstanceID its)) m u w w'"
proof (induction its arbitrary: sw ss w m u run' w')
  case Nil
  then show ?case by (simp add: swept_rows_none)
next
  case (Cons it its)
  let ?w = "tick (me_host e) w" and ?i = "it_InstanceID it"
  have t: "unmoved w ?w" by (rule unmoved_run(1)[OF a])
  note d1 = unmoved_distinct[OF t Cons.prems(2)]
  have "swept_rows (insert ?i (set (map it_InstanceID its))) m u w w'"
  proof (cases "notJudged e grace now it (w_procs ?w)")
    case True
    with Cons.prems(1) have "judgeRows e grace now its (sw, ss) ?w = ((m, u), run', w')" by (simp add: Let_def)
    from swept_rows_more[OF swept_rows_before[OF t Cons.IH[OF this d1]]] Cons.prems(3) show ?thesis by simp
  next
    case False
    obtain row sw1 ss1 w1 where j: "judgeLiveRow e it (sw, ss) ?w = (row, (sw1, ss1), w1)" by (metis prod.collapse)
    let ?w2 = "emitDisagree e it row w1"
    obtain m1 u1 run2 w2 where rest: "judgeRows e grace now its (sw1, ss1) ?w2 = ((m1, u1), run2, w2)" by (metis prod.collapse)
    have out: "outcome ?i row w ?w2"
      using outcome_around[OF t judgeLiveRow_outcome[OF a d1 j]] calm.R_emitDisagree[of "me_host e" w1 w1] a by simp
    have d2: "distinct (map s_instance_id (spawns (w_db ?w2)))"
      using out Cons.prems(2) by (auto simp: outcome_def unmoved_def moved_def states_but_def split: if_splits)
    have eq: "m = (if fw_Listed (fm_write row) \<and> fm_marked row then ?i # m1 else m1)"
      "u = (if fw_Listed (fm_write row) \<and> \<not> fm_marked row then ?i # u1 else u1)" "w' = w2"
      using Cons.prems(1) False j rest by (auto simp: Let_def split: if_splits)
    have "swept_rows (set (map it_InstanceID its)) m1 u1 ?w2 w2" using Cons.IH[OF rest d2] Cons.prems(3) by simp
    from swept_rows_row[OF out this] Cons.prems(3) show ?thesis unfolding eq by simp
  qed
  then show ?case by simp
qed

lemma heal_unmoved:
  assumes "alone (me_host e)"
  shows "unmoved w (healProvisionalTranscripts e w)"
proof -
  have call: "unmoved v (snd (store_call (me_host e) (\<lambda>s _. HealJsonlPath s i sid p) v))" for i sid p v
    unfolding unmoved_def
    by (rule alone_call[OF assms, where m = "\<lambda>s. HealJsonlPath s i sid p"], rule prod.collapse[symmetric]) (rule row_states.keeps_row_heal)
  have step: "unmoved v (healTranscript e pt v)" for pt v
    using unmoved_run(1)[OF assms] by (auto simp: healTranscript_def Let_def intro: call unmoved_trans split: option.splits)
  have "unmoved a (fold (healTranscript e) pts b)" if "unmoved a b" for pts a b
    using that by (induction pts arbitrary: b) (auto intro: unmoved_trans[OF _ step])
  moreover obtain res w1 where "store_read (me_host e) ListProvisionalTranscripts w = (res, w1)" by fastforce
  moreover from this have "unmoved w w1" using calm.R_store_read[of "me_host e"] assms by blast
  ultimately show ?thesis by (cases res) (simp_all add: healProvisionalTranscripts_def)
qed

lemma FindMissing_swept_rows:
  assumes a: "alone (me_host e)" and d: "distinct (map s_instance_id (spawns (w_db w)))" and run: "FindMissing e grace budget w = (res, None, w')"
  shows "\<exists>m u. res = sweepResult (sort m) (sort u)
     \<and> swept_rows {s_instance_id r | r. r \<in> set (spawns (w_db w)) \<and> IsLiveState (s_state r)} m u w w'"
proof -
  let ?rows = "filter (\<lambda>r. list_ex (\<lambda>v. s_state r = v) liveStates) (spawns (w_db w))"
  let ?its = "sort_key it_InstanceID (map liveIdentity ?rows)"
  let ?w = "tick (me_host e) w"
  obtain now w2 where now: "clock_now (me_host e) ?w = (now, w2)" by fastforce
  obtain m u run' w3 where rows: "judgeRows e grace now ?its (NewSweep budget, noSockets) w2 = ((m, u), run', w3)" by (metis prod.collapse)
  have eq: "res = sweepResult (sort m) (sort u)" "w' = healProvisionalTranscripts e w3"
    using run now rows a by (auto simp: FindMissing_def store_read_def ListLiveSpawnIdentities_def Let_def split: if_splits)
  have u2: "unmoved w w2" using now a calm.R_clock_now[of "me_host e" ?w now w2] unmoved_run(1)[OF a] unmoved_trans by blast
  have ids: "map it_InstanceID (map liveIdentity ?rows) = map s_instance_id ?rows" by (simp add: liveIdentity_def)
  then have "distinct (map it_InstanceID (map liveIdentity ?rows))" using d by (simp only: distinct_map_filter)
  then have "distinct (map it_InstanceID ?its)" by (simp only: distinct_map distinct_sort set_sort)
  from judgeRows_swept_rows[OF a rows unmoved_distinct[OF u2 d] this]
  have "swept_rows (set (map it_InstanceID ?its)) m u w w'"
    unfolding eq(2) by (intro swept_rows_before[OF u2] swept_rows_after[OF _ heal_unmoved[OF a]])
  moreover have "set (map it_InstanceID ?its) = {s_instance_id r | r. r \<in> set (spawns (w_db w)) \<and> IsLiveState (s_state r)}"
    using arg_cong[OF ids, of set] by (auto simp: IsLiveState_def list_ex_iff)
  ultimately show ?thesis using eq(1) by auto
qed

definition live_in :: "db \<Rightarrow> string \<Rightarrow> bool" where
  "live_in d i \<longleftrightarrow> (case states d i of Some v \<Rightarrow> IsLiveState v | None \<Rightarrow> False)"

lemma live_in_rows:
  assumes "distinct (map s_instance_id (spawns d))"
  shows "i \<in> {s_instance_id r | r. r \<in> set (spawns d) \<and> IsLiveState (s_state r)} \<longleftrightarrow> live_in d i"
proof
  assume "i \<in> {s_instance_id r | r. r \<in> set (spawns d) \<and> IsLiveState (s_state r)}"
  then obtain r where r: "r \<in> set (spawns d)" "s_instance_id r = i" "IsLiveState (s_state r)" by blast
  then obtain q where q: "find_spawn d i = Some q" using r by (cases "find_spawn d i") (auto simp: find_spawn_def find_None_iff)
  from the_row[OF assms q r(1,2)] q r(3) show "live_in d i" by (simp add: live_in_def states_def)
next
  assume "live_in d i"
  then obtain q where "find_spawn d i = Some q" "IsLiveState (s_state q)"
    by (cases "find_spawn d i") (auto simp: live_in_def states_def)
  with find_spawn_Some show "i \<in> {s_instance_id r | r. r \<in> set (spawns d) \<and> IsLiveState (s_state r)}" by blast
qed

text \<open>What a swept database says of the two lists.\<close>

lemma swept_rows_lists:
  assumes "distinct (map s_instance_id (spawns (w_db w)))"
    and "swept_rows {s_instance_id r | r. r \<in> set (spawns (w_db w)) \<and> IsLiveState (s_state r)} m u w w'"
  shows "set m = {i. live_in (w_db w) i \<and> states (w_db w') i = Some StateMissing}"
    and "list_all (\<lambda>i. states (w_db w') i = states (w_db w) i) u"
    and "{i. states (w_db w') i \<noteq> states (w_db w) i} - set m \<subseteq> {i. live_in (w_db w) i \<and> states (w_db w') i = Some StateEnded}"
    and "distinct m" and "distinct u" and "set m \<inter> set u = {}"
proof -
  let ?L = "{s_instance_id r | r. r \<in> set (spawns (w_db w)) \<and> IsLiveState (s_state r)}"
  have L: "?L = {i. live_in (w_db w) i}" using live_in_rows[OF assms(1)] by blast
  note s = assms(2)[unfolded L swept_rows_def]
  have "\<forall>j. if j \<in> set m then states (w_db w') j = Some StateMissing
      else states (w_db w') j = states (w_db w) j \<or> live_in (w_db w) j \<and> j \<notin> set u \<and> states (w_db w') j = Some StateEnded"
    using s unfolding mem_Collect_eq by (elim conjE)
  note moves = spec[OF this]
  have final: "live_in (w_db w) i \<Longrightarrow> states (w_db w) i \<noteq> Some StateMissing" for i by (auto simp: live_in_def IsLiveState_iff)
  have sub: "set m \<subseteq> {i. live_in (w_db w) i}" using s by blast
  show "distinct m" "distinct u" and disj: "set m \<inter> set u = {}" using s by blast+
  show "set m = {i. live_in (w_db w) i \<and> states (w_db w') i = Some StateMissing}"
  proof (intro set_eqI iffI)
    show "i \<in> set m \<Longrightarrow> i \<in> {i. live_in (w_db w) i \<and> states (w_db w') i = Some StateMissing}" for i
      using moves[of i] sub by auto
    show "i \<in> {i. live_in (w_db w) i \<and> states (w_db w') i = Some StateMissing} \<Longrightarrow> i \<in> set m" for i
      using moves[of i] final[of i] by (auto split: if_splits)
  qed
  show "list_all (\<lambda>i. states (w_db w') i = states (w_db w) i) u"
    unfolding list_all_iff
  proof
    fix i assume "i \<in> set u"
    then show "states (w_db w') i = states (w_db w) i" using moves[of i] disj by (auto split: if_splits)
  qed
  show "{i. states (w_db w') i \<noteq> states (w_db w) i} - set m \<subseteq> {i. live_in (w_db w) i \<and> states (w_db w') i = Some StateEnded}"
  proof
    fix i assume "i \<in> {i. states (w_db w') i \<noteq> states (w_db w) i} - set m"
    then show "i \<in> {i. live_in (w_db w) i \<and> states (w_db w') i = Some StateEnded}" using moves[of i] by (auto split: if_splits)
  qed
qed

section \<open>Properties\<close>

text \<open>
  C37. The sweep's report is exact: with no other writer, whatever the driver fails, the ids reported are
  sorted, without repeats and exactly the rows that were live before and are missing after; the count is their
  number; an unverified row kept its state and is in no other list; and every other row kept its state or, as a
  live row, ended.
\<close>

theorem sweep_reports_what_it_marked:
  assumes "alone (me_host e)" and "distinct (map s_instance_id (spawns (w_db w)))" and "FindMissing e grace budget w = (res, None, w')"
  shows "set (fr_IDs res) = {i. live_in (w_db w) i \<and> states (w_db w') i = Some StateMissing}
     \<and> sorted (fr_IDs res) \<and> distinct (fr_IDs res) \<and> fr_Count res = int (length (fr_IDs res))
     \<and> sorted (fr_UnverifiedIDs res) \<and> distinct (fr_UnverifiedIDs res) \<and> fr_Unverified res = int (length (fr_UnverifiedIDs res))
     \<and> set (fr_IDs res) \<inter> set (fr_UnverifiedIDs res) = {}
     \<and> list_all (\<lambda>i. states (w_db w') i = states (w_db w) i) (fr_UnverifiedIDs res)
     \<and> {i. states (w_db w') i \<noteq> states (w_db w) i} - set (fr_IDs res)
         \<subseteq> {i. live_in (w_db w) i \<and> states (w_db w') i = Some StateEnded}"
proof -
  obtain m u where r: "res = sweepResult (sort m) (sort u)"
    and s: "swept_rows {s_instance_id r | r. r \<in> set (spawns (w_db w)) \<and> IsLiveState (s_state r)} m u w w'"
    using FindMissing_swept_rows[OF assms] by blast
  note f = swept_rows_lists[OF assms(2) s]
  have res: "fr_IDs res = sort m" "fr_UnverifiedIDs res = sort u" "fr_Count res = int (length (sort m))" "fr_Unverified res = int (length (sort u))"
    by (simp_all add: r sweepResult_def)
  have "list_all (\<lambda>i. states (w_db w') i = states (w_db w) i) (sort u)" using f(2) by (simp only: list_all_iff set_sort)
  then show ?thesis
    unfolding res set_sort using f(1,3,4,5,6) by (intro conjI; (simp only: distinct_sort sorted_sort | assumption))
qed

theorem sweep_reports_what_it_marked_witness:
  "states (w_db (snd (snd (FindMissing sample_missing_env 0 1000 sample_gone_world)))) ''a'' = Some StateMissing"
proof -
  obtain res err w' where run: "FindMissing sample_missing_env 0 1000 sample_gone_world = (res, err, w')" by (metis prod.collapse)
  with sample_gone_run have ids: "fr_IDs res = [''a'']" and "err = None" by (simp_all add: Let_def)
  then have ok: "FindMissing sample_missing_env 0 1000 sample_gone_world = (res, None, w')" using run by simp
  have "alone (me_host sample_missing_env)" by (simp add: alone_def sample_missing_env_def sample_host_def)
  moreover have "distinct (map s_instance_id (spawns (w_db sample_gone_world)))"
    by (simp add: sample_gone_world_def sample_db_def)
  ultimately have "set (fr_IDs res) = {i. live_in (w_db sample_gone_world) i \<and> states (w_db w') i = Some StateMissing}"
    using sweep_reports_what_it_marked[OF _ _ ok] by blast
  with ids have "states (w_db w') ''a'' = Some StateMissing" by auto
  then show ?thesis using run by simp
qed

end
