(* ===== verification/Relay_Delivery.thy ===== *)
theory Relay_Delivery
  imports Missing_Run
begin

text \<open>
  What a reader of permission requests derives from their records and their relay hooks (pkg/api:
  relay_delivery.go, deliverability.go): the judgement of a hook's process, the delivery facts, the
  check-before-read rule, the fallback write of a reader, and find-missing's repair of a stale
  check_permission (find_missing_repair.go). Instants are nanoseconds; a stored timestamp text is read by
  the driver (\<open>rv_readTime\<close>, milliseconds). The process table is read at one moment for each request.
\<close>

section \<open>The view of a reader\<close>

record RelayView =
  rv_Procs :: bool
  rv_PIDNamespace :: "string option"
  rv_Window :: int
  rv_readTime :: "string \<Rightarrow> int"

datatype hookVerdict = hookCantTell | hookAlive | hookGone

definition zeroNanos :: int where "zeroNanos = ofMillis zeroTime"

definition nullableTime :: "int \<Rightarrow> int option" where
  "nullableTime t = (if t = zeroNanos then None else Some t)"

definition nullableString :: "string \<Rightarrow> string option" where
  "nullableString x = (if x = [] then None else Some x)"

definition CreatedInstant :: "RelayView \<Rightarrow> PermissionRow \<Rightarrow> int" where
  "CreatedInstant v pr = ofMillis (rv_readTime v (CreatedAt pr))"

definition DecidedInstant :: "RelayView \<Rightarrow> PermissionRow \<Rightarrow> int" where
  "DecidedInstant v pr = (if DecidedAt pr = [] then zeroNanos else ofMillis (rv_readTime v (DecidedAt pr)))"

section \<open>Deliverability of a request recorded before schema v7\<close>

abbreviation RelayKillSafetyMargin :: int where "RelayKillSafetyMargin \<equiv> Second"
abbreviation createdAtResolution :: int where "createdAtResolution \<equiv> Second"

definition RelayDeliverabilityCutoff :: "int \<Rightarrow> int \<Rightarrow> int" where
  "RelayDeliverabilityCutoff now effectiveWindow = now + wrap64 (- wrap64 (effectiveWindow - RelayKillSafetyMargin))"

definition RelayRequestUndeliverable :: "int \<Rightarrow> int \<Rightarrow> int \<Rightarrow> bool" where
  "RelayRequestUndeliverable createdAt effectiveWindow now \<longleftrightarrow> \<not> createdAt > RelayDeliverabilityCutoff now effectiveWindow"

definition relayGuardHold :: "int \<Rightarrow> int" where
  "relayGuardHold effectiveWindow = wrap64 (effectiveWindow + RelayKillSafetyMargin + createdAtResolution)"

definition relayHookSettledAt :: "int \<Rightarrow> int \<Rightarrow> int" where
  "relayHookSettledAt createdAt effectiveWindow = createdAt + relayGuardHold effectiveWindow"

definition relayRequestFallenBack :: "RelayView \<Rightarrow> PermissionRow \<Rightarrow> int \<Rightarrow> bool" where
  "relayRequestFallenBack v pr now \<longleftrightarrow>
     Decision pr = [] \<and> \<not> now < relayHookSettledAt (CreatedInstant v pr) (rv_Window v)"

section \<open>The judgement of a relay hook\<close>

definition judgeRecorded :: "RelayView \<Rightarrow> procs \<Rightarrow> ProcessIdentity \<Rightarrow> hookVerdict" where
  "judgeRecorded v pc x =
     (if pi_PID x \<le> 0 \<or> pi_Starttime x = [] \<or> \<not> rv_Procs v \<or> rv_PIDNamespace v \<noteq> Some (pi_PIDNamespace x) then hookCantTell
      else (case JudgeProcess pc \<lparr>pi_Pid = pi_PID x, pi_Start = pi_Starttime x\<rparr> of
          ProcAlive \<Rightarrow> hookAlive
        | ProcGone \<Rightarrow> hookGone
        | _ \<Rightarrow> hookCantTell))"

definition hookVerdictOf :: "host \<Rightarrow> RelayView \<Rightarrow> PermissionRow \<Rightarrow> world \<Rightarrow> hookVerdict \<times> world" where
  "hookVerdictOf h v pr w = (let w1 = tick h w in (judgeRecorded v (w_procs w1) (Hook pr), w1))"

definition confirmBy :: "RelayView \<Rightarrow> PermissionRow \<Rightarrow> int" where
  "confirmBy v pr = (if PreV7 pr then relayHookSettledAt (CreatedInstant v pr) (rv_Window v) else ofMillis (SettledAt pr))"

definition RelayHookGone :: "host \<Rightarrow> RelayView \<Rightarrow> PermissionRow \<Rightarrow> world \<Rightarrow> bool \<times> world" where
  "RelayHookGone h v pr w = (case hookVerdictOf h v pr w of
     (hookGone, w1) \<Rightarrow> (True, w1)
   | (hookAlive, w1) \<Rightarrow> (False, w1)
   | (hookCantTell, w1) \<Rightarrow> (case clock_now h w1 of (now, w2) \<Rightarrow> (\<not> now < confirmBy v pr, w2)))"

section \<open>Delivery facts\<close>

abbreviation "DeliveryDelivered \<equiv> ''delivered''"
abbreviation "DeliveryNotConfirmed \<equiv> ''not_confirmed''"
abbreviation "DeliveryFallenBack \<equiv> ''fallen_back''"

definition deliveryOf :: "PermissionRow \<Rightarrow> hookVerdict \<Rightarrow> bool \<Rightarrow> string" where
  "deliveryOf pr verdict settled =
     (if DeliveredAt pr \<noteq> zeroTime then DeliveryDelivered
      else if PaneAnswered pr then DeliveryFallenBack
      else if PreV7 pr
      then (if \<not> settled then DeliveryNotConfirmed
            else if Decision pr \<noteq> [] \<and> \<not> CloseDenied pr then DeliveryDelivered
            else DeliveryFallenBack)
      else if verdict = hookAlive then DeliveryNotConfirmed
      else if verdict = hookGone \<or> settled then DeliveryFallenBack
      else DeliveryNotConfirmed)"

definition unprovenSince :: "RelayView \<Rightarrow> PermissionRow \<Rightarrow> int" where
  "unprovenSince v pr =
     (if ProvenGone pr then zeroNanos
      else if DeliveredAt pr \<noteq> zeroTime then ofMillis (DeliveredAt pr)
      else if PaneAnswered pr then DecidedInstant v pr
      else if Closed pr then ofMillis (ClosedAt pr)
      else if PreV7 pr \<and> Decision pr \<noteq> [] then DecidedInstant v pr
      else zeroNanos)"

definition paneAnswerOf :: "PermissionRow \<Rightarrow> string" where
  "paneAnswerOf pr = (if PaneAnswer pr = [] then PaneAnswerNone else PaneAnswer pr)"

record RequestDelivery =
  rd_observation :: FallbackObservation
  rd_request :: PermissionRow
  rd_Delivery :: string
  rd_ConfirmBy :: int
  rd_HookAlive :: "bool option"
  rd_HookGoneAt :: "int option"
  rd_AttemptedDecision :: "string option"
  rd_AttemptedAt :: "int option"
  rd_ToolUseID :: "string option"
  rd_PaneAnswer :: string
  rd_PaneAs :: "string option"
  rd_ProvenGoneAt :: "int option"
  rd_ProvenGoneHow :: "string option"
  rd_UnprovenSince :: "int option"

definition deliveryFacts :: "RelayView \<Rightarrow> PermissionRow \<Rightarrow> hookVerdict \<Rightarrow> int \<Rightarrow> RequestDelivery" where
  "deliveryFacts v pr verdict now =
     \<lparr>rd_observation = \<lparr>fo_RequestID = RequestID pr, fo_ConfirmBy = confirmBy v pr, fo_ProcessGone = (verdict = hookGone),
                       fo_CantTell = (verdict = hookCantTell)\<rparr>,
      rd_request = pr, rd_Delivery = deliveryOf pr verdict (\<not> now < confirmBy v pr), rd_ConfirmBy = confirmBy v pr,
      rd_HookAlive = (case verdict of hookAlive \<Rightarrow> Some True | hookGone \<Rightarrow> Some False | hookCantTell \<Rightarrow> None),
      rd_HookGoneAt = nullableTime (ofMillis (HookGoneAt pr)), rd_AttemptedDecision = nullableString (AttemptedDecision pr),
      rd_AttemptedAt = nullableTime (ofMillis (AttemptedAt pr)), rd_ToolUseID = nullableString (ToolUseID pr),
      rd_PaneAnswer = paneAnswerOf pr, rd_PaneAs = nullableString (PaneAs pr),
      rd_ProvenGoneAt = nullableTime (ofMillis (ProvenGoneAt pr)), rd_ProvenGoneHow = nullableString (ProvenGoneHow pr),
      rd_UnprovenSince = nullableTime (unprovenSince v pr)\<rparr>"

section \<open>Check before read\<close>

text \<open>A read of one request gives none for \<open>sql.ErrNoRows\<close>.\<close>

type_synonym 'a reader = "world \<Rightarrow> (store_error + 'a) \<times> world"

definition readOneJudged :: "host \<Rightarrow> RelayView \<Rightarrow> PermissionRow option reader \<Rightarrow> (PermissionRow \<times> hookVerdict) option reader" where
  "readOneJudged h v read w = (case read w of
     (Inl e, w1) \<Rightarrow> (Inl e, w1)
   | (Inr None, w1) \<Rightarrow> (Inr None, w1)
   | (Inr (Some pr), w1) \<Rightarrow> (case hookVerdictOf h v pr w1 of (verdict, w2) \<Rightarrow> (case read w2 of
         (Inl e, w3) \<Rightarrow> (Inl e, w3)
       | (Inr again, w3) \<Rightarrow> (Inr (map_option (\<lambda>x. (x, verdict)) again), w3))))"

fun judgeHooks :: "host \<Rightarrow> RelayView \<Rightarrow> PermissionRow list \<Rightarrow> (int \<Rightarrow> hookVerdict) \<Rightarrow> world \<Rightarrow> (int \<Rightarrow> hookVerdict) \<times> world" where
  "judgeHooks h v [] verdicts w = (verdicts, w)"
| "judgeHooks h v (pr # prs) verdicts w = (case hookVerdictOf h v pr w of
     (verdict, w1) \<Rightarrow> judgeHooks h v prs (verdicts(RequestID pr := verdict)) w1)"

definition readManyJudged :: "host \<Rightarrow> RelayView \<Rightarrow> PermissionRow list reader \<Rightarrow> (PermissionRow list \<times> (int \<Rightarrow> hookVerdict)) reader" where
  "readManyJudged h v read w = (case read w of
     (Inl e, w1) \<Rightarrow> (Inl e, w1)
   | (Inr first, w1) \<Rightarrow>
       if first = [] then (Inr ([], \<lambda>_. hookCantTell), w1)
       else (case judgeHooks h v first (\<lambda>_. hookCantTell) w1 of (verdicts, w2) \<Rightarrow> (case read w2 of
           (Inl e, w3) \<Rightarrow> (Inl e, w3)
         | (Inr rows, w3) \<Rightarrow> (Inr (rows, verdicts), w3))))"

section \<open>The fallback write of a reader\<close>

definition addGone :: "RelayView \<Rightarrow> RequestDelivery list \<Rightarrow> RequestDelivery \<Rightarrow> string \<Rightarrow> string \<Rightarrow> int \<Rightarrow> RequestDelivery list" where
  "addGone v slots d agent relayMode now =
     (if rd_Delivery d \<noteq> DeliveryFallenBack then slots
      else if rd_HookGoneAt d = None then slots @ [d]
      else if FallbackAt (rd_request d) \<noteq> zeroTime then slots
      else if fst (FallbackClock (rv_readTime v) agent relayMode (rd_request d) (rd_observation d) now) \<noteq> zeroNanos then slots @ [d]
      else slots)"

text \<open>\<open>recordGone\<close> fills the slots with what is stored: the facts of a slot's request are updated by it.\<close>

definition recordGone :: "host \<Rightarrow> RelayView \<Rightarrow> int \<Rightarrow> RequestDelivery list \<Rightarrow> world \<Rightarrow> (RequestDelivery \<Rightarrow> RequestDelivery) \<times> world" where
  "recordGone h v at slots w =
     (if slots = [] then (id, w)
      else (case store_call h (\<lambda>s _. RecordPermissionFallbacks s (rv_readTime v) at (map rd_observation slots)) w of
          (Inl _, w1) \<Rightarrow> (id, w1)
        | (Inr stored, w1) \<Rightarrow>
            (\<lambda>d. (if fo_RequestID (rd_observation d) \<in> fo_RequestID ` rd_observation ` set slots
                  then (case map_of stored (fo_RequestID (rd_observation d)) of
                      Some t \<Rightarrow> if t \<noteq> zeroTime then d\<lparr>rd_HookGoneAt := Some (ofMillis t)\<rparr> else d
                    | None \<Rightarrow> d)
                  else d), w1)))"

section \<open>get-permission\<close>

record GetPermissionResult =
  gp_RequestToken :: string
  gp_RequestID :: int
  gp_ToolName :: string
  gp_ToolInput :: string
  gp_RequestedAt :: int
  gp_Decision :: "string option"
  gp_DecisionReason :: "string option"
  gp_DecidedAt :: "int option"
  gp_Delivery :: RequestDelivery

definition GetPermission :: "host \<Rightarrow> RelayView \<Rightarrow> string \<Rightarrow> GetPermissionResult reader" where
  "GetPermission h v token w =
     (case readOneJudged h v (\<lambda>w. map_prod (map_sum id Some) id (store_read h (\<lambda>s. GetPermissionRequestByToken s token) w)) w of
        (Inl e, w1) \<Rightarrow> (Inl e, w1)
      | (Inr None, w1) \<Rightarrow> (Inl ErrPermissionRequestNotFound, w1)
      | (Inr (Some (row, verdict)), w1) \<Rightarrow> (case clock_now h w1 of (now, w2) \<Rightarrow>
          (let d = deliveryFacts v row verdict now in
           case recordGone h v now (addGone v [] d [] [] now) w2 of (fill, w3) \<Rightarrow>
             (Inr \<lparr>gp_RequestToken = RequestToken row, gp_RequestID = RequestID row, gp_ToolName = ToolName row, gp_ToolInput = ToolInput row,
                gp_RequestedAt = CreatedInstant v row, gp_Decision = nullableString (Decision row),
                gp_DecisionReason = nullableString (DecisionReason row), gp_DecidedAt = nullableTime (DecidedInstant v row),
                gp_Delivery = fill d\<rparr>, w3))))"

section \<open>The repair of a stale check\_permission\<close>

abbreviation "reasonStaleCheckPermission \<equiv> ''stale_check_permission''"

fun mayHaveLiveHook :: "host \<Rightarrow> RelayView \<Rightarrow> int \<Rightarrow> PermissionRow list \<Rightarrow> world \<Rightarrow> bool \<times> world" where
  "mayHaveLiveHook h v now [] w = (False, w)"
| "mayHaveLiveHook h v now (pr # reqs) w =
     (if Closed pr \<or> \<not> now < confirmBy v pr then mayHaveLiveHook h v now reqs w
      else (case hookVerdictOf h v pr w of (verdict, w1) \<Rightarrow>
        if verdict \<noteq> hookGone then (True, w1) else mayHaveLiveHook h v now reqs w1))"

definition repairRow :: "host \<Rightarrow> RelayView \<Rightarrow> LiveSpawnIdentity \<Rightarrow> world \<Rightarrow> world" where
  "repairRow h v it w =
     (if it_State it \<noteq> StateCheckPermission then w
      else (case store_read h (\<lambda>s. PermissionRequestsForSpawn s (it_InstanceID it)) w of
          (Inl _, w1) \<Rightarrow> w1
        | (Inr reqs, w1) \<Rightarrow> (case clock_now h w1 of (now, w2) \<Rightarrow> (case mayHaveLiveHook h v now reqs w2 of
              (True, w3) \<Rightarrow> w3
            | (False, w3) \<Rightarrow>
                (case store_call h (\<lambda>s _. RepairCheckPermissionIfSameLife s (it_InstanceID it) (it_Snapshot it)) w3 of
                   (Inl _, w4) \<Rightarrow> w4
                 | (Inr (newState, res), w4) \<Rightarrow>
                     if res \<noteq> CondApplied then w4
                     else trail_Emit (findMissingTickEvent, [(''instance_id'', TS (it_InstanceID it)),
                       (''prior_state'', TS StateCheckPermission), (''new_state'', TS newState),
                       (''reconciliation_reason'', TS reasonStaleCheckPermission), (''source'', TS findMissingTickSource)]) w4)))))"

definition RepairCheckPermission :: "host \<Rightarrow> RelayView \<Rightarrow> world \<Rightarrow> world" where
  "RepairCheckPermission h v w = (case store_read h ListLiveSpawnIdentities w of
     (Inl _, w1) \<Rightarrow> w1
   | (Inr rows, w1) \<Rightarrow> fold (repairRow h v) rows w1)"

end
