(* ===== verification/Send_Guard.thy ===== *)
theory Send_Guard
  imports Relay_Delivery
begin

text \<open>
  When keys may be sent to an agent's pane on account of its permission requests, and when a request may be
  recorded as answered outside (pkg/api: sendkeys_relay.go, the checks of decide.go, send-keys and
  record\_pane\_answer.go, the details of error\_details.go). A refusal is a value: its sentinel, why, and the
  facts its err\_details carry; the wording of a message is not modelled.
\<close>

section \<open>Refusals\<close>

record PermissionRequestInfo =
  ri_RequestID :: int
  ri_RequestToken :: string
  ri_ToolName :: string
  ri_ToolInput :: string
  ri_RequestedAt :: int
  ri_Decision :: "string option"
  ri_DecisionReason :: "string option"
  ri_Delivery :: RequestDelivery

record OpenRequestFacts =
  of_RequestToken :: string
  of_ToolName :: string
  of_RequestedAt :: int
  of_Delivery :: string
  of_HookAlive :: "bool option"
  of_PaneAnswer :: string

text \<open>\<open>fb_OpenRequests\<close> is none (null) when the other requests could not be read.\<close>

record RelayFallenBackDetails =
  fb_Request :: PermissionRequestInfo
  fb_State :: string
  fb_OpenRequests :: "OpenRequestFacts list option"

record DialogMaybeOpenDetails =
  dm_Request :: PermissionRequestInfo
  dm_State :: string
  dm_UnprovenRequests :: "PermissionRequestInfo list"

record PaneAnswerInProgressDetails =
  pp_RequestToken :: string
  pp_PaneAs :: string
  pp_PaneIntentAt :: int
  pp_SenderAlive :: "bool option"
  pp_NotBefore :: "int option"

record ClaimTooSoonDetails =
  ts_RequestToken :: string
  ts_HookAlive :: "bool option"
  ts_HookGoneAt :: "int option"
  ts_NotBefore :: "int option"

text \<open>Why no request is open, and how one was answered already.\<close>

datatype no_open =
    NoSuchRequest
  | ClosedUndelivered
  | SpawnFinished string
  | AskingAgentGone
  | PaneAnswerBegun string
  | NotShown string
  | WriteWasNoOp

datatype answered =
    AnsweredAtPane string
  | DecidedAs string string
  | DeliveredAs string string

datatype api_error =
    StoreRefused store_error
  | ErrMissingRequestToken
  | ErrInvalidDecision string
  | ErrInvalidFlags
  | ErrRelayModeOff string
  | NoOpenRequest no_open
  | AlreadyAnswered answered
  | ErrRelayFallenBack RelayFallenBackDetails
  | ErrSendKeysWhileRelayed string bool
  | ErrDialogMaybeOpen DialogMaybeOpenDetails
  | ErrPaneAnswerInProgress PaneAnswerInProgressDetails
  | ErrClaimTooSoon ClaimTooSoonDetails
  | BusyUntil int
  | UnnamedBusy

definition permissionRequestInfo :: "RelayView \<Rightarrow> PermissionRow \<Rightarrow> RequestDelivery \<Rightarrow> PermissionRequestInfo" where
  "permissionRequestInfo v pr d = \<lparr>ri_RequestID = RequestID pr, ri_RequestToken = RequestToken pr, ri_ToolName = ToolName pr,
     ri_ToolInput = ToolInput pr, ri_RequestedAt = CreatedInstant v pr, ri_Decision = nullableString (Decision pr),
     ri_DecisionReason = nullableString (DecisionReason pr), ri_Delivery = d\<rparr>"

definition finishedRow :: "string \<Rightarrow> bool" where
  "finishedRow state \<longleftrightarrow> state = StateEnded \<or> state = StateMissing"

definition paneAnsweredError :: "PermissionRow \<Rightarrow> api_error" where
  "paneAnsweredError pr = AlreadyAnswered (AnsweredAtPane (PaneAnswer pr))"

definition alreadyDecidedError :: "PermissionRow \<Rightarrow> api_error" where
  "alreadyDecidedError pr = AlreadyAnswered (DecidedAs (Decision pr) (DecisionReason pr))"

definition recordedRefusal :: "PermissionRow \<Rightarrow> api_error" where
  "recordedRefusal pr =
     (if Closed pr \<and> DeliveredAt pr = zeroTime \<and> DecisionReason pr \<noteq> DecisionReasonFindMissing then NoOpenRequest ClosedUndelivered
      else if PaneAnswered pr then paneAnsweredError pr
      else alreadyDecidedError pr)"

section \<open>One judged read of a row's requests\<close>

record spawnRequests =
  sr_view :: RelayView
  sr_sp :: Spawn
  sr_rows :: "PermissionRow list"
  sr_verdicts :: "int \<Rightarrow> hookVerdict"
  sr_now :: int

definition newSpawnRequests :: "RelayView \<Rightarrow> Spawn \<Rightarrow> PermissionRow list \<Rightarrow> (int \<Rightarrow> hookVerdict) \<Rightarrow> int \<Rightarrow> spawnRequests" where
  "newSpawnRequests v sp rows verdicts now = \<lparr>sr_view = v, sr_sp = sp,
     sr_rows = sort_key (CreatedInstant v) (sort_key RequestID rows), sr_verdicts = verdicts, sr_now = now\<rparr>"

definition judgedRequests :: "host \<Rightarrow> RelayView \<Rightarrow> PermissionRow list reader \<Rightarrow> Spawn \<Rightarrow> spawnRequests reader" where
  "judgedRequests h v read sp w = (case readManyJudged h v read w of
     (Inl e, w1) \<Rightarrow> (Inl e, w1)
   | (Inr (rows, verdicts), w1) \<Rightarrow> (case clock_now h w1 of (now, w2) \<Rightarrow> (Inr (newSpawnRequests v sp rows verdicts now), w2)))"

definition lockedRequests :: "host \<Rightarrow> RelayView \<Rightarrow> Spawn \<Rightarrow> PermissionRow list \<Rightarrow> world \<Rightarrow> spawnRequests \<times> world" where
  "lockedRequests h v sp rows w = (case judgeHooks h v rows (\<lambda>_. hookCantTell) w of
     (verdicts, w1) \<Rightarrow> (case clock_now h w1 of (now, w2) \<Rightarrow> (newSpawnRequests v sp rows verdicts now, w2)))"

definition sr_delivery :: "spawnRequests \<Rightarrow> PermissionRow \<Rightarrow> RequestDelivery" where
  "sr_delivery r pr = deliveryFacts (sr_view r) pr (sr_verdicts r (RequestID pr)) (sr_now r)"

definition legacyRequestAgentGone :: "PermissionRow \<Rightarrow> bool" where
  "legacyRequestAgentGone pr \<longleftrightarrow> PreV7 pr \<and> Decision pr \<noteq> [] \<and> ProvenGone pr \<and> ProvenGoneHow pr = ProvenGoneAgentGone"

definition sr_closed :: "spawnRequests \<Rightarrow> PermissionRow \<Rightarrow> bool" where
  "sr_closed r pr \<longleftrightarrow> finishedRow (sp_State (sr_sp r)) \<or> Closed pr \<or> PaneAnswered pr \<or> legacyRequestAgentGone pr"

definition sr_awaits :: "spawnRequests \<Rightarrow> PermissionRow \<Rightarrow> bool" where
  "sr_awaits r pr \<longleftrightarrow> \<not> finishedRow (sp_State (sr_sp r)) \<and> AwaitsAnswer pr"

definition hookMayAnswer :: "spawnRequests \<Rightarrow> PermissionRow \<Rightarrow> bool" where
  "hookMayAnswer r pr \<longleftrightarrow> \<not> sr_closed r pr
     \<and> (sr_verdicts r (RequestID pr) = hookAlive \<or> rd_Delivery (sr_delivery r pr) = DeliveryNotConfirmed)"

definition fallenBack :: "spawnRequests \<Rightarrow> PermissionRow \<Rightarrow> bool" where
  "fallenBack r pr \<longleftrightarrow> \<not> sr_closed r pr \<and> rd_Delivery (sr_delivery r pr) = DeliveryFallenBack"

fun holderFrom :: "spawnRequests \<Rightarrow> PermissionRow option \<Rightarrow> PermissionRow list \<Rightarrow> PermissionRow option" where
  "holderFrom r held [] = held"
| "holderFrom r held (pr # prs) =
     (if \<not> hookMayAnswer r pr then holderFrom r held prs
      else holderFrom r (case held of None \<Rightarrow> Some pr
                         | Some x \<Rightarrow> if sr_awaits r pr \<and> \<not> sr_awaits r x then Some pr else Some x) prs)"

definition liveHolder :: "spawnRequests \<Rightarrow> PermissionRow option" where
  "liveHolder r = holderFrom r None (sr_rows r)"

definition oldestFallenBack :: "spawnRequests \<Rightarrow> PermissionRow option" where
  "oldestFallenBack r = find (fallenBack r) (sr_rows r)"

definition unprovenRequests :: "spawnRequests \<Rightarrow> PermissionRow list" where
  "unprovenRequests r = filter (HoldsDialog (sp_Agent (sr_sp r)) (li_Token (sp_Identity (sr_sp r)))) (sr_rows r)"

definition findRequest :: "spawnRequests \<Rightarrow> string \<Rightarrow> PermissionRow option" where
  "findRequest r token = find (\<lambda>pr. RequestToken pr = token) (sr_rows r)"

definition openFacts :: "spawnRequests \<Rightarrow> PermissionRow \<Rightarrow> OpenRequestFacts" where
  "openFacts r o' = \<lparr>of_RequestToken = RequestToken o', of_ToolName = ToolName o', of_RequestedAt = CreatedInstant (sr_view r) o',
     of_Delivery = rd_Delivery (sr_delivery r o'), of_HookAlive = rd_HookAlive (sr_delivery r o'), of_PaneAnswer = PaneAnswer o'\<rparr>"

definition fallenBackDetails :: "spawnRequests \<Rightarrow> PermissionRow \<Rightarrow> RelayFallenBackDetails" where
  "fallenBackDetails r pr = \<lparr>fb_Request = permissionRequestInfo (sr_view r) pr (sr_delivery r pr), fb_State = sp_State (sr_sp r),
     fb_OpenRequests = Some (map (openFacts r) (filter (\<lambda>o'. RequestID o' \<noteq> RequestID pr \<and> sr_awaits r o') (sr_rows r)))\<rparr>"

definition dialogMaybeOpenDetails :: "spawnRequests \<Rightarrow> PermissionRow \<Rightarrow> PermissionRow list \<Rightarrow> DialogMaybeOpenDetails" where
  "dialogMaybeOpenDetails r pr rest =
     (let info = (\<lambda>x. permissionRequestInfo (sr_view r) x (sr_delivery r x))
      in \<lparr>dm_Request = info pr, dm_State = sp_State (sr_sp r), dm_UnprovenRequests = map info rest\<rparr>)"

section \<open>send-keys\<close>

definition relayGuardRefusal :: "PermissionRow \<Rightarrow> api_error" where
  "relayGuardRefusal pr = ErrSendKeysWhileRelayed (RequestToken pr) (Decision pr \<noteq> [])"

definition notFallenBackRefusal :: "spawnRequests \<Rightarrow> PermissionRow \<Rightarrow> api_error option" where
  "notFallenBackRefusal r pr =
     (if fallenBack r pr then None
      else if finishedRow (sp_State (sr_sp r)) then Some (NoOpenRequest (SpawnFinished (sp_State (sr_sp r))))
      else if Closed pr then Some (recordedRefusal pr)
      else if PaneAnswered pr then Some (paneAnsweredError pr)
      else if legacyRequestAgentGone pr
      then Some (if DecisionReason pr = DecisionReasonFindMissing then alreadyDecidedError pr else NoOpenRequest AskingAgentGone)
      else if rd_Delivery (sr_delivery r pr) = DeliveryDelivered
      then Some (AlreadyAnswered (DeliveredAs (Decision pr) (DecisionReason pr)))
      else Some (relayGuardRefusal pr))"

text \<open>The sender is judged when it is asked, in the process table of that moment.\<close>

definition paneInProgress :: "spawnRequests \<Rightarrow> procs \<Rightarrow> PermissionRow \<Rightarrow> int \<Rightarrow> bool \<times> bool option \<times> int option" where
  "paneInProgress r pc pr hold =
     (if PaneAnswer pr \<noteq> PaneAnswerIntent \<or> PaneIntentAt pr = zeroTime then (False, None, None)
      else (case judgeRecorded (sr_view r) pc (PaneSender pr) of
          hookAlive \<Rightarrow> (True, Some True, None)
        | hookGone \<Rightarrow> (False, None, None)
        | hookCantTell \<Rightarrow>
            (let until = ofMillis (PaneIntentAt pr) + hold
             in if sr_now r < until then (True, None, Some until) else (False, None, None))))"

definition inProgressRefusal :: "spawnRequests \<Rightarrow> procs \<Rightarrow> PermissionRow \<Rightarrow> int \<Rightarrow> api_error option" where
  "inProgressRefusal r pc pr hold = (case paneInProgress r pc pr hold of (busy, alive, until) \<Rightarrow>
     if \<not> busy then None
     else Some (ErrPaneAnswerInProgress \<lparr>pp_RequestToken = RequestToken pr, pp_PaneAs = PaneAs pr,
       pp_PaneIntentAt = ofMillis (PaneIntentAt pr), pp_SenderAlive = alive, pp_NotBefore = until\<rparr>))"

definition sendKeysRefusal :: "spawnRequests \<Rightarrow> procs \<Rightarrow> string \<Rightarrow> string \<Rightarrow> int \<Rightarrow> api_error option" where
  "sendKeysRefusal r pc token expectPaneSHA256 hold =
     (case liveHolder r of
        Some pr \<Rightarrow> Some (relayGuardRefusal pr)
      | None \<Rightarrow>
          if token = []
          then (case oldestFallenBack r of
              Some pr \<Rightarrow> Some (ErrRelayFallenBack (fallenBackDetails r pr))
            | None \<Rightarrow> (case unprovenRequests r of
                [] \<Rightarrow> None
              | pr # rest \<Rightarrow> if expectPaneSHA256 = [] then Some (ErrDialogMaybeOpen (dialogMaybeOpenDetails r pr rest)) else None))
          else (case findRequest r token of
              None \<Rightarrow> Some (NoOpenRequest NoSuchRequest)
            | Some pr \<Rightarrow> (case notFallenBackRefusal r pr of
                Some e \<Rightarrow> Some e
              | None \<Rightarrow> inProgressRefusal r pc pr hold)))"

text \<open>A writing verb records what it found gone; the rows it goes on with carry what is stored.\<close>

definition recordFallenBackGone :: "host \<Rightarrow> spawnRequests \<Rightarrow> world \<Rightarrow> spawnRequests \<times> world" where
  "recordFallenBackGone h r w =
     (let ids = map RequestID (filter (\<lambda>pr. fallenBack r pr \<and> HookGoneAt pr = zeroTime) (sr_rows r))
      in if ids = [] then (r, w)
         else (case store_call h (\<lambda>s _. RecordHookGone s (UnixMilli (sr_now r)) ids) w of
             (Inl _, w1) \<Rightarrow> (r, w1)
           | (Inr stored, w1) \<Rightarrow> (r\<lparr>sr_rows := map (\<lambda>pr. case map_of stored (RequestID pr) of
                 Some t \<Rightarrow> if t \<noteq> zeroTime then pr\<lparr>HookGoneAt := t\<rparr> else pr | None \<Rightarrow> pr) (sr_rows r)\<rparr>, w1)))"

section \<open>record-pane-answer\<close>

abbreviation paneClaimMinAge :: int where "paneClaimMinAge \<equiv> 2 * Second"

definition hookJudgedByTime :: "spawnRequests \<Rightarrow> PermissionRow \<Rightarrow> bool" where
  "hookJudgedByTime r pr \<longleftrightarrow> PreV7 pr \<or> sr_verdicts r (RequestID pr) = hookCantTell"

definition claimNotBefore :: "spawnRequests \<Rightarrow> PermissionRow \<Rightarrow> RequestDelivery \<Rightarrow> int" where
  "claimNotBefore r pr d =
     (let goneAt = (if HookGoneAt pr = zeroTime then sr_now r else ofMillis (HookGoneAt pr))
      in if hookJudgedByTime r pr \<and> \<not> goneAt < rd_ConfirmBy d then rd_ConfirmBy d + paneClaimMinAge else goneAt + paneClaimMinAge)"

definition hookMayAnswerNotBefore :: "RequestDelivery \<Rightarrow> int option" where
  "hookMayAnswerNotBefore d = (if rd_HookAlive d = Some True then None else Some (rd_ConfirmBy d + paneClaimMinAge))"

definition claimTooSoonError :: "PermissionRow \<Rightarrow> RequestDelivery \<Rightarrow> int option \<Rightarrow> api_error" where
  "claimTooSoonError pr d notBefore = ErrClaimTooSoon \<lparr>ts_RequestToken = RequestToken pr, ts_HookAlive = rd_HookAlive d,
     ts_HookGoneAt = nullableTime (ofMillis (HookGoneAt pr)), ts_NotBefore = notBefore\<rparr>"

definition claimRefusal :: "spawnRequests \<Rightarrow> procs \<Rightarrow> string \<Rightarrow> int \<Rightarrow> api_error option" where
  "claimRefusal r pc token hold = (case findRequest r token of
     None \<Rightarrow> Some (NoOpenRequest NoSuchRequest)
   | Some pr \<Rightarrow>
       (let d = sr_delivery r pr in
        if \<not> sr_closed r pr \<and> rd_Delivery d = DeliveryNotConfirmed then Some (claimTooSoonError pr d (hookMayAnswerNotBefore d))
        else (case notFallenBackRefusal r pr of
            Some e \<Rightarrow> Some e
          | None \<Rightarrow> (case inProgressRefusal r pc pr hold of
              Some e \<Rightarrow> Some e
            | None \<Rightarrow>
                if sr_now r < claimNotBefore r pr d then Some (claimTooSoonError pr d (Some (claimNotBefore r pr d))) else None))))"

section \<open>Laws\<close>

lemma holderFrom_None: "holderFrom r held prs = None \<longleftrightarrow> held = None \<and> list_all (\<lambda>pr. \<not> hookMayAnswer r pr) prs"
  by (induction prs arbitrary: held) (auto split: option.splits if_splits)

lemma liveHolder_None: "liveHolder r = None \<longleftrightarrow> list_all (\<lambda>pr. \<not> hookMayAnswer r pr) (sr_rows r)"
  by (simp add: liveHolder_def holderFrom_None)

lemma notFallenBackRefusal_None [simp]: "notFallenBackRefusal r pr = None \<longleftrightarrow> fallenBack r pr"
  by (simp add: notFallenBackRefusal_def)

lemma inProgressRefusal_None: "inProgressRefusal r pc pr hold = None \<longleftrightarrow> \<not> fst (paneInProgress r pc pr hold)"
  by (auto simp: inProgressRefusal_def split: prod.splits)

section \<open>Properties\<close>

definition sample_view :: RelayView where
  "sample_view = \<lparr>rv_Procs = True, rv_PIDNamespace = Some [], rv_Window = 60 * Second, rv_readTime = (\<lambda>_. 0)\<rparr>"

definition sample_relayed :: perm_row where
  "sample_relayed = sample_request\<lparr>pr_settled_at := Some 5, pr_hook_gone_at := Some 4\<rparr>"

definition too_soon :: "api_error option \<Rightarrow> bool" where
  "too_soon e \<longleftrightarrow> (case e of Some (ErrClaimTooSoon _) \<Rightarrow> True | _ \<Rightarrow> False)"

lemma set_newSpawnRequests [simp]: "set (sr_rows (newSpawnRequests v sp rows verdicts now)) = set rows"
  by (simp add: newSpawnRequests_def)

lemma plain_free:
  assumes "sendKeysRefusal r pc [] [] hold = None" and "pr \<in> set (sr_rows r)"
  shows "\<not> hookMayAnswer r pr" and "\<not> fallenBack r pr" and "\<not> HoldsDialog (sp_Agent (sr_sp r)) (li_Token (sp_Identity (sr_sp r))) pr"
proof -
  have "liveHolder r = None" "oldestFallenBack r = None" "unprovenRequests r = []"
    using assms(1) by (auto simp: sendKeysRefusal_def split: option.splits list.splits)
  then show "\<not> hookMayAnswer r pr" "\<not> fallenBack r pr" "\<not> HoldsDialog (sp_Agent (sr_sp r)) (li_Token (sp_Identity (sr_sp r))) pr"
    using assms(2) by (auto simp: liveHolder_None list_all_iff oldestFallenBack_def find_None_iff unprovenRequests_def filter_empty_conv)
qed

lemma delivery_cases:
  "rd_Delivery (sr_delivery r pr) = DeliveryDelivered \<or> rd_Delivery (sr_delivery r pr) = DeliveryNotConfirmed
     \<or> rd_Delivery (sr_delivery r pr) = DeliveryFallenBack"
  by (simp add: sr_delivery_def deliveryFacts_def deliveryOf_def)

lemma delivered_only_if:
  "deliveryOf pr x s = DeliveryDelivered \<Longrightarrow> DeliveredAt pr \<noteq> zeroTime \<or> PreV7 pr \<and> Decision pr \<noteq> []"
  by (auto simp: deliveryOf_def split: if_splits)

lemma delivered_answers:
  assumes "rd_Delivery (sr_delivery r (scanPermissionRow p)) = DeliveryDelivered" and "req_ok p" and "stored_request p"
  shows "\<not> AwaitsAnswer (scanPermissionRow p)"
proof -
  have "pr_delivered_at p \<noteq> None \<or> PreV7 (scanPermissionRow p) \<and> pr_decision p \<noteq> None"
    using assms(1,3)
    by (simp add: sr_delivery_def deliveryFacts_def delivered_only_if)
      (auto dest: delivered_only_if simp: scanPermissionRow_def stored_request_def)
  then have "pr_delivered_at p \<noteq> None \<or> pr_settled_at p = None \<and> pr_decision p \<noteq> None"
    using assms(3) by (auto simp: PreV7_def scanPermissionRow_def stored_request_def)
  moreover have "pr_delivered_at p \<noteq> None \<Longrightarrow> pr_decision p \<noteq> None" using assms(2) by (simp add: req_ok_def)
  ultimately show ?thesis
    unfolding scanned_awaits[OF assms(3)] awaitingAnswer_def by auto
qed

text \<open>
  Plain keys need every dialog gone: when send-keys, with no request named and no pane hash, is not refused
  on account of a live row's requests, none of them awaits an answer, none of their hooks was seen alive
  unless the request is closed, and each was proven gone or is of an earlier Cursor launch.
\<close>

theorem plain_keys_need_every_dialog_gone:
  assumes "sendKeysRefusal (newSpawnRequests v sp (map scanPermissionRow ps) verdicts now) pc [] [] hold = None"
    and "\<not> finishedRow (sp_State sp)" and "p \<in> set ps" and "req_ok p" and "stored_request p"
  shows "\<not> AwaitsAnswer (scanPermissionRow p)
     \<and> (ProvenGone (scanPermissionRow p) \<or> OfEarlierCursorLaunch (sp_Agent sp) (li_Token (sp_Identity sp)) (scanPermissionRow p))
     \<and> (verdicts (pr_request_id p) \<noteq> hookAlive \<or> Closed (scanPermissionRow p) \<or> PaneAnswered (scanPermissionRow p)
        \<or> legacyRequestAgentGone (scanPermissionRow p))"
proof -
  let ?r = "newSpawnRequests v sp (map scanPermissionRow ps) verdicts now" and ?pr = "scanPermissionRow p"
  have sp: "sr_sp ?r = sp" "sr_verdicts ?r = verdicts" "RequestID ?pr = pr_request_id p" by (simp_all add: newSpawnRequests_def scanPermissionRow_def)
  note f = plain_free[OF assms(1), of ?pr, unfolded sp]
  have in_rows: "?pr \<in> set (sr_rows ?r)" using assms(3) by simp
  have "\<not> AwaitsAnswer ?pr"
  proof (cases "sr_closed ?r ?pr")
    case True
    then show ?thesis using assms(2) sp(1) by (auto simp: sr_closed_def AwaitsAnswer_def legacyRequestAgentGone_def)
  next
    case False
    then have "rd_Delivery (sr_delivery ?r ?pr) = DeliveryDelivered"
      using f(1,2)[OF in_rows] delivery_cases[of ?r ?pr] by (auto simp: hookMayAnswer_def fallenBack_def)
    then show ?thesis by (rule delivered_answers[OF _ assms(4,5)])
  qed
  moreover have "verdicts (pr_request_id p) \<noteq> hookAlive \<or> sr_closed ?r ?pr"
    using f(1)[OF in_rows] sp by (auto simp: hookMayAnswer_def)
  ultimately show ?thesis using f(3)[OF in_rows] assms(2) sp by (auto simp: HoldsDialog_def sr_closed_def)
qed

theorem plain_keys_need_every_dialog_gone_witness:
  "\<not> AwaitsAnswer (scanPermissionRow (sample_relayed\<lparr>pr_decision := Some ''deny'', pr_delivered_at := Some 7, pr_proven_gone_at := Some 8, pr_proven_gone_how := Some ''turn_end''\<rparr>))"
proof -
  let ?p = "sample_relayed\<lparr>pr_decision := Some ''deny'', pr_delivered_at := Some 7, pr_proven_gone_at := Some 8, pr_proven_gone_how := Some ''turn_end''\<rparr>"
  have "sendKeysRefusal (newSpawnRequests sample_view (scanSpawn sample_row) (map scanPermissionRow [?p]) (\<lambda>_. hookGone) 0) (\<lambda>_. ([], False, True)) [] [] 0 = None"
    by code_simp
  moreover have "\<not> finishedRow (sp_State (scanSpawn sample_row))" "req_ok ?p" "stored_request ?p" by code_simp+
  ultimately show ?thesis using plain_keys_need_every_dialog_gone[of sample_view "scanSpawn sample_row" "[?p]" "\<lambda>_. hookGone" 0 _ 0 ?p] by simp
qed

text \<open>
  Keys for a request answer one that fell back: when send-keys with a request's token is not refused, the
  request is one of the row's, no ack, completed pane answer or close is recorded on it, its hook was judged
  gone or its confirm time has passed, no sender of its intent was seen running, and no hook of the row's
  other requests may still answer.
\<close>

theorem keys_answer_only_fallen_back_request:
  assumes "sendKeysRefusal (newSpawnRequests v sp rows verdicts now) pc token hash hold = None" and "token \<noteq> []"
  shows "\<exists>pr. pr \<in> set rows \<and> RequestToken pr = token \<and> DeliveredAt pr = zeroTime \<and> \<not> PaneAnswered pr \<and> \<not> Closed pr
     \<and> (verdicts (RequestID pr) = hookGone \<or> confirmBy v pr \<le> now) \<and> \<not> finishedRow (sp_State sp)
     \<and> \<not> (PaneAnswer pr = PaneAnswerIntent \<and> PaneIntentAt pr \<noteq> zeroTime \<and> judgeRecorded v pc (PaneSender pr) = hookAlive)
     \<and> list_all (\<lambda>q. \<not> hookMayAnswer (newSpawnRequests v sp rows verdicts now) q) rows"
proof -
  let ?r = "newSpawnRequests v sp rows verdicts now"
  have fields: "sr_view ?r = v" "sr_sp ?r = sp" "sr_verdicts ?r = verdicts" "sr_now ?r = now" by (simp_all add: newSpawnRequests_def)
  obtain pr where pr: "findRequest ?r token = Some pr" "fallenBack ?r pr" "\<not> fst (paneInProgress ?r pc pr hold)" "liveHolder ?r = None"
    using assms by (auto simp: sendKeysRefusal_def inProgressRefusal_None split: option.splits)
  have in_rows: "pr \<in> set rows" "RequestToken pr = token"
    using pr(1) by (auto simp: findRequest_def find_Some_iff dest: nth_mem)
  have "DeliveredAt pr = zeroTime \<and> (verdicts (RequestID pr) = hookGone \<or> confirmBy v pr \<le> now)" "\<not> PaneAnswered pr" "\<not> Closed pr"
      "\<not> finishedRow (sp_State sp)"
    using pr(2) by (auto simp: fallenBack_def sr_closed_def fields sr_delivery_def deliveryFacts_def deliveryOf_def split: if_splits)
  moreover have "\<not> (PaneAnswer pr = PaneAnswerIntent \<and> PaneIntentAt pr \<noteq> zeroTime \<and> judgeRecorded v pc (PaneSender pr) = hookAlive)"
    using pr(3) by (auto simp: paneInProgress_def fields)
  moreover have "list_all (\<lambda>q. \<not> hookMayAnswer ?r q) rows"
    using pr(4) by (simp add: liveHolder_None list_all_iff)
  ultimately show ?thesis using in_rows by blast
qed

theorem keys_answer_only_fallen_back_request_witness:
  "DeliveredAt (scanPermissionRow sample_relayed) = zeroTime"
proof -
  have "sendKeysRefusal (newSpawnRequests sample_view (scanSpawn sample_row) [scanPermissionRow sample_relayed] (\<lambda>_. hookGone) 0) (\<lambda>_. ([], False, True)) ''k'' [] 0 = None"
    by code_simp
  from keys_answer_only_fallen_back_request[OF this] show ?thesis by simp
qed

definition recorded_gone :: "string \<Rightarrow> int \<Rightarrow> PermissionRow \<Rightarrow> PermissionRow" where
  "recorded_gone token g pr = (if RequestToken pr = token \<and> HookGoneAt pr = zeroTime then pr\<lparr>HookGoneAt := g\<rparr> else pr)"

lemma recorded_gone_same:
  "RequestID (recorded_gone token g pr) = RequestID pr" "RequestToken (recorded_gone token g pr) = RequestToken pr"
  "CreatedInstant v (recorded_gone token g pr) = CreatedInstant v pr" "confirmBy v (recorded_gone token g pr) = confirmBy v pr"
  "deliveryOf (recorded_gone token g pr) = deliveryOf pr" "PreV7 (recorded_gone token g pr) = PreV7 pr"
  "sr_closed r (recorded_gone token g pr) = sr_closed r pr"
  "HookGoneAt pr \<noteq> zeroTime \<Longrightarrow> recorded_gone token g pr = pr"
  by (simp_all add: recorded_gone_def CreatedInstant_def confirmBy_def deliveryOf_def fun_eq_iff PreV7_def PaneAnswered_def CloseDenied_def
      sr_closed_def Closed_def legacyRequestAgentGone_def ProvenGone_def)

lemma find_recorded_gone: "find (\<lambda>pr. RequestToken pr = token) (map (recorded_gone token' g) prs)
     = map_option (recorded_gone token' g) (find (\<lambda>pr. RequestToken pr = token) prs)"
  by (induction prs) (simp_all add: recorded_gone_same)

lemma relay_refusals:
  "notFallenBackRefusal r pr \<noteq> Some (ErrClaimTooSoon x)" "inProgressRefusal r pc pr hold \<noteq> Some (ErrClaimTooSoon x)"
  by (auto simp: notFallenBackRefusal_def recordedRefusal_def paneAnsweredError_def alreadyDecidedError_def relayGuardRefusal_def
      inProgressRefusal_def split: if_splits prod.splits)

text \<open>What a refusal as too soon says of the request.\<close>

lemma too_soon_cases:
  assumes "claimRefusal r pc token hold = Some (ErrClaimTooSoon det)" and "findRequest r token = Some pr"
  shows "\<not> sr_closed r pr \<and> rd_Delivery (sr_delivery r pr) = DeliveryNotConfirmed \<and> ts_NotBefore det = hookMayAnswerNotBefore (sr_delivery r pr)
    \<or> fallenBack r pr \<and> sr_now r < claimNotBefore r pr (sr_delivery r pr) \<and> ts_NotBefore det = Some (claimNotBefore r pr (sr_delivery r pr))"
  using assms relay_refusals by (auto simp: claimRefusal_def Let_def claimTooSoonError_def split: if_splits option.splits)

lemma settled_delivery:
  "deliveryOf pr x True = DeliveryNotConfirmed \<Longrightarrow> x = hookAlive \<and> \<not> PreV7 pr"
  "deliveryOf pr x s = DeliveryFallenBack \<Longrightarrow> deliveryOf pr x True = DeliveryFallenBack"
  "deliveryOf pr x s = DeliveryNotConfirmed \<Longrightarrow> x \<noteq> hookAlive \<Longrightarrow> PreV7 pr \<or> x = hookCantTell"
  "deliveryOf pr x s = DeliveryFallenBack \<Longrightarrow> \<not> PaneAnswered pr \<Longrightarrow> PreV7 pr \<or> x = hookCantTell \<Longrightarrow> s"
  by (cases x; auto simp: deliveryOf_def split: if_splits)+

text \<open>
  A refusal as too soon names a time that works: whatever readers record meanwhile, record-pane-answer of
  the same request at that time or later, its hook judged the same, is not refused as too soon again, when
  its hook is judged by time or the instant it was found gone is recorded.
\<close>

theorem too_soon_names_a_time_that_works:
  assumes "claimRefusal r pc token hold = Some (ErrClaimTooSoon det)" and "ts_NotBefore det = Some t"
    and "t \<le> now'" and "sr_now r \<le> now'"
    and "findRequest r token = Some pr" and "HookGoneAt pr \<noteq> zeroTime \<or> hookJudgedByTime r pr"
  shows "\<not> too_soon (claimRefusal (r\<lparr>sr_now := now', sr_rows := map (recorded_gone token g) (sr_rows r)\<rparr>) pc' token hold)"
proof -
  let ?r' = "r\<lparr>sr_now := now', sr_rows := map (recorded_gone token g) (sr_rows r)\<rparr>" and ?pr' = "recorded_gone token g pr"
  have found: "findRequest ?r' token = Some ?pr'"
    using assms(5) find_recorded_gone[of token token g "sr_rows r"] by (simp add: findRequest_def)
  define c x where "c = confirmBy (sr_view r) pr" and "x = sr_verdicts r (RequestID pr)"
  have d: "rd_Delivery (sr_delivery r pr) = deliveryOf pr x (\<not> sr_now r < c)" "rd_Delivery (sr_delivery ?r' ?pr') = deliveryOf pr x (\<not> now' < c)"
      "rd_ConfirmBy (sr_delivery r pr) = c" "rd_ConfirmBy (sr_delivery ?r' ?pr') = c"
      "rd_HookAlive (sr_delivery r pr) = Some True \<longleftrightarrow> x = hookAlive"
    by (cases x; simp add: sr_delivery_def deliveryFacts_def recorded_gone_same c_def x_def)+
  have timed: "hookJudgedByTime r pr \<longleftrightarrow> PreV7 pr \<or> x = hookCantTell" "hookJudgedByTime ?r' ?pr' = hookJudgedByTime r pr"
    by (simp_all add: hookJudgedByTime_def recorded_gone_same x_def)
  have due: "hookJudgedByTime r pr \<Longrightarrow> claimNotBefore ?r' ?pr' (sr_delivery ?r' ?pr') \<le> c + paneClaimMinAge"
    by (simp add: claimNotBefore_def Let_def timed(2) d(4))
  have closed: "sr_closed ?r' ?pr' = sr_closed r pr" by (simp add: recorded_gone_same) (simp add: sr_closed_def)
  have gone: "claimNotBefore ?r' ?pr' (sr_delivery ?r' ?pr') = claimNotBefore r pr (sr_delivery r pr)" if "HookGoneAt pr \<noteq> zeroTime"
  proof -
    have e: "?pr' = pr" using that by (simp add: recorded_gone_def)
    show ?thesis using that timed(2) d(3,4) unfolding e claimNotBefore_def Let_def by simp
  qed
  have "\<not> (\<not> sr_closed ?r' ?pr' \<and> rd_Delivery (sr_delivery ?r' ?pr') = DeliveryNotConfirmed) \<and> claimNotBefore ?r' ?pr' (sr_delivery ?r' ?pr') \<le> now'"
    using too_soon_cases[OF assms(1,5)]
  proof
    assume "\<not> sr_closed r pr \<and> rd_Delivery (sr_delivery r pr) = DeliveryNotConfirmed \<and> ts_NotBefore det = hookMayAnswerNotBefore (sr_delivery r pr)"
    then have n: "deliveryOf pr x (\<not> sr_now r < c) = DeliveryNotConfirmed" "x \<noteq> hookAlive" "t = c + paneClaimMinAge"
      using assms(2) d by (auto simp: hookMayAnswerNotBefore_def split: if_splits)
    then have "c \<le> now'" using assms(3) by simp
    then show ?thesis using settled_delivery(1)[of pr x] n due timed settled_delivery(3)[OF n(1,2)] assms(3) d(2) by auto
  next
    assume b: "fallenBack r pr \<and> sr_now r < claimNotBefore r pr (sr_delivery r pr)
        \<and> ts_NotBefore det = Some (claimNotBefore r pr (sr_delivery r pr))"
    then have n: "deliveryOf pr x (\<not> sr_now r < c) = DeliveryFallenBack" "\<not> PaneAnswered pr" "t = claimNotBefore r pr (sr_delivery r pr)"
      using assms(2) d by (auto simp: fallenBack_def sr_closed_def)
    have "deliveryOf pr x (\<not> now' < c) = DeliveryFallenBack"
      using n(1) settled_delivery(2)[OF n(1)] assms(4) by (cases "sr_now r < c"; cases "now' < c") auto
    moreover have "claimNotBefore ?r' ?pr' (sr_delivery ?r' ?pr') \<le> now'"
    proof (cases "HookGoneAt pr = zeroTime")
      case True
      with assms(6) have j: "hookJudgedByTime r pr" by simp
      with settled_delivery(4)[OF n(1,2)] timed(1) have "c \<le> sr_now r" by auto
      then have "t = c + paneClaimMinAge" using n(3) j True by (simp add: claimNotBefore_def Let_def d(3))
      with due[OF j] assms(3) show ?thesis by simp
    qed (use gone n(3) assms(3) in simp)
    ultimately show ?thesis using d(2) by simp
  qed
  then show ?thesis using too_soon_cases[OF _ found, of pc' hold]
    by (cases "claimRefusal ?r' pc' token hold") (auto simp: too_soon_def split: api_error.splits)
qed

theorem too_soon_names_a_time_that_works_witness:
  "\<exists>r. too_soon (claimRefusal r (\<lambda>_. ([], False, True)) ''k'' 0)
     \<and> \<not> too_soon (claimRefusal (r\<lparr>sr_now := 2004000000, sr_rows := map (recorded_gone ''k'' 0) (sr_rows r)\<rparr>) (\<lambda>_. ([], False, True)) ''k'' 0)"
proof -
  let ?r = "newSpawnRequests sample_view (scanSpawn sample_row) [scanPermissionRow sample_relayed] (\<lambda>_. hookGone) 10000000"
  let ?e = "claimTooSoonError (scanPermissionRow sample_relayed) (sr_delivery ?r (scanPermissionRow sample_relayed)) (Some 2004000000)"
  obtain det where det: "?e = ErrClaimTooSoon det" "ts_NotBefore det = Some 2004000000" by (simp add: claimTooSoonError_def)
  have refused: "claimRefusal ?r (\<lambda>_. ([], False, True)) ''k'' 0 = Some ?e" by code_simp
  have "HookGoneAt (scanPermissionRow sample_relayed) \<noteq> zeroTime" "findRequest ?r ''k'' = Some (scanPermissionRow sample_relayed)" "sr_now ?r \<le> 2004000000"
    by code_simp+
  then have "\<not> too_soon (claimRefusal (?r\<lparr>sr_now := 2004000000, sr_rows := map (recorded_gone ''k'' 0) (sr_rows ?r)\<rparr>) (\<lambda>_. ([], False, True)) ''k'' 0)"
    using too_soon_names_a_time_that_works[OF refused[unfolded det(1)] det(2), of 2004000000 "scanPermissionRow sample_relayed" 0] by simp
  moreover have "too_soon (claimRefusal ?r (\<lambda>_. ([], False, True)) ''k'' 0)" by (simp add: refused det(1) too_soon_def)
  ultimately show ?thesis by blast
qed

end
