(* ===== verification/Spec2Isabelle.thy ===== *)
theory Spec2Isabelle
  imports Foreign_Hooks Capacity_Laws Missing_Result Send_Guard
begin

text \<open>
  This development models the store of agent-director, the program that starts coding agents (Claude,
  Codex, Cursor) in tmux panes, follows them through the hooks they call, relays their permission
  requests, and finds, resumes, reuses and expires them. Everything these parts agree on is in one
  SQLite file: \<open>src/internal/store\<close> is the package every verb, hook process and sweep goes through,
  from several processes at once, and its guarded statements are what keeps them from undoing each
  other's work. The development follows that package file by file, and the hook process above it
  (\<open>src/internal/hook\<close>) from the payload to the answer.

  \<^bold>\<open>How the code is modelled.\<close> A database is the record \<open>db\<close>: its tables are lists of rows in rowid
  order, with the columns of \<open>schema.go\<close>, the auto-increment counters, the two clocks (SQLite's and
  Go's) and the trail of emitted events. A statement is a function on \<open>db\<close> (\<open>update_where\<close> on the
  rows its \<open>WHERE\<close> clause selects); a statement inside a transaction is a value of type \<open>'a tx\<close>, a
  method of \<open>*Store\<close> one of type \<open>'a call\<close>: both take a database to an error or a result and the
  database afterwards. Errors are the datatype \<open>store_error\<close>. The handle \<open>store\<close> carries what is
  outside the repository's code: \<open>sqlFails\<close> says which statement the driver fails, \<open>others\<close> what
  other connections commit between two statements of a call, \<open>marshalStartup\<close> how a Codex startup
  record is encoded. Theorems either hold for every such handle, or ask that the handle is
  \<open>quiet\<close> (nothing fails, nobody interferes), or that what the others commit keeps an invariant.
  Integers are \<open>int\<close> where SQLite and Go store 64-bit values that the code only compares and
  increments; where a width matters (launch start, pending grace) the bound is written out.

  \<^bold>\<open>Theories.\<close>
  \<^item> \<open>Prelude\<close>, \<open>Go_Text\<close>: list updates, text coercions and the development's collections of rewrite rules;
    Go's trimming of Unicode space.
  \<^item> \<open>Store_Rows\<close>: the tables and value sets (\<open>schema.go\<close>, \<open>spawns.go\<close>, \<open>outcome.go\<close>), the transaction
    frames (\<open>lockwait.go\<close>), the reading rules for columns of any storage class (\<open>rowsnapshot.go\<close>) and
    committed displays (\<open>display.go\<close>).
  \<^item> \<open>Settle\<close>: the raw state, its settle columns and the reported state (\<open>settle.go\<close>).
  \<^item> \<open>Family\<close>: the recursive family aggregate, its refresh, the drain of display exits and the
    lifecycle transaction built from them (\<open>family.go\<close>, \<open>display.go\<close>, \<open>lockwait.go\<close>).
  \<^item> \<open>Requests\<close>, \<open>Request_Writes\<close>: permission requests, the predicates on them in Go and in SQL, their
    inserts, evictions and closes (\<open>permission.go\<close>, \<open>request_close.go\<close>, \<open>relay_writes.go\<close>).
  \<^item> \<open>Hook_Gate\<close>, \<open>Hook_Writes\<close>, \<open>Hook_Laws\<close>: which process's hook may write a row, the writes hooks make
    and their laws (\<open>hook_gate.go\<close>, \<open>hook_writes.go\<close>, \<open>codex_turn.go\<close>, \<open>session_history.go\<close>).
  \<^item> \<open>Verdicts\<close>: decide, ack, timeout, pane answers, proofs and the fallback clock of a request with its write
    (\<open>relay_writes.go\<close>, \<open>pane_writes.go\<close>, \<open>request_proof.go\<close>, \<open>display.go\<close>).
  \<^item> \<open>Launches\<close>, \<open>Launch_Laws\<close>: the row read, the insert of a launch, its identity writes, adoption,
    release and held end (\<open>spawns.go\<close>), resume's move and its restore (\<open>resume_writes.go\<close>).
  \<^item> \<open>Find_Missing\<close>: the sweep's marks, notes, adoption and repair (\<open>find_missing_writes.go\<close>).
  \<^item> \<open>Reuse\<close>, \<open>Reuse_Laws\<close>: reuse's reset and restore, expiry and the admin delete (\<open>reuse.go\<close>,
    \<open>expire.go\<close>, \<open>recovery.go\<close>).
  \<^item> \<open>Subagents\<close>, \<open>Subagent_Laws\<close>, \<open>Subagent_Events\<close>: the records of a row's subagents, their starts, stops,
    turn ends, liveness touches and eviction (\<open>subagents.go\<close>, \<open>subagent_writes.go\<close>,
    \<open>subagent_hook_writes.go\<close>), and the state machine they follow.
  \<^item> \<open>Transcripts\<close>: archived sessions, transcripts not recorded yet and the heal that records them
    (\<open>session_history.go\<close>).
  \<^item> \<open>Cursor_Runtimes\<close>, \<open>Cursor_Requests\<close>, \<open>Cursor_Laws\<close>, \<open>Cursor_Rules\<close>: the binding of a Cursor gateway to a
    launch, the marks of a runtime that is gone, the gateway's requests, acks, claims and proofs, the
    admission of a prompt and the rotation to a new conversation (\<open>cursor_runtime.go\<close>,
    \<open>cursor_missing_read.go\<close>, \<open>cursor_permission.go\<close>, \<open>cursor_prompt.go\<close>, \<open>cursor_rotation.go\<close>), and what they
    keep and promise.
  \<^item> \<open>Life_Cycle\<close>, \<open>Finality\<close>, \<open>Store_Runs\<close> and this theory: what all calls keep, alone and in every
    interleaving.
  \<^item> \<open>Payloads\<close>: a hook's payload as a JSON tree, the three classification tables, the subagent events
    it carries and the decision envelope (\<open>io.go\<close>, \<open>classify.go\<close>, \<open>subagent.go\<close>, \<open>envelope.go\<close>).
  \<^item> \<open>Relay_Hook\<close>: the relay hook as a process in a world with a clock, other processes and failing
    calls: the polling loop, the first write, the ack and the timeout deny (\<open>gate.go\<close>, \<open>polling.go\<close>,
    \<open>permission.go\<close>).
  \<^item> \<open>Context_Source\<close>, \<open>Claude_Capacity\<close>, \<open>Capacity_Hook\<close>, \<open>Capacity_Laws\<close>: the newest usage of a Claude
    transcript (\<open>internal/contextsource\<close>), a row's context evidence and recorded capacity with the listing of
    subagents (\<open>claude_capacity.go\<close>, \<open>subagent_read.go\<close>), the callback that records it
    (\<open>internal/hook/claude_capacity.go\<close>) and their laws.
  \<^item> \<open>Hook_Handler\<close>, \<open>Handler_Laws\<close>, \<open>Foreign_Hooks\<close>: the hook verb from its standard input to the trail
    (\<open>handler.go\<close>): classification, the writes before and after a hook's own, SessionStart's wait, the
    Cursor gateway's reports; what it prints, that it ends, and that a foreign process changes nothing.
  \<^item> \<open>Tmux_Calls\<close>, \<open>Tmux_Lookup\<close>, \<open>Tmux_Laws\<close>: what is asked of the tmux binary and how its answers are
    parsed (\<open>internal/tmux\<close>: \<open>calls.go\<close>, \<open>invoke.go\<close>, \<open>calls_socket.go\<close>, \<open>create.go\<close>, \<open>parse.go\<close>), the verdict
    on a row's session, the judgement of recorded processes and the starting-session rule (\<open>lookup.go\<close> and
    the files around it), and their laws: a label counts exactly as it was written, a verdict names the
    row's own launch, a listing reads back.
  \<^item> \<open>Tmux_Sweep\<close>, \<open>Missing_Run\<close>, \<open>Missing_Laws\<close>, \<open>Missing_Result\<close>: the find-missing verb
    (\<open>src/pkg/api\<close>: \<open>find_missing.go\<close>, \<open>find_missing_lookup.go\<close>, \<open>find_missing_writes.go\<close>, \<open>agent_pane.go\<close> and the
    helpers they call; \<open>internal/tmux/sweep.go\<close>) as a process in the world of the relay hook: one lookup and
    at most one pane listing per server within a time budget, the verdict on each live row, its mark, note or
    adoption, the transcript heal and the result; and what it promises.
  \<^item> \<open>Relay_Delivery\<close>, \<open>Send_Guard\<close>: what a reader derives from a row's requests and their relay hooks
    (\<open>src/pkg/api\<close>: \<open>relay_delivery.go\<close>, \<open>deliverability.go\<close>, \<open>get_permission.go\<close>, \<open>find_missing_repair.go\<close>), and when
    keys may be sent or a pane claim recorded on account of them (\<open>sendkeys_relay.go\<close>, the checks of
    \<open>record_pane_answer.go\<close> and \<open>decide.go\<close>), with lemmas that plain keys need every dialog gone, that keys for a
    request answer one that fell back, and that a refusal as too soon names a time that works.

  \<^bold>\<open>What is shown.\<close> Per component: the reported state is the newest raw state that held for the settle
  time, over any history of writes; the family state is the closure over descendants; the Go and SQL
  readings of a request agree; the narrow reads accept exactly the documented values and the grace
  test is exact; each hook write, verdict, pane, launch, sweep, reuse and expiry call does what its
  branch promises, on errors and stale snapshots too; a failed resume and a failed reuse give the old
  life back; the ended transition and the terminal marks close requests and subagent records with
  the row. Across components: \<open>store_step\<close> is one call of any of these by any process, and along its
  runs delivered verdicts, completed pane answers, closes and proofs never change (\<open>verdicts_are_final\<close>)
  and every reachable database is consistent (\<open>reachable_store_ok\<close>); subagent records stay unique,
  well formed and on rows that exist along the same runs (\<open>subagent_records_stay_consistent\<close>).
  A Cursor gateway without the authority of the current connection changes nothing, acknowledges an
  allow only in time, and rotates a conversation whole or not at all.
  Of the relay hook: its poll ends by its deadline, it writes only what it has acknowledged, and in a
  calm system its agent always gets an answer. Of the hook verb: it ends on a clock that moves
  forward and hands exactly one \<open>ad.hook.fired\<close> to the trail, its last event, it
  prints only verdicts of requests it recorded, SessionStart waits within its cap, and a hook of a process
  the row's pane did not launch, a Cursor gateway's included, keeps whatever the other processes keep of the
  tables, whichever statements fail. Of the context evidence: the usage is the newest
  response's, the capacity write is a compare-and-set, and a rejected response stays rejected. Of the
  find-missing verb: it asks each server at most twice and within its budget, it marks a row missing only on
  evidence, read in that run at the row's own judgement, of its agent's end, it keeps the store consistent and verdicts final, and it reports exactly the
  rows it marked.

  \<^bold>\<open>Interfaces.\<close> The locale \<open>conditional_write\<close> is the contract of the writes that pin a version or a
  snapshot (applied, changed or absent), interpreted on every such statement; \<open>hook_invariant\<close> and
  \<open>life_invariant\<close> say what an invariant needs for the hook and the life-cycle calls to keep it, and
  are interpreted on the row, hold, subagent and finality invariants; \<open>request_guarantee\<close> and
  \<open>entry_invariant\<close> say the same of the request calls and of the subagent calls, and \<open>cursor_invariant\<close>
  extends \<open>life_invariant\<close> to the Cursor calls. \<open>hook_actions\<close> is a relation between the world before and
  after an action of the hook verb, interpreted on the store's guarantee with the passing of time and on the
  events handed to the trail. \<open>quiet_actions\<close>, \<open>note_actions\<close> and \<open>verb_actions\<close> are
  relations between the world before and after an action of the sweep that each of its actions satisfies,
  interpreted on the passing of time and on the store's guarantee; \<open>row_invariant\<close> is the part of a store
  invariant a sweep's writes need.

  \<^bold>\<open>Bounds.\<close> The recursive query runs \<open>working_rounds\<close> rounds, the number of rows; a round that adds
  no row ends it, so this many reach the fixed point, which \<open>familyAggregate_is_descendant_closure\<close>
  proves. The polling loop is a partial function of the world, with no fuel: \<open>poll_returns_by_deadline\<close>
  proves that it returns. No other definition has fuel.

  \<^bold>\<open>Not modelled.\<close> Emitting is fail-open: the trail of a database lists the events handed to \<open>trail.Emit\<close>, and
  whether the log file took one is not modelled. The world has one clock for SessionStart's wait, where Go reads
  its wall clock for the grace bound and the monotonic reading of the same instants for the cap: a step of the
  wall clock during that wait is not expressible. A failed COMMIT of a lifecycle transaction is rolled back, as
  \<open>inImmediateTx\<close> does; that SQLite committed nevertheless is modelled for \<open>inWriteTx\<close> only, whose callers are
  told so. Opening the file, migrations, the connector and context cancellation (driver code
  around SQLite); the planner of display observations; the list
  and status projections; and the layers above the store other than the hook verb, the find-missing
  verb and the tmux client's lookup (running tmux, which socket the caller's environment names, log lines, the launcher, Cursor host, public verbs, command line), of which only what the resume verb keeps for its
  restore is here.
\<close>

section \<open>Runs of the store\<close>

text \<open>
  C2. Every state a run of the store reaches is consistent: instance ids and request ids are
  unique, a row a request holds is not working, a delivered or closed request is decided, and a
  delivered verdict has no pane answer beside it.
\<close>

theorem reachable_store_ok:
  assumes "others_honour store_guarantee s" and "store_ok d" and "(store_step s)\<^sup>*\<^sup>* d d'"
  shows "store_ok d'"
  using run_guarantee[OF assms(3,1)] assms(2) by (simp add: store_guarantee_def)

theorem reachable_store_ok_witness:
  "store_ok (snd (AckRelayDecision sample_store ''a'' ''k'' 1 None (snd (DecideRelayRequest sample_store ''a'' ''k'' ''allow'' [] ''decide'' 0 sample_db))))"
proof -
  have o: "others_honour store_guarantee sample_store"
    by (simp add: others_honour_def sample_store_def store.G_refl)
  have "(store_step sample_store)\<^sup>*\<^sup>* sample_db
      (snd (AckRelayDecision sample_store ''a'' ''k'' 1 None (snd (DecideRelayRequest sample_store ''a'' ''k'' ''allow'' [] ''decide'' 0 sample_db))))"
    by (meson converse_rtranclp_into_rtranclp r_into_rtranclp store_step.decide store_step.relay_ack)
  from reachable_store_ok[OF o sample_store_ok this] show ?thesis .
qed

text \<open>
  C1. Verdicts are final along every run, whatever the processes do and however their calls
  interleave: a delivered verdict, a completed pane answer and its verdict, a closed
  request's verdict and a recorded proof never change while the request is stored (a pane answer
  recorded without a verdict may still be given one).
\<close>

theorem verdicts_are_final:
  assumes "others_honour store_guarantee s" and "store_ok d" and "(store_step s)\<^sup>*\<^sup>* d d'"
    and "p \<in> set (permission_requests d)" and "q \<in> set (permission_requests d')" and "pr_request_id q = pr_request_id p"
  shows "(pr_delivered_at p \<noteq> None \<longrightarrow> pr_delivered_at q = pr_delivered_at p \<and> pr_decision q = pr_decision p \<and> pr_pane_answer q = PaneAnswerNone)
     \<and> (PaneAnswered (scanPermissionRow p) \<longrightarrow> pr_pane_answer q = pr_pane_answer p \<and> (pr_decision p \<noteq> None \<longrightarrow> pr_decision q = pr_decision p))
     \<and> (pr_closed_at p \<noteq> None \<longrightarrow> pr_closed_at q = pr_closed_at p \<and> pr_decision q = pr_decision p)
     \<and> (pr_proven_gone_at p \<noteq> None \<longrightarrow> pr_proven_gone_at q = pr_proven_gone_at p \<and> pr_proven_gone_how q = pr_proven_gone_how p)"
proof -
  have g: "requests_ok d" "evolves d d'"
    using run_guarantee[OF assms(3,1)] assms(2) by (simp_all add: store_guarantee_def store_ok_def)
  have "final_step p q" by (rule evolves_final[OF g assms(4-6)])
  moreover have "req_ok p" using g(1) assms(4) by (simp add: requests_ok_def list_all_iff)
  moreover have "PaneAnswered (scanPermissionRow p) = pane_answered p"
    by (auto simp: PaneAnswered_def pane_answered_def scanPermissionRow_def)
  ultimately show ?thesis by (auto simp: final_step_def req_ok_def)
qed

theorem verdicts_are_final_witness:
  "list_all (\<lambda>q. pr_decision q = Some ''deny'') (permission_requests (snd (DecideRelayRequest sample_store ''a'' ''k'' ''allow'' [] ''decide'' 0
        (sample_db\<lparr>permission_requests := [sample_request\<lparr>pr_decision := Some ''deny'', pr_delivered_at := Some 8\<rparr>]\<rparr>))))"
  unfolding list_all_iff
proof
  let ?p = "sample_request\<lparr>pr_decision := Some ''deny'', pr_delivered_at := Some 8\<rparr>"
  let ?d = "sample_db\<lparr>permission_requests := [?p]\<rparr>"
  let ?d1 = "snd (DecideRelayRequest sample_store ''a'' ''k'' ''allow'' [] ''decide'' 0 ?d)"
  fix q assume q: "q \<in> set (permission_requests ?d1)"
  have o: "others_honour store_guarantee sample_store"
    by (simp add: others_honour_def sample_store_def store.G_refl)
  have ok: "store_ok ?d"
    by (simp add: store_ok_def requests_ok_def rows_ok_def held_not_working_def sample_db_def sample_row_def sample_request_def
        req_ok_def IsLiveState_iff)
  have run: "(store_step sample_store)\<^sup>*\<^sup>* ?d ?d1"
    by (rule r_into_rtranclp) (rule store_step.decide)
  have "pr_request_id q = pr_request_id ?p"
    using q by (simp add: DecideRelayRequest_def inWriteTx_def decideTx_def tx_bind_def tx_exec_def update_requests_def decideMatch_def
        sample_store_def sample_request_def)
  from verdicts_are_final[OF o ok run _ q this] show "pr_decision q = Some ''deny''" by simp
qed

section \<open>Subagent records along a run\<close>

text \<open>
  C3. Along every run of the store, in any interleaving of all its calls, the subagent records stay
  consistent: every entry has a proper state with the close reason and times that go with it, no
  entry and no claimable launch is recorded twice, neither table exceeds its cap, and an entry that is
  still there has kept its identity, its session, its confirmation and the first values recorded.
\<close>

theorem subagent_records_stay_consistent:
  assumes "others_honour (sub_guarantee EntryAny) s" and "subagents_ok d" and "(store_step s)\<^sup>*\<^sup>* d d'"
  shows "subagents_ok d' \<and> entries_evolve EntryAny d d'"
proof -
  have "sub_guarantee EntryAny d d'"
    using assms(3) by (induction rule: rtranclp_induct) (auto intro: subs.G_refl subs.G_trans step_entries[OF _ assms(1)])
  with assms(2) show ?thesis by (simp add: sub_guarantee_def)
qed

theorem subagent_records_stay_consistent_witness:
  "subagents_ok (snd (MarkMissingIfSameLife sample_store ''a'' (lifeSnapshot sample_row)
      (snd (ApplySubagentLifecycle sample_store ''a'' sample_gate sample_start ''SubagentStart'' [] False sample_tracked))))"
proof -
  have o: "others_honour (sub_guarantee EntryAny) sample_store"
    by (simp add: others_honour_def sample_store_def subs.G_refl)
  have "(store_step sample_store)\<^sup>*\<^sup>* sample_tracked (snd (MarkMissingIfSameLife sample_store ''a'' (lifeSnapshot sample_row)
      (snd (ApplySubagentLifecycle sample_store ''a'' sample_gate sample_start ''SubagentStart'' [] False sample_tracked))))"
    by (meson converse_rtranclp_into_rtranclp r_into_rtranclp store_step.subagent_event store_step.mark_missing)
  from subagent_records_stay_consistent[OF o sample_tracked_facts(4) this] show ?thesis by blast
qed

end
